(* ===== verification/Prelude.thy ===== *)
theory Prelude
  imports Main "HOL-Library.Word" "HOL-Library.AList" "HOL-Library.Sublist"
    "HOL-Library.Char_ord" "HOL-Library.List_Lexorder" "HOL-Library.Monad_Syntax"
begin

text \<open>
  Shared vocabulary of the development: the result type of fallible operations and its
  sequencing operator \<open>rbind\<close> (Rust's \<open>?\<close>), the fixed-width integers the sources use,
  association-list facts for directory listings and JSON objects, and the byte-level string
  functions of Rust's \<open>str\<close> that the code relies on. A Rust \<open>String\<close> is the list of its
  UTF-8 bytes (Isabelle's \<open>string\<close>), so \<open>length\<close> is \<open>len()\<close>.
\<close>

named_theorems res_simps \<open>rewriting of sequenced fallible operations\<close>
named_theorems io_simps \<open>outcomes of sequenced operations on the run directory\<close>
named_theorems store_simps \<open>reads after writes of the run directory\<close>
named_theorems reducer_defs \<open>definitions of the per-kind reducers\<close>

type_synonym u8 = "8 word"
type_synonym u32 = "32 word"
type_synonym u64 = "64 word"
type_synonym time = int  \<comment> \<open>\<open>DateTime<Utc>\<close>: nanoseconds since the epoch\<close>
type_synonym bytes = string

section \<open>Fallible operations\<close>

fun rbind :: "'e + 'a \<Rightarrow> ('a \<Rightarrow> 'e + 'b) \<Rightarrow> 'e + 'b" where
  "rbind (Inl e) f = Inl e"
| "rbind (Inr x) f = f x"

definition ok_or :: "'e \<Rightarrow> 'a option \<Rightarrow> 'e + 'a" where
  "ok_or e x = (case x of None \<Rightarrow> Inl e | Some a \<Rightarrow> Inr a)"

definition ensure :: "bool \<Rightarrow> 'e \<Rightarrow> 'e + unit" where
  "ensure b e = (if b then Inr () else Inl e)"

fun for_each :: "('a \<Rightarrow> 'e + unit) \<Rightarrow> 'a list \<Rightarrow> 'e + unit" where
  "for_each f [] = Inr ()"
| "for_each f (x # xs) = rbind (f x) (\<lambda>_. for_each f xs)"

lemma rbind_Inr_iff [res_simps]:
  "rbind m f = Inr y \<longleftrightarrow> (\<exists>x. m = Inr x \<and> f x = Inr y)"
  by (cases m) auto

lemma rbind_Inl_iff [res_simps]:
  "rbind m f = Inl e \<longleftrightarrow> m = Inl e \<or> (\<exists>x. m = Inr x \<and> f x = Inl e)"
  by (cases m) auto

lemma rbind_split:
  "P (rbind m f) \<longleftrightarrow> (\<forall>e. m = Inl e \<longrightarrow> P (Inl e)) \<and> (\<forall>x. m = Inr x \<longrightarrow> P (f x))"
  by (cases m) auto

lemma rbind_assoc: "rbind (rbind m f) g = rbind m (\<lambda>x. rbind (f x) g)"
  by (cases m) auto

lemma rbind_cong [fundef_cong]:
  "m = m' \<Longrightarrow> (\<And>x. m' = Inr x \<Longrightarrow> f x = f' x) \<Longrightarrow> rbind m f = rbind m' f'"
  by (cases m') auto

lemma ok_or_Inr [res_simps]: "ok_or e x = Inr a \<longleftrightarrow> x = Some a"
  by (cases x) (auto simp: ok_or_def)

lemma ok_or_Inl [res_simps]: "ok_or e x = Inl e' \<longleftrightarrow> x = None \<and> e' = e"
  by (cases x) (auto simp: ok_or_def)

lemma ensure_Inr [res_simps]: "ensure b e = Inr u \<longleftrightarrow> b"
  by (simp add: ensure_def)

lemma ensure_Inl [res_simps]: "ensure b e = Inl e' \<longleftrightarrow> \<not> b \<and> e' = e"
  by (auto simp: ensure_def)

lemma if_Inl_Inr [res_simps]: "(if b then Inl e else x) = Inr y \<longleftrightarrow> \<not> b \<and> x = Inr y"
  by simp

lemma for_each_Inr: "for_each f xs = Inr u \<longleftrightarrow> (\<forall>x\<in>set xs. f x = Inr ())"
  by (induction xs) (auto simp: res_simps)

lemma for_each_map: "for_each f (map g xs) = for_each (f \<circ> g) xs"
  by (induction xs) auto

section \<open>Integer conversions\<close>

definition try_u32 :: "u64 \<Rightarrow> u32 option" where
  "try_u32 w = (if unat w < 2 ^ 32 then Some (ucast w) else None)"

definition as_u32 :: "u64 \<Rightarrow> u32" where
  "as_u32 w = ucast w"

definition saturating_add :: "'a::len word \<Rightarrow> 'a word \<Rightarrow> 'a word" where
  "saturating_add a b = (if unat a + unat b < 2 ^ LENGTH('a) then a + b else - 1)"

definition checked_add :: "'a::len word \<Rightarrow> 'a word \<Rightarrow> 'a word option" where
  "checked_add a b = (if unat a + unat b < 2 ^ LENGTH('a) then Some (a + b) else None)"

definition try_i32 :: "int \<Rightarrow> int option" where
  "try_i32 i = (if - (2 ^ 31) \<le> i \<and> i < 2 ^ 31 then Some i else None)"

lemma try_u32_Some: "try_u32 w = Some a \<Longrightarrow> unat a = unat w"
  by (auto simp: try_u32_def unsigned_ucast_eq take_bit_nat_eq_self split: if_splits)

lemma word_Suc_unat: "(w :: u64) \<noteq> - 1 \<Longrightarrow> unat (w + 1) = Suc (unat w)"
  by (metis unatSuc add.commute neg_eq_iff_add_eq_0 add.right_inverse)

lemma word_less_add_one: "(w :: u64) \<noteq> - 1 \<Longrightarrow> w < w + 1"
  by (simp add: word_less_nat_alt word_Suc_unat)

section \<open>Byte strings\<close>

definition is_ascii_digit :: "char \<Rightarrow> bool" where
  "is_ascii_digit c \<longleftrightarrow> CHR ''0'' \<le> c \<and> c \<le> CHR ''9''"

definition is_ascii_lowercase :: "char \<Rightarrow> bool" where
  "is_ascii_lowercase c \<longleftrightarrow> CHR ''a'' \<le> c \<and> c \<le> CHR ''z''"

definition is_lower_hex :: "char \<Rightarrow> bool" where
  "is_lower_hex c \<longleftrightarrow> is_ascii_digit c \<or> (CHR ''a'' \<le> c \<and> c \<le> CHR ''f'')"

definition is_ascii_hexdigit :: "char \<Rightarrow> bool" where
  "is_ascii_hexdigit c \<longleftrightarrow> is_lower_hex c \<or> (CHR ''A'' \<le> c \<and> c \<le> CHR ''F'')"

text \<open>\<open>u8::is_ascii_whitespace\<close>: space, tab, line feed, form feed and carriage return.\<close>

definition is_ascii_whitespace :: "char \<Rightarrow> bool" where
  "is_ascii_whitespace c \<longleftrightarrow> c \<in> {CHR '' '', CHR 0x09, CHR 0x0A, CHR 0x0C, CHR 0x0D}"

text \<open>The UTF-8 encodings of the code points with the Unicode property \<open>White_Space\<close>,
  which is what \<open>str::trim\<close> strips.\<close>

definition white_space_utf8 :: "string list" where
  "white_space_utf8 =
     [[CHR 0x20], [CHR 0x09], [CHR 0x0A], [CHR 0x0B], [CHR 0x0C], [CHR 0x0D],
      [CHR 0xC2, CHR 0x85], [CHR 0xC2, CHR 0xA0], [CHR 0xE1, CHR 0x9A, CHR 0x80],
      [CHR 0xE2, CHR 0x80, CHR 0x80], [CHR 0xE2, CHR 0x80, CHR 0x81],
      [CHR 0xE2, CHR 0x80, CHR 0x82], [CHR 0xE2, CHR 0x80, CHR 0x83],
      [CHR 0xE2, CHR 0x80, CHR 0x84], [CHR 0xE2, CHR 0x80, CHR 0x85],
      [CHR 0xE2, CHR 0x80, CHR 0x86], [CHR 0xE2, CHR 0x80, CHR 0x87],
      [CHR 0xE2, CHR 0x80, CHR 0x88], [CHR 0xE2, CHR 0x80, CHR 0x89],
      [CHR 0xE2, CHR 0x80, CHR 0x8A], [CHR 0xE2, CHR 0x80, CHR 0xA8],
      [CHR 0xE2, CHR 0x80, CHR 0xA9], [CHR 0xE2, CHR 0x80, CHR 0xAF],
      [CHR 0xE2, CHR 0x81, CHR 0x9F], [CHR 0xE3, CHR 0x80, CHR 0x80]]"

text \<open>Drop, as long as possible, a leading member of a list of non-empty patterns.\<close>

function strip_leading :: "string list \<Rightarrow> string \<Rightarrow> string" where
  "strip_leading ws s =
     (case List.find (\<lambda>w. w \<noteq> [] \<and> prefix w s) ws of
        None \<Rightarrow> s
      | Some w \<Rightarrow> strip_leading ws (drop (length w) s))"
  by pat_completeness auto
termination
proof (relation "measure (\<lambda>(ws, s). length s)", goal_cases)
  case (2 ws s w)
  then have "w \<noteq> []" and "prefix w s" by (auto simp: find_Some_iff)
  then show ?case by (cases s) (auto dest: prefix_length_le)
qed simp

declare strip_leading.simps [simp del]

definition trim_start :: "string \<Rightarrow> string" where
  "trim_start = strip_leading white_space_utf8"

definition trim_end :: "string \<Rightarrow> string" where
  "trim_end s = rev (strip_leading (map rev white_space_utf8) (rev s))"

definition trim :: "string \<Rightarrow> string" where
  "trim s = trim_end (trim_start s)"

text \<open>\<open>chars().count()\<close> of a valid UTF-8 string: the bytes that do not continue a sequence.\<close>

definition chars_count :: "string \<Rightarrow> nat" where
  "chars_count s = length (filter (\<lambda>c. \<not> (CHR 0x80 \<le> c \<and> c \<le> CHR 0xBF)) s)"

fun contains_sub :: "string \<Rightarrow> string \<Rightarrow> bool" where
  "contains_sub p s = (prefix p s \<or> (case s of [] \<Rightarrow> False | _ # t \<Rightarrow> contains_sub p t))"

declare contains_sub.simps [simp del]

definition strip_prefix :: "string \<Rightarrow> string \<Rightarrow> string option" where
  "strip_prefix p s = (if prefix p s then Some (drop (length p) s) else None)"

lemma strip_prefix_Some: "strip_prefix p s = Some b \<longleftrightarrow> s = p @ b"
  by (auto simp: strip_prefix_def prefix_def)

lemma strip_leading_blank_iff:
  "strip_leading ws [] = []"
  by (subst strip_leading.simps) (auto split: option.split simp: find_Some_iff)

lemma trim_Nil [simp]: "trim [] = []"
  by (simp add: trim_def trim_start_def trim_end_def strip_leading_blank_iff)

section \<open>Association lists\<close>

lemma map_of_AList_update [store_simps]: "map_of (AList.update k v al) = (map_of al)(k \<mapsto> v)"
  by (simp add: AList.update_conv')

text \<open>Sorted insertion: the \<open>BTreeMap\<close> insertion behind \<open>serde_json::Map\<close>.\<close>

fun map_insert :: "'k::linorder \<Rightarrow> 'v \<Rightarrow> ('k \<times> 'v) list \<Rightarrow> ('k \<times> 'v) list" where
  "map_insert k v [] = [(k, v)]"
| "map_insert k v (p # ps) =
     (if k < fst p then (k, v) # p # ps
      else if k = fst p then (k, v) # ps
      else p # map_insert k v ps)"

definition map_remove :: "'k \<Rightarrow> ('k \<times> 'v) list \<Rightarrow> ('k \<times> 'v) list" where
  "map_remove k m = filter (\<lambda>p. fst p \<noteq> k) m"

abbreviation sorted_keys :: "('k::linorder \<times> 'v) list \<Rightarrow> bool" where
  "sorted_keys m \<equiv> sorted_wrt (<) (map fst m)"

lemma map_of_map_insert [simp]: "map_of (map_insert k v m) = (map_of m)(k \<mapsto> v)"
  by (induction m) auto

lemma map_of_map_remove [simp]: "map_of (map_remove k m) = (map_of m)(k := None)"
  by (induction m) (auto simp: map_remove_def)

lemma set_map_insert: "fst ` set (map_insert k v m) = insert k (fst ` set m)"
  by (induction m) auto

lemma sorted_keys_insert: "sorted_keys m \<Longrightarrow> sorted_keys (map_insert k v m)"
proof (induction m)
  case (Cons p m)
  have keys: "fst ` set (map_insert k v m) = insert k (fst ` set m)"
    by (rule set_map_insert)
  show ?case
  proof (cases "k < fst p \<or> k = fst p")
    case True
    with Cons.prems show ?thesis by fastforce
  next
    case False
    with Cons keys show ?thesis by (auto simp: image_iff not_less dest: order_le_less_trans)
  qed
qed simp

lemma sorted_keys_remove: "sorted_keys m \<Longrightarrow> sorted_keys (map_remove k m)"
  by (induction m) (auto simp: map_remove_def)

lemma map_insert_same: "sorted_keys m \<Longrightarrow> map_of m k = Some v \<Longrightarrow> map_insert k v m = m"
proof (induction m)
  case (Cons p m)
  show ?case
  proof (cases "k = fst p")
    case True
    with Cons.prems show ?thesis by (cases p) auto
  next
    case False
    with Cons.prems have *: "map_of m k = Some v" by (cases p) auto
    then have "(k, v) \<in> set m" by (rule map_of_SomeD)
    with Cons.prems have "fst p < k" by auto
    with Cons False * show ?thesis by auto
  qed
qed simp

end
