(* ===== verification/Json.thy ===== *)
theory Json
  imports Prelude Complex_Main
begin

text \<open>
  JSON values as \<open>serde_json::Value\<close> holds them, and the decoding rules \<open>serde\<close> derives for
  the structs and enums of the repository. An object is the list of its entries in key order
  (\<open>serde_json::Map\<close> is a \<open>BTreeMap\<close>). A decoder returns \<open>None\<close> where serde reports an
  error; every caller in the sources maps that error to one fixed variant, so its text is
  not kept. A number is a non-negative \<open>u64\<close>, a negative \<open>i64\<close> or a finite float; two
  floats are equal exactly when the rationals they denote are.
\<close>

datatype number = PosInt u64 | NegInt int | Float rat

datatype json =
    Null
  | Bool bool
  | Number number
  | String string
  | Array "json list"
  | Object "(string \<times> json) list"

text \<open>The values serde_json can hold: sorted keys, a negative \<open>i64\<close> under \<open>NegInt\<close>.\<close>

fun wf_json :: "json \<Rightarrow> bool" where
  "wf_json (Number (NegInt i)) \<longleftrightarrow> - (2 ^ 63) \<le> i \<and> i < 0"
| "wf_json (Array xs) \<longleftrightarrow> (\<forall>v\<in>set xs. wf_json v)"
| "wf_json (Object m) \<longleftrightarrow> sorted_keys m \<and> (\<forall>p\<in>set m. wf_json (snd p))"
| "wf_json _ \<longleftrightarrow> True"

section \<open>Accessors of \<open>serde_json::Value\<close>\<close>

definition get :: "json \<Rightarrow> string \<Rightarrow> json option" where
  "get v k = (case v of Object m \<Rightarrow> map_of m k | _ \<Rightarrow> None)"

fun as_str :: "json \<Rightarrow> string option" where
  "as_str (String s) = Some s"
| "as_str _ = None"

fun as_bool :: "json \<Rightarrow> bool option" where
  "as_bool (Bool b) = Some b"
| "as_bool _ = None"

fun as_u64 :: "json \<Rightarrow> u64 option" where
  "as_u64 (Number (PosInt n)) = Some n"
| "as_u64 _ = None"

fun as_i64 :: "json \<Rightarrow> int option" where
  "as_i64 (Number (PosInt n)) = (if uint n < 2 ^ 63 then Some (uint n) else None)"
| "as_i64 (Number (NegInt i)) = Some i"
| "as_i64 _ = None"

fun as_array :: "json \<Rightarrow> json list option" where
  "as_array (Array xs) = Some xs"
| "as_array _ = None"

fun as_object :: "json \<Rightarrow> (string \<times> json) list option" where
  "as_object (Object m) = Some m"
| "as_object _ = None"

definition is_string :: "json \<Rightarrow> bool" where
  "is_string v \<longleftrightarrow> as_str v \<noteq> None"

definition is_boolean :: "json \<Rightarrow> bool" where
  "is_boolean v \<longleftrightarrow> as_bool v \<noteq> None"

text \<open>The chains \<open>d.get(k).and_then(Value::as_str)\<close> and its relatives.\<close>

definition get_str :: "json \<Rightarrow> string \<Rightarrow> string option" where
  "get_str d k = Option.bind (get d k) as_str"

definition get_u64 :: "json \<Rightarrow> string \<Rightarrow> u64 option" where
  "get_u64 d k = Option.bind (get d k) as_u64"

definition get_bool :: "json \<Rightarrow> string \<Rightarrow> bool option" where
  "get_bool d k = Option.bind (get d k) as_bool"

definition filter_opt :: "('a \<Rightarrow> bool) \<Rightarrow> 'a option \<Rightarrow> 'a option" where
  "filter_opt P x = (case x of None \<Rightarrow> None | Some a \<Rightarrow> if P a then Some a else None)"

lemma filter_opt_Some: "filter_opt P x = Some a \<longleftrightarrow> x = Some a \<and> P a"
  by (cases x) (auto simp: filter_opt_def)

lemma filter_opt_None: "filter_opt P x = None \<longleftrightarrow> (\<forall>a. x = Some a \<longrightarrow> \<not> P a)"
  by (cases x) (auto simp: filter_opt_def)

lemma get_Object [simp]: "get (Object m) k = map_of m k"
  by (simp add: get_def)

section \<open>Derived decoders\<close>

definition de_string :: "json \<Rightarrow> string option" where
  "de_string = as_str"

definition de_bool :: "json \<Rightarrow> bool option" where
  "de_bool = as_bool"

definition de_u64 :: "json \<Rightarrow> u64 option" where
  "de_u64 = as_u64"

definition de_u32 :: "json \<Rightarrow> u32 option" where
  "de_u32 v = Option.bind (as_u64 v) try_u32"

definition de_u8 :: "json \<Rightarrow> u8 option" where
  "de_u8 v = Option.bind (as_u64 v) (\<lambda>w. if unat w < 256 then Some (ucast w) else None)"

definition de_i32 :: "json \<Rightarrow> int option" where
  "de_i32 v = Option.bind (as_i64 v) try_i32"

text \<open>\<open>Option<T>\<close>: \<open>null\<close> is \<open>None\<close>.\<close>

definition de_option :: "(json \<Rightarrow> 'a option) \<Rightarrow> json \<Rightarrow> 'a option option" where
  "de_option f v = (if v = Null then Some None else map_option Some (f v))"

fun de_list :: "(json \<Rightarrow> 'a option) \<Rightarrow> json list \<Rightarrow> 'a list option" where
  "de_list f [] = Some []"
| "de_list f (v # vs) = Option.bind (f v) (\<lambda>x. map_option ((#) x) (de_list f vs))"

definition de_vec :: "(json \<Rightarrow> 'a option) \<Rightarrow> json \<Rightarrow> 'a list option" where
  "de_vec f v = Option.bind (as_array v) (de_list f)"

text \<open>
  A variant of an enum without payloads: its name as a string, or the one-entry object
  \<open>{name: null}\<close> that serde also accepts.
\<close>

definition enum_variant :: "json \<Rightarrow> string option" where
  "enum_variant v = (case v of
       String s \<Rightarrow> Some s
     | Object [(k, Null)] \<Rightarrow> Some k
     | _ \<Rightarrow> None)"

text \<open>
  The fields of a struct: of an object by name, of an array by position. The flag of a
  declared field says whether it carries \<open>#[serde(default)]\<close>; an array may be shorter than
  the field list only by fields that do, and never longer.
\<close>

definition struct_fields :: "(string \<times> bool) list \<Rightarrow> json \<Rightarrow> (string \<Rightarrow> json option) option" where
  "struct_fields fs v = (case v of
       Object m \<Rightarrow> Some (map_of m)
     | Array xs \<Rightarrow>
         if length xs \<le> length fs \<and> list_all snd (drop (length xs) fs)
         then Some (map_of (zip (map fst fs) xs)) else None
     | _ \<Rightarrow> None)"

definition req :: "(json \<Rightarrow> 'a option) \<Rightarrow> (string \<Rightarrow> json option) \<Rightarrow> string \<Rightarrow> 'a option" where
  "req f g k = Option.bind (g k) f"

definition optional :: "(json \<Rightarrow> 'a option) \<Rightarrow> (string \<Rightarrow> json option) \<Rightarrow> string \<Rightarrow> 'a option option" where
  "optional f g k = (case g k of None \<Rightarrow> Some None | Some v \<Rightarrow> de_option f v)"

definition defaulted :: "'a \<Rightarrow> (json \<Rightarrow> 'a option) \<Rightarrow> (string \<Rightarrow> json option) \<Rightarrow> string \<Rightarrow> 'a option" where
  "defaulted d f g k = (case g k of None \<Rightarrow> Some d | Some v \<Rightarrow> f v)"

section \<open>External functions\<close>

text \<open>
  The values whose text is read back exactly: no floats (serde_json parses them exactly only
  with its \<open>float_roundtrip\<close> feature, which the workspace does not enable), and arrays and
  objects nested at most \<open>k\<close> deep; the reader refuses documents nested 128 deep.
\<close>

fun exact_json :: "nat \<Rightarrow> json \<Rightarrow> bool" where
  "exact_json k (Number (Float q)) \<longleftrightarrow> False"
| "exact_json k (Array xs) \<longleftrightarrow> (case k of 0 \<Rightarrow> False | Suc j \<Rightarrow> \<forall>v\<in>set xs. exact_json j v)"
| "exact_json k (Object m) \<longleftrightarrow> (case k of 0 \<Rightarrow> False | Suc j \<Rightarrow> \<forall>p\<in>set m. exact_json j (snd p))"
| "exact_json k _ \<longleftrightarrow> True"

definition MAX_DEPTH :: nat where
  "MAX_DEPTH = 127"

text \<open>
  What the sources call from third-party crates and the environment: chrono's two timestamp
  parsers and its serializer, and serde_json's text reader and writer. They are parameters of
  the model; \<open>ext_ok\<close> names what the code relies on of them.
\<close>

record ext =
  parse_from_rfc3339 :: "string \<Rightarrow> time option"
  de_datetime_str :: "string \<Rightarrow> time option"
  ser_datetime :: "time \<Rightarrow> string"
  json_from_slice :: "bytes \<Rightarrow> json option"
  json_to_vec :: "json \<Rightarrow> bytes"

definition de_datetime :: "ext \<Rightarrow> json \<Rightarrow> time option" where
  "de_datetime X v = Option.bind (as_str v) (de_datetime_str X)"

text \<open>
  The documented contract: timestamps and exact JSON documents read back as written, and the
  compact writer never emits a line feed (control characters are escaped) nor a blank document, and
  its first and last bytes are not white space.
\<close>

definition ext_ok :: "ext \<Rightarrow> bool" where
  "ext_ok X \<longleftrightarrow>
     (\<forall>t. de_datetime_str X (ser_datetime X t) = Some t) \<and>
     (\<forall>v. wf_json v \<and> exact_json MAX_DEPTH v \<longrightarrow> json_from_slice X (json_to_vec X v) = Some v) \<and>
     (\<forall>v. CHR 0x0A \<notin> set (json_to_vec X v) \<and> CHR 0x0D \<notin> set (json_to_vec X v)) \<and>
     (\<forall>v. \<exists>c\<in>set (json_to_vec X v). \<not> is_ascii_whitespace c)"

lemma ext_ok_time: "ext_ok X \<Longrightarrow> de_datetime_str X (ser_datetime X t) = Some t"
  by (simp add: ext_ok_def)

lemma ext_ok_json:
  "ext_ok X \<Longrightarrow> wf_json v \<Longrightarrow> exact_json MAX_DEPTH v \<Longrightarrow> json_from_slice X (json_to_vec X v) = Some v"
  by (simp add: ext_ok_def)

lemma ext_ok_no_newline:
  "ext_ok X \<Longrightarrow> CHR 0x0A \<notin> set (json_to_vec X v) \<and> CHR 0x0D \<notin> set (json_to_vec X v)"
  by (simp add: ext_ok_def)

lemma ext_ok_visible: "ext_ok X \<Longrightarrow> \<exists>c\<in>set (json_to_vec X v). \<not> is_ascii_whitespace c"
  by (simp add: ext_ok_def)

end
