(* ===== verification/Fixtures.thy ===== *)
theory Fixtures
  imports Json
begin

text \<open>
  A concrete instance of the external functions, with which the theorems that assume \<open>ext_ok\<close>
  are exercised on concrete runs: a self-delimiting text codec for JSON values over printable
  characters, and timestamps as binary numbers.
\<close>

section \<open>Numbers and strings\<close>

fun enc_nat :: "nat \<Rightarrow> string" where
  "enc_nat n = (if n = 0 then ''.'' else (if even n then CHR ''0'' else CHR ''1'') # enc_nat (n div 2))"

declare enc_nat.simps [simp del]

fun dec_nat :: "string \<Rightarrow> (nat \<times> string) option" where
  "dec_nat [] = None"
| "dec_nat (c # cs) =
     (if c = CHR ''0'' then map_option (apfst (\<lambda>n. 2 * n)) (dec_nat cs)
      else if c = CHR ''1'' then map_option (apfst (\<lambda>n. 2 * n + 1)) (dec_nat cs)
      else if c = CHR ''.'' then Some (0, cs) else None)"

definition enc_int :: "int \<Rightarrow> string" where
  "enc_int i = (if i < 0 then CHR ''-'' else CHR ''+'') # enc_nat (nat \<bar>i\<bar>)"

definition dec_int :: "string \<Rightarrow> (int \<times> string) option" where
  "dec_int s = (case s of
       c # cs \<Rightarrow> map_option (apfst (\<lambda>n. if c = CHR ''-'' then - int n else int n)) (dec_nat cs)
     | [] \<Rightarrow> None)"

text \<open>A printable character stands for itself, any other is named by its code.\<close>

definition printable :: "char \<Rightarrow> bool" where
  "printable c \<longleftrightarrow> CHR ''!'' \<le> c \<and> c \<le> CHR ''~''"

definition enc_char :: "char \<Rightarrow> string" where
  "enc_char c = (if printable c then [CHR ''='', c] else CHR ''c'' # enc_nat (of_char c))"

definition enc_str :: "string \<Rightarrow> string" where
  "enc_str s = concat (map enc_char s) @ ''e''"

fun dec_str :: "nat \<Rightarrow> string \<Rightarrow> (string \<times> string) option" where
  "dec_str (Suc k) (c # cs) =
     (if c = CHR ''e'' then Some ([], cs)
      else if c = CHR ''='' then
        (case cs of [] \<Rightarrow> None | x # r \<Rightarrow> map_option (apfst ((#) x)) (dec_str k r))
      else case dec_nat cs of None \<Rightarrow> None
        | Some (n, r) \<Rightarrow> map_option (apfst ((#) (char_of n))) (dec_str k r))"
| "dec_str _ _ = None"

lemma dec_enc_nat [simp]: "dec_nat (enc_nat n @ r) = Some (n, r)"
proof (induction n rule: enc_nat.induct)
  case (1 n)
  then show ?case by (subst enc_nat.simps) (auto simp: apfst_def map_prod_def)
qed

lemma dec_enc_int [simp]: "dec_int (enc_int i @ r) = Some (i, r)"
  by (simp add: dec_int_def enc_int_def)

lemma dec_enc_str: "length s < k \<Longrightarrow> dec_str k (enc_str s @ r) = Some (s, r)"
proof (induction s arbitrary: k)
  case Nil
  then show ?case by (cases k) (simp_all add: enc_str_def)
next
  case (Cons c s)
  then obtain j where "k = Suc j" by (cases k) auto
  with Cons show ?case by (simp add: enc_str_def enc_char_def)
qed

lemma length_enc_str: "length s < length (enc_str s)"
  by (induction s) (simp_all add: enc_str_def enc_char_def)

section \<open>Values\<close>

fun enc_number :: "number \<Rightarrow> string" where
  "enc_number (PosInt w) = CHR ''p'' # enc_int (uint w)"
| "enc_number (NegInt i) = CHR ''m'' # enc_int i"
| "enc_number (Float q) = CHR ''q'' # enc_int (fst (quotient_of q)) @ enc_int (snd (quotient_of q))"

fun enc_json :: "json \<Rightarrow> string" where
  "enc_json Null = ''n''"
| "enc_json (Bool b) = (if b then ''t'' else ''f'')"
| "enc_json (Number x) = enc_number x"
| "enc_json (String s) = CHR ''s'' # enc_str s"
| "enc_json (Array xs) = CHR ''a'' # concat (map (\<lambda>v. CHR '','' # enc_json v) xs) @ ''e''"
| "enc_json (Object m) =
     CHR ''{'' # concat (map (\<lambda>p. CHR '','' # enc_str (fst p) @ enc_json (snd p)) m) @ ''e''"

fun dec_json :: "nat \<Rightarrow> string \<Rightarrow> (json \<times> string) option"
  and dec_values :: "nat \<Rightarrow> string \<Rightarrow> (json list \<times> string) option"
  and dec_entries :: "nat \<Rightarrow> string \<Rightarrow> ((string \<times> json) list \<times> string) option" where
  "dec_json (Suc k) (c # cs) =
     (if c = CHR ''n'' then Some (Null, cs)
      else if c = CHR ''t'' then Some (Bool True, cs)
      else if c = CHR ''f'' then Some (Bool False, cs)
      else if c = CHR ''p'' then map_option (apfst (\<lambda>i. Number (PosInt (word_of_int i)))) (dec_int cs)
      else if c = CHR ''m'' then map_option (apfst (\<lambda>i. Number (NegInt i))) (dec_int cs)
      else if c = CHR ''q'' then Option.bind (dec_int cs) (\<lambda>(a, r).
        map_option (apfst (\<lambda>b. Number (Float (Fract a b)))) (dec_int r))
      else if c = CHR ''s'' then map_option (apfst String) (dec_str k cs)
      else if c = CHR ''a'' then map_option (apfst Array) (dec_values k cs)
      else if c = CHR ''{'' then map_option (apfst Object) (dec_entries k cs)
      else None)"
| "dec_json _ _ = None"
| "dec_values (Suc k) (c # cs) =
     (if c = CHR ''e'' then Some ([], cs)
      else Option.bind (dec_json k cs) (\<lambda>(v, r). map_option (apfst ((#) v)) (dec_values k r)))"
| "dec_values _ _ = None"
| "dec_entries (Suc k) (c # cs) =
     (if c = CHR ''e'' then Some ([], cs)
      else Option.bind (dec_str k cs) (\<lambda>(key, q). Option.bind (dec_json k q) (\<lambda>(v, r).
        map_option (apfst ((#) (key, v))) (dec_entries k r))))"
| "dec_entries _ _ = None"

lemma dec_enc_number: "0 < k \<Longrightarrow> dec_json k (enc_number x @ r) = Some (Number x, r)"
proof (cases x)
  case (Float q)
  have "Fract (fst (quotient_of q)) (snd (quotient_of q)) = q"
    using quotient_of_div[of q] by (cases "quotient_of q") (simp add: Fract_of_int_quotient)
  moreover assume "0 < k"
  ultimately show ?thesis using Float by (cases k) simp_all
qed (cases k; simp)+

lemma dec_enc_json: "length (enc_json v) \<le> k \<Longrightarrow> dec_json k (enc_json v @ r) = Some (v, r)"
proof (induction v arbitrary: k r)
  case (Array xs)
  have "dec_values j (concat (map (\<lambda>v. CHR '','' # enc_json v) xs) @ CHR ''e'' # r) = Some (xs, r)"
    if "length (concat (map (\<lambda>v. CHR '','' # enc_json v) xs)) < j" for j
    using that Array.IH
  proof (induction xs arbitrary: j)
    case (Cons v vs)
    then obtain i where "j = Suc i" by (cases j) auto
    with Cons show ?case by simp
  qed (case_tac j; simp)
  moreover obtain j where "k = Suc j" using Array.prems by (cases k) auto
  ultimately show ?case using Array.prems by simp
next
  case (Object m)
  have "dec_entries j (concat (map (\<lambda>p. CHR '','' # enc_str (fst p) @ enc_json (snd p)) m) @ CHR ''e'' # r)
      = Some (m, r)"
    if "length (concat (map (\<lambda>p. CHR '','' # enc_str (fst p) @ enc_json (snd p)) m)) < j" for j
    using that Object.IH
  proof (induction m arbitrary: j)
    case (Cons p m)
    then obtain i where j: "j = Suc i" by (cases j) auto
    have "length (fst p) < i" using Cons.prems(1) length_enc_str[of "fst p"] j by simp
    moreover have "\<And>k r. length (enc_json (snd p)) \<le> k \<Longrightarrow>
        dec_json k (enc_json (snd p) @ r) = Some (snd p, r)"
      using Cons.prems(2)[of p "snd p"] by (cases p) auto
    moreover have "dec_entries i (concat (map (\<lambda>p. CHR '','' # enc_str (fst p) @ enc_json (snd p)) m)
        @ CHR ''e'' # r) = Some (m, r)"
      by (rule Cons.IH) (use Cons.prems(1) j in simp, rule Cons.prems(2), auto)
    ultimately show ?case using Cons.prems(1) j by (simp add: dec_enc_str)
  qed (case_tac j; simp)
  moreover obtain j where "k = Suc j" using Object.prems by (cases k) auto
  ultimately show ?case using Object.prems by simp
next
  case (String s)
  then show ?case using length_enc_str[of s] by (cases k) (simp_all add: dec_enc_str)
next
  case (Number x)
  have "0 < length (enc_number x)" by (cases x) simp_all
  also have "\<dots> \<le> k" using Number by simp
  finally have "0 < k" .
  then show ?case by (simp add: dec_enc_number)
next
  case Null
  then show ?case by (cases k) simp_all
next
  case (Bool b)
  then show ?case by (cases k; cases b) simp_all
qed

section \<open>The instance\<close>

definition codec_chars :: "char set" where
  "codec_chars = Collect printable"

lemma codec_basic [simp]:
  "CHR ''0'' \<in> codec_chars" "CHR ''1'' \<in> codec_chars" "CHR ''.'' \<in> codec_chars" "CHR ''-'' \<in> codec_chars"
  "CHR ''+'' \<in> codec_chars" "CHR ''c'' \<in> codec_chars" "CHR ''e'' \<in> codec_chars" "CHR ''='' \<in> codec_chars"
  "CHR ''n'' \<in> codec_chars" "CHR ''t'' \<in> codec_chars" "CHR ''f'' \<in> codec_chars"
  "CHR ''p'' \<in> codec_chars" "CHR ''m'' \<in> codec_chars" "CHR ''q'' \<in> codec_chars"
  "CHR ''s'' \<in> codec_chars" "CHR ''a'' \<in> codec_chars" "CHR ''{'' \<in> codec_chars"
  "CHR '','' \<in> codec_chars"
  by (simp_all add: codec_chars_def printable_def less_eq_char_def)

lemma printable_codec: "printable c \<Longrightarrow> c \<in> codec_chars"
  by (simp add: codec_chars_def)

lemma codec_no_blank: "c \<in> codec_chars \<Longrightarrow> c \<noteq> CHR 0x0A \<and> c \<noteq> CHR 0x0D \<and> \<not> is_ascii_whitespace c"
  by (auto simp: codec_chars_def printable_def less_eq_char_def is_ascii_whitespace_def)

lemma codec_nat: "set (enc_nat n) \<subseteq> codec_chars"
proof (induction n rule: enc_nat.induct)
  case (1 n)
  then show ?case by (subst enc_nat.simps) auto
qed

lemma codec_int: "set (enc_int n) \<subseteq> codec_chars"
  using codec_nat by (simp add: enc_int_def)

lemma codec_str: "set (enc_str s) \<subseteq> codec_chars"
proof -
  have "set (enc_char c) \<subseteq> codec_chars" for c
    using codec_nat by (auto simp: enc_char_def intro: printable_codec)
  then show ?thesis by (auto simp: enc_str_def subset_iff)
qed

lemma codec_number: "set (enc_number x) \<subseteq> codec_chars"
  using codec_int by (cases x) simp_all

lemma codec_json: "set (enc_json v) \<subseteq> codec_chars"
proof (induction v)
  case (Array xs)
  then show ?case by auto
next
  case (Object m)
  then have "set (enc_json (snd p)) \<subseteq> codec_chars" if "p \<in> set m" for p
    using that by (cases p) auto
  moreover have "x \<in> codec_chars" if "x \<in> set (enc_str a)" for x a
    using that codec_str by blast
  ultimately show ?case by auto
qed (use codec_str codec_number in simp_all)

lemma enc_json_nonempty: "enc_json v \<noteq> []"
proof (cases v)
  case (Number x)
  then show ?thesis by (cases x) simp_all
qed simp_all

definition demo_ext :: ext where
  "demo_ext = \<lparr>
     parse_from_rfc3339 = (\<lambda>s. map_option fst (dec_int s)),
     de_datetime_str = (\<lambda>s. map_option fst (dec_int s)),
     ser_datetime = enc_int,
     json_from_slice = (\<lambda>s. case dec_json (length s) s of Some (v, []) \<Rightarrow> Some v | _ \<Rightarrow> None),
     json_to_vec = enc_json\<rparr>"

lemma demo_ext_ok: "ext_ok demo_ext"
proof -
  have "map_option fst (dec_int (enc_int t)) = Some t" for t
    using dec_enc_int[of t "[]"] by simp
  moreover have "dec_json (length (enc_json v)) (enc_json v) = Some (v, [])" for v
    using dec_enc_json[of v "length (enc_json v)" "[]"] by simp
  moreover have "CHR 0x0A \<notin> set (enc_json v) \<and> CHR 0x0D \<notin> set (enc_json v)" for v
    using codec_json[of v] codec_no_blank by blast
  moreover have "\<exists>c\<in>set (enc_json v). \<not> is_ascii_whitespace c" for v
  proof -
    have "hd (enc_json v) \<in> set (enc_json v)" using enc_json_nonempty by simp
    then show ?thesis using codec_json[of v] codec_no_blank by blast
  qed
  ultimately show ?thesis by (simp add: ext_ok_def demo_ext_def)
qed

end
