(* ===== verification/Schema.thy ===== *)
theory Schema
  imports Json
begin

text \<open>
  The on-disk schema of \<open>schema.rs\<close> and \<open>ids.rs\<close>: validated identifiers, the enums, the
  run manifest, the node projection and the event envelope, with serde's decoders for the
  payload types the reducer reads.
\<close>

section \<open>Identifiers\<close>

datatype run_id = RunId (run_id_str: string)
datatype node_id = NodeId (node_id_str: string)

datatype id_error = InvalidFormat string string | WrongPrefix string

definition CROCKFORD_LOWER :: string where
  "CROCKFORD_LOWER = ''0123456789abcdefghjkmnpqrstvwxyz''"

definition all_crockford_lower :: "string \<Rightarrow> bool" where
  "all_crockford_lower s \<longleftrightarrow> list_all (\<lambda>b. b \<in> set CROCKFORD_LOWER) s"

definition RunId_LEN :: nat where
  "RunId_LEN = 26"

definition ulid_first_ok :: "char \<Rightarrow> bool" where
  "ulid_first_ok c \<longleftrightarrow> CHR ''0'' \<le> c \<and> c \<le> CHR ''7''"

definition is_run_id_prefix :: "string \<Rightarrow> bool" where
  "is_run_id_prefix s \<longleftrightarrow>
     s \<noteq> [] \<and> length s \<le> RunId_LEN \<and> all_crockford_lower s \<and>
     (case s of c # _ \<Rightarrow> ulid_first_ok c | [] \<Rightarrow> False)"

definition RunId_parse_str :: "string \<Rightarrow> id_error + run_id" where
  "RunId_parse_str s =
     (if length s \<noteq> RunId_LEN \<or> \<not> all_crockford_lower s then Inl (InvalidFormat ''run'' s)
      else if \<not> ulid_first_ok (hd s) then Inl (InvalidFormat ''run'' s)
      else Inr (RunId s))"

definition NodeId_parse_str :: "string \<Rightarrow> id_error + node_id" where
  "NodeId_parse_str s = (case strip_prefix ''n-'' s of
       None \<Rightarrow> Inl (WrongPrefix ''node'')
     | Some body \<Rightarrow>
         if 4 \<le> length body \<and> length body \<le> 10 \<and> list_all is_ascii_digit body
         then Inr (NodeId s) else Inl (InvalidFormat ''node'' s))"

text \<open>\<open>format!("n-{n:04}")\<close>: decimal, padded with zeros to four digits.\<close>

fun decimal :: "nat \<Rightarrow> string" where
  "decimal n = (if n < 10 then [char_of (48 + n)] else decimal (n div 10) @ [char_of (48 + n mod 10)])"

declare decimal.simps [simp del]

definition format_node_id :: "u32 \<Rightarrow> string" where
  "format_node_id n = (let d = decimal (unat n) in ''n-'' @ replicate (4 - length d) CHR ''0'' @ d)"

section \<open>Enums\<close>

datatype kind = Spinoff | Research | TechnicalDecision | FanOut | Unknown

definition wire_name :: "kind \<Rightarrow> string" where
  "wire_name k = (case k of
       Spinoff \<Rightarrow> ''spinoff'' | Research \<Rightarrow> ''research''
     | TechnicalDecision \<Rightarrow> ''technical-decision'' | FanOut \<Rightarrow> ''fan-out''
     | Unknown \<Rightarrow> ''unknown'')"

definition WIRE_NAMES :: "string list" where
  "WIRE_NAMES = map wire_name [Spinoff, Research, TechnicalDecision, FanOut]"

text \<open>serde's decoder: the renamed variants, and \<open>#[serde(other)]\<close> for every other name.\<close>

definition de_kind :: "json \<Rightarrow> kind option" where
  "de_kind v = map_option (\<lambda>s.
     if s = ''spinoff'' then Spinoff else if s = ''research'' then Research
     else if s = ''technical-decision'' then TechnicalDecision
     else if s = ''fan-out'' then FanOut else Unknown) (enum_variant v)"

definition is_autonomous_single_node_worker :: "kind \<Rightarrow> bool" where
  "is_autonomous_single_node_worker k \<longleftrightarrow> k \<in> {Spinoff, Research, TechnicalDecision}"

datatype lifecycle = Autonomous | Interactive

definition kind_lifecycle :: "kind \<Rightarrow> lifecycle" where
  "kind_lifecycle k = Autonomous"

definition is_interactive :: "lifecycle \<Rightarrow> bool" where
  "is_interactive l \<longleftrightarrow> l = Interactive"

definition de_lifecycle :: "json \<Rightarrow> lifecycle option" where
  "de_lifecycle v = Option.bind (enum_variant v) (\<lambda>s.
     if s = ''autonomous'' then Some Autonomous
     else if s = ''interactive'' then Some Interactive else None)"

datatype agent_owner = Taskfleet | Caller

definition de_agent_owner :: "json \<Rightarrow> agent_owner option" where
  "de_agent_owner v = Option.bind (enum_variant v) (\<lambda>s.
     if s = ''taskfleet'' then Some Taskfleet
     else if s = ''caller'' then Some Caller else None)"

datatype status = Pending | Running | Blocked | Done | Failed | Cancelled

definition is_terminal :: "status \<Rightarrow> bool" where
  "is_terminal s \<longleftrightarrow> s \<in> {Done, Failed, Cancelled}"

lemma is_terminal_simps [simp]:
  "is_terminal Done" "is_terminal Failed" "is_terminal Cancelled"
  "\<not> is_terminal Pending" "\<not> is_terminal Running" "\<not> is_terminal Blocked"
  by (simp_all add: is_terminal_def)

text \<open>The wire names are the kebab-case variant names (\<open>rename_all\<close>).\<close>

definition status_of_name :: "string \<Rightarrow> status option" where
  "status_of_name s =
     (if s = ''pending'' then Some Pending else if s = ''running'' then Some Running
      else if s = ''blocked'' then Some Blocked else if s = ''done'' then Some Done
      else if s = ''failed'' then Some Failed else if s = ''cancelled'' then Some Cancelled
      else None)"

definition status_name :: "status \<Rightarrow> string" where
  "status_name s = (case s of Pending \<Rightarrow> ''pending'' | Running \<Rightarrow> ''running''
     | Blocked \<Rightarrow> ''blocked'' | Done \<Rightarrow> ''done'' | Failed \<Rightarrow> ''failed''
     | Cancelled \<Rightarrow> ''cancelled'')"

definition de_status :: "json \<Rightarrow> status option" where
  "de_status v = Option.bind (enum_variant v) status_of_name"

lemma status_of_name_status_name [simp]: "status_of_name (status_name s) = Some s"
  by (cases s) (simp_all add: status_of_name_def status_name_def)

text \<open>The roll-up loop of \<open>aggregate_terminal_status\<close>, with its three flags and early return.\<close>

fun aggregate_loop :: "bool \<Rightarrow> bool \<Rightarrow> bool \<Rightarrow> status list \<Rightarrow> status option" where
  "aggregate_loop any any_failed any_cancelled [] =
     (if \<not> any then None
      else Some (if any_failed then Failed else if any_cancelled then Cancelled else Done))"
| "aggregate_loop any any_failed any_cancelled (s # ss) = (case s of
       Done \<Rightarrow> aggregate_loop True any_failed any_cancelled ss
     | Failed \<Rightarrow> aggregate_loop True True any_cancelled ss
     | Cancelled \<Rightarrow> aggregate_loop True any_failed True ss
     | _ \<Rightarrow> None)"

definition aggregate_terminal_status :: "status list \<Rightarrow> status option" where
  "aggregate_terminal_status ss = aggregate_loop False False False ss"

section \<open>Agent selection\<close>

record selected_candidate =
  sc_candidate_index :: u8
  sc_harness :: string
  sc_command :: "string list"
  sc_telemetry :: "string option"

record skipped_candidate =
  sk_candidate_index :: u8
  sk_harness :: string
  sk_reason :: string

record agent_selection =
  as_schema_version :: u32
  as_profile :: string
  as_selection_source :: string
  as_interaction :: string
  as_capability :: string
  as_residency :: string
  as_requested_harness :: "string option"
  as_selected :: selected_candidate
  as_fallback :: "skipped_candidate list"

definition supports_worker_telemetry_v1 :: "selected_candidate \<Rightarrow> bool" where
  "supports_worker_telemetry_v1 c \<longleftrightarrow>
     sc_harness c = ''pi'' \<and> sc_telemetry c = Some ''worker-v1''"

definition ends_with :: "string \<Rightarrow> char \<Rightarrow> bool" where
  "ends_with s c \<longleftrightarrow> s \<noteq> [] \<and> last s = c"

text \<open>\<open>[a-z][a-z0-9-]*\<close>, bounded, without a trailing or doubled hyphen: the shared shape of
  profile names and resident names.\<close>

definition kebab_name_ok :: "nat \<Rightarrow> string \<Rightarrow> bool" where
  "kebab_name_ok max_len s \<longleftrightarrow>
     \<not> (s = [] \<or> length s > max_len \<or> \<not> is_ascii_lowercase (hd s)
        \<or> \<not> list_all (\<lambda>b. is_ascii_lowercase b \<or> is_ascii_digit b \<or> b = CHR ''-'') s
        \<or> ends_with s CHR ''-'' \<or> contains_sub ''--'' s)"

definition validate_selected_candidate :: "selected_candidate \<Rightarrow> bool" where
  "validate_selected_candidate c \<longleftrightarrow>
     \<not> (sc_harness c \<notin> {''pi'', ''claude''} \<or> sc_command c = [] \<or> length (sc_command c) > 32
        \<or> list_ex (\<lambda>arg. arg = [] \<or> length arg > 4096 \<or> CHR 0x00 \<in> set arg) (sc_command c)
        \<or> sum_list (map length (sc_command c)) > 16384) \<and>
     (sc_telemetry c = None \<or> (sc_harness c = ''pi'' \<and> sc_telemetry c = Some ''worker-v1''))"

text \<open>The loop over the skipped candidates: \<open>i\<close> is \<open>expected_index\<close>, \<open>prior\<close> the last index.\<close>

fun fallback_ok :: "string \<Rightarrow> nat \<Rightarrow> u8 option \<Rightarrow> skipped_candidate list \<Rightarrow> bool" where
  "fallback_ok interaction i prior [] \<longleftrightarrow> True"
| "fallback_ok interaction i prior (k # ks) \<longleftrightarrow>
     \<not> (unat (sk_candidate_index k) \<noteq> i
        \<or> (case prior of None \<Rightarrow> False | Some p \<Rightarrow> sk_candidate_index k \<le> p)
        \<or> sk_harness k \<notin> {''pi'', ''claude''}
        \<or> sk_reason k \<notin> {''executable_missing'', ''autonomous_harness_unsupported'',
                           ''telemetry_unsupported''}) \<and>
     \<not> (sk_reason k = ''autonomous_harness_unsupported''
        \<and> (interaction \<noteq> ''autonomous'' \<or> sk_harness k = ''pi'')) \<and>
     \<not> (sk_reason k = ''telemetry_unsupported''
        \<and> (interaction \<noteq> ''autonomous'' \<or> sk_harness k \<noteq> ''pi'')) \<and>
     fallback_ok interaction (Suc i) (Some (sk_candidate_index k)) ks"

definition AgentSelection_validate :: "agent_selection \<Rightarrow> bool" where
  "AgentSelection_validate a \<longleftrightarrow>
     as_schema_version a = 1 \<and>
     kebab_name_ok 63 (as_profile a) \<and>
     as_selection_source a \<in> {''cli'', ''environment'', ''repository-per-kind'', ''user-per-kind'',
        ''repository-default'', ''user-default'', ''builtin-harness''} \<and>
     as_interaction a \<in> {''autonomous'', ''explicit-interactive''} \<and>
     as_capability a \<in> {''fast'', ''capable'', ''ultra-capable''} \<and>
     as_residency a \<in> {''local'', ''remote''} \<and>
     validate_selected_candidate (as_selected a) \<and>
     \<not> (as_interaction a = ''autonomous'' \<and>
        \<not> ((sc_harness (as_selected a) = ''pi'' \<and> sc_telemetry (as_selected a) = Some ''worker-v1'')
           \<or> (sc_harness (as_selected a) = ''claude'' \<and> sc_telemetry (as_selected a) = None))) \<and>
     \<not> (sc_candidate_index (as_selected a) \<ge> 8
        \<or> length (as_fallback a) \<noteq> unat (sc_candidate_index (as_selected a))) \<and>
     fallback_ok (as_interaction a) 0 None (as_fallback a)"

definition de_selected_candidate :: "json \<Rightarrow> selected_candidate option" where
  "de_selected_candidate v = do {
     g \<leftarrow> struct_fields [(''candidate_index'', False), (''harness'', False), (''command'', False),
        (''telemetry'', True)] v;
     i \<leftarrow> req de_u8 g ''candidate_index'';
     h \<leftarrow> req de_string g ''harness'';
     c \<leftarrow> req (de_vec de_string) g ''command'';
     t \<leftarrow> optional de_string g ''telemetry'';
     Some \<lparr>sc_candidate_index = i, sc_harness = h, sc_command = c, sc_telemetry = t\<rparr> }"

definition de_skipped_candidate :: "json \<Rightarrow> skipped_candidate option" where
  "de_skipped_candidate v = do {
     g \<leftarrow> struct_fields [(''candidate_index'', False), (''harness'', False), (''reason'', False)] v;
     i \<leftarrow> req de_u8 g ''candidate_index'';
     h \<leftarrow> req de_string g ''harness'';
     r \<leftarrow> req de_string g ''reason'';
     Some \<lparr>sk_candidate_index = i, sk_harness = h, sk_reason = r\<rparr> }"

definition de_agent_selection :: "json \<Rightarrow> agent_selection option" where
  "de_agent_selection v = do {
     g \<leftarrow> struct_fields [(''schema_version'', False), (''profile'', False),
        (''selection_source'', False), (''interaction'', False), (''capability'', False),
        (''residency'', False), (''requested_harness'', True), (''selected'', False),
        (''fallback'', True)] v;
     sv \<leftarrow> req de_u32 g ''schema_version'';
     p \<leftarrow> req de_string g ''profile'';
     ss \<leftarrow> req de_string g ''selection_source'';
     i \<leftarrow> req de_string g ''interaction'';
     c \<leftarrow> req de_string g ''capability'';
     r \<leftarrow> req de_string g ''residency'';
     rh \<leftarrow> optional de_string g ''requested_harness'';
     sel \<leftarrow> req de_selected_candidate g ''selected'';
     fb \<leftarrow> defaulted [] (de_vec de_skipped_candidate) g ''fallback'';
     Some \<lparr>as_schema_version = sv, as_profile = p, as_selection_source = ss, as_interaction = i,
       as_capability = c, as_residency = r, as_requested_harness = rh, as_selected = sel,
       as_fallback = fb\<rparr> }"

section \<open>Payload structs\<close>

text \<open>The 8-4-4-4-12 shape both UUID checks of the sources use, for a given digit class.\<close>

definition uuid_shape :: "(char \<Rightarrow> bool) \<Rightarrow> string \<Rightarrow> bool" where
  "uuid_shape hex s \<longleftrightarrow> length s = 36 \<and>
     list_all (\<lambda>(i, b). if i \<in> {8, 13, 18, 23} then b = CHR ''-'' else hex b) (enumerate 0 s)"

record resident_policy =
  rp_name :: string
  rp_idle_expiry_secs :: u64

definition ResidentPolicy_MAX_NAME_LEN :: nat where
  "ResidentPolicy_MAX_NAME_LEN = 48"

definition ResidentPolicy_validate_name :: "string \<Rightarrow> bool" where
  "ResidentPolicy_validate_name name \<longleftrightarrow> kebab_name_ok ResidentPolicy_MAX_NAME_LEN name"

definition de_resident_policy :: "json \<Rightarrow> resident_policy option" where
  "de_resident_policy v = do {
     g \<leftarrow> struct_fields [(''name'', False), (''idle_expiry_secs'', False)] v;
     n \<leftarrow> req de_string g ''name'';
     i \<leftarrow> req de_u64 g ''idle_expiry_secs'';
     Some \<lparr>rp_name = n, rp_idle_expiry_secs = i\<rparr> }"

record round_report =
  rr_round :: u32
  rr_attempt :: u32
  rr_reported_at :: time
  rr_event_seq :: u64
  rr_summary :: string
  rr_closed_at :: "time option"
  rr_closed_by :: "string option"

record round_landing =
  rl_at :: time
  rl_source_branch :: string
  rl_integrated_oid :: string
  rl_round :: u32

record resident_state =
  rs_rounds_reported :: u32
  rs_last_round :: "round_report option"
  rs_last_landing :: "round_landing option"
  rs_dormant_since :: "time option"
  rs_expiry_attention_at :: "time option"

definition resident_state_default :: resident_state where
  "resident_state_default = \<lparr>rs_rounds_reported = 0, rs_last_round = None,
     rs_last_landing = None, rs_dormant_since = None, rs_expiry_attention_at = None\<rparr>"

definition open_round :: "resident_state \<Rightarrow> round_report option" where
  "open_round s = filter_opt (\<lambda>r. rr_closed_at r = None) (rs_last_round s)"

record creator_session =
  cs_harness :: string
  cs_session_id :: string

definition CreatorSession_try_from :: "string \<Rightarrow> string \<Rightarrow> creator_session option" where
  "CreatorSession_try_from harness session_id =
     (if harness \<noteq> ''pi'' \<or> \<not> uuid_shape is_lower_hex session_id then None
      else Some \<lparr>cs_harness = harness, cs_session_id = session_id\<rparr>)"

definition CreatorSession_parse_str :: "string \<Rightarrow> creator_session option" where
  "CreatorSession_parse_str value =
     (if CHR '':'' \<in> set value
      then CreatorSession_try_from (takeWhile (\<lambda>c. c \<noteq> CHR '':'') value)
             (tl (dropWhile (\<lambda>c. c \<noteq> CHR '':'') value))
      else None)"

definition de_creator_session :: "json \<Rightarrow> creator_session option" where
  "de_creator_session v = do {
     g \<leftarrow> struct_fields [(''harness'', False), (''session_id'', False)] v;
     h \<leftarrow> req de_string g ''harness'';
     s \<leftarrow> req de_string g ''session_id'';
     if (case v of Object m \<Rightarrow> list_all (\<lambda>p. fst p \<in> {''harness'', ''session_id''}) m | _ \<Rightarrow> True)
     then CreatorSession_try_from h s else None }"

record child_ref =
  cr_run_id :: run_id
  cr_node_id :: node_id

datatype evidence_status = EvPending | EvFailed | EvComplete

record worker_evidence =
  we_attempt :: u32
  we_session_id :: string
  we_original_cwd :: string
  we_live_session_path :: string
  we_status :: evidence_status
  we_transcript_path :: "string option"
  we_resume_path :: "string option"
  we_pane_path :: "string option"
  we_report_path :: "string option"
  we_transcript_sha256 :: "string option"
  we_error :: "string option"

record tmux_retention_policy =
  tr_persistent :: bool
  tr_completed_window_ttl_secs :: u64
  tr_completed_window_max :: u32

definition de_tmux_retention_policy :: "json \<Rightarrow> tmux_retention_policy option" where
  "de_tmux_retention_policy v = do {
     g \<leftarrow> struct_fields [(''persistent'', False), (''completed_window_ttl_secs'', False),
        (''completed_window_max'', False)] v;
     p \<leftarrow> req de_bool g ''persistent'';
     t \<leftarrow> req de_u64 g ''completed_window_ttl_secs'';
     m \<leftarrow> req de_u32 g ''completed_window_max'';
     Some \<lparr>tr_persistent = p, tr_completed_window_ttl_secs = t, tr_completed_window_max = m\<rparr> }"

record retained_display =
  rd_attempt :: u32
  rd_socket :: string
  rd_session :: string
  rd_window_id :: string
  rd_pane_id :: string
  rd_server_pid :: u32
  rd_server_pid_start_secs :: u64
  rd_server_marker :: string
  rd_ownership_marker :: string
  rd_retained_at :: time
  rd_expires_at :: time
  rd_expired_at :: "time option"

definition de_retained_display :: "ext \<Rightarrow> json \<Rightarrow> retained_display option" where
  "de_retained_display X v = do {
     g \<leftarrow> struct_fields [(''attempt'', False), (''socket'', False), (''session'', False),
        (''window_id'', False), (''pane_id'', False), (''server_pid'', False),
        (''server_pid_start_secs'', False), (''server_marker'', False),
        (''ownership_marker'', False), (''retained_at'', False), (''expires_at'', False),
        (''expired_at'', True)] v;
     a \<leftarrow> req de_u32 g ''attempt'';
     so \<leftarrow> req de_string g ''socket'';
     se \<leftarrow> req de_string g ''session'';
     w \<leftarrow> req de_string g ''window_id'';
     p \<leftarrow> req de_string g ''pane_id'';
     sp \<leftarrow> req de_u32 g ''server_pid'';
     st \<leftarrow> req de_u64 g ''server_pid_start_secs'';
     sm \<leftarrow> req de_string g ''server_marker'';
     om \<leftarrow> req de_string g ''ownership_marker'';
     ra \<leftarrow> req (de_datetime X) g ''retained_at'';
     ea \<leftarrow> req (de_datetime X) g ''expires_at'';
     xa \<leftarrow> optional (de_datetime X) g ''expired_at'';
     Some \<lparr>rd_attempt = a, rd_socket = so, rd_session = se, rd_window_id = w, rd_pane_id = p,
       rd_server_pid = sp, rd_server_pid_start_secs = st, rd_server_marker = sm,
       rd_ownership_marker = om, rd_retained_at = ra, rd_expires_at = ea, rd_expired_at = xa\<rparr> }"

record caller_pi_session =
  ps_pi_session_id :: string
  ps_session_path :: string
  ps_original_cwd :: string
  ps_file_dev :: u64
  ps_file_ino :: u64
  ps_generation :: "u64 option"

definition de_caller_pi_session :: "json \<Rightarrow> caller_pi_session option" where
  "de_caller_pi_session v = do {
     g \<leftarrow> struct_fields [(''pi_session_id'', False), (''session_path'', False),
        (''original_cwd'', False), (''file_dev'', False), (''file_ino'', False),
        (''generation'', True)] v;
     i \<leftarrow> req de_string g ''pi_session_id'';
     p \<leftarrow> req de_string g ''session_path'';
     c \<leftarrow> req de_string g ''original_cwd'';
     d \<leftarrow> req de_u64 g ''file_dev'';
     n \<leftarrow> req de_u64 g ''file_ino'';
     gen \<leftarrow> optional de_u64 g ''generation'';
     Some \<lparr>ps_pi_session_id = i, ps_session_path = p, ps_original_cwd = c, ps_file_dev = d,
       ps_file_ino = n, ps_generation = gen\<rparr> }"

datatype caller_pi_state = Reserved | Started | LaunchFailed | Exited | ControlUncertain

definition needs_attention :: "caller_pi_state \<Rightarrow> bool" where
  "needs_attention s \<longleftrightarrow> s \<notin> {Reserved, Started}"

definition de_caller_pi_state :: "json \<Rightarrow> caller_pi_state option" where
  "de_caller_pi_state v = Option.bind (enum_variant v) (\<lambda>s.
     if s = ''reserved'' then Some Reserved else if s = ''started'' then Some Started
     else if s = ''launch-failed'' then Some LaunchFailed
     else if s = ''exited'' then Some Exited
     else if s = ''control-uncertain'' then Some ControlUncertain else None)"

record caller_pi_lifecycle =
  pl_generation :: u64
  pl_pi_session_id :: string
  pl_session_path :: "string option"
  pl_state :: caller_pi_state
  pl_reason :: "string option"

definition de_caller_pi_lifecycle :: "json \<Rightarrow> caller_pi_lifecycle option" where
  "de_caller_pi_lifecycle v = do {
     g \<leftarrow> struct_fields [(''generation'', False), (''pi_session_id'', False),
        (''session_path'', True), (''state'', False), (''reason'', False)] v;
     n \<leftarrow> req de_u64 g ''generation'';
     i \<leftarrow> req de_string g ''pi_session_id'';
     p \<leftarrow> optional de_string g ''session_path'';
     s \<leftarrow> req de_caller_pi_state g ''state'';
     r \<leftarrow> optional de_string g ''reason'';
     Some \<lparr>pl_generation = n, pl_pi_session_id = i, pl_session_path = p, pl_state = s,
       pl_reason = r\<rparr> }"

datatype settlement_operation = SettleMerge | SettleCancel | SettleDiscard

definition de_settlement_operation :: "json \<Rightarrow> settlement_operation option" where
  "de_settlement_operation v = Option.bind (enum_variant v) (\<lambda>s.
     if s = ''merge'' then Some SettleMerge else if s = ''cancel'' then Some SettleCancel
     else if s = ''discard'' then Some SettleDiscard else None)"

definition de_run_id :: "json \<Rightarrow> run_id option" where
  "de_run_id v = Option.bind (as_str v) (\<lambda>s. case RunId_parse_str s of Inl _ \<Rightarrow> None | Inr r \<Rightarrow> Some r)"

definition de_node_id :: "json \<Rightarrow> node_id option" where
  "de_node_id v = Option.bind (as_str v) (\<lambda>s. case NodeId_parse_str s of Inl _ \<Rightarrow> None | Inr r \<Rightarrow> Some r)"

record caller_settlement_intent =
  si_run_id :: run_id
  si_node_id :: node_id
  si_key :: string
  si_operation :: settlement_operation
  si_actor :: string
  si_reason :: "string option"
  si_writer_dev :: u64
  si_writer_ino :: u64
  si_gate_dev :: u64
  si_gate_ino :: u64
  si_generation :: u64
  si_seq :: u64

definition de_caller_settlement_intent :: "json \<Rightarrow> caller_settlement_intent option" where
  "de_caller_settlement_intent v = do {
     g \<leftarrow> struct_fields [(''run_id'', False), (''node_id'', False), (''key'', False),
        (''operation'', False), (''actor'', False), (''reason'', False), (''writer_dev'', False),
        (''writer_ino'', False), (''gate_dev'', False), (''gate_ino'', False),
        (''generation'', False), (''seq'', False)] v;
     r \<leftarrow> req de_run_id g ''run_id'';
     n \<leftarrow> req de_node_id g ''node_id'';
     k \<leftarrow> req de_string g ''key'';
     oper \<leftarrow> req de_settlement_operation g ''operation'';
     a \<leftarrow> req de_string g ''actor'';
     why \<leftarrow> optional de_string g ''reason'';
     wd \<leftarrow> req de_u64 g ''writer_dev'';
     wi \<leftarrow> req de_u64 g ''writer_ino'';
     gd \<leftarrow> req de_u64 g ''gate_dev'';
     gi \<leftarrow> req de_u64 g ''gate_ino'';
     gen \<leftarrow> req de_u64 g ''generation'';
     s \<leftarrow> req de_u64 g ''seq'';
     Some \<lparr>si_run_id = r, si_node_id = n, si_key = k, si_operation = oper, si_actor = a,
       si_reason = why, si_writer_dev = wd, si_writer_ino = wi, si_gate_dev = gd,
       si_gate_ino = gi, si_generation = gen, si_seq = s\<rparr> }"

record caller_merge_link =
  ml_intent_seq :: u64
  ml_intent_key :: string
  ml_writer_dev :: u64
  ml_writer_ino :: u64

definition de_caller_merge_link :: "json \<Rightarrow> caller_merge_link option" where
  "de_caller_merge_link v = do {
     g \<leftarrow> struct_fields [(''intent_seq'', False), (''intent_key'', False),
        (''writer_dev'', False), (''writer_ino'', False)] v;
     s \<leftarrow> req de_u64 g ''intent_seq'';
     k \<leftarrow> req de_string g ''intent_key'';
     d \<leftarrow> req de_u64 g ''writer_dev'';
     i \<leftarrow> req de_u64 g ''writer_ino'';
     Some \<lparr>ml_intent_seq = s, ml_intent_key = k, ml_writer_dev = d, ml_writer_ino = i\<rparr> }"

record merge_txn =
  mt_op_id :: string
  mt_source_branch :: string
  mt_worker_branch :: string
  mt_expected_source_oid :: string
  mt_worker_oid :: string
  mt_base_sha :: "string option"
  mt_driver_pid :: "int option"
  mt_driver_pid_start_secs :: "u64 option"
  mt_driver_pid_start_identity :: "string option"
  mt_caller_authority :: "caller_merge_link option"
  mt_landing :: bool
  mt_started_at :: time

definition de_merge_txn :: "ext \<Rightarrow> json \<Rightarrow> merge_txn option" where
  "de_merge_txn X v = do {
     g \<leftarrow> struct_fields [(''op_id'', False), (''source_branch'', False),
        (''worker_branch'', False), (''expected_source_oid'', False), (''worker_oid'', False),
        (''base_sha'', True), (''driver_pid'', True), (''driver_pid_start_secs'', True),
        (''driver_pid_start_identity'', True), (''caller_authority'', True),
        (''landing'', True), (''started_at'', False)] v;
     oper \<leftarrow> req de_string g ''op_id'';
     sb \<leftarrow> req de_string g ''source_branch'';
     wb \<leftarrow> req de_string g ''worker_branch'';
     eo \<leftarrow> req de_string g ''expected_source_oid'';
     wo \<leftarrow> req de_string g ''worker_oid'';
     bs \<leftarrow> optional de_string g ''base_sha'';
     dp \<leftarrow> optional de_i32 g ''driver_pid'';
     ds \<leftarrow> optional de_u64 g ''driver_pid_start_secs'';
     di \<leftarrow> optional de_string g ''driver_pid_start_identity'';
     ca \<leftarrow> optional de_caller_merge_link g ''caller_authority'';
     l \<leftarrow> defaulted False de_bool g ''landing'';
     t \<leftarrow> req (de_datetime X) g ''started_at'';
     Some \<lparr>mt_op_id = oper, mt_source_branch = sb, mt_worker_branch = wb,
       mt_expected_source_oid = eo, mt_worker_oid = wo, mt_base_sha = bs, mt_driver_pid = dp,
       mt_driver_pid_start_secs = ds, mt_driver_pid_start_identity = di,
       mt_caller_authority = ca, mt_landing = l, mt_started_at = t\<rparr> }"

record worker_exit =
  wx_code :: "int option"
  wx_signal :: "int option"
  wx_at :: time

definition is_clean :: "worker_exit \<Rightarrow> bool" where
  "is_clean x \<longleftrightarrow> wx_signal x = None \<and> wx_code x = Some 0"

definition is_failure :: "worker_exit \<Rightarrow> bool" where
  "is_failure x \<longleftrightarrow> \<not> is_clean x"

record tmux_identity =
  ti_socket :: "string option"
  ti_session :: string
  ti_window_id :: string
  ti_pane_id :: "string option"
  ti_server_pid :: "u32 option"
  ti_server_pid_start_secs :: "u64 option"
  ti_server_marker :: "string option"

definition capture_target :: "tmux_identity \<Rightarrow> string" where
  "capture_target t =
     (case filter_opt (\<lambda>i. i \<noteq> []) (ti_pane_id t) of Some i \<Rightarrow> i | None \<Rightarrow> ti_window_id t)"

record awaiting_input =
  ai_opened_at :: time
  ai_event_seq :: u64
  ai_discussion_items :: "json list"

section \<open>The projections and the event envelope\<close>

definition STATE_SCHEMA_VERSION :: u32 where
  "STATE_SCHEMA_VERSION = 1"

definition SUPPORTED_STATE_SCHEMAS :: "u32 list" where
  "SUPPORTED_STATE_SCHEMAS = [1]"

record manifest =
  m_schema_version :: u32
  m_applied_seq :: u64
  m_run_id :: run_id
  m_kind :: kind
  m_lifecycle :: lifecycle
  m_agent_owner :: agent_owner
  m_caller_settlement_intent :: "caller_settlement_intent option"
  m_title :: string
  m_status :: status
  m_created_at :: time
  m_updated_at :: time
  m_source_repo :: "string option"
  m_source_branch :: "string option"
  m_worktree_root :: "string option"
  m_managed_tmux_session :: "string option"
  m_tmux_retention :: "tmux_retention_policy option"
  m_notify_cmd :: "string option"
  m_harness :: "string option"
  m_agent_selection :: "agent_selection option"
  m_node_count :: u32
  m_created_by_run_id :: "run_id option"
  m_created_by_session :: "creator_session option"
  m_parent_run_id :: "run_id option"
  m_parent_node_id :: "node_id option"
  m_resident :: "resident_policy option"

record node =
  n_schema_version :: u32
  n_node_id :: node_id
  n_run_id :: run_id
  n_parent_node_id :: "node_id option"
  n_kind :: kind
  n_status :: status
  n_task :: "string option"
  n_worktree_path :: "string option"
  n_branch :: "string option"
  n_base_sha :: "string option"
  n_tmux_window :: "string option"
  n_tmux_identity :: "tmux_identity option"
  n_evidence :: "worker_evidence option"
  n_caller_pi_session :: "caller_pi_session option"
  n_caller_pi_lifecycle :: "caller_pi_lifecycle option"
  n_retained_display :: "retained_display option"
  n_retention_unavailable :: "string option"
  n_agent_pid :: "int option"
  n_agent_pid_start_time :: "time option"
  n_agent_pid_start_identity :: "string option"
  n_supervisor_pid :: "int option"
  n_children :: "child_ref list"
  n_started_at :: "time option"
  n_updated_at :: time
  n_last_report :: "json option"
  n_last_processed_report_seq_by_child :: "(string \<times> json) list"
  n_retry_attempts :: u32
  n_worker_exit :: "worker_exit option"
  n_pending_merge :: "merge_txn option"
  n_first_death_at :: "time option"
  n_awaiting_input :: "awaiting_input option"
  n_claude_session_id :: "string option"
  n_resident :: "resident_state option"

record event =
  ev_ts :: time
  ev_seq :: u64
  ev_kind :: string
  ev_run_id :: run_id
  ev_node_id :: "node_id option"
  ev_idempotency_key :: "string option"
  ev_data :: json

definition de_event :: "ext \<Rightarrow> json \<Rightarrow> event option" where
  "de_event X v = do {
     g \<leftarrow> struct_fields [(''ts'', False), (''seq'', False), (''kind'', False), (''run_id'', False),
        (''node_id'', True), (''idempotency_key'', True), (''data'', True)] v;
     t \<leftarrow> req (de_datetime X) g ''ts'';
     s \<leftarrow> req de_u64 g ''seq'';
     k \<leftarrow> req de_string g ''kind'';
     r \<leftarrow> req de_run_id g ''run_id'';
     n \<leftarrow> optional de_node_id g ''node_id'';
     i \<leftarrow> optional de_string g ''idempotency_key'';
     d \<leftarrow> defaulted Null Some g ''data'';
     Some \<lparr>ev_ts = t, ev_seq = s, ev_kind = k, ev_run_id = r, ev_node_id = n,
       ev_idempotency_key = i, ev_data = d\<rparr> }"

text \<open>The serialized envelope: absent ids and keys are skipped, \<open>data\<close> is always written.\<close>

definition event_json :: "ext \<Rightarrow> event \<Rightarrow> json" where
  "event_json X ev = Object
     ([(''data'', ev_data ev)] @
      (case ev_idempotency_key ev of None \<Rightarrow> [] | Some k \<Rightarrow> [(''idempotency_key'', String k)]) @
      [(''kind'', String (ev_kind ev))] @
      (case ev_node_id ev of None \<Rightarrow> [] | Some n \<Rightarrow> [(''node_id'', String (node_id_str n))]) @
      [(''run_id'', String (run_id_str (ev_run_id ev))),
       (''seq'', Number (PosInt (ev_seq ev))),
       (''ts'', String (ser_datetime X (ev_ts ev)))])"

section \<open>Errors\<close>

text \<open>
  \<open>error.rs\<close>: one constructor per variant that the modelled operations raise. Paths and
  message texts, on which nothing branches, are not kept; of an I/O error only whether the file was
  not found or was a symbolic link that must not be followed.
\<close>

datatype core_error =
    RunAlreadyTerminal status
  | NodeNotFound string
  | IoNotFound
  | IoLoop
  | JsonError
  | CorruptEventLog
  | InvalidRunId string
  | CorruptProjection string
  | UnsupportedSchemaVersion u32
  | EmptyIdempotencyKey
  | SymlinkRunDir
  | SymlinkSubdir string
  | SymlinkStateFile string

type_synonym 'a res = "core_error + 'a"

end
