(* ===== verification/Store.thy ===== *)
theory Store
  imports Schema
begin

text \<open>
  One run directory (\<open>paths.rs\<close>, \<open>projections.rs\<close>): the manifest, the node projections,
  the event log and the quarantine backups, with the symlink, schema, key and run-id checks
  that guard every access. A projection file either is a symlink, or does not decode, or
  holds the struct it was written from; writes replace the whole file (\<open>write_json_atomic\<close>),
  and disk faults are not modelled.
\<close>

datatype 'a entry = Symlink | Unparsable | File 'a

record run_dir =
  d_root_symlink :: bool
  d_manifest :: "manifest entry option"
  d_nodes_symlink :: bool
  d_nodes :: "(string \<times> node entry) list"  \<comment> \<open>the \<open>*.json\<close> entries of \<open>nodes/\<close>, by stem\<close>
  d_events_symlink :: bool
  d_events :: "bytes option"
  d_backups :: "(string \<times> bytes) list"  \<comment> \<open>\<open>events.jsonl.corrupt-<ts>.bak\<close>, by \<open>ts\<close>\<close>

definition empty_dir :: run_dir where
  "empty_dir = \<lparr>d_root_symlink = False, d_manifest = None, d_nodes_symlink = False, d_nodes = [],
     d_events_symlink = False, d_events = None, d_backups = []\<rparr>"

section \<open>Guards\<close>

definition reject_symlink :: "bool \<Rightarrow> core_error \<Rightarrow> unit res" where
  "reject_symlink is_symlink e = (if is_symlink then Inl e else Inr ())"

definition guard_root :: "run_dir \<Rightarrow> unit res" where
  "guard_root d = reject_symlink (d_root_symlink d) SymlinkRunDir"

definition checked_events :: "run_dir \<Rightarrow> unit res" where
  "checked_events d = rbind (guard_root d) (\<lambda>_.
     reject_symlink (d_events_symlink d) (SymlinkStateFile ''events''))"

definition checked_manifest :: "run_dir \<Rightarrow> unit res" where
  "checked_manifest d = rbind (guard_root d) (\<lambda>_.
     reject_symlink (d_manifest d = Some Symlink) (SymlinkStateFile ''manifest''))"

definition node_entry :: "run_dir \<Rightarrow> node_id \<Rightarrow> node entry option" where
  "node_entry d nid = map_of (d_nodes d) (node_id_str nid)"

definition checked_node :: "run_dir \<Rightarrow> node_id \<Rightarrow> unit res" where
  "checked_node d nid = rbind (guard_root d) (\<lambda>_.
     rbind (reject_symlink (d_nodes_symlink d) (SymlinkSubdir ''nodes'')) (\<lambda>_.
     reject_symlink (node_entry d nid = Some Symlink) (SymlinkStateFile ''node'')))"

definition check_schema :: "u32 \<Rightarrow> unit res" where
  "check_schema found = ensure (found \<in> set SUPPORTED_STATE_SCHEMAS) (UnsupportedSchemaVersion found)"

definition check_key :: "string \<Rightarrow> string \<Rightarrow> string \<Rightarrow> unit res" where
  "check_key what expected body = ensure (expected = body) (CorruptProjection what)"

definition check_run_id :: "string \<Rightarrow> run_id \<Rightarrow> run_id \<Rightarrow> unit res" where
  "check_run_id what expected body = ensure (expected = body) (CorruptProjection what)"

section \<open>Reads and writes\<close>

definition read_json_opt :: "'a entry option \<Rightarrow> 'a option res" where
  "read_json_opt e = (case e of
       None \<Rightarrow> Inr None
     | Some (File x) \<Rightarrow> Inr (Some x)
     | Some _ \<Rightarrow> Inl JsonError)"

definition read_manifest_opt :: "run_id \<Rightarrow> run_dir \<Rightarrow> manifest option res" where
  "read_manifest_opt rid d =
     rbind (checked_manifest d) (\<lambda>_.
     rbind (read_json_opt (d_manifest d)) (\<lambda>mo.
     case mo of
       None \<Rightarrow> Inr None
     | Some m \<Rightarrow>
         rbind (check_schema (m_schema_version m)) (\<lambda>_.
         rbind (check_run_id ''manifest_run_id'' rid (m_run_id m)) (\<lambda>_.
         Inr (Some m)))))"

definition read_manifest :: "run_id \<Rightarrow> run_dir \<Rightarrow> manifest res" where
  "read_manifest rid d =
     rbind (checked_manifest d) (\<lambda>_.
     rbind (rbind (read_json_opt (d_manifest d)) (ok_or IoNotFound)) (\<lambda>m.
     rbind (check_schema (m_schema_version m)) (\<lambda>_.
     rbind (check_run_id ''manifest_run_id'' rid (m_run_id m)) (\<lambda>_.
     Inr m))))"

definition write_manifest :: "run_id \<Rightarrow> manifest \<Rightarrow> run_dir \<Rightarrow> run_dir res" where
  "write_manifest rid m d =
     rbind (checked_manifest d) (\<lambda>_.
     rbind (check_run_id ''manifest_run_id'' rid (m_run_id m)) (\<lambda>_.
     Inr (d\<lparr>d_manifest := Some (File m)\<rparr>)))"

definition read_node_opt :: "run_id \<Rightarrow> run_dir \<Rightarrow> node_id \<Rightarrow> node option res" where
  "read_node_opt rid d nid =
     rbind (checked_node d nid) (\<lambda>_.
     rbind (read_json_opt (node_entry d nid)) (\<lambda>no.
     case no of
       None \<Rightarrow> Inr None
     | Some n \<Rightarrow>
         rbind (check_schema (n_schema_version n)) (\<lambda>_.
         rbind (check_key ''node'' (node_id_str nid) (node_id_str (n_node_id n))) (\<lambda>_.
         rbind (check_run_id ''node_run_id'' rid (n_run_id n)) (\<lambda>_.
         Inr (Some n))))))"

definition write_node :: "run_id \<Rightarrow> node \<Rightarrow> run_dir \<Rightarrow> run_dir res" where
  "write_node rid n d =
     rbind (checked_node d (n_node_id n)) (\<lambda>_.
     rbind (check_run_id ''node_run_id'' rid (n_run_id n)) (\<lambda>_.
     Inr (d\<lparr>d_nodes := AList.update (node_id_str (n_node_id n)) (File n) (d_nodes d)\<rparr>)))"

section \<open>Effects\<close>

text \<open>
  An operation under the run lock: it may fail, and it leaves a directory behind either way,
  so that what an error path has already written is part of the model.
\<close>

type_synonym 'a io = "run_dir \<Rightarrow> 'a res \<times> run_dir"

definition ret :: "'a \<Rightarrow> 'a io" where
  "ret x d = (Inr x, d)"

definition bind_io :: "'a io \<Rightarrow> ('a \<Rightarrow> 'b io) \<Rightarrow> 'b io" where
  "bind_io m f d = (case m d of (Inl e, d') \<Rightarrow> (Inl e, d') | (Inr x, d') \<Rightarrow> f x d')"

definition reading :: "(run_dir \<Rightarrow> 'a res) \<Rightarrow> 'a io" where
  "reading f d = (f d, d)"

definition updating :: "(run_dir \<Rightarrow> run_dir res) \<Rightarrow> unit io" where
  "updating f d = (case f d of Inl e \<Rightarrow> (Inl e, d) | Inr d' \<Rightarrow> (Inr (), d'))"

lemma ret_Pair [io_simps]: "ret x d = (r, d') \<longleftrightarrow> r = Inr x \<and> d' = d"
  by (auto simp: ret_def)

lemma bind_io_Inr [io_simps]:
  "bind_io m f d = (Inr y, d'') \<longleftrightarrow> (\<exists>x d'. m d = (Inr x, d') \<and> f x d' = (Inr y, d''))"
  by (auto simp: bind_io_def split: prod.splits sum.splits)

lemma bind_io_Inl [io_simps]:
  "bind_io m f d = (Inl e, d'') \<longleftrightarrow>
     m d = (Inl e, d'') \<or> (\<exists>x d'. m d = (Inr x, d') \<and> f x d' = (Inl e, d''))"
  by (auto simp: bind_io_def split: prod.splits sum.splits)

lemma reading_Pair [io_simps]: "reading f d = (r, d') \<longleftrightarrow> f d = r \<and> d' = d"
  by (auto simp: reading_def)

lemma updating_Inr [io_simps]: "updating f d = (Inr u, d') \<longleftrightarrow> f d = Inr d'"
  by (auto simp: updating_def split: sum.splits)

lemma updating_Inl [io_simps]: "updating f d = (Inl e, d') \<longleftrightarrow> f d = Inl e \<and> d' = d"
  by (auto simp: updating_def split: sum.splits)

lemma bind_io_step:
  "m d = (Inr x, d') \<Longrightarrow> bind_io m f d = f x d'"
  "m d = (Inl e, d') \<Longrightarrow> bind_io m f d = (Inl e, d')"
  by (simp_all add: bind_io_def)

section \<open>Derived counters\<close>

definition projection_id_stem :: "string \<times> 'a entry \<Rightarrow> string option" where
  "projection_id_stem ent = (case snd ent of Symlink \<Rightarrow> None | _ \<Rightarrow> Some (fst ent))"

definition is_node_slot :: "string \<times> 'a entry \<Rightarrow> bool" where
  "is_node_slot ent = (case projection_id_stem ent of
       None \<Rightarrow> False
     | Some stem \<Rightarrow> (case NodeId_parse_str stem of Inr _ \<Rightarrow> True | Inl _ \<Rightarrow> False))"

fun count_slots :: "u32 \<Rightarrow> (string \<times> node entry) list \<Rightarrow> u32" where
  "count_slots n [] = n"
| "count_slots n (ent # ents) =
     count_slots (if is_node_slot ent then saturating_add n 1 else n) ents"

definition count_node_files :: "run_dir \<Rightarrow> u32" where
  "count_node_files d = count_slots 0 (d_nodes d)"

definition derive_counters :: "run_dir \<Rightarrow> u32" where
  "derive_counters d = count_node_files d"

end
