(* ===== verification/Event_Log.thy ===== *)
theory Event_Log
  imports Store
begin

text \<open>
  The readers and repairs of \<open>events.jsonl\<close> (\<open>events.rs\<close>): the backward scan that recovers
  the last sequence number, torn-tail truncation, the forward physical-line reader behind
  the strict readers and the idempotency scan, and the quarantine of corrupt lines. The log
  is its byte string; an event line is decoded by the JSON reader of \<open>ext\<close> followed by the
  struct decoder of the type the source asks for.
\<close>

abbreviation NL :: char where "NL \<equiv> CHR 0x0A"
abbreviation CR :: char where "CR \<equiv> CHR 0x0D"

section \<open>Backward scan\<close>

definition SCAN_CHUNK :: nat where
  "SCAN_CHUNK = 64 * 1024"

text \<open>\<open>buf.iter().rposition(|b| *b == b'\n')\<close>\<close>

fun rposition_nl :: "bytes \<Rightarrow> nat option" where
  "rposition_nl [] = None"
| "rposition_nl (c # cs) = (case rposition_nl cs of
       Some i \<Rightarrow> Some (Suc i)
     | None \<Rightarrow> if c = NL then Some 0 else None)"

definition slice :: "nat \<Rightarrow> nat \<Rightarrow> bytes \<Rightarrow> bytes" where
  "slice a b s = take (b - a) (drop a s)"

function scan_prev_newline :: "bytes \<Rightarrow> nat \<Rightarrow> nat option" where
  "scan_prev_newline s pos =
     (let start = pos - SCAN_CHUNK in
      case rposition_nl (slice start pos s) of
        Some i \<Rightarrow> Some (start + i)
      | None \<Rightarrow> if start = 0 then None else scan_prev_newline s start)"
  by pat_completeness auto
termination
  by (relation "measure snd") (auto simp: SCAN_CHUNK_def)

declare scan_prev_newline.simps [simp del]

definition find_prev_newline :: "bytes \<Rightarrow> nat \<Rightarrow> nat option" where
  "find_prev_newline s before = (if before = 0 then None else scan_prev_newline s before)"

lemma rposition_nl_None: "rposition_nl s = None \<longleftrightarrow> NL \<notin> set s"
  by (induction s) (auto split: option.splits)

lemma rposition_nl_append: "NL \<notin> set b \<Longrightarrow> rposition_nl (a @ NL # b) = Some (length a)"
  by (induction a) (auto simp: rposition_nl_None[THEN iffD2])

lemma rposition_nl_SomeE:
  assumes "rposition_nl s = Some i"
  obtains a b where "s = a @ NL # b" "i = length a" "NL \<notin> set b"
proof -
  have "NL \<in> set s" using assms rposition_nl_None[of s] by auto
  then obtain a b where s: "s = a @ NL # b" "NL \<notin> set b" by (meson split_list_last)
  with assms that[of a b] show ?thesis by (simp add: rposition_nl_append)
qed

lemma scan_prev_newline_less: "scan_prev_newline s pos = Some p \<Longrightarrow> p < pos"
proof (induction s pos rule: scan_prev_newline.induct)
  case (1 s pos)
  show ?case
  proof (cases "rposition_nl (slice (pos - SCAN_CHUNK) pos s)")
    case None
    with 1 show ?thesis
      by (subst (asm) (2) scan_prev_newline.simps)
        (auto simp: Let_def split: if_splits dest!: "1.IH"[OF refl None])
  next
    case (Some i)
    then have "i < length (slice (pos - SCAN_CHUNK) pos s)"
      by (auto elim!: rposition_nl_SomeE)
    then have "i < pos - (pos - SCAN_CHUNK)" by (simp add: slice_def)
    moreover have "p = pos - SCAN_CHUNK + i"
      using "1.prems" Some by (subst (asm) scan_prev_newline.simps) (simp add: Let_def)
    ultimately show ?thesis by linarith
  qed
qed

lemma find_prev_newline_less: "find_prev_newline s pos = Some p \<Longrightarrow> p < pos"
  by (auto simp: find_prev_newline_def split: if_splits dest: scan_prev_newline_less)

text \<open>\<open>SeqLine\<close>: the envelope fields the backward scan decodes of the last record. Here and in the other
  probes the whole document is read and the named members are taken from it. Serde skips the members a
  probe does not name without its recursion limit, so on a line nested deeper than that limit, which the
  full reader refuses, the code's probe would still find its fields and the model's does not.\<close>

definition de_seq_line :: "ext \<Rightarrow> json \<Rightarrow> u64 option" where
  "de_seq_line X v = do {
     g \<leftarrow> struct_fields [(''seq'', False), (''ts'', False), (''kind'', False), (''run_id'', False),
        (''node_id'', True)] v;
     s \<leftarrow> req de_u64 g ''seq'';
     _ \<leftarrow> req (de_datetime X) g ''ts'';
     _ \<leftarrow> req de_string g ''kind'';
     _ \<leftarrow> req de_run_id g ''run_id'';
     _ \<leftarrow> optional de_node_id g ''node_id'';
     Some s }"

definition parse_seq :: "ext \<Rightarrow> bytes \<Rightarrow> u64 res" where
  "parse_seq X line = ok_or CorruptEventLog (Option.bind (json_from_slice X line) (de_seq_line X))"

function recover_loop :: "ext \<Rightarrow> bytes \<Rightarrow> nat \<Rightarrow> u64 res" where
  "recover_loop X s e =
     (let line_start = (case find_prev_newline s e of Some p \<Rightarrow> p + 1 | None \<Rightarrow> 0);
          line = slice line_start e s
      in if list_ex (\<lambda>b. \<not> is_ascii_whitespace b) line then parse_seq X line
         else if line_start = 0 then Inr 0
         else recover_loop X s (line_start - 1))"
  by pat_completeness auto
termination
  by (relation "measure (\<lambda>(X, s, e). e)")
    (auto split: option.splits dest: find_prev_newline_less)

declare recover_loop.simps [simp del]

definition recover_last_seq_bytes :: "ext \<Rightarrow> bytes \<Rightarrow> u64 res" where
  "recover_last_seq_bytes X s =
     (if s = [] then Inr 0
      else case (if last s = NL then Some (length s - 1) else find_prev_newline s (length s)) of
          None \<Rightarrow> Inr 0
        | Some e \<Rightarrow> recover_loop X s e)"

definition recover_last_seq :: "ext \<Rightarrow> run_dir \<Rightarrow> u64 res" where
  "recover_last_seq X d = (case d_events d of
       None \<Rightarrow> Inr 0
     | Some s \<Rightarrow> recover_last_seq_bytes X s)"

definition truncate_bytes :: "bytes \<Rightarrow> bytes" where
  "truncate_bytes s =
     (if s = [] \<or> last s = NL then s
      else take (case find_prev_newline s (length s) of Some nl \<Rightarrow> nl + 1 | None \<Rightarrow> 0) s)"

definition truncate_torn_tail :: "run_dir \<Rightarrow> run_dir" where
  "truncate_torn_tail d = d\<lparr>d_events := map_option truncate_bytes (d_events d)\<rparr>"

section \<open>Forward reader\<close>

text \<open>\<open>PhysicalLineReader::next_line\<close> until the end: raw lines with their terminator, and
  whether the terminator is there.\<close>

function phys_lines :: "bytes \<Rightarrow> (bytes \<times> bool) list" where
  "phys_lines s =
     (if s = [] then []
      else let l = takeWhile (\<lambda>c. c \<noteq> NL) s; r = dropWhile (\<lambda>c. c \<noteq> NL) s in
        if r = [] then [(l, False)] else (l @ [NL], True) # phys_lines (tl r))"
  by pat_completeness auto
termination
proof (relation "measure length", goal_cases)
  case (2 s l r)
  then have "length r \<le> length s" and "r \<noteq> []" by (simp_all add: length_dropWhile_le)
  then have "length (tl r) < length s" by (cases r) auto
  then show ?case by simp
qed simp

declare phys_lines.simps [simp del]

definition trim_line_end :: "bytes \<Rightarrow> bytes" where
  "trim_line_end buf =
     (if buf \<noteq> [] \<and> last buf = NL
      then (let b = butlast buf in if b \<noteq> [] \<and> last b = CR then butlast b else b)
      else buf)"

text \<open>The loop of \<open>for_each_event_probe\<close>: stop at a torn line, skip empty ones, fail on a
  complete line that does not decode, else visit with the accumulated state.\<close>

fun probe_loop ::
    "(bytes \<Rightarrow> 't option) \<Rightarrow> ('t \<Rightarrow> bytes \<Rightarrow> 's \<Rightarrow> 's res) \<Rightarrow> (bytes \<times> bool) list \<Rightarrow> 's \<Rightarrow> 's res" where
  "probe_loop de visit [] s = Inr s"
| "probe_loop de visit ((raw, whole) # ls) s =
     (let content = trim_line_end raw in
      if \<not> whole then Inr s
      else if content = [] then probe_loop de visit ls s
      else rbind (ok_or CorruptEventLog (de content)) (\<lambda>probe.
           rbind (visit probe content s) (\<lambda>s'. probe_loop de visit ls s')))"

definition for_each_event_probe ::
    "(bytes \<Rightarrow> 't option) \<Rightarrow> ('t \<Rightarrow> bytes \<Rightarrow> 's \<Rightarrow> 's res) \<Rightarrow> run_dir \<Rightarrow> 's \<Rightarrow> 's res" where
  "for_each_event_probe de visit d s = (case d_events d of
       None \<Rightarrow> Inr s
     | Some bs \<Rightarrow> probe_loop de visit (phys_lines bs) s)"

definition event_of_line :: "ext \<Rightarrow> bytes \<Rightarrow> event option" where
  "event_of_line X line = Option.bind (json_from_slice X line) (de_event X)"

definition read_all_events :: "ext \<Rightarrow> run_dir \<Rightarrow> event list res" where
  "read_all_events X d =
     for_each_event_probe (event_of_line X) (\<lambda>ev _ out. Inr (out @ [ev])) d []"

section \<open>Idempotency scan\<close>

record prior_event =
  pe_seq :: u64
  pe_node_id :: "string option"
  pe_data :: json

definition de_probe_fields :: "json \<Rightarrow> (u64 option \<times> string \<times> string option) option" where
  "de_probe_fields v = do {
     g \<leftarrow> struct_fields [(''seq'', True), (''kind'', False), (''idempotency_key'', False)] v;
     s \<leftarrow> optional de_u64 g ''seq'';
     k \<leftarrow> req de_string g ''kind'';
     i \<leftarrow> optional de_string g ''idempotency_key'';
     Some (s, k, i) }"

definition de_full_event_for_replay :: "json \<Rightarrow> prior_event option" where
  "de_full_event_for_replay v = do {
     g \<leftarrow> struct_fields [(''seq'', False), (''node_id'', False), (''data'', False)] v;
     s \<leftarrow> req de_u64 g ''seq'';
     n \<leftarrow> optional de_string g ''node_id'';
     d \<leftarrow> req Some g ''data'';
     Some \<lparr>pe_seq = s, pe_node_id = n, pe_data = d\<rparr> }"

fun find_prior_loop ::
    "ext \<Rightarrow> string \<Rightarrow> string \<Rightarrow> (bytes \<times> bool) list \<Rightarrow> prior_event option res" where
  "find_prior_loop X k key [] = Inr None"
| "find_prior_loop X k key ((raw, whole) # ls) =
     (let content = trim_line_end raw in
      if \<not> whole then Inr None
      else if content = [] then find_prior_loop X k key ls
      else rbind (ok_or CorruptEventLog (Option.bind (json_from_slice X content) de_probe_fields))
        (\<lambda>(_, probe_kind, probe_key).
          if probe_kind \<noteq> k \<or> probe_key \<noteq> Some key then find_prior_loop X k key ls
          else rbind (ok_or CorruptEventLog
                 (Option.bind (json_from_slice X content) de_full_event_for_replay))
               (\<lambda>full. Inr (Some full))))"

definition find_prior_with_key :: "ext \<Rightarrow> run_dir \<Rightarrow> string \<Rightarrow> string \<Rightarrow> prior_event option res" where
  "find_prior_with_key X d k key =
     rbind (checked_events d) (\<lambda>_.
     case d_events d of
       None \<Rightarrow> Inr None
     | Some bs \<Rightarrow> find_prior_loop X k key (phys_lines bs))"

section \<open>Quarantine\<close>

record quarantine =
  q_backup_ts :: string
  q_removed_byte_offsets :: "nat list"

definition line_corrupt :: "ext \<Rightarrow> bytes \<times> bool \<Rightarrow> bool" where
  "line_corrupt X l = (case l of (raw, whole) \<Rightarrow>
     whole \<and> trim_line_end raw \<noteq> [] \<and> event_of_line X (trim_line_end raw) = None)"

fun quarantine_loop ::
    "ext \<Rightarrow> (bytes \<times> bool) list \<Rightarrow> bytes \<Rightarrow> nat list \<Rightarrow> nat \<Rightarrow> bytes \<times> nat list" where
  "quarantine_loop X [] recovered removed offset = (recovered, removed)"
| "quarantine_loop X (l # ls) recovered removed offset =
     (if line_corrupt X l
      then quarantine_loop X ls recovered (removed @ [offset]) (offset + length (fst l))
      else quarantine_loop X ls (recovered @ fst l) removed (offset + length (fst l)))"

definition quarantine_corrupt_lines_unlocked ::
    "ext \<Rightarrow> string \<Rightarrow> run_dir \<Rightarrow> (quarantine option \<times> run_dir) res" where
  "quarantine_corrupt_lines_unlocked X backup_ts d =
     rbind (checked_events d) (\<lambda>_.
     case d_events d of
       None \<Rightarrow> Inr (None, d)
     | Some raw \<Rightarrow>
         (let (recovered, removed) = quarantine_loop X (phys_lines raw) [] [] 0 in
          if removed = [] then Inr (None, d)
          else Inr (Some \<lparr>q_backup_ts = backup_ts, q_removed_byte_offsets = removed\<rparr>,
            d\<lparr>d_events := Some recovered,
              d_backups := AList.update backup_ts raw (d_backups d)\<rparr>)))"

end
