(* ===== verification/Report.thy ===== *)
theory Report
  imports Schema
begin

text \<open>
  \<open>report.rs\<close>: the typed author of a terminal report, the predicate that decides whether a
  report is a confirmed merge, the strict validator of a report payload and the lenient
  sanitizer that drops malformed advisory parts.
\<close>

section \<open>Report origin\<close>

datatype report_origin =
    OriginAgent
  | OriginSupervisor
  | OriginRunMerge "string option" "string option" "string option"
    \<comment> \<open>\<open>op_id\<close>, \<open>worker_oid\<close>, \<open>integrated_oid\<close>\<close>

abbreviation REPORT_ORIGIN_KEY :: string where
  "REPORT_ORIGIN_KEY \<equiv> ''origin''"

abbreviation VIA_EXPLICIT_MERGE :: string where
  "VIA_EXPLICIT_MERGE \<equiv> ''explicit-merge''"

definition run_merge_fields :: "(string \<times> bool) list" where
  "run_merge_fields = [(''op_id'', True), (''worker_oid'', True), (''integrated_oid'', True)]"

definition de_run_merge :: "json \<Rightarrow> report_origin option" where
  "de_run_merge v = do {
     g \<leftarrow> struct_fields run_merge_fields v;
     oper \<leftarrow> optional de_string g ''op_id'';
     w \<leftarrow> optional de_string g ''worker_oid'';
     i \<leftarrow> optional de_string g ''integrated_oid'';
     Some (OriginRunMerge oper w i) }"

text \<open>The internally tagged decoding: the tag under \<open>kind\<close> of an object, or first in an array.\<close>

definition de_report_origin :: "json \<Rightarrow> report_origin option" where
  "de_report_origin v = (case v of
       Object m \<Rightarrow> (case map_of m ''kind'' of
           Some (String t) \<Rightarrow>
             if t = ''agent'' then Some OriginAgent
             else if t = ''supervisor'' then Some OriginSupervisor
             else if t = ''run-merge'' then de_run_merge (Object (map_remove ''kind'' m))
             else None
         | _ \<Rightarrow> None)
     | Array (String t # rest) \<Rightarrow>
         if t = ''agent'' then (if rest = [] then Some OriginAgent else None)
         else if t = ''supervisor'' then (if rest = [] then Some OriginSupervisor else None)
         else if t = ''run-merge'' then de_run_merge (Array rest)
         else None
     | _ \<Rightarrow> None)"

definition opt_entry :: "string \<Rightarrow> string option \<Rightarrow> (string \<times> json) list" where
  "opt_entry k x = (case x of None \<Rightarrow> [] | Some s \<Rightarrow> [(k, String s)])"

definition report_origin_json :: "report_origin \<Rightarrow> json" where
  "report_origin_json og = (case og of
       OriginAgent \<Rightarrow> Object [(''kind'', String ''agent'')]
     | OriginSupervisor \<Rightarrow> Object [(''kind'', String ''supervisor'')]
     | OriginRunMerge oper w i \<Rightarrow> Object (opt_entry ''integrated_oid'' i @
         [(''kind'', String ''run-merge'')] @ opt_entry ''op_id'' oper @ opt_entry ''worker_oid'' w))"

definition from_report :: "json \<Rightarrow> report_origin option" where
  "from_report report = Option.bind (get report REPORT_ORIGIN_KEY) de_report_origin"

definition is_run_merge :: "report_origin \<Rightarrow> bool" where
  "is_run_merge og = (case og of OriginRunMerge _ _ _ \<Rightarrow> True | _ \<Rightarrow> False)"

definition report_is_confirmed_merge :: "json \<Rightarrow> bool" where
  "report_is_confirmed_merge report =
     (let success = (get report ''success'' = Some (Bool True));
          not_cancelled = (case get report ''cancelled'' of
             None \<Rightarrow> True | Some Null \<Rightarrow> True | Some (Bool b) \<Rightarrow> \<not> b | _ \<Rightarrow> False)
      in if \<not> (success \<and> not_cancelled) then False
         else
           let is_run_merge_origin = (case from_report report of
                 Some og \<Rightarrow> is_run_merge og | None \<Rightarrow> False);
               origin_present = (get report REPORT_ORIGIN_KEY \<noteq> None);
               legacy_via_merge = (\<not> origin_present \<and> get_str report ''via'' = Some VIA_EXPLICIT_MERGE)
           in is_run_merge_origin \<or> legacy_via_merge)"

definition permits_terminal_merge_recovery :: "status \<Rightarrow> json \<Rightarrow> bool" where
  "permits_terminal_merge_recovery s report \<longleftrightarrow>
     s \<in> {Failed, Done} \<and> report_is_confirmed_merge report"

definition stamp :: "report_origin \<Rightarrow> json \<Rightarrow> json" where
  "stamp og report = (case report of
       Object m \<Rightarrow> Object (map_insert REPORT_ORIGIN_KEY (report_origin_json og) m)
     | _ \<Rightarrow> report)"

section \<open>Strict validation\<close>

datatype report_error =
    NotObject
  | MissingSuccess
  | SuccessNotBoolean
  | SummaryNotString
  | CancelledNotBoolean
  | ReasonNotString
  | CancelledRequiresSuccessFalse
  | CancelledRequiresReason
  | DiscussionItemsNotArray
  | DiscussionItemNotObject nat
  | DiscussionItemTopicMissing nat
  | DiscussionItemSeverityNotString nat
  | SpinoffProposalsNotArray
  | SpinoffProposalNotObject nat
  | SpinoffProposalTitleMissing nat
  | SpinoffProposalKindNotString nat
  | SpinoffProposalKindUnknown nat string
  | SpinoffProposalRationaleNotString nat
  | FieldNotArray string
  | FieldElementNotString string nat
  | PathNotArray nat          \<comment> \<open>the \<open>options\<close> of the discussion item with this index\<close>
  | PathElementNotString nat nat

definition validate_required_fields :: "(string \<times> json) list \<Rightarrow> report_error + unit" where
  "validate_required_fields obj =
     rbind (ok_or MissingSuccess (map_of obj ''success'')) (\<lambda>success.
     rbind (ensure (is_boolean success) SuccessNotBoolean) (\<lambda>_.
     rbind (case map_of obj ''cancelled'' of
              None \<Rightarrow> Inr False
            | Some v \<Rightarrow> if v = Null then Inr False else ok_or CancelledNotBoolean (as_bool v)) (\<lambda>cancelled.
     rbind (case map_of obj ''reason'' of
              None \<Rightarrow> Inr None
            | Some v \<Rightarrow> if v = Null then Inr None
                        else rbind (ok_or ReasonNotString (as_str v)) (\<lambda>s. Inr (Some s))) (\<lambda>reason.
     if cancelled then
       (if as_bool success = Some True then Inl CancelledRequiresSuccessFalse
        else case reason of
            Some s \<Rightarrow> if trim s \<noteq> [] then Inr () else Inl CancelledRequiresReason
          | None \<Rightarrow> Inl CancelledRequiresReason)
     else Inr ()))))"

definition validate_string_array_at :: "json \<Rightarrow> nat \<Rightarrow> report_error + unit" where
  "validate_string_array_at v index =
     rbind (ok_or (PathNotArray index) (as_array v)) (\<lambda>arr.
     for_each (\<lambda>(i, item). ensure (is_string item) (PathElementNotString index i)) (enumerate 0 arr))"

definition validate_discussion_item :: "json \<Rightarrow> nat \<Rightarrow> report_error + unit" where
  "validate_discussion_item item index =
     rbind (ok_or (DiscussionItemNotObject index) (as_object item)) (\<lambda>obj.
     let topic = Option.bind (map_of obj ''topic'') as_str in
     if (case topic of None \<Rightarrow> True | Some t \<Rightarrow> trim t = []) then Inl (DiscussionItemTopicMissing index)
     else
       rbind (case map_of obj ''severity'' of
                None \<Rightarrow> Inr ()
              | Some sev \<Rightarrow> ensure (is_string sev) (DiscussionItemSeverityNotString index)) (\<lambda>_.
       case map_of obj ''options'' of
         None \<Rightarrow> Inr ()
       | Some opts \<Rightarrow> validate_string_array_at opts index))"

definition validate_spinoff_proposal :: "json \<Rightarrow> nat \<Rightarrow> report_error + unit" where
  "validate_spinoff_proposal item index =
     rbind (ok_or (SpinoffProposalNotObject index) (as_object item)) (\<lambda>obj.
     let title = Option.bind (map_of obj ''proposed_title'') as_str in
     if (case title of None \<Rightarrow> True | Some t \<Rightarrow> trim t = []) then Inl (SpinoffProposalTitleMissing index)
     else
       rbind (ok_or (SpinoffProposalKindNotString index)
                (Option.bind (map_of obj ''proposed_kind'') as_str)) (\<lambda>kind_str.
       if kind_str \<notin> set WIRE_NAMES then Inl (SpinoffProposalKindUnknown index kind_str)
       else case map_of obj ''rationale'' of
           None \<Rightarrow> Inr ()
         | Some r \<Rightarrow> ensure (is_string r \<or> r = Null) (SpinoffProposalRationaleNotString index)))"

definition validate_elements ::
    "report_error \<Rightarrow> (json \<Rightarrow> nat \<Rightarrow> report_error + unit) \<Rightarrow> json option \<Rightarrow> report_error + unit" where
  "validate_elements not_array validate v = (case v of
       None \<Rightarrow> Inr ()
     | Some (Array a) \<Rightarrow> for_each (\<lambda>(i, item). validate item i) (enumerate 0 a)
     | Some _ \<Rightarrow> Inl not_array)"

definition validate_discussion_items :: "json option \<Rightarrow> report_error + unit" where
  "validate_discussion_items = validate_elements DiscussionItemsNotArray validate_discussion_item"

definition validate_spinoff_proposals :: "json option \<Rightarrow> report_error + unit" where
  "validate_spinoff_proposals = validate_elements SpinoffProposalsNotArray validate_spinoff_proposal"

definition string_element :: "string \<Rightarrow> json \<Rightarrow> nat \<Rightarrow> report_error + unit" where
  "string_element field item i = ensure (is_string item) (FieldElementNotString field i)"

definition validate_string_array :: "json option \<Rightarrow> string \<Rightarrow> report_error + unit" where
  "validate_string_array v field =
     validate_elements (FieldNotArray field) (string_element field) v"

definition summary_ok :: "json option \<Rightarrow> bool" where
  "summary_ok v = (case v of None \<Rightarrow> True | Some v \<Rightarrow> is_string v \<or> v = Null)"

definition validate_report_payload :: "json \<Rightarrow> report_error + unit" where
  "validate_report_payload data =
     rbind (ok_or NotObject (as_object data)) (\<lambda>obj.
     rbind (validate_required_fields obj) (\<lambda>_.
     rbind (ensure (summary_ok (map_of obj ''summary'')) SummaryNotString) (\<lambda>_.
     rbind (validate_discussion_items (map_of obj ''discussion_items'')) (\<lambda>_.
     rbind (validate_spinoff_proposals (map_of obj ''spinoff_proposals'')) (\<lambda>_.
     validate_string_array (map_of obj ''wrap_up_recommendations'') ''wrap_up_recommendations'')))))"

section \<open>Lenient sanitization\<close>

record advisory_warning =
  aw_field :: string
  aw_index :: "nat option"
  aw_reason :: report_error

record sanitized_report =
  sr_report :: json
  sr_warnings :: "advisory_warning list"

text \<open>
  One advisory array field in place: a field that is not an array is dropped whole, an element
  that fails is dropped alone; the indices of the warnings are the original positions. The
  string-array variant of the sources is the instance whose element check is
  \<open>string_element\<close>.
\<close>

definition sanitize_element_array ::
    "string \<Rightarrow> report_error \<Rightarrow> (json \<Rightarrow> nat \<Rightarrow> report_error + unit) \<Rightarrow>
     (string \<times> json) list \<times> advisory_warning list \<Rightarrow> (string \<times> json) list \<times> advisory_warning list" where
  "sanitize_element_array field not_array validate st = (case st of (obj, warnings) \<Rightarrow>
     (case map_of obj field of
        None \<Rightarrow> (obj, warnings)
      | Some (Array arr) \<Rightarrow>
          (map_insert field
             (Array (map snd (filter (\<lambda>(i, item). validate item i = Inr ()) (enumerate 0 arr)))) obj,
           warnings @ List.map_filter (\<lambda>(i, item). case validate item i of
               Inr _ \<Rightarrow> None
             | Inl e \<Rightarrow> Some \<lparr>aw_field = field, aw_index = Some i, aw_reason = e\<rparr>) (enumerate 0 arr))
      | Some _ \<Rightarrow>
          (map_remove field obj,
           warnings @ [\<lparr>aw_field = field, aw_index = None, aw_reason = not_array\<rparr>])))"

definition sanitize_string_array_field ::
    "string \<Rightarrow> (string \<times> json) list \<times> advisory_warning list \<Rightarrow>
     (string \<times> json) list \<times> advisory_warning list" where
  "sanitize_string_array_field field =
     sanitize_element_array field (FieldNotArray field) (string_element field)"

definition sanitize_summary :: "(string \<times> json) list \<Rightarrow> (string \<times> json) list \<times> advisory_warning list" where
  "sanitize_summary obj =
     (if summary_ok (map_of obj ''summary'') then (obj, [])
      else (map_remove ''summary'' obj,
            [\<lparr>aw_field = ''summary'', aw_index = None, aw_reason = SummaryNotString\<rparr>]))"

definition sanitize_report_advisory :: "json \<Rightarrow> report_error + sanitized_report" where
  "sanitize_report_advisory data =
     rbind (ok_or NotObject (as_object data)) (\<lambda>obj.
     rbind (validate_required_fields obj) (\<lambda>_.
     let st = sanitize_summary obj;
         st = sanitize_element_array ''discussion_items'' DiscussionItemsNotArray
                validate_discussion_item st;
         st = sanitize_element_array ''spinoff_proposals'' SpinoffProposalsNotArray
                validate_spinoff_proposal st;
         st = sanitize_string_array_field ''wrap_up_recommendations'' st
     in Inr \<lparr>sr_report = Object (fst st), sr_warnings = snd st\<rparr>))"

end
