(* ===== verification/Node_Status.thy ===== *)
theory Node_Status
  imports Event_Log Report
begin

text \<open>
  The log-derived status of every node (\<open>cancel.rs\<close>): the probe decoded of each line, the
  accumulator that mirrors the reducer's terminal guard, and the streaming folds over the
  event log that feed cancellation, the supervisor's roll-up and the recovery check of
  \<open>run.status\<close>.
\<close>

section \<open>Probes\<close>

record cancel_probe_data =
  pd_status :: "json option"
  pd_success :: "json option"
  pd_cancelled :: "json option"
  pd_via :: "json option"
  pd_origin :: "json option"  \<comment> \<open>\<open>OriginProbe\<close>: \<open>Some v\<close> when the key is present, \<open>null\<close> included\<close>

definition probe_data_default :: cancel_probe_data where
  "probe_data_default = \<lparr>pd_status = None, pd_success = None, pd_cancelled = None, pd_via = None,
     pd_origin = None\<rparr>"

definition de_cancel_probe_data :: "json \<Rightarrow> cancel_probe_data option" where
  "de_cancel_probe_data v = do {
     g \<leftarrow> struct_fields [(''status'', True), (''success'', True), (''cancelled'', True),
        (''via'', True), (''origin'', True)] v;
     st \<leftarrow> optional Some g ''status'';
     su \<leftarrow> optional Some g ''success'';
     c \<leftarrow> optional Some g ''cancelled'';
     vi \<leftarrow> optional Some g ''via'';
     Some \<lparr>pd_status = st, pd_success = su, pd_cancelled = c, pd_via = vi,
       pd_origin = g ''origin''\<rparr> }"

record cancel_probe =
  cp_seq :: u64
  cp_kind :: string
  cp_node_id :: "node_id option"
  cp_idempotency_key :: "string option"
  cp_data :: cancel_probe_data

definition de_cancel_probe :: "json \<Rightarrow> cancel_probe option" where
  "de_cancel_probe v = do {
     g \<leftarrow> struct_fields [(''seq'', False), (''kind'', False), (''node_id'', True),
        (''idempotency_key'', True), (''data'', True)] v;
     s \<leftarrow> req de_u64 g ''seq'';
     k \<leftarrow> req de_string g ''kind'';
     n \<leftarrow> optional de_node_id g ''node_id'';
     i \<leftarrow> optional de_string g ''idempotency_key'';
     d \<leftarrow> defaulted probe_data_default de_cancel_probe_data g ''data'';
     Some \<lparr>cp_seq = s, cp_kind = k, cp_node_id = n, cp_idempotency_key = i, cp_data = d\<rparr> }"

definition de_event_seq_probe :: "json \<Rightarrow> u64 option" where
  "de_event_seq_probe v = Option.bind (struct_fields [(''seq'', False)] v) (\<lambda>g. req de_u64 g ''seq'')"

text \<open>The report rebuilt from a probe: only the fields the merge predicate reads.\<close>

definition probe_entry :: "string \<Rightarrow> json option \<Rightarrow> (string \<times> json) list" where
  "probe_entry k x = (case x of None \<Rightarrow> [] | Some v \<Rightarrow> [(k, v)])"

definition report_value :: "cancel_probe_data \<Rightarrow> json" where
  "report_value d = Object (probe_entry ''cancelled'' (pd_cancelled d) @
     probe_entry ''origin'' (pd_origin d) @ probe_entry ''success'' (pd_success d) @
     probe_entry ''via'' (pd_via d))"

section \<open>The accumulator\<close>

record node_status_acc =
  acc_order :: "node_id list"
  acc_status :: "node_id \<rightharpoonup> status"
  acc_confirmed_merge_seq :: "node_id \<rightharpoonup> u64"

definition acc_default :: node_status_acc where
  "acc_default = \<lparr>acc_order = [], acc_status = Map.empty, acc_confirmed_merge_seq = Map.empty\<rparr>"

definition parse_status :: "string \<Rightarrow> status option" where
  "parse_status s = de_status (String s)"

definition lenient_report_status :: "bool option \<Rightarrow> bool option \<Rightarrow> status option" where
  "lenient_report_status success cancelled =
     (if cancelled = Some True then (if success = Some True then None else Some Cancelled)
      else case success of
          Some True \<Rightarrow> Some Done
        | Some False \<Rightarrow> Some Failed
        | None \<Rightarrow> None)"

definition observe_created :: "node_id \<Rightarrow> node_status_acc \<Rightarrow> node_status_acc" where
  "observe_created nid acc =
     (if acc_status acc nid = None
      then acc\<lparr>acc_order := acc_order acc @ [nid],
               acc_status := (acc_status acc)(nid \<mapsto> Pending)\<rparr>
      else acc)"

definition observe_status :: "node_id \<Rightarrow> cancel_probe_data \<Rightarrow> node_status_acc \<Rightarrow> node_status_acc" where
  "observe_status nid d acc = (case acc_status acc nid of
       None \<Rightarrow> acc
     | Some cur \<Rightarrow>
         if is_terminal cur then acc
         else case Option.bind (Option.bind (pd_status d) as_str) parse_status of
             None \<Rightarrow> acc
           | Some ns \<Rightarrow> acc\<lparr>acc_status := (acc_status acc)(nid \<mapsto> ns)\<rparr>)"

definition observe_report ::
    "node_id \<Rightarrow> u64 \<Rightarrow> cancel_probe_data \<Rightarrow> node_status_acc \<Rightarrow> node_status_acc" where
  "observe_report nid seq d acc = (case acc_status acc nid of
       None \<Rightarrow> acc
     | Some cur \<Rightarrow>
         (let report = report_value d in
          if is_terminal cur then
            (if permits_terminal_merge_recovery cur report
             then acc\<lparr>acc_status := (acc_status acc)(nid \<mapsto> Done),
                      acc_confirmed_merge_seq := (acc_confirmed_merge_seq acc)(nid \<mapsto> seq)\<rparr>
             else acc)
          else case lenient_report_status (Option.bind (pd_success d) as_bool)
                      (Option.bind (pd_cancelled d) as_bool) of
              None \<Rightarrow> acc
            | Some ns \<Rightarrow>
                acc\<lparr>acc_status := (acc_status acc)(nid \<mapsto> ns),
                    acc_confirmed_merge_seq :=
                      (if ns = Done \<and> report_is_confirmed_merge report
                       then (acc_confirmed_merge_seq acc)(nid \<mapsto> seq)
                       else acc_confirmed_merge_seq acc)\<rparr>))"

definition observe :: "cancel_probe \<Rightarrow> node_status_acc \<Rightarrow> node_status_acc" where
  "observe p acc = (case cp_node_id p of
       None \<Rightarrow> acc
     | Some nid \<Rightarrow>
         if cp_kind p = ''node.created'' then observe_created nid acc
         else if cp_kind p = ''node.status'' then observe_status nid (cp_data p) acc
         else if cp_kind p = ''node.report'' then observe_report nid (cp_seq p) (cp_data p) acc
         else acc)"

section \<open>Results\<close>

text \<open>\<open>str::parse::<u64>\<close>: an optional \<open>+\<close>, then digits, within range.\<close>

definition digits_value :: "string \<Rightarrow> nat" where
  "digits_value s = foldl (\<lambda>a c. 10 * a + (of_char c - 48)) 0 s"

definition parse_u64 :: "string \<Rightarrow> u64 option" where
  "parse_u64 s =
     (let b = (case s of c # r \<Rightarrow> if c = CHR ''+'' then r else s | [] \<Rightarrow> s) in
      if b \<noteq> [] \<and> list_all is_ascii_digit b \<and> digits_value b < 2 ^ 64
      then Some (of_nat (digits_value b)) else None)"

definition node_number :: "node_id \<Rightarrow> u64" where
  "node_number nid =
     (case Option.bind (strip_prefix ''n-'' (node_id_str nid)) parse_u64 of
        Some n \<Rightarrow> n | None \<Rightarrow> 0)"

record node_status_fact =
  nf_node_id :: node_id
  nf_status :: status
  nf_confirmed_merge_seq :: "u64 option"

text \<open>\<open>self.status[&id]\<close> panics on an id without a status; every id of \<open>order\<close> has one
  (\<open>acc_ok\<close> in \<open>Status_Facts\<close>), so the default is never taken.\<close>

definition finish_facts :: "node_status_acc \<Rightarrow> node_status_fact list" where
  "finish_facts acc = map (\<lambda>nid. \<lparr>nf_node_id = nid,
       nf_status = (case acc_status acc nid of Some s \<Rightarrow> s | None \<Rightarrow> Pending),
       nf_confirmed_merge_seq = acc_confirmed_merge_seq acc nid\<rparr>)
     (sort_key node_number (acc_order acc))"

definition finish :: "node_status_acc \<Rightarrow> (node_id \<times> status) list" where
  "finish acc = map (\<lambda>f. (nf_node_id f, nf_status f)) (finish_facts acc)"

definition probe_of_line :: "ext \<Rightarrow> bytes \<Rightarrow> cancel_probe option" where
  "probe_of_line X line = Option.bind (json_from_slice X line) de_cancel_probe"

definition read_node_status_facts ::
    "ext \<Rightarrow> run_dir \<Rightarrow> u64 option \<Rightarrow> node_status_fact list res" where
  "read_node_status_facts X d before_seq =
     rbind (checked_events d) (\<lambda>_.
     rbind (for_each_event_probe
       (\<lambda>line. Option.bind (json_from_slice X line) de_event_seq_probe)
       (\<lambda>seq raw acc.
          if (case before_seq of None \<Rightarrow> True | Some bound \<Rightarrow> seq < bound)
          then rbind (ok_or CorruptEventLog (probe_of_line X raw)) (\<lambda>probe. Inr (observe probe acc))
          else Inr acc)
       d acc_default) (\<lambda>acc. Inr (finish_facts acc)))"

definition read_node_statuses :: "ext \<Rightarrow> run_dir \<Rightarrow> (node_id \<times> status) list res" where
  "read_node_statuses X d =
     rbind (read_node_status_facts X d None) (\<lambda>fs.
     Inr (map (\<lambda>f. (nf_node_id f, nf_status f)) fs))"

end
