(* ===== verification/Reducer.thy ===== *)
theory Reducer
  imports Node_Status
begin

text \<open>
  The event-to-projection reducer (\<open>reducer.rs\<close>): the payload readers, one planning function
  per event kind, their dispatch, and the commit of planned writes. A reducer reads the
  projections of the run directory, validates the event and returns the projection writes it
  implies; it never writes. Run-level kinds and spawn data first, then nodes, callers,
  workers, merges and residents.
\<close>

datatype projection_op = OpManifest manifest | OpNode node

type_synonym reducer = "ext \<Rightarrow> run_id \<Rightarrow> run_dir \<Rightarrow> event \<Rightarrow> projection_op list res"

section \<open>Payload readers\<close>

definition opt_id :: "(string \<Rightarrow> id_error + 'a) \<Rightarrow> json \<Rightarrow> string \<Rightarrow> 'a option res" where
  "opt_id parse d field = (case get d field of
       None \<Rightarrow> Inr None
     | Some Null \<Rightarrow> Inr None
     | Some (String s) \<Rightarrow> (case parse s of Inl _ \<Rightarrow> Inl CorruptEventLog | Inr i \<Rightarrow> Inr (Some i))
     | Some _ \<Rightarrow> Inl CorruptEventLog)"

definition opt_run_id :: "json \<Rightarrow> string \<Rightarrow> run_id option res" where
  "opt_run_id = opt_id RunId_parse_str"

definition opt_node_id :: "json \<Rightarrow> string \<Rightarrow> node_id option res" where
  "opt_node_id = opt_id NodeId_parse_str"

definition get_or_null :: "json \<Rightarrow> string \<Rightarrow> json" where
  "get_or_null d field = (case get d field of None \<Rightarrow> Null | Some v \<Rightarrow> v)"

definition data_kind :: "json \<Rightarrow> kind option" where
  "data_kind v = filter_opt (\<lambda>k. k \<noteq> Unknown) (de_kind v)"

definition data_status :: "json \<Rightarrow> status option" where
  "data_status v = de_status v"

definition require_status :: "event \<Rightarrow> status res" where
  "require_status ev = ok_or CorruptEventLog (data_status (get_or_null (ev_data ev) ''status''))"

definition want_str :: "json \<Rightarrow> string \<Rightarrow> string res" where
  "want_str d field = ok_or CorruptEventLog (get_str d field)"

definition optional_bool :: "json \<Rightarrow> string \<Rightarrow> bool option res" where
  "optional_bool d field = (case get d field of
       None \<Rightarrow> Inr None
     | Some Null \<Rightarrow> Inr None
     | Some (Bool b) \<Rightarrow> Inr (Some b)
     | Some _ \<Rightarrow> Inl CorruptEventLog)"

definition optional_i32 :: "json \<Rightarrow> string \<Rightarrow> int option res" where
  "optional_i32 d field = (case get d field of
       None \<Rightarrow> Inr None
     | Some v \<Rightarrow>
         if v = Null then Inr None
         else rbind (ok_or CorruptEventLog (as_i64 v)) (\<lambda>raw.
              rbind (ok_or CorruptEventLog (try_i32 raw)) (\<lambda>i. Inr (Some i))))"

definition optional_ts :: "ext \<Rightarrow> json \<Rightarrow> string \<Rightarrow> time option res" where
  "optional_ts X d field = (case get d field of
       None \<Rightarrow> Inr None
     | Some Null \<Rightarrow> Inr None
     | Some (String s) \<Rightarrow> (case parse_from_rfc3339 X s of
           Some t \<Rightarrow> Inr (Some t) | None \<Rightarrow> Inl CorruptEventLog)
     | Some _ \<Rightarrow> Inl CorruptEventLog)"

definition require_envelope_node_id :: "event \<Rightarrow> node_id res" where
  "require_envelope_node_id ev = ok_or CorruptEventLog (ev_node_id ev)"

definition nonempty_str :: "json \<Rightarrow> string \<Rightarrow> string option" where
  "nonempty_str d field = filter_opt (\<lambda>s. s \<noteq> []) (get_str d field)"

text \<open>The pattern \<open>match read_node_opt(..)? { Some(n) => .., None => return Ok(vec![]) }\<close>.\<close>

definition with_node ::
    "run_id \<Rightarrow> run_dir \<Rightarrow> node_id \<Rightarrow> (node \<Rightarrow> projection_op list res) \<Rightarrow> projection_op list res" where
  "with_node rid d nid f =
     rbind (read_node_opt rid d nid) (\<lambda>no. case no of None \<Rightarrow> Inr [] | Some n \<Rightarrow> f n)"

section \<open>Run-level kinds\<close>

definition retention_policy_from_data :: "json \<Rightarrow> tmux_retention_policy option res" where
  "retention_policy_from_data data = (case get data ''tmux_retention'' of
       None \<Rightarrow> Inr None
     | Some v \<Rightarrow>
         rbind (ok_or CorruptEventLog (de_tmux_retention_policy v)) (\<lambda>policy.
         if \<not> tr_persistent policy \<or> tr_completed_window_ttl_secs policy = 0
            \<or> tr_completed_window_max policy = 0
         then Inl CorruptEventLog else Inr (Some policy)))"

definition resident_policy_from_data :: "json \<Rightarrow> resident_policy option res" where
  "resident_policy_from_data d = (case filter_opt (\<lambda>v. v \<noteq> Null) (get d ''resident'') of
       None \<Rightarrow> Inr None
     | Some raw \<Rightarrow>
         rbind (ok_or CorruptEventLog (de_resident_policy raw)) (\<lambda>policy.
         rbind (ensure (ResidentPolicy_validate_name (rp_name policy)) CorruptEventLog) (\<lambda>_.
         if rp_idle_expiry_secs policy = 0 then Inl CorruptEventLog else Inr (Some policy))))"

definition agent_selection_from_data :: "json \<Rightarrow> agent_selection option res" where
  "agent_selection_from_data d = (case get d ''agent_selection'' of
       None \<Rightarrow> Inr None
     | Some v \<Rightarrow>
         rbind (ok_or CorruptEventLog (de_agent_selection v)) (\<lambda>sel.
         rbind (ensure (AgentSelection_validate sel) CorruptEventLog) (\<lambda>_. Inr (Some sel))))"

definition agent_owner_from_data :: "json \<Rightarrow> agent_owner res" where
  "agent_owner_from_data d = (case get d ''agent_owner'' of
       None \<Rightarrow> Inr Taskfleet
     | Some v \<Rightarrow> ok_or CorruptEventLog (de_agent_owner v))"

definition reduce_run_created :: reducer where
  "reduce_run_created X rid dir ev =
     rbind (read_manifest_opt rid dir) (\<lambda>existing.
     case existing of
       Some m \<Rightarrow> if m_run_id m \<noteq> ev_run_id ev then Inl CorruptEventLog else Inr []
     | None \<Rightarrow>
       (let d = ev_data ev in
        rbind (ok_or CorruptEventLog (data_kind (get_or_null d ''kind''))) (\<lambda>kind.
        rbind (ok_or CorruptEventLog (de_lifecycle (get_or_null d ''lifecycle''))) (\<lambda>lifecycle.
        rbind (want_str d ''title'') (\<lambda>title.
        rbind (agent_selection_from_data d) (\<lambda>agent_selection.
        rbind (agent_owner_from_data d) (\<lambda>agent_owner.
        rbind (retention_policy_from_data d) (\<lambda>tmux_retention.
        rbind (opt_run_id d ''created_by_run_id'') (\<lambda>created_by_run_id.
        rbind (ok_or CorruptEventLog (de_option de_creator_session
                 (get_or_null d ''created_by_session''))) (\<lambda>created_by_session.
        rbind (opt_run_id d ''parent_run_id'') (\<lambda>parent_run_id.
        rbind (opt_node_id d ''parent_node_id'') (\<lambda>parent_node_id.
        rbind (resident_policy_from_data d) (\<lambda>resident.
        Inr [OpManifest \<lparr>
          m_schema_version = STATE_SCHEMA_VERSION,
          m_applied_seq = 0,
          m_run_id = rid,
          m_kind = kind,
          m_lifecycle = lifecycle,
          m_agent_owner = agent_owner,
          m_caller_settlement_intent = None,
          m_title = title,
          m_status = Pending,
          m_created_at = ev_ts ev,
          m_updated_at = ev_ts ev,
          m_source_repo = get_str d ''source_repo'',
          m_source_branch = get_str d ''source_branch'',
          m_worktree_root = get_str d ''worktree_root'',
          m_managed_tmux_session = get_str d ''managed_tmux_session'',
          m_tmux_retention = tmux_retention,
          m_notify_cmd = get_str d ''notify_cmd'',
          m_harness = get_str d ''harness'',
          m_agent_selection = agent_selection,
          m_node_count = 0,
          m_created_by_run_id = created_by_run_id,
          m_created_by_session = created_by_session,
          m_parent_run_id = parent_run_id,
          m_parent_node_id = parent_node_id,
          m_resident = resident\<rparr>]))))))))))))) "

text \<open>The one way out of a terminal run: \<open>Failed\<close> to \<open>Done\<close>, authorized by an adopted merge
  report that precedes this event in the log.\<close>

definition recovery_allowed :: "ext \<Rightarrow> run_dir \<Rightarrow> event \<Rightarrow> status \<Rightarrow> status \<Rightarrow> bool" where
  "recovery_allowed X dir ev cur new_status \<longleftrightarrow>
     (let recovery_seq = get_u64 (ev_data ev) ''recovery_merge_report_seq'';
          children_successful = (get_bool (ev_data ev) ''children_successful'' = Some True)
      in cur = Failed \<and> new_status = Done \<and> children_successful \<and>
         (case recovery_seq of
            None \<Rightarrow> False
          | Some wanted \<Rightarrow> (case read_node_status_facts X dir (Some (ev_seq ev)) of
                Inl _ \<Rightarrow> False
              | Inr facts \<Rightarrow>
                  aggregate_terminal_status (map nf_status facts) = Some Done \<and>
                  list_ex (\<lambda>f. nf_confirmed_merge_seq f = Some wanted) facts)))"

definition reduce_run_status :: reducer where
  "reduce_run_status X rid dir ev =
     rbind (read_manifest_opt rid dir) (\<lambda>mo.
     case mo of
       None \<Rightarrow> Inr []
     | Some m \<Rightarrow>
         rbind (require_status ev) (\<lambda>new_status.
         if is_terminal (m_status m) \<and> \<not> recovery_allowed X dir ev (m_status m) new_status
         then Inr []
         else if m_status m = new_status then Inr []
         else Inr [OpManifest (m\<lparr>m_status := new_status, m_updated_at := ev_ts ev\<rparr>)]))"

section \<open>Spawn data\<close>

definition tmux_identity_from_data :: "json \<Rightarrow> tmux_identity option" where
  "tmux_identity_from_data d =
     (let nonempty = (\<lambda>key. filter_opt (\<lambda>s. s \<noteq> []) (map_option trim (get_str d key))) in
      Option.bind (nonempty ''tmux_session'') (\<lambda>session.
      Option.bind (nonempty ''tmux_window_id'') (\<lambda>window_id.
      Some \<lparr>ti_socket = nonempty ''tmux_socket'',
        ti_session = session,
        ti_window_id = window_id,
        ti_pane_id = nonempty ''tmux_pane_id'',
        ti_server_pid = Option.bind (get_u64 d ''tmux_server_pid'') try_u32,
        ti_server_pid_start_secs = get_u64 d ''tmux_server_pid_start_secs'',
        ti_server_marker = nonempty ''tmux_server_marker''\<rparr>)))"

definition start_identity_from_data :: "json \<Rightarrow> string option" where
  "start_identity_from_data d = nonempty_str d ''agent_pid_start_identity''"

definition non_null :: "json option \<Rightarrow> bool" where
  "non_null x \<longleftrightarrow> x \<noteq> None \<and> x \<noteq> Some Null"

definition worker_evidence_from_spawn_data :: "event \<Rightarrow> json \<Rightarrow> worker_evidence option res" where
  "worker_evidence_from_spawn_data ev data = (case get data ''pi_session_id'' of
       None \<Rightarrow>
         if get data ''pi_session_path'' \<noteq> None \<or> get data ''pi_session_cwd'' \<noteq> None
         then Inl CorruptEventLog else Inr None
     | Some Null \<Rightarrow>
         if non_null (get data ''pi_session_path'') \<or> non_null (get data ''pi_session_cwd'')
         then Inl CorruptEventLog else Inr None
     | Some v \<Rightarrow>
         rbind (ok_or CorruptEventLog (filter_opt (\<lambda>s. s \<noteq> []) (as_str v))) (\<lambda>session_id.
         rbind (ensure (uuid_shape is_ascii_hexdigit session_id) CorruptEventLog) (\<lambda>_.
         rbind (want_str data ''pi_session_cwd'') (\<lambda>original_cwd.
         rbind (want_str data ''pi_session_path'') (\<lambda>live_session_path.
         rbind (ensure (live_session_path = ''.creating/pi-sessions/'' @ run_id_str (ev_run_id ev)
                 @ ''/pi-session-'' @ session_id @ ''.jsonl'') CorruptEventLog) (\<lambda>_.
         rbind (case get data ''attempt'' of
                  None \<Rightarrow> Inr 0
                | Some a \<Rightarrow> if a = Null then Inr 0
                    else ok_or CorruptEventLog (Option.bind (as_u64 a) try_u32)) (\<lambda>attempt.
         Inr (Some \<lparr>we_attempt = attempt,
           we_session_id = session_id,
           we_original_cwd = original_cwd,
           we_live_session_path = live_session_path,
           we_status = EvPending,
           we_transcript_path = None,
           we_resume_path = None,
           we_pane_path = None,
           we_report_path = None,
           we_transcript_sha256 = None,
           we_error = None\<rparr>))))))))"

definition claude_session_from_data :: "json \<Rightarrow> string option res" where
  "claude_session_from_data d = (case filter_opt (\<lambda>v. v \<noteq> Null) (get d ''claude_session_id'') of
       None \<Rightarrow> Inr None
     | Some raw \<Rightarrow>
         (let i = (case as_str raw of Some s \<Rightarrow> s | None \<Rightarrow> []) in
          if \<not> uuid_shape is_lower_hex i then Inl CorruptEventLog else Inr (Some i)))"

section \<open>Node lifecycle kinds\<close>

definition reduce_node_created :: reducer where
  "reduce_node_created X rid dir ev =
     rbind (require_envelope_node_id ev) (\<lambda>node_id.
     let is_default_node = (node_id_str node_id = ''n-0001'') in
     rbind (read_node_opt rid dir node_id) (\<lambda>existing.
     if existing \<noteq> None then Inr []
     else
       (let d = ev_data ev in
        rbind (ok_or CorruptEventLog (data_kind (get_or_null d ''kind''))) (\<lambda>kind.
        rbind (opt_node_id d ''parent_node_id'') (\<lambda>parent_node_id.
        rbind (worker_evidence_from_spawn_data ev d) (\<lambda>evidence.
        rbind (optional_i32 d ''agent_pid'') (\<lambda>agent_pid.
        rbind (optional_ts X d ''agent_pid_start_time'') (\<lambda>agent_pid_start_time.
        rbind (optional_i32 d ''supervisor_pid'') (\<lambda>supervisor_pid.
        rbind (claude_session_from_data d) (\<lambda>claude_session_id.
        let n = \<lparr>
          n_schema_version = STATE_SCHEMA_VERSION,
          n_node_id = node_id,
          n_run_id = rid,
          n_parent_node_id = parent_node_id,
          n_kind = kind,
          n_status = Pending,
          n_task = get_str d ''task'',
          n_worktree_path = get_str d ''worktree_path'',
          n_branch = get_str d ''branch'',
          n_base_sha = nonempty_str d ''base_sha'',
          n_tmux_window = get_str d ''tmux_window'',
          n_tmux_identity = tmux_identity_from_data d,
          n_evidence = evidence,
          n_caller_pi_session = None,
          n_caller_pi_lifecycle = None,
          n_retained_display = None,
          n_retention_unavailable = None,
          n_agent_pid = agent_pid,
          n_agent_pid_start_time = agent_pid_start_time,
          n_agent_pid_start_identity = start_identity_from_data d,
          n_supervisor_pid = supervisor_pid,
          n_children = [],
          n_started_at = Some (ev_ts ev),
          n_updated_at = ev_ts ev,
          n_last_report = None,
          n_last_processed_report_seq_by_child = [],
          n_retry_attempts = 0,
          n_worker_exit = None,
          n_pending_merge = None,
          n_first_death_at = None,
          n_awaiting_input = None,
          n_claude_session_id = claude_session_id,
          n_resident = None\<rparr> in
        rbind (read_manifest_opt rid dir) (\<lambda>mo.
        case mo of
          None \<Rightarrow> Inr [OpNode n]
        | Some m \<Rightarrow>
            (let m1 = (if is_default_node \<and> m_source_branch m = None
                       then m\<lparr>m_source_branch := nonempty_str d ''source_branch''\<rparr> else m)
             in Inr [OpNode n, OpManifest (m1\<lparr>m_updated_at := ev_ts ev\<rparr>)]))))))))))))"

definition reduce_node_retry :: reducer where
  "reduce_node_retry X rid dir ev =
     rbind (require_envelope_node_id ev) (\<lambda>node_id.
     with_node rid dir node_id (\<lambda>n.
     if is_terminal (n_status n) then Inr []
     else
       (let d = ev_data ev in
        rbind (worker_evidence_from_spawn_data ev d) (\<lambda>evidence.
        rbind (claude_session_from_data d) (\<lambda>claude_session_id.
        rbind (optional_i32 d ''agent_pid'') (\<lambda>agent_pid.
        rbind (optional_ts X d ''agent_pid_start_time'') (\<lambda>agent_pid_start_time.
        Inr [OpNode (n\<lparr>
          n_branch := get_str d ''branch'',
          n_base_sha := nonempty_str d ''base_sha'',
          n_worktree_path := get_str d ''worktree_path'',
          n_tmux_window := get_str d ''tmux_window'',
          n_tmux_identity := tmux_identity_from_data d,
          n_evidence := evidence,
          n_claude_session_id := claude_session_id,
          n_retained_display := None,
          n_retention_unavailable := None,
          n_agent_pid := agent_pid,
          n_agent_pid_start_time := agent_pid_start_time,
          n_agent_pid_start_identity := start_identity_from_data d,
          n_status := Pending,
          n_started_at := Some (ev_ts ev),
          n_updated_at := ev_ts ev,
          n_last_report := None,
          n_pending_merge := None,
          n_worker_exit := None,
          n_first_death_at := None,
          n_awaiting_input := None,
          n_retry_attempts := (case get_u64 d ''attempt'' of
              None \<Rightarrow> saturating_add (n_retry_attempts n) 1
            | Some a \<Rightarrow> as_u32 a)\<rparr>)])))))))"

definition reduce_node_status :: reducer where
  "reduce_node_status X rid dir ev =
     rbind (require_envelope_node_id ev) (\<lambda>node_id.
     with_node rid dir node_id (\<lambda>n.
     rbind (require_status ev) (\<lambda>new_status.
     if is_terminal (n_status n) then Inr []
     else if n_status n = new_status then Inr []
     else
       (let n1 = n\<lparr>n_status := new_status\<rparr>;
            n2 = (if is_terminal new_status
                  then n1\<lparr>n_pending_merge := None, n_awaiting_input := None\<rparr> else n1)
        in Inr [OpNode (n2\<lparr>n_updated_at := ev_ts ev\<rparr>)]))))"

definition report_terminal_status :: "event \<Rightarrow> status res" where
  "report_terminal_status ev =
     rbind (optional_bool (ev_data ev) ''cancelled'') (\<lambda>cancelled.
     rbind (optional_bool (ev_data ev) ''success'') (\<lambda>success.
     if cancelled = Some True
     then (if success = Some True then Inl CorruptEventLog else Inr Cancelled)
     else case success of
         Some True \<Rightarrow> Inr Done
       | Some False \<Rightarrow> Inr Failed
       | None \<Rightarrow> Inl CorruptEventLog))"

definition reduce_node_report :: reducer where
  "reduce_node_report X rid dir ev =
     rbind (require_envelope_node_id ev) (\<lambda>node_id.
     with_node rid dir node_id (\<lambda>n.
     if is_terminal (n_status n) then
       (if permits_terminal_merge_recovery (n_status n) (ev_data ev) then
          (if n_last_report n = Some (ev_data ev) \<and> n_status n = Done then Inr []
           else Inr [OpNode (n\<lparr>n_last_report := Some (ev_data ev), n_status := Done,
                 n_pending_merge := None, n_awaiting_input := None, n_updated_at := ev_ts ev\<rparr>)])
        else Inr [])
     else
       rbind (report_terminal_status ev) (\<lambda>new_status.
       Inr [OpNode (n\<lparr>n_last_report := Some (ev_data ev), n_status := new_status,
              n_awaiting_input := None, n_pending_merge := None, n_updated_at := ev_ts ev\<rparr>)])))"

definition reduce_node_death_observed :: reducer where
  "reduce_node_death_observed X rid dir ev =
     rbind (require_envelope_node_id ev) (\<lambda>node_id.
     with_node rid dir node_id (\<lambda>n.
     if n_first_death_at n \<noteq> None \<or> is_terminal (n_status n) \<or> n_worker_exit n \<noteq> None
        \<or> n_last_report n \<noteq> None \<or> n_pending_merge n \<noteq> None
     then Inr []
     else Inr [OpNode (n\<lparr>n_first_death_at := Some (ev_ts ev), n_updated_at := ev_ts ev\<rparr>)]))"

definition reduce_child_spawned :: reducer where
  "reduce_child_spawned X rid dir ev =
     rbind (require_envelope_node_id ev) (\<lambda>parent_node_id.
     rbind (want_str (ev_data ev) ''child_run_id'') (\<lambda>cr.
     rbind (case RunId_parse_str cr of Inl _ \<Rightarrow> Inl CorruptEventLog | Inr i \<Rightarrow> Inr i) (\<lambda>child_run_id.
     rbind (case NodeId_parse_str
               (case get_str (ev_data ev) ''child_node_id'' of Some s \<Rightarrow> s | None \<Rightarrow> ''n-0001'') of
              Inl _ \<Rightarrow> Inl CorruptEventLog | Inr i \<Rightarrow> Inr i) (\<lambda>child_node_id.
     with_node rid dir parent_node_id (\<lambda>n.
     let new_ref = \<lparr>cr_run_id = child_run_id, cr_node_id = child_node_id\<rparr> in
     if new_ref \<in> set (n_children n) then Inr []
     else Inr [OpNode (n\<lparr>n_children := n_children n @ [new_ref], n_updated_at := ev_ts ev\<rparr>)])))))"

definition reduce_supervisor_attached :: reducer where
  "reduce_supervisor_attached X rid dir ev =
     rbind (require_envelope_node_id ev) (\<lambda>node_id.
     rbind (ok_or CorruptEventLog (Option.bind (get (ev_data ev) ''pid'') as_i64)) (\<lambda>raw.
     rbind (ok_or CorruptEventLog (try_i32 raw)) (\<lambda>pid.
     with_node rid dir node_id (\<lambda>n.
     if n_supervisor_pid n = Some pid then Inr []
     else Inr [OpNode (n\<lparr>n_supervisor_pid := Some pid, n_updated_at := ev_ts ev\<rparr>)]))))"

definition reduce_supervisor_cursor_advanced :: reducer where
  "reduce_supervisor_cursor_advanced X rid dir ev =
     rbind (require_envelope_node_id ev) (\<lambda>node_id.
     rbind (want_str (ev_data ev) ''child_run_id'') (\<lambda>child_run_id.
     rbind (case RunId_parse_str child_run_id of Inl _ \<Rightarrow> Inl CorruptEventLog | Inr _ \<Rightarrow> Inr ()) (\<lambda>_.
     rbind (ok_or CorruptEventLog (get_u64 (ev_data ev) ''report_seq'')) (\<lambda>report_seq.
     with_node rid dir node_id (\<lambda>n.
     case Option.bind (map_of (n_last_processed_report_seq_by_child n) child_run_id) as_u64 of
       Some prev \<Rightarrow>
         if report_seq \<le> prev then Inr []
         else Inr [OpNode (n\<lparr>n_last_processed_report_seq_by_child :=
                map_insert child_run_id (Number (PosInt report_seq))
                  (n_last_processed_report_seq_by_child n), n_updated_at := ev_ts ev\<rparr>)]
     | None \<Rightarrow>
         Inr [OpNode (n\<lparr>n_last_processed_report_seq_by_child :=
                map_insert child_run_id (Number (PosInt report_seq))
                  (n_last_processed_report_seq_by_child n), n_updated_at := ev_ts ev\<rparr>)])))))"

end
