(* ===== verification/Reducer_Work.thy ===== *)
theory Reducer_Work
  imports Reducer
begin

text \<open>
  The remaining reducers of \<open>reducer.rs\<close>: worker exits, evidence and displays, questions to a
  human, merge transactions, the caller-owned settlement protocol and the rounds of a
  resident worker.
\<close>

section \<open>Worker exits, evidence and displays\<close>

definition evidence_attempt :: "event \<Rightarrow> u32 res" where
  "evidence_attempt ev =
     ok_or CorruptEventLog (Option.bind (get_u64 (ev_data ev) ''attempt'') try_u32)"

definition reduce_worker_exited :: reducer where
  "reduce_worker_exited X rid dir ev =
     rbind (require_envelope_node_id ev) (\<lambda>node_id.
     rbind (case get (ev_data ev) ''attempt'' of
              None \<Rightarrow> Inr 0
            | Some Null \<Rightarrow> Inr 0
            | Some _ \<Rightarrow> evidence_attempt ev) (\<lambda>attempt.
     rbind (optional_i32 (ev_data ev) ''exit_code'') (\<lambda>code.
     rbind (optional_i32 (ev_data ev) ''signal'') (\<lambda>signal.
     if (code = None) = (signal = None) then Inl CorruptEventLog
     else with_node rid dir node_id (\<lambda>n.
       if attempt \<noteq> n_retry_attempts n \<or> n_worker_exit n \<noteq> None then Inr []
       else Inr [OpNode (n\<lparr>
              n_worker_exit := Some \<lparr>wx_code = code, wx_signal = signal, wx_at = ev_ts ev\<rparr>,
              n_awaiting_input := None, n_updated_at := ev_ts ev\<rparr>)])))))"

definition reduce_worker_evidence_archived :: reducer where
  "reduce_worker_evidence_archived X rid dir ev =
     rbind (require_envelope_node_id ev) (\<lambda>node_id.
     rbind (evidence_attempt ev) (\<lambda>attempt.
     rbind (want_str (ev_data ev) ''session_id'') (\<lambda>session_id.
     rbind (want_str (ev_data ev) ''transcript_path'') (\<lambda>transcript.
     rbind (want_str (ev_data ev) ''resume_path'') (\<lambda>resume.
     rbind (want_str (ev_data ev) ''pane_path'') (\<lambda>pane.
     rbind (want_str (ev_data ev) ''report_path'') (\<lambda>report.
     rbind (want_str (ev_data ev) ''transcript_sha256'') (\<lambda>sha.
     let expected_prefix = ''evidence/'' @ node_id_str node_id @ ''/'' in
     if transcript \<noteq> expected_prefix @ ''pi-session.original.jsonl''
        \<or> resume \<noteq> expected_prefix @ ''pi-session.resume.jsonl''
        \<or> pane \<noteq> expected_prefix @ ''final-pane.log''
        \<or> report \<noteq> expected_prefix @ ''terminal-report.json''
     then Inl CorruptEventLog
     else if length sha \<noteq> 64 \<or> \<not> list_all is_lower_hex sha then Inl CorruptEventLog
     else with_node rid dir node_id (\<lambda>n.
       case n_evidence n of
         None \<Rightarrow> Inl CorruptEventLog
       | Some e \<Rightarrow>
           if we_attempt e \<noteq> attempt \<or> we_session_id e \<noteq> session_id then Inr []
           else if we_status e = EvComplete then Inr []
           else Inr [OpNode (n\<lparr>n_evidence := Some (e\<lparr>
                  we_transcript_path := Some transcript, we_resume_path := Some resume,
                  we_pane_path := Some pane, we_report_path := Some report,
                  we_transcript_sha256 := Some sha, we_status := EvComplete, we_error := None\<rparr>),
                n_updated_at := ev_ts ev\<rparr>)])))))))))"

definition reduce_worker_evidence_failed :: reducer where
  "reduce_worker_evidence_failed X rid dir ev =
     rbind (require_envelope_node_id ev) (\<lambda>node_id.
     rbind (evidence_attempt ev) (\<lambda>attempt.
     rbind (want_str (ev_data ev) ''session_id'') (\<lambda>session_id.
     rbind (want_str (ev_data ev) ''error'') (\<lambda>detail.
     with_node rid dir node_id (\<lambda>n.
       case n_evidence n of
         None \<Rightarrow> Inl CorruptEventLog
       | Some e \<Rightarrow>
           if we_attempt e \<noteq> attempt \<or> we_session_id e \<noteq> session_id then Inr []
           else if we_status e = EvComplete then Inr []
           else Inr [OpNode (n\<lparr>n_evidence := Some (e\<lparr>we_status := EvFailed, we_error := Some detail\<rparr>),
                n_updated_at := ev_ts ev\<rparr>)])))))"

definition reduce_worker_display_retained :: reducer where
  "reduce_worker_display_retained X rid dir ev =
     rbind (require_envelope_node_id ev) (\<lambda>node_id.
     rbind (ok_or CorruptEventLog (de_retained_display X (ev_data ev))) (\<lambda>display.
     with_node rid dir node_id (\<lambda>n.
       if rd_attempt display \<noteq> n_retry_attempts n \<or> rd_ownership_marker display = [] then Inr []
       else if n_retained_display n \<noteq> None then Inr []
       else Inr [OpNode (n\<lparr>n_retained_display := Some display, n_updated_at := ev_ts ev\<rparr>)])))"

definition reduce_worker_display_expired :: reducer where
  "reduce_worker_display_expired X rid dir ev =
     rbind (require_envelope_node_id ev) (\<lambda>node_id.
     rbind (want_str (ev_data ev) ''ownership_marker'') (\<lambda>marker.
     rbind (evidence_attempt ev) (\<lambda>attempt.
     with_node rid dir node_id (\<lambda>n.
       case n_retained_display n of
         None \<Rightarrow> Inr []
       | Some display \<Rightarrow>
           if rd_attempt display \<noteq> attempt \<or> rd_ownership_marker display \<noteq> marker
              \<or> rd_expired_at display \<noteq> None
           then Inr []
           else Inr [OpNode (n\<lparr>n_retained_display := Some (display\<lparr>rd_expired_at := Some (ev_ts ev)\<rparr>),
                n_updated_at := ev_ts ev\<rparr>)]))))"

definition reduce_worker_display_unavailable :: reducer where
  "reduce_worker_display_unavailable X rid dir ev =
     rbind (require_envelope_node_id ev) (\<lambda>node_id.
     rbind (evidence_attempt ev) (\<lambda>attempt.
     rbind (want_str (ev_data ev) ''reason'') (\<lambda>reason.
     with_node rid dir node_id (\<lambda>n.
       if attempt \<noteq> n_retry_attempts n \<or> n_retained_display n \<noteq> None then Inr []
       else if n_retention_unavailable n = None
         then Inr [OpNode (n\<lparr>n_retention_unavailable := Some reason, n_updated_at := ev_ts ev\<rparr>)]
         else Inr [OpNode n]))))"

section \<open>Questions to a human\<close>

definition MAX_ITEMS :: nat where "MAX_ITEMS = 8"
definition MAX_TOPIC_CHARS :: nat where "MAX_TOPIC_CHARS = 512"
definition MAX_OPTIONS :: nat where "MAX_OPTIONS = 16"
definition MAX_OPTION_CHARS :: nat where "MAX_OPTION_CHARS = 256"

definition str_or_empty :: "(string \<times> json) list \<Rightarrow> string \<Rightarrow> string" where
  "str_or_empty obj k = (case Option.bind (map_of obj k) as_str of Some s \<Rightarrow> s | None \<Rightarrow> [])"

definition options_valid :: "string \<Rightarrow> json option \<Rightarrow> bool" where
  "options_valid dflt options = (case Option.bind options as_array of
       None \<Rightarrow> False
     | Some values \<Rightarrow>
         values \<noteq> [] \<and> length values \<le> MAX_OPTIONS
         \<and> list_all (\<lambda>v. case as_str v of
              Some s \<Rightarrow> trim s \<noteq> [] \<and> chars_count s \<le> MAX_OPTION_CHARS | None \<Rightarrow> False) values
         \<and> list_ex (\<lambda>v. as_str v = Some dflt) values)"

definition check_open_item :: "json \<Rightarrow> unit res" where
  "check_open_item item =
     rbind (ok_or CorruptEventLog (as_object item)) (\<lambda>obj.
     let topic = str_or_empty obj ''topic''; dflt = str_or_empty obj ''recommended_default'' in
     if trim topic = [] \<or> chars_count topic > MAX_TOPIC_CHARS \<or> trim dflt = []
        \<or> \<not> options_valid dflt (map_of obj ''options'')
     then Inl CorruptEventLog else Inr ())"

definition reduce_node_awaiting_input :: reducer where
  "reduce_node_awaiting_input X rid dir ev =
     rbind (require_envelope_node_id ev) (\<lambda>node_id.
     rbind (ok_or CorruptEventLog
       (filter_opt (\<lambda>items. items \<noteq> [] \<and> length items \<le> MAX_ITEMS)
         (Option.bind (get (ev_data ev) ''discussion_items'') as_array))) (\<lambda>items.
     rbind (for_each check_open_item items) (\<lambda>_.
     with_node rid dir node_id (\<lambda>n.
       if is_terminal (n_status n) \<or> n_worker_exit n \<noteq> None then Inr []
       else case n_awaiting_input n of
           Some opened \<Rightarrow>
             if length (ai_discussion_items opened) + length items > MAX_ITEMS
             then Inl CorruptEventLog
             else Inr [OpNode (n\<lparr>
                    n_awaiting_input := Some (opened\<lparr>
                      ai_discussion_items := ai_discussion_items opened @ items\<rparr>),
                    n_updated_at := ev_ts ev\<rparr>)]
         | None \<Rightarrow> Inr [OpNode (n\<lparr>
                    n_awaiting_input := Some \<lparr>ai_opened_at = ev_ts ev, ai_event_seq = ev_seq ev,
                      ai_discussion_items = items\<rparr>,
                    n_updated_at := ev_ts ev\<rparr>)]))))"

definition reduce_node_input_resolved :: reducer where
  "reduce_node_input_resolved X rid dir ev =
     rbind (require_envelope_node_id ev) (\<lambda>node_id.
     rbind (ok_or CorruptEventLog (get_u64 (ev_data ev) ''event_seq'')) (\<lambda>seq.
     with_node rid dir node_id (\<lambda>n.
       case n_awaiting_input n of
         None \<Rightarrow> Inr []
       | Some opened \<Rightarrow>
           if seq \<noteq> ai_event_seq opened then Inr []
           else Inr [OpNode (n\<lparr>n_awaiting_input := None, n_updated_at := ev_ts ev\<rparr>)])))"

section \<open>Merge transactions\<close>

definition lifecycle_generation :: "node \<Rightarrow> u64" where
  "lifecycle_generation n = (case n_caller_pi_lifecycle n of None \<Rightarrow> 0 | Some p \<Rightarrow> pl_generation p)"

text \<open>The authority check of \<open>merge.started\<close>: a caller-owned run needs the link to its sticky
  merge intent, a Taskfleet-owned run must not carry one.\<close>

definition merge_link_ok :: "manifest \<Rightarrow> merge_txn \<Rightarrow> event \<Rightarrow> node_id \<Rightarrow> bool" where
  "merge_link_ok m txn ev node_id = (case m_agent_owner m of
       Caller \<Rightarrow> (case (m_caller_settlement_intent m, mt_caller_authority txn) of
           (Some intent, Some link) \<Rightarrow>
             \<not> (si_operation intent \<noteq> SettleMerge
                \<or> si_run_id intent \<noteq> ev_run_id ev
                \<or> si_node_id intent \<noteq> node_id
                \<or> ml_intent_seq link \<noteq> si_seq intent
                \<or> ml_intent_key link \<noteq> si_key intent
                \<or> (ml_writer_dev link, ml_writer_ino link)
                    \<noteq> (si_writer_dev intent, si_writer_ino intent)
                \<or> mt_source_branch txn \<noteq> (case m_source_branch m of Some b \<Rightarrow> b | None \<Rightarrow> []))
         | _ \<Rightarrow> False)
     | Taskfleet \<Rightarrow> mt_caller_authority txn = None)"

definition reduce_merge_started :: reducer where
  "reduce_merge_started X rid dir ev =
     rbind (require_envelope_node_id ev) (\<lambda>node_id.
     rbind (ok_or CorruptEventLog (de_merge_txn X (ev_data ev))) (\<lambda>txn.
     rbind (rbind (read_manifest_opt rid dir) (ok_or CorruptEventLog)) (\<lambda>m.
     if \<not> merge_link_ok m txn ev node_id then Inl CorruptEventLog
     else with_node rid dir node_id (\<lambda>n.
       if m_agent_owner m = Caller
          \<and> (n_branch n \<noteq> Some (mt_worker_branch txn)
             \<or> Some (lifecycle_generation n)
                 \<noteq> map_option si_generation (m_caller_settlement_intent m))
       then Inl CorruptEventLog
       else if is_terminal (n_status n)
          \<and> \<not> (m_agent_owner m = Caller \<and> n_status n = Failed \<and> m_status m = Failed
               \<and> m_node_count m = 1
               \<and> (case m_caller_settlement_intent m of None \<Rightarrow> False
                   | Some i \<Rightarrow> si_operation i = SettleMerge \<and> si_node_id i = node_id))
       then Inr []
       else if map_option mt_op_id (n_pending_merge n) = Some (mt_op_id txn) then Inr []
       else Inr [OpNode (n\<lparr>n_pending_merge := Some txn, n_updated_at := ev_ts ev\<rparr>)]))))"

definition reduce_merge_aborted :: reducer where
  "reduce_merge_aborted X rid dir ev =
     rbind (require_envelope_node_id ev) (\<lambda>node_id.
     rbind (want_str (ev_data ev) ''op_id'') (\<lambda>op_id.
     with_node rid dir node_id (\<lambda>n.
       if map_option mt_op_id (n_pending_merge n) = Some op_id
       then Inr [OpNode (n\<lparr>n_pending_merge := None, n_updated_at := ev_ts ev\<rparr>)]
       else Inr [])))"

section \<open>Caller-owned runs\<close>

definition reduce_caller_settlement_intent :: reducer where
  "reduce_caller_settlement_intent X rid dir ev =
     rbind (require_envelope_node_id ev) (\<lambda>nid.
     rbind (rbind (read_manifest_opt rid dir) (ok_or CorruptEventLog)) (\<lambda>m.
     rbind (rbind (read_node_opt rid dir nid) (ok_or CorruptEventLog)) (\<lambda>node.
     rbind (ok_or CorruptEventLog (de_caller_settlement_intent (ev_data ev))) (\<lambda>intent.
     if m_agent_owner m \<noteq> Caller
        \<or> si_run_id intent \<noteq> ev_run_id ev
        \<or> si_node_id intent \<noteq> nid
        \<or> n_run_id node \<noteq> ev_run_id ev
        \<or> ev_idempotency_key ev \<noteq> Some (si_key intent)
        \<or> trim (si_key intent) = []
        \<or> trim (si_actor intent) = []
        \<or> si_writer_dev intent = 0 \<or> si_writer_ino intent = 0
        \<or> si_gate_dev intent = 0 \<or> si_gate_ino intent = 0
        \<or> si_seq intent \<noteq> 0
        \<or> si_generation intent \<noteq> lifecycle_generation node
     then Inl CorruptEventLog
     else
       (let intent = intent\<lparr>si_seq := ev_seq ev\<rparr> in
        case m_caller_settlement_intent m of
          Some existing \<Rightarrow> if existing = intent then Inr [] else Inl CorruptEventLog
        | None \<Rightarrow>
            if is_terminal (m_status m)
               \<and> \<not> (m_status m = Failed \<and> n_status node = Failed \<and> m_node_count m = 1
                    \<and> node_id_str nid = ''n-0001''
                    \<and> si_operation intent \<in> {SettleMerge, SettleDiscard})
            then Inl CorruptEventLog
            else Inr [OpManifest (m\<lparr>m_caller_settlement_intent := Some intent,
                   m_updated_at := ev_ts ev\<rparr>)])))))"

definition reduce_caller_pi_session_bound :: reducer where
  "reduce_caller_pi_session_bound X rid dir ev =
     rbind (require_envelope_node_id ev) (\<lambda>nid.
     rbind (rbind (read_manifest_opt rid dir) (ok_or CorruptEventLog)) (\<lambda>m.
     if m_agent_owner m \<noteq> Caller then Inl CorruptEventLog
     else
       rbind (rbind (read_node_opt rid dir nid) (ok_or CorruptEventLog)) (\<lambda>n.
       rbind (ok_or CorruptEventLog (de_caller_pi_session (ev_data ev))) (\<lambda>binding.
       if ps_original_cwd binding \<noteq> (case n_worktree_path n of Some p \<Rightarrow> p | None \<Rightarrow> [])
          \<or> ps_original_cwd binding = [] \<or> ps_pi_session_id binding = []
          \<or> ps_session_path binding = []
       then Inl CorruptEventLog
       else case n_caller_pi_session n of
           Some existing \<Rightarrow> if existing = binding then Inr [] else Inl CorruptEventLog
         | None \<Rightarrow>
             if (case n_caller_pi_lifecycle n of None \<Rightarrow> False | Some reserved \<Rightarrow>
                   pl_pi_session_id reserved \<noteq> ps_pi_session_id binding
                   \<or> Some (pl_generation reserved) \<noteq> ps_generation binding
                   \<or> (case pl_session_path reserved of None \<Rightarrow> False
                       | Some p \<Rightarrow> p \<noteq> ps_session_path binding)
                   \<or> pl_state reserved \<notin> {Reserved, Started})
             then Inl CorruptEventLog
             else if ps_generation binding \<noteq> None \<and> n_caller_pi_lifecycle n = None
             then Inl CorruptEventLog
             else Inr [OpNode (n\<lparr>
                    n_caller_pi_lifecycle := map_option
                      (\<lambda>c. c\<lparr>pl_session_path := Some (ps_session_path binding)\<rparr>)
                      (n_caller_pi_lifecycle n),
                    n_caller_pi_session := Some binding,
                    n_updated_at := ev_ts ev\<rparr>)]))))"

text \<open>The payload check of \<open>caller.pi.lifecycle\<close> and its table of permitted transitions.\<close>

definition pi_fact_ok :: "node \<Rightarrow> caller_pi_lifecycle \<Rightarrow> bool" where
  "pi_fact_ok n told \<longleftrightarrow> (let binding = n_caller_pi_session n in
     \<not> (pl_generation told = 0
        \<or> (case binding of None \<Rightarrow> False | Some b \<Rightarrow>
             pl_pi_session_id told \<noteq> ps_pi_session_id b
             \<or> pl_session_path told \<noteq> Some (ps_session_path b))
        \<or> (pl_state told = Reserved \<and> pl_session_path told \<noteq> None)
        \<or> (pl_state told = Started \<and> pl_session_path told = None)
        \<or> (binding = None \<and> pl_state told \<noteq> Reserved
           \<and> \<not> (case n_caller_pi_lifecycle n of None \<Rightarrow> False
                | Some old \<Rightarrow> pl_state old = Reserved))
        \<or> (case pl_reason told of None \<Rightarrow> False | Some r \<Rightarrow> trim r = [] \<or> length r > 1024)
        \<or> (pl_state told \<in> {Started, Reserved}) \<noteq> (pl_reason told = None)))"

definition pi_transition_ok :: "caller_pi_session option \<Rightarrow> caller_pi_lifecycle option \<Rightarrow>
    caller_pi_lifecycle \<Rightarrow> bool" where
  "pi_transition_ok binding cur told = (case cur of
       None \<Rightarrow>
         pl_generation told = 1 \<and> pl_state told = Started \<and> binding \<noteq> None
         \<or> pl_generation told = 1 \<and> pl_state told = Reserved \<and> binding = None
     | Some old \<Rightarrow>
         pl_generation old = pl_generation told \<and> pl_state old = Started
           \<and> pl_state told \<in> {Exited, ControlUncertain}
         \<or> pl_generation old = pl_generation told \<and> pl_state old = Reserved
           \<and> pl_pi_session_id old = pl_pi_session_id told
           \<and> (pl_session_path old = pl_session_path told
              \<or> (pl_session_path old = None \<and> pl_state told = Started \<and> binding \<noteq> None))
           \<and> (pl_state told \<in> {LaunchFailed, ControlUncertain}
              \<or> (pl_state told = Started \<and> binding \<noteq> None))
         \<or> checked_add (pl_generation old) 1 = Some (pl_generation told)
           \<and> pl_state old \<in> {Exited, LaunchFailed} \<and> pl_state told = Started)"

definition reduce_caller_pi_lifecycle :: reducer where
  "reduce_caller_pi_lifecycle X rid dir ev =
     rbind (require_envelope_node_id ev) (\<lambda>nid.
     rbind (rbind (read_manifest_opt rid dir) (ok_or CorruptEventLog)) (\<lambda>m.
     if m_agent_owner m \<noteq> Caller then Inl CorruptEventLog
     else
       rbind (rbind (read_node_opt rid dir nid) (ok_or CorruptEventLog)) (\<lambda>n.
       rbind (ok_or CorruptEventLog (de_caller_pi_lifecycle (ev_data ev))) (\<lambda>told.
       if \<not> pi_fact_ok n told then Inl CorruptEventLog
       else if n_caller_pi_lifecycle n = Some told then Inr []
       else if is_terminal (m_status m) then Inl CorruptEventLog
       else if \<not> pi_transition_ok (n_caller_pi_session n) (n_caller_pi_lifecycle n) told
       then Inl CorruptEventLog
       else Inr [OpNode (n\<lparr>n_caller_pi_lifecycle := Some told, n_updated_at := ev_ts ev\<rparr>)]))))"

section \<open>Resident rounds\<close>

definition MAX_ROUND_SUMMARY_BYTES :: nat where
  "MAX_ROUND_SUMMARY_BYTES = 16 * 1024"

definition require_resident :: "run_id \<Rightarrow> run_dir \<Rightarrow> resident_policy res" where
  "require_resident rid dir =
     rbind (read_manifest_opt rid dir) (\<lambda>mo. ok_or CorruptEventLog (Option.bind mo m_resident))"

definition resident_of :: "node \<Rightarrow> resident_state" where
  "resident_of n = (case n_resident n of None \<Rightarrow> resident_state_default | Some s \<Rightarrow> s)"

definition report_round :: "event \<Rightarrow> u32 \<Rightarrow> string \<Rightarrow> resident_state \<Rightarrow> resident_state" where
  "report_round ev attempt summary state =
     (let fresh =
        (let k = saturating_add (rs_rounds_reported state) 1 in
         state\<lparr>rs_rounds_reported := k,
           rs_last_round := Some \<lparr>rr_round = k, rr_attempt = attempt, rr_reported_at = ev_ts ev,
             rr_event_seq = ev_seq ev, rr_summary = summary, rr_closed_at = None,
             rr_closed_by = None\<rparr>,
           rs_expiry_attention_at := None\<rparr>)
      in case rs_last_round state of
           Some opened \<Rightarrow>
             if rr_closed_at opened = None \<and> rr_attempt opened = attempt
             then state\<lparr>rs_last_round := Some (opened\<lparr>rr_summary := summary,
                    rr_reported_at := ev_ts ev, rr_event_seq := ev_seq ev\<rparr>)\<rparr>
             else fresh
         | None \<Rightarrow> fresh)"

definition reduce_node_round_reported :: reducer where
  "reduce_node_round_reported X rid dir ev =
     rbind (require_envelope_node_id ev) (\<lambda>node_id.
     rbind (ok_or CorruptEventLog (filter_opt (\<lambda>s. trim s \<noteq> [] \<and> length s \<le> MAX_ROUND_SUMMARY_BYTES
              \<and> CHR 0x00 \<notin> set s) (get_str (ev_data ev) ''summary''))) (\<lambda>summary.
     rbind (evidence_attempt ev) (\<lambda>attempt.
     rbind (require_resident rid dir) (\<lambda>_.
     with_node rid dir node_id (\<lambda>n.
       if is_terminal (n_status n) \<or> attempt \<noteq> n_retry_attempts n then Inr []
       else Inr [OpNode (n\<lparr>
              n_resident := Some (report_round ev attempt summary (resident_of n)),
              n_awaiting_input := None, n_updated_at := ev_ts ev\<rparr>)])))))"

definition close_round :: "event \<Rightarrow> string \<Rightarrow> resident_state \<Rightarrow> resident_state" where
  "close_round ev message_id state =
     (let s1 = (case open_round state of
          None \<Rightarrow> state
        | Some r \<Rightarrow> state\<lparr>rs_last_round := Some (r\<lparr>rr_closed_at := Some (ev_ts ev),
              rr_closed_by := Some message_id\<rparr>)\<rparr>)
      in s1\<lparr>rs_dormant_since := None, rs_expiry_attention_at := None\<rparr>)"

definition reduce_node_resumed :: reducer where
  "reduce_node_resumed X rid dir ev =
     rbind (require_envelope_node_id ev) (\<lambda>node_id.
     let d = ev_data ev in
     rbind (evidence_attempt ev) (\<lambda>attempt.
     rbind (want_str d ''message_id'') (\<lambda>message_id.
     rbind (worker_evidence_from_spawn_data ev d) (\<lambda>evidence.
     rbind (claude_session_from_data d) (\<lambda>claude_session_id.
     rbind (require_resident rid dir) (\<lambda>_.
     with_node rid dir node_id (\<lambda>n.
       if is_terminal (n_status n) \<or> attempt \<le> n_retry_attempts n then Inr []
       else
         rbind (optional_i32 d ''agent_pid'') (\<lambda>agent_pid.
         rbind (optional_ts X d ''agent_pid_start_time'') (\<lambda>agent_pid_start_time.
         Inr [OpNode (n\<lparr>
           n_base_sha := (case nonempty_str d ''base_sha'' of Some s \<Rightarrow> Some s | None \<Rightarrow> n_base_sha n),
           n_tmux_window := (case get_str d ''tmux_window'' of Some w \<Rightarrow> Some w | None \<Rightarrow> n_tmux_window n),
           n_tmux_identity := (case tmux_identity_from_data d of Some i \<Rightarrow> Some i
              | None \<Rightarrow> n_tmux_identity n),
           n_evidence := evidence,
           n_claude_session_id := claude_session_id,
           n_agent_pid := agent_pid,
           n_agent_pid_start_time := agent_pid_start_time,
           n_agent_pid_start_identity := start_identity_from_data d,
           n_status := Pending,
           n_started_at := Some (ev_ts ev),
           n_updated_at := ev_ts ev,
           n_worker_exit := None,
           n_first_death_at := None,
           n_awaiting_input := None,
           n_pending_merge := None,
           n_retained_display := None,
           n_retention_unavailable := None,
           n_retry_attempts := attempt,
           n_resident := Some (close_round ev message_id (resident_of n))\<rparr>)])))))))))"

definition reduce_node_round_landed :: reducer where
  "reduce_node_round_landed X rid dir ev =
     rbind (require_envelope_node_id ev) (\<lambda>node_id.
     let d = ev_data ev in
     rbind (want_str d ''op_id'') (\<lambda>op_id.
     rbind (want_str d ''source_branch'') (\<lambda>source_branch.
     rbind (want_str d ''integrated_oid'') (\<lambda>integrated_oid.
     if length integrated_oid < 40 \<or> \<not> list_all is_ascii_hexdigit integrated_oid
     then Inl CorruptEventLog
     else
       rbind (require_resident rid dir) (\<lambda>_.
       with_node rid dir node_id (\<lambda>n.
         if is_terminal (n_status n) then Inr []
         else Inr [OpNode (n\<lparr>
           n_pending_merge := (case n_pending_merge n of
               Some txn \<Rightarrow> if mt_landing txn \<and> mt_op_id txn = op_id then None else Some txn
             | None \<Rightarrow> None),
           n_base_sha := Some integrated_oid,
           n_resident := Some ((resident_of n)\<lparr>
             rs_last_landing := Some \<lparr>rl_at = ev_ts ev, rl_source_branch = source_branch,
               rl_integrated_oid = integrated_oid,
               rl_round = (case rs_last_round (resident_of n) of None \<Rightarrow> 0 | Some r \<Rightarrow> rr_round r)\<rparr>,
             rs_expiry_attention_at := None\<rparr>),
           n_updated_at := ev_ts ev\<rparr>)]))))))"

definition reduce_node_resident_dormant :: reducer where
  "reduce_node_resident_dormant X rid dir ev =
     rbind (require_envelope_node_id ev) (\<lambda>node_id.
     rbind (require_resident rid dir) (\<lambda>_.
     with_node rid dir node_id (\<lambda>n.
       if is_terminal (n_status n) then Inr []
       else if open_round (resident_of n) = None \<or> rs_dormant_since (resident_of n) \<noteq> None
       then Inr []
       else Inr [OpNode (n\<lparr>
         n_resident := Some ((resident_of n)\<lparr>rs_dormant_since := Some (ev_ts ev),
           rs_expiry_attention_at := None\<rparr>),
         n_updated_at := ev_ts ev\<rparr>)])))"

definition reduce_node_resident_attention :: reducer where
  "reduce_node_resident_attention X rid dir ev =
     rbind (require_envelope_node_id ev) (\<lambda>node_id.
     rbind (want_str (ev_data ev) ''reason'') (\<lambda>_.
     rbind (require_resident rid dir) (\<lambda>_.
     with_node rid dir node_id (\<lambda>n.
       if is_terminal (n_status n) then Inr []
       else if open_round (resident_of n) = None \<or> rs_expiry_attention_at (resident_of n) \<noteq> None
       then Inr []
       else Inr [OpNode (n\<lparr>
         n_resident := Some ((resident_of n)\<lparr>rs_expiry_attention_at := Some (ev_ts ev)\<rparr>),
         n_updated_at := ev_ts ev\<rparr>)]))))"

section \<open>Dispatch and commit\<close>

definition no_projection :: reducer where
  "no_projection X rid dir ev = Inr []"

text \<open>The \<open>match\<close> on \<open>ev.kind\<close>; the audit kinds and unknown kinds plan nothing.\<close>

definition reducers :: "(string \<times> reducer) list" where
  "reducers =
     [(''run.created'', reduce_run_created),
      (''run.status'', reduce_run_status),
      (''node.created'', reduce_node_created),
      (''node.status'', reduce_node_status),
      (''node.report'', reduce_node_report),
      (''node.retry'', reduce_node_retry),
      (''caller.pi.session_bound'', reduce_caller_pi_session_bound),
      (''caller.pi.lifecycle'', reduce_caller_pi_lifecycle),
      (''caller.settlement_intent'', reduce_caller_settlement_intent),
      (''worker.exited'', reduce_worker_exited),
      (''worker.evidence.archived'', reduce_worker_evidence_archived),
      (''worker.evidence.failed'', reduce_worker_evidence_failed),
      (''worker.display.retained'', reduce_worker_display_retained),
      (''worker.display.expired'', reduce_worker_display_expired),
      (''worker.display.unavailable'', reduce_worker_display_unavailable),
      (''node.death_observed'', reduce_node_death_observed),
      (''node.awaiting_input'', reduce_node_awaiting_input),
      (''node.input_resolved'', reduce_node_input_resolved),
      (''node.round_reported'', reduce_node_round_reported),
      (''node.resumed'', reduce_node_resumed),
      (''node.round_landed'', reduce_node_round_landed),
      (''node.resident_dormant'', reduce_node_resident_dormant),
      (''node.resident_attention'', reduce_node_resident_attention),
      (''merge.started'', reduce_merge_started),
      (''merge.aborted'', reduce_merge_aborted),
      (''child.spawned'', reduce_child_spawned),
      (''supervisor.attached'', reduce_supervisor_attached),
      (''supervisor.cursor_advanced'', reduce_supervisor_cursor_advanced)]"

definition reduce_event_to_ops :: reducer where
  "reduce_event_to_ops X rid dir ev =
     (if ev_run_id ev \<noteq> rid then Inl CorruptEventLog
      else case map_of reducers (ev_kind ev) of
          Some f \<Rightarrow> f X rid dir ev
        | None \<Rightarrow> no_projection X rid dir ev)"

definition commit_op :: "run_id \<Rightarrow> projection_op \<Rightarrow> unit io" where
  "commit_op rid oper = (case oper of
       OpManifest m \<Rightarrow> updating (write_manifest rid m)
     | OpNode n \<Rightarrow> updating (write_node rid n))"

fun commit_ops :: "run_id \<Rightarrow> projection_op list \<Rightarrow> unit io" where
  "commit_ops rid [] = ret ()"
| "commit_ops rid (oper # ops) = bind_io (commit_op rid oper) (\<lambda>_. commit_ops rid ops)"

datatype proj_path = ManifestPath | NodePath node_id

definition op_path :: "projection_op \<Rightarrow> proj_path" where
  "op_path oper = (case oper of OpManifest _ \<Rightarrow> ManifestPath | OpNode n \<Rightarrow> NodePath (n_node_id n))"

definition plan_projections :: "ext \<Rightarrow> run_id \<Rightarrow> run_dir \<Rightarrow> event \<Rightarrow> proj_path list res" where
  "plan_projections X rid dir ev =
     rbind (reduce_event_to_ops X rid dir ev) (\<lambda>ops. Inr (map op_path ops))"

definition apply_event :: "ext \<Rightarrow> run_id \<Rightarrow> event \<Rightarrow> unit io" where
  "apply_event X rid ev =
     bind_io (reading (\<lambda>d. reduce_event_to_ops X rid d ev)) (commit_ops rid)"

definition validate_event :: "ext \<Rightarrow> run_id \<Rightarrow> run_dir \<Rightarrow> event \<Rightarrow> unit res" where
  "validate_event X rid dir ev = rbind (reduce_event_to_ops X rid dir ev) (\<lambda>_. Inr ())"

end
