(* ===== verification/Append.thy ===== *)
theory Append
  imports Reducer_Work
begin

text \<open>
  The write path of \<open>events.rs\<close>: the sequenced append, plan before append and commit after it,
  the watermark \<open>applied_seq\<close> with its derived counter, the catch-up replay that heals a crash
  between the log and the projections, and the keyed append. Every operation runs under the
  run lock, whose mutual exclusion is the atomicity of one \<open>io\<close> operation here. \<open>clock seq\<close> is
  the reading of \<open>Utc::now()\<close> taken for the event numbered \<open>seq\<close>.
\<close>

section \<open>Watermark and replay\<close>

definition advance_applied_seq :: "run_id \<Rightarrow> u64 \<Rightarrow> unit io" where
  "advance_applied_seq rid seq =
     bind_io (reading (read_manifest_opt rid)) (\<lambda>mo. case mo of
       None \<Rightarrow> ret ()
     | Some m \<Rightarrow>
         if m_applied_seq m < seq
         then bind_io (reading (\<lambda>d. Inr (derive_counters d))) (\<lambda>node_count.
              updating (write_manifest rid (m\<lparr>m_node_count := node_count, m_applied_seq := seq\<rparr>)))
         else ret ())"

text \<open>The loop of \<open>replay_unapplied\<close> over the physical lines of the log: a torn line ends it,
  an empty, unparsable or already applied line is passed over, an event the reducer rejects
  as corrupt is skipped, and every other error stops the replay.\<close>

fun replay_loop :: "ext \<Rightarrow> run_id \<Rightarrow> u64 \<Rightarrow> (bytes \<times> bool) list \<Rightarrow> unit io" where
  "replay_loop X rid applied [] = ret ()"
| "replay_loop X rid applied ((raw, whole) # ls) =
     (let content = trim_line_end raw in
      if \<not> whole then ret ()
      else if content = [] then replay_loop X rid applied ls
      else case event_of_line X content of
          None \<Rightarrow> replay_loop X rid applied ls
        | Some ev \<Rightarrow>
            if ev_seq ev \<le> applied then replay_loop X rid applied ls
            else (\<lambda>d. case reduce_event_to_ops X rid d ev of
                Inl CorruptEventLog \<Rightarrow> replay_loop X rid applied ls d
              | Inl e \<Rightarrow> (Inl e, d)
              | Inr ops \<Rightarrow>
                  bind_io (commit_ops rid ops) (\<lambda>_.
                  bind_io (advance_applied_seq rid (ev_seq ev)) (\<lambda>_.
                  replay_loop X rid applied ls)) d))"

definition replay_unapplied :: "ext \<Rightarrow> run_id \<Rightarrow> unit io" where
  "replay_unapplied X rid =
     bind_io (reading (read_manifest_opt rid)) (\<lambda>mo. case mo of
       None \<Rightarrow> ret ()
     | Some m \<Rightarrow>
         bind_io (reading (recover_last_seq X)) (\<lambda>last_seq.
         if last_seq \<le> m_applied_seq m then ret ()
         else (\<lambda>d. case d_events d of
             None \<Rightarrow> (Inr (), d)
           | Some bs \<Rightarrow> replay_loop X rid (m_applied_seq m) (phys_lines bs) d)))"

definition replay_unapplied_unlocked :: "ext \<Rightarrow> run_id \<Rightarrow> unit io" where
  "replay_unapplied_unlocked X rid =
     bind_io (reading checked_events) (\<lambda>_.
     bind_io (updating (\<lambda>d. Inr (truncate_torn_tail d))) (\<lambda>_.
     replay_unapplied X rid))"

section \<open>Append\<close>

text \<open>One durable line. The struct writer emits the fields in declaration order; the reader
  does not depend on that order, so the line is modelled as the text of the event's value.\<close>

definition event_line :: "ext \<Rightarrow> event \<Rightarrow> bytes" where
  "event_line X ev = json_to_vec X (event_json X ev) @ [NL]"

definition append_line :: "bytes \<Rightarrow> run_dir \<Rightarrow> run_dir" where
  "append_line line d =
     d\<lparr>d_events := Some ((case d_events d of None \<Rightarrow> [] | Some bs \<Rightarrow> bs) @ line)\<rparr>"

text \<open>\<open>last + 1\<close> on \<open>u64\<close> in the release profile, without overflow checks.\<close>

definition new_event :: "(u64 \<Rightarrow> time) \<Rightarrow> run_id \<Rightarrow> string \<Rightarrow> node_id option \<Rightarrow> string option \<Rightarrow> json \<Rightarrow>
    u64 \<Rightarrow> event" where
  "new_event clock rid k node_id key data seq =
     \<lparr>ev_ts = clock seq, ev_seq = seq, ev_kind = k, ev_run_id = rid, ev_node_id = node_id,
      ev_idempotency_key = key, ev_data = data\<rparr>"

definition append_and_apply_reporting ::
    "ext \<Rightarrow> (u64 \<Rightarrow> time) \<Rightarrow> run_id \<Rightarrow> string \<Rightarrow> node_id option \<Rightarrow> string option \<Rightarrow> json \<Rightarrow>
     (u64 \<times> bool) io" where
  "append_and_apply_reporting X clock rid k node_id key data =
     bind_io (replay_unapplied_unlocked X rid) (\<lambda>_.
     bind_io (reading checked_events) (\<lambda>_.
     bind_io (reading (recover_last_seq X)) (\<lambda>last_seq.
     let seq = last_seq + 1; ev = new_event clock rid k node_id key data seq in
     bind_io (reading (\<lambda>d. reduce_event_to_ops X rid d ev)) (\<lambda>ops.
     bind_io (updating (\<lambda>d. Inr (append_line (event_line X ev) d))) (\<lambda>_.
     bind_io (commit_ops rid ops) (\<lambda>_.
     bind_io (advance_applied_seq rid seq) (\<lambda>_.
     ret (seq, ops \<noteq> []))))))))"

definition append_and_apply_unlocked ::
    "ext \<Rightarrow> (u64 \<Rightarrow> time) \<Rightarrow> run_id \<Rightarrow> string \<Rightarrow> node_id option \<Rightarrow> string option \<Rightarrow> json \<Rightarrow> u64 io" where
  "append_and_apply_unlocked X clock rid k node_id key data =
     bind_io (append_and_apply_reporting X clock rid k node_id key data) (\<lambda>(seq, _). ret seq)"

record append_result =
  ar_seq :: u64
  ar_idempotent_replay :: bool
  ar_applied :: bool
  ar_prior :: "prior_event option"

definition append_and_apply_event ::
    "ext \<Rightarrow> (u64 \<Rightarrow> time) \<Rightarrow> run_id \<Rightarrow> string \<Rightarrow> node_id option \<Rightarrow> string option \<Rightarrow> json \<Rightarrow>
     append_result io" where
  "append_and_apply_event X clock rid k node_id key data =
     bind_io (replay_unapplied_unlocked X rid) (\<lambda>_.
     bind_io (case key of
         None \<Rightarrow> ret None
       | Some i \<Rightarrow> reading (\<lambda>d. find_prior_with_key X d k i)) (\<lambda>found.
     case found of
       Some prior \<Rightarrow> ret \<lparr>ar_seq = pe_seq prior, ar_idempotent_replay = True, ar_applied = False,
           ar_prior = Some prior\<rparr>
     | None \<Rightarrow>
         bind_io (append_and_apply_reporting X clock rid k node_id key data) (\<lambda>(seq, applied).
         ret \<lparr>ar_seq = seq, ar_idempotent_replay = False, ar_applied = applied, ar_prior = None\<rparr>)))"

datatype append_outcome =
    Appended u64
  | IdempotentReplay prior_event
  | Conflict prior_event

definition append_and_apply_idempotent ::
    "ext \<Rightarrow> (u64 \<Rightarrow> time) \<Rightarrow> run_id \<Rightarrow> string \<Rightarrow> node_id option \<Rightarrow> string \<Rightarrow> (u64 \<Rightarrow> json res) \<Rightarrow>
     append_outcome io" where
  "append_and_apply_idempotent X clock rid k node_id key build =
     (if key = [] then reading (\<lambda>_. Inl EmptyIdempotencyKey)
      else
        bind_io (reading checked_events) (\<lambda>_.
        bind_io (updating (\<lambda>d. Inr (truncate_torn_tail d))) (\<lambda>_.
        bind_io (replay_unapplied X rid) (\<lambda>_.
        bind_io (reading (recover_last_seq X)) (\<lambda>last_seq.
        bind_io (reading (\<lambda>_. build (last_seq + 1))) (\<lambda>data.
        bind_io (reading (\<lambda>d. find_prior_with_key X d k key)) (\<lambda>found.
        case found of
          Some prior \<Rightarrow>
            if pe_node_id prior = map_option node_id_str node_id \<and> pe_data prior = data
            then ret (IdempotentReplay prior) else ret (Conflict prior)
        | None \<Rightarrow>
            bind_io (append_and_apply_unlocked X clock rid k node_id (Some key) data) (\<lambda>seq.
            ret (Appended seq)))))))))"

end
