(* ===== verification/Cancel.thy ===== *)
theory Cancel
  imports Append
begin

text \<open>
  Cancellation (\<open>cancel.rs\<close>): the ledger replayed from the log, the single-lock cancellation
  of a run, the cancellation of one node with the roll-up of the run when it was the last
  live one.
\<close>

definition normalize_cancel_reason :: "string option \<Rightarrow> string" where
  "normalize_cancel_reason note =
     (case filter_opt (\<lambda>s. s \<noteq> []) (map_option trim note) of
        Some s \<Rightarrow> s | None \<Rightarrow> ''cancelled by user'')"

definition node_cancel_key :: "run_id \<Rightarrow> node_id \<Rightarrow> string" where
  "node_cancel_key rid nid = ''run-cancel:'' @ run_id_str rid @ '':node:'' @ node_id_str nid"

definition run_status_cancel_key :: "run_id \<Rightarrow> string" where
  "run_status_cancel_key rid = ''run-cancel:'' @ run_id_str rid @ '':run-status''"

section \<open>The ledger\<close>

record cancel_ledger =
  cl_node_status :: "(node_id \<times> status) list"
  cl_prior_cancel :: "((string \<times> string) \<times> event) list"

definition cancel_prefix :: "run_id \<Rightarrow> string" where
  "cancel_prefix rid = ''run-cancel:'' @ run_id_str rid @ '':''"

text \<open>The visitor of the ledger's pass: fold the probe, and keep the first event of each
  \<open>(kind, key)\<close> in this run's key namespace.\<close>

definition ledger_visit ::
    "ext \<Rightarrow> run_id \<Rightarrow> cancel_probe \<Rightarrow> bytes \<Rightarrow>
     node_status_acc \<times> ((string \<times> string) \<times> event) list \<Rightarrow>
     (node_status_acc \<times> ((string \<times> string) \<times> event) list) res" where
  "ledger_visit X rid probe raw st = (case st of (acc, prior) \<Rightarrow>
     (let acc = observe probe acc in
      case filter_opt (prefix (cancel_prefix rid)) (cp_idempotency_key probe) of
        None \<Rightarrow> Inr (acc, prior)
      | Some key \<Rightarrow>
          if map_of prior (cp_kind probe, key) \<noteq> None then Inr (acc, prior)
          else rbind (ok_or CorruptEventLog (event_of_line X raw)) (\<lambda>ev.
               Inr (acc, prior @ [((cp_kind probe, key), ev)]))))"

definition read_cancel_ledger :: "ext \<Rightarrow> run_id \<Rightarrow> run_dir \<Rightarrow> cancel_ledger res" where
  "read_cancel_ledger X rid d =
     rbind (checked_events d) (\<lambda>_.
     rbind (for_each_event_probe (probe_of_line X) (ledger_visit X rid) d (acc_default, []))
       (\<lambda>(acc, prior). Inr \<lparr>cl_node_status = finish acc, cl_prior_cancel = prior\<rparr>))"

section \<open>Cancelling a run\<close>

definition cancel_report :: "string \<Rightarrow> string \<Rightarrow> json" where
  "cancel_report reason summary = Object
     [(''cancelled'', Bool True), (''discussion_items'', Array []), (''reason'', String reason),
      (''spinoff_proposals'', Array []), (''success'', Bool False), (''summary'', String summary),
      (''wrap_up_recommendations'', Array [])]"

definition RUN_CANCEL_SUMMARY :: string where
  "RUN_CANCEL_SUMMARY = ''Run cancelled before agent reported.''"

definition NODE_CANCEL_SUMMARY :: string where
  "NODE_CANCEL_SUMMARY = ''Node cancelled before agent reported.''"

text \<open>One iteration of the loop over the ledger's nodes; the result says whether the node is
  reported as cancelled (\<open>True\<close>) or as already terminal.\<close>

definition settle_node ::
    "ext \<Rightarrow> (u64 \<Rightarrow> time) \<Rightarrow> run_id \<Rightarrow> string \<Rightarrow> string \<Rightarrow> ((string \<times> string) \<times> event) list \<Rightarrow>
     node_id \<Rightarrow> status \<Rightarrow> bool io" where
  "settle_node X clock rid reason summary prior_cancel nid log_status =
     (let key = node_cancel_key rid nid in
      case map_of prior_cancel (''node.report'', key) of
        Some prior \<Rightarrow>
          bind_io (reading (\<lambda>d. read_node_opt rid d nid)) (\<lambda>no.
          if (case no of Some n \<Rightarrow> is_terminal (n_status n) | None \<Rightarrow> False) then ret False
          else bind_io (apply_event X rid prior) (\<lambda>_. ret True))
      | None \<Rightarrow>
          if is_terminal log_status then ret False
          else bind_io (append_and_apply_unlocked X clock rid ''node.report'' (Some nid) (Some key)
                 (cancel_report reason summary)) (\<lambda>_. ret True))"

fun cancel_nodes ::
    "ext \<Rightarrow> (u64 \<Rightarrow> time) \<Rightarrow> run_id \<Rightarrow> string \<Rightarrow> ((string \<times> string) \<times> event) list \<Rightarrow>
     (node_id \<times> status) list \<Rightarrow> node_id list \<Rightarrow> node_id list \<Rightarrow> (node_id list \<times> node_id list) io" where
  "cancel_nodes X clock rid reason prior [] cancelled settled = ret (cancelled, settled)"
| "cancel_nodes X clock rid reason prior ((nid, log_status) # ns) cancelled settled =
     bind_io (settle_node X clock rid reason RUN_CANCEL_SUMMARY prior nid log_status) (\<lambda>hit.
     if hit then cancel_nodes X clock rid reason prior ns (cancelled @ [nid]) settled
     else cancel_nodes X clock rid reason prior ns cancelled (settled @ [nid]))"

record cancel_outcome =
  co_run_was_already_cancelled :: bool
  co_nodes_cancelled :: "node_id list"
  co_nodes_already_terminal :: "node_id list"

definition status_data :: "status \<Rightarrow> string option \<Rightarrow> json" where
  "status_data s note = Object ((case note of None \<Rightarrow> [] | Some n \<Rightarrow> [(''note'', String n)]) @
     [(''status'', String (status_name s))])"

definition settle_run ::
    "ext \<Rightarrow> (u64 \<Rightarrow> time) \<Rightarrow> run_id \<Rightarrow> json \<Rightarrow> ((string \<times> string) \<times> event) list \<Rightarrow> unit io" where
  "settle_run X clock rid data prior_cancel =
     (let key = run_status_cancel_key rid in
      case map_of prior_cancel (''run.status'', key) of
        Some prior \<Rightarrow> apply_event X rid prior
      | None \<Rightarrow> bind_io (append_and_apply_unlocked X clock rid ''run.status'' None (Some key) data)
          (\<lambda>_. ret ()))"

definition cancel_run_unlocked ::
    "ext \<Rightarrow> (u64 \<Rightarrow> time) \<Rightarrow> run_id \<Rightarrow> string option \<Rightarrow> cancel_outcome io" where
  "cancel_run_unlocked X clock rid note =
     bind_io (reading (read_manifest rid)) (\<lambda>manifest.
     if is_terminal (m_status manifest) \<and> m_status manifest \<noteq> Cancelled
     then reading (\<lambda>_. Inl (RunAlreadyTerminal (m_status manifest)))
     else
       bind_io (reading (read_cancel_ledger X rid)) (\<lambda>ledger.
       bind_io (cancel_nodes X clock rid (normalize_cancel_reason note) (cl_prior_cancel ledger)
          (cl_node_status ledger) [] []) (\<lambda>(cancelled, settled).
       bind_io (if m_status manifest = Cancelled then ret ()
          else settle_run X clock rid
            (status_data Cancelled (filter_opt (\<lambda>s. s \<noteq> []) (map_option trim note)))
            (cl_prior_cancel ledger)) (\<lambda>_.
       ret \<lparr>co_run_was_already_cancelled = (m_status manifest = Cancelled),
         co_nodes_cancelled = cancelled, co_nodes_already_terminal = settled\<rparr>))))"

section \<open>Cancelling a node\<close>

definition maybe_roll_up_run ::
    "ext \<Rightarrow> (u64 \<Rightarrow> time) \<Rightarrow> run_id \<Rightarrow> status \<Rightarrow> (node_id \<times> status) list \<Rightarrow> node_id \<Rightarrow> bool \<Rightarrow> status \<Rightarrow>
     ((string \<times> string) \<times> event) list \<Rightarrow> status option io" where
  "maybe_roll_up_run X clock rid run_status_on_entry node_status target target_cancelled
       target_log_status prior_cancel =
     (if is_terminal run_status_on_entry then ret None
      else
        (let effective = (if target_cancelled then Cancelled else target_log_status);
             statuses = map (\<lambda>(nid, s). if nid = target then effective else s) node_status
         in case aggregate_terminal_status statuses of
              None \<Rightarrow> ret None
            | Some agg \<Rightarrow>
                bind_io (settle_run X clock rid (status_data agg None) prior_cancel) (\<lambda>_.
                ret (Some agg))))"

record node_cancel_outcome =
  nc_node_id :: node_id
  nc_cancelled :: bool
  nc_already_terminal :: bool
  nc_rolled_up :: "status option"

definition cancel_node_unlocked ::
    "ext \<Rightarrow> (u64 \<Rightarrow> time) \<Rightarrow> run_id \<Rightarrow> node_id \<Rightarrow> string option \<Rightarrow> node_cancel_outcome io" where
  "cancel_node_unlocked X clock rid nid note =
     bind_io (reading (read_manifest rid)) (\<lambda>manifest.
     if is_terminal (m_status manifest) \<and> m_status manifest \<noteq> Cancelled
     then reading (\<lambda>_. Inl (RunAlreadyTerminal (m_status manifest)))
     else
       bind_io (reading (read_cancel_ledger X rid)) (\<lambda>ledger.
       bind_io (reading (\<lambda>_. ok_or (NodeNotFound (node_id_str nid))
          (map_option snd (List.find (\<lambda>p. fst p = nid) (cl_node_status ledger))))) (\<lambda>log_status.
       bind_io (settle_node X clock rid (normalize_cancel_reason note) NODE_CANCEL_SUMMARY
          (cl_prior_cancel ledger) nid log_status) (\<lambda>cancelled.
       bind_io (maybe_roll_up_run X clock rid (m_status manifest) (cl_node_status ledger) nid
          cancelled log_status (cl_prior_cancel ledger)) (\<lambda>rolled_up.
       ret \<lparr>nc_node_id = nid, nc_cancelled = cancelled, nc_already_terminal = (\<not> cancelled),
         nc_rolled_up = rolled_up\<rparr>)))))"

end
