(* ===== verification/Demo_Run.thy ===== *)
theory Demo_Run
  imports Fixtures Cancel
begin

text \<open>
  A small concrete run on which theorems with hypotheses are exercised: a run directory with a
  manifest and one node, a few events, and the operations evaluated on them.
\<close>

definition demo_rid :: run_id where
  "demo_rid = RunId ''01hzxk3v5n8q2r4t6w7y9abcde''"

definition demo_nid :: node_id where
  "demo_nid = NodeId ''n-0001''"

definition demo_event :: "string \<Rightarrow> u64 \<Rightarrow> json \<Rightarrow> event" where
  "demo_event k seq data = \<lparr>ev_ts = 7, ev_seq = seq, ev_kind = k, ev_run_id = demo_rid,
     ev_node_id = Some demo_nid, ev_idempotency_key = None, ev_data = data\<rparr>"

definition demo_created :: json where
  "demo_created = Object [(''kind'', String ''spinoff''), (''lifecycle'', String ''autonomous''),
     (''title'', String ''demo'')]"

definition demo_empty :: run_dir where
  "demo_empty = empty_dir"

definition demo_run :: run_dir where
  "demo_run = snd (apply_event demo_ext demo_rid (demo_event ''node.created'' 2 demo_created)
     (snd (apply_event demo_ext demo_rid (demo_event ''run.created'' 1 demo_created) demo_empty)))"

definition demo_running :: event where
  "demo_running = demo_event ''node.status'' 3 (Object [(''status'', String ''running'')])"

definition demo_failed :: run_dir where
  "demo_failed = snd (apply_event demo_ext demo_rid
     (demo_event ''node.status'' 3 (Object [(''status'', String ''failed'')])) demo_run)"

definition demo_merge :: event where
  "demo_merge = demo_event ''node.report'' 4 (Object [(''success'', Bool True), (''via'', String ''explicit-merge'')])"

definition demo_node :: node where
  "demo_node = (case read_node_opt demo_rid demo_failed demo_nid of Inr (Some n) \<Rightarrow> n | _ \<Rightarrow> undefined)"

definition demo_manifest :: manifest where
  "demo_manifest = (case read_manifest_opt demo_rid demo_failed of Inr (Some m) \<Rightarrow> m | _ \<Rightarrow> undefined)"

lemma demo_node_read: "read_node_opt demo_rid demo_failed demo_nid = Inr (Some demo_node)"
proof -
  have "case read_node_opt demo_rid demo_failed demo_nid of Inr (Some n) \<Rightarrow> True | _ \<Rightarrow> False"
    by code_simp
  then show ?thesis by (auto simp: demo_node_def split: sum.splits option.splits)
qed

lemma demo_manifest_read: "read_manifest_opt demo_rid demo_failed = Inr (Some demo_manifest)"
proof -
  have "case read_manifest_opt demo_rid demo_failed of Inr (Some n) \<Rightarrow> True | _ \<Rightarrow> False"
    by code_simp
  then show ?thesis by (auto simp: demo_manifest_def split: sum.splits option.splits)
qed

lemma demo_node_failed: "n_status demo_node = Failed"
  by code_simp

definition demo_merged :: run_dir where
  "demo_merged = snd (apply_event demo_ext demo_rid demo_merge demo_failed)"

lemma demo_merge_applies: "apply_event demo_ext demo_rid demo_merge demo_failed = (Inr (), demo_merged)"
proof -
  have "fst (apply_event demo_ext demo_rid demo_merge demo_failed) = Inr ()" by code_simp
  then show ?thesis by (simp add: demo_merged_def prod_eq_iff)
qed

text \<open>A terminal run: the same directory after \<open>run.status\<close>.\<close>

definition demo_cancel_status :: event where
  "demo_cancel_status = demo_event ''run.status'' 5 (Object [(''status'', String ''cancelled'')])"

definition demo_done_status :: event where
  "demo_done_status = demo_event ''run.status'' 6 (Object [(''status'', String ''done'')])"

definition demo_cancelled :: run_dir where
  "demo_cancelled = snd (apply_event demo_ext demo_rid demo_cancel_status demo_run)"

definition demo_cancelled_manifest :: manifest where
  "demo_cancelled_manifest =
     (case read_manifest_opt demo_rid demo_cancelled of Inr (Some m) \<Rightarrow> m | _ \<Rightarrow> undefined)"

lemma demo_cancelled_read:
  "read_manifest_opt demo_rid demo_cancelled = Inr (Some demo_cancelled_manifest)"
proof -
  have "case read_manifest_opt demo_rid demo_cancelled of Inr (Some n) \<Rightarrow> True | _ \<Rightarrow> False"
    by code_simp
  then show ?thesis by (auto simp: demo_cancelled_manifest_def split: sum.splits option.splits)
qed

lemma demo_cancelled_status: "m_status demo_cancelled_manifest = Cancelled"
  by code_simp

lemma demo_late_done_applies:
  "apply_event demo_ext demo_rid demo_done_status demo_cancelled = (Inr (), demo_cancelled)"
proof -
  have "reduce_event_to_ops demo_ext demo_rid demo_cancelled demo_done_status = Inr []" by code_simp
  then show ?thesis by (simp add: apply_event_def bind_io_def reading_def ret_def)
qed

end
