(* ===== verification/Schema_Facts.thy ===== *)
theory Schema_Facts
  imports Node_Status
begin

text \<open>
  Facts about identifiers, the status roll-up and agent selections: an identifier that parses
  is safe as a path component and keeps its text, the id generator produces parsable ids that
  sort by number, an id prefix is exactly a prefix of an id, resident names and run-id prefixes
  are disjoint name spaces, and the roll-up loop computes its specification.
\<close>

section \<open>Characters\<close>

lemma char_le_iff_of_char: "(a :: char) \<le> b \<longleftrightarrow> (of_char a :: nat) \<le> of_char b"
  by (simp add: less_eq_char_def)

lemma is_ascii_digit_iff: "is_ascii_digit c \<longleftrightarrow> 48 \<le> (of_char c :: nat) \<and> (of_char c :: nat) \<le> 57"
  by (simp add: is_ascii_digit_def char_le_iff_of_char)

lemma is_ascii_lowercase_iff:
  "is_ascii_lowercase c \<longleftrightarrow> 97 \<le> (of_char c :: nat) \<and> (of_char c :: nat) \<le> 122"
  by (simp add: is_ascii_lowercase_def char_le_iff_of_char)

lemma is_ascii_digit_char_of: "n < 10 \<Longrightarrow> is_ascii_digit (char_of (48 + n :: nat))"
  by (simp add: is_ascii_digit_iff)

section \<open>Decimal numerals\<close>

lemma decimal_digits: "list_all is_ascii_digit (decimal n)"
proof (induction n rule: decimal.induct)
  case (1 n)
  then show ?case
    by (subst decimal.simps) (simp add: is_ascii_digit_char_of)
qed

lemma decimal_nonempty: "decimal n \<noteq> []"
  by (subst decimal.simps) simp

lemma digits_value_snoc: "digits_value (s @ [c]) = 10 * digits_value s + (of_char c - 48)"
  by (simp add: digits_value_def)

lemma digits_value_decimal: "digits_value (decimal n) = n"
proof (induction n rule: decimal.induct)
  case (1 n)
  show ?case
  proof (cases "n < 10")
    case True
    then show ?thesis by (subst decimal.simps) (simp add: digits_value_def)
  next
    case False
    with 1 show ?thesis by (subst decimal.simps) (simp add: digits_value_snoc)
  qed
qed

lemma digits_value_zeros: "digits_value (replicate k (CHR ''0'') @ s) = digits_value s"
  by (induction k) (simp_all add: digits_value_def)

lemma length_decimal: "0 < k \<Longrightarrow> n < 10 ^ k \<Longrightarrow> length (decimal n) \<le> k"
proof (induction n arbitrary: k rule: decimal.induct)
  case (1 n)
  show ?case
  proof (cases "n < 10")
    case True
    with "1.prems" show ?thesis by (subst decimal.simps) simp
  next
    case False
    with "1.prems" obtain j where k: "k = Suc j" "0 < j"
      by (cases k; cases "k - 1") auto
    with "1.prems" have "n div 10 < 10 ^ j" by (simp add: less_mult_imp_div_less mult.commute)
    with "1.IH"[of j] False k show ?thesis by (subst decimal.simps) simp
  qed
qed

section \<open>Identifiers\<close>

lemma RunId_parse_str_Inr:
  "RunId_parse_str s = Inr i \<longleftrightarrow>
     i = RunId s \<and> length s = RunId_LEN \<and> all_crockford_lower s \<and> ulid_first_ok (hd s)"
  by (auto simp: RunId_parse_str_def)

lemma NodeId_parse_str_Inr:
  "NodeId_parse_str s = Inr i \<longleftrightarrow>
     i = NodeId s \<and> (\<exists>b. s = ''n-'' @ b \<and> 4 \<le> length b \<and> length b \<le> 10 \<and> list_all is_ascii_digit b)"
  by (auto simp: NodeId_parse_str_def strip_prefix_Some split: option.splits if_splits)
    (auto simp: strip_prefix_def)

text \<open>The characters an identifier may contain.\<close>

definition id_char :: "char \<Rightarrow> bool" where
  "id_char c \<longleftrightarrow> is_ascii_digit c \<or> is_ascii_lowercase c \<or> c = CHR ''-''"

lemma crockford_id_char: "c \<in> set CROCKFORD_LOWER \<Longrightarrow> id_char c"
  by (auto simp: CROCKFORD_LOWER_def id_char_def is_ascii_digit_iff is_ascii_lowercase_iff)

lemma id_char_safe: "id_char c \<Longrightarrow> c \<noteq> CHR ''/'' \<and> c \<noteq> CHR ''.'' \<and> c \<noteq> CHR 0x00 \<and> c \<noteq> CHR 0x5C"
  by (auto simp: id_char_def is_ascii_digit_iff is_ascii_lowercase_iff)

definition path_safe :: "string \<Rightarrow> bool" where
  "path_safe s \<longleftrightarrow> s \<noteq> [] \<and> list_all (\<lambda>c. c \<noteq> CHR ''/'' \<and> c \<noteq> CHR ''.'' \<and> c \<noteq> CHR 0x00 \<and> c \<noteq> CHR 0x5C) s"

lemma path_safe_id: "s \<noteq> [] \<Longrightarrow> list_all id_char s \<Longrightarrow> path_safe s"
  by (auto simp: path_safe_def list_all_iff dest: id_char_safe)

lemma RunId_parse_safe: "RunId_parse_str s = Inr i \<Longrightarrow> path_safe (run_id_str i)"
  by (auto simp: RunId_parse_str_Inr RunId_LEN_def all_crockford_lower_def list_all_iff
      intro!: path_safe_id crockford_id_char)

lemma NodeId_parse_safe: "NodeId_parse_str s = Inr i \<Longrightarrow> path_safe (node_id_str i)"
  by (auto simp: NodeId_parse_str_Inr list_all_iff id_char_def is_ascii_lowercase_iff
      intro!: path_safe_id)

text \<open>A run id or node id that passes its strict parser keeps the text it was parsed from
  and is a safe path component: not empty, without a slash, a backslash, a dot or a NUL byte, so
  no traversal such as \<open>../escape\<close> can be spelled by it.\<close>

theorem parsed_ids_are_path_safe:
  assumes "RunId_parse_str r = Inr rid" and "NodeId_parse_str s = Inr nid"
  shows "run_id_str rid = r \<and> path_safe (run_id_str rid) \<and>
    node_id_str nid = s \<and> path_safe (node_id_str nid)"
  using assms by (auto simp: RunId_parse_safe NodeId_parse_safe)
    (simp_all add: RunId_parse_str_Inr NodeId_parse_str_Inr)

theorem parsed_ids_are_path_safe_witness:
  "RunId_parse_str ''01hzxk3v5n8q2r4t6w7y9abcde'' = Inr (RunId ''01hzxk3v5n8q2r4t6w7y9abcde'') \<and>
   NodeId_parse_str ''n-0001'' = Inr (NodeId ''n-0001'') \<and>
   path_safe (run_id_str (RunId ''01hzxk3v5n8q2r4t6w7y9abcde'')) \<and>
   path_safe (node_id_str (NodeId ''n-0001''))"
proof -
  have "RunId_parse_str ''01hzxk3v5n8q2r4t6w7y9abcde'' = Inr (RunId ''01hzxk3v5n8q2r4t6w7y9abcde'')"
    and "NodeId_parse_str ''n-0001'' = Inr (NodeId ''n-0001'')"
    by code_simp+
  from this parsed_ids_are_path_safe[OF this] show ?thesis by simp
qed

lemma unat_u32_less: "unat (n :: u32) < 2 ^ 32"
  using unsigned_less[of n, where ?'a = nat] by simp

lemma unat_u32_bound: "unat (n :: u32) < 10 ^ 10"
  by (rule less_le_trans[OF unat_u32_less]) simp

lemma format_node_id_body:
  obtains b where "format_node_id n = ''n-'' @ b" "4 \<le> length b" "length b \<le> 10"
    "list_all is_ascii_digit b" "digits_value b = unat n"
proof -
  let ?d = "decimal (unat n)"
  let ?b = "replicate (4 - length ?d) CHR ''0'' @ ?d"
  have "length ?d \<le> 10" by (rule length_decimal[OF _ unat_u32_bound]) simp
  then have "4 \<le> length ?b" and "length ?b \<le> 10" by simp_all
  moreover have "list_all is_ascii_digit ?b"
    using decimal_digits[of "unat n"] by (auto simp: list_all_iff is_ascii_digit_iff)
  moreover have "digits_value ?b = unat n"
    by (simp add: digits_value_zeros digits_value_decimal)
  moreover have "format_node_id n = ''n-'' @ ?b"
    by (simp add: format_node_id_def Let_def)
  ultimately show ?thesis by (rule that[rotated])
qed

lemma plus_not_digit [simp]: "\<not> is_ascii_digit CHR ''+''"
  by (simp add: is_ascii_digit_iff)

lemma parse_u64_digits:
  "b \<noteq> [] \<Longrightarrow> list_all is_ascii_digit b \<Longrightarrow> digits_value b < 2 ^ 64 \<Longrightarrow>
     parse_u64 b = Some (of_nat (digits_value b))"
  by (cases b) (auto simp: parse_u64_def Let_def)

text \<open>The id formatter is total on \<open>u32\<close>: every number formats to an id the strict parser
  accepts, and reading the number back for sorting returns it, so distinct numbers give distinct
  ids in numeric order.\<close>

theorem format_node_id_roundtrip:
  "NodeId_parse_str (format_node_id n) = Inr (NodeId (format_node_id n)) \<and>
   node_number (NodeId (format_node_id n)) = ucast n"
proof -
  obtain b where b: "format_node_id n = ''n-'' @ b" "4 \<le> length b" "length b \<le> 10"
    "list_all is_ascii_digit b" "digits_value b = unat n"
    by (rule format_node_id_body)
  have "unat n < 2 ^ 64" by (rule less_le_trans[OF unat_u32_less]) simp
  then have "parse_u64 b = Some (of_nat (unat n))"
    using parse_u64_digits[of b] b(2,4,5) by (cases b) auto
  moreover have "strip_prefix ''n-'' (format_node_id n) = Some b"
    using b(1) by (simp add: strip_prefix_Some)
  ultimately have "node_number (NodeId (format_node_id n)) = of_nat (unat n)"
    by (simp add: node_number_def)
  moreover have "(of_nat (unat n) :: u64) = ucast n" by simp
  moreover have "NodeId_parse_str (format_node_id n) = Inr (NodeId (format_node_id n))"
    using b unfolding NodeId_parse_str_Inr by auto
  ultimately show ?thesis by simp
qed

text \<open>The prefix check accepts exactly the non-empty strings that can be completed to a run
  id: it neither rejects a prefix of a real id nor accepts a string no id starts with.\<close>

theorem is_run_id_prefix_iff:
  "is_run_id_prefix s \<longleftrightarrow> s \<noteq> [] \<and> (\<exists>t i. RunId_parse_str (s @ t) = Inr i)"
proof
  assume p: "is_run_id_prefix s"
  then obtain c r where s: "s = c # r" by (cases s) (auto simp: is_run_id_prefix_def)
  let ?t = "replicate (RunId_LEN - length s) CHR ''0''"
  have "CHR ''0'' \<in> set CROCKFORD_LOWER" by (simp add: CROCKFORD_LOWER_def)
  with p have "RunId_parse_str (s @ ?t) = Inr (RunId (s @ ?t))"
    unfolding RunId_parse_str_Inr
    by (auto simp: is_run_id_prefix_def all_crockford_lower_def list_all_iff s)
  with s show "s \<noteq> [] \<and> (\<exists>t i. RunId_parse_str (s @ t) = Inr i)" by blast
next
  assume "s \<noteq> [] \<and> (\<exists>t i. RunId_parse_str (s @ t) = Inr i)"
  then show "is_run_id_prefix s"
    by (auto simp: is_run_id_prefix_def RunId_parse_str_Inr all_crockford_lower_def
        split: list.splits)
qed

text \<open>A name that is valid for a resident worker is never a run-id prefix, so the two kinds of
  reference a caller may type cannot be confused.\<close>

theorem resident_name_not_run_id_prefix:
  assumes "ResidentPolicy_validate_name s"
  shows "\<not> is_run_id_prefix s"
  using assms
  by (auto simp: ResidentPolicy_validate_name_def kebab_name_ok_def is_run_id_prefix_def
      ulid_first_ok_def is_ascii_lowercase_iff char_le_iff_of_char split: list.splits)

section \<open>Roll-up\<close>

lemma aggregate_loop_spec:
  "aggregate_loop any f c ss =
     (if list_ex (\<lambda>s. \<not> is_terminal s) ss \<or> (\<not> any \<and> ss = []) then None
      else if f \<or> Failed \<in> set ss then Some Failed
      else if c \<or> Cancelled \<in> set ss then Some Cancelled else Some Done)"
proof (induction ss arbitrary: any f c)
  case (Cons s ss)
  then show ?case by (cases s) auto
qed auto

text \<open>The roll-up of node statuses is undecided when there is no node or a node is still live,
  and otherwise fails if any node failed, is cancelled if none failed and one was cancelled, and is
  done only if every node is done; the order of the nodes does not matter.\<close>

theorem aggregate_terminal_status_spec:
  "aggregate_terminal_status ss =
     (if ss = [] \<or> list_ex (\<lambda>s. \<not> is_terminal s) ss then None
      else if Failed \<in> set ss then Some Failed
      else if Cancelled \<in> set ss then Some Cancelled else Some Done)"
  by (simp add: aggregate_terminal_status_def aggregate_loop_spec)

section \<open>Agent selection\<close>

lemma fallback_ok_indices:
  "fallback_ok interaction i prior ks \<Longrightarrow>
     map (\<lambda>k. unat (sk_candidate_index k)) ks = [i..<i + length ks]"
proof (induction ks arbitrary: i prior)
  case (Cons k ks)
  then have "unat (sk_candidate_index k) = i"
    and "fallback_ok interaction (Suc i) (Some (sk_candidate_index k)) ks"
    by auto
  moreover from Cons.IH[OF this(2)]
  have "map (\<lambda>k. unat (sk_candidate_index k)) ks = [Suc i..<Suc i + length ks]" .
  moreover have "[i..<i + length (k # ks)] = i # [Suc i..<Suc i + length ks]"
    by (subst upt_conv_Cons) auto
  ultimately show ?case by (simp only: list.map)
qed simp

text \<open>In a validated agent selection the skipped candidates are exactly the candidates before
  the selected one, each once and in order, and there are fewer than eight of them; an autonomous
  selection runs \<open>pi\<close> with worker telemetry or \<open>claude\<close> without.\<close>

theorem validated_selection_fallback:
  assumes "AgentSelection_validate a"
  shows "map (\<lambda>k. unat (sk_candidate_index k)) (as_fallback a)
      = [0..<unat (sc_candidate_index (as_selected a))] \<and>
    unat (sc_candidate_index (as_selected a)) < 8 \<and>
    (as_interaction a = ''autonomous'' \<longrightarrow>
       (supports_worker_telemetry_v1 (as_selected a) \<longleftrightarrow> sc_harness (as_selected a) = ''pi''))"
proof -
  from assms have "fallback_ok (as_interaction a) 0 None (as_fallback a)"
    and len: "length (as_fallback a) = unat (sc_candidate_index (as_selected a))"
    and "\<not> sc_candidate_index (as_selected a) \<ge> 8"
    by (simp_all add: AgentSelection_validate_def)
  moreover from this have "unat (sc_candidate_index (as_selected a)) < 8"
    by (simp add: word_le_nat_alt)
  moreover have "as_interaction a = ''autonomous'' \<Longrightarrow>
      (supports_worker_telemetry_v1 (as_selected a) \<longleftrightarrow> sc_harness (as_selected a) = ''pi'')"
    using assms by (auto simp: AgentSelection_validate_def supports_worker_telemetry_v1_def)
  ultimately show ?thesis using fallback_ok_indices by fastforce
qed

end
