(* ===== verification/Log_Facts.thy ===== *)
theory Log_Facts
  imports Event_Log Schema_Facts
begin

text \<open>
  Facts about the bytes of the event log. A log is a list of newline-terminated lines followed
  by a torn tail; on this form every reader and repair has a direct specification: the chunked
  backward scan finds the last newline, sequence recovery looks at the last visible line,
  truncation removes the torn tail and nothing else, the strict reader decodes the lines, and
  quarantine keeps exactly the lines it accepts.
\<close>

section \<open>Lines and tail\<close>

definition join :: "bytes list \<Rightarrow> bytes \<Rightarrow> bytes" where
  "join ls t = concat (map (\<lambda>l. l @ [NL]) ls) @ t"

definition line_ok :: "bytes \<Rightarrow> bool" where
  "line_ok l \<longleftrightarrow> NL \<notin> set l"

lemma join_simps [simp]: "join [] t = t" "join (l # ls) t = l @ NL # join ls t"
  by (simp_all add: join_def)

lemma join_snoc: "join (ls @ [l]) t = join ls [] @ l @ NL # t"
  by (simp add: join_def)

lemma join_tail: "join ls t = join ls [] @ t"
  by (simp add: join_def)

lemma join_append: "join (ls @ ms) t = join ls (join ms t)"
  by (simp add: join_def)

lemma join_exists: "\<exists>ls t. s = join ls t \<and> list_all line_ok ls \<and> line_ok t"
proof (induction s)
  case Nil
  have "[] = join [] []" "list_all line_ok []" "line_ok []" by (simp_all add: line_ok_def)
  then show ?case by blast
next
  case (Cons c s)
  then obtain ls t where s: "s = join ls t" "list_all line_ok ls" "line_ok t" by blast
  show ?case
  proof (cases "c = NL")
    case True
    with s have "c # s = join ([] # ls) t" "list_all line_ok ([] # ls)" by (simp_all add: line_ok_def)
    with s show ?thesis by blast
  next
    case False
    show ?thesis
    proof (cases ls)
      case Nil
      with s False have "c # s = join [] (c # t)" "list_all line_ok []" "line_ok (c # t)"
        by (simp_all add: line_ok_def)
      then show ?thesis by blast
    next
      case (Cons l ls')
      with s False have "c # s = join ((c # l) # ls') t" "list_all line_ok ((c # l) # ls')"
        by (simp_all add: line_ok_def)
      with s show ?thesis by blast
    qed
  qed
qed

lemma logE:
  obtains ls t where "s = join ls t" "list_all line_ok ls" "line_ok t"
  using join_exists by blast

lemma join_ends: "ls \<noteq> [] \<Longrightarrow> join ls [] \<noteq> [] \<and> last (join ls []) = NL"
  by (cases ls rule: rev_cases) (simp_all add: join_snoc)

section \<open>Backward scan\<close>

lemma rposition_nl_app:
  "rposition_nl (a @ b) = (case rposition_nl b of
     Some i \<Rightarrow> Some (length a + i) | None \<Rightarrow> rposition_nl a)"
  by (induction a) (auto split: option.splits)

lemma take_slice: "a \<le> b \<Longrightarrow> b \<le> length s \<Longrightarrow> take b s = take a s @ slice a b s"
  unfolding slice_def by (metis le_add_diff_inverse take_add)

lemma scan_prev_newline_spec: "pos \<le> length s \<Longrightarrow> scan_prev_newline s pos = rposition_nl (take pos s)"
proof (induction s pos rule: scan_prev_newline.induct)
  case (1 s pos)
  let ?start = "pos - SCAN_CHUNK"
  have "take pos s = take ?start s @ slice ?start pos s"
    using "1.prems" by (intro take_slice) auto
  then have r: "rposition_nl (take pos s) = (case rposition_nl (slice ?start pos s) of
      Some i \<Rightarrow> Some (?start + i) | None \<Rightarrow> rposition_nl (take ?start s))"
    using "1.prems" by (simp add: rposition_nl_app min_absorb2 cong: option.case_cong)
  show ?case
  proof (cases "rposition_nl (slice ?start pos s)")
    case None
    show ?thesis
    proof (cases "?start = 0")
      case True
      with r None show ?thesis by (subst scan_prev_newline.simps) (simp add: Let_def)
    next
      case False
      with "1.IH"[OF refl None] "1.prems" have "scan_prev_newline s ?start = rposition_nl (take ?start s)"
        by simp
      with r None False show ?thesis by (subst scan_prev_newline.simps) (simp add: Let_def)
    qed
  next
    case (Some i)
    with r show ?thesis by (subst scan_prev_newline.simps) (simp add: Let_def)
  qed
qed

text \<open>The chunked backward search returns the position of the last newline before its bound,
  or nothing when there is none, however the bound falls relative to the chunk boundaries.\<close>

theorem find_prev_newline_last:
  assumes "pos \<le> length s"
  shows "find_prev_newline s pos = rposition_nl (take pos s) \<and>
    (\<forall>p. find_prev_newline s pos = Some p \<longrightarrow> p < pos \<and> s ! p = NL \<and> NL \<notin> set (drop (Suc p) (take pos s)))"
proof -
  have eq: "find_prev_newline s pos = rposition_nl (take pos s)"
    using assms by (simp add: find_prev_newline_def scan_prev_newline_spec)
  moreover have "p < pos \<and> s ! p = NL \<and> NL \<notin> set (drop (Suc p) (take pos s))"
    if found: "find_prev_newline s pos = Some p" for p
  proof -
    from eq found obtain a b where ab: "take pos s = a @ NL # b" "p = length a" "NL \<notin> set b"
      by (metis rposition_nl_SomeE)
    have "length a < length (take pos s)" unfolding ab(1) by simp
    then have "p < pos" using ab(2) by simp
    moreover have "s ! p = take pos s ! p" using \<open>p < pos\<close> by simp
    ultimately show ?thesis using ab by (simp add: nth_append)
  qed
  ultimately show ?thesis by blast
qed

lemma find_prev_newline_join:
  "line_ok t \<Longrightarrow> find_prev_newline (join (ls @ [l]) t) (length (join (ls @ [l]) t)) =
     Some (length (join ls [] @ l))"
  using scan_prev_newline_spec[of "length (join (ls @ [l]) t)" "join (ls @ [l]) t"]
    rposition_nl_append[of t "join ls [] @ l"]
  by (auto simp: find_prev_newline_def line_ok_def join_snoc)

section \<open>Truncation\<close>

lemma truncate_join: "line_ok t \<Longrightarrow> truncate_bytes (join ls t) = join ls []"
proof (cases ls rule: rev_cases)
  case Nil
  assume t: "line_ok t"
  have "rposition_nl t = None" using t by (simp add: rposition_nl_None line_ok_def)
  then have "find_prev_newline t (length t) = None"
    by (simp add: find_prev_newline_def scan_prev_newline_spec)
  moreover have "t \<noteq> [] \<Longrightarrow> last t \<noteq> NL" using t last_in_set by (fastforce simp: line_ok_def)
  ultimately show ?thesis using Nil by (auto simp: truncate_bytes_def)
next
  case (snoc ms l)
  assume t: "line_ok t"
  show ?thesis
  proof (cases "t = []")
    case True
    with snoc join_ends[of ls] show ?thesis by (auto simp: truncate_bytes_def)
  next
    case False
    have "last (join ls t) = last t" using False by (simp add: join_tail[of ls t])
    moreover have "last t \<noteq> NL" using t False last_in_set by (fastforce simp: line_ok_def)
    moreover have "take (length (join ms [] @ l) + 1) (join ls t) = join ls []"
      using snoc by (simp add: join_snoc)
    ultimately show ?thesis using False snoc find_prev_newline_join[OF t, of ms l]
      by (auto simp: truncate_bytes_def join_tail[of _ t])
  qed
qed

text \<open>Torn-tail truncation removes exactly the bytes after the last newline: what it keeps is a
  prefix made of complete lines, what it drops contains no newline, and a second truncation
  changes nothing.\<close>

theorem truncate_bytes_drops_torn_tail:
  "\<exists>t. s = truncate_bytes s @ t \<and> NL \<notin> set t \<and>
     (truncate_bytes s = [] \<or> last (truncate_bytes s) = NL) \<and>
     truncate_bytes (truncate_bytes s) = truncate_bytes s"
proof -
  obtain ls t where s: "s = join ls t" "line_ok t" by (rule logE)
  moreover have "line_ok []" by (simp add: line_ok_def)
  moreover have "join ls [] = [] \<or> last (join ls []) = NL"
    using join_ends[of ls] by (cases "ls = []") auto
  ultimately show ?thesis
    using join_tail[of ls t] truncate_join[of t ls] truncate_join[of "[]" ls]
    by (auto simp: line_ok_def)
qed

section \<open>Sequence recovery\<close>

definition visible :: "bytes \<Rightarrow> bool" where
  "visible l \<longleftrightarrow> list_ex (\<lambda>b. \<not> is_ascii_whitespace b) l"

definition recover_lines :: "ext \<Rightarrow> bytes list \<Rightarrow> u64 res" where
  "recover_lines X ls = (case rev (filter visible ls) of [] \<Rightarrow> Inr 0 | l # _ \<Rightarrow> parse_seq X l)"

lemma rposition_join: "line_ok l \<Longrightarrow> rposition_nl (join ls [] @ l) =
    (if ls = [] then None else Some (length (join ls []) - 1))"
proof (cases ls rule: rev_cases)
  case Nil
  assume "line_ok l"
  with Nil show ?thesis by (simp add: rposition_nl_None line_ok_def)
next
  case (snoc ms k)
  assume "line_ok l"
  then have "rposition_nl ((join ms [] @ k) @ NL # l) = Some (length (join ms [] @ k))"
    by (intro rposition_nl_append) (simp add: line_ok_def)
  with snoc show ?thesis by (simp add: join_snoc)
qed

lemma recover_loop_join:
  "list_all line_ok (ls @ [l]) \<Longrightarrow>
     recover_loop X (join ls [] @ l @ NL # u) (length (join ls [] @ l)) = recover_lines X (ls @ [l])"
proof (induction ls arbitrary: l u rule: rev_induct)
  case Nil
  have "find_prev_newline (l @ NL # u) (length l) = None"
    using Nil rposition_join[of l "[]"] scan_prev_newline_spec[of "length l" "l @ NL # u"]
    by (simp add: find_prev_newline_def)
  then show ?case
    by (subst recover_loop.simps)
      (auto simp: recover_lines_def visible_def slice_def)
next
  case (snoc k ls)
  let ?s = "join (ls @ [k]) [] @ l @ NL # u" and ?e = "length (join (ls @ [k]) [] @ l)"
  have "?s = (join (ls @ [k]) [] @ l) @ NL # u" by simp
  then have "take ?e ?s = join (ls @ [k]) [] @ l" by (metis append_eq_conv_conj)
  then have "find_prev_newline ?s ?e = Some (length (join (ls @ [k]) []) - 1)"
    using snoc.prems rposition_join[of l "ls @ [k]"] scan_prev_newline_spec[of ?e ?s]
    by (auto simp: find_prev_newline_def join_snoc)
  moreover have "length (join (ls @ [k]) []) - 1 + 1 = length (join (ls @ [k]) [])"
    by (simp add: join_snoc)
  moreover have "slice (length (join (ls @ [k]) [])) ?e ?s = l" by (simp add: slice_def)
  moreover have "length (join (ls @ [k]) []) - 1 = length (join ls [] @ k)"
    by (simp add: join_snoc)
  moreover have "recover_loop X ?s (length (join ls [] @ k)) = recover_lines X (ls @ [k])"
    using snoc.IH[of k "l @ NL # u"] snoc.prems by (simp add: join_snoc)
  ultimately show ?case
    by (subst recover_loop.simps) (auto simp: recover_lines_def visible_def Let_def join_snoc)
qed

lemma recover_join:
  assumes "list_all line_ok ls" and "line_ok t"
  shows "recover_last_seq_bytes X (join ls t) = recover_lines X ls"
proof (cases ls rule: rev_cases)
  case Nil
  have "find_prev_newline t (length t) = None"
    using assms(2) scan_prev_newline_spec[of "length t" t]
    by (simp add: find_prev_newline_def rposition_nl_None line_ok_def)
  moreover have "t \<noteq> [] \<Longrightarrow> last t \<noteq> NL" using assms(2) last_in_set by (fastforce simp: line_ok_def)
  ultimately show ?thesis using Nil by (auto simp: recover_last_seq_bytes_def recover_lines_def)
next
  case (snoc ms l)
  have loop: "recover_loop X (join ls t) (length (join ms [] @ l)) = recover_lines X ls"
    using recover_loop_join[of ms l X t] assms(1) snoc by (simp add: join_snoc)
  show ?thesis
  proof (cases "t = []")
    case True
    with snoc loop join_ends[of ls] show ?thesis
      by (simp add: recover_last_seq_bytes_def join_snoc)
  next
    case False
    have "last (join ls t) = last t" "join ls t \<noteq> []" using False by (simp_all add: join_tail[of ls t])
    moreover have "last t \<noteq> NL" using assms(2) False last_in_set by (fastforce simp: line_ok_def)
    ultimately show ?thesis
      using loop find_prev_newline_join[OF assms(2), of ms l] snoc
      by (simp add: recover_last_seq_bytes_def)
  qed
qed

section \<open>Forward reader\<close>

lemma phys_lines_join:
  assumes "list_all line_ok ls" and "line_ok t"
  shows "phys_lines (join ls t) =
    map (\<lambda>l. (l @ [NL], True)) ls @ (if t = [] then [] else [(t, False)])"
  using assms(1)
proof (induction ls)
  case Nil
  have "takeWhile (\<lambda>c. c \<noteq> NL) t = t" "dropWhile (\<lambda>c. c \<noteq> NL) t = []"
    using assms(2) by (auto simp: line_ok_def)
  then show ?case by (subst phys_lines.simps) (simp add: Let_def)
next
  case (Cons l ls)
  have "takeWhile (\<lambda>c. c \<noteq> NL) (l @ NL # join ls t) = l"
    "dropWhile (\<lambda>c. c \<noteq> NL) (l @ NL # join ls t) = NL # join ls t"
    using Cons.prems by (auto simp: line_ok_def takeWhile_append dropWhile_append3)
  with Cons show ?case by (subst phys_lines.simps) (simp add: Let_def)
qed

text \<open>The content of a complete line: one carriage return before the newline is dropped.\<close>

definition content :: "bytes \<Rightarrow> bytes" where
  "content l = (if l \<noteq> [] \<and> last l = CR then butlast l else l)"

lemma trim_line_end_nl: "trim_line_end (l @ [NL]) = content l"
  by (simp add: trim_line_end_def content_def)

lemma probe_loop_append:
  "list_all snd a \<Longrightarrow> probe_loop de visit (a @ b) s =
     rbind (probe_loop de visit a s) (probe_loop de visit b)"
proof (induction a arbitrary: s)
  case (Cons l a)
  then show ?case
    by (cases l) (auto simp: Let_def rbind_assoc intro!: rbind_cong)
qed simp

lemma probe_loop_end: "probe_loop de visit [] = Inr" "probe_loop de visit [(t, False)] = Inr"
  by (simp_all add: fun_eq_iff)

lemma rbind_return: "rbind m Inr = m"
  by (cases m) simp_all

lemma probe_loop_join:
  assumes "list_all line_ok ls" and "line_ok t"
  shows "probe_loop de visit (phys_lines (join ls t)) s =
    probe_loop de visit (map (\<lambda>l. (l @ [NL], True)) ls) s"
proof -
  have all: "list_all snd (map (\<lambda>l. (l @ [NL], True)) ls)" by (simp add: list_all_iff)
  show ?thesis
    by (simp add: phys_lines_join[OF assms] probe_loop_append[OF all] probe_loop_end rbind_return
        del: probe_loop.simps)
qed

section \<open>Line codecs\<close>

text \<open>What a log of records needs of the text of one record.\<close>

locale line_codec =
  fixes enc :: "'r \<Rightarrow> bytes" and dec :: "bytes \<Rightarrow> 'r option" and fit :: "'r \<Rightarrow> bool"
  assumes dec_enc: "fit r \<Longrightarrow> dec (enc r) = Some r"
    and enc_line: "fit r \<Longrightarrow> NL \<notin> set (enc r) \<and> CR \<notin> set (enc r)"
    and enc_visible: "fit r \<Longrightarrow> visible (enc r)"
begin

lemma enc_ok: "fit r \<Longrightarrow> line_ok (enc r)"
  using enc_line by (simp add: line_ok_def)

lemma enc_ok_all: "list_all fit rs \<Longrightarrow> list_all line_ok (map enc rs)"
  using enc_ok by (auto simp: list_all_iff)

lemma enc_content: "fit r \<Longrightarrow> content (enc r) = enc r \<and> enc r \<noteq> []"
  using enc_line enc_visible last_in_set by (fastforce simp: content_def visible_def)

lemma probe_records:
  assumes "list_all fit rs"
  shows "probe_loop dec (\<lambda>r _ out. Inr (out @ [r])) (map (\<lambda>l. (l @ [NL], True)) (map enc rs)) out
    = Inr (out @ rs)"
  using assms
proof (induction rs arbitrary: out)
  case (Cons r rs)
  then show ?case by (simp add: Let_def trim_line_end_nl enc_content dec_enc ok_or_def)
qed simp

lemma read_log:
  assumes "list_all fit rs" and "line_ok t"
  shows "probe_loop dec (\<lambda>r _ out. Inr (out @ [r])) (phys_lines (join (map enc rs) t)) [] = Inr rs"
  by (simp only: probe_loop_join[OF enc_ok_all[OF assms(1)] assms(2)] probe_records[OF assms(1)]
      append_Nil)

lemma recover_log:
  assumes "list_all fit rs"
  shows "recover_lines X (map enc rs) = (if rs = [] then Inr 0 else parse_seq X (enc (last rs)))"
proof (cases rs rule: rev_cases)
  case (snoc qs r)
  with assms have "visible (enc r)" using enc_visible by simp
  with snoc show ?thesis by (simp add: recover_lines_def)
qed (simp add: recover_lines_def)

end

section \<open>Quarantine\<close>

text \<open>The records a tolerant reader would keep: complete lines that decode.\<close>

definition good_events :: "ext \<Rightarrow> bytes list \<Rightarrow> event list" where
  "good_events X ls = List.map_filter (\<lambda>l. if content l = [] then None else event_of_line X (content l)) ls"

definition corrupt_line :: "ext \<Rightarrow> bytes \<Rightarrow> bool" where
  "corrupt_line X l \<longleftrightarrow> content l \<noteq> [] \<and> event_of_line X (content l) = None"

lemma quarantine_loop_spec:
  "quarantine_loop X ps rec rem off =
     (rec @ concat (map fst (filter (\<lambda>p. \<not> line_corrupt X p) ps)),
      rem @ snd (quarantine_loop X ps [] [] off)) \<and>
   (snd (quarantine_loop X ps [] [] off) = [] \<longleftrightarrow> \<not> list_ex (line_corrupt X) ps)"
proof (induction ps arbitrary: rec rem off)
  case (Cons p ps)
  note IH = Cons[THEN conjunct1]
  show ?case
  proof (cases "line_corrupt X p")
    case True
    then show ?thesis
      using IH[of rec "rem @ [off]" "off + length (fst p)"] IH[of "[]" "[off]" "off + length (fst p)"]
      by simp
  next
    case False
    then show ?thesis
      using IH[of "rec @ fst p" rem "off + length (fst p)"] IH[of "fst p" "[]" "off + length (fst p)"]
        Cons[THEN conjunct2, of "off + length (fst p)"]
      by simp
  qed
qed simp

lemma quarantine_loop_fst:
  "fst (quarantine_loop X ps [] [] off) = concat (map fst (filter (\<lambda>p. \<not> line_corrupt X p) ps))"
  by (subst quarantine_loop_spec[THEN conjunct1]) simp

lemma line_corrupt_complete: "line_corrupt X (l @ [NL], True) = corrupt_line X l"
  by (simp add: line_corrupt_def corrupt_line_def trim_line_end_nl)

lemma line_corrupt_torn: "\<not> line_corrupt X (t, False)"
  by (simp add: line_corrupt_def)

lemma quarantine_join:
  assumes "list_all line_ok ls" and "line_ok t"
  shows "fst (quarantine_loop X (phys_lines (join ls t)) [] [] off) =
      join (filter (\<lambda>l. \<not> corrupt_line X l) ls) t"
    and "snd (quarantine_loop X (phys_lines (join ls t)) [] [] off) = [] \<longleftrightarrow>
      \<not> list_ex (corrupt_line X) ls"
proof -
  have "concat (map fst (filter (\<lambda>p. \<not> line_corrupt X p) (map (\<lambda>l. (l @ [NL], True)) ls))) =
      join (filter (\<lambda>l. \<not> corrupt_line X l) ls) []"
    by (induction ls) (simp_all add: line_corrupt_complete)
  then show "fst (quarantine_loop X (phys_lines (join ls t)) [] [] off) =
      join (filter (\<lambda>l. \<not> corrupt_line X l) ls) t"
    using quarantine_loop_fst
    by (simp add: phys_lines_join[OF assms] line_corrupt_torn
        join_tail[of "filter (\<lambda>l. \<not> corrupt_line X l) ls" t])
  show "snd (quarantine_loop X (phys_lines (join ls t)) [] [] off) = [] \<longleftrightarrow>
      \<not> list_ex (corrupt_line X) ls"
    using quarantine_loop_spec[THEN conjunct2, of X _ off]
    by (simp add: phys_lines_join[OF assms] line_corrupt_torn line_corrupt_complete list_ex_iff)
qed

lemma strict_read_good:
  assumes "\<not> list_ex (corrupt_line X) ls"
  shows "probe_loop (event_of_line X) (\<lambda>ev _ out. Inr (out @ [ev])) (map (\<lambda>l. (l @ [NL], True)) ls) out
    = Inr (out @ good_events X ls)"
  using assms
proof (induction ls arbitrary: out)
  case Nil
  then show ?case by (simp add: good_events_def)
next
  case (Cons l ls)
  then show ?case
    by (auto simp: Let_def trim_line_end_nl corrupt_line_def good_events_def ok_or_def
        split: option.splits)
qed

lemma good_events_filter: "good_events X (filter (\<lambda>l. \<not> corrupt_line X l) ls) = good_events X ls"
  by (induction ls) (auto simp: good_events_def corrupt_line_def)

text \<open>Quarantine repairs the log: afterwards the strict reader accepts it and returns exactly the
  events of the lines that decode, in order; the torn tail is kept, the untouched original is in
  the backup when anything was removed, a clean log is not rewritten, and a second quarantine
  finds nothing.\<close>

theorem quarantine_repairs_log:
  assumes "quarantine_corrupt_lines_unlocked X ts d = Inr (q, d')"
    and "d_events d = Some (join ls t)" and "list_all line_ok ls" and "line_ok t"
  shows "read_all_events X d' = Inr (good_events X ls) \<and>
    d_events d' = Some (join (filter (\<lambda>l. \<not> corrupt_line X l) ls) t) \<and>
    (if list_ex (corrupt_line X) ls then map_of (d_backups d') ts = d_events d else q = None \<and> d' = d) \<and>
    quarantine_corrupt_lines_unlocked X ts' d' = Inr (None, d')"
proof -
  let ?keep = "filter (\<lambda>l. \<not> corrupt_line X l) ls"
  note qj = quarantine_join[OF assms(3,4), of X 0]
  have keep: "list_all line_ok ?keep" "\<not> list_ex (corrupt_line X) ?keep"
    using assms(3) by (auto simp: list_all_iff list_ex_iff)
  have id: "\<not> list_ex (corrupt_line X) ls \<Longrightarrow> ?keep = ls"
    by (simp add: filter_id_conv list_ex_iff)
  from assms(1,2) qj have ev: "d_events d' = Some (join ?keep t)"
    and rest: "if list_ex (corrupt_line X) ls then map_of (d_backups d') ts = d_events d
      else q = None \<and> d' = d" and same: "checked_events d' = checked_events d" "checked_events d = Inr ()"
    by (auto simp: quarantine_corrupt_lines_unlocked_def res_simps Let_def case_prod_beta id
        map_of_AList_update checked_events_def guard_root_def split: if_splits)
  have "read_all_events X d' = Inr (good_events X ?keep)"
    using strict_read_good[OF keep(2), of "[]"]
    by (simp add: read_all_events_def for_each_event_probe_def ev probe_loop_join[OF keep(1) assms(4)])
  moreover have "quarantine_corrupt_lines_unlocked X ts' d' = Inr (None, d')"
    using quarantine_join(2)[OF keep(1) assms(4), of X 0] keep(2) ev same
    by (simp add: quarantine_corrupt_lines_unlocked_def Let_def case_prod_beta)
  ultimately show ?thesis using rest ev by (simp add: good_events_filter)
qed

end
