(* ===== verification/Event_Codec.thy ===== *)
theory Event_Codec
  imports Log_Facts Append
begin

text \<open>
  The text of an event line. What the writer emits for an event is decoded back to that event
  by the strict reader, and each of the narrower readers (sequence recovery, the idempotency
  probe, the replay record, the cancellation probe) sees the matching fields of it. A log is
  then a list of events, and appending a line appends the event.
\<close>

section \<open>Events that survive the log\<close>

definition loggable :: "event \<Rightarrow> bool" where
  "loggable ev \<longleftrightarrow> wf_json (ev_data ev) \<and> exact_json (MAX_DEPTH - 1) (ev_data ev) \<and>
     RunId_parse_str (run_id_str (ev_run_id ev)) = Inr (ev_run_id ev) \<and>
     (case ev_node_id ev of None \<Rightarrow> True | Some n \<Rightarrow> NodeId_parse_str (node_id_str n) = Inr n)"

definition event_text :: "ext \<Rightarrow> event \<Rightarrow> bytes" where
  "event_text X ev = json_to_vec X (event_json X ev)"

lemma event_line_text: "event_line X ev = event_text X ev @ [NL]"
  by (simp add: event_line_def event_text_def)

definition event_fields :: "ext \<Rightarrow> event \<Rightarrow> (string \<times> json) list" where
  "event_fields X ev = (case event_json X ev of Object m \<Rightarrow> m | _ \<Rightarrow> [])"

lemma event_json_Object: "event_json X ev = Object (event_fields X ev)"
  by (simp add: event_fields_def event_json_def)

lemma event_field:
  "map_of (event_fields X ev) ''ts'' = Some (String (ser_datetime X (ev_ts ev)))"
  "map_of (event_fields X ev) ''seq'' = Some (Number (PosInt (ev_seq ev)))"
  "map_of (event_fields X ev) ''kind'' = Some (String (ev_kind ev))"
  "map_of (event_fields X ev) ''run_id'' = Some (String (run_id_str (ev_run_id ev)))"
  "map_of (event_fields X ev) ''node_id'' = map_option (String \<circ> node_id_str) (ev_node_id ev)"
  "map_of (event_fields X ev) ''idempotency_key'' = map_option String (ev_idempotency_key ev)"
  "map_of (event_fields X ev) ''data'' = Some (ev_data ev)"
  by (simp_all add: event_fields_def event_json_def split: option.split)

lemma wf_event_json: "loggable ev \<Longrightarrow> wf_json (event_json X ev)"
  by (simp add: loggable_def event_json_def split: option.split)

lemma exact_event_json: "loggable ev \<Longrightarrow> exact_json MAX_DEPTH (event_json X ev)"
  by (cases "ev_node_id ev"; cases "ev_idempotency_key ev")
    (simp_all add: loggable_def event_json_def MAX_DEPTH_def)

lemma event_text_reads:
  "ext_ok X \<Longrightarrow> loggable ev \<Longrightarrow> json_from_slice X (event_text X ev) = Some (Object (event_fields X ev))"
  by (simp add: event_text_def ext_ok_json wf_event_json exact_event_json flip: event_json_Object)

lemma de_ids:
  "RunId_parse_str (run_id_str r) = Inr r \<Longrightarrow> de_run_id (String (run_id_str r)) = Some r"
  "NodeId_parse_str (node_id_str n) = Inr n \<Longrightarrow> de_node_id (String (node_id_str n)) = Some n"
  by (simp_all add: de_run_id_def de_node_id_def)

lemma event_optional:
  "loggable ev \<Longrightarrow> optional de_node_id (map_of (event_fields X ev)) ''node_id'' = Some (ev_node_id ev)"
  "optional de_string (map_of (event_fields X ev)) ''node_id'' =
     Some (map_option node_id_str (ev_node_id ev))"
  "optional de_string (map_of (event_fields X ev)) ''idempotency_key'' = Some (ev_idempotency_key ev)"
  by (cases "ev_node_id ev"; simp add: optional_def event_field de_option_def de_ids loggable_def)
    (cases "ev_node_id ev"; cases "ev_idempotency_key ev";
      simp add: optional_def event_field de_option_def de_string_def)+

lemma optional_seq: "optional de_u64 (map_of (event_fields X ev)) ''seq'' = Some (Some (ev_seq ev))"
  by (simp add: optional_def event_field de_option_def de_u64_def)

lemma event_required:
  assumes "ext_ok X" and "loggable ev"
  shows "req (de_datetime X) (map_of (event_fields X ev)) ''ts'' = Some (ev_ts ev)"
    "req de_run_id (map_of (event_fields X ev)) ''run_id'' = Some (ev_run_id ev)"
  using assms by (simp_all add: req_def event_field de_datetime_def ext_ok_time de_ids loggable_def)

lemma event_plain:
  "req de_u64 (map_of (event_fields X ev)) ''seq'' = Some (ev_seq ev)"
  "req de_string (map_of (event_fields X ev)) ''kind'' = Some (ev_kind ev)"
  "req Some (map_of (event_fields X ev)) ''data'' = Some (ev_data ev)"
  "defaulted Null Some (map_of (event_fields X ev)) ''data'' = Some (ev_data ev)"
  by (simp_all add: req_def defaulted_def event_field de_u64_def de_string_def)

lemma struct_Object: "struct_fields fs (Object m) = Some (map_of m)"
  by (simp add: struct_fields_def)

lemmas decoders = struct_Object event_optional optional_seq event_required event_plain

lemma de_event_fields: "ext_ok X \<Longrightarrow> loggable ev \<Longrightarrow> de_event X (Object (event_fields X ev)) = Some ev"
  by (simp add: de_event_def decoders)

lemma event_of_text: "ext_ok X \<Longrightarrow> loggable ev \<Longrightarrow> event_of_line X (event_text X ev) = Some ev"
  by (simp add: event_of_line_def event_text_reads de_event_fields)

lemma seq_of_text: "ext_ok X \<Longrightarrow> loggable ev \<Longrightarrow> parse_seq X (event_text X ev) = Inr (ev_seq ev)"
  by (simp add: parse_seq_def event_text_reads de_seq_line_def decoders ok_or_def)

lemma seq_probe_of_text:
  "ext_ok X \<Longrightarrow> loggable ev \<Longrightarrow>
     Option.bind (json_from_slice X (event_text X ev)) de_event_seq_probe = Some (ev_seq ev)"
  by (simp add: event_text_reads de_event_seq_probe_def decoders)

lemma key_probe_of_text:
  "ext_ok X \<Longrightarrow> loggable ev \<Longrightarrow> Option.bind (json_from_slice X (event_text X ev)) de_probe_fields =
     Some (Some (ev_seq ev), ev_kind ev, ev_idempotency_key ev)"
  by (simp add: event_text_reads de_probe_fields_def decoders)

definition prior_of :: "event \<Rightarrow> prior_event" where
  "prior_of ev = \<lparr>pe_seq = ev_seq ev, pe_node_id = map_option node_id_str (ev_node_id ev),
     pe_data = ev_data ev\<rparr>"

lemma prior_of_text:
  "ext_ok X \<Longrightarrow> loggable ev \<Longrightarrow>
     Option.bind (json_from_slice X (event_text X ev)) de_full_event_for_replay = Some (prior_of ev)"
  by (simp add: event_text_reads de_full_event_for_replay_def decoders prior_of_def)

section \<open>The log as a list of events\<close>

interpretation event_lines: line_codec "event_text X" "event_of_line X"
    "\<lambda>ev. ext_ok X \<and> loggable ev" for X
proof unfold_locales
  fix ev assume ok: "ext_ok X \<and> loggable ev"
  then show "event_of_line X (event_text X ev) = Some ev" by (simp add: event_of_text)
  show "NL \<notin> set (event_text X ev) \<and> CR \<notin> set (event_text X ev)"
    using ok ext_ok_no_newline by (simp add: event_text_def)
  show "visible (event_text X ev)"
    using ok ext_ok_visible by (auto simp: event_text_def visible_def list_ex_iff)
qed

text \<open>The log holds exactly these events, followed by a torn tail.\<close>

definition log_is :: "ext \<Rightarrow> run_dir \<Rightarrow> event list \<Rightarrow> bytes \<Rightarrow> bool" where
  "log_is X d evs t \<longleftrightarrow> list_all loggable evs \<and> line_ok t \<and>
     (d_events d = Some (join (map (event_text X) evs) t) \<or> d_events d = None \<and> evs = [] \<and> t = [])"

definition last_seq :: "event list \<Rightarrow> u64" where
  "last_seq evs = (if evs = [] then 0 else ev_seq (last evs))"

lemma log_fit: "ext_ok X \<Longrightarrow> list_all loggable evs \<Longrightarrow> list_all (\<lambda>ev. ext_ok X \<and> loggable ev) evs"
  by (simp add: list_all_iff)

lemma log_read_all:
  assumes "ext_ok X" and "log_is X d evs t"
  shows "read_all_events X d = Inr evs"
  using assms event_lines.read_log[OF log_fit]
  by (auto simp: log_is_def read_all_events_def for_each_event_probe_def)

lemma log_last_seq:
  assumes X: "ext_ok X" and l: "log_is X d evs t"
  shows "recover_last_seq X d = Inr (last_seq evs)"
proof (cases "d_events d")
  case None
  with l show ?thesis by (simp add: log_is_def recover_last_seq_def last_seq_def)
next
  case (Some bs)
  with l have evs: "list_all loggable evs" "line_ok t" "bs = join (map (event_text X) evs) t"
    by (auto simp: log_is_def)
  note fit = log_fit[OF X evs(1)]
  have "list_all line_ok (map (event_text X) evs)" using event_lines.enc_ok_all[OF fit] .
  moreover have "evs \<noteq> [] \<Longrightarrow> loggable (last evs)" using evs(1) by (simp add: list_all_iff)
  ultimately show ?thesis
    using Some evs event_lines.recover_log[OF fit, of X] X
    by (simp add: recover_last_seq_def recover_join seq_of_text last_seq_def)
qed

lemma log_truncated: "log_is X d evs t \<Longrightarrow> log_is X (truncate_torn_tail d) evs []"
  by (auto simp: log_is_def truncate_torn_tail_def truncate_join line_ok_def)

lemma log_append:
  assumes "log_is X d evs []" and "loggable ev"
  shows "log_is X (append_line (event_line X ev) d) (evs @ [ev]) []"
  using assms
  by (auto simp: log_is_def append_line_def event_line_text join_def line_ok_def)

lemma log_same: "d_events d' = d_events d \<Longrightarrow> log_is X d' evs t \<longleftrightarrow> log_is X d evs t"
  by (simp add: log_is_def)

lemma log_lines:
  assumes "ext_ok X" and "log_is X d evs t" and "d_events d = Some bs"
  shows "phys_lines bs = map (\<lambda>ev. (event_text X ev @ [NL], True)) evs @ (if t = [] then [] else [(t, False)])"
  using assms event_lines.enc_ok_all[OF log_fit[OF assms(1)], of evs]
    phys_lines_join[of "map (event_text X) evs" t]
  by (auto simp: log_is_def)

lemma log_content:
  "ext_ok X \<Longrightarrow> loggable ev \<Longrightarrow> trim_line_end (event_text X ev @ [NL]) = event_text X ev \<and> event_text X ev \<noteq> []"
  using event_lines.enc_content[of X ev] by (simp add: trim_line_end_nl)

section \<open>The idempotency scan\<close>

lemma find_prior_loop_log:
  assumes "ext_ok X" and "list_all loggable evs" and "tl_lines = [] \<or> (\<exists>t. tl_lines = [(t, False)])"
  shows "find_prior_loop X k key (map (\<lambda>ev. (event_text X ev @ [NL], True)) evs @ tl_lines) =
    Inr (map_option prior_of (List.find (\<lambda>ev. ev_kind ev = k \<and> ev_idempotency_key ev = Some key) evs))"
  using assms(2)
proof (induction evs)
  case Nil
  then show ?case using assms(3) by (auto simp: Let_def)
next
  case (Cons ev evs)
  then show ?case
    using assms(1) by (simp add: log_content Let_def key_probe_of_text prior_of_text ok_or_def)
qed

lemma find_prior_log:
  assumes "ext_ok X" and "log_is X d evs t" and "checked_events d = Inr ()"
  shows "find_prior_with_key X d k key =
    Inr (map_option prior_of (List.find (\<lambda>ev. ev_kind ev = k \<and> ev_idempotency_key ev = Some key) evs))"
proof (cases "d_events d")
  case None
  with assms show ?thesis by (simp add: find_prior_with_key_def log_is_def)
next
  case (Some bs)
  moreover have "list_all loggable evs" using assms(2) by (simp add: log_is_def)
  ultimately show ?thesis
    using assms(1,3) find_prior_loop_log[OF assms(1)]
    by (auto simp: find_prior_with_key_def log_lines[OF assms(1,2) Some])
qed

end
