(* ===== verification/Store_Facts.thy ===== *)
theory Store_Facts
  imports Store Schema_Facts
begin

text \<open>
  Facts about the run directory. Both kinds of projection file obey one interface, the locale
  of checked stores: a read returns what was last written, writes do not disturb other keys,
  what is read belongs to the run and slot it was read for, and writing it back changes
  nothing. The derived node counter is the number of node files.
\<close>

section \<open>The interface of a projection store\<close>

locale projection_store =
  fixes read_slot :: "'k \<Rightarrow> run_dir \<Rightarrow> 'v option res"
    and write_slot :: "'v \<Rightarrow> run_dir \<Rightarrow> run_dir res"
    and slot_of :: "'v \<Rightarrow> 'k"
    and valid :: "'v \<Rightarrow> bool"
  assumes read_written: "write_slot v d = Inr d' \<Longrightarrow> valid v \<Longrightarrow> read_slot (slot_of v) d' = Inr (Some v)"
    and read_other: "write_slot v d = Inr d' \<Longrightarrow> k \<noteq> slot_of v \<Longrightarrow> read_slot k d' = read_slot k d"
    and read_checked: "read_slot k d = Inr (Some v) \<Longrightarrow> valid v \<and> slot_of v = k"
    and write_allowed: "read_slot (slot_of v) d = Inr x \<Longrightarrow> valid v \<Longrightarrow> \<exists>d'. write_slot v d = Inr d'"
    and write_back: "read_slot k d = Inr (Some v) \<Longrightarrow> write_slot v d = Inr d"
begin

lemma write_idem:
  assumes "write_slot v d = Inr d'" and "valid v"
  shows "write_slot v d' = Inr d'"
  using read_written[OF assms] by (rule write_back)

lemma read_after:
  assumes "write_slot v d = Inr d'" and "valid v"
  shows "read_slot k d' = (if k = slot_of v then Inr (Some v) else read_slot k d)"
  using read_written[OF assms] read_other[OF assms(1)] by auto

lemma read_readable:
  assumes "write_slot v d = Inr d'" and "valid v" and "read_slot k d = Inr x"
  shows "\<exists>y. read_slot k d' = Inr y \<and> (x \<noteq> None \<longrightarrow> y \<noteq> None)"
  using assms by (auto simp: read_after)

end

section \<open>Manifest and node files\<close>

definition manifest_valid :: "run_id \<Rightarrow> manifest \<Rightarrow> bool" where
  "manifest_valid rid m \<longleftrightarrow> m_run_id m = rid \<and> m_schema_version m \<in> set SUPPORTED_STATE_SCHEMAS"

definition node_valid :: "run_id \<Rightarrow> node \<Rightarrow> bool" where
  "node_valid rid n \<longleftrightarrow> n_run_id n = rid \<and> n_schema_version n \<in> set SUPPORTED_STATE_SCHEMAS"

lemmas store_defs = checked_manifest_def checked_node_def guard_root_def reject_symlink_def
  check_schema_def check_key_def check_run_id_def ensure_def node_entry_def

lemma node_id_str_inj [simp]: "node_id_str a = node_id_str b \<longleftrightarrow> a = b"
  by (cases a; cases b) simp

lemma AList_update_same: "map_of al k = Some v \<Longrightarrow> AList.update k v al = al"
  by (induction al) (auto split: if_splits)

lemma read_json_opt_Inr:
  "read_json_opt e = Inr x \<longleftrightarrow> (e = None \<and> x = None) \<or> (\<exists>v. e = Some (File v) \<and> x = Some v)"
  by (auto simp: read_json_opt_def split: option.splits entry.splits)

lemma read_manifest_opt_Inr:
  "read_manifest_opt rid d = Inr x \<longleftrightarrow> \<not> d_root_symlink d \<and>
     (d_manifest d = None \<and> x = None \<or>
      (\<exists>m. d_manifest d = Some (File m) \<and> manifest_valid rid m \<and> x = Some m))"
  by (auto simp: read_manifest_opt_def store_defs read_json_opt_Inr res_simps manifest_valid_def
      split: option.splits if_splits)

lemma write_manifest_Inr:
  "write_manifest rid m d = Inr d' \<longleftrightarrow>
     \<not> d_root_symlink d \<and> d_manifest d \<noteq> Some Symlink \<and> m_run_id m = rid \<and>
     d' = d\<lparr>d_manifest := Some (File m)\<rparr>"
  by (auto simp: write_manifest_def store_defs res_simps split: if_splits)

lemma read_node_opt_Inr:
  "read_node_opt rid d nid = Inr x \<longleftrightarrow> \<not> d_root_symlink d \<and> \<not> d_nodes_symlink d \<and>
     (node_entry d nid = None \<and> x = None \<or>
      (\<exists>n. node_entry d nid = Some (File n) \<and> node_valid rid n \<and> n_node_id n = nid \<and> x = Some n))"
  by (auto simp: read_node_opt_def store_defs read_json_opt_Inr res_simps node_valid_def
      split: option.splits if_splits)

lemma write_node_Inr:
  "write_node rid n d = Inr d' \<longleftrightarrow>
     \<not> d_root_symlink d \<and> \<not> d_nodes_symlink d \<and> node_entry d (n_node_id n) \<noteq> Some Symlink \<and>
     n_run_id n = rid \<and>
     d' = d\<lparr>d_nodes := AList.update (node_id_str (n_node_id n)) (File n) (d_nodes d)\<rparr>"
  by (auto simp: write_node_def store_defs res_simps split: if_splits)

lemma node_entry_update [store_simps]:
  "node_entry (d\<lparr>d_nodes := AList.update (node_id_str k) e (d_nodes d)\<rparr>) nid =
     (if nid = k then Some e else node_entry d nid)"
  by (simp add: node_entry_def map_of_AList_update)

interpretation manifest_store: projection_store "\<lambda>_ :: unit. read_manifest_opt rid"
    "write_manifest rid" "\<lambda>_. ()" "manifest_valid rid" for rid
  by unfold_locales
    (auto simp: read_manifest_opt_Inr write_manifest_Inr, auto simp: manifest_valid_def)

interpretation node_store: projection_store "\<lambda>k d. read_node_opt rid d k"
    "write_node rid" n_node_id "node_valid rid" for rid
proof unfold_locales
  fix v :: node and d d' :: run_dir and k :: node_id
  show "write_node rid v d = Inr d' \<Longrightarrow> node_valid rid v \<Longrightarrow>
      read_node_opt rid d' (n_node_id v) = Inr (Some v)"
    by (auto simp: read_node_opt_Inr write_node_Inr store_simps)
  assume w: "write_node rid v d = Inr d'" and k: "k \<noteq> n_node_id v"
  have "\<And>x. read_node_opt rid d' k = Inr x \<longleftrightarrow> read_node_opt rid d k = Inr x"
    using w k by (auto simp: read_node_opt_Inr write_node_Inr store_simps)
  moreover have "\<And>e. read_node_opt rid d' k = Inl e \<longleftrightarrow> read_node_opt rid d k = Inl e"
    using w k by (auto simp: read_node_opt_def store_defs write_node_Inr map_of_AList_update)
  ultimately show "read_node_opt rid d' k = read_node_opt rid d k"
    by (metis sum.exhaust)
next
  fix v :: node and d :: run_dir and k :: node_id
  show "read_node_opt rid d k = Inr (Some v) \<Longrightarrow> node_valid rid v \<and> n_node_id v = k"
    by (auto simp: read_node_opt_Inr)
  show "read_node_opt rid d k = Inr (Some v) \<Longrightarrow> write_node rid v d = Inr d"
    by (auto simp: read_node_opt_Inr write_node_Inr node_valid_def node_entry_def AList_update_same)
next
  fix v :: node and d :: run_dir and x
  show "read_node_opt rid d (n_node_id v) = Inr x \<Longrightarrow> node_valid rid v \<Longrightarrow>
      \<exists>d'. write_node rid v d = Inr d'"
    by (auto simp: read_node_opt_Inr write_node_Inr node_valid_def)
qed

lemma read_manifest_after_node:
  "write_node rid n d = Inr d' \<Longrightarrow> read_manifest_opt rid d' = read_manifest_opt rid d"
  by (auto simp: write_node_Inr read_manifest_opt_def store_defs)

lemma read_node_after_manifest:
  "write_manifest rid m d = Inr d' \<Longrightarrow> read_node_opt rid d' k = read_node_opt rid d k"
  by (auto simp: write_manifest_Inr read_node_opt_def store_defs)

lemma write_events_unchanged:
  "write_node rid n d = Inr d' \<Longrightarrow> d_events d' = d_events d \<and> d_events_symlink d' = d_events_symlink d"
  "write_manifest rid m d = Inr d' \<Longrightarrow> d_events d' = d_events d \<and> d_events_symlink d' = d_events_symlink d"
  by (auto simp: write_node_Inr write_manifest_Inr)

section \<open>Properties\<close>

text \<open>A node write is read back exactly, leaves every other node, the manifest and the event
  log as they were, and never happens through a symlink or for another run.\<close>

theorem write_node_read_back:
  assumes "write_node rid n d = Inr d'" and "n_schema_version n \<in> set SUPPORTED_STATE_SCHEMAS"
  shows "read_node_opt rid d' (n_node_id n) = Inr (Some n) \<and>
    (k \<noteq> n_node_id n \<longrightarrow> read_node_opt rid d' k = read_node_opt rid d k) \<and>
    read_manifest_opt rid d' = read_manifest_opt rid d \<and> d_events d' = d_events d \<and>
    n_run_id n = rid \<and> \<not> d_root_symlink d \<and> \<not> d_nodes_symlink d \<and>
    node_entry d (n_node_id n) \<noteq> Some Symlink"
proof -
  have "node_valid rid n" using assms by (simp add: node_valid_def write_node_Inr)
  with assms show ?thesis
    using node_store.read_after[OF assms(1)] read_manifest_after_node[OF assms(1)]
      write_events_unchanged(1)[OF assms(1)]
    by (simp add: write_node_Inr)
qed

text \<open>Nothing foreign is ever read: a node or manifest that a read returns carries the run id
  and the slot it was read for and a supported schema version, and writing it back is the
  identity on the directory.\<close>

theorem projections_read_belong_to_run:
  assumes "read_node_opt rid d nid = Inr (Some n)" and "read_manifest_opt rid d = Inr (Some m)"
  shows "n_run_id n = rid \<and> n_node_id n = nid \<and> n_schema_version n \<in> set SUPPORTED_STATE_SCHEMAS \<and>
    m_run_id m = rid \<and> m_schema_version m \<in> set SUPPORTED_STATE_SCHEMAS \<and>
    write_node rid n d = Inr d \<and> write_manifest rid m d = Inr d"
  using node_store.read_checked[OF assms(1)] node_store.write_back[OF assms(1)]
    manifest_store.read_checked[OF assms(2)] manifest_store.write_back[OF assms(2)]
  by (simp add: node_valid_def manifest_valid_def)

lemma unat_saturating_add_one:
  "unat (saturating_add (n :: u32) 1) = min (2 ^ 32 - 1) (unat n + 1)"
proof -
  have "unat (- 1 :: u32) = 2 ^ 32 - 1" by (simp add: unsigned_minus_1_eq_mask mask_eq_exp_minus_1)
  then show ?thesis using unat_u32_less[of n]
    by (auto simp: saturating_add_def unat_word_ariths)
qed

lemma count_slots_unat:
  "unat (count_slots n ents) = min (2 ^ 32 - 1) (unat n + length (filter is_node_slot ents))"
proof (induction n ents rule: count_slots.induct)
  case (1 n)
  then show ?case using unat_u32_less[of n] by simp
next
  case (2 n ent ents)
  then show ?case by (simp add: unat_saturating_add_one min_def)
qed

text \<open>The derived node counter is the number of files in the node directory whose name is a
  node id and that are no symlinks, saturating at the \<open>u32\<close> maximum instead of wrapping.\<close>

theorem derive_counters_exact:
  "unat (derive_counters d) = min (2 ^ 32 - 1) (length (filter is_node_slot (d_nodes d)))"
  by (simp add: derive_counters_def count_node_files_def count_slots_unat)

end
