(* ===== verification/Plan_Facts.thy ===== *)
theory Plan_Facts
  imports Reducer_Work Store_Facts
begin

text \<open>
  The shape of every plan the reducer can return. The inductive predicate \<open>planned\<close> lists the
  six shapes with what may change in each; every per-kind reducer is shown to stay within them,
  and the properties of the projections follow by cases on the shape.
\<close>

section \<open>What an event may change\<close>

definition node_status_step :: "event \<Rightarrow> status \<Rightarrow> status \<Rightarrow> bool" where
  "node_status_step ev s s' \<longleftrightarrow> s' = s \<or>
     (\<not> is_terminal s \<and> (s' = Pending \<or> ev_kind ev \<in> {''node.status'', ''node.report''})) \<or>
     (ev_kind ev = ''node.report'' \<and> permits_terminal_merge_recovery s (ev_data ev) \<and> s' = Done)"

definition node_step :: "event \<Rightarrow> node \<Rightarrow> node \<Rightarrow> bool" where
  "node_step ev n n' \<longleftrightarrow>
     n_node_id n' = n_node_id n \<and> n_run_id n' = n_run_id n \<and>
     n_schema_version n' = n_schema_version n \<and> n_kind n' = n_kind n \<and>
     n_parent_node_id n' = n_parent_node_id n \<and>
     node_status_step ev (n_status n) (n_status n') \<and>
     (n_caller_pi_session n = None \<or> n_caller_pi_session n' = n_caller_pi_session n) \<and>
     lifecycle_generation n \<le> lifecycle_generation n' \<and>
     prefix (n_children n) (n_children n')"

definition fresh_node :: "event \<Rightarrow> run_id \<Rightarrow> node_id \<Rightarrow> node \<Rightarrow> bool" where
  "fresh_node ev rid nid n \<longleftrightarrow>
     n_node_id n = nid \<and> n_run_id n = rid \<and> n_schema_version n = STATE_SCHEMA_VERSION \<and>
     n_status n = Pending \<and> n_retry_attempts n = 0 \<and> n_children n = [] \<and> n_last_report n = None \<and>
     n_updated_at n = ev_ts ev"

definition run_status_step :: "ext \<Rightarrow> run_dir \<Rightarrow> event \<Rightarrow> status \<Rightarrow> status \<Rightarrow> bool" where
  "run_status_step X d ev s s' \<longleftrightarrow> s' = s \<or> \<not> is_terminal s \<or>
     (ev_kind ev = ''run.status'' \<and> recovery_allowed X d ev s s')"

definition same_identity :: "manifest \<Rightarrow> manifest \<Rightarrow> bool" where
  "same_identity m m' \<longleftrightarrow>
     m_run_id m' = m_run_id m \<and> m_schema_version m' = m_schema_version m \<and>
     m_applied_seq m' = m_applied_seq m \<and> m_node_count m' = m_node_count m \<and>
     m_kind m' = m_kind m \<and> m_lifecycle m' = m_lifecycle m \<and> m_agent_owner m' = m_agent_owner m \<and>
     m_title m' = m_title m \<and> m_created_at m' = m_created_at m \<and> m_resident m' = m_resident m \<and>
     m_parent_run_id m' = m_parent_run_id m \<and> m_parent_node_id m' = m_parent_node_id m \<and>
     m_agent_selection m' = m_agent_selection m \<and> m_source_repo m' = m_source_repo m"

definition manifest_step :: "ext \<Rightarrow> run_dir \<Rightarrow> event \<Rightarrow> manifest \<Rightarrow> manifest \<Rightarrow> bool" where
  "manifest_step X d ev m m' \<longleftrightarrow> same_identity m m' \<and>
     run_status_step X d ev (m_status m) (m_status m') \<and>
     (m_caller_settlement_intent m = None \<or>
        m_caller_settlement_intent m' = m_caller_settlement_intent m) \<and>
     (m_source_branch m = None \<or> m_source_branch m' = m_source_branch m)"

lemmas step_defs = node_step_def node_status_step_def manifest_step_def run_status_step_def
  same_identity_def

inductive planned :: "ext \<Rightarrow> run_id \<Rightarrow> run_dir \<Rightarrow> event \<Rightarrow> projection_op list \<Rightarrow> bool"
  for X rid d ev where
  nothing: "planned X rid d ev []"
| edit_node: "ev_node_id ev = Some nid \<Longrightarrow> read_node_opt rid d nid = Inr (Some n) \<Longrightarrow>
    node_step ev n n' \<Longrightarrow> planned X rid d ev [OpNode n']"
| new_node: "ev_kind ev = ''node.created'' \<Longrightarrow> ev_node_id ev = Some nid \<Longrightarrow>
    read_node_opt rid d nid = Inr None \<Longrightarrow> fresh_node ev rid nid n \<Longrightarrow>
    read_manifest_opt rid d = Inr None \<Longrightarrow> planned X rid d ev [OpNode n]"
| new_node_in_run: "ev_kind ev = ''node.created'' \<Longrightarrow> ev_node_id ev = Some nid \<Longrightarrow>
    read_node_opt rid d nid = Inr None \<Longrightarrow> fresh_node ev rid nid n \<Longrightarrow>
    read_manifest_opt rid d = Inr (Some m) \<Longrightarrow> manifest_step X d ev m m' \<Longrightarrow>
    m_status m' = m_status m \<Longrightarrow> planned X rid d ev [OpNode n, OpManifest m']"
| edit_manifest: "read_manifest_opt rid d = Inr (Some m) \<Longrightarrow> manifest_step X d ev m m' \<Longrightarrow>
    planned X rid d ev [OpManifest m']"
| new_manifest: "ev_kind ev = ''run.created'' \<Longrightarrow> read_manifest_opt rid d = Inr None \<Longrightarrow>
    manifest_valid rid m \<Longrightarrow> m_status m = Pending \<Longrightarrow> m_applied_seq m = 0 \<Longrightarrow>
    planned X rid d ev [OpManifest m]"

inductive_cases planned_ConsE: "planned X rid d ev (oper # ops)"

section \<open>The reducers stay within the shapes\<close>

lemma require_envelope_node_id_Inr [res_simps]:
  "require_envelope_node_id ev = Inr nid \<longleftrightarrow> ev_node_id ev = Some nid"
  by (simp add: require_envelope_node_id_def ok_or_Inr)

lemma with_node_Inr:
  "with_node rid d nid f = Inr ops \<longleftrightarrow>
     (read_node_opt rid d nid = Inr None \<and> ops = []) \<or>
     (\<exists>n. read_node_opt rid d nid = Inr (Some n) \<and> f n = Inr ops)"
  by (auto simp: with_node_def res_simps split: option.splits)

definition ops_step :: "event \<Rightarrow> node \<Rightarrow> projection_op list \<Rightarrow> bool" where
  "ops_step ev n ops = (case ops of
       [] \<Rightarrow> True
     | [OpNode n'] \<Rightarrow> node_step ev n n'
     | _ \<Rightarrow> False)"

lemma ops_step_simps [simp]:
  "ops_step ev n []" "ops_step ev n [OpNode n'] = node_step ev n n'"
  by (simp_all add: ops_step_def)

lemma ops_step_planned:
  assumes "ops_step ev n ops" and "ev_node_id ev = Some nid" and "read_node_opt rid d nid = Inr (Some n)"
  shows "planned X rid d ev ops"
proof (cases ops)
  case (Cons oper rest)
  with assms show ?thesis
    by (cases oper; cases rest) (auto simp: ops_step_def intro: planned.intros)
qed (simp add: planned.nothing)

lemma node_edit_planned:
  assumes "with_node rid d nid f = Inr ops" and "ev_node_id ev = Some nid"
    and "\<And>n. f n = Inr ops \<Longrightarrow> ops_step ev n ops"
  shows "planned X rid d ev ops"
  using assms by (auto simp: with_node_Inr intro: planned.nothing ops_step_planned)

lemma checked_add_le: "checked_add (a :: u64) 1 = Some b \<Longrightarrow> a \<le> b"
  by (auto simp: checked_add_def word_le_nat_alt unat_word_ariths split: if_splits)

text \<open>The generation as a function of the one field it reads, so that record updates of other
  fields simplify away.\<close>

definition pi_generation :: "caller_pi_lifecycle option \<Rightarrow> u64" where
  "pi_generation p = (case p of None \<Rightarrow> 0 | Some q \<Rightarrow> pl_generation q)"

lemma lifecycle_generation_field: "lifecycle_generation n = pi_generation (n_caller_pi_lifecycle n)"
  by (simp add: lifecycle_generation_def pi_generation_def)

lemmas [reducer_defs] =
  reduce_node_retry_def reduce_node_status_def reduce_node_death_observed_def
  reduce_child_spawned_def reduce_supervisor_attached_def reduce_supervisor_cursor_advanced_def
  reduce_worker_exited_def reduce_worker_evidence_archived_def reduce_worker_evidence_failed_def
  reduce_worker_display_retained_def reduce_worker_display_expired_def
  reduce_worker_display_unavailable_def reduce_node_awaiting_input_def
  reduce_node_input_resolved_def reduce_merge_aborted_def reduce_node_round_reported_def
  reduce_node_resumed_def reduce_node_round_landed_def reduce_node_resident_dormant_def
  reduce_node_resident_attention_def

text \<open>The kinds that read one node and edit it.\<close>

lemma node_reducers_planned:
  "reduce_node_retry X rid d ev = Inr ops \<Longrightarrow> planned X rid d ev ops"
  "reduce_node_death_observed X rid d ev = Inr ops \<Longrightarrow> planned X rid d ev ops"
  "reduce_child_spawned X rid d ev = Inr ops \<Longrightarrow> planned X rid d ev ops"
  "reduce_supervisor_attached X rid d ev = Inr ops \<Longrightarrow> planned X rid d ev ops"
  "reduce_supervisor_cursor_advanced X rid d ev = Inr ops \<Longrightarrow> planned X rid d ev ops"
  "reduce_worker_exited X rid d ev = Inr ops \<Longrightarrow> planned X rid d ev ops"
  "reduce_worker_evidence_archived X rid d ev = Inr ops \<Longrightarrow> planned X rid d ev ops"
  "reduce_worker_evidence_failed X rid d ev = Inr ops \<Longrightarrow> planned X rid d ev ops"
  "reduce_worker_display_retained X rid d ev = Inr ops \<Longrightarrow> planned X rid d ev ops"
  "reduce_worker_display_expired X rid d ev = Inr ops \<Longrightarrow> planned X rid d ev ops"
  "reduce_worker_display_unavailable X rid d ev = Inr ops \<Longrightarrow> planned X rid d ev ops"
  "reduce_node_awaiting_input X rid d ev = Inr ops \<Longrightarrow> planned X rid d ev ops"
  "reduce_node_input_resolved X rid d ev = Inr ops \<Longrightarrow> planned X rid d ev ops"
  "reduce_merge_aborted X rid d ev = Inr ops \<Longrightarrow> planned X rid d ev ops"
  "reduce_node_round_reported X rid d ev = Inr ops \<Longrightarrow> planned X rid d ev ops"
  "reduce_node_resumed X rid d ev = Inr ops \<Longrightarrow> planned X rid d ev ops"
  "reduce_node_round_landed X rid d ev = Inr ops \<Longrightarrow> planned X rid d ev ops"
  "reduce_node_resident_dormant X rid d ev = Inr ops \<Longrightarrow> planned X rid d ev ops"
  "reduce_node_resident_attention X rid d ev = Inr ops \<Longrightarrow> planned X rid d ev ops"
  by (auto simp: reducer_defs res_simps Let_def step_defs lifecycle_generation_field
      elim!: node_edit_planned split: option.splits if_splits)

lemma reduce_node_status_planned:
  "ev_kind ev = ''node.status'' \<Longrightarrow> reduce_node_status X rid d ev = Inr ops \<Longrightarrow> planned X rid d ev ops"
  by (auto simp: reduce_node_status_def res_simps Let_def step_defs lifecycle_generation_field
      elim!: node_edit_planned split: if_splits)

lemma reduce_node_report_planned:
  "ev_kind ev = ''node.report'' \<Longrightarrow> reduce_node_report X rid d ev = Inr ops \<Longrightarrow> planned X rid d ev ops"
  by (auto simp: reduce_node_report_def res_simps step_defs lifecycle_generation_field
      elim!: node_edit_planned split: if_splits)

lemma reduce_merge_started_planned: "reduce_merge_started X rid d ev = Inr ops \<Longrightarrow> planned X rid d ev ops"
  by (auto simp: reduce_merge_started_def res_simps step_defs lifecycle_generation_field
      elim!: node_edit_planned split: if_splits)

text \<open>The caller-owned kinds read the manifest as well.\<close>

lemma reduce_caller_pi_session_bound_planned:
  "reduce_caller_pi_session_bound X rid d ev = Inr ops \<Longrightarrow> planned X rid d ev ops"
proof -
  assume "reduce_caller_pi_session_bound X rid d ev = Inr ops"
  then obtain nid n binding P where n: "ev_node_id ev = Some nid"
      "read_node_opt rid d nid = Inr (Some n)"
    and r: "(case n_caller_pi_session n of
           Some existing \<Rightarrow> if existing = binding then Inr [] else Inl CorruptEventLog
         | None \<Rightarrow> if P then Inl CorruptEventLog
             else if ps_generation binding \<noteq> None \<and> n_caller_pi_lifecycle n = None
             then Inl CorruptEventLog
             else Inr [OpNode (n\<lparr>
                    n_caller_pi_lifecycle := map_option
                      (\<lambda>c. c\<lparr>pl_session_path := Some (ps_session_path binding)\<rparr>)
                      (n_caller_pi_lifecycle n),
                    n_caller_pi_session := Some binding,
                    n_updated_at := ev_ts ev\<rparr>)]) = Inr ops"
    by (simp only: reduce_caller_pi_session_bound_def res_simps) blast
  then have "ops_step ev n ops"
    by (cases "n_caller_pi_session n"; cases "n_caller_pi_lifecycle n")
      (auto simp: step_defs lifecycle_generation_field pi_generation_def split: if_splits)
  with n show ?thesis by (intro ops_step_planned)
qed

lemma pi_transition_generation:
  "pi_transition_ok b cur told \<Longrightarrow> pi_generation cur \<le> pl_generation told"
  by (auto simp: pi_transition_ok_def pi_generation_def dest: checked_add_le split: option.splits)

lemma reduce_caller_pi_lifecycle_planned:
  "reduce_caller_pi_lifecycle X rid d ev = Inr ops \<Longrightarrow> planned X rid d ev ops"
  by (auto simp: reduce_caller_pi_lifecycle_def res_simps step_defs lifecycle_generation_field
      pi_generation_def[of "Some _"] dest!: pi_transition_generation
      intro!: planned.nothing planned.edit_node split: if_splits)

lemma reduce_caller_settlement_intent_planned:
  "reduce_caller_settlement_intent X rid d ev = Inr ops \<Longrightarrow> planned X rid d ev ops"
proof -
  assume "reduce_caller_settlement_intent X rid d ev = Inr ops"
  then obtain m intent P where m: "read_manifest_opt rid d = Inr (Some m)"
    and "(case m_caller_settlement_intent m of
          Some existing \<Rightarrow> if existing = intent then Inr [] else Inl CorruptEventLog
        | None \<Rightarrow> if P then Inl CorruptEventLog
            else Inr [OpManifest (m\<lparr>m_caller_settlement_intent := Some intent,
                   m_updated_at := ev_ts ev\<rparr>)]) = Inr ops"
    by (simp only: reduce_caller_settlement_intent_def res_simps Let_def) blast
  with m show ?thesis
    by (cases "m_caller_settlement_intent m")
      (auto simp: step_defs intro!: planned.nothing planned.edit_manifest split: if_splits)
qed

section \<open>Run-level kinds\<close>

lemma reduce_run_created_planned:
  "ev_kind ev = ''run.created'' \<Longrightarrow> reduce_run_created X rid d ev = Inr ops \<Longrightarrow> planned X rid d ev ops"
proof -
  assume k: "ev_kind ev = ''run.created''" and r: "reduce_run_created X rid d ev = Inr ops"
  then obtain mo where m: "read_manifest_opt rid d = Inr mo"
    by (auto simp: reduce_run_created_def res_simps)
  show ?thesis
  proof (cases mo)
    case (Some m)
    with r m show ?thesis
      by (auto simp: reduce_run_created_def intro: planned.nothing split: if_splits)
  next
    case None
    with k r m show ?thesis
      by (auto simp: reduce_run_created_def res_simps Let_def manifest_valid_def
          STATE_SCHEMA_VERSION_def SUPPORTED_STATE_SCHEMAS_def intro!: planned.new_manifest)
  qed
qed

lemma reduce_run_status_planned:
  "ev_kind ev = ''run.status'' \<Longrightarrow> reduce_run_status X rid d ev = Inr ops \<Longrightarrow> planned X rid d ev ops"
  by (auto simp: reduce_run_status_def res_simps step_defs
      intro!: planned.nothing planned.edit_manifest split: option.splits if_splits)

text \<open>What a \<open>node.created\<close> event plans for a node that does not exist yet.\<close>

lemma reduce_node_created_fresh:
  assumes r: "reduce_node_created X rid d ev = Inr ops" and nid: "ev_node_id ev = Some nid"
    and no: "read_node_opt rid d nid = Inr None"
  obtains n mo where "fresh_node ev rid nid n" "read_manifest_opt rid d = Inr mo"
    "ops = (case mo of None \<Rightarrow> [OpNode n] | Some m \<Rightarrow>
        [OpNode n, OpManifest ((if node_id_str nid = ''n-0001'' \<and> m_source_branch m = None
           then m\<lparr>m_source_branch := nonempty_str (ev_data ev) ''source_branch''\<rparr> else m)
             \<lparr>m_updated_at := ev_ts ev\<rparr>)])"
  using assms
  by (clarsimp simp: reduce_node_created_def require_envelope_node_id_def ok_or_Inr rbind_Inr_iff
      Let_def ok_or_def[of _ "Some nid"])
    (rule that, auto simp: fresh_node_def split: option.splits)

lemma reduce_node_created_planned:
  "ev_kind ev = ''node.created'' \<Longrightarrow> reduce_node_created X rid d ev = Inr ops \<Longrightarrow> planned X rid d ev ops"
proof -
  assume k: "ev_kind ev = ''node.created''" and r: "reduce_node_created X rid d ev = Inr ops"
  then obtain nid no where nid: "ev_node_id ev = Some nid" and no: "read_node_opt rid d nid = Inr no"
    by (auto simp: reduce_node_created_def res_simps)
  show ?thesis
  proof (cases no)
    case (Some n)
    with r nid no show ?thesis
      by (auto simp: reduce_node_created_def require_envelope_node_id_def ok_or_def
          intro: planned.nothing)
  next
    case None
    with no have "read_node_opt rid d nid = Inr None" by simp
    with r nid obtain n mo where n: "fresh_node ev rid nid n"
      and mo: "read_manifest_opt rid d = Inr mo"
      and ops: "ops = (case mo of None \<Rightarrow> [OpNode n] | Some m \<Rightarrow>
        [OpNode n, OpManifest ((if node_id_str nid = ''n-0001'' \<and> m_source_branch m = None
           then m\<lparr>m_source_branch := nonempty_str (ev_data ev) ''source_branch''\<rparr> else m)
             \<lparr>m_updated_at := ev_ts ev\<rparr>)])"
      by (blast elim: reduce_node_created_fresh)
    show ?thesis
    proof (cases mo)
      case None
      with n mo ops k nid no \<open>no = None\<close> show ?thesis by (auto intro: planned.new_node)
    next
      case (Some m)
      have "manifest_step X d ev m (snd (ops, (if node_id_str nid = ''n-0001'' \<and> m_source_branch m = None
           then m\<lparr>m_source_branch := nonempty_str (ev_data ev) ''source_branch''\<rparr> else m)
             \<lparr>m_updated_at := ev_ts ev\<rparr>))"
        by (auto simp: step_defs)
      with Some n mo ops k nid no \<open>no = None\<close> show ?thesis
        by (auto intro!: planned.new_node_in_run)
    qed
  qed
qed

section \<open>Dispatch\<close>

lemmas all_planned = node_reducers_planned reduce_node_report_planned reduce_merge_started_planned
  reduce_caller_pi_session_bound_planned reduce_caller_pi_lifecycle_planned
  reduce_caller_settlement_intent_planned reduce_run_created_planned reduce_run_status_planned
  reduce_node_created_planned reduce_node_status_planned

lemma reduce_event_to_ops_planned:
  assumes "reduce_event_to_ops X rid d ev = Inr ops"
  shows "ev_run_id ev = rid \<and> planned X rid d ev ops"
  using assms
  by (auto simp: reduce_event_to_ops_def reducers_def no_projection_def
      intro: planned.nothing all_planned split: if_splits option.splits)

end
