(* ===== verification/Reducer_Facts.thy ===== *)
theory Reducer_Facts
  imports Plan_Facts
begin

text \<open>
  Facts about folding events into the projections: a plan commits completely or is rejected
  before anything is written, it stays within its run and its node, and terminal states are
  absorbing up to the one authorized recovery.
\<close>

section \<open>Commit\<close>

definition op_ok :: "run_id \<Rightarrow> run_dir \<Rightarrow> projection_op \<Rightarrow> bool" where
  "op_ok rid d oper = (case oper of
       OpManifest m \<Rightarrow> manifest_valid rid m \<and> (\<exists>x. read_manifest_opt rid d = Inr x)
     | OpNode n \<Rightarrow> node_valid rid n \<and> (\<exists>x. read_node_opt rid d (n_node_id n) = Inr x))"

definition reads_back :: "run_id \<Rightarrow> projection_op \<Rightarrow> run_dir \<Rightarrow> bool" where
  "reads_back rid oper d = (case oper of
       OpManifest m \<Rightarrow> read_manifest_opt rid d = Inr (Some m)
     | OpNode n \<Rightarrow> read_node_opt rid d (n_node_id n) = Inr (Some n))"

definition same_at :: "run_id \<Rightarrow> proj_path \<Rightarrow> run_dir \<Rightarrow> run_dir \<Rightarrow> bool" where
  "same_at rid p d d' = (case p of
       ManifestPath \<Rightarrow> read_manifest_opt rid d' = read_manifest_opt rid d
     | NodePath k \<Rightarrow> read_node_opt rid d' k = read_node_opt rid d k)"

definition same_log :: "run_dir \<Rightarrow> run_dir \<Rightarrow> bool" where
  "same_log d d' \<longleftrightarrow> d_events d' = d_events d \<and> d_events_symlink d' = d_events_symlink d \<and>
     d_root_symlink d' = d_root_symlink d \<and> d_backups d' = d_backups d"

lemma commit_op_ok:
  assumes "op_ok rid d oper"
  obtains d' where "commit_op rid oper d = (Inr (), d')" "reads_back rid oper d'"
    "\<And>p. p \<noteq> op_path oper \<Longrightarrow> same_at rid p d d'" "\<And>o2. op_ok rid d o2 \<Longrightarrow> op_ok rid d' o2"
    "same_log d d'"
proof (cases oper)
  case (OpManifest m)
  with assms have v: "manifest_valid rid m" and "\<exists>x. read_manifest_opt rid d = Inr x"
    by (simp_all add: op_ok_def)
  then obtain d' where w: "write_manifest rid m d = Inr d'"
    using manifest_store.write_allowed[of rid d] by blast
  note rd = manifest_store.read_after[OF w v] read_node_after_manifest[OF w]
  show ?thesis
  proof (rule that[of d'])
    show "commit_op rid oper d = (Inr (), d')" using OpManifest w by (simp add: commit_op_def io_simps)
    show "reads_back rid oper d'" using OpManifest rd by (simp add: reads_back_def)
    show "same_at rid p d d'" if "p \<noteq> op_path oper" for p
      using that OpManifest rd by (auto simp: same_at_def op_path_def split: proj_path.splits)
    show "op_ok rid d' o2" if "op_ok rid d o2" for o2
      using that rd by (auto simp: op_ok_def split: projection_op.splits)
    show "same_log d d'" using w by (auto simp: write_manifest_Inr same_log_def)
  qed
next
  case (OpNode n)
  with assms have v: "node_valid rid n" and "\<exists>x. read_node_opt rid d (n_node_id n) = Inr x"
    by (simp_all add: op_ok_def)
  then obtain d' where w: "write_node rid n d = Inr d'"
    using node_store.write_allowed[of rid d] by blast
  note rd = node_store.read_after[OF w v] read_manifest_after_node[OF w]
  show ?thesis
  proof (rule that[of d'])
    show "commit_op rid oper d = (Inr (), d')" using OpNode w by (simp add: commit_op_def io_simps)
    show "reads_back rid oper d'" using OpNode rd by (simp add: reads_back_def)
    show "same_at rid p d d'" if "p \<noteq> op_path oper" for p
      using that OpNode rd by (auto simp: same_at_def op_path_def split: proj_path.splits)
    show "op_ok rid d' o2" if "op_ok rid d o2" for o2
      using that rd by (auto simp: op_ok_def split: projection_op.splits)
    show "same_log d d'" using w by (auto simp: write_node_Inr same_log_def)
  qed
qed

lemma reads_back_same_at: "reads_back rid oper d \<Longrightarrow> same_at rid (op_path oper) d d' \<Longrightarrow> reads_back rid oper d'"
  by (auto simp: reads_back_def same_at_def op_path_def split: projection_op.splits)

lemma same_at_trans: "same_at rid p a b \<Longrightarrow> same_at rid p b c \<Longrightarrow> same_at rid p a c"
  by (auto simp: same_at_def split: proj_path.splits)

lemma commit_ops_ok:
  assumes "list_all (op_ok rid d) ops" and "distinct (map op_path ops)"
  shows "\<exists>d'. commit_ops rid ops d = (Inr (), d') \<and> list_all (\<lambda>oper. reads_back rid oper d') ops \<and>
    (\<forall>p. p \<notin> set (map op_path ops) \<longrightarrow> same_at rid p d d') \<and> same_log d d'"
  using assms
proof (induction ops arbitrary: d)
  case Nil
  then show ?case by (auto simp: ret_def same_log_def same_at_def split: proj_path.splits)
next
  case (Cons oper ops)
  from Cons.prems obtain d1 where d1: "commit_op rid oper d = (Inr (), d1)" "reads_back rid oper d1"
    "\<And>p. p \<noteq> op_path oper \<Longrightarrow> same_at rid p d d1" "\<And>o2. op_ok rid d o2 \<Longrightarrow> op_ok rid d1 o2"
    "same_log d d1"
    by (auto elim: commit_op_ok)
  from Cons.prems d1(4) have "list_all (op_ok rid d1) ops" and "distinct (map op_path ops)"
    by (auto simp: list_all_iff)
  from Cons.IH[OF this] obtain d' where d': "commit_ops rid ops d1 = (Inr (), d')"
    "list_all (\<lambda>oper. reads_back rid oper d') ops"
    "\<And>p. p \<notin> set (map op_path ops) \<Longrightarrow> same_at rid p d1 d'" "same_log d1 d'" by blast
  have "reads_back rid oper d'"
    using d1(2) d'(3)[of "op_path oper"] Cons.prems(2) by (auto intro: reads_back_same_at)
  moreover have "commit_ops rid (oper # ops) d = (Inr (), d')"
    using d1(1) d'(1) by (simp add: bind_io_step)
  moreover have "same_log d d'" using d1(5) d'(4) by (simp add: same_log_def)
  ultimately show ?case using d' d1(3) by (auto intro: same_at_trans)
qed

section \<open>Planners\<close>

text \<open>The interface the append path relies on: what a plan names can be written.\<close>

locale planner =
  fixes rid :: run_id and plan :: "run_dir \<Rightarrow> event \<Rightarrow> projection_op list res"
  assumes plan_ok: "plan d ev = Inr ops \<Longrightarrow> list_all (op_ok rid d) ops \<and> distinct (map op_path ops)"
begin

lemma commit_plan:
  assumes "plan d ev = Inr ops"
  obtains d' where "commit_ops rid ops d = (Inr (), d')"
    "list_all (\<lambda>oper. reads_back rid oper d') ops"
    "\<And>p. p \<notin> set (map op_path ops) \<Longrightarrow> same_at rid p d d'" "same_log d d'"
  using commit_ops_ok plan_ok[OF assms] by blast

lemma commit_plan_iff:
  assumes "plan d ev = Inr ops"
  shows "commit_ops rid ops d = (r, d') \<longleftrightarrow> r = Inr () \<and> commit_ops rid ops d = (Inr (), d')"
  using commit_plan[OF assms] by force

end

lemma planned_ok:
  assumes "planned X rid d ev ops"
  shows "list_all (op_ok rid d) ops \<and> distinct (map op_path ops)"
  using assms
proof cases
  case (edit_node nid n n')
  then show ?thesis using node_store.read_checked
    by (auto simp: op_ok_def node_step_def node_valid_def)
next
  case (new_node_in_run nid n m m')
  then have "manifest_valid rid m" using manifest_store.read_checked by blast
  with new_node_in_run show ?thesis
    by (auto simp: op_ok_def op_path_def fresh_node_def node_valid_def manifest_valid_def step_defs
        STATE_SCHEMA_VERSION_def SUPPORTED_STATE_SCHEMAS_def)
next
  case (edit_manifest m m')
  then have "manifest_valid rid m" using manifest_store.read_checked by blast
  with edit_manifest show ?thesis
    by (auto simp: op_ok_def manifest_valid_def step_defs)
qed (auto simp: op_ok_def fresh_node_def node_valid_def STATE_SCHEMA_VERSION_def
    SUPPORTED_STATE_SCHEMAS_def)

interpretation reducer: planner rid "reduce_event_to_ops X rid" for X rid
  by unfold_locales (blast dest: reduce_event_to_ops_planned planned_ok)

lemma apply_event_Inr:
  "apply_event X rid ev d = (Inr (), d') \<longleftrightarrow>
     (\<exists>ops. reduce_event_to_ops X rid d ev = Inr ops \<and> commit_ops rid ops d = (Inr (), d'))"
  by (auto simp: apply_event_def io_simps)

text \<open>Plan, then commit: once the reducer accepts an event, committing its plan cannot fail;
  it writes exactly the projections that the dry run \<open>plan_projections\<close> names, each reads back as
  planned, every other projection and the event log stay as they were. When the reducer rejects,
  nothing is written at all.\<close>

theorem apply_event_commits_plan:
  "case reduce_event_to_ops X rid d ev of
     Inl e \<Rightarrow> apply_event X rid ev d = (Inl e, d) \<and> plan_projections X rid d ev = Inl e
   | Inr ops \<Rightarrow> plan_projections X rid d ev = Inr (map op_path ops) \<and>
       (\<exists>d'. apply_event X rid ev d = (Inr (), d') \<and> list_all (\<lambda>oper. reads_back rid oper d') ops \<and>
          (\<forall>p. p \<notin> set (map op_path ops) \<longrightarrow> same_at rid p d d') \<and> d_events d' = d_events d)"
proof (cases "reduce_event_to_ops X rid d ev")
  case (Inl e)
  then show ?thesis by (simp add: apply_event_def plan_projections_def io_simps)
next
  case (Inr ops)
  from reducer.commit_plan[OF Inr] obtain d' where "commit_ops rid ops d = (Inr (), d')"
    "list_all (\<lambda>oper. reads_back rid oper d') ops"
    "\<And>p. p \<notin> set (map op_path ops) \<Longrightarrow> same_at rid p d d'" "same_log d d'"
    by blast
  moreover from this Inr have "apply_event X rid ev d = (Inr (), d')"
    by (auto simp: apply_event_Inr)
  ultimately show ?thesis using Inr by (auto simp: plan_projections_def same_log_def)
qed

section \<open>What one event does to a projection\<close>

lemma apply_event_node:
  assumes "apply_event X rid ev d = (Inr (), d')" and "read_node_opt rid d nid = Inr (Some n)"
  shows "\<exists>n'. read_node_opt rid d' nid = Inr (Some n') \<and> (n' = n \<or> node_step ev n n')"
proof -
  from assms obtain ops where ops: "reduce_event_to_ops X rid d ev = Inr ops"
    and c: "commit_ops rid ops d = (Inr (), d')" by (auto simp: apply_event_Inr)
  from reducer.commit_plan[OF ops] c have rb: "list_all (\<lambda>oper. reads_back rid oper d') ops"
    and other: "\<And>p. p \<notin> set (map op_path ops) \<Longrightarrow> same_at rid p d d'" by auto
  show ?thesis
  proof (cases "NodePath nid \<in> set (map op_path ops)")
    case False
    from other[OF this] assms(2) show ?thesis by (simp add: same_at_def)
  next
    case True
    have "planned X rid d ev ops" using reduce_event_to_ops_planned[OF ops] by blast
    then show ?thesis
    proof cases
      case (edit_node k m n')
      then have "n_node_id n' = k" using node_store.read_checked by (fastforce simp: node_step_def)
      with edit_node rb assms(2) True show ?thesis by (auto simp: reads_back_def op_path_def)
    qed (use assms(2) True in \<open>auto simp: op_path_def fresh_node_def\<close>)
  qed
qed

lemma apply_event_manifest:
  assumes "apply_event X rid ev d = (Inr (), d')" and "read_manifest_opt rid d = Inr (Some m)"
  shows "\<exists>m'. read_manifest_opt rid d' = Inr (Some m') \<and> (m' = m \<or> manifest_step X d ev m m')"
proof -
  from assms obtain ops where ops: "reduce_event_to_ops X rid d ev = Inr ops"
    and c: "commit_ops rid ops d = (Inr (), d')" by (auto simp: apply_event_Inr)
  from reducer.commit_plan[OF ops] c have rb: "list_all (\<lambda>oper. reads_back rid oper d') ops"
    and other: "\<And>p. p \<notin> set (map op_path ops) \<Longrightarrow> same_at rid p d d'" by auto
  have "planned X rid d ev ops" using reduce_event_to_ops_planned[OF ops] by blast
  then show ?thesis
    by cases (use assms(2) rb other[of ManifestPath] in
        \<open>auto simp: same_at_def op_path_def reads_back_def\<close>)
qed

text \<open>A plan never leaves its run: the event carries the run's id, every planned manifest or node
  carries it too, and a planned node is the one the event's envelope names.\<close>

theorem plan_stays_in_run:
  assumes "reduce_event_to_ops X rid d ev = Inr ops" and "oper \<in> set ops"
  shows "ev_run_id ev = rid \<and> (case oper of
      OpManifest m \<Rightarrow> m_run_id m = rid
    | OpNode n \<Rightarrow> n_run_id n = rid \<and> ev_node_id ev = Some (n_node_id n))"
proof -
  have p: "planned X rid d ev ops" and r: "ev_run_id ev = rid"
    using reduce_event_to_ops_planned[OF assms(1)] by auto
  have "op_ok rid d oper" using planned_ok[OF p] assms(2) by (simp add: list_all_iff)
  moreover have "ev_node_id ev = Some (n_node_id n)" if "oper = OpNode n" for n
    using p
  proof cases
    case (edit_node k m n')
    then have "n_node_id n' = k" using node_store.read_checked by (fastforce simp: node_step_def)
    with edit_node that assms(2) show ?thesis by simp
  qed (use that assms(2) in \<open>auto simp: fresh_node_def\<close>)
  ultimately show ?thesis using r
    by (auto simp: op_ok_def node_valid_def manifest_valid_def split: projection_op.splits)
qed

text \<open>A settled node stays settled: folding any event leaves a terminal node in place with its
  status, except that a confirmed merge report turns \<open>failed\<close> into \<open>done\<close>. In particular a
  cancelled node never changes status.\<close>

theorem terminal_node_absorbing:
  assumes "apply_event X rid ev d = (Inr (), d')" and "read_node_opt rid d nid = Inr (Some n)"
    and "is_terminal (n_status n)"
  shows "\<exists>n'. read_node_opt rid d' nid = Inr (Some n') \<and>
    (n_status n' = n_status n \<or>
     n_status n = Failed \<and> n_status n' = Done \<and> ev_kind ev = ''node.report'' \<and>
     report_is_confirmed_merge (ev_data ev))"
  using apply_event_node[OF assms(1,2)] assms(3)
  by (auto simp: node_step_def node_status_step_def permits_terminal_merge_recovery_def)

lemma recovery_allowed_iff:
  "recovery_allowed X d ev s s' \<longleftrightarrow> s = Failed \<and> s' = Done \<and>
     get_bool (ev_data ev) ''children_successful'' = Some True \<and>
     (\<exists>seq facts. get_u64 (ev_data ev) ''recovery_merge_report_seq'' = Some seq \<and>
        read_node_status_facts X d (Some (ev_seq ev)) = Inr facts \<and>
        aggregate_terminal_status (map nf_status facts) = Some Done \<and>
        list_ex (\<lambda>f. nf_confirmed_merge_seq f = Some seq) facts)"
  by (auto simp: recovery_allowed_def Let_def split: option.splits sum.splits)

text \<open>A settled run stays settled: folding any event leaves a terminal run's status alone, except
  that \<open>run.status\<close> may turn \<open>failed\<close> into \<open>done\<close> when the log before that event shows every node
  done and contains the adopted merge report the event cites.\<close>

theorem terminal_run_absorbing:
  assumes "apply_event X rid ev d = (Inr (), d')" and "read_manifest_opt rid d = Inr (Some m)"
    and "is_terminal (m_status m)"
  shows "\<exists>m'. read_manifest_opt rid d' = Inr (Some m') \<and>
    (m_status m' = m_status m \<or>
     m_status m = Failed \<and> m_status m' = Done \<and> ev_kind ev = ''run.status'' \<and>
     (\<exists>seq facts. get_u64 (ev_data ev) ''recovery_merge_report_seq'' = Some seq \<and>
        read_node_status_facts X d (Some (ev_seq ev)) = Inr facts \<and>
        aggregate_terminal_status (map nf_status facts) = Some Done \<and>
        list_ex (\<lambda>f. nf_confirmed_merge_seq f = Some seq) facts))"
  using apply_event_manifest[OF assms(1,2)] assms(3)
  by (auto simp: manifest_step_def run_status_step_def recovery_allowed_iff)

end
