(* ===== verification/History.thy ===== *)
theory History
  imports Reducer_Facts Append
begin

text \<open>
  Histories of a run directory: the elementary steps of the write paths, and what never moves
  backwards along any sequence of them. Both projections satisfy one interface, the locale of
  forward-moving views.
\<close>

section \<open>Histories\<close>

text \<open>The steps every write path is composed of: folding an event, moving the watermark, and
  rewriting the log or its backups, which no projection depends on. A crash may fall between any
  two of them.\<close>

inductive run_step :: "ext \<Rightarrow> run_id \<Rightarrow> run_dir \<Rightarrow> run_dir \<Rightarrow> bool" for X rid where
  folded: "apply_event X rid ev d = (Inr (), d') \<Longrightarrow> run_step X rid d d'"
| watermark: "advance_applied_seq rid seq d = (Inr (), d') \<Longrightarrow> run_step X rid d d'"
| logged: "run_step X rid d (d\<lparr>d_events := es, d_backups := bs\<rparr>)"

inductive_cases run_stepE: "run_step X rid d d'"

abbreviation run_steps :: "ext \<Rightarrow> run_id \<Rightarrow> run_dir \<Rightarrow> run_dir \<Rightarrow> bool" where
  "run_steps X rid \<equiv> (run_step X rid)\<^sup>*\<^sup>*"

text \<open>The interface of a projection that only moves forward along the steps.\<close>

locale forward =
  fixes step :: "run_dir \<Rightarrow> run_dir \<Rightarrow> bool" and look :: "run_dir \<Rightarrow> 'v option"
    and le :: "'v \<Rightarrow> 'v \<Rightarrow> bool"
  assumes le_refl: "le v v" and le_trans: "le u v \<Longrightarrow> le v w \<Longrightarrow> le u w"
    and step_le: "step d d' \<Longrightarrow> look d = Some v \<Longrightarrow> \<exists>v'. look d' = Some v' \<and> le v v'"
begin

lemma history: "step\<^sup>*\<^sup>* d d' \<Longrightarrow> look d = Some v \<Longrightarrow> \<exists>v'. look d' = Some v' \<and> le v v'"
proof (induction rule: rtranclp_induct)
  case base
  then show ?case using le_refl by blast
next
  case (step y z)
  then show ?case using step_le le_trans by meson
qed

end

definition node_later :: "node \<Rightarrow> node \<Rightarrow> bool" where
  "node_later n n' \<longleftrightarrow>
     n_node_id n' = n_node_id n \<and> n_run_id n' = n_run_id n \<and> n_kind n' = n_kind n \<and>
     n_parent_node_id n' = n_parent_node_id n \<and>
     (is_terminal (n_status n) \<longrightarrow> n_status n' = n_status n \<or> n_status n = Failed \<and> n_status n' = Done) \<and>
     (n_caller_pi_session n \<noteq> None \<longrightarrow> n_caller_pi_session n' = n_caller_pi_session n) \<and>
     lifecycle_generation n \<le> lifecycle_generation n' \<and>
     prefix (n_children n) (n_children n')"

definition manifest_later :: "manifest \<Rightarrow> manifest \<Rightarrow> bool" where
  "manifest_later m m' \<longleftrightarrow>
     m_run_id m' = m_run_id m \<and> m_kind m' = m_kind m \<and> m_lifecycle m' = m_lifecycle m \<and>
     m_agent_owner m' = m_agent_owner m \<and> m_title m' = m_title m \<and> m_created_at m' = m_created_at m \<and>
     m_parent_run_id m' = m_parent_run_id m \<and> m_parent_node_id m' = m_parent_node_id m \<and>
     m_agent_selection m' = m_agent_selection m \<and> m_resident m' = m_resident m \<and>
     m_applied_seq m \<le> m_applied_seq m' \<and>
     (is_terminal (m_status m) \<longrightarrow> m_status m' = m_status m \<or> m_status m = Failed \<and> m_status m' = Done) \<and>
     (m_caller_settlement_intent m \<noteq> None \<longrightarrow>
        m_caller_settlement_intent m' = m_caller_settlement_intent m) \<and>
     (m_source_branch m \<noteq> None \<longrightarrow> m_source_branch m' = m_source_branch m)"

lemma node_later_refl: "node_later n n"
  by (simp add: node_later_def)

lemma manifest_later_refl: "manifest_later m m"
  by (simp add: manifest_later_def)

definition look_node :: "run_id \<Rightarrow> node_id \<Rightarrow> run_dir \<Rightarrow> node option" where
  "look_node rid nid d = (case read_node_opt rid d nid of Inr (Some n) \<Rightarrow> Some n | _ \<Rightarrow> None)"

definition look_manifest :: "run_id \<Rightarrow> run_dir \<Rightarrow> manifest option" where
  "look_manifest rid d = (case read_manifest_opt rid d of Inr (Some m) \<Rightarrow> Some m | _ \<Rightarrow> None)"

lemma look_node_Some [simp]: "look_node rid nid d = Some n \<longleftrightarrow> read_node_opt rid d nid = Inr (Some n)"
  by (auto simp: look_node_def split: sum.splits option.splits)

lemma look_manifest_Some [simp]: "look_manifest rid d = Some m \<longleftrightarrow> read_manifest_opt rid d = Inr (Some m)"
  by (auto simp: look_manifest_def split: sum.splits option.splits)

lemma node_step_later: "node_step ev n n' \<Longrightarrow> node_later n n'"
  by (auto simp: node_step_def node_later_def node_status_step_def permits_terminal_merge_recovery_def)

lemma manifest_step_later: "manifest_step X d ev m m' \<Longrightarrow> manifest_later m m'"
  by (auto simp: manifest_step_def same_identity_def manifest_later_def run_status_step_def
      recovery_allowed_iff)

lemma advance_cases:
  assumes "advance_applied_seq rid seq d = (r, d')"
  obtains "d' = d"
  | m where "read_manifest_opt rid d = Inr (Some m)" "m_applied_seq m < seq" "r = Inr ()"
    "write_manifest rid (m\<lparr>m_node_count := derive_counters d, m_applied_seq := seq\<rparr>) d = Inr d'"
proof (cases "read_manifest_opt rid d")
  case (Inl e)
  with assms that show ?thesis by (auto simp: advance_applied_seq_def bind_io_def reading_def)
next
  case (Inr mo)
  show ?thesis
  proof (cases mo)
    case None
    with Inr assms that show ?thesis
      by (auto simp: advance_applied_seq_def bind_io_def reading_def ret_def)
  next
    case (Some m)
    with Inr assms that show ?thesis
      by (auto simp: advance_applied_seq_def bind_io_def reading_def ret_def updating_def
          split: if_splits sum.splits)
  qed
qed

lemma advance_valid:
  "read_manifest_opt rid d = Inr (Some m) \<Longrightarrow>
     manifest_valid rid (m\<lparr>m_node_count := c, m_applied_seq := s\<rparr>)"
  using manifest_store.read_checked by (fastforce simp: manifest_valid_def)

lemma read_after_log:
  "read_node_opt rid (d\<lparr>d_events := es, d_backups := bs\<rparr>) nid = read_node_opt rid d nid"
  "read_manifest_opt rid (d\<lparr>d_events := es, d_backups := bs\<rparr>) = read_manifest_opt rid d"
  by (simp_all add: read_node_opt_def read_manifest_opt_def store_defs)

lemma run_step_node:
  assumes "run_step X rid d d'" and "read_node_opt rid d nid = Inr (Some n)"
  shows "\<exists>n'. read_node_opt rid d' nid = Inr (Some n') \<and> node_later n n'"
  using assms(1)
proof cases
  case (folded ev)
  from apply_event_node[OF this assms(2)] show ?thesis
    using node_step_later node_later_refl by blast
next
  case (watermark seq)
  then show ?thesis
    by (rule advance_cases) (use assms(2) node_later_refl read_node_after_manifest in auto)
next
  case (logged es bs)
  then show ?thesis using assms(2) node_later_refl by (simp add: read_after_log)
qed

lemma run_step_manifest:
  assumes "run_step X rid d d'" and "read_manifest_opt rid d = Inr (Some m)"
  shows "\<exists>m'. read_manifest_opt rid d' = Inr (Some m') \<and> manifest_later m m'"
  using assms(1)
proof cases
  case (folded ev)
  from apply_event_manifest[OF this assms(2)] show ?thesis
    using manifest_step_later manifest_later_refl by blast
next
  case (watermark seq)
  then show ?thesis
  proof (rule advance_cases)
    fix m1 assume "read_manifest_opt rid d = Inr (Some m1)" "m_applied_seq m1 < seq"
      and w: "write_manifest rid (m1\<lparr>m_node_count := derive_counters d, m_applied_seq := seq\<rparr>) d = Inr d'"
    moreover from this assms(2) have "manifest_valid rid
        (m1\<lparr>m_node_count := derive_counters d, m_applied_seq := seq\<rparr>)" by (auto intro: advance_valid)
    ultimately show ?thesis using assms(2) manifest_store.read_written[OF w]
      by (auto simp: manifest_later_def)
  qed (use assms(2) manifest_later_refl in auto)
next
  case (logged es bs)
  then show ?thesis using assms(2) manifest_later_refl by (simp add: read_after_log)
qed

interpretation node_history: forward "run_step X rid" "look_node rid nid" node_later for X rid nid
proof unfold_locales
  show "node_later u w" if "node_later u v" "node_later v w" for u v w
    using that unfolding node_later_def
    by (intro conjI impI) (auto intro: order.trans prefix_order.trans)
  show "\<exists>v'. look_node rid nid d' = Some v' \<and> node_later v v'"
    if "run_step X rid d d'" "look_node rid nid d = Some v" for d d' v
    using that run_step_node by simp
qed (rule node_later_refl)

interpretation manifest_history: forward "run_step X rid" "look_manifest rid" manifest_later for X rid
proof unfold_locales
  show "manifest_later u w" if "manifest_later u v" "manifest_later v w" for u v w
    using that unfolding manifest_later_def by auto
  show "\<exists>v'. look_manifest rid d' = Some v' \<and> manifest_later v v'"
    if "run_step X rid d d'" "look_manifest rid d = Some v" for d d' v
    using that run_step_manifest by simp
qed (rule manifest_later_refl)

text \<open>C29: histories of a node: along any sequence of steps of the write paths a node file is never lost, keeps
  its id, run, kind and parent, a terminal status changes at most from \<open>failed\<close> to \<open>done\<close>, a bound
  caller session is never replaced, its generation never falls, and child references are only
  ever appended.\<close>

theorem node_history_forward:
  assumes "run_steps X rid d d'" and "read_node_opt rid d nid = Inr (Some n)"
  shows "\<exists>n'. read_node_opt rid d' nid = Inr (Some n') \<and> node_later n n'"
  using node_history.history[OF assms(1)] assms(2) by simp

text \<open>Histories of a run: along any sequence of steps of the write paths the manifest is never lost, its
  identity (run id, kind, lifecycle, owner, title, creation time, parents, agent selection,
  resident policy) never changes, the watermark never falls, a settlement intent and a source branch are written at most
  once, and a terminal status changes at most from \<open>failed\<close> to \<open>done\<close>.\<close>

theorem manifest_history_forward:
  assumes "run_steps X rid d d'" and "read_manifest_opt rid d = Inr (Some m)"
  shows "\<exists>m'. read_manifest_opt rid d' = Inr (Some m') \<and> manifest_later m m'"
  using manifest_history.history[OF assms(1)] assms(2) by simp

end
