(* ===== verification/Write_Paths.thy ===== *)
theory Write_Paths
  imports History Cancel
begin

text \<open>
  Every operation of the write paths, whether it succeeds or fails, moves the run directory
  along the elementary steps of a history; so what histories preserve holds across appends,
  replays, keyed appends, quarantines and cancellations.
\<close>

section \<open>Committing commutes with logging\<close>

lemma write_manifest_log:
  "write_manifest rid m (d\<lparr>d_events := es\<rparr>) = map_sum id (\<lambda>d'. d'\<lparr>d_events := es\<rparr>) (write_manifest rid m d)"
  by (simp add: write_manifest_def store_defs)

lemma write_node_log:
  "write_node rid n (d\<lparr>d_events := es\<rparr>) = map_sum id (\<lambda>d'. d'\<lparr>d_events := es\<rparr>) (write_node rid n d)"
  by (simp add: write_node_def store_defs)

lemma commit_op_log:
  "commit_op rid oper (d\<lparr>d_events := es\<rparr>) = apsnd (\<lambda>d'. d'\<lparr>d_events := es\<rparr>) (commit_op rid oper d)"
  by (auto simp: commit_op_def updating_def write_manifest_log write_node_log
      split: projection_op.splits sum.splits)

lemma commit_ops_log:
  "commit_ops rid ops (d\<lparr>d_events := es\<rparr>) = apsnd (\<lambda>d'. d'\<lparr>d_events := es\<rparr>) (commit_ops rid ops d)"
proof (induction ops arbitrary: d)
  case Nil
  then show ?case by (simp add: ret_def)
next
  case (Cons oper ops)
  then show ?case
    by (auto simp: bind_io_def commit_op_log split: prod.splits sum.splits)
qed

section \<open>Operations as histories\<close>

definition steps_io :: "ext \<Rightarrow> run_id \<Rightarrow> 'a io \<Rightarrow> bool" where
  "steps_io X rid m \<longleftrightarrow> (\<forall>d. run_steps X rid d (snd (m d)))"

lemma steps_ret [intro]: "steps_io X rid (ret x)"
  by (simp add: steps_io_def ret_def)

lemma steps_reading [intro]: "steps_io X rid (reading f)"
  by (simp add: steps_io_def reading_def)

lemma steps_bind [intro]:
  assumes "steps_io X rid m" and "\<And>x. steps_io X rid (f x)"
  shows "steps_io X rid (bind_io m f)"
  unfolding steps_io_def
proof
  fix d
  obtain r d1 where m: "m d = (r, d1)" by (cases "m d")
  with assms(1) have "run_steps X rid d d1" unfolding steps_io_def by (metis snd_conv)
  moreover have "run_steps X rid d1 (snd (f x d1))" for x
    using assms(2) by (simp add: steps_io_def)
  ultimately show "run_steps X rid d (snd (bind_io m f d))"
    using m by (cases r) (auto simp: bind_io_def intro: rtranclp_trans)
qed

lemma log_step: "run_step X rid d (d\<lparr>d_events := es\<rparr>)"
  using run_step.logged[of X rid d "d_backups d" es] by simp

lemma steps_truncate [intro]: "steps_io X rid (updating (\<lambda>d. Inr (truncate_torn_tail d)))"
  by (auto simp: steps_io_def updating_def truncate_torn_tail_def intro: log_step)

lemma apply_event_as_commit:
  "reduce_event_to_ops X rid d ev = Inr ops \<Longrightarrow> apply_event X rid ev d = commit_ops rid ops d"
  by (simp add: apply_event_def bind_io_def reading_def)

lemma steps_apply [intro]: "steps_io X rid (apply_event X rid ev)"
  unfolding steps_io_def
proof
  fix d
  show "run_steps X rid d (snd (apply_event X rid ev d))"
  proof (cases "reduce_event_to_ops X rid d ev")
    case (Inl e)
    then show ?thesis by (simp add: apply_event_def bind_io_def reading_def)
  next
    case (Inr ops)
    from reducer.commit_plan[OF this] obtain d' where "commit_ops rid ops d = (Inr (), d')" by blast
    with Inr have "apply_event X rid ev d = (Inr (), d')" by (simp add: apply_event_as_commit)
    then show ?thesis by (auto intro: run_step.folded)
  qed
qed

lemma steps_advance [intro]: "steps_io X rid (advance_applied_seq rid seq)"
  unfolding steps_io_def
proof
  fix d
  obtain r d' where a: "advance_applied_seq rid seq d = (r, d')" by (cases "advance_applied_seq rid seq d")
  have "d' = d \<or> run_step X rid d d'"
    by (rule advance_cases[OF a]) (use a in \<open>auto intro: run_step.watermark\<close>)
  with a show "run_steps X rid d (snd (advance_applied_seq rid seq d))" by auto
qed

lemma steps_case_option [intro]:
  "steps_io X rid f \<Longrightarrow> (\<And>x. steps_io X rid (g x)) \<Longrightarrow> steps_io X rid (case y of None \<Rightarrow> f | Some x \<Rightarrow> g x)"
  by (cases y) auto

lemma steps_if [intro]: "steps_io X rid f \<Longrightarrow> steps_io X rid g \<Longrightarrow> steps_io X rid (if b then f else g)"
  by simp

lemma steps_case_prod [intro]: "(\<And>a b. steps_io X rid (f a b)) \<Longrightarrow> steps_io X rid (case p of (a, b) \<Rightarrow> f a b)"
  by (cases p) simp

lemma steps_replay_loop [intro]: "steps_io X rid (replay_loop X rid applied ls)"
proof (induction ls)
  case Nil
  show ?case by auto
next
  case (Cons l ls)
  obtain raw whole where l: "l = (raw, whole)" by (cases l)
  have fold_one: "run_steps X rid d (snd (case reduce_event_to_ops X rid d ev of
        Inl CorruptEventLog \<Rightarrow> replay_loop X rid applied ls d
      | Inl e \<Rightarrow> (Inl e, d)
      | Inr ops \<Rightarrow> bind_io (commit_ops rid ops) (\<lambda>_.
          bind_io (advance_applied_seq rid (ev_seq ev)) (\<lambda>_. replay_loop X rid applied ls)) d))"
    for d ev
  proof (cases "reduce_event_to_ops X rid d ev")
    case (Inl e)
    with Cons.IH show ?thesis by (cases e) (auto simp: steps_io_def)
  next
    case (Inr ops)
    then have "bind_io (commit_ops rid ops) (\<lambda>_. bind_io (advance_applied_seq rid (ev_seq ev))
        (\<lambda>_. replay_loop X rid applied ls)) d =
      bind_io (apply_event X rid ev) (\<lambda>_. bind_io (advance_applied_seq rid (ev_seq ev))
        (\<lambda>_. replay_loop X rid applied ls)) d"
      by (simp add: bind_io_def apply_event_as_commit)
    moreover have "steps_io X rid (bind_io (apply_event X rid ev) (\<lambda>_.
        bind_io (advance_applied_seq rid (ev_seq ev)) (\<lambda>_. replay_loop X rid applied ls)))"
      using Cons.IH by blast
    ultimately show ?thesis using Inr by (simp add: steps_io_def)
  qed
  show ?case
  proof (cases "whole \<and> trim_line_end raw \<noteq> []")
    case False
    then show ?thesis using Cons.IH l by (auto simp: Let_def)
  next
    case whole: True
    show ?thesis
    proof (cases "event_of_line X (trim_line_end raw)")
      case None
      with Cons.IH l whole show ?thesis by (auto simp: Let_def)
    next
      case (Some ev)
      with fold_one Cons.IH l whole show ?thesis by (simp add: steps_io_def Let_def)
    qed
  qed
qed

lemma steps_replay [intro]: "steps_io X rid (replay_unapplied X rid)"
  unfolding replay_unapplied_def
proof (intro steps_bind steps_case_option steps_reading steps_ret)
  fix m last_seq
  have "run_steps X rid d (snd (replay_loop X rid (m_applied_seq m) ls d))" for ls d
    using steps_replay_loop by (simp add: steps_io_def)
  then show "steps_io X rid (if last_seq \<le> m_applied_seq m then ret ()
      else (\<lambda>d. case d_events d of None \<Rightarrow> (Inr (), d)
        | Some bs \<Rightarrow> replay_loop X rid (m_applied_seq m) (phys_lines bs) d))"
    by (auto simp: steps_io_def ret_def split: option.splits)
qed

lemma steps_replay_unlocked [intro]: "steps_io X rid (replay_unapplied_unlocked X rid)"
  unfolding replay_unapplied_unlocked_def by blast

text \<open>The append core: plan, log, commit, watermark.\<close>

lemma steps_append_core [intro]:
  "steps_io X rid (bind_io (reading (\<lambda>d. reduce_event_to_ops X rid d ev)) (\<lambda>ops.
     bind_io (updating (\<lambda>d. Inr (append_line line d))) (\<lambda>_.
     bind_io (commit_ops rid ops) (\<lambda>_. rest ops))))"
  if rest: "\<And>ops. steps_io X rid (rest ops)"
  unfolding steps_io_def
proof
  fix d
  show "run_steps X rid d (snd (bind_io (reading (\<lambda>d. reduce_event_to_ops X rid d ev)) (\<lambda>ops.
     bind_io (updating (\<lambda>d. Inr (append_line line d))) (\<lambda>_.
     bind_io (commit_ops rid ops) (\<lambda>_. rest ops))) d))"
  proof (cases "reduce_event_to_ops X rid d ev")
    case (Inl e)
    then show ?thesis by (simp add: bind_io_def reading_def)
  next
    case (Inr ops)
    from reducer.commit_plan[OF this] obtain d1 where c: "commit_ops rid ops d = (Inr (), d1)" by blast
    define es where "es = d_events (append_line line d)"
    have al: "append_line line d = d\<lparr>d_events := es\<rparr>" by (simp add: append_line_def es_def)
    have "run_step X rid d d1" using Inr c by (intro run_step.folded[of X rid ev]) (simp add: apply_event_as_commit)
    moreover have "run_step X rid d1 (d1\<lparr>d_events := es\<rparr>)" by (rule log_step)
    moreover have "run_steps X rid (d1\<lparr>d_events := es\<rparr>) (snd (rest ops (d1\<lparr>d_events := es\<rparr>)))"
      using rest by (simp add: steps_io_def)
    ultimately show ?thesis
      using Inr c by (simp add: bind_io_def reading_def updating_def al commit_ops_log)
  qed
qed

lemma steps_append_reporting [intro]:
  "steps_io X rid (append_and_apply_reporting X clock rid k nid key data)"
  unfolding append_and_apply_reporting_def Let_def
  by (rule steps_bind[OF steps_replay_unlocked steps_bind[OF steps_reading
        steps_bind[OF steps_reading steps_append_core]]])
    (intro steps_bind steps_advance steps_ret)

lemma steps_append_unlocked [intro]:
  "steps_io X rid (append_and_apply_unlocked X clock rid k nid key data)"
  unfolding append_and_apply_unlocked_def by (intro steps_bind steps_append_reporting steps_case_prod steps_ret)

lemma steps_append_event [intro]: "steps_io X rid (append_and_apply_event X clock rid k nid key data)"
  unfolding append_and_apply_event_def
  by (intro steps_bind steps_replay_unlocked steps_case_option steps_ret steps_reading
      steps_append_reporting steps_case_prod)

lemma steps_append_idempotent [intro]:
  "steps_io X rid (append_and_apply_idempotent X clock rid k nid key build)"
  unfolding append_and_apply_idempotent_def
  by (intro steps_if steps_reading steps_bind steps_truncate steps_replay steps_case_option
      steps_append_unlocked steps_ret)

lemma steps_quarantine:
  "quarantine_corrupt_lines_unlocked X ts d = Inr (q, d') \<Longrightarrow> run_steps X rid d d'"
  by (auto simp: quarantine_corrupt_lines_unlocked_def res_simps Let_def
      intro: run_step.logged r_into_rtranclp split: option.splits if_splits prod.splits)

section \<open>Cancellation\<close>

lemma steps_settle_node [intro]:
  "steps_io X rid (settle_node X clock rid reason summary prior nid log_status)"
  unfolding settle_node_def Let_def by blast

lemma steps_cancel_nodes [intro]:
  "steps_io X rid (cancel_nodes X clock rid reason prior ns cancelled settled)"
proof (induction ns arbitrary: cancelled settled)
  case (Cons p ns)
  obtain nid s where "p = (nid, s)" by (cases p)
  with Cons show ?case by (simp only: cancel_nodes.simps) blast
qed (simp add: steps_ret)

lemma steps_settle_run [intro]: "steps_io X rid (settle_run X clock rid data prior)"
  unfolding settle_run_def Let_def by blast

lemma steps_cancel_run [intro]: "steps_io X rid (cancel_run_unlocked X clock rid note)"
  unfolding cancel_run_unlocked_def
  by (intro steps_bind steps_if steps_reading steps_cancel_nodes steps_case_prod steps_settle_run
      steps_ret)

lemma steps_roll_up [intro]:
  "steps_io X rid (maybe_roll_up_run X clock rid s ns target hit log_status prior)"
  unfolding maybe_roll_up_run_def Let_def by blast

lemma steps_cancel_node [intro]: "steps_io X rid (cancel_node_unlocked X clock rid nid note)"
  unfolding cancel_node_unlocked_def by blast

section \<open>The theorem\<close>

text \<open>Every write operation, on success and on every error path, moves the run directory along
  the elementary steps: appends, keyed and idempotent appends, the catch-up replay and both
  cancellations. With the history theorems: none of them can lose a projection, change a run's
  identity, reopen a settled node or run beyond the authorized recovery, or lower the watermark.\<close>

theorem write_operations_are_histories:
  "run_steps X rid d (snd (replay_unapplied_unlocked X rid d)) \<and>
   run_steps X rid d (snd (append_and_apply_event X clock rid k nid key data d)) \<and>
   run_steps X rid d (snd (append_and_apply_idempotent X clock rid k nid ikey build d)) \<and>
   run_steps X rid d (snd (cancel_run_unlocked X clock rid note d)) \<and>
   run_steps X rid d (snd (cancel_node_unlocked X clock rid target note d))"
  using steps_replay_unlocked[of X rid] steps_append_event[of X rid clock k nid key data]
    steps_append_idempotent[of X rid clock k nid ikey build] steps_cancel_run[of X rid clock "note"]
    steps_cancel_node[of X rid clock target "note"]
  by (simp add: steps_io_def)

end
