(* ===== verification/Refold_Facts.thy ===== *)
theory Refold_Facts
  imports Write_Paths
begin

text \<open>
  Folding an event again right after it was folded, which is what the catch-up replay does after
  a crash between the commit and the watermark. For every kind but three a second fold changes
  nothing; each of the three exceptions is real.
\<close>

section \<open>Settled outcomes\<close>

text \<open>A plan whose commit leaves the directory as it is.\<close>

definition settled :: "run_id \<Rightarrow> run_dir \<Rightarrow> projection_op list res \<Rightarrow> bool" where
  "settled rid d r \<longleftrightarrow> (\<exists>ops. r = Inr ops \<and> commit_ops rid ops d = (Inr (), d))"

lemma settled_Nil [simp]: "settled rid d (Inr [])"
  by (simp add: settled_def ret_def)

lemma settled_node: "read_node_opt rid d nid = Inr (Some n) \<Longrightarrow> settled rid d (Inr [OpNode n])"
  using node_store.write_back
  by (auto simp: settled_def commit_op_def updating_def bind_io_def ret_def)

definition settles_on :: "(node \<Rightarrow> projection_op list res) \<Rightarrow> projection_op list \<Rightarrow> bool" where
  "settles_on f ops = (case ops of
       [] \<Rightarrow> True
     | [OpNode n'] \<Rightarrow> f n' = Inr [] \<or> f n' = Inr [OpNode n']
     | _ \<Rightarrow> False)"

lemma settles_on_simps [simp]:
  "settles_on f []" "settles_on f [OpNode n'] \<longleftrightarrow> f n' = Inr [] \<or> f n' = Inr [OpNode n']"
  by (simp_all add: settles_on_def)

lemma with_node_settles:
  assumes p: "planned X rid d ev ops" and c: "commit_ops rid ops d = (Inr (), d')"
    and w: "with_node rid d nid f = Inr ops" and e: "ev_node_id ev = Some nid"
    and r: "\<And>n. f n = Inr ops \<Longrightarrow> settles_on f ops"
  shows "settled rid d' (with_node rid d' nid f)"
proof (cases "ops = []")
  case True
  with c have "d' = d" by (simp add: ret_def)
  with w True show ?thesis by (simp add: settled_def ret_def)
next
  case False
  with w r have "settles_on f ops" by (auto simp: with_node_Inr)
  with False obtain n' where ops: "ops = [OpNode n']" "f n' = Inr [] \<or> f n' = Inr [OpNode n']"
    by (cases ops; cases "hd ops"; cases "tl ops") (auto simp: settles_on_def)
  from p have "node_valid rid n' \<and> n_node_id n' = nid"
    using planned_ok[OF p] unfolding ops(1)
    by cases (use e node_store.read_checked in \<open>fastforce simp: op_ok_def node_step_def fresh_node_def\<close>)+
  moreover from c ops(1) have "write_node rid n' d = Inr d'"
    by (auto simp: commit_op_def io_simps)
  ultimately have n': "read_node_opt rid d' nid = Inr (Some n')"
    using node_store.read_written by blast
  with ops(2) settled_node[OF n'] show ?thesis by (auto simp: with_node_def)
qed

text \<open>Peeling the payload checks off both folds at once.\<close>

lemma settled_rbind:
  "rbind m f = Inr ops \<Longrightarrow> (\<And>x. m = Inr x \<Longrightarrow> f x = Inr ops \<Longrightarrow> settled rid d (g x)) \<Longrightarrow>
     settled rid d (rbind m g)"
  by (cases m) auto

lemma settled_if:
  "(if b then Inl e else x) = Inr ops \<Longrightarrow> (\<not> b \<Longrightarrow> x = Inr ops \<Longrightarrow> settled rid d y) \<Longrightarrow>
     settled rid d (if b then Inl e else y)"
  by (cases b) auto

lemma settled_envelope:
  "rbind (require_envelope_node_id ev) f = Inr ops \<Longrightarrow>
     (\<And>nid. ev_node_id ev = Some nid \<Longrightarrow> f nid = Inr ops \<Longrightarrow> settled rid d (g nid)) \<Longrightarrow>
     settled rid d (rbind (require_envelope_node_id ev) g)"
  by (auto simp: require_envelope_node_id_def ok_or_def split: option.splits)

definition refold_settles :: "(ext \<Rightarrow> run_id \<Rightarrow> run_dir \<Rightarrow> event \<Rightarrow> projection_op list res) \<Rightarrow> event \<Rightarrow> bool" where
  "refold_settles f ev \<longleftrightarrow> (\<forall>X rid d ops d'. f X rid d ev = Inr ops \<longrightarrow> planned X rid d ev ops \<longrightarrow>
     commit_ops rid ops d = (Inr (), d') \<longrightarrow> settled rid d' (f X rid d' ev))"

lemma refold_settlesI:
  "(\<And>X rid d ops d'. f X rid d ev = Inr ops \<Longrightarrow> planned X rid d ev ops \<Longrightarrow> commit_ops rid ops d = (Inr (), d') \<Longrightarrow>
     settled rid d' (f X rid d' ev)) \<Longrightarrow> refold_settles f ev"
  by (simp add: refold_settles_def)

section \<open>Kinds that edit one node\<close>

lemma node_refolds:
  "refold_settles reduce_node_status ev"
  "refold_settles reduce_node_death_observed ev"
  "refold_settles reduce_child_spawned ev"
  "refold_settles reduce_supervisor_attached ev"
  "refold_settles reduce_worker_exited ev"
  "refold_settles reduce_worker_evidence_archived ev"
  "refold_settles reduce_worker_evidence_failed ev"
  "refold_settles reduce_worker_display_retained ev"
  "refold_settles reduce_worker_display_expired ev"
  "refold_settles reduce_worker_display_unavailable ev"
  "refold_settles reduce_node_input_resolved ev"
  "refold_settles reduce_merge_aborted ev"
  by ((rule refold_settlesI, unfold reducer_defs Let_def, erule settled_envelope,
      (elim settled_rbind settled_if)?, erule (3) with_node_settles,
      clarsimp simp: res_simps, clarsimp split: option.split_asm if_split_asm)[1])+

lemma refold_cursor: "refold_settles reduce_supervisor_cursor_advanced ev"
  by (rule refold_settlesI, unfold reducer_defs Let_def, erule settled_envelope,
      elim settled_rbind, erule (3) with_node_settles)
    (clarsimp split: option.split_asm if_split_asm)

lemma optional_bool_Some: "optional_bool d k = Inr (Some b) \<longleftrightarrow> get d k = Some (Bool b)"
  by (cases "get d k"; cases "the (get d k)") (auto simp: optional_bool_def)

lemma report_terminal_status_cases:
  assumes "report_terminal_status ev = Inr s"
  shows "s = Cancelled \<or> (s = Done \<or> s = Failed \<and> get (ev_data ev) ''success'' = Some (Bool False))"
proof -
  from assms obtain c su where "optional_bool (ev_data ev) ''success'' = Inr su"
    and "(if c = Some True then (if su = Some True then Inl CorruptEventLog else Inr Cancelled)
      else case su of Some True \<Rightarrow> Inr Done | Some False \<Rightarrow> Inr Failed | None \<Rightarrow> Inl CorruptEventLog) = Inr s"
    unfolding report_terminal_status_def rbind_Inr_iff by blast
  then show ?thesis
    by (cases su; cases "the su") (auto simp: optional_bool_Some split: if_splits)
qed

lemma report_failed_no_merge:
  "get d ''success'' = Some (Bool False) \<Longrightarrow> \<not> report_is_confirmed_merge d"
  by (simp add: report_is_confirmed_merge_def)

lemma refold_report: "refold_settles reduce_node_report ev"
proof (rule refold_settlesI, unfold reduce_node_report_def Let_def, erule settled_envelope,
    erule (3) with_node_settles)
  fix X rid d ops d' nid n
  assume f: "(if is_terminal (n_status n) then
       (if permits_terminal_merge_recovery (n_status n) (ev_data ev) then
          (if n_last_report n = Some (ev_data ev) \<and> n_status n = Done then Inr []
           else Inr [OpNode (n\<lparr>n_last_report := Some (ev_data ev), n_status := Done,
                 n_pending_merge := None, n_awaiting_input := None, n_updated_at := ev_ts ev\<rparr>)])
        else Inr [])
     else
       rbind (report_terminal_status ev) (\<lambda>new_status.
       Inr [OpNode (n\<lparr>n_last_report := Some (ev_data ev), n_status := new_status,
              n_awaiting_input := None, n_pending_merge := None, n_updated_at := ev_ts ev\<rparr>)])) = Inr ops"
  have key: "is_terminal s \<and> (permits_terminal_merge_recovery s (ev_data ev) \<longrightarrow> s = Done)"
    if "report_terminal_status ev = Inr s" for s
    using report_terminal_status_cases[OF that] report_failed_no_merge[of "ev_data ev"]
    by (auto simp: permits_terminal_merge_recovery_def)
  from f show "settles_on (\<lambda>n. if is_terminal (n_status n) then
       (if permits_terminal_merge_recovery (n_status n) (ev_data ev) then
          (if n_last_report n = Some (ev_data ev) \<and> n_status n = Done then Inr []
           else Inr [OpNode (n\<lparr>n_last_report := Some (ev_data ev), n_status := Done,
                 n_pending_merge := None, n_awaiting_input := None, n_updated_at := ev_ts ev\<rparr>)])
        else Inr [])
     else
       rbind (report_terminal_status ev) (\<lambda>new_status.
       Inr [OpNode (n\<lparr>n_last_report := Some (ev_data ev), n_status := new_status,
              n_awaiting_input := None, n_pending_merge := None, n_updated_at := ev_ts ev\<rparr>)])) ops"
    by (cases "is_terminal (n_status n)")
      (auto simp: rbind_Inr_iff dest!: key split: if_split_asm)
qed

section \<open>Kinds that also read the manifest\<close>

lemma commit_nodes_manifest:
  assumes "settles_on f ops" and "commit_ops rid ops d = (Inr (), d')"
  shows "read_manifest_opt rid d' = read_manifest_opt rid d"
  using assms read_manifest_after_node
  by (cases ops; cases "hd ops"; cases "tl ops")
    (auto simp: settles_on_def ret_def commit_op_def io_simps)

text \<open>As \<open>with_node_settles\<close>, for a fold that reads the manifest first and then one node.\<close>

lemma with_manifest_settles:
  assumes p: "planned X rid d ev ops" and c: "commit_ops rid ops d = (Inr (), d')"
    and w: "rbind (read_manifest_opt rid d) (\<lambda>mo. rbind (g mo) (\<lambda>m. with_node rid d nid (f m))) = Inr ops"
    and e: "ev_node_id ev = Some nid"
    and r: "\<And>mo m n. g mo = Inr m \<Longrightarrow> f m n = Inr ops \<Longrightarrow> settles_on (f m) ops"
  shows "settled rid d' (rbind (read_manifest_opt rid d')
    (\<lambda>mo. rbind (g mo) (\<lambda>m. with_node rid d' nid (f m))))"
proof -
  from w obtain mo m where m: "read_manifest_opt rid d = Inr mo" "g mo = Inr m"
    "with_node rid d nid (f m) = Inr ops" by (auto simp: rbind_Inr_iff)
  have "settles_on (f m) ops" using m(3) r[OF m(2)] by (auto simp: with_node_Inr)
  then have "read_manifest_opt rid d' = Inr mo" using commit_nodes_manifest[OF _ c] m(1) by simp
  with m(2) with_node_settles[OF p c m(3) e r[OF m(2)]] show ?thesis by simp
qed

lemma resident_refolds:
  "refold_settles reduce_node_round_reported ev"
  "refold_settles reduce_node_round_landed ev"
  "refold_settles reduce_node_resident_dormant ev"
  "refold_settles reduce_node_resident_attention ev"
  by ((rule refold_settlesI, unfold reducer_defs Let_def require_resident_def rbind_assoc,
      erule settled_envelope, (elim settled_rbind settled_if)?, erule (3) with_manifest_settles,
      clarsimp simp: res_simps,
      clarsimp simp: resident_of_def report_round_def open_round_def filter_opt_def Let_def
        split: option.splits if_splits)[1])+

lemma refold_resumed: "refold_settles reduce_node_resumed ev"
  by (rule refold_settlesI, unfold reducer_defs Let_def require_resident_def rbind_assoc,
      erule settled_envelope, elim settled_rbind, erule (3) with_manifest_settles)
    (clarsimp simp: rbind_Inr_iff split: if_split_asm)

lemma refold_nonempty:
  assumes "\<And>X rid d ops d'. f X rid d ev = Inr ops \<Longrightarrow> planned X rid d ev ops \<Longrightarrow>
    commit_ops rid ops d = (Inr (), d') \<Longrightarrow> ops \<noteq> [] \<Longrightarrow> settled rid d' (f X rid d' ev)"
  shows "refold_settles f ev"
proof (rule refold_settlesI)
  fix X rid d ops d'
  assume a: "f X rid d ev = Inr ops" "planned X rid d ev ops" "commit_ops rid ops d = (Inr (), d')"
  show "settled rid d' (f X rid d' ev)"
  proof (cases "ops = []")
    case True
    with a(3) have "d' = d" by (simp add: ret_def)
    with a(1) True show ?thesis by (simp add: settled_def ret_def)
  qed (use a assms in blast)
qed

lemma commit_node_reads:
  assumes p: "planned X rid d ev [OpNode n']" and c: "commit_ops rid [OpNode n'] d = (Inr (), d')"
    and e: "ev_node_id ev = Some nid"
  shows "read_node_opt rid d' nid = Inr (Some n')"
    and "read_manifest_opt rid d' = read_manifest_opt rid d"
proof -
  have v: "node_valid rid n' \<and> n_node_id n' = nid"
    using planned_ok[OF p] p
    by (auto elim!: planned_ConsE simp: op_ok_def node_step_def fresh_node_def e
        dest: node_store.read_checked)
  from c have w: "write_node rid n' d = Inr d'" by (auto simp: commit_op_def io_simps)
  show "read_node_opt rid d' nid = Inr (Some n')" using node_store.read_written[OF w] v by auto
  show "read_manifest_opt rid d' = read_manifest_opt rid d" by (rule read_manifest_after_node[OF w])
qed

lemma commit_manifest_reads:
  assumes p: "planned X rid d ev [OpManifest m']" and c: "commit_ops rid [OpManifest m'] d = (Inr (), d')"
  shows "read_manifest_opt rid d' = Inr (Some m')" and "read_node_opt rid d' k = read_node_opt rid d k"
proof -
  have v: "manifest_valid rid m'" using planned_ok[OF p] by (simp add: op_ok_def)
  from c have w: "write_manifest rid m' d = Inr d'" by (auto simp: commit_op_def io_simps)
  show "read_manifest_opt rid d' = Inr (Some m')" using manifest_store.read_written[OF w v] .
  show "read_node_opt rid d' k = read_node_opt rid d k" by (rule read_node_after_manifest[OF w])
qed

lemma refold_merge_started: "refold_settles reduce_merge_started ev"
proof (rule refold_nonempty)
  fix X rid d ops d'
  assume r: "reduce_merge_started X rid d ev = Inr ops" and p: "planned X rid d ev ops"
    and c: "commit_ops rid ops d = (Inr (), d')" and "ops \<noteq> []"
  then obtain nid txn m n where a: "ev_node_id ev = Some nid" "de_merge_txn X (ev_data ev) = Some txn"
      "read_manifest_opt rid d = Inr (Some m)" "merge_link_ok m txn ev nid"
      "\<not> (m_agent_owner m = Caller \<and> (n_branch n \<noteq> Some (mt_worker_branch txn)
         \<or> Some (lifecycle_generation n) \<noteq> map_option si_generation (m_caller_settlement_intent m)))"
    and ops: "ops = [OpNode (n\<lparr>n_pending_merge := Some txn, n_updated_at := ev_ts ev\<rparr>)]"
    by (auto simp: reduce_merge_started_def res_simps with_node_Inr split: if_split_asm)
  have a': "\<not> (m_agent_owner m = Caller \<and> (n_branch n \<noteq> Some (mt_worker_branch txn)
         \<or> Some (lifecycle_generation (n\<lparr>n_pending_merge := Some txn, n_updated_at := ev_ts ev\<rparr>))
             \<noteq> map_option si_generation (m_caller_settlement_intent m)))"
    using a(5) by (simp add: lifecycle_generation_field)
  note rd = commit_node_reads[OF p[unfolded ops] c[unfolded ops] a(1)]
  show "settled rid d' (reduce_merge_started X rid d' ev)"
    unfolding reduce_merge_started_def require_envelope_node_id_def with_node_def
    using a a' rd by (simp add: ok_or_def del: de_Morgan_conj de_Morgan_disj)
qed

lemma refold_session_bound: "refold_settles reduce_caller_pi_session_bound ev"
proof (rule refold_nonempty)
  fix X rid d ops d'
  assume r: "reduce_caller_pi_session_bound X rid d ev = Inr ops" and p: "planned X rid d ev ops"
    and c: "commit_ops rid ops d = (Inr (), d')" and ne: "ops \<noteq> []"
  from r obtain nid n m binding P where a: "ev_node_id ev = Some nid"
      "read_manifest_opt rid d = Inr (Some m)" "m_agent_owner m = Caller"
      "de_caller_pi_session (ev_data ev) = Some binding"
      "\<not> (ps_original_cwd binding \<noteq> (case n_worktree_path n of Some p \<Rightarrow> p | None \<Rightarrow> [])
          \<or> ps_original_cwd binding = [] \<or> ps_pi_session_id binding = []
          \<or> ps_session_path binding = [])"
    and f: "(case n_caller_pi_session n of
           Some existing \<Rightarrow> if existing = binding then Inr [] else Inl CorruptEventLog
         | None \<Rightarrow> if P then Inl CorruptEventLog
             else if ps_generation binding \<noteq> None \<and> n_caller_pi_lifecycle n = None
             then Inl CorruptEventLog
             else Inr [OpNode (n\<lparr>
                    n_caller_pi_lifecycle := map_option
                      (\<lambda>c. c\<lparr>pl_session_path := Some (ps_session_path binding)\<rparr>)
                      (n_caller_pi_lifecycle n),
                    n_caller_pi_session := Some binding,
                    n_updated_at := ev_ts ev\<rparr>)]) = Inr ops"
    unfolding reduce_caller_pi_session_bound_def res_simps not_not by blast
  from f ne obtain n' where ops: "ops = [OpNode n']" "n_caller_pi_session n' = Some binding"
    "n_worktree_path n' = n_worktree_path n"
    by (cases "n_caller_pi_session n") (auto split: if_split_asm)
  note rd = commit_node_reads[OF p[unfolded ops] c[unfolded ops] a(1)]
  show "settled rid d' (reduce_caller_pi_session_bound X rid d' ev)"
    unfolding reduce_caller_pi_session_bound_def require_envelope_node_id_def
    using a ops rd by (simp add: ok_or_def)
qed

section \<open>Kinds that edit the manifest\<close>

lemma refold_run_status: "refold_settles reduce_run_status ev"
proof (rule refold_nonempty)
  fix X rid d ops d'
  assume r: "reduce_run_status X rid d ev = Inr ops" and p: "planned X rid d ev ops"
    and c: "commit_ops rid ops d = (Inr (), d')" and "ops \<noteq> []"
  then obtain m s where s: "require_status ev = Inr s"
    and ops: "ops = [OpManifest (m\<lparr>m_status := s, m_updated_at := ev_ts ev\<rparr>)]"
    by (auto simp: reduce_run_status_def rbind_Inr_iff split: option.split_asm if_split_asm)
  note rd = commit_manifest_reads[OF p[unfolded ops] c[unfolded ops]]
  show "settled rid d' (reduce_run_status X rid d' ev)"
    unfolding reduce_run_status_def using s rd by (simp add: recovery_allowed_iff)
qed

lemma refold_run_created: "ev_run_id ev = rid \<Longrightarrow> reduce_run_created X rid d ev = Inr ops \<Longrightarrow>
    planned X rid d ev ops \<Longrightarrow> commit_ops rid ops d = (Inr (), d') \<Longrightarrow>
    settled rid d' (reduce_run_created X rid d' ev)"
proof (cases "ops = []")
  case True
  assume "reduce_run_created X rid d ev = Inr ops" "commit_ops rid ops d = (Inr (), d')"
  with True show ?thesis by (simp add: settled_def ret_def)
next
  case False
  assume e: "ev_run_id ev = rid" and r: "reduce_run_created X rid d ev = Inr ops"
    and p: "planned X rid d ev ops" and c: "commit_ops rid ops d = (Inr (), d')"
  from r False obtain m where ops: "ops = [OpManifest m]" "m_run_id m = rid"
    by (auto simp: reduce_run_created_def rbind_Inr_iff Let_def split: option.split_asm if_split_asm)
  note rd = commit_manifest_reads[OF p[unfolded ops] c[unfolded ops]]
  show ?thesis unfolding reduce_run_created_def using rd ops e by simp
qed

lemma refold_settlement_intent: "refold_settles reduce_caller_settlement_intent ev"
proof (rule refold_nonempty)
  fix X rid d ops d'
  assume r: "reduce_caller_settlement_intent X rid d ev = Inr ops" and p: "planned X rid d ev ops"
    and c: "commit_ops rid ops d = (Inr (), d')" and ne: "ops \<noteq> []"
  from r obtain nid m node intent P where a: "ev_node_id ev = Some nid"
      "read_manifest_opt rid d = Inr (Some m)" "read_node_opt rid d nid = Inr (Some node)"
      "de_caller_settlement_intent (ev_data ev) = Some intent"
      "\<not> (m_agent_owner m \<noteq> Caller
        \<or> si_run_id intent \<noteq> ev_run_id ev
        \<or> si_node_id intent \<noteq> nid
        \<or> n_run_id node \<noteq> ev_run_id ev
        \<or> ev_idempotency_key ev \<noteq> Some (si_key intent)
        \<or> trim (si_key intent) = []
        \<or> trim (si_actor intent) = []
        \<or> si_writer_dev intent = 0 \<or> si_writer_ino intent = 0
        \<or> si_gate_dev intent = 0 \<or> si_gate_ino intent = 0
        \<or> si_seq intent \<noteq> 0
        \<or> si_generation intent \<noteq> lifecycle_generation node)"
    and f: "(case m_caller_settlement_intent m of
          Some existing \<Rightarrow> if existing = intent\<lparr>si_seq := ev_seq ev\<rparr> then Inr [] else Inl CorruptEventLog
        | None \<Rightarrow> if P then Inl CorruptEventLog
            else Inr [OpManifest (m\<lparr>m_caller_settlement_intent := Some (intent\<lparr>si_seq := ev_seq ev\<rparr>),
                   m_updated_at := ev_ts ev\<rparr>)]) = Inr ops"
    unfolding reduce_caller_settlement_intent_def res_simps Let_def by blast
  from f ne have ops: "ops = [OpManifest (m\<lparr>m_caller_settlement_intent :=
      Some (intent\<lparr>si_seq := ev_seq ev\<rparr>), m_updated_at := ev_ts ev\<rparr>)]"
    by (cases "m_caller_settlement_intent m") (auto split: if_split_asm)
  note rd = commit_manifest_reads[OF p[unfolded ops] c[unfolded ops]]
  show "settled rid d' (reduce_caller_settlement_intent X rid d' ev)"
    unfolding reduce_caller_settlement_intent_def require_envelope_node_id_def
    using a rd by (simp add: ok_or_def)
qed

lemma refold_node_created: "refold_settles reduce_node_created ev"
proof (rule refold_nonempty)
  fix X rid d ops d'
  assume r: "reduce_node_created X rid d ev = Inr ops" and p: "planned X rid d ev ops"
    and c: "commit_ops rid ops d = (Inr (), d')" and ne: "ops \<noteq> []"
  from r obtain nid where nid: "ev_node_id ev = Some nid"
    by (auto simp: reduce_node_created_def res_simps)
  from r nid obtain no where no: "read_node_opt rid d nid = Inr no"
    by (auto simp: reduce_node_created_def res_simps)
  with r nid ne have no: "read_node_opt rid d nid = Inr None"
    by (cases no) (simp_all add: reduce_node_created_def require_envelope_node_id_def ok_or_def)
  with r nid obtain n mo where "fresh_node ev rid nid n" and "ops = (case mo of None \<Rightarrow> [OpNode n]
      | Some m \<Rightarrow> [OpNode n, OpManifest ((if node_id_str nid = ''n-0001'' \<and> m_source_branch m = None
           then m\<lparr>m_source_branch := nonempty_str (ev_data ev) ''source_branch''\<rparr> else m)
             \<lparr>m_updated_at := ev_ts ev\<rparr>)])"
    by (blast elim: reduce_node_created_fresh)
  then obtain rest where ops: "ops = OpNode n # rest" "n_node_id n = nid"
    by (cases mo) (auto simp: fresh_node_def)
  have "list_all (\<lambda>oper. reads_back rid oper d') ops"
    using commit_ops_ok[of rid d ops] planned_ok[OF p] c by auto
  then have "read_node_opt rid d' nid = Inr (Some n)" using ops by (simp add: reads_back_def)
  then show "settled rid d' (reduce_node_created X rid d' ev)"
    using nid by (simp add: reduce_node_created_def require_envelope_node_id_def ok_or_def)
qed

section \<open>The three exceptions\<close>

lemma refold_retry: "get_u64 (ev_data ev) ''attempt'' = Some a \<Longrightarrow> refold_settles reduce_node_retry ev"
  by (rule refold_settlesI, unfold reduce_node_retry_def Let_def, erule settled_envelope,
      erule (3) with_node_settles)
    (clarsimp simp: rbind_Inr_iff split: if_split_asm)

text \<open>The transitions a caller session may report before it is bound.\<close>

definition ends_unbound :: "event \<Rightarrow> bool" where
  "ends_unbound ev \<longleftrightarrow> (case de_caller_pi_lifecycle (ev_data ev) of
       Some told \<Rightarrow> pl_state told \<in> {LaunchFailed, ControlUncertain} | None \<Rightarrow> False)"

lemma refold_lifecycle: "\<not> ends_unbound ev \<Longrightarrow> refold_settles reduce_caller_pi_lifecycle ev"
proof (rule refold_nonempty)
  fix X rid d ops d'
  assume e: "\<not> ends_unbound ev" and r: "reduce_caller_pi_lifecycle X rid d ev = Inr ops"
    and p: "planned X rid d ev ops" and c: "commit_ops rid ops d = (Inr (), d')" and ne: "ops \<noteq> []"
  from r ne obtain nid n m told where a: "ev_node_id ev = Some nid"
      "read_manifest_opt rid d = Inr (Some m)" "m_agent_owner m = Caller"
      "de_caller_pi_lifecycle (ev_data ev) = Some told" "pi_fact_ok n told"
      "pi_transition_ok (n_caller_pi_session n) (n_caller_pi_lifecycle n) told"
    and ops: "ops = [OpNode (n\<lparr>n_caller_pi_lifecycle := Some told, n_updated_at := ev_ts ev\<rparr>)]"
    by (auto simp: reduce_caller_pi_lifecycle_def res_simps split: if_split_asm)
  have "pl_state told \<notin> {LaunchFailed, ControlUncertain}" using e a(4) by (simp add: ends_unbound_def)
  moreover have "n_caller_pi_session n = None \<Longrightarrow> pl_state told \<noteq> Reserved \<Longrightarrow>
      pl_state told \<in> {LaunchFailed, ControlUncertain}"
    using a(5,6) by (auto simp: pi_fact_ok_def pi_transition_ok_def Let_def split: option.split_asm)
  ultimately have "pi_fact_ok (n\<lparr>n_caller_pi_lifecycle := Some told, n_updated_at := ev_ts ev\<rparr>) told"
    using a(5) by (auto simp: pi_fact_ok_def Let_def)
  moreover note rd = commit_node_reads[OF p[unfolded ops] c[unfolded ops] a(1)]
  ultimately show "settled rid d' (reduce_caller_pi_lifecycle X rid d' ev)"
    unfolding reduce_caller_pi_lifecycle_def require_envelope_node_id_def
    using a by (simp add: ok_or_def)
qed

section \<open>The theorem\<close>

definition refoldable :: "event \<Rightarrow> bool" where
  "refoldable ev \<longleftrightarrow> ev_kind ev \<noteq> ''node.awaiting_input'' \<and>
     (ev_kind ev = ''node.retry'' \<longrightarrow> get_u64 (ev_data ev) ''attempt'' \<noteq> None) \<and>
     (ev_kind ev = ''caller.pi.lifecycle'' \<longrightarrow> \<not> ends_unbound ev)"

lemmas all_refolds = node_refolds refold_cursor refold_report resident_refolds refold_resumed
  refold_merge_started refold_session_bound refold_run_status refold_settlement_intent
  refold_node_created refold_retry refold_lifecycle

lemma reducer_refolds:
  assumes "map_of reducers (ev_kind ev) = Some f" and "refoldable ev" and "ev_kind ev \<noteq> ''run.created''"
  shows "refold_settles f ev"
  using assms
  by (auto simp: reducers_def refoldable_def intro: all_refolds split: if_split_asm)

lemma reduce_refolds:
  assumes r: "reduce_event_to_ops X rid d ev = Inr ops" and c: "commit_ops rid ops d = (Inr (), d')"
    and "refoldable ev"
  shows "settled rid d' (reduce_event_to_ops X rid d' ev)"
proof -
  have e: "ev_run_id ev = rid" and p: "planned X rid d ev ops"
    using reduce_event_to_ops_planned[OF r] by auto
  show ?thesis
  proof (cases "map_of reducers (ev_kind ev)")
    case None
    with e show ?thesis by (simp add: reduce_event_to_ops_def no_projection_def)
  next
    case (Some f)
    show ?thesis
    proof (cases "ev_kind ev = ''run.created''")
      case True
      then have "f = reduce_run_created" using Some by (simp add: reducers_def)
      with r Some e p c show ?thesis
        by (simp add: reduce_event_to_ops_def refold_run_created)
    next
      case False
      with reducer_refolds[OF Some assms(3)] r Some e p c show ?thesis
        by (simp add: reduce_event_to_ops_def refold_settles_def)
    qed
  qed
qed

text \<open>C6: folding is idempotent: for every event of a refoldable kind, folding it again right after
  it was folded succeeds and leaves the run directory exactly as it is. The exceptions are
  \<open>node.awaiting_input\<close>, a \<open>node.retry\<close> without its attempt number, and a caller session that
  ends before it was bound.\<close>

theorem refold_is_identity:
  assumes "apply_event X rid ev d = (Inr (), d')" and "refoldable ev"
  shows "apply_event X rid ev d' = (Inr (), d')"
proof -
  from assms(1) obtain ops where "reduce_event_to_ops X rid d ev = Inr ops"
    "commit_ops rid ops d = (Inr (), d')" by (auto simp: apply_event_Inr)
  from reduce_refolds[OF this assms(2)] show ?thesis by (auto simp: settled_def apply_event_Inr)
qed

end
