(* ===== verification/Append_Facts.thy ===== *)
theory Append_Facts
  imports Event_Codec Refold_Facts
begin

text \<open>
  The write path as a whole: an append either records its event, folds it and moves the
  watermark, or leaves the events of the log as they were; a keyed append records an event at
  most once; and the catch-up replay after a crash reaches the state of the append that was
  interrupted.
\<close>

section \<open>Reducers read only projections and earlier log lines\<close>

definition same_reads :: "ext \<Rightarrow> run_id \<Rightarrow> u64 \<Rightarrow> run_dir \<Rightarrow> run_dir \<Rightarrow> bool" where
  "same_reads X rid seq d d' \<longleftrightarrow> read_node_opt rid d' = read_node_opt rid d \<and>
     read_manifest_opt rid d' = read_manifest_opt rid d \<and>
     read_node_status_facts X d' (Some seq) = read_node_status_facts X d (Some seq)"

lemmas all_reducer_defs = reducer_defs reduce_run_created_def reduce_run_status_def
  reduce_node_created_def reduce_node_report_def reduce_merge_started_def
  reduce_caller_settlement_intent_def reduce_caller_pi_session_bound_def
  reduce_caller_pi_lifecycle_def

lemma reducers_reads_cong:
  assumes "map_of reducers (ev_kind ev) = Some f" and "same_reads X rid (ev_seq ev) d d'"
  shows "f X rid d' ev = f X rid d ev"
proof -
  note rd = assms(2)[unfolded same_reads_def]
  have w: "with_node rid d' = with_node rid d" "require_resident rid d' = require_resident rid d"
    "recovery_allowed X d' ev = recovery_allowed X d ev"
    using rd by (simp_all add: fun_eq_iff with_node_def require_resident_def recovery_allowed_def
        cong: option.case_cong)
  have "(k, f) \<in> set reducers \<Longrightarrow> f X rid d' ev = f X rid d ev" for k
    unfolding reducers_def list.set insert_iff empty_iff prod.inject
    by (elim disjE conjE FalseE; hypsubst; simp only: all_reducer_defs w rd)
  with assms(1) show ?thesis by (blast dest: map_of_SomeD)
qed

lemma reduce_reads_cong:
  "same_reads X rid (ev_seq ev) d d' \<Longrightarrow> reduce_event_to_ops X rid d' ev = reduce_event_to_ops X rid d ev"
  by (simp add: reduce_event_to_ops_def no_projection_def reducers_reads_cong split: option.split)

lemma log_reads:
  "read_node_opt rid (d\<lparr>d_events := es\<rparr>) = read_node_opt rid d"
  "read_manifest_opt rid (d\<lparr>d_events := es\<rparr>) = read_manifest_opt rid d"
  "derive_counters (d\<lparr>d_events := es\<rparr>) = derive_counters d"
  "checked_events (d\<lparr>d_events := es\<rparr>) = checked_events d"
  by (simp_all add: fun_eq_iff read_node_opt_def read_manifest_opt_def store_defs derive_counters_def
      count_node_files_def checked_events_def)

definition line_pairs :: "ext \<Rightarrow> event list \<Rightarrow> (bytes \<times> bool) list" where
  "line_pairs X evs = map (\<lambda>ev. (event_text X ev @ [NL], True)) evs"

lemma line_pairs_simps [simp]:
  "line_pairs X [] = []"
  "line_pairs X (ev # evs) = (event_text X ev @ [NL], True) # line_pairs X evs"
  "line_pairs X (evs @ evs') = line_pairs X evs @ line_pairs X evs'"
  "list_all snd (line_pairs X evs)"
  by (simp_all add: line_pairs_def list_all_iff)

lemma probe_log:
  assumes "ext_ok X" and "log_is X d evs t"
  shows "for_each_event_probe de visit d s = probe_loop de visit (line_pairs X evs) s"
proof (cases "d_events d")
  case None
  with assms show ?thesis by (simp add: log_is_def for_each_event_probe_def)
next
  case (Some bs)
  from log_lines[OF assms this] show ?thesis
    using Some by (simp add: for_each_event_probe_def probe_loop_append probe_loop_end rbind_return
        flip: line_pairs_def del: probe_loop.simps)
qed

lemma probe_skips_line:
  assumes "ext_ok X" and "loggable ev" and "de (event_text X ev) = Some p"
    and "\<And>s. visit p (event_text X ev) s = Inr s"
  shows "probe_loop de visit [(event_text X ev @ [NL], True)] = Inr"
  using assms log_content[OF assms(1,2)] by (simp add: fun_eq_iff Let_def ok_or_def)

lemma facts_ignore_new_line:
  assumes X: "ext_ok X" and l: "log_is X d evs []" and ev: "loggable ev"
  shows "read_node_status_facts X (append_line (event_line X ev) d) (Some (ev_seq ev)) =
    read_node_status_facts X d (Some (ev_seq ev))"
proof -
  have a: "append_line (event_line X ev) d = d\<lparr>d_events := d_events (append_line (event_line X ev) d)\<rparr>"
    by (simp add: append_line_def)
  have c: "checked_events (append_line (event_line X ev) d) = checked_events d"
    by (subst a) (rule log_reads)
  show ?thesis
    using seq_probe_of_text[OF X ev]
    by (simp add: read_node_status_facts_def c probe_log[OF X l] probe_log[OF X log_append[OF l ev]]
        probe_loop_append probe_skips_line[OF X ev] rbind_return del: probe_loop.simps)
qed

lemma reduce_after_log:
  assumes "ext_ok X" and "log_is X d evs []" and "loggable ev"
  shows "reduce_event_to_ops X rid (append_line (event_line X ev) d) ev = reduce_event_to_ops X rid d ev"
  by (rule reduce_reads_cong) (simp add: same_reads_def facts_ignore_new_line[OF assms],
      simp add: append_line_def log_reads)

section \<open>Watermark\<close>

definition advanced :: "run_dir \<Rightarrow> u64 \<Rightarrow> manifest \<Rightarrow> manifest" where
  "advanced d seq m = (if m_applied_seq m < seq
     then m\<lparr>m_node_count := derive_counters d, m_applied_seq := seq\<rparr> else m)"

lemma advance_none: "read_manifest_opt rid d = Inr None \<Longrightarrow> advance_applied_seq rid seq d = (Inr (), d)"
  by (simp add: advance_applied_seq_def bind_io_def reading_def ret_def)

lemma advance_some:
  assumes m: "read_manifest_opt rid d = Inr (Some m)"
  obtains d' where "advance_applied_seq rid seq d = (Inr (), d')" "same_log d d'"
    "read_manifest_opt rid d' = Inr (Some (advanced d seq m))"
    "\<And>nid. read_node_opt rid d' nid = read_node_opt rid d nid"
proof (cases "m_applied_seq m < seq")
  case False
  then show ?thesis using that[of d] m
    by (simp add: advance_applied_seq_def bind_io_def reading_def ret_def advanced_def same_log_def)
next
  case True
  let ?m = "m\<lparr>m_node_count := derive_counters d, m_applied_seq := seq\<rparr>"
  have v: "manifest_valid rid ?m" using advance_valid[OF m] .
  obtain d' where w: "write_manifest rid ?m d = Inr d'"
    using manifest_store.write_allowed[OF _ v] m by blast
  show ?thesis
  proof (rule that[of d'])
    show "advance_applied_seq rid seq d = (Inr (), d')"
      using True m w by (simp add: advance_applied_seq_def bind_io_def reading_def ret_def updating_def)
    show "same_log d d'" using w by (auto simp: write_manifest_Inr same_log_def)
    show "read_manifest_opt rid d' = Inr (Some (advanced d seq m))"
      using True manifest_store.read_written[OF w v] by (simp add: advanced_def)
    show "read_node_opt rid d' nid = read_node_opt rid d nid" for nid
      using read_node_after_manifest[OF w] .
  qed
qed

lemma advance_ok:
  assumes "read_manifest_opt rid d = Inr mo"
  obtains d' where "advance_applied_seq rid seq d = (Inr (), d')" "same_log d d'"
    "read_manifest_opt rid d' = Inr (map_option (advanced d seq) mo)"
proof (cases mo)
  case None
  with assms that[of d] show ?thesis by (simp add: advance_none same_log_def)
next
  case (Some m)
  with assms that show ?thesis by (auto elim: advance_some)
qed

section \<open>Recording one event\<close>

text \<open>The state the append path leaves when nothing interrupts it, and two of the states a crash
  can leave instead: the line is durable but not folded, or folded but not marked applied.\<close>

definition logged_state :: "ext \<Rightarrow> event \<Rightarrow> run_dir \<Rightarrow> run_dir" where
  "logged_state X ev d = append_line (event_line X ev) d"

definition folded_state :: "ext \<Rightarrow> run_id \<Rightarrow> event \<Rightarrow> projection_op list \<Rightarrow> run_dir \<Rightarrow> run_dir" where
  "folded_state X rid ev ops d = snd (commit_ops rid ops (logged_state X ev d))"

definition recorded_state :: "ext \<Rightarrow> run_id \<Rightarrow> event \<Rightarrow> projection_op list \<Rightarrow> run_dir \<Rightarrow> run_dir" where
  "recorded_state X rid ev ops d =
     snd (advance_applied_seq rid (ev_seq ev) (folded_state X rid ev ops d))"

lemma logged_state_log: "logged_state X ev d = d\<lparr>d_events := d_events (logged_state X ev d)\<rparr>"
  by (simp add: logged_state_def append_line_def)

lemma commit_manifest:
  assumes r: "reduce_event_to_ops X rid d ev = Inr ops" and c: "commit_ops rid ops d = (Inr (), d')"
    and m: "read_manifest_opt rid d = Inr mo"
  obtains mo' where "read_manifest_opt rid d' = Inr mo'"
    "\<And>m. mo = Some m \<Longrightarrow> \<exists>m'. mo' = Some m' \<and> m_applied_seq m' = m_applied_seq m"
    "\<And>m'. mo = None \<Longrightarrow> mo' = Some m' \<Longrightarrow> m_applied_seq m' = 0"
proof -
  from reducer.commit_plan[OF r] c have rb: "list_all (\<lambda>oper. reads_back rid oper d') ops"
    and other: "\<And>p. p \<notin> set (map op_path ops) \<Longrightarrow> same_at rid p d d'" by auto
  have "planned X rid d ev ops" using reduce_event_to_ops_planned[OF r] by blast
  then show ?thesis
    by cases (use m rb other[of ManifestPath] in
        \<open>auto simp: same_at_def op_path_def reads_back_def step_defs intro: that\<close>)
qed

lemma folded_ok:
  assumes r: "reduce_event_to_ops X rid d ev = Inr ops"
  shows "commit_ops rid ops (logged_state X ev d) = (Inr (), folded_state X rid ev ops d)"
    and "same_log (logged_state X ev d) (folded_state X rid ev ops d)"
    and "folded_state X rid ev ops d =
      (snd (commit_ops rid ops d))\<lparr>d_events := d_events (logged_state X ev d)\<rparr>"
proof -
  let ?es = "d_events (logged_state X ev d)"
  obtain d1 where c: "commit_ops rid ops d = (Inr (), d1)" "same_log d d1"
    using reducer.commit_plan[OF r] by blast
  have l: "commit_ops rid ops (logged_state X ev d) = (Inr (), d1\<lparr>d_events := ?es\<rparr>)"
    by (subst logged_state_log) (simp add: commit_ops_log c(1))
  then show "commit_ops rid ops (logged_state X ev d) = (Inr (), folded_state X rid ev ops d)"
    and "folded_state X rid ev ops d = (snd (commit_ops rid ops d))\<lparr>d_events := ?es\<rparr>"
    using c(1) by (simp_all add: folded_state_def)
  have "same_log (logged_state X ev d) (d1\<lparr>d_events := ?es\<rparr>)"
    using c(2) by (simp add: same_log_def logged_state_def append_line_def)
  with l show "same_log (logged_state X ev d) (folded_state X rid ev ops d)" by (simp add: folded_state_def)
qed

lemma folded_manifest:
  assumes r: "reduce_event_to_ops X rid d ev = Inr ops" and m: "read_manifest_opt rid d = Inr mo"
  obtains mo' where "read_manifest_opt rid (folded_state X rid ev ops d) = Inr mo'"
    "\<And>m. mo = Some m \<Longrightarrow> \<exists>m'. mo' = Some m' \<and> m_applied_seq m' = m_applied_seq m"
    "\<And>m'. mo = None \<Longrightarrow> mo' = Some m' \<Longrightarrow> m_applied_seq m' = 0"
proof -
  obtain d1 where c: "commit_ops rid ops d = (Inr (), d1)" using reducer.commit_plan[OF r] by blast
  have "read_manifest_opt rid (folded_state X rid ev ops d) = read_manifest_opt rid d1"
    using folded_ok(3)[OF r] c by (simp add: log_reads)
  with commit_manifest[OF r c m] that show ?thesis by metis
qed

lemma recorded_ok:
  assumes r: "reduce_event_to_ops X rid d ev = Inr ops" and m: "read_manifest_opt rid d = Inr mo"
  shows "advance_applied_seq rid (ev_seq ev) (folded_state X rid ev ops d) =
      (Inr (), recorded_state X rid ev ops d) \<and>
    same_log (logged_state X ev d) (recorded_state X rid ev ops d)"
proof -
  obtain mo' where "read_manifest_opt rid (folded_state X rid ev ops d) = Inr mo'"
    by (rule folded_manifest[OF r m])
  then obtain d' where "advance_applied_seq rid (ev_seq ev) (folded_state X rid ev ops d) = (Inr (), d')"
    "same_log (folded_state X rid ev ops d) d'" by (rule advance_ok)
  with folded_ok(2)[OF r] show ?thesis by (auto simp: recorded_state_def same_log_def)
qed

lemma recorded_manifest:
  assumes r: "reduce_event_to_ops X rid d ev = Inr ops" and m: "read_manifest_opt rid d = Inr (Some m)"
  obtains m' where "read_manifest_opt rid (recorded_state X rid ev ops d) = Inr (Some m')"
    "m_applied_seq m' = max (m_applied_seq m) (ev_seq ev)"
    "m_applied_seq m < ev_seq ev \<Longrightarrow> m_node_count m' = derive_counters (recorded_state X rid ev ops d)"
proof -
  obtain mf where mf: "read_manifest_opt rid (folded_state X rid ev ops d) = Inr (Some mf)"
    "m_applied_seq mf = m_applied_seq m"
    by (rule folded_manifest[OF r m]) auto
  from mf(1) obtain d' where d': "advance_applied_seq rid (ev_seq ev) (folded_state X rid ev ops d) = (Inr (), d')"
    "read_manifest_opt rid d' = Inr (Some (advanced (folded_state X rid ev ops d) (ev_seq ev) mf))"
    by (rule advance_some)
  moreover have "d_nodes d' = d_nodes (folded_state X rid ev ops d)"
    using d'(1) by (rule advance_cases) (auto simp: write_manifest_Inr)
  ultimately show ?thesis using that mf(2)
    by (cases "m_applied_seq m < ev_seq ev")
      (auto simp: recorded_state_def advanced_def max.absorb4 max.absorb1 not_less
          derive_counters_def count_node_files_def)
qed

section \<open>Runs whose projections are up to date\<close>

definition synced :: "ext \<Rightarrow> run_id \<Rightarrow> run_dir \<Rightarrow> event list \<Rightarrow> bool" where
  "synced X rid d evs \<longleftrightarrow> log_is X d evs [] \<and> checked_events d = Inr () \<and>
     (\<exists>m. read_manifest_opt rid d = Inr (Some m) \<and> m_applied_seq m = last_seq evs) \<and>
     (\<forall>ev\<in>set evs. ev_seq ev \<le> last_seq evs)"

lemma truncate_complete: "log_is X d evs [] \<Longrightarrow> truncate_torn_tail d = d"
  by (cases d) (auto simp: log_is_def truncate_torn_tail_def truncate_join)

lemma replay_unlocked_eq:
  assumes "checked_events d = Inr ()" and "log_is X d evs []"
  shows "replay_unapplied_unlocked X rid d = replay_unapplied X rid d"
  using assms truncate_complete[OF assms(2)]
  by (simp add: replay_unapplied_unlocked_def bind_io_def reading_def updating_def)

lemma replay_eq:
  assumes "ext_ok X" and l: "log_is X d evs []" and "read_manifest_opt rid d = Inr (Some m)"
  shows "replay_unapplied X rid d =
    (if last_seq evs \<le> m_applied_seq m then (Inr (), d)
     else replay_loop X rid (m_applied_seq m) (line_pairs X evs) d)"
proof (cases "d_events d")
  case None
  with assms show ?thesis
    by (simp add: replay_unapplied_def bind_io_def reading_def ret_def log_last_seq[OF assms(1,2)]
        last_seq_def log_is_def)
next
  case (Some bs)
  with assms log_lines[OF assms(1,2) Some] show ?thesis
    by (simp add: replay_unapplied_def bind_io_def reading_def ret_def log_last_seq[OF assms(1,2)]
        flip: line_pairs_def)
qed

lemma replay_synced:
  assumes "ext_ok X" and "synced X rid d evs"
  shows "replay_unapplied_unlocked X rid d = (Inr (), d)"
  using assms by (auto simp: synced_def replay_unlocked_eq replay_eq)

lemma replay_loop_skips:
  assumes "ext_ok X" and "list_all loggable evs" and "\<forall>ev\<in>set evs. ev_seq ev \<le> applied"
  shows "replay_loop X rid applied (line_pairs X evs @ ls) = replay_loop X rid applied ls"
  using assms(2,3)
proof (induction evs)
  case (Cons ev evs)
  then show ?case using assms(1) log_content[of X ev] event_of_text[of X ev] by (simp add: Let_def)
qed simp

text \<open>The replay of the one line that is not applied yet.\<close>

lemma replay_loop_last:
  assumes "ext_ok X" and "loggable ev" and "\<not> ev_seq ev \<le> applied"
    and "reduce_event_to_ops X rid d ev = Inr ops"
  shows "replay_loop X rid applied (line_pairs X [ev]) d =
    bind_io (commit_ops rid ops) (\<lambda>_. bind_io (advance_applied_seq rid (ev_seq ev)) (\<lambda>_. ret ())) d"
  using assms log_content[of X ev] event_of_text[of X ev] by (simp add: Let_def)

lemma replay_one:
  assumes X: "ext_ok X" and l: "log_is X d (evs @ [ev]) []" and c: "checked_events d = Inr ()"
    and m: "read_manifest_opt rid d = Inr (Some m)" and w: "m_applied_seq m < ev_seq ev"
    and old: "\<forall>e\<in>set evs. ev_seq e \<le> m_applied_seq m"
    and r: "reduce_event_to_ops X rid d ev = Inr ops"
  shows "replay_unapplied_unlocked X rid d =
    bind_io (commit_ops rid ops) (\<lambda>_. bind_io (advance_applied_seq rid (ev_seq ev)) (\<lambda>_. ret ())) d"
proof -
  from l have "list_all loggable evs" "loggable ev" by (simp_all add: log_is_def)
  moreover have "replay_unapplied_unlocked X rid d =
      replay_loop X rid (m_applied_seq m) (line_pairs X evs @ line_pairs X [ev]) d"
    using w by (simp add: replay_unlocked_eq[OF c l] replay_eq[OF X l m] last_seq_def not_le[THEN iffD2, OF w]
        del: replay_loop.simps)
  moreover have "\<not> ev_seq ev \<le> m_applied_seq m" using w by simp
  ultimately show ?thesis
    using replay_loop_skips[OF X _ old] replay_loop_last[OF X _ _ r] by metis
qed

section \<open>Appending\<close>

lemma recorded_log:
  assumes "log_is X d evs []" and "loggable ev" and "reduce_event_to_ops X rid d ev = Inr ops"
    and "read_manifest_opt rid d = Inr mo"
  shows "log_is X (recorded_state X rid ev ops d) (evs @ [ev]) []"
  using log_append[OF assms(1,2)] recorded_ok[OF assms(3,4)]
  by (simp add: logged_state_def same_log_def log_is_def)

lemma recorded_synced:
  assumes s: "synced X rid d evs" and ev: "loggable ev" "ev_seq ev = last_seq evs + 1"
    and w: "last_seq evs \<noteq> - 1" and r: "reduce_event_to_ops X rid d ev = Inr ops"
  shows "synced X rid (recorded_state X rid ev ops d) (evs @ [ev])"
proof -
  from s obtain m where l: "log_is X d evs []" and m: "read_manifest_opt rid d = Inr (Some m)"
    "m_applied_seq m = last_seq evs" and c: "checked_events d = Inr ()"
    and old: "\<forall>e\<in>set evs. ev_seq e \<le> last_seq evs" by (auto simp: synced_def)
  have less: "last_seq evs < ev_seq ev" using word_less_add_one[OF w] ev(2) by simp
  obtain m' where m': "read_manifest_opt rid (recorded_state X rid ev ops d) = Inr (Some m')"
    "m_applied_seq m' = max (m_applied_seq m) (ev_seq ev)" by (rule recorded_manifest[OF r m(1)])
  have "checked_events (recorded_state X rid ev ops d) = Inr ()"
    using c recorded_ok[OF r m(1)]
    by (simp add: checked_events_def guard_root_def same_log_def logged_state_def append_line_def)
  with m' m(2) less old recorded_log[OF l ev(1) r m(1)] show ?thesis
    by (force simp: synced_def last_seq_def max.absorb4)
qed

text \<open>The append, from the state its own catch-up replay leaves.\<close>

lemma append_after_replay:
  assumes X: "ext_ok X" and rep: "replay_unapplied_unlocked X rid d = (Inr (), d0)"
    and l: "log_is X d0 evs []" and c: "checked_events d0 = Inr ()"
    and m: "read_manifest_opt rid d0 = Inr mo"
    and ev: "ev = new_event clock rid k nid key data (last_seq evs + 1)"
  shows "append_and_apply_reporting X clock rid k nid key data d =
    (case reduce_event_to_ops X rid d0 ev of
       Inl e \<Rightarrow> (Inl e, d0)
     | Inr ops \<Rightarrow> (Inr (ev_seq ev, ops \<noteq> []), recorded_state X rid ev ops d0))"
proof (cases "reduce_event_to_ops X rid d0 ev")
  case (Inl e)
  then show ?thesis
    using rep c log_last_seq[OF X l] ev
    by (simp add: append_and_apply_reporting_def bind_io_step reading_def bind_io_def Let_def)
next
  case (Inr ops)
  have "ev_seq ev = last_seq evs + 1" using ev by (simp add: new_event_def)
  then show ?thesis
    using rep c log_last_seq[OF X l] ev Inr folded_ok(1)[OF Inr] recorded_ok[OF Inr m]
    by (simp add: append_and_apply_reporting_def bind_io_def reading_def updating_def ret_def Let_def
        logged_state_def)
qed

text \<open>C11: appending to a run that is up to date: the event gets the next sequence number; when the
  reducer rejects it the directory does not change at all; otherwise the strict reader returns the
  old events followed by the new one, sequence recovery returns its number, the watermark and the
  node counter are current, and the run is up to date again.\<close>

theorem append_keeps_run_synced:
  assumes "ext_ok X" and "synced X rid d evs" and "last_seq evs \<noteq> - 1"
    and "loggable (new_event clock rid k nid key data (last_seq evs + 1))"
  shows "case append_and_apply_reporting X clock rid k nid key data d of
      (Inl e, d') \<Rightarrow> d' = d \<and>
        reduce_event_to_ops X rid d (new_event clock rid k nid key data (last_seq evs + 1)) = Inl e
    | (Inr (seq, applied), d') \<Rightarrow> seq = last_seq evs + 1 \<and> unat seq = Suc (unat (last_seq evs)) \<and>
        read_all_events X d' = Inr (evs @ [new_event clock rid k nid key data seq]) \<and>
        recover_last_seq X d' = Inr seq \<and>
        (\<exists>m'. read_manifest_opt rid d' = Inr (Some m') \<and> m_applied_seq m' = seq \<and>
           m_node_count m' = derive_counters d') \<and>
        synced X rid d' (evs @ [new_event clock rid k nid key data seq])"
proof -
  define ev where "ev = new_event clock rid k nid key data (last_seq evs + 1)"
  have seq: "ev_seq ev = last_seq evs + 1" by (simp add: ev_def new_event_def)
  from assms(2) obtain m where l: "log_is X d evs []" "checked_events d = Inr ()"
    and m: "read_manifest_opt rid d = Inr (Some m)" "m_applied_seq m = last_seq evs"
    by (auto simp: synced_def)
  note a = append_after_replay[OF assms(1) replay_synced[OF assms(1,2)] l m(1) ev_def]
  show ?thesis
  proof (cases "reduce_event_to_ops X rid d ev")
    case (Inl e)
    with a show ?thesis by (simp add: ev_def)
  next
    case (Inr ops)
    have ev: "loggable ev" using assms(4) by (simp add: ev_def)
    note s = recorded_synced[OF assms(2) ev seq assms(3) Inr]
    have l': "log_is X (recorded_state X rid ev ops d) (evs @ [ev]) []" using s by (simp add: synced_def)
    have w: "last_seq evs < ev_seq ev" using word_less_add_one[OF assms(3)] seq by simp
    obtain m' where m': "read_manifest_opt rid (recorded_state X rid ev ops d) = Inr (Some m')"
      "m_applied_seq m' = max (m_applied_seq m) (ev_seq ev)"
      "m_node_count m' = derive_counters (recorded_state X rid ev ops d)"
      using recorded_manifest[OF Inr m(1)] w m(2) by metis
    have "recover_last_seq X (recorded_state X rid ev ops d) = Inr (ev_seq ev)"
      using log_last_seq[OF assms(1) l'] by (simp add: last_seq_def)
    moreover have "m_applied_seq m' = ev_seq ev" using m'(2) m(2) w by (simp add: max.absorb4)
    moreover have "unat (ev_seq ev) = Suc (unat (last_seq evs))"
      using word_Suc_unat[OF assms(3)] seq by simp
    moreover have "new_event clock rid k nid key data (ev_seq ev) = ev" by (simp add: ev_def new_event_def)
    ultimately show ?thesis
      unfolding a Inr sum.case prod.case using s m' log_read_all[OF assms(1) l'] seq by metis
  qed
qed

section \<open>Crashes\<close>

lemma torn_append:
  assumes X: "ext_ok X" and l: "log_is X d evs []" and ne: "evs \<noteq> []"
    and ev: "loggable ev" and p: "strict_prefix p (event_line X ev)"
  shows "truncate_torn_tail (append_line p d) = d"
proof -
  have bs: "d_events d = Some (join (map (event_text X) evs) [])" using l ne by (auto simp: log_is_def)
  have "prefix p (event_text X ev)"
    using p by (auto simp: event_line_text strict_prefix_def prefix_snoc)
  then have "line_ok p"
    using event_lines.enc_line[of X ev] X ev set_mono_prefix by (auto simp: line_ok_def)
  then have "truncate_bytes (join (map (event_text X) evs) p) = join (map (event_text X) evs) []"
    by (rule truncate_join)
  then show ?thesis
    using bs join_tail[of "map (event_text X) evs" p]
    by (cases d) (simp add: truncate_torn_tail_def append_line_def)
qed

lemma replay_logged:
  assumes X: "ext_ok X" and s: "synced X rid d evs"
    and ev: "loggable ev" "ev_seq ev = last_seq evs + 1" and w: "last_seq evs \<noteq> - 1"
    and log: "log_is X d1 (evs @ [ev]) []" "checked_events d1 = checked_events d"
    and m: "read_manifest_opt rid d1 = Inr (Some m)" "m_applied_seq m = last_seq evs"
    and r: "reduce_event_to_ops X rid d1 ev = Inr ops"
  shows "replay_unapplied_unlocked X rid d1 =
    bind_io (commit_ops rid ops) (\<lambda>_. bind_io (advance_applied_seq rid (ev_seq ev)) (\<lambda>_. ret ())) d1"
  using s word_less_add_one[OF w] ev(2) m log r
  by (intro replay_one[OF X]) (auto simp: synced_def)

text \<open>Every state a crash inside an accepted append can leave: part of the line is written, the line
  is durable and some of the planned files are written (each by its own atomic rename), or the
  watermark is written too.\<close>

inductive crash_state :: "ext \<Rightarrow> run_id \<Rightarrow> event \<Rightarrow> projection_op list \<Rightarrow> run_dir \<Rightarrow> run_dir \<Rightarrow> bool"
  for X rid ev ops d where
  torn: "strict_prefix p (event_line X ev) \<Longrightarrow> crash_state X rid ev ops d (append_line p d)"
| cut: "k \<le> length ops \<Longrightarrow>
    crash_state X rid ev ops d (snd (commit_ops rid (take k ops) (logged_state X ev d)))"
| marked: "crash_state X rid ev ops d (recorded_state X rid ev ops d)"

lemma planned_two:
  assumes "planned X rid d ev (a # b # rest)"
  obtains n m m' where "a = OpNode n" "b = OpManifest m'" "rest = []" "ev_kind ev = ''node.created''"
    "ev_node_id ev = Some (n_node_id n)" "read_manifest_opt rid d = Inr (Some m)"
  using assms by (auto elim!: planned_ConsE simp: fresh_node_def)

text \<open>The only plan of more than one file is that of \<open>node.created\<close>. After a crash between its two
  writes the replay finds the node and plans nothing: it completes everything but the manifest's own
  update.\<close>

lemma half_created:
  assumes X: "ext_ok X" and l: "log_is X d evs []" and ev: "loggable ev"
    and r: "reduce_event_to_ops X rid d ev = Inr (a # b # rest)"
  obtains h m m' where "ev_kind ev = ''node.created''" "rest = []"
    "commit_ops rid [a] (logged_state X ev d) = (Inr (), h)"
    "reduce_event_to_ops X rid h ev = Inr []" "same_log (logged_state X ev d) h"
    "read_manifest_opt rid d = Inr (Some m)" "read_manifest_opt rid h = Inr (Some m)"
    "folded_state X rid ev (a # b # rest) d = h\<lparr>d_manifest := Some (File m')\<rparr>"
proof -
  have p: "planned X rid d ev (a # b # rest)" and rid: "ev_run_id ev = rid"
    using reduce_event_to_ops_planned[OF r] by auto
  obtain n m m' where ab: "a = OpNode n" "b = OpManifest m'" "rest = []"
    and k: "ev_kind ev = ''node.created''" "ev_node_id ev = Some (n_node_id n)"
    and m: "read_manifest_opt rid d = Inr (Some m)" using planned_two[OF p] .
  define L where "L = logged_state X ev d"
  from folded_ok(1)[OF r] obtain h where h: "write_node rid n L = Inr h"
    "write_manifest rid m' h = Inr (folded_state X rid ev (a # b # rest) d)"
    by (auto simp: ab L_def[symmetric] commit_op_def bind_io_def updating_def ret_def split: sum.split_asm)
  have c: "commit_ops rid [a] L = (Inr (), h)"
    using h(1) by (simp add: ab commit_op_def bind_io_def updating_def ret_def)
  have rn: "read_node_opt rid h (n_node_id n) = Inr (Some n)"
    using node_store.read_written[OF h(1)] planned_ok[OF p] by (simp add: ab op_ok_def)
  have "reduce_event_to_ops X rid h ev = Inr []"
    using rn k rid by (simp add: reduce_event_to_ops_def reducers_def reduce_node_created_def
        require_envelope_node_id_def ok_or_def)
  moreover have "same_log L h" "read_manifest_opt rid h = Inr (Some m)"
    using h(1) m by (auto simp: write_node_Inr same_log_def L_def logged_state_def append_line_def
        read_manifest_opt_def store_defs)
  moreover have "folded_state X rid ev (a # b # rest) d = h\<lparr>d_manifest := Some (File m')\<rparr>"
    using h(2) by (simp add: write_manifest_Inr)
  ultimately show ?thesis using that k(1) ab(3) c m unfolding L_def by blast
qed


lemma advance_manifest_only:
  assumes "advance_applied_seq rid seq d = (r, d')"
  shows "d' = d\<lparr>d_manifest := d_manifest d'\<rparr>"
  using assms by (rule advance_cases) (auto simp: write_manifest_Inr)

lemma replay_torn:
  assumes X: "ext_ok X" and s: "synced X rid d evs" and ne: "evs \<noteq> []" and ev: "loggable ev"
    and p: "strict_prefix p (event_line X ev)"
  shows "replay_unapplied_unlocked X rid (append_line p d) = (Inr (), d)"
proof -
  from s have l: "log_is X d evs []" and c: "checked_events d = Inr ()" by (auto simp: synced_def)
  then have "checked_events (append_line p d) = Inr ()"
    by (simp add: checked_events_def guard_root_def append_line_def)
  then show ?thesis
    using torn_append[OF X l ne ev p] replay_synced[OF X s] replay_unlocked_eq[OF c l, of rid]
    by (simp add: replay_unapplied_unlocked_def bind_io_def reading_def updating_def)
qed

lemma logged_facts:
  assumes X: "ext_ok X" and s: "synced X rid d evs" and ev: "loggable ev"
    and r: "reduce_event_to_ops X rid d ev = Inr ops"
  shows "log_is X (logged_state X ev d) (evs @ [ev]) []"
    and "read_manifest_opt rid (logged_state X ev d) = read_manifest_opt rid d"
    and "checked_events (logged_state X ev d) = checked_events d"
    and "reduce_event_to_ops X rid (logged_state X ev d) ev = Inr ops"
proof -
  from s have l: "log_is X d evs []" by (simp add: synced_def)
  show "log_is X (logged_state X ev d) (evs @ [ev]) []"
    using log_append[OF l ev] by (simp add: logged_state_def)
  show "read_manifest_opt rid (logged_state X ev d) = read_manifest_opt rid d"
    and "checked_events (logged_state X ev d) = checked_events d"
    by (subst logged_state_log, rule log_reads)+
  show "reduce_event_to_ops X rid (logged_state X ev d) ev = Inr ops"
    using reduce_after_log[OF X l ev] r by (simp add: logged_state_def)
qed

text \<open>The replay of a state that holds the new line and differs from \<open>logged_state\<close> in the
  projections only.\<close>

lemma replay_same_log:
  assumes X: "ext_ok X" and s: "synced X rid d evs"
    and ev: "loggable ev" "ev_seq ev = last_seq evs + 1" and w: "last_seq evs \<noteq> - 1"
    and r: "reduce_event_to_ops X rid d ev = Inr ops"
    and h: "same_log (logged_state X ev d) h" "read_manifest_opt rid h = Inr (Some m)"
      "m_applied_seq m = last_seq evs" "reduce_event_to_ops X rid h ev = Inr ops'"
      "commit_ops rid ops' h = (Inr (), h')"
  shows "replay_unapplied_unlocked X rid h =
    bind_io (advance_applied_seq rid (ev_seq ev)) (\<lambda>_. ret ()) h'"
proof -
  note L = logged_facts[OF X s ev(1) r]
  have "log_is X h (evs @ [ev]) []" "checked_events h = checked_events d"
    using L(1,3) h(1) by (simp_all add: same_log_def log_is_def checked_events_def guard_root_def)
  from replay_logged[OF X s ev w this h(2,3,4)] h(5) show ?thesis by (simp add: bind_io_step)
qed

lemma replay_line_durable:
  assumes X: "ext_ok X" and s: "synced X rid d evs"
    and ev: "loggable ev" "ev_seq ev = last_seq evs + 1" and w: "last_seq evs \<noteq> - 1"
    and r: "reduce_event_to_ops X rid d ev = Inr ops"
  shows "replay_unapplied_unlocked X rid (logged_state X ev d) = (Inr (), recorded_state X rid ev ops d)"
proof -
  from s obtain m where m: "read_manifest_opt rid d = Inr (Some m)" "m_applied_seq m = last_seq evs"
    by (auto simp: synced_def)
  note L = logged_facts[OF X s ev(1) r]
  have "same_log (logged_state X ev d) (logged_state X ev d)" by (simp add: same_log_def)
  from replay_same_log[OF X s ev w r this L(2)[unfolded m(1)] m(2) L(4) folded_ok(1)[OF r]]
    recorded_ok[OF r m(1)] show ?thesis by (simp add: bind_io_step ret_def)
qed

lemma replay_folded:
  assumes X: "ext_ok X" and s: "synced X rid d evs"
    and ev: "loggable ev" "ev_seq ev = last_seq evs + 1" and w: "last_seq evs \<noteq> - 1"
    and r: "reduce_event_to_ops X rid d ev = Inr ops" and ref: "refoldable ev"
  shows "replay_unapplied_unlocked X rid (folded_state X rid ev ops d) = (Inr (), recorded_state X rid ev ops d)"
proof -
  from s obtain m where m: "read_manifest_opt rid d = Inr (Some m)" "m_applied_seq m = last_seq evs"
    by (auto simp: synced_def)
  note L = logged_facts[OF X s ev(1) r]
  from reduce_refolds[OF L(4) folded_ok(1)[OF r] ref] obtain ops' where
    o': "reduce_event_to_ops X rid (folded_state X rid ev ops d) ev = Inr ops'"
    "commit_ops rid ops' (folded_state X rid ev ops d) = (Inr (), folded_state X rid ev ops d)"
    by (auto simp: settled_def)
  obtain mf where "read_manifest_opt rid (folded_state X rid ev ops d) = Inr (Some mf)"
    "m_applied_seq mf = last_seq evs"
    by (rule folded_manifest[OF r m(1)]) (use m(2) in auto)
  from replay_same_log[OF X s ev w r folded_ok(2)[OF r] this o'] recorded_ok[OF r m(1)]
  show ?thesis by (simp add: bind_io_step ret_def)
qed

text \<open>What the replay makes of the creation of a node cut between its two files: everything but the
  manifest is as recorded, and the manifest is the old one with the new watermark and counter.\<close>

definition manifest_edit_lost :: "ext \<Rightarrow> run_id \<Rightarrow> event \<Rightarrow> projection_op list \<Rightarrow> run_dir \<Rightarrow> run_dir \<Rightarrow> bool" where
  "manifest_edit_lost X rid ev ops d c' \<longleftrightarrow>
     c' = (recorded_state X rid ev ops d)\<lparr>d_manifest := d_manifest c'\<rparr> \<and>
     (\<exists>m. read_manifest_opt rid d = Inr (Some m) \<and> read_manifest_opt rid c' =
        Inr (Some (m\<lparr>m_node_count := derive_counters c', m_applied_seq := ev_seq ev\<rparr>)))"

lemma replay_half_created:
  assumes X: "ext_ok X" and s: "synced X rid d evs"
    and ev: "loggable ev" "ev_seq ev = last_seq evs + 1" and w: "last_seq evs \<noteq> - 1"
    and r: "reduce_event_to_ops X rid d ev = Inr (a # b # rest)"
  shows "ev_kind ev = ''node.created''" and "rest = []"
    and "\<exists>c'. replay_unapplied_unlocked X rid (snd (commit_ops rid [a] (logged_state X ev d))) = (Inr (), c') \<and>
      manifest_edit_lost X rid ev (a # b # rest) d c'"
proof -
  from s have l: "log_is X d evs []" by (simp add: synced_def)
  obtain h m m' where k: "ev_kind ev = ''node.created''" "rest = []"
    and h: "commit_ops rid [a] (logged_state X ev d) = (Inr (), h)"
    "reduce_event_to_ops X rid h ev = Inr []" "same_log (logged_state X ev d) h"
    and m: "read_manifest_opt rid d = Inr (Some m)" "read_manifest_opt rid h = Inr (Some m)"
    and f: "folded_state X rid ev (a # b # rest) d = h\<lparr>d_manifest := Some (File m')\<rparr>"
    using half_created[OF X l ev(1) r] .
  show "ev_kind ev = ''node.created''" "rest = []" by fact+
  have lt: "m_applied_seq m < ev_seq ev" and ms: "m_applied_seq m = last_seq evs"
    using s m(1) word_less_add_one[OF w] ev(2) by (auto simp: synced_def)
  obtain c' where c': "advance_applied_seq rid (ev_seq ev) h = (Inr (), c')"
    "read_manifest_opt rid c' = Inr (Some (advanced h (ev_seq ev) m))"
    by (rule advance_some[OF m(2)])
  have "commit_ops rid [] h = (Inr (), h)" by (simp add: ret_def)
  from replay_same_log[OF X s ev w r h(3) m(2) ms h(2) this] c'(1)
  have "replay_unapplied_unlocked X rid h = (Inr (), c')" by (simp add: bind_io_step ret_def)
  moreover note a = advance_manifest_only[OF c'(1)]
  have "recorded_state X rid ev (a # b # rest) d = h\<lparr>d_manifest := d_manifest (recorded_state X rid ev (a # b # rest) d)\<rparr>"
    using recorded_ok[OF r m(1)] advance_manifest_only[of rid "ev_seq ev" "folded_state X rid ev (a # b # rest) d"] f
    by simp
  then have "(recorded_state X rid ev (a # b # rest) d)\<lparr>d_manifest := d_manifest c'\<rparr> =
      h\<lparr>d_manifest := d_manifest c'\<rparr>" by (rule ssubst) simp
  with a have "c' = (recorded_state X rid ev (a # b # rest) d)\<lparr>d_manifest := d_manifest c'\<rparr>"
    by (rule trans[OF _ sym])
  moreover have "derive_counters c' = derive_counters h"
    using arg_cong[OF a, of d_nodes] by (simp add: derive_counters_def count_node_files_def)
  then have "read_manifest_opt rid c' =
      Inr (Some (m\<lparr>m_node_count := derive_counters c', m_applied_seq := ev_seq ev\<rparr>))"
    using c'(2) lt by (simp add: advanced_def)
  ultimately show "\<exists>c'. replay_unapplied_unlocked X rid (snd (commit_ops rid [a] (logged_state X ev d))) =
      (Inr (), c') \<and> manifest_edit_lost X rid ev (a # b # rest) d c'"
    using h(1) m(1) by (auto simp: manifest_edit_lost_def)
qed


section \<open>All or nothing\<close>

definition keeps_log :: "'a io \<Rightarrow> bool" where
  "keeps_log m \<longleftrightarrow> (\<forall>d. same_log d (snd (m d)))"

lemma keeps_logD: "keeps_log m \<Longrightarrow> m d = (r, d') \<Longrightarrow> same_log d d'"
  unfolding keeps_log_def by (metis snd_conv)

lemma keeps_ret [intro]: "keeps_log (ret x)"
  by (simp add: keeps_log_def ret_def same_log_def)

lemma keeps_reading [intro]: "keeps_log (reading f)"
  by (simp add: keeps_log_def reading_def same_log_def)

lemma keeps_bind [intro]:
  assumes "keeps_log m" and "\<And>x. keeps_log (f x)"
  shows "keeps_log (bind_io m f)"
  unfolding keeps_log_def
proof
  fix d
  obtain r d1 where m: "m d = (r, d1)" by (cases "m d")
  have "same_log d1 (snd (f x d1))" for x using assms(2) by (simp add: keeps_log_def)
  with keeps_logD[OF assms(1) m] m show "same_log d (snd (bind_io m f d))"
    by (cases r) (auto simp: bind_io_def same_log_def)
qed

lemma keeps_commit_op [intro]: "keeps_log (commit_op rid oper)"
  by (auto simp: keeps_log_def commit_op_def updating_def same_log_def write_manifest_Inr write_node_Inr
      split: projection_op.split sum.split)

lemma keeps_commit [intro]: "keeps_log (commit_ops rid ops)"
  by (induction ops) auto

lemma keeps_advance [intro]: "keeps_log (advance_applied_seq rid seq)"
proof -
  have "same_log d d'" if "advance_applied_seq rid seq d = (r, d')" for d r d'
    using that by (rule advance_cases) (auto simp: same_log_def write_manifest_Inr)
  then show ?thesis unfolding keeps_log_def by (metis prod.collapse)
qed

lemma keeps_replay_loop [intro]: "keeps_log (replay_loop X rid applied ls)"
proof (induction ls)
  case (Cons l ls)
  obtain raw whole where l: "l = (raw, whole)" by (cases l)
  have "same_log d (snd (replay_loop X rid applied ls d))" for d
    using Cons.IH by (simp add: keeps_log_def)
  moreover have "same_log d (snd (bind_io (commit_ops rid ops) (\<lambda>_. bind_io
      (advance_applied_seq rid s) (\<lambda>_. replay_loop X rid applied ls)) d))" for d ops s
  proof -
    have "keeps_log (bind_io (commit_ops rid ops) (\<lambda>_. bind_io
        (advance_applied_seq rid s) (\<lambda>_. replay_loop X rid applied ls)))" using Cons.IH by blast
    then show ?thesis by (simp add: keeps_log_def)
  qed
  ultimately show ?case
    by (auto simp: keeps_log_def l Let_def ret_def same_log_def[of d d for d]
        split: option.split sum.split core_error.split)
qed auto

lemma replay_some:
  assumes "read_manifest_opt rid d = Inr (Some m)" and "replay_unapplied X rid d = (r, d')"
  shows "same_log d d'" and "\<exists>m'. read_manifest_opt rid d' = Inr (Some m')"
proof -
  show "same_log d d'"
    using assms keeps_logD[OF keeps_replay_loop]
    by (auto simp: replay_unapplied_def bind_io_def reading_def ret_def same_log_def
        split: sum.split_asm if_split_asm option.split_asm)
  have "run_steps X rid d d'"
    using steps_replay[of X rid] assms(2) unfolding steps_io_def by (metis snd_conv)
  then show "\<exists>m'. read_manifest_opt rid d' = Inr (Some m')"
    using manifest_history.history[of X rid d d' m] assms(1) by auto
qed

lemma replay_outcome:
  assumes "replay_unapplied X rid d = (r, d')"
  shows "same_log d d'" and "r = Inr () \<Longrightarrow> \<exists>mo. read_manifest_opt rid d' = Inr mo"
proof -
  consider (bad) e where "read_manifest_opt rid d = Inl e" | (none) "read_manifest_opt rid d = Inr None"
    | (some) m where "read_manifest_opt rid d = Inr (Some m)"
    by (metis sum.exhaust option.exhaust)
  then have "same_log d d' \<and> (r = Inr () \<longrightarrow> (\<exists>mo. read_manifest_opt rid d' = Inr mo))"
  proof cases
    case some
    from replay_some[OF this assms] show ?thesis by blast
  qed (use assms in \<open>auto simp: replay_unapplied_def bind_io_def reading_def ret_def same_log_def\<close>)
  then show "same_log d d'" and "r = Inr () \<Longrightarrow> \<exists>mo. read_manifest_opt rid d' = Inr mo" by auto
qed

text \<open>C1: an append is all or nothing, whatever state it starts from: a stale watermark, a torn tail,
  a missing or unreadable manifest. When it reports a sequence number, that is the last one plus one
  and the log holds the old events and the new one; when it reports any error, the log holds exactly
  the old events.\<close>

theorem append_all_or_nothing:
  assumes X: "ext_ok X" and l: "log_is X d evs t"
    and ev: "loggable (new_event clock rid k nid key data (last_seq evs + 1))"
  shows "case append_and_apply_reporting X clock rid k nid key data d of
      (Inl e, d') \<Rightarrow> read_all_events X d' = Inr evs
    | (Inr (seq, applied), d') \<Rightarrow> seq = last_seq evs + 1 \<and>
        read_all_events X d' = Inr (evs @ [new_event clock rid k nid key data seq])"
proof (cases "checked_events d")
  case (Inl e)
  then show ?thesis
    using log_read_all[OF X l]
    by (simp add: append_and_apply_reporting_def replay_unapplied_unlocked_def bind_io_def reading_def)
next
  case (Inr u)
  define ev where "ev = new_event clock rid k nid key data (last_seq evs + 1)"
  let ?d = "truncate_torn_tail d"
  obtain r d0 where rep: "replay_unapplied X rid ?d = (r, d0)" by (cases "replay_unapplied X rid ?d")
  have rep': "replay_unapplied_unlocked X rid d = (r, d0)"
    using Inr rep by (simp add: replay_unapplied_unlocked_def bind_io_def reading_def updating_def)
  have l0: "log_is X d0 evs []"
    using log_truncated[OF l] replay_outcome(1)[OF rep] by (simp add: same_log_def log_is_def)
  have c0: "checked_events d0 = Inr ()"
    using Inr replay_outcome(1)[OF rep]
    by (simp add: same_log_def checked_events_def guard_root_def truncate_torn_tail_def)
  show ?thesis
  proof (cases r)
    case (Inl e)
    with rep' show ?thesis
      using log_read_all[OF X l0] by (simp add: append_and_apply_reporting_def bind_io_def)
  next
    case (Inr v)
    then obtain mo where m: "read_manifest_opt rid d0 = Inr mo" using replay_outcome(2)[OF rep] by auto
    have "replay_unapplied_unlocked X rid d = (Inr (), d0)" using rep' Inr by simp
    note a = append_after_replay[OF X this l0 c0 m ev_def]
    show ?thesis
    proof (cases "reduce_event_to_ops X rid d0 ev")
      case (Inl e)
      with a log_read_all[OF X l0] show ?thesis by simp
    next
      case (Inr ops)
      have "log_is X (recorded_state X rid ev ops d0) (evs @ [ev]) []"
        using recorded_log[OF l0 _ Inr m] ev by (simp add: ev_def)
      from log_read_all[OF X this] have "read_all_events X (recorded_state X rid ev ops d0) = Inr (evs @ [ev])" .
      moreover have "ev_seq ev = last_seq evs + 1" by (simp add: ev_def new_event_def)
      ultimately show ?thesis unfolding a Inr sum.case prod.case by (simp add: ev_def)
    qed
  qed
qed

section \<open>Keyed appends\<close>

definition prior_with_key :: "string \<Rightarrow> string \<Rightarrow> event list \<Rightarrow> event option" where
  "prior_with_key k key evs = List.find (\<lambda>ev. ev_kind ev = k \<and> ev_idempotency_key ev = Some key) evs"

lemma prior_with_key_append:
  "prior_with_key k key (evs @ evs') = (case prior_with_key k key evs of
     Some p \<Rightarrow> Some p | None \<Rightarrow> prior_with_key k key evs')"
  by (induction evs) (simp_all add: prior_with_key_def)

lemma find_prior_synced:
  "ext_ok X \<Longrightarrow> synced X rid d evs \<Longrightarrow>
     find_prior_with_key X d k key = Inr (map_option prior_of (prior_with_key k key evs))"
  by (auto simp: synced_def prior_with_key_def find_prior_log)

lemma append_synced:
  assumes "ext_ok X" and s: "synced X rid d evs"
    and ev: "ev = new_event clock rid k nid key data (last_seq evs + 1)"
  shows "append_and_apply_reporting X clock rid k nid key data d =
    (case reduce_event_to_ops X rid d ev of
       Inl e \<Rightarrow> (Inl e, d)
     | Inr ops \<Rightarrow> (Inr (ev_seq ev, ops \<noteq> []), recorded_state X rid ev ops d))"
  using s append_after_replay[OF assms(1) replay_synced[OF assms(1,2)] _ _ _ ev]
  by (auto simp: synced_def)

lemma idempotent_synced:
  assumes X: "ext_ok X" and s: "synced X rid d evs" and key: "key \<noteq> []"
    and b: "build (last_seq evs + 1) = Inr data"
  shows "append_and_apply_idempotent X clock rid k nid key build d =
    (case prior_with_key k key evs of
       Some prior \<Rightarrow>
         (Inr (if ev_node_id prior = nid \<and> ev_data prior = data
            then IdempotentReplay (prior_of prior) else Conflict (prior_of prior)), d)
     | None \<Rightarrow> bind_io (append_and_apply_unlocked X clock rid k nid (Some key) data)
         (\<lambda>seq. ret (Appended seq)) d)"
proof -
  from s have c: "checked_events d = Inr ()" and l: "log_is X d evs []" by (auto simp: synced_def)
  have "replay_unapplied X rid d = (Inr (), d)"
    using replay_synced[OF X s] by (simp add: replay_unlocked_eq[OF c l])
  moreover have "map_option node_id_str a = map_option node_id_str b \<longleftrightarrow> a = b" for a b
    by (cases a; cases b) simp_all
  ultimately show ?thesis
    using c key b truncate_complete[OF l] log_last_seq[OF X l] find_prior_synced[OF X s, of k key]
    by (simp add: append_and_apply_idempotent_def bind_io_def reading_def updating_def ret_def
        prior_of_def split: option.split)
qed

text \<open>C10: a keyed append records at most one event per kind and key. If the log already has one, the
  directory does not change and the caller learns whether node and payload agree (a replay) or not
  (a conflict). If it has none and the reducer accepts, the event is appended under the next number,
  and every later keyed append with this key finds exactly that event and changes nothing.\<close>

theorem keyed_append_records_once:
  assumes X: "ext_ok X" and s: "synced X rid d evs" and w: "last_seq evs \<noteq> - 1" and key: "key \<noteq> []"
    and b: "build (last_seq evs + 1) = Inr data"
    and ev: "ev = new_event clock rid k nid (Some key) data (last_seq evs + 1)" "loggable ev"
  shows "case prior_with_key k key evs of
      Some prior \<Rightarrow> append_and_apply_idempotent X clock rid k nid key build d =
        (Inr (if ev_node_id prior = nid \<and> ev_data prior = data
           then IdempotentReplay (prior_of prior) else Conflict (prior_of prior)), d)
    | None \<Rightarrow> (case append_and_apply_idempotent X clock rid k nid key build d of
        (Inl e, d') \<Rightarrow> d' = d \<and> reduce_event_to_ops X rid d ev = Inl e
      | (Inr out, d') \<Rightarrow> out = Appended (ev_seq ev) \<and> read_all_events X d' = Inr (evs @ [ev]) \<and>
          (\<forall>nid' build' data'. build' (ev_seq ev + 1) = Inr data' \<longrightarrow>
             append_and_apply_idempotent X clock rid k nid' key build' d' =
               (Inr (if nid' = nid \<and> data' = data
                  then IdempotentReplay (prior_of ev) else Conflict (prior_of ev)), d')))"
proof (cases "prior_with_key k key evs")
  case (Some prior)
  with idempotent_synced[where build = build, OF X s key b] show ?thesis by simp
next
  case None
  have seq: "ev_seq ev = last_seq evs + 1" using ev(1) by (simp add: new_event_def)
  note a = append_synced[OF X s ev(1)]
  show ?thesis
  proof (cases "reduce_event_to_ops X rid d ev")
    case (Inl e)
    with None idempotent_synced[where build = build, OF X s key b] a show ?thesis
      by (simp add: append_and_apply_unlocked_def bind_io_def)
  next
    case (Inr ops)
    let ?d = "recorded_state X rid ev ops d"
    have s': "synced X rid ?d (evs @ [ev])" by (rule recorded_synced[OF s ev(2) seq w Inr])
    have p: "prior_with_key k key (evs @ [ev]) = Some ev"
      using None ev(1) by (simp add: prior_with_key_append) (simp add: prior_with_key_def new_event_def)
    have l: "last_seq (evs @ [ev]) = ev_seq ev" by (simp add: last_seq_def)
    have fields: "ev_node_id ev = nid" "ev_data ev = data" using ev(1) by (simp_all add: new_event_def)
    have "read_all_events X ?d = Inr (evs @ [ev])"
      using s' log_read_all[OF X] by (auto simp: synced_def)
    moreover have "append_and_apply_idempotent X clock rid k nid' key build' ?d =
        (Inr (if nid' = nid \<and> data' = data
           then IdempotentReplay (prior_of ev) else Conflict (prior_of ev)), ?d)"
      if "build' (ev_seq ev + 1) = Inr data'" for nid' build' data'
      using idempotent_synced[OF X s' key, of build' data'] that p l fields by auto
    moreover have "append_and_apply_idempotent X clock rid k nid key build d = (Inr (Appended (ev_seq ev)), ?d)"
      using None idempotent_synced[where build = build, OF X s key b] a Inr
      by (simp add: append_and_apply_unlocked_def bind_io_def ret_def)
    ultimately show ?thesis using None by simp
  qed
qed

end
