(* ===== verification/Status_Facts.thy ===== *)
theory Status_Facts
  imports Append_Facts
begin

text \<open>
  The statuses cancellation and the supervisor derive from the log, against the node files the
  reducer keeps: the accumulator is well formed, settled entries stay settled, and folding
  the log through the accumulator and through the reducer agrees on every settled node.
\<close>

section \<open>The accumulator by itself\<close>

definition acc_ok :: "node_status_acc \<Rightarrow> bool" where
  "acc_ok acc \<longleftrightarrow> distinct (acc_order acc) \<and> set (acc_order acc) = dom (acc_status acc) \<and>
     dom (acc_confirmed_merge_seq acc) \<subseteq> dom (acc_status acc)"

lemma acc_ok_default: "acc_ok acc_default"
  by (simp add: acc_ok_def acc_default_def)

lemma acc_ok_observe: "acc_ok acc \<Longrightarrow> acc_ok (observe p acc)"
  by (auto simp: acc_ok_def observe_def observe_created_def observe_status_def observe_report_def Let_def
      split: option.splits if_splits)

lemma map_of_finish: "acc_ok acc \<Longrightarrow> map_of (finish acc) = acc_status acc"
proof
  fix nid
  assume ok: "acc_ok acc"
  have "finish acc = map (\<lambda>k. (k, case acc_status acc k of Some s \<Rightarrow> s | None \<Rightarrow> Pending))
      (sort_key node_number (acc_order acc))"
    by (simp add: finish_def finish_facts_def)
  then show "map_of (finish acc) nid = acc_status acc nid"
    using ok by (cases "acc_status acc nid")
      (auto simp: map_of_map_restrict restrict_map_def acc_ok_def dom_def)
qed

section \<open>Payloads and probes\<close>

definition some_value :: "json option \<Rightarrow> json option" where
  "some_value x = (if x = Some Null then None else x)"

definition payload_probe :: "(string \<times> json) list \<Rightarrow> cancel_probe_data" where
  "payload_probe m = \<lparr>pd_status = some_value (map_of m ''status''),
     pd_success = some_value (map_of m ''success''), pd_cancelled = some_value (map_of m ''cancelled''),
     pd_via = some_value (map_of m ''via''), pd_origin = map_of m ''origin''\<rparr>"

lemma optional_value: "optional Some g k = Some (some_value (g k))"
  by (simp add: optional_def de_option_def some_value_def split: option.split)

lemma de_payload: "de_cancel_probe_data (Object m) = Some (payload_probe m)"
  by (simp add: de_cancel_probe_data_def struct_Object optional_value payload_probe_def)

definition probe_of :: "event \<Rightarrow> (string \<times> json) list \<Rightarrow> cancel_probe" where
  "probe_of ev m = \<lparr>cp_seq = ev_seq ev, cp_kind = ev_kind ev, cp_node_id = ev_node_id ev,
     cp_idempotency_key = ev_idempotency_key ev, cp_data = payload_probe m\<rparr>"

lemma probe_of_text:
  assumes "ext_ok X" and "loggable ev" and "ev_data ev = Object m"
  shows "probe_of_line X (event_text X ev) = Some (probe_of ev m)"
proof -
  have "defaulted probe_data_default de_cancel_probe_data (map_of (event_fields X ev)) ''data'' =
      Some (payload_probe m)"
    using assms(3) by (simp add: defaulted_def event_field de_payload)
  with assms(1,2) show ?thesis
    by (simp add: probe_of_line_def event_text_reads de_cancel_probe_def decoders probe_of_def)
qed

lemma probe_entry_get: "map_of (probe_entry k x) k' = (if k' = k then x else None)"
  by (cases x) (simp_all add: probe_entry_def)

lemma report_value_get:
  "get (report_value (payload_probe m)) ''success'' = some_value (map_of m ''success'')"
  "get (report_value (payload_probe m)) ''cancelled'' = some_value (map_of m ''cancelled'')"
  "get (report_value (payload_probe m)) ''via'' = some_value (map_of m ''via'')"
  "get (report_value (payload_probe m)) ''origin'' = map_of m ''origin''"
  by (simp_all add: report_value_def payload_probe_def probe_entry_get map_add_def split: option.split)

lemma probe_confirms_merge:
  "report_is_confirmed_merge (report_value (payload_probe m)) = report_is_confirmed_merge (Object m)"
proof -
  have "some_value x = Some (Bool b) \<longleftrightarrow> x = Some (Bool b)" for x b by (auto simp: some_value_def)
  moreover have "Option.bind (some_value x) as_str = Option.bind x as_str" for x
    by (auto simp: some_value_def)
  moreover have "(case some_value x of None \<Rightarrow> True | Some Null \<Rightarrow> True | Some (Bool b) \<Rightarrow> \<not> b | _ \<Rightarrow> False) =
      (case x of None \<Rightarrow> True | Some Null \<Rightarrow> True | Some (Bool b) \<Rightarrow> \<not> b | _ \<Rightarrow> False)" for x
    by (auto simp: some_value_def split: option.split json.split)
  ultimately show ?thesis
    by (simp add: report_is_confirmed_merge_def report_value_get get_str_def from_report_def Let_def)
qed

lemma probe_report_status:
  assumes "report_terminal_status ev = Inr s" and "ev_data ev = Object m"
  shows "lenient_report_status (Option.bind (pd_success (payload_probe m)) as_bool)
    (Option.bind (pd_cancelled (payload_probe m)) as_bool) = Some s"
proof -
  have "optional_bool (Object m) k = Inr b \<Longrightarrow> Option.bind (some_value (map_of m k)) as_bool = b" for k b
    by (auto simp: optional_bool_def some_value_def split: option.split_asm json.split_asm)
  with assms show ?thesis
    by (auto simp: report_terminal_status_def res_simps payload_probe_def lenient_report_status_def
        split: if_splits option.splits bool.splits)
qed

section \<open>One event, both ways\<close>

text \<open>An entry of the accumulator against a node file: both absent, or both there and equal as
  soon as one of them is settled. Unsettled statuses may differ, since retries reset the file only.\<close>

definition settled_alike :: "status \<Rightarrow> node \<Rightarrow> bool" where
  "settled_alike s n \<longleftrightarrow> (is_terminal s \<or> is_terminal (n_status n) \<longrightarrow> n_status n = s)"

definition entry_tracks :: "status option \<Rightarrow> node option res \<Rightarrow> bool" where
  "entry_tracks e r = (case e of
       None \<Rightarrow> r = Inr None
     | Some s \<Rightarrow> (\<exists>n. r = Inr (Some n) \<and> settled_alike s n))"

definition tracks :: "run_id \<Rightarrow> run_dir \<Rightarrow> node_status_acc \<Rightarrow> bool" where
  "tracks rid d acc \<longleftrightarrow> (\<forall>nid. entry_tracks (acc_status acc nid) (read_node_opt rid d nid))"

lemma apply_event_other_node:
  assumes a: "apply_event X rid ev d = (Inr (), d')" and k: "ev_node_id ev \<noteq> Some k"
  shows "read_node_opt rid d' k = read_node_opt rid d k"
proof -
  from a obtain ops where ops: "reduce_event_to_ops X rid d ev = Inr ops"
    and c: "commit_ops rid ops d = (Inr (), d')" by (auto simp: apply_event_Inr)
  have "planned X rid d ev ops" using reduce_event_to_ops_planned[OF ops] by blast
  then have "NodePath k \<notin> set (map op_path ops)"
  proof cases
    case (edit_node j n n')
    then have "n_node_id n' = j" using node_store.read_checked by (fastforce simp: node_step_def)
    with edit_node k show ?thesis by (simp add: op_path_def)
  qed (use k in \<open>auto simp: op_path_def fresh_node_def\<close>)
  with reducer.commit_plan[OF ops] c have "same_at rid (NodePath k) d d'" by auto
  then show ?thesis by (simp add: same_at_def)
qed

lemma apply_event_absent:
  assumes a: "apply_event X rid ev d = (Inr (), d')" and "read_node_opt rid d k = Inr None"
    and "ev_kind ev \<noteq> ''node.created''"
  shows "read_node_opt rid d' k = Inr None"
proof -
  from a obtain ops where ops: "reduce_event_to_ops X rid d ev = Inr ops"
    and c: "commit_ops rid ops d = (Inr (), d')" by (auto simp: apply_event_Inr)
  have "planned X rid d ev ops" using reduce_event_to_ops_planned[OF ops] by blast
  then have "NodePath k \<notin> set (map op_path ops)"
  proof cases
    case (edit_node j n n')
    then have "n_node_id n' = j" using node_store.read_checked by (fastforce simp: node_step_def)
    with edit_node assms(2) show ?thesis by (auto simp: op_path_def)
  qed (use assms(3) in \<open>auto simp: op_path_def\<close>)
  with reducer.commit_plan[OF ops] c have "same_at rid (NodePath k) d d'" by auto
  with assms(2) show ?thesis by (simp add: same_at_def)
qed

lemma observe_other: "ev_node_id ev \<noteq> Some k \<Longrightarrow> acc_status (observe (probe_of ev m) acc) k = acc_status acc k"
  by (auto simp: observe_def probe_of_def observe_created_def observe_status_def observe_report_def Let_def
      split: option.split)

lemma step_tracks:
  assumes "n' = n \<or> node_step ev n n'" and "ev_kind ev \<noteq> ''node.status''" "ev_kind ev \<noteq> ''node.report''"
    and "settled_alike s n"
  shows "settled_alike s n'"
proof -
  have "n_status n' = n_status n \<or> \<not> is_terminal (n_status n) \<and> n_status n' = Pending"
    using assms(1-3) by (auto simp: node_step_def node_status_step_def)
  moreover have "\<not> is_terminal Pending" by (simp add: is_terminal_def)
  ultimately show ?thesis using assms(4) unfolding settled_alike_def by metis
qed

lemma edit_tracks:
  assumes a: "apply_event X rid ev d = (Inr (), d')" and e: "entry_tracks (Some s) (read_node_opt rid d nid)"
    and k: "ev_kind ev \<noteq> ''node.status''" "ev_kind ev \<noteq> ''node.report''"
  shows "entry_tracks (Some s) (read_node_opt rid d' nid)"
proof -
  from e obtain n where n: "read_node_opt rid d nid = Inr (Some n)"
    "settled_alike s n" by (auto simp: entry_tracks_def)
  from apply_event_node[OF a n(1)] obtain n' where "read_node_opt rid d' nid = Inr (Some n')"
    "n' = n \<or> node_step ev n n'" by blast
  with step_tracks[OF this(2) k n(2)] show ?thesis by (simp add: entry_tracks_def)
qed

text \<open>Kinds that the accumulator ignores leave settled files alone and settle none.\<close>

lemma quiet_tracks:
  assumes "apply_event X rid ev d = (Inr (), d')" and "entry_tracks e (read_node_opt rid d nid)"
    and "ev_kind ev \<notin> {''node.created'', ''node.status'', ''node.report''}"
  shows "entry_tracks e (read_node_opt rid d' nid)"
proof (cases e)
  case None
  with assms apply_event_absent[OF assms(1)] show ?thesis by (simp add: entry_tracks_def)
next
  case (Some s)
  with assms edit_tracks[OF assms(1)] show ?thesis by simp
qed

lemma created_tracks:
  assumes a: "apply_event X rid ev d = (Inr (), d')" and e: "entry_tracks e (read_node_opt rid d nid)"
    and k: "ev_kind ev = ''node.created''" "ev_node_id ev = Some nid"
  shows "entry_tracks (if e = None then Some Pending else e) (read_node_opt rid d' nid)"
proof (cases e)
  case None
  then have no: "read_node_opt rid d nid = Inr None" using e by (simp add: entry_tracks_def)
  from a obtain ops where r: "reduce_event_to_ops X rid d ev = Inr ops"
    and c: "commit_ops rid ops d = (Inr (), d')" by (auto simp: apply_event_Inr)
  then have "reduce_node_created X rid d ev = Inr ops"
    using k by (simp add: reduce_event_to_ops_def reducers_def split: if_split_asm)
  then obtain n mo where "fresh_node ev rid nid n" and "ops = (case mo of None \<Rightarrow> [OpNode n] | Some m \<Rightarrow>
      [OpNode n, OpManifest ((if node_id_str nid = ''n-0001'' \<and> m_source_branch m = None
         then m\<lparr>m_source_branch := nonempty_str (ev_data ev) ''source_branch''\<rparr> else m)
           \<lparr>m_updated_at := ev_ts ev\<rparr>)])"
    using k(2) no by (blast elim: reduce_node_created_fresh)
  moreover have "list_all (\<lambda>oper. reads_back rid oper d') ops" using reducer.commit_plan[OF r] c by auto
  ultimately show ?thesis
    using None by (cases mo) (auto simp: reads_back_def fresh_node_def entry_tracks_def settled_alike_def)
next
  case (Some s)
  with e k edit_tracks[OF a] show ?thesis by simp
qed

lemma applied_node_edit:
  assumes "apply_event X rid ev d = (Inr (), d')" and "reduce_event_to_ops X rid d ev = Inr [OpNode n']"
  shows "read_node_opt rid d' (n_node_id n') = Inr (Some n')"
  using assms reducer.commit_plan[OF assms(2)] by (auto simp: apply_event_Inr reads_back_def)

lemma applied_nothing:
  "apply_event X rid ev d = (Inr (), d') \<Longrightarrow> reduce_event_to_ops X rid d ev = Inr [] \<Longrightarrow> d' = d"
  by (auto simp: apply_event_Inr ret_def)

lemma status_tracks:
  assumes a: "apply_event X rid ev d = (Inr (), d')"
    and e: "entry_tracks (acc_status acc nid) (read_node_opt rid d nid)"
    and k: "ev_kind ev = ''node.status''" "ev_node_id ev = Some nid"
    and m: "ev_data ev = Object m" "map_of m ''status'' = Some (String str)"
  shows "entry_tracks (acc_status (observe_status nid (payload_probe m) acc) nid) (read_node_opt rid d' nid)"
proof -
  from a obtain ops where r: "reduce_event_to_ops X rid d ev = Inr ops" by (auto simp: apply_event_Inr)
  then have f: "reduce_node_status X rid d ev = Inr ops"
    using k by (simp add: reduce_event_to_ops_def reducers_def split: if_split_asm)
  show ?thesis
  proof (cases "acc_status acc nid")
    case None
    with e apply_event_absent[OF a, of nid] k show ?thesis by (simp add: entry_tracks_def observe_status_def)
  next
    case (Some s)
    with e obtain n where n: "read_node_opt rid d nid = Inr (Some n)" "settled_alike s n"
      by (auto simp: entry_tracks_def)
    with f k(2) obtain ns where ns: "require_status ev = Inr ns"
      and ops: "ops = (if is_terminal (n_status n) \<or> n_status n = ns then [] else
        [OpNode ((if is_terminal ns then n\<lparr>n_status := ns, n_pending_merge := None, n_awaiting_input := None\<rparr>
          else n\<lparr>n_status := ns\<rparr>)\<lparr>n_updated_at := ev_ts ev\<rparr>)])"
      by (auto simp: reduce_node_status_def with_node_def require_envelope_node_id_def ok_or_def
          rbind_Inr_iff Let_def split: if_split_asm)
    have parse: "Option.bind (Option.bind (pd_status (payload_probe m)) as_str) parse_status = Some ns"
      using ns m by (auto simp: require_status_def data_status_def get_or_null_def payload_probe_def
          some_value_def parse_status_def ok_or_Inr)
    have id: "n_node_id n = nid" using node_store.read_checked[OF n(1)] by simp
    consider (fin) "is_terminal (n_status n)" | (same) "\<not> is_terminal (n_status n)" "n_status n = ns"
      | (new) "\<not> is_terminal (n_status n)" "n_status n \<noteq> ns" by blast
    then show ?thesis
    proof cases
      case fin
      with ops r applied_nothing[OF a] have "d' = d" by simp
      with fin n Some show ?thesis
        by (auto simp: entry_tracks_def observe_status_def settled_alike_def)
    next
      case same
      with ops r applied_nothing[OF a] have "d' = d" by simp
      moreover have "\<not> is_terminal s" using n(2) same by (auto simp: settled_alike_def)
      ultimately show ?thesis
        using same n Some parse by (auto simp: entry_tracks_def observe_status_def settled_alike_def)
    next
      case new
      then obtain n' where "reduce_event_to_ops X rid d ev = Inr [OpNode n']" "n_status n' = ns" "n_node_id n' = nid"
        using r ops id by auto
      moreover have "\<not> is_terminal s" using n(2) new by (auto simp: settled_alike_def)
      ultimately show ?thesis
        using applied_node_edit[OF a] Some parse
        by (auto simp: entry_tracks_def observe_status_def settled_alike_def)
    qed
  qed
qed

lemma report_tracks:
  assumes a: "apply_event X rid ev d = (Inr (), d')"
    and e: "entry_tracks (acc_status acc nid) (read_node_opt rid d nid)"
    and k: "ev_kind ev = ''node.report''" "ev_node_id ev = Some nid" and m: "ev_data ev = Object m"
  shows "entry_tracks (acc_status (observe_report nid seq (payload_probe m) acc) nid) (read_node_opt rid d' nid)"
proof -
  from a obtain ops where r: "reduce_event_to_ops X rid d ev = Inr ops" by (auto simp: apply_event_Inr)
  then have f: "reduce_node_report X rid d ev = Inr ops"
    using k by (simp add: reduce_event_to_ops_def reducers_def split: if_split_asm)
  show ?thesis
  proof (cases "acc_status acc nid")
    case None
    with e apply_event_absent[OF a, of nid] k show ?thesis by (simp add: entry_tracks_def observe_report_def)
  next
    case (Some s)
    with e obtain n where n: "read_node_opt rid d nid = Inr (Some n)" "settled_alike s n"
      by (auto simp: entry_tracks_def)
    have id: "n_node_id n = nid" using node_store.read_checked[OF n(1)] by simp
    have permit: "permits_terminal_merge_recovery s (report_value (payload_probe m)) =
        permits_terminal_merge_recovery s (ev_data ev)"
      using m by (simp add: permits_terminal_merge_recovery_def probe_confirms_merge)
    show ?thesis
    proof (cases "is_terminal (n_status n)")
      case True
      then have s: "n_status n = s" using n(2) by (simp add: settled_alike_def)
      show ?thesis
      proof (cases "permits_terminal_merge_recovery s (ev_data ev)")
        case False
        with f k(2) n(1) s True have "ops = []"
          by (simp add: reduce_node_report_def with_node_def require_envelope_node_id_def ok_or_def)
        with r applied_nothing[OF a] have "d' = d" by simp
        with False n Some s True permit show ?thesis
          by (simp add: entry_tracks_def observe_report_def settled_alike_def Let_def)
      next
        case rec: True
        from f k(2) n(1) s True rec id have "ops = [] \<and> n_status n = Done \<or>
            (\<exists>n'. ops = [OpNode n'] \<and> n_status n' = Done \<and> n_node_id n' = nid)"
          by (auto simp: reduce_node_report_def with_node_def require_envelope_node_id_def ok_or_def
              split: if_split_asm)
        with r n(1) applied_nothing[OF a] applied_node_edit[OF a]
        have "\<exists>n'. read_node_opt rid d' nid = Inr (Some n') \<and> n_status n' = Done" by auto
        with rec Some s True permit show ?thesis
          by (auto simp: entry_tracks_def observe_report_def settled_alike_def Let_def)
      qed
    next
      case False
      with f k(2) n(1) id obtain ns n' where ns: "report_terminal_status ev = Inr ns"
        and "ops = [OpNode n']" "n_status n' = ns" "n_node_id n' = nid"
        by (auto simp: reduce_node_report_def with_node_def require_envelope_node_id_def ok_or_def
            rbind_Inr_iff)
      moreover have "\<not> is_terminal s" using n(2) False by (auto simp: settled_alike_def)
      ultimately show ?thesis
        using r applied_node_edit[OF a] Some probe_report_status[OF ns m]
        by (auto simp: entry_tracks_def observe_report_def settled_alike_def Let_def)
    qed
  qed
qed

text \<open>An event whose payload is an object, as every command writes it, and one that both folds read
  alike: a \<open>node.status\<close> gives the status as a plain string.\<close>

definition object_event :: "event \<Rightarrow> bool" where
  "object_event ev \<longleftrightarrow> (\<exists>m. ev_data ev = Object m)"

definition string_status :: "event \<Rightarrow> bool" where
  "string_status ev \<longleftrightarrow> (ev_kind ev = ''node.status'' \<longrightarrow> get_str (ev_data ev) ''status'' \<noteq> None)"

definition plain_event :: "event \<Rightarrow> bool" where
  "plain_event ev \<longleftrightarrow> object_event ev \<and> string_status ev"

lemma observe_tracks_at:
  assumes a: "apply_event X rid ev d = (Inr (), d')" and e: "entry_tracks (acc_status acc k) (read_node_opt rid d k)"
    and p: "ev_node_id ev = Some k \<longrightarrow> string_status ev" and m: "ev_data ev = Object m"
  shows "entry_tracks (acc_status (observe (probe_of ev m) acc) k) (read_node_opt rid d' k)"
proof (cases "ev_node_id ev = Some k")
  case False
  with e apply_event_other_node[OF a] observe_other[of ev k m acc] show ?thesis by simp
next
  case True
  consider "ev_kind ev = ''node.created''" | "ev_kind ev = ''node.status''" | "ev_kind ev = ''node.report''"
    | "ev_kind ev \<notin> {''node.created'', ''node.status'', ''node.report''}" by blast
  then show ?thesis
  proof cases
    case 1
    from created_tracks[OF a e this True] 1 True show ?thesis
      by (cases "acc_status acc k") (simp_all add: observe_def probe_of_def observe_created_def)
  next
    case 2
    with p True m obtain str where "map_of m ''status'' = Some (String str)"
      by (auto simp: string_status_def get_str_def elim!: as_str.elims split: Option.bind_split_asm)
    from status_tracks[OF a e 2 True m this] 2 True show ?thesis by (simp add: observe_def probe_of_def)
  next
    case 3
    from report_tracks[OF a e 3 True m] 3 True show ?thesis by (simp add: observe_def probe_of_def)
  next
    case 4
    from quiet_tracks[OF a e 4] 4 True show ?thesis by (simp add: observe_def probe_of_def)
  qed
qed

text \<open>Whatever form a status has, both folds know the same nodes.\<close>

definition entry_known :: "status option \<Rightarrow> node option res \<Rightarrow> bool" where
  "entry_known e r = (case e of None \<Rightarrow> r = Inr None | Some _ \<Rightarrow> (\<exists>n. r = Inr (Some n)))"

lemma tracks_known: "entry_tracks e r \<Longrightarrow> entry_known e r"
  by (auto simp: entry_tracks_def entry_known_def split: option.splits)

lemma observe_keeps: "acc_status acc k = Some s \<Longrightarrow> \<exists>s'. acc_status (observe p acc) k = Some s'"
  by (auto simp: observe_def observe_created_def observe_status_def observe_report_def Let_def
      split: option.split)

lemma observe_knows:
  assumes a: "apply_event X rid ev d = (Inr (), d')" and e: "entry_known (acc_status acc k) (read_node_opt rid d k)"
    and m: "ev_data ev = Object m"
  shows "entry_known (acc_status (observe (probe_of ev m) acc) k) (read_node_opt rid d' k)"
proof (cases "acc_status acc k")
  case (Some s)
  with e obtain n where "read_node_opt rid d k = Inr (Some n)" by (auto simp: entry_known_def)
  from apply_event_node[OF a this] observe_keeps[of acc k s, OF Some, of "probe_of ev m"] show ?thesis
    by (auto simp: entry_known_def)
next
  case None
  then have no: "read_node_opt rid d k = Inr None" using e by (simp add: entry_known_def)
  show ?thesis
  proof (cases "ev_kind ev = ''node.status''")
    case True
    with None no apply_event_absent[OF a no] show ?thesis
      by (auto simp: entry_known_def observe_def probe_of_def observe_status_def split: option.split)
  next
    case False
    then have "string_status ev" by (simp add: string_status_def)
    moreover have "entry_tracks (acc_status acc k) (read_node_opt rid d k)" using None no by (simp add: entry_tracks_def)
    ultimately show ?thesis using observe_tracks_at[OF a _ _ m] tracks_known by blast
  qed
qed

section \<open>A whole log, both ways\<close>

fun fold_events :: "ext \<Rightarrow> run_id \<Rightarrow> event list \<Rightarrow> unit io" where
  "fold_events X rid [] = ret ()"
| "fold_events X rid (ev # evs) = bind_io (apply_event X rid ev) (\<lambda>_. fold_events X rid evs)"

definition probe_event :: "event \<Rightarrow> cancel_probe" where
  "probe_event ev = probe_of ev (case ev_data ev of Object m \<Rightarrow> m | _ \<Rightarrow> [])"

definition observe_all :: "event list \<Rightarrow> node_status_acc \<Rightarrow> node_status_acc" where
  "observe_all evs acc = fold (\<lambda>ev. observe (probe_event ev)) evs acc"

lemma acc_ok_observe_all: "acc_ok acc \<Longrightarrow> acc_ok (observe_all evs acc)"
  by (induction evs arbitrary: acc) (simp_all add: observe_all_def acc_ok_observe)

text \<open>A relation between an entry and a node file that one event keeps is kept by the log.\<close>

lemma fold_keeps:
  assumes step: "\<And>ev m d d' acc. ok ev \<Longrightarrow> ev_data ev = Object m \<Longrightarrow> apply_event X rid ev d = (Inr (), d') \<Longrightarrow>
      R (acc_status acc k) (read_node_opt rid d k) \<Longrightarrow>
      R (acc_status (observe (probe_of ev m) acc) k) (read_node_opt rid d' k)"
    and "fold_events X rid evs d = (Inr (), d')" and "list_all object_event evs" and "list_all ok evs"
    and "R (acc_status acc k) (read_node_opt rid d k)"
  shows "R (acc_status (observe_all evs acc) k) (read_node_opt rid d' k)"
  using assms(2-)
proof (induction evs arbitrary: d acc)
  case Nil
  then show ?case by (simp add: observe_all_def ret_def)
next
  case (Cons ev evs)
  then obtain d1 where d1: "apply_event X rid ev d = (Inr (), d1)" "fold_events X rid evs d1 = (Inr (), d')"
    by (auto simp: io_simps)
  from Cons.prems(2) obtain m where m: "ev_data ev = Object m" by (auto simp: object_event_def)
  from step[OF _ m d1(1) Cons.prems(4)] Cons.prems(3)
  have "R (acc_status (observe (probe_event ev) acc) k) (read_node_opt rid d1 k)"
    by (simp add: probe_event_def m)
  from Cons.IH[OF d1(2) _ _ this] Cons.prems(2,3) show ?case by (simp add: observe_all_def)
qed

lemma fold_tracks:
  assumes "fold_events X rid evs d = (Inr (), d')" and "tracks rid d acc" and "list_all plain_event evs"
  shows "tracks rid d' (observe_all evs acc)"
  unfolding tracks_def
proof
  fix k
  have "list_all object_event evs" "list_all string_status evs"
    using assms(3) by (simp_all add: list_all_iff plain_event_def)
  moreover have "entry_tracks (acc_status acc k) (read_node_opt rid d k)" using assms(2) by (simp add: tracks_def)
  ultimately show "entry_tracks (acc_status (observe_all evs acc) k) (read_node_opt rid d' k)"
    using assms(1) observe_tracks_at by (intro fold_keeps[where R = entry_tracks and ok = string_status]) blast+
qed

definition in_bound :: "u64 option \<Rightarrow> event \<Rightarrow> bool" where
  "in_bound b ev = (case b of None \<Rightarrow> True | Some s \<Rightarrow> ev_seq ev < s)"

lemma facts_loop:
  assumes X: "ext_ok X" and "list_all loggable evs" and "list_all object_event evs"
  shows "probe_loop (\<lambda>line. Option.bind (json_from_slice X line) de_event_seq_probe)
      (\<lambda>seq raw acc. if (case b of None \<Rightarrow> True | Some bound \<Rightarrow> seq < bound)
         then rbind (ok_or CorruptEventLog (probe_of_line X raw)) (\<lambda>probe. Inr (observe probe acc))
         else Inr acc) (line_pairs X evs) acc =
    Inr (observe_all (filter (in_bound b) evs) acc)"
  using assms(2,3)
proof (induction evs arbitrary: acc)
  case Nil
  then show ?case by (simp add: observe_all_def)
next
  case (Cons ev evs)
  then obtain m where m: "ev_data ev = Object m" by (auto simp: object_event_def)
  have "probe_of_line X (event_text X ev) = Some (probe_event ev)"
    using probe_of_text[OF X _ m] Cons.prems by (simp add: probe_event_def m)
  with Cons X show ?case
    using log_content[OF X, of ev] seq_probe_of_text[OF X, of ev]
    by (simp add: Let_def ok_or_def observe_all_def in_bound_def)
qed

lemma facts_of_log:
  assumes "ext_ok X" and "log_is X d evs t" and "checked_events d = Inr ()" and "list_all object_event evs"
  shows "read_node_status_facts X d b = Inr (finish_facts (observe_all (filter (in_bound b) evs) acc_default))"
proof -
  have "list_all loggable evs" using assms(2) by (simp add: log_is_def)
  from facts_loop[OF assms(1) this assms(4)] assms(3) show ?thesis
    by (simp add: read_node_status_facts_def probe_log[OF assms(1,2)])
qed

lemma statuses_of_log:
  assumes "ext_ok X" and "log_is X d evs t" and "checked_events d = Inr ()" and "list_all object_event evs"
  shows "read_node_statuses X d = Inr (finish (observe_all evs acc_default))"
proof -
  have "filter (in_bound None) evs = evs" by (simp add: in_bound_def)
  with facts_of_log[OF assms, of None] show ?thesis
    by (simp add: read_node_statuses_def finish_def)
qed

text \<open>C15: the log-derived statuses refine the node files. Fold a log of accepted events, each with an
  object as its payload, from a run without nodes through the reducer, and scan the same log with the
  status reader. Both know the same nodes, each once. And for every node whose \<open>node.status\<close> events all
  give the status as a plain string, which is the form the commands of this program write, the node is
  settled in one of them if and only if it is settled in the other, with the same status. (A status in
  object form, which only a hand-written \<open>event create\<close> can bring in, is read by the reducer alone; see
  \<open>object_status_diverges\<close>.)\<close>

theorem log_statuses_agree_with_projection:
  assumes X: "ext_ok X" and l: "log_is X dl evs t" and c: "checked_events dl = Inr ()"
    and p: "list_all object_event evs"
    and f: "fold_events X rid evs d = (Inr (), d')" and "\<And>nid. read_node_opt rid d nid = Inr None"
  shows "\<exists>statuses. read_node_statuses X dl = Inr statuses \<and> distinct (map fst statuses) \<and>
    (\<forall>nid. case map_of statuses nid of
       None \<Rightarrow> read_node_opt rid d' nid = Inr None
     | Some s \<Rightarrow> \<exists>n. read_node_opt rid d' nid = Inr (Some n) \<and>
         (list_all (\<lambda>ev. ev_node_id ev = Some nid \<longrightarrow> string_status ev) evs \<longrightarrow>
            is_terminal s \<or> is_terminal (n_status n) \<longrightarrow> n_status n = s))"
proof -
  define acc where "acc = observe_all evs acc_default"
  have ok: "acc_ok acc" by (simp add: acc_def acc_ok_observe_all acc_ok_default)
  have e0: "entry_tracks (acc_status acc_default nid) (read_node_opt rid d nid)" for nid
    using assms(6) by (simp add: entry_tracks_def acc_default_def)
  have known: "entry_known (acc_status acc nid) (read_node_opt rid d' nid)" for nid
    unfolding acc_def using f p e0[of nid] observe_knows tracks_known
    by (intro fold_keeps[where R = entry_known and ok = "\<lambda>_. True"]) (auto simp: list_all_iff)
  have alike: "entry_tracks (acc_status acc nid) (read_node_opt rid d' nid)"
    if "list_all (\<lambda>ev. ev_node_id ev = Some nid \<longrightarrow> string_status ev) evs" for nid
    unfolding acc_def using f p e0[of nid] observe_tracks_at that
    by (intro fold_keeps[where R = entry_tracks and ok = "\<lambda>ev. ev_node_id ev = Some nid \<longrightarrow> string_status ev"]) blast+
  have "distinct (map fst (finish acc))"
    using ok by (simp add: finish_def finish_facts_def acc_ok_def comp_def)
  moreover have "case map_of (finish acc) nid of
       None \<Rightarrow> read_node_opt rid d' nid = Inr None
     | Some s \<Rightarrow> \<exists>n. read_node_opt rid d' nid = Inr (Some n) \<and>
         (list_all (\<lambda>ev. ev_node_id ev = Some nid \<longrightarrow> string_status ev) evs \<longrightarrow>
            is_terminal s \<or> is_terminal (n_status n) \<longrightarrow> n_status n = s)" for nid
    using known[of nid] alike[of nid] map_of_finish[OF ok]
    by (auto simp: entry_known_def entry_tracks_def settled_alike_def split: option.splits)
  ultimately show ?thesis using statuses_of_log[OF X l c p] unfolding acc_def[symmetric] by blast
qed

text \<open>Settled entries stay settled: one more event of the log leaves a settled log-derived status as
  it is, except that a confirmed merge report turns \<open>failed\<close> into \<open>done\<close>, and no entry is ever dropped.\<close>

theorem accumulator_terminal_absorbing:
  assumes "acc_status acc nid = Some s"
  shows "\<exists>s'. acc_status (observe p acc) nid = Some s' \<and>
    (is_terminal s \<longrightarrow> s' = s \<or> s = Failed \<and> s' = Done \<and> cp_kind p = ''node.report'' \<and>
       report_is_confirmed_merge (report_value (cp_data p)))"
  using assms
  by (auto simp: observe_def observe_created_def observe_status_def observe_report_def Let_def
      permits_terminal_merge_recovery_def split: option.split)

end
