(* ===== verification/Cancel_Facts.thy ===== *)
theory Cancel_Facts
  imports Status_Facts
begin

text \<open>
  Cancellation on a run that is up to date: what the ledger holds, that cancelling a run
  always completes and leaves every node and the run settled, and that a settled run is
  refused without touching anything.
\<close>

section \<open>The ledger of a log\<close>

definition is_cancel_key :: "run_id \<Rightarrow> string option \<Rightarrow> bool" where
  "is_cancel_key rid key \<longleftrightarrow> (case key of None \<Rightarrow> False | Some k \<Rightarrow> prefix (cancel_prefix rid) k)"

lemma node_cancel_key_prefix: "prefix (cancel_prefix rid) (node_cancel_key rid nid)"
  by (simp add: cancel_prefix_def node_cancel_key_def)

lemma run_cancel_key_prefix: "prefix (cancel_prefix rid) (run_status_cancel_key rid)"
  by (simp add: cancel_prefix_def run_status_cancel_key_def)

text \<open>The prior list holds, for each kind and key of the namespace, the first such event.\<close>

definition prior_of_log :: "run_id \<Rightarrow> event list \<Rightarrow> ((string \<times> string) \<times> event) list \<Rightarrow> bool" where
  "prior_of_log rid evs prior \<longleftrightarrow> (\<forall>k key. prefix (cancel_prefix rid) key \<longrightarrow>
     map_of prior (k, key) = prior_with_key k key evs)"

lemma prior_of_log_snoc_skip:
  assumes "prior_of_log rid evs prior" and "\<not> is_cancel_key rid (ev_idempotency_key ev) \<or>
    (\<exists>key. ev_idempotency_key ev = Some key \<and> map_of prior (ev_kind ev, key) \<noteq> None)"
  shows "prior_of_log rid (evs @ [ev]) prior"
  using assms unfolding prior_of_log_def prior_with_key_append
  by (auto simp: prior_with_key_def is_cancel_key_def split: option.split)

lemma prior_of_log_snoc_add:
  assumes "prior_of_log rid evs prior" and "ev_idempotency_key ev = Some key"
    and "map_of prior (ev_kind ev, key) = None" and "prefix (cancel_prefix rid) key"
  shows "prior_of_log rid (evs @ [ev]) (prior @ [((ev_kind ev, key), ev)])"
  using assms unfolding prior_of_log_def prior_with_key_append
  by (auto simp: prior_with_key_def map_add_def split: option.split)

lemma ledger_loop:
  assumes X: "ext_ok X" and "list_all loggable evs" and "list_all object_event evs"
    and "prior_of_log rid old prior"
  shows "\<exists>prior'. probe_loop (probe_of_line X) (ledger_visit X rid) (line_pairs X evs) (acc, prior) =
      Inr (observe_all evs acc, prior') \<and> prior_of_log rid (old @ evs) prior'"
  using assms(2-)
proof (induction evs arbitrary: acc prior old)
  case Nil
  then show ?case by (simp add: observe_all_def)
next
  case (Cons ev evs)
  have "object_event ev" using Cons.prems by simp
  then obtain m where m: "ev_data ev = Object m" unfolding object_event_def by blast
  have probe: "probe_of_line X (event_text X ev) = Some (probe_event ev)"
    using probe_of_text[OF X _ m] Cons.prems by (simp add: probe_event_def m)
  have fields: "cp_kind (probe_event ev) = ev_kind ev" "cp_idempotency_key (probe_event ev) = ev_idempotency_key ev"
    by (simp_all add: probe_event_def probe_of_def)
  obtain prior1 where v: "ledger_visit X rid (probe_event ev) (event_text X ev) (acc, prior) =
      Inr (observe (probe_event ev) acc, prior1)" and p1: "prior_of_log rid (old @ [ev]) prior1"
  proof (cases "filter_opt (prefix (cancel_prefix rid)) (ev_idempotency_key ev)")
    case None
    then have "\<not> is_cancel_key rid (ev_idempotency_key ev)"
      by (auto simp: filter_opt_None is_cancel_key_def split: option.splits)
    with None that[of prior] prior_of_log_snoc_skip[OF Cons.prems(3)] fields show ?thesis
      by (simp add: ledger_visit_def)
  next
    case (Some key)
    then have key: "ev_idempotency_key ev = Some key" "prefix (cancel_prefix rid) key"
      by (simp_all add: filter_opt_Some)
    show ?thesis
    proof (cases "map_of prior (ev_kind ev, key)")
      case None
      with Some key fields event_of_text[OF X, of ev] Cons.prems
        that[of "prior @ [((ev_kind ev, key), ev)]"] prior_of_log_snoc_add[OF Cons.prems(3) key(1)]
      show ?thesis by (simp add: ledger_visit_def ok_or_def)
    next
      case (Some e)
      with \<open>filter_opt _ _ = Some key\<close> key fields that[of prior]
        prior_of_log_snoc_skip[OF Cons.prems(3), of ev] show ?thesis by (simp add: ledger_visit_def)
    qed
  qed
  from Cons.IH[OF _ _ p1, of "observe (probe_event ev) acc"] Cons.prems obtain prior' where
    "probe_loop (probe_of_line X) (ledger_visit X rid) (line_pairs X evs)
      (observe (probe_event ev) acc, prior1) = Inr (observe_all evs (observe (probe_event ev) acc), prior')"
    "prior_of_log rid (old @ ev # evs) prior'" by auto
  with v probe show ?case
    using log_content[OF X, of ev] Cons.prems by (simp add: Let_def ok_or_def observe_all_def)
qed

lemma ledger_of_log:
  assumes X: "ext_ok X" and l: "log_is X d evs t" and c: "checked_events d = Inr ()"
    and p: "list_all object_event evs"
  obtains prior where "read_cancel_ledger X rid d =
      Inr \<lparr>cl_node_status = finish (observe_all evs acc_default), cl_prior_cancel = prior\<rparr>"
    "prior_of_log rid evs prior"
proof -
  have "list_all loggable evs" using l by (simp add: log_is_def)
  moreover have "prior_of_log rid [] []" by (simp add: prior_of_log_def prior_with_key_def)
  ultimately obtain prior where "probe_loop (probe_of_line X) (ledger_visit X rid) (line_pairs X evs)
      (acc_default, []) = Inr (observe_all evs acc_default, prior)" "prior_of_log rid evs prior"
    using ledger_loop[OF X _ p, of rid "[]" "[]" acc_default] by auto
  with that c show ?thesis by (simp add: read_cancel_ledger_def probe_log[OF X l])
qed

section \<open>Runs with room for more events\<close>

definition room :: "ext \<Rightarrow> run_id \<Rightarrow> nat \<Rightarrow> run_dir \<Rightarrow> bool" where
  "room X rid k d \<longleftrightarrow> (\<exists>evs. synced X rid d evs \<and> unat (last_seq evs) + k < 2 ^ 64)"

lemma room_Suc: "room X rid (Suc k) d \<Longrightarrow> room X rid k d"
  by (auto simp: room_def)

lemma recorded_node:
  assumes r: "reduce_event_to_ops X rid d ev = Inr ops" and m: "read_manifest_opt rid d = Inr (Some m)"
  shows "read_node_opt rid (recorded_state X rid ev ops d) nid = read_node_opt rid (snd (commit_ops rid ops d)) nid"
proof -
  obtain mf where "read_manifest_opt rid (folded_state X rid ev ops d) = Inr (Some mf)"
    by (rule folded_manifest[OF r m]) auto
  then obtain d' where "advance_applied_seq rid (ev_seq ev) (folded_state X rid ev ops d) = (Inr (), d')"
    "read_node_opt rid d' nid = read_node_opt rid (folded_state X rid ev ops d) nid"
    by (rule advance_some[where seq = "ev_seq ev"]) blast
  then show ?thesis using folded_ok(3)[OF r] by (simp add: recorded_state_def log_reads)
qed

lemma recorded_status:
  assumes r: "reduce_event_to_ops X rid d ev = Inr ops" and m: "read_manifest_opt rid d = Inr (Some m)"
    and c: "commit_ops rid ops d = (Inr (), d1)" "read_manifest_opt rid d1 = Inr (Some m1)"
  shows "\<exists>m'. read_manifest_opt rid (recorded_state X rid ev ops d) = Inr (Some m') \<and> m_status m' = m_status m1"
proof -
  have "read_manifest_opt rid (folded_state X rid ev ops d) = Inr (Some m1)"
    using folded_ok(3)[OF r] c by (simp add: log_reads)
  then obtain d' where "advance_applied_seq rid (ev_seq ev) (folded_state X rid ev ops d) = (Inr (), d')"
    "read_manifest_opt rid d' = Inr (Some (advanced (folded_state X rid ev ops d) (ev_seq ev) m1))"
    by (rule advance_some[where seq = "ev_seq ev"]) blast
  then show ?thesis by (simp add: recorded_state_def advanced_def)
qed

lemma below_top: "(u :: nat) + Suc k < N \<Longrightarrow> u \<noteq> N - 1"
  by simp

lemma word_add_one_room: "unat (w :: u64) + Suc k < 2 ^ 64 \<Longrightarrow> w \<noteq> - 1 \<and> unat (w + 1) + k < 2 ^ 64"
proof -
  assume a: "unat w + Suc k < 2 ^ 64"
  have "LENGTH(64) = 64" by simp
  then have "unat (- 1 :: u64) = 2 ^ 64 - 1" by (simp only: unsigned_minus_1_eq_mask mask_eq_exp_minus_1)
  with below_top[OF a] have "w \<noteq> - 1" by metis
  with a word_Suc_unat[OF this] show ?thesis by (metis add_Suc_shift)
qed

text \<open>Appending an event that the reducer accepts under every sequence number.\<close>

lemma append_in_room:
  assumes X: "ext_ok X" and rm: "room X rid (Suc k) d"
    and l: "\<And>s. loggable (new_event clock rid kind nid key data s)"
    and r: "\<And>s. \<exists>ops. reduce_event_to_ops X rid d (new_event clock rid kind nid key data s) = Inr ops"
  obtains s ops ev d' where "ev = new_event clock rid kind nid key data s"
    "append_and_apply_unlocked X clock rid kind nid key data d = (Inr s, d')"
    "reduce_event_to_ops X rid d ev = Inr ops" "d' = recorded_state X rid ev ops d" "room X rid k d'"
proof -
  from rm obtain evs where sy: "synced X rid d evs" and u: "unat (last_seq evs) + Suc k < 2 ^ 64"
    by (auto simp: room_def)
  define ev where "ev = new_event clock rid kind nid key data (last_seq evs + 1)"
  obtain ops where ops: "reduce_event_to_ops X rid d ev = Inr ops" using r ev_def by blast
  have seq: "ev_seq ev = last_seq evs + 1" by (simp add: ev_def new_event_def)
  note w = word_add_one_room[OF u]
  have "append_and_apply_unlocked X clock rid kind nid key data d =
      (Inr (ev_seq ev), recorded_state X rid ev ops d)"
    using append_synced[OF X sy ev_def] ops by (simp add: append_and_apply_unlocked_def bind_io_def ret_def)
  moreover have "synced X rid (recorded_state X rid ev ops d) (evs @ [ev])"
    using recorded_synced[OF sy _ seq _ ops] l w by (simp add: ev_def)
  moreover have "last_seq (evs @ [ev]) = last_seq evs + 1" using seq by (simp add: last_seq_def)
  ultimately have "append_and_apply_unlocked X clock rid kind nid key data d =
      (Inr (ev_seq ev), recorded_state X rid ev ops d)" "room X rid k (recorded_state X rid ev ops d)"
    using w unfolding room_def by metis+
  then show ?thesis using that[of ev "ev_seq ev"] ops ev_def seq by metis
qed

lemma apply_in_room:
  assumes a: "apply_event X rid ev d = (Inr (), d')" and rm: "room X rid k d"
  shows "room X rid k d'"
proof -
  from rm obtain evs where sy: "synced X rid d evs" and u: "unat (last_seq evs) + k < 2 ^ 64"
    by (auto simp: room_def)
  then obtain m where m: "read_manifest_opt rid d = Inr (Some m)" "m_applied_seq m = last_seq evs"
    by (auto simp: synced_def)
  from a obtain ops where r: "reduce_event_to_ops X rid d ev = Inr ops"
    and c: "commit_ops rid ops d = (Inr (), d')" by (auto simp: apply_event_Inr)
  obtain m' where "read_manifest_opt rid d' = Inr (Some m')" "m_applied_seq m' = last_seq evs"
    by (rule commit_manifest[OF r c m(1)]) (use m(2) in auto)
  moreover have "same_log d d'" using reducer.commit_plan[OF r] c by auto
  ultimately have "synced X rid d' evs"
    using sy by (auto simp: synced_def same_log_def log_is_def checked_events_def guard_root_def)
  with u show ?thesis by (auto simp: room_def)
qed

section \<open>Settling one node\<close>

lemma cancel_report_fields:
  "get (cancel_report reason summary) ''cancelled'' = Some (Bool True)"
  "get (cancel_report reason summary) ''success'' = Some (Bool False)"
  "wf_json (cancel_report reason summary)" "exact_json (MAX_DEPTH - 1) (cancel_report reason summary)"
  by (simp_all add: cancel_report_def MAX_DEPTH_def)

definition cancel_plan :: "node \<Rightarrow> event \<Rightarrow> projection_op list" where
  "cancel_plan n ev = (if is_terminal (n_status n) then [] else
     [OpNode (n\<lparr>n_last_report := Some (ev_data ev), n_status := Cancelled, n_awaiting_input := None,
        n_pending_merge := None, n_updated_at := ev_ts ev\<rparr>)])"

lemma reduce_cancel_report:
  assumes "ev_kind ev = ''node.report''" and "ev_run_id ev = rid" and "ev_node_id ev = Some nid"
    and "ev_data ev = cancel_report reason summary" and n: "read_node_opt rid d nid = Inr (Some n)"
  shows "reduce_event_to_ops X rid d ev = Inr (cancel_plan n ev)"
proof -
  have "report_terminal_status ev = Inr Cancelled"
    using assms(4) cancel_report_fields by (simp add: report_terminal_status_def optional_bool_def)
  moreover have "\<not> permits_terminal_merge_recovery (n_status n) (ev_data ev)"
    using assms(4) cancel_report_fields
    by (simp add: permits_terminal_merge_recovery_def report_is_confirmed_merge_def Let_def)
  ultimately show ?thesis
    using assms by (simp add: reduce_event_to_ops_def reducers_def reduce_node_report_def
        require_envelope_node_id_def ok_or_def with_node_def cancel_plan_def)
qed

text \<open>Committing it settles the node, keeps the other nodes and the run's status.\<close>

lemma commit_cancel_report:
  assumes r: "reduce_event_to_ops X rid d ev = Inr (cancel_plan n ev)" (is "_ = Inr ?ops")
    and n: "read_node_opt rid d nid = Inr (Some n)"
  obtains d' n' where "commit_ops rid ?ops d = (Inr (), d')" "read_node_opt rid d' nid = Inr (Some n')"
    "is_terminal (n_status n')" "read_manifest_opt rid d' = read_manifest_opt rid d"
proof -
  have id: "n_node_id n = nid" using node_store.read_checked[OF n] by simp
  obtain d' where d': "commit_ops rid ?ops d = (Inr (), d')"
    "list_all (\<lambda>oper. reads_back rid oper d') ?ops"
    "\<And>p. p \<notin> set (map op_path ?ops) \<Longrightarrow> same_at rid p d d'"
    using reducer.commit_plan[OF r] by blast
  have "read_manifest_opt rid d' = read_manifest_opt rid d"
    using d'(3)[of ManifestPath] by (auto simp: op_path_def same_at_def cancel_plan_def)
  moreover have "\<exists>n'. read_node_opt rid d' nid = Inr (Some n') \<and> is_terminal (n_status n')"
  proof (cases "is_terminal (n_status n)")
    case True
    with d'(3)[of "NodePath nid"] n show ?thesis by (simp add: same_at_def cancel_plan_def)
  next
    case False
    with d'(2) id show ?thesis by (simp add: reads_back_def is_terminal_def cancel_plan_def)
  qed
  ultimately show ?thesis using that d'(1) by blast
qed

text \<open>Only cancellation itself writes under its keys.\<close>

definition own_keys :: "run_id \<Rightarrow> event list \<Rightarrow> bool" where
  "own_keys rid evs \<longleftrightarrow> (\<forall>ev\<in>set evs.
     (\<forall>nid. ev_kind ev = ''node.report'' \<and> ev_idempotency_key ev = Some (node_cancel_key rid nid) \<longrightarrow>
        ev_run_id ev = rid \<and> ev_node_id ev = Some nid \<and>
        (\<exists>reason summary. ev_data ev = cancel_report reason summary)) \<and>
     (ev_kind ev = ''run.status'' \<and> ev_idempotency_key ev = Some (run_status_cancel_key rid) \<longrightarrow>
        ev_run_id ev = rid \<and> (\<exists>s note. is_terminal s \<and> ev_data ev = status_data s note)))"

lemma prior_with_key_SomeD:
  "prior_with_key k key evs = Some ev \<Longrightarrow>
     ev \<in> set evs \<and> ev_kind ev = k \<and> ev_idempotency_key ev = Some key"
  by (auto simp: prior_with_key_def find_Some_iff)

lemma own_node_prior:
  assumes "own_keys rid evs" and "prior_of_log rid evs prior"
    and "map_of prior (''node.report'', node_cancel_key rid nid) = Some ev"
  obtains reason summary where "ev_kind ev = ''node.report''" "ev_run_id ev = rid" "ev_node_id ev = Some nid"
    "ev_data ev = cancel_report reason summary"
proof -
  have "prior_with_key ''node.report'' (node_cancel_key rid nid) evs = Some ev"
    using assms(2,3) node_cancel_key_prefix by (simp add: prior_of_log_def)
  from prior_with_key_SomeD[OF this] assms(1) that show ?thesis unfolding own_keys_def by blast
qed

lemma room_manifest: "room X rid k d \<Longrightarrow> \<exists>m. read_manifest_opt rid d = Inr (Some m)"
  by (auto simp: room_def synced_def)

definition valid_target :: "run_id \<Rightarrow> node_id \<Rightarrow> bool" where
  "valid_target rid nid \<longleftrightarrow> RunId_parse_str (run_id_str rid) = Inr rid \<and>
     NodeId_parse_str (node_id_str nid) = Inr nid"

lemma settle_node_settles:
  assumes X: "ext_ok X" and rm: "room X rid (Suc k) d" and own: "own_keys rid evs"
    and prior: "prior_of_log rid evs prior" and v: "valid_target rid nid"
    and n: "read_node_opt rid d nid = Inr (Some n)"
    and log: "is_terminal log_status \<Longrightarrow> is_terminal (n_status n)"
    and m: "read_manifest_opt rid d = Inr (Some m)"
  obtains hit d' n' m' where
    "settle_node X clock rid reason summary prior nid log_status d = (Inr hit, d')" "room X rid k d'"
    "read_node_opt rid d' nid = Inr (Some n')" "is_terminal (n_status n')"
    "read_manifest_opt rid d' = Inr (Some m')" "m_status m' = m_status m"
proof (cases "map_of prior (''node.report'', node_cancel_key rid nid)")
  case (Some ev)
  from own_node_prior[OF own prior Some] obtain r' s' where ev: "ev_kind ev = ''node.report''"
    "ev_run_id ev = rid" "ev_node_id ev = Some nid" "ev_data ev = cancel_report r' s'" by blast
  show ?thesis
  proof (cases "is_terminal (n_status n)")
    case True
    with Some n m rm that[of False d n m] show ?thesis
      by (simp add: settle_node_def bind_io_def reading_def ret_def room_Suc)
  next
    case False
    note r = reduce_cancel_report[OF ev n, of X]
    obtain d' n' where d': "commit_ops rid (cancel_plan n ev) d = (Inr (), d')"
      "read_node_opt rid d' nid = Inr (Some n')" "is_terminal (n_status n')"
      "read_manifest_opt rid d' = read_manifest_opt rid d" by (rule commit_cancel_report[OF r n])
    with r have a: "apply_event X rid ev d = (Inr (), d')" by (simp add: apply_event_as_commit)
    with Some False n d' m that[of True d' n' m] apply_in_room[OF a room_Suc[OF rm]] show ?thesis
      by (simp add: settle_node_def bind_io_def reading_def ret_def)
  qed
next
  case None
  show ?thesis
  proof (cases "is_terminal log_status")
    case True
    with None n m rm log that[of False d n m] show ?thesis by (simp add: settle_node_def ret_def room_Suc)
  next
    case False
    let ?key = "Some (node_cancel_key rid nid)" and ?data = "cancel_report reason summary"
    let ?ev = "new_event clock rid ''node.report'' (Some nid) ?key ?data"
    have l: "loggable (?ev s)" for s
      using v cancel_report_fields by (simp add: loggable_def new_event_def valid_target_def)
    have r: "reduce_event_to_ops X rid d (?ev s) = Inr (cancel_plan n (?ev s))" for s
      by (rule reduce_cancel_report[OF _ _ _ _ n]) (simp_all add: new_event_def)
    obtain s ops ev d' where a: "ev = ?ev s"
      "append_and_apply_unlocked X clock rid ''node.report'' (Some nid) ?key ?data d = (Inr s, d')"
      "reduce_event_to_ops X rid d ev = Inr ops" "d' = recorded_state X rid ev ops d" "room X rid k d'"
      by (rule append_in_room[OF X rm l]) (rule exI, rule r, blast)
    have ops: "ops = cancel_plan n ev" using r[of s] a(1,3) by simp
    obtain d1 n' where d1: "commit_ops rid ops d = (Inr (), d1)" "read_node_opt rid d1 nid = Inr (Some n')"
      "is_terminal (n_status n')" "read_manifest_opt rid d1 = read_manifest_opt rid d"
      unfolding ops by (rule commit_cancel_report[OF a(3)[unfolded ops] n])
    have "read_node_opt rid d' nid = Inr (Some n')"
      using recorded_node[OF a(3) m] a(4) d1 by simp
    moreover obtain m' where "read_manifest_opt rid d' = Inr (Some m')" "m_status m' = m_status m"
      using recorded_status[OF a(3) m d1(1)] d1(4) m a(4) by auto
    ultimately show ?thesis
      using None False a(2,5) d1(3) that[of True d' n' m'] by (simp add: settle_node_def bind_io_def ret_def)
  qed
qed

section \<open>The loop over the nodes\<close>

lemma terminal_kept:
  assumes "steps_io X rid op" and "op d = (r, d')" and "read_node_opt rid d nid = Inr (Some n)"
  shows "\<exists>n'. read_node_opt rid d' nid = Inr (Some n') \<and> (is_terminal (n_status n) \<longrightarrow> is_terminal (n_status n'))"
proof -
  have "run_steps X rid d d'" using assms(1,2) unfolding steps_io_def by (metis snd_conv)
  from node_history.history[OF this, of nid n] assms(3) obtain n' where
    "read_node_opt rid d' nid = Inr (Some n')" "node_later n n'" by auto
  moreover from this(2) have "is_terminal (n_status n) \<longrightarrow> is_terminal (n_status n')"
    by (auto simp: node_later_def is_terminal_def)
  ultimately show ?thesis by blast
qed

definition cancellable :: "run_id \<Rightarrow> run_dir \<Rightarrow> node_id \<times> status \<Rightarrow> bool" where
  "cancellable rid d p \<longleftrightarrow> valid_target rid (fst p) \<and>
     (\<exists>n. read_node_opt rid d (fst p) = Inr (Some n) \<and> (is_terminal (snd p) \<longrightarrow> is_terminal (n_status n)))"

definition settled_node :: "run_id \<Rightarrow> run_dir \<Rightarrow> node_id \<Rightarrow> bool" where
  "settled_node rid d nid \<longleftrightarrow> (\<exists>n. read_node_opt rid d nid = Inr (Some n) \<and> is_terminal (n_status n))"

lemma cancellable_kept:
  "steps_io X rid op \<Longrightarrow> op d = (r, d') \<Longrightarrow> cancellable rid d p \<Longrightarrow> cancellable rid d' p"
  unfolding cancellable_def by (blast dest: terminal_kept)

lemma settled_kept:
  "steps_io X rid op \<Longrightarrow> op d = (r, d') \<Longrightarrow> settled_node rid d nid \<Longrightarrow> settled_node rid d' nid"
  unfolding settled_node_def by (blast dest: terminal_kept)

lemma cancel_nodes_settle:
  assumes X: "ext_ok X" and own: "own_keys rid evs" and prior: "prior_of_log rid evs prior"
  shows "room X rid (length ns + k) d \<Longrightarrow> list_all (cancellable rid d) ns \<Longrightarrow>
    read_manifest_opt rid d = Inr (Some m) \<Longrightarrow>
    \<exists>c' t' d' m'. cancel_nodes X clock rid reason prior ns c t d = (Inr (c', t'), d') \<and> room X rid k d' \<and>
      list_all (settled_node rid d') (map fst ns) \<and> set c' \<union> set t' = set c \<union> set t \<union> fst ` set ns \<and>
      read_manifest_opt rid d' = Inr (Some m') \<and> m_status m' = m_status m"
proof (induction ns arbitrary: d c t m)
  case Nil
  then show ?case by (simp add: ret_def)
next
  case (Cons p ns)
  obtain nid st where p: "p = (nid, st)" by (cases p)
  from Cons.prems(2) p obtain n where n: "valid_target rid nid" "read_node_opt rid d nid = Inr (Some n)"
    "is_terminal st \<Longrightarrow> is_terminal (n_status n)" by (auto simp: cancellable_def)
  have "room X rid (Suc (length ns + k)) d" using Cons.prems(1) by simp
  from settle_node_settles[OF X this own prior n Cons.prems(3)] obtain hit d1 n1 m1 where
    s: "settle_node X clock rid reason RUN_CANCEL_SUMMARY prior nid st d = (Inr hit, d1)"
    and d1: "room X rid (length ns + k) d1" "read_node_opt rid d1 nid = Inr (Some n1)"
      "is_terminal (n_status n1)" "read_manifest_opt rid d1 = Inr (Some m1)" "m_status m1 = m_status m"
    by blast
  have "list_all (cancellable rid d1) ns"
    using cancellable_kept[OF steps_settle_node s] Cons.prems(2) by (auto simp: list_all_iff)
  from Cons.IH[OF d1(1) this d1(4)] obtain c' t' d' m' where
    rest: "cancel_nodes X clock rid reason prior ns (if hit then c @ [nid] else c) (if hit then t else t @ [nid]) d1 =
      (Inr (c', t'), d')"
    and d': "room X rid k d'" "list_all (settled_node rid d') (map fst ns)"
      "set c' \<union> set t' = set (if hit then c @ [nid] else c) \<union> set (if hit then t else t @ [nid]) \<union> fst ` set ns"
      "read_manifest_opt rid d' = Inr (Some m')" "m_status m' = m_status m1" by blast
  have "settled_node rid d1 nid" using d1 by (auto simp: settled_node_def)
  then have "settled_node rid d' nid" using settled_kept[OF steps_cancel_nodes rest] by blast
  moreover have "cancel_nodes X clock rid reason prior (p # ns) c t d = (Inr (c', t'), d')"
    using s rest p by (cases hit) (simp_all add: bind_io_def)
  moreover have "set c' \<union> set t' = set c \<union> set t \<union> fst ` set (p # ns)"
    using d'(3) p by (cases hit) auto
  ultimately show ?case using d' d1(5) p by auto
qed

section \<open>Settling the run\<close>

lemma status_data_fields:
  "require_status ev = Inr s" if "ev_data ev = status_data s note"
  using that by (cases "note")
    (simp_all add: require_status_def data_status_def get_or_null_def status_data_def de_status_def
      enum_variant_def ok_or_def)

lemma status_data_loggable: "wf_json (status_data s note) \<and> exact_json (MAX_DEPTH - 1) (status_data s note)"
  by (cases "note") (simp_all add: status_data_def MAX_DEPTH_def)

definition run_status_plan :: "ext \<Rightarrow> run_dir \<Rightarrow> event \<Rightarrow> manifest \<Rightarrow> status \<Rightarrow> projection_op list" where
  "run_status_plan X d ev m s =
     (if is_terminal (m_status m) \<and> \<not> recovery_allowed X d ev (m_status m) s \<or> m_status m = s then []
      else [OpManifest (m\<lparr>m_status := s, m_updated_at := ev_ts ev\<rparr>)])"

lemma reduce_run_status_data:
  assumes "ev_kind ev = ''run.status''" and "ev_run_id ev = rid" and "ev_data ev = status_data s note"
    and "read_manifest_opt rid d = Inr (Some m)"
  shows "reduce_event_to_ops X rid d ev = Inr (run_status_plan X d ev m s)"
  using assms status_data_fields[OF assms(3)]
  by (simp add: reduce_event_to_ops_def reducers_def reduce_run_status_def run_status_plan_def)

lemma commit_run_status:
  assumes r: "reduce_event_to_ops X rid d ev = Inr (run_status_plan X d ev m s)"
    and m: "read_manifest_opt rid d = Inr (Some m)" and s: "is_terminal s"
  obtains d' m' where "commit_ops rid (run_status_plan X d ev m s) d = (Inr (), d')"
    "read_manifest_opt rid d' = Inr (Some m')" "is_terminal (m_status m')"
    "\<not> is_terminal (m_status m) \<Longrightarrow> m_status m' = s"
proof -
  obtain d' where d': "commit_ops rid (run_status_plan X d ev m s) d = (Inr (), d')"
    "list_all (\<lambda>oper. reads_back rid oper d') (run_status_plan X d ev m s)"
    using reducer.commit_plan[OF r] by blast
  show ?thesis
  proof (cases "run_status_plan X d ev m s")
    case Nil
    then have "is_terminal (m_status m) \<or> m_status m = s"
      by (auto simp: run_status_plan_def split: if_split_asm)
    moreover have "d' = d" using d'(1) Nil by (simp add: ret_def)
    ultimately show ?thesis using that[of d' m] d'(1) m s by auto
  next
    case (Cons oper ops)
    then have "run_status_plan X d ev m s = [OpManifest (m\<lparr>m_status := s, m_updated_at := ev_ts ev\<rparr>)]"
      by (simp add: run_status_plan_def split: if_split_asm)
    with that d' s show ?thesis by (auto simp: reads_back_def)
  qed
qed

lemma settle_run_settles:
  assumes X: "ext_ok X" and rm: "room X rid (Suc k) d" and own: "own_keys rid evs"
    and prior: "prior_of_log rid evs prior" and v: "RunId_parse_str (run_id_str rid) = Inr rid"
    and m: "read_manifest_opt rid d = Inr (Some m)" and s: "is_terminal s"
  obtains d' m' where "settle_run X clock rid (status_data s remark) prior d = (Inr (), d')" "room X rid k d'"
    "read_manifest_opt rid d' = Inr (Some m')" "is_terminal (m_status m')"
    "\<not> is_terminal (m_status m) \<and> prior_with_key ''run.status'' (run_status_cancel_key rid) evs = None \<longrightarrow>
       m_status m' = s"
proof -
  have pr: "map_of prior (''run.status'', run_status_cancel_key rid) =
      prior_with_key ''run.status'' (run_status_cancel_key rid) evs"
    using prior run_cancel_key_prefix by (simp add: prior_of_log_def)
  show ?thesis
  proof (cases "prior_with_key ''run.status'' (run_status_cancel_key rid) evs")
    case (Some ev)
    from prior_with_key_SomeD[OF Some] own obtain s' note' where ev: "ev_kind ev = ''run.status''"
      "ev_run_id ev = rid" "ev_data ev = status_data s' note'" and s': "is_terminal s'"
      unfolding own_keys_def by blast
    note r = reduce_run_status_data[OF ev m, of X]
    obtain d' m' where d': "commit_ops rid (run_status_plan X d ev m s') d = (Inr (), d')"
      "read_manifest_opt rid d' = Inr (Some m')" "is_terminal (m_status m')"
      by (rule commit_run_status[OF r m s'])
    then have a: "apply_event X rid ev d = (Inr (), d')" using r by (simp add: apply_event_as_commit)
    with Some pr d' that[of d' m'] apply_in_room[OF a room_Suc[OF rm]] show ?thesis
      by (simp add: settle_run_def)
  next
    case None
    let ?key = "Some (run_status_cancel_key rid)"
    let ?ev = "new_event clock rid ''run.status'' None ?key (status_data s remark)"
    have l: "loggable (?ev q)" for q
      using v status_data_loggable by (simp add: loggable_def new_event_def)
    have r: "reduce_event_to_ops X rid d (?ev q) = Inr (run_status_plan X d (?ev q) m s)" for q
      by (rule reduce_run_status_data[of "?ev q" rid s remark, OF _ _ _ m]) (simp_all add: new_event_def)
    obtain q ops ev d' where a: "ev = ?ev q"
      "append_and_apply_unlocked X clock rid ''run.status'' None ?key (status_data s remark) d = (Inr q, d')"
      "reduce_event_to_ops X rid d ev = Inr ops" "d' = recorded_state X rid ev ops d" "room X rid k d'"
      by (rule append_in_room[OF X rm l]) (rule exI, rule r, blast)
    have ops: "ops = run_status_plan X d ev m s" using r[of q] a(1,3) by simp
    obtain d1 m1 where d1: "commit_ops rid ops d = (Inr (), d1)" "read_manifest_opt rid d1 = Inr (Some m1)"
      "is_terminal (m_status m1)" "\<not> is_terminal (m_status m) \<Longrightarrow> m_status m1 = s"
      unfolding ops by (rule commit_run_status[OF a(3)[unfolded ops] m s]) blast
    obtain m' where "read_manifest_opt rid d' = Inr (Some m')" "m_status m' = m_status m1"
      using recorded_status[OF a(3) m d1(1,2)] a(4) by auto
    with None pr a(2,5) d1(3,4) that[of d' m'] show ?thesis
      by (simp add: settle_run_def bind_io_def ret_def)
  qed
qed

section \<open>Cancelling a run\<close>

lemma read_manifest_of_opt: "read_manifest_opt rid d = Inr (Some m) \<Longrightarrow> read_manifest rid d = Inr m"
  by (auto simp: read_manifest_opt_def read_manifest_def read_json_opt_def ok_or_def res_simps
      split: option.splits entry.splits)

lemma observed_ids:
  "acc_status (observe_all evs acc) nid \<noteq> None \<Longrightarrow>
     acc_status acc nid \<noteq> None \<or> (\<exists>ev\<in>set evs. ev_node_id ev = Some nid)"
proof (induction evs arbitrary: acc)
  case (Cons ev evs)
  have "acc_status (observe_all evs (observe (probe_event ev) acc)) nid \<noteq> None"
    using Cons.prems by (simp add: observe_all_def)
  from Cons.IH[OF this] show ?case
    using observe_other[of ev nid] by (cases "ev_node_id ev = Some nid") (auto simp: probe_event_def)
qed (simp add: observe_all_def)

lemma entry_tracks_dom: "entry_tracks e r \<Longrightarrow> e \<noteq> None \<longleftrightarrow> (\<exists>n. r = Inr (Some n))"
  by (cases e) (auto simp: entry_tracks_def)

lemma ledger_cancellable:
  assumes l: "list_all loggable evs" and t: "tracks rid d (observe_all evs acc_default)"
    and v: "RunId_parse_str (run_id_str rid) = Inr rid"
  shows "list_all (cancellable rid d) (finish (observe_all evs acc_default))"
proof -
  let ?acc = "observe_all evs acc_default"
  have ok: "acc_ok ?acc" by (simp add: acc_ok_observe_all acc_ok_default)
  have dis: "distinct (map fst (finish ?acc))"
    using ok by (simp add: finish_def finish_facts_def acc_ok_def comp_def)
  have "cancellable rid d (nid, st)" if "(nid, st) \<in> set (finish ?acc)" for nid st
  proof -
    have s: "acc_status ?acc nid = Some st"
      using that map_of_is_SomeI[OF dis that] map_of_finish[OF ok] by simp
    have "entry_tracks (acc_status ?acc nid) (read_node_opt rid d nid)" using t by (simp add: tracks_def)
    with s obtain n where "read_node_opt rid d nid = Inr (Some n)" "settled_alike st n"
      by (auto simp: entry_tracks_def)
    moreover obtain ev where "ev \<in> set evs" "ev_node_id ev = Some nid"
      using observed_ids[of evs acc_default nid] s by (auto simp: acc_default_def)
    then have "loggable ev" "ev_node_id ev = Some nid" using l by (simp_all add: list_all_iff)
    then have "NodeId_parse_str (node_id_str nid) = Inr nid" by (simp add: loggable_def)
    moreover have "settled_alike st n \<Longrightarrow> is_terminal st \<longrightarrow> is_terminal (n_status n)" for n
      unfolding settled_alike_def by metis
    ultimately show ?thesis using v unfolding cancellable_def valid_target_def by auto
  qed
  then show ?thesis by (auto simp: list_all_iff)
qed

text \<open>C16: cancelling a run, on both kinds of run. A run that finished or failed is refused with its
  status and nothing changes. An open or already cancelled run is cancelled completely, under four
  conditions: it is up to date (\<open>synced\<close>) with payloads that are objects; its node files agree with the
  log scan (\<open>tracks\<close>, which C15 gives for statuses in string form); nothing but cancellation itself
  wrote under the cancel keys of this run (\<open>own_keys\<close>: \<open>node report --idempotency-key\<close> does not reserve
  them); and the log has sequence numbers left. Then the cancel succeeds, reports every node of the run
  as cancelled or already settled and no other, leaves each of them settled and leaves the run settled,
  as \<open>cancelled\<close> unless an earlier settlement of the run under its cancel key is already in the log.\<close>

theorem cancel_run_completes:
  assumes X: "ext_ok X" and sy: "synced X rid d evs" and p: "list_all object_event evs"
    and t: "tracks rid d (observe_all evs acc_default)" and own: "own_keys rid evs"
    and v: "RunId_parse_str (run_id_str rid) = Inr rid"
    and m: "read_manifest_opt rid d = Inr (Some m)"
    and u: "unat (last_seq evs) + (length (finish (observe_all evs acc_default)) + 1) < 2 ^ 64"
  shows "if m_status m \<in> {Done, Failed}
    then cancel_run_unlocked X clock rid note d = (Inl (RunAlreadyTerminal (m_status m)), d)
    else \<exists>out d' m'. cancel_run_unlocked X clock rid note d = (Inr out, d') \<and>
      set (co_nodes_cancelled out) \<union> set (co_nodes_already_terminal out) =
        {nid. \<exists>n. read_node_opt rid d nid = Inr (Some n)} \<and>
      (\<forall>nid n. read_node_opt rid d nid = Inr (Some n) \<longrightarrow>
         (\<exists>n'. read_node_opt rid d' nid = Inr (Some n') \<and> is_terminal (n_status n'))) \<and>
      read_manifest_opt rid d' = Inr (Some m') \<and> is_terminal (m_status m') \<and>
      (prior_with_key ''run.status'' (run_status_cancel_key rid) evs = None \<longrightarrow> m_status m' = Cancelled)"
proof (cases "m_status m \<in> {Done, Failed}")
  case True
  then show ?thesis using read_manifest_of_opt[OF m]
    by (auto simp: cancel_run_unlocked_def bind_io_def reading_def is_terminal_def)
next
  case open_run: False
  then have m: "read_manifest_opt rid d = Inr (Some m)" "m_status m = Cancelled \<or> \<not> is_terminal (m_status m)"
    using m by (auto simp: is_terminal_def)
  let ?acc = "observe_all evs acc_default"
  from sy have l: "log_is X d evs []" "checked_events d = Inr ()" by (auto simp: synced_def)
  have ok: "acc_ok ?acc" by (simp add: acc_ok_observe_all acc_ok_default)
  have "room X rid (length (finish ?acc) + 1) d" using sy u by (auto simp: room_def)
  moreover have "list_all loggable evs" using l by (simp add: log_is_def)
  moreover obtain prior where led: "read_cancel_ledger X rid d =
      Inr \<lparr>cl_node_status = finish ?acc, cl_prior_cancel = prior\<rparr>" and prior: "prior_of_log rid evs prior"
    by (rule ledger_of_log[OF X l p])
  ultimately obtain c' t' d1 m1 where loop: "cancel_nodes X clock rid (normalize_cancel_reason note) prior
      (finish ?acc) [] [] d = (Inr (c', t'), d1)"
    and d1: "room X rid 1 d1" "list_all (settled_node rid d1) (map fst (finish ?acc))"
      "set c' \<union> set t' = fst ` set (finish ?acc)"
      "read_manifest_opt rid d1 = Inr (Some m1)" "m_status m1 = m_status m"
    using cancel_nodes_settle[OF X own prior, of "finish ?acc" 1 d m clock "normalize_cancel_reason note" "[]" "[]"]
      ledger_cancellable[OF _ t v] m(1) by auto
  have nodes: "fst ` set (finish ?acc) = {nid. \<exists>n. read_node_opt rid d nid = Inr (Some n)}"
  proof -
    have "fst ` set (finish ?acc) = dom (acc_status ?acc)"
      using map_of_finish[OF ok] dom_map_of_conv_image_fst by metis
    also have "\<dots> = {nid. \<exists>n. read_node_opt rid d nid = Inr (Some n)}"
      using t entry_tracks_dom unfolding tracks_def dom_def by blast
    finally show ?thesis .
  qed
  define fin where "fin = (if m_status m = Cancelled then ret () else
    settle_run X clock rid (status_data Cancelled (filter_opt (\<lambda>s. s \<noteq> []) (map_option trim note))) prior)"
  have fs: "steps_io X rid fin" unfolding fin_def by blast
  have c: "is_terminal Cancelled" by (simp add: is_terminal_def)
  obtain d' m' where f: "fin d1 = (Inr (), d')" "read_manifest_opt rid d' = Inr (Some m')"
    "is_terminal (m_status m')"
    "prior_with_key ''run.status'' (run_status_cancel_key rid) evs = None \<Longrightarrow> m_status m' = Cancelled"
  proof (cases "m_status m = Cancelled")
    case True
    with that[of d1 m1] d1(4,5) c show ?thesis by (simp add: fin_def ret_def)
  next
    case False
    with m(2) d1(5) have "\<not> is_terminal (m_status m1)" by simp
    moreover have "room X rid (Suc 0) d1" using d1(1) by simp
    then obtain d2 m2 where "settle_run X clock rid (status_data Cancelled
        (filter_opt (\<lambda>s. s \<noteq> []) (map_option trim note))) prior d1 = (Inr (), d2)"
      "read_manifest_opt rid d2 = Inr (Some m2)" "is_terminal (m_status m2)"
      "\<not> is_terminal (m_status m1) \<and>
         prior_with_key ''run.status'' (run_status_cancel_key rid) evs = None \<longrightarrow> m_status m2 = Cancelled"
      by (rule settle_run_settles[where clock = clock and
            remark = "filter_opt (\<lambda>s. s \<noteq> []) (map_option trim note)", OF X _ own prior v d1(4) c]) blast
    ultimately show ?thesis using that[of d2 m2] False by (simp add: fin_def)
  qed
  have run: "cancel_run_unlocked X clock rid note d = (Inr \<lparr>co_run_was_already_cancelled = (m_status m = Cancelled),
      co_nodes_cancelled = c', co_nodes_already_terminal = t'\<rparr>, d')"
    using m(2) led loop f(1) read_manifest_of_opt[OF m(1)]
    by (auto simp: cancel_run_unlocked_def bind_io_def reading_def ret_def fin_def)
  have "settled_node rid d' nid" if "nid \<in> fst ` set (finish ?acc)" for nid
    using settled_kept[OF fs f(1)] d1(2) that by (auto simp: list_all_iff)
  with run nodes d1(3) f open_run show ?thesis unfolding settled_node_def by auto
qed

text \<open>A run that finished or failed is never cancelled: cancelling the run or one of its nodes is
  refused with its status and changes nothing. Cancelling a node the log does not know is refused as
  well, again without a change.\<close>

theorem cancel_refuses:
  assumes "read_manifest_opt rid d = Inr (Some m)"
  shows "(m_status m \<in> {Done, Failed} \<longrightarrow>
      cancel_run_unlocked X clock rid note d = (Inl (RunAlreadyTerminal (m_status m)), d) \<and>
      cancel_node_unlocked X clock rid nid note d = (Inl (RunAlreadyTerminal (m_status m)), d)) \<and>
    (m_status m \<notin> {Done, Failed} \<and> read_cancel_ledger X rid d = Inr ledger \<and>
       nid \<notin> fst ` set (cl_node_status ledger) \<longrightarrow>
     cancel_node_unlocked X clock rid nid note d = (Inl (NodeNotFound (node_id_str nid)), d))"
proof -
  have "nid \<notin> fst ` set ns \<Longrightarrow> List.find (\<lambda>p. fst p = nid) ns = None" for ns :: "(node_id \<times> status) list"
    by (force simp: find_None_iff)
  then show ?thesis
    using read_manifest_of_opt[OF assms]
    by (cases "m_status m")
      (auto simp: cancel_run_unlocked_def cancel_node_unlocked_def bind_io_def reading_def is_terminal_def
        ok_or_def)
qed

end
