(* ===== verification/Witnesses.thy ===== *)
theory Witnesses
  imports Demo_Run Cancel_Facts
begin

text \<open>
  The theorems about run directories applied to the concrete run of \<open>Demo_Run\<close>, with every
  hypothesis discharged there.
\<close>

theorem write_node_read_back_witness:
  "write_node demo_rid demo_node demo_failed = Inr demo_failed \<and>
   read_node_opt demo_rid demo_failed (n_node_id demo_node) = Inr (Some demo_node)"
proof -
  have w: "write_node demo_rid demo_node demo_failed = Inr demo_failed"
    using node_store.write_back[OF demo_node_read] .
  have "n_schema_version demo_node \<in> set SUPPORTED_STATE_SCHEMAS" by code_simp
  from w write_node_read_back[OF w this] show ?thesis by simp
qed

theorem projections_read_belong_to_run_witness:
  "n_run_id demo_node = demo_rid \<and> n_node_id demo_node = demo_nid \<and> m_run_id demo_manifest = demo_rid"
  using projections_read_belong_to_run[OF demo_node_read demo_manifest_read] by simp

theorem apply_event_commits_plan_witness:
  "\<exists>n. plan_projections demo_ext demo_rid demo_failed demo_merge = Inr [NodePath (n_node_id n)] \<and>
     reads_back demo_rid (OpNode n) demo_merged \<and>
     same_at demo_rid ManifestPath demo_failed demo_merged"
proof -
  have "case reduce_event_to_ops demo_ext demo_rid demo_failed demo_merge of
      Inr [OpNode n] \<Rightarrow> True | _ \<Rightarrow> False" by code_simp
  then obtain n where n: "reduce_event_to_ops demo_ext demo_rid demo_failed demo_merge = Inr [OpNode n]"
    by (auto split: sum.splits list.splits projection_op.splits)
  from apply_event_commits_plan[where X = demo_ext and rid = demo_rid and d = demo_failed and ev = demo_merge] n show ?thesis
    by (auto simp: demo_merge_applies op_path_def)
qed

theorem plan_stays_in_run_witness:
  "\<exists>n. reduce_event_to_ops demo_ext demo_rid demo_failed demo_merge = Inr [OpNode n] \<and>
     n_run_id n = demo_rid \<and> ev_node_id demo_merge = Some (n_node_id n)"
proof -
  have "case reduce_event_to_ops demo_ext demo_rid demo_failed demo_merge of
      Inr [OpNode n] \<Rightarrow> True | _ \<Rightarrow> False" by code_simp
  then obtain n where n: "reduce_event_to_ops demo_ext demo_rid demo_failed demo_merge = Inr [OpNode n]"
    by (auto split: sum.splits list.splits projection_op.splits)
  from n plan_stays_in_run[OF n, of "OpNode n"] show ?thesis by simp
qed

theorem terminal_node_absorbing_witness:
  "\<exists>n'. read_node_opt demo_rid demo_merged demo_nid = Inr (Some n') \<and> n_status n' \<in> {Failed, Done}"
proof -
  have "is_terminal (n_status demo_node)" by (simp add: demo_node_failed)
  from terminal_node_absorbing[OF demo_merge_applies demo_node_read this] show ?thesis
    by (auto simp: demo_node_failed)
qed

theorem terminal_run_absorbing_witness:
  "\<exists>m'. read_manifest_opt demo_rid demo_cancelled = Inr (Some m') \<and> m_status m' = Cancelled"
proof -
  have "is_terminal (m_status demo_cancelled_manifest)" by (simp add: demo_cancelled_status)
  from terminal_run_absorbing[OF demo_late_done_applies demo_cancelled_read this] show ?thesis
    by (auto simp: demo_cancelled_status)
qed

lemma demo_steps: "run_steps demo_ext demo_rid demo_failed demo_merged"
  using run_step.folded[OF demo_merge_applies] by blast

theorem node_history_forward_witness:
  "\<exists>n'. read_node_opt demo_rid demo_merged demo_nid = Inr (Some n') \<and> node_later demo_node n'"
  using node_history_forward[OF demo_steps demo_node_read] .

theorem manifest_history_forward_witness:
  "\<exists>m'. read_manifest_opt demo_rid demo_merged = Inr (Some m') \<and> manifest_later demo_manifest m'"
  using manifest_history_forward[OF demo_steps demo_manifest_read] .

definition demo_poisoned :: run_dir where
  "demo_poisoned = demo_empty\<lparr>d_events := Some (join [''junk''] ''torn'')\<rparr>"

theorem quarantine_repairs_log_witness:
  "case quarantine_corrupt_lines_unlocked demo_ext ''ts'' demo_poisoned of
     Inr (q, d') \<Rightarrow> read_all_events demo_ext d' = Inr [] \<and> d_events d' = Some ''torn''
   | Inl _ \<Rightarrow> False"
proof -
  have "case quarantine_corrupt_lines_unlocked demo_ext ''ts'' demo_poisoned of
      Inr (q, d') \<Rightarrow> True | Inl _ \<Rightarrow> False" by code_simp
  then obtain q d' where q: "quarantine_corrupt_lines_unlocked demo_ext ''ts'' demo_poisoned = Inr (q, d')"
    by (auto split: sum.splits prod.splits)
  have "d_events demo_poisoned = Some (join [''junk''] ''torn'')" "list_all line_ok [''junk'']"
    "line_ok ''torn''" by (simp_all add: demo_poisoned_def line_ok_def)
  from quarantine_repairs_log[OF q this] have
    "read_all_events demo_ext d' = Inr (good_events demo_ext [''junk''])"
    "d_events d' = Some (join (filter (\<lambda>l. \<not> corrupt_line demo_ext l) [''junk'']) ''torn'')" by auto
  moreover have "good_events demo_ext [''junk''] = []" "corrupt_line demo_ext ''junk''"
    by code_simp+
  ultimately show ?thesis using q by simp
qed

section \<open>A run that is up to date\<close>

definition demo_events :: "event list" where
  "demo_events = [demo_event ''run.created'' 1 demo_created, demo_event ''node.created'' 2 demo_created]"

definition demo_logged :: run_dir where
  "demo_logged = demo_run\<lparr>d_events := Some (join (map (event_text demo_ext) demo_events) [])\<rparr>"

definition demo_synced :: run_dir where
  "demo_synced = snd (advance_applied_seq demo_rid 2 demo_logged)"

lemma demo_ids: "RunId_parse_str (run_id_str demo_rid) = Inr demo_rid"
  "NodeId_parse_str (node_id_str demo_nid) = Inr demo_nid"
  by code_simp+

lemma demo_loggable:
  "loggable (demo_event k s data) \<longleftrightarrow> wf_json data \<and> exact_json (MAX_DEPTH - 1) data"
  using demo_ids by (simp add: loggable_def demo_event_def)

lemma demo_created_loggable: "loggable (demo_event k s demo_created)"
  unfolding demo_loggable by code_simp

lemma demo_log: "log_is demo_ext demo_logged demo_events []"
  using demo_created_loggable by (simp add: log_is_def demo_logged_def demo_events_def line_ok_def)

lemma demo_last: "last_seq demo_events = 2"
  by (simp add: last_seq_def demo_events_def demo_event_def)

lemma demo_run_manifest:
  obtains m where "read_manifest_opt demo_rid demo_run = Inr (Some m)" "m_applied_seq m = 0"
proof -
  have "case read_manifest_opt demo_rid demo_run of Inr (Some m) \<Rightarrow> m_applied_seq m = 0 | _ \<Rightarrow> False"
    by code_simp
  then show ?thesis using that by (auto split: sum.splits option.splits)
qed

lemma demo_run_node:
  obtains n where "read_node_opt demo_rid demo_run demo_nid = Inr (Some n)" "n_status n = Pending"
proof -
  have "case read_node_opt demo_rid demo_run demo_nid of Inr (Some n) \<Rightarrow> n_status n = Pending | _ \<Rightarrow> False"
    by code_simp
  then show ?thesis using that by (auto split: sum.splits option.splits)
qed

lemma demo_is_synced: "synced demo_ext demo_rid demo_synced demo_events"
proof -
  obtain m where m: "read_manifest_opt demo_rid demo_run = Inr (Some m)" "m_applied_seq m = 0"
    by (rule demo_run_manifest)
  then have "read_manifest_opt demo_rid demo_logged = Inr (Some m)" by (simp add: demo_logged_def log_reads)
  then obtain d where d: "advance_applied_seq demo_rid 2 demo_logged = (Inr (), d)" "same_log demo_logged d"
    "read_manifest_opt demo_rid d = Inr (Some (advanced demo_logged 2 m))" by (rule advance_some)
  have "checked_events demo_run = Inr ()" by code_simp
  then have "checked_events d = Inr ()"
    using d(2) by (simp add: same_log_def checked_events_def guard_root_def demo_logged_def)
  moreover have "log_is demo_ext d demo_events []"
    using demo_log d(2) by (simp add: same_log_def log_is_def)
  ultimately show ?thesis
    using d(1,3) m(2) demo_last
    by (simp add: synced_def demo_synced_def advanced_def) (simp add: demo_events_def demo_event_def)
qed

lemma demo_synced_node:
  obtains n where "read_node_opt demo_rid demo_synced demo_nid = Inr (Some n)" "n_status n = Pending"
proof -
  obtain m where m: "read_manifest_opt demo_rid demo_run = Inr (Some m)" by (rule demo_run_manifest)
  then have "read_manifest_opt demo_rid demo_logged = Inr (Some m)" by (simp add: demo_logged_def log_reads)
  then obtain d where "advance_applied_seq demo_rid 2 demo_logged = (Inr (), d)"
    "\<And>nid. read_node_opt demo_rid d nid = read_node_opt demo_rid demo_logged nid"
    by (rule advance_some[where seq = 2]) blast
  moreover obtain n where "read_node_opt demo_rid demo_run demo_nid = Inr (Some n)" "n_status n = Pending"
    by (rule demo_run_node)
  ultimately show ?thesis using that by (simp add: demo_synced_def demo_logged_def log_reads)
qed

definition demo_data :: json where
  "demo_data = Object [(''status'', String ''running'')]"

definition demo_next :: event where
  "demo_next = new_event (\<lambda>_. 7) demo_rid ''node.status'' (Some demo_nid) (Some ''once'') demo_data 3"

lemma demo_next_fields:
  "ev_kind demo_next = ''node.status''" "ev_run_id demo_next = demo_rid"
  "ev_node_id demo_next = Some demo_nid" "ev_seq demo_next = 3"
  by (simp_all add: demo_next_def new_event_def)

lemma demo_next_loggable: "loggable demo_next"
proof -
  have "wf_json demo_data \<and> exact_json (MAX_DEPTH - 1) demo_data" by code_simp
  then show ?thesis using demo_ids by (simp add: loggable_def demo_next_def new_event_def)
qed

lemma demo_next_accepted:
  obtains ops where "reduce_event_to_ops demo_ext demo_rid demo_synced demo_next = Inr ops"
proof -
  obtain n where n: "read_node_opt demo_rid demo_synced demo_nid = Inr (Some n)" "n_status n = Pending"
    by (rule demo_synced_node)
  have "require_status demo_next = Inr Running" by code_simp
  with n that show ?thesis
    by (auto simp: reduce_event_to_ops_def reducers_def demo_next_fields reduce_node_status_def
        require_envelope_node_id_def ok_or_def with_node_def is_terminal_def)
qed

lemma demo_next_new:
  "demo_next = new_event (\<lambda>_. 7) demo_rid ''node.status'' (Some demo_nid) (Some ''once'') demo_data
     (last_seq demo_events + 1)"
  by (simp add: demo_next_def demo_last)

lemma demo_not_last: "last_seq demo_events \<noteq> - 1"
  by (simp add: demo_last)

theorem append_keeps_run_synced_witness:
  "\<exists>applied d'. append_and_apply_reporting demo_ext (\<lambda>_. 7) demo_rid ''node.status'' (Some demo_nid)
      (Some ''once'') demo_data demo_synced = (Inr (3, applied), d') \<and>
    read_all_events demo_ext d' = Inr (demo_events @ [demo_next]) \<and>
    synced demo_ext demo_rid d' (demo_events @ [demo_next])"
proof -
  obtain ops where r: "reduce_event_to_ops demo_ext demo_rid demo_synced demo_next = Inr ops"
    by (rule demo_next_accepted)
  have "loggable (new_event (\<lambda>_. 7) demo_rid ''node.status'' (Some demo_nid) (Some ''once'') demo_data
      (last_seq demo_events + 1))" using demo_next_loggable demo_next_new by simp
  from append_keeps_run_synced[OF demo_ext_ok demo_is_synced demo_not_last this] r show ?thesis
    unfolding demo_next_new[symmetric] demo_last
    by (auto simp: demo_next_def split: prod.splits sum.splits)
qed


theorem append_all_or_nothing_witness:
  "case append_and_apply_reporting demo_ext (\<lambda>_. 7) demo_rid ''node.status'' (Some demo_nid)
      (Some ''once'') demo_data demo_logged of
     (Inl e, d') \<Rightarrow> read_all_events demo_ext d' = Inr demo_events
   | (Inr (seq, applied), d') \<Rightarrow> seq = 3"
proof -
  have "loggable (new_event (\<lambda>_. 7) demo_rid ''node.status'' (Some demo_nid) (Some ''once'') demo_data
      (last_seq demo_events + 1))" using demo_next_loggable demo_next_new by simp
  from append_all_or_nothing[OF demo_ext_ok demo_log this] show ?thesis
    by (auto simp: demo_last split: prod.splits sum.splits)
qed

theorem keyed_append_records_once_witness:
  "\<exists>d'. append_and_apply_idempotent demo_ext (\<lambda>_. 7) demo_rid ''node.status'' (Some demo_nid) ''once''
      (\<lambda>_. Inr demo_data) demo_synced = (Inr (Appended 3), d') \<and>
    append_and_apply_idempotent demo_ext (\<lambda>_. 7) demo_rid ''node.status'' (Some demo_nid) ''once''
      (\<lambda>_. Inr demo_data) d' = (Inr (IdempotentReplay (prior_of demo_next)), d')"
proof -
  obtain ops where r: "reduce_event_to_ops demo_ext demo_rid demo_synced demo_next = Inr ops"
    by (rule demo_next_accepted)
  have "prior_with_key ''node.status'' ''once'' demo_events = None"
    by (simp add: prior_with_key_def demo_events_def demo_event_def)
  with r keyed_append_records_once[where build = "\<lambda>_. Inr demo_data" and data = demo_data and key = "''once''",
      OF demo_ext_ok demo_is_synced demo_not_last _ _ demo_next_new demo_next_loggable]
  show ?thesis by (auto simp: demo_next_fields split: prod.splits sum.splits)
qed

theorem refold_is_identity_witness:
  "apply_event demo_ext demo_rid demo_merge demo_merged = (Inr (), demo_merged)"
proof -
  have "refoldable demo_merge" by (simp add: refoldable_def demo_merge_def demo_event_def)
  from refold_is_identity[OF demo_merge_applies this] show ?thesis .
qed

section \<open>The log read both ways\<close>

lemma demo_folds: "fold_events demo_ext demo_rid demo_events demo_empty = (Inr (), demo_run)"
proof -
  let ?run = "apply_event demo_ext demo_rid (demo_event ''run.created'' 1 demo_created)"
  let ?node = "apply_event demo_ext demo_rid (demo_event ''node.created'' 2 demo_created)"
  have "fst (?run demo_empty) = Inr ()" "fst (?node (snd (?run demo_empty))) = Inr ()" by code_simp+
  then have "?run demo_empty = (Inr (), snd (?run demo_empty))"
    "?node (snd (?run demo_empty)) = (Inr (), demo_run)"
    by (simp_all add: prod_eq_iff demo_run_def)
  then show ?thesis by (simp add: demo_events_def bind_io_step ret_def)
qed

lemma demo_plain: "list_all plain_event demo_events" "list_all object_event demo_events"
  "list_all (\<lambda>ev. ev_node_id ev = Some demo_nid \<longrightarrow> string_status ev) demo_events"
  by (simp_all add: demo_events_def plain_event_def object_event_def string_status_def demo_event_def demo_created_def)

lemma demo_no_nodes: "read_node_opt demo_rid demo_empty nid = Inr None"
  by (simp add: demo_empty_def empty_dir_def read_node_opt_Inr node_entry_def)

theorem log_statuses_agree_with_projection_witness:
  "\<exists>statuses n s. read_node_statuses demo_ext demo_logged = Inr statuses \<and>
     map_of statuses demo_nid = Some s \<and> read_node_opt demo_rid demo_run demo_nid = Inr (Some n) \<and>
     (is_terminal s \<or> is_terminal (n_status n) \<longrightarrow> n_status n = s)"
proof -
  have "checked_events demo_run = Inr ()" by code_simp
  then have "checked_events demo_logged = Inr ()" by (simp add: demo_logged_def log_reads)
  from log_statuses_agree_with_projection[OF demo_ext_ok demo_log this demo_plain(2) demo_folds demo_no_nodes]
  obtain statuses where st: "read_node_statuses demo_ext demo_logged = Inr statuses"
    "case map_of statuses demo_nid of None \<Rightarrow> read_node_opt demo_rid demo_run demo_nid = Inr None
     | Some s \<Rightarrow> \<exists>n. read_node_opt demo_rid demo_run demo_nid = Inr (Some n) \<and>
         (list_all (\<lambda>ev. ev_node_id ev = Some demo_nid \<longrightarrow> string_status ev) demo_events \<longrightarrow>
            is_terminal s \<or> is_terminal (n_status n) \<longrightarrow> n_status n = s)" by blast
  obtain n where n: "read_node_opt demo_rid demo_run demo_nid = Inr (Some n)" by (rule demo_run_node)
  show ?thesis
  proof (cases "map_of statuses demo_nid")
    case None
    with st(2) n show ?thesis by simp
  next
    case (Some s)
    from st(2)[unfolded Some option.case] demo_plain(3) st(1) Some show ?thesis by blast
  qed
qed

definition demo_failed_acc :: node_status_acc where
  "demo_failed_acc = acc_default\<lparr>acc_order := [demo_nid], acc_status := [demo_nid \<mapsto> Failed]\<rparr>"

theorem accumulator_terminal_absorbing_witness:
  "\<exists>s. acc_status (observe (probe_event demo_merge) demo_failed_acc) demo_nid = Some s \<and> s \<in> {Failed, Done}"
proof -
  have "acc_status demo_failed_acc demo_nid = Some Failed" by (simp add: demo_failed_acc_def)
  from accumulator_terminal_absorbing[OF this, of "probe_event demo_merge"] show ?thesis
    by (auto simp: is_terminal_def)
qed

section \<open>Cancelling\<close>

lemma demo_synced_reads: "read_node_opt demo_rid demo_synced nid = read_node_opt demo_rid demo_run nid"
proof -
  obtain m where "read_manifest_opt demo_rid demo_run = Inr (Some m)" by (rule demo_run_manifest)
  then have "read_manifest_opt demo_rid demo_logged = Inr (Some m)" by (simp add: demo_logged_def log_reads)
  then obtain d where "advance_applied_seq demo_rid 2 demo_logged = (Inr (), d)"
    "\<And>nid. read_node_opt demo_rid d nid = read_node_opt demo_rid demo_logged nid"
    by (rule advance_some[where seq = 2]) blast
  then show ?thesis by (simp add: demo_synced_def demo_logged_def log_reads)
qed

lemma demo_synced_manifest:
  obtains m where "read_manifest_opt demo_rid demo_synced = Inr (Some m)" "m_status m = Pending"
proof -
  have "case read_manifest_opt demo_rid demo_run of Inr (Some m) \<Rightarrow> m_status m = Pending | _ \<Rightarrow> False"
    by code_simp
  then obtain m where m: "read_manifest_opt demo_rid demo_run = Inr (Some m)" "m_status m = Pending"
    by (auto split: sum.splits option.splits)
  then have "read_manifest_opt demo_rid demo_logged = Inr (Some m)" by (simp add: demo_logged_def log_reads)
  then obtain d where "advance_applied_seq demo_rid 2 demo_logged = (Inr (), d)"
    "read_manifest_opt demo_rid d = Inr (Some (advanced demo_logged 2 m))"
    by (rule advance_some[where seq = 2]) blast
  with that m(2) show ?thesis by (simp add: demo_synced_def advanced_def)
qed

theorem cancel_run_completes_witness:
  "\<exists>out d' m'. cancel_run_unlocked demo_ext (\<lambda>_. 7) demo_rid None demo_synced = (Inr out, d') \<and>
     demo_nid \<in> set (co_nodes_cancelled out) \<union> set (co_nodes_already_terminal out) \<and>
     read_manifest_opt demo_rid d' = Inr (Some m') \<and> m_status m' = Cancelled"
proof -
  let ?acc = "observe_all demo_events acc_default"
  have "tracks demo_rid demo_empty acc_default"
    using demo_no_nodes by (simp add: tracks_def entry_tracks_def acc_default_def)
  from fold_tracks[OF demo_folds this demo_plain(1)] have t: "tracks demo_rid demo_synced ?acc"
    by (simp add: tracks_def demo_synced_reads)
  have own: "own_keys demo_rid demo_events" by (simp add: own_keys_def demo_events_def demo_event_def)
  have none: "prior_with_key ''run.status'' (run_status_cancel_key demo_rid) demo_events = None"
    by (simp add: prior_with_key_def demo_events_def demo_event_def)
  have "length (finish ?acc) \<le> 2"
    by (simp add: finish_def finish_facts_def observe_all_def demo_events_def observe_def probe_event_def
        probe_of_def demo_event_def observe_created_def acc_default_def)
  then have u: "unat (last_seq demo_events) + (length (finish ?acc) + 1) < 2 ^ 64"
    by (simp add: demo_last)
  obtain m where m: "read_manifest_opt demo_rid demo_synced = Inr (Some m)" "m_status m = Pending"
    by (rule demo_synced_manifest)
  then have live: "m_status m \<notin> {Done, Failed}" by simp
  obtain n where "read_node_opt demo_rid demo_synced demo_nid = Inr (Some n)" by (rule demo_synced_node)
  with none live cancel_run_completes[OF demo_ext_ok demo_is_synced demo_plain(2) t own demo_ids(1) m(1) u,
      of "\<lambda>_. 7" None] show ?thesis by (auto simp: set_eq_iff)
qed

definition demo_finished :: run_dir where
  "demo_finished = snd (apply_event demo_ext demo_rid demo_done_status demo_run)"

theorem cancel_refuses_witness:
  "cancel_run_unlocked demo_ext (\<lambda>_. 7) demo_rid None demo_finished = (Inl (RunAlreadyTerminal Done), demo_finished)"
proof -
  have "case read_manifest_opt demo_rid demo_finished of Inr (Some m) \<Rightarrow> m_status m = Done | _ \<Rightarrow> False"
    by code_simp
  then obtain m where "read_manifest_opt demo_rid demo_finished = Inr (Some m)" "m_status m = Done"
    by (auto split: sum.splits option.splits)
  with cancel_refuses[OF this(1), of demo_ext "\<lambda>_. 7" None] show ?thesis by simp
qed

end
