(* ===== verification/Replay_Limits.thy ===== *)
theory Replay_Limits
  imports Demo_Run Status_Facts
begin

text \<open>
  Where folding an event twice is not folding it once. The kinds that \<open>refoldable\<close> leaves out are
  shown on concrete runs and then in general (\<open>refold_exceptions\<close>); the one crash that splits a
  two-file plan and the one payload that the reducer and the log scan read differently are shown on
  concrete runs.
\<close>

definition fold_all :: "event list \<Rightarrow> run_dir \<Rightarrow> run_dir" where
  "fold_all evs d = fold (\<lambda>ev d. snd (apply_event demo_ext demo_rid ev d)) evs d"

definition node_in :: "run_dir \<Rightarrow> node option" where
  "node_in d = look_node demo_rid demo_nid d"

definition manifest_in :: "run_dir \<Rightarrow> manifest option" where
  "manifest_in d = look_manifest demo_rid d"

section \<open>A question asked twice\<close>

definition demo_item :: json where
  "demo_item = Object [(''options'', Array [String ''a'']), (''recommended_default'', String ''a''),
     (''topic'', String ''t'')]"

definition demo_question :: event where
  "demo_question = demo_event ''node.awaiting_input'' 3 (Object [(''discussion_items'', Array [demo_item])])"

definition open_items :: "run_dir \<Rightarrow> json list option" where
  "open_items d = map_option ai_discussion_items (Option.bind (node_in d) n_awaiting_input)"

text \<open>One event with one question; folded again, as the replay after a crash before the
  watermark does, the node holds the question twice.\<close>

lemma awaiting_input_refold_duplicates:
  "fst (apply_event demo_ext demo_rid demo_question demo_run) = Inr () \<and>
   open_items (fold_all [demo_question] demo_run) = Some [demo_item] \<and>
   open_items (fold_all [demo_question, demo_question] demo_run) = Some [demo_item, demo_item]"
  by code_simp

section \<open>A session that ends before it is bound\<close>

definition demo_caller_run :: run_dir where
  "demo_caller_run = fold_all
     [demo_event ''run.created'' 1 (Object [(''agent_owner'', String ''caller''),
        (''kind'', String ''spinoff''), (''lifecycle'', String ''autonomous''), (''title'', String ''demo'')]),
      demo_event ''node.created'' 2 demo_created,
      demo_event ''caller.pi.lifecycle'' 3 (Object [(''generation'', Number (PosInt 1)),
        (''pi_session_id'', String ''s''), (''state'', String ''reserved'')])] demo_empty"

definition demo_launch_failed :: event where
  "demo_launch_failed = demo_event ''caller.pi.lifecycle'' 4 (Object [(''generation'', Number (PosInt 1)),
     (''pi_session_id'', String ''s''), (''reason'', String ''no tty''), (''state'', String ''launch-failed'')])"

text \<open>The fact is accepted and folded; folding it again is an error, although it is exactly the
  fact already recorded.\<close>

lemma launch_failed_refold_rejected:
  "fst (apply_event demo_ext demo_rid demo_launch_failed demo_caller_run) = Inr () \<and>
   map_option pl_state (Option.bind (node_in (fold_all [demo_launch_failed] demo_caller_run))
     n_caller_pi_lifecycle) = Some LaunchFailed \<and>
   fst (apply_event demo_ext demo_rid demo_launch_failed
     (fold_all [demo_launch_failed] demo_caller_run)) = Inl CorruptEventLog"
  by code_simp

section \<open>A plan over two files\<close>

definition demo_branch_node :: event where
  "demo_branch_node = demo_event ''node.created'' 2 (Object [(''kind'', String ''spinoff''),
     (''source_branch'', String ''main'')])"

definition demo_bare :: run_dir where
  "demo_bare = fold_all [demo_event ''run.created'' 1 demo_created] demo_empty"

definition demo_half :: run_dir where
  "demo_half = (case reduce_event_to_ops demo_ext demo_rid demo_bare demo_branch_node of
       Inr (oper # _) \<Rightarrow> snd (commit_op demo_rid oper demo_bare) | _ \<Rightarrow> demo_bare)"

text \<open>Uninterrupted, the creation of the default node records the source branch in the manifest.
  After a crash between the two file writes the replay finds the node and plans nothing: the
  branch is lost.\<close>

lemma split_node_creation_loses_branch:
  "Option.bind (manifest_in (fold_all [demo_branch_node] demo_bare)) m_source_branch = Some ''main'' \<and>
   node_in demo_half \<noteq> None \<and>
   map_option m_source_branch (manifest_in (fold_all [demo_branch_node] demo_half)) = Some None"
  by code_simp

section \<open>An attempt number out of range\<close>

definition demo_retry :: event where
  "demo_retry = demo_event ''node.retry'' 3 (Object [(''attempt'', Number (PosInt (2 ^ 32 + 1)))])"

text \<open>The attempt number of a retry is cut to 32 bits without a check.\<close>

lemma retry_attempt_truncated:
  "map_option n_retry_attempts (node_in (fold_all [demo_retry] demo_run)) = Some 1"
  by code_simp

section \<open>A status in object form\<close>

definition demo_status_object :: event where
  "demo_status_object = demo_event ''node.status'' 3 (Object [(''status'', Object [(''done'', Null)])])"

text \<open>The decoder of the reducer accepts a status written as a one-entry object, the accumulator of
  the log scan reads strings only: the node file is done, the log-derived status still pending.\<close>

lemma object_status_diverges:
  "map_option n_status (node_in (fold_all [demo_status_object] demo_run)) = Some Done \<and>
   acc_status (observe_all [demo_event ''node.created'' 2 demo_created, demo_status_object] acc_default)
     demo_nid = Some Pending"
  by code_simp

section \<open>The exceptions in general\<close>

lemma apply_node_plan:
  assumes r: "reduce_event_to_ops X rid d ev = Inr [OpNode n]" and e: "ev_node_id ev = Some nid"
  obtains d' where "apply_event X rid ev d = (Inr (), d')" "read_node_opt rid d' nid = Inr (Some n)"
proof -
  obtain d' where c: "commit_ops rid [OpNode n] d = (Inr (), d')" using reducer.commit_plan[OF r] by blast
  have "planned X rid d ev [OpNode n]" using reduce_event_to_ops_planned[OF r] by blast
  from commit_node_reads(1)[OF this c e] c r show ?thesis
    using that by (simp add: apply_event_Inr)
qed

lemma apply_refused: "reduce_event_to_ops X rid d ev = Inl e \<Longrightarrow> apply_event X rid ev d = (Inl e, d)"
  by (simp add: apply_event_def bind_io_def reading_def)

text \<open>An event that changes an existing node planned exactly the node it leaves.\<close>

lemma apply_changed_node:
  assumes a: "apply_event X rid ev d = (Inr (), d')" and e: "ev_node_id ev = Some nid"
    and n: "read_node_opt rid d nid = Inr (Some n)" and n': "read_node_opt rid d' nid = Inr (Some n')"
    and ne: "n' \<noteq> n"
  shows "reduce_event_to_ops X rid d ev = Inr [OpNode n']"
    and "read_manifest_opt rid d' = read_manifest_opt rid d" and "ev_run_id ev = rid"
proof -
  from a obtain ops where r: "reduce_event_to_ops X rid d ev = Inr ops"
    and c: "commit_ops rid ops d = (Inr (), d')" by (auto simp: apply_event_Inr)
  have p: "planned X rid d ev ops" and rid: "ev_run_id ev = rid"
    using reduce_event_to_ops_planned[OF r] by auto
  have other: "p \<notin> set (map op_path ops) \<Longrightarrow> same_at rid p d d'" for p
    using commit_ops_ok[of rid d ops] planned_ok[OF p] c by auto
  have "\<not> same_at rid (NodePath nid) d d'" using n n' ne by (simp add: same_at_def)
  with other obtain oper where "oper \<in> set ops" "op_path oper = NodePath nid" by force
  then have "\<exists>m. OpNode m \<in> set ops" by (auto simp: op_path_def split: projection_op.split_asm)
  with p n e obtain m where ops: "ops = [OpNode m]" by (cases) auto
  note rd = commit_node_reads[OF p[unfolded ops] c[unfolded ops] e]
  from rd(1) n' have "m = n'" by simp
  with ops r rd(2) rid show "reduce_event_to_ops X rid d ev = Inr [OpNode n']"
    "read_manifest_opt rid d' = read_manifest_opt rid d" "ev_run_id ev = rid" by simp_all
qed

lemma reduce_by_kind:
  assumes "ev_run_id ev = rid" and "map_of reducers (ev_kind ev) = Some f"
  shows "reduce_event_to_ops X rid d ev = f X rid d ev"
  using assms by (simp add: reduce_event_to_ops_def)

lemma refold_question:
  assumes r: "reduce_node_awaiting_input X rid d ev = Inr [OpNode n']" and e: "ev_node_id ev = Some nid"
    and n: "read_node_opt rid d nid = Inr (Some n)" and n': "read_node_opt rid d' nid = Inr (Some n')"
  obtains items opened where "get (ev_data ev) ''discussion_items'' = Some (Array items)" "items \<noteq> []"
    "n_awaiting_input n' = Some opened"
    "reduce_node_awaiting_input X rid d' ev =
      (if length (ai_discussion_items opened) + length items > MAX_ITEMS then Inl CorruptEventLog
       else Inr [OpNode (n'\<lparr>n_awaiting_input := Some (opened\<lparr>ai_discussion_items :=
         ai_discussion_items opened @ items\<rparr>)\<rparr>)])"
proof -
  obtain items where i: "get (ev_data ev) ''discussion_items'' = Some (Array items)" "items \<noteq> []"
    "length items \<le> MAX_ITEMS" "for_each check_open_item items = Inr ()"
    using r by (auto simp: reduce_node_awaiting_input_def res_simps filter_opt_def bind_eq_Some_conv
        split: if_split_asm option.split_asm elim!: as_array.elims)
  from r e n i obtain opened where s: "\<not> is_terminal (n_status n)" "n_worker_exit n = None"
    "n' = n\<lparr>n_awaiting_input := Some opened, n_updated_at := ev_ts ev\<rparr>"
    by (auto simp: reduce_node_awaiting_input_def require_envelope_node_id_def ok_or_def filter_opt_def
        with_node_def split: if_split_asm option.split_asm)
  have "n_awaiting_input n' = Some opened" by (simp add: s(3))
  moreover have "reduce_node_awaiting_input X rid d' ev =
      (if length (ai_discussion_items opened) + length items > MAX_ITEMS then Inl CorruptEventLog
       else Inr [OpNode (n'\<lparr>n_awaiting_input := Some (opened\<lparr>ai_discussion_items :=
         ai_discussion_items opened @ items\<rparr>)\<rparr>)])"
    using s(1,2) e n' i
    by (simp add: reduce_node_awaiting_input_def require_envelope_node_id_def ok_or_def filter_opt_def
        with_node_def s(3))
  ultimately show ?thesis using that i(1,2) by blast
qed

lemma with_node_again:
  assumes "with_node rid d nid f = Inr [OpNode n']" and "read_node_opt rid d' nid = Inr (Some n')"
    and "\<And>n. f n = Inr [OpNode n'] \<Longrightarrow> f n' = r"
  shows "with_node rid d' nid f = r"
  using assms by (auto simp: with_node_Inr) (simp add: with_node_def)

lemma refold_counted_retry:
  assumes r: "reduce_node_retry X rid d ev = Inr [OpNode n']" and e: "ev_node_id ev = Some nid"
    and n': "read_node_opt rid d' nid = Inr (Some n')" and a: "get_u64 (ev_data ev) ''attempt'' = None"
  shows "reduce_node_retry X rid d' ev =
    Inr [OpNode (n'\<lparr>n_retry_attempts := saturating_add (n_retry_attempts n') 1\<rparr>)]"
proof -
  have rq: "require_envelope_node_id ev = Inr nid" using e by (simp add: require_envelope_node_id_def ok_or_def)
  show ?thesis
    using r unfolding reduce_node_retry_def rq rbind.simps Let_def
    apply (rule with_node_again[OF _ n'])
    apply (simp only: rbind_Inr_iff a option.case sum.inject list.inject projection_op.inject simp_thms split: if_split_asm)
     apply blast
    apply (elim conjE exE)
    apply hypsubst
    apply (simp only: rbind.simps)
    apply (simp add: is_terminal_def)
    done
qed

lemma refold_unbound_end:
  assumes r: "reduce_caller_pi_lifecycle X rid d ev = Inr [OpNode n']" and e: "ev_node_id ev = Some nid"
    and n: "read_node_opt rid d nid = Inr (Some n)" and n': "read_node_opt rid d' nid = Inr (Some n')"
    and m: "read_manifest_opt rid d' = read_manifest_opt rid d"
    and t: "de_caller_pi_lifecycle (ev_data ev) = Some told" "pl_state told \<noteq> Reserved"
      "n_caller_pi_session n = None"
  shows "reduce_caller_pi_lifecycle X rid d' ev = Inl CorruptEventLog"
proof -
  from r e obtain n0 told0 m where "read_manifest_opt rid d = Inr (Some m)" "m_agent_owner m = Caller"
    "read_node_opt rid d nid = Inr (Some n0)" "de_caller_pi_lifecycle (ev_data ev) = Some told0"
    "n' = n0\<lparr>n_caller_pi_lifecycle := Some told0, n_updated_at := ev_ts ev\<rparr>"
    by (auto simp: reduce_caller_pi_lifecycle_def res_simps split: if_split_asm)
  then have "n_caller_pi_session n' = None" "n_caller_pi_lifecycle n' = Some told"
    "\<exists>m. read_manifest_opt rid d = Inr (Some m) \<and> m_agent_owner m = Caller"
    using n t by simp_all
  then show ?thesis using e n' m t
    by (auto simp: reduce_caller_pi_lifecycle_def require_envelope_node_id_def ok_or_def pi_fact_ok_def Let_def)
qed

lemma exception_reducers:
  "map_of reducers ''node.awaiting_input'' = Some reduce_node_awaiting_input"
  "map_of reducers ''node.retry'' = Some reduce_node_retry"
  "map_of reducers ''caller.pi.lifecycle'' = Some reduce_caller_pi_lifecycle"
  by (simp_all add: reducers_def)

text \<open>C39: the events that are not refoldable, for every run. Let such an event be accepted and change
  its node. Folded once more, as the replay does after a crash between the node file and the
  watermark: a question adds all its items to the open question a second time, or is refused when they
  no longer fit; a retry without its attempt number counts one more attempt; and the end of a session
  that was never bound is refused as corrupt, although it is the very fact the node records.\<close>

theorem refold_exceptions:
  assumes a: "apply_event X rid ev d = (Inr (), d')" and e: "ev_node_id ev = Some nid"
    and n: "read_node_opt rid d nid = Inr (Some n)" and n': "read_node_opt rid d' nid = Inr (Some n')"
    and ne: "n' \<noteq> n"
  shows "(ev_kind ev = ''node.awaiting_input'' \<longrightarrow>
      (\<exists>items opened. get (ev_data ev) ''discussion_items'' = Some (Array items) \<and> items \<noteq> [] \<and>
         n_awaiting_input n' = Some opened \<and>
         (if length (ai_discussion_items opened) + length items > MAX_ITEMS
          then apply_event X rid ev d' = (Inl CorruptEventLog, d')
          else \<exists>d''. apply_event X rid ev d' = (Inr (), d'') \<and> read_node_opt rid d'' nid =
             Inr (Some (n'\<lparr>n_awaiting_input := Some (opened\<lparr>ai_discussion_items :=
               ai_discussion_items opened @ items\<rparr>)\<rparr>))))) \<and>
    (ev_kind ev = ''node.retry'' \<and> get_u64 (ev_data ev) ''attempt'' = None \<longrightarrow>
      (\<exists>d''. apply_event X rid ev d' = (Inr (), d'') \<and> read_node_opt rid d'' nid =
         Inr (Some (n'\<lparr>n_retry_attempts := saturating_add (n_retry_attempts n') 1\<rparr>)))) \<and>
    (ev_kind ev = ''caller.pi.lifecycle'' \<and> n_caller_pi_session n = None \<and>
      (\<exists>told. de_caller_pi_lifecycle (ev_data ev) = Some told \<and> pl_state told \<noteq> Reserved) \<longrightarrow>
      apply_event X rid ev d' = (Inl CorruptEventLog, d'))"
proof -
  note c = apply_changed_node[OF a e n n' ne]
  note k = reduce_by_kind[OF c(3)]
  have q: ?thesis if "ev_kind ev = ''node.awaiting_input''"
  proof -
    note red = k[OF exception_reducers(1)[folded that]]
    from refold_question[OF c(1)[unfolded red] e n n'] obtain items opened where
      i: "get (ev_data ev) ''discussion_items'' = Some (Array items)" "items \<noteq> []"
        "n_awaiting_input n' = Some opened"
      and s: "reduce_event_to_ops X rid d' ev =
        (if length (ai_discussion_items opened) + length items > MAX_ITEMS then Inl CorruptEventLog
         else Inr [OpNode (n'\<lparr>n_awaiting_input := Some (opened\<lparr>ai_discussion_items :=
           ai_discussion_items opened @ items\<rparr>)\<rparr>)])" unfolding red by metis
    show ?thesis
    proof (cases "length (ai_discussion_items opened) + length items > MAX_ITEMS")
      case True
      then have "apply_event X rid ev d' = (Inl CorruptEventLog, d')" using s by (simp add: apply_refused)
      with True i that show ?thesis by auto
    next
      case False
      then have "reduce_event_to_ops X rid d' ev = Inr [OpNode (n'\<lparr>n_awaiting_input :=
          Some (opened\<lparr>ai_discussion_items := ai_discussion_items opened @ items\<rparr>)\<rparr>)]" using s by simp
      from apply_node_plan[OF this e] False i that show ?thesis by auto
    qed
  qed
  have t: ?thesis if h: "ev_kind ev = ''node.retry''" "get_u64 (ev_data ev) ''attempt'' = None"
  proof -
    note red = k[OF exception_reducers(2)[folded h(1)]]
    have "reduce_event_to_ops X rid d' ev =
        Inr [OpNode (n'\<lparr>n_retry_attempts := saturating_add (n_retry_attempts n') 1\<rparr>)]"
      using refold_counted_retry[OF c(1)[unfolded red] e n' h(2)] by (simp add: red)
    from apply_node_plan[OF this e] h show ?thesis by auto
  qed
  have l: ?thesis if h: "ev_kind ev = ''caller.pi.lifecycle''" "n_caller_pi_session n = None"
    "de_caller_pi_lifecycle (ev_data ev) = Some told" "pl_state told \<noteq> Reserved" for told
  proof -
    note red = k[OF exception_reducers(3)[folded h(1)]]
    have "reduce_event_to_ops X rid d' ev = Inl CorruptEventLog"
      using refold_unbound_end[OF c(1)[unfolded red] e n n' c(2) h(3,4,2)] by (simp add: red)
    with h(1) show ?thesis by (simp add: apply_refused)
  qed
  from q t l show ?thesis by fastforce
qed


lemma node_in_read: "node_in d = Some n \<longleftrightarrow> read_node_opt demo_rid d demo_nid = Inr (Some n)"
  by (simp add: node_in_def)

theorem refold_exceptions_witness:
  "\<exists>d''. apply_event demo_ext demo_rid demo_question (fold_all [demo_question] demo_run) = (Inr (), d'') \<and>
    open_items d'' = Some [demo_item, demo_item]"
proof -
  let ?d' = "fold_all [demo_question] demo_run"
  have q: "fst (apply_event demo_ext demo_rid demo_question demo_run) = Inr ()"
    "open_items ?d' = Some [demo_item]" using awaiting_input_refold_duplicates by auto
  then have a: "apply_event demo_ext demo_rid demo_question demo_run = (Inr (), ?d')"
    by (simp add: fold_all_def prod_eq_iff)
  have "node_in demo_run \<noteq> None \<and> open_items demo_run = None" by code_simp
  then obtain n where n: "node_in demo_run = Some n" "n_awaiting_input n = None"
    by (auto simp: open_items_def)
  obtain n' opened where n': "node_in ?d' = Some n'" "n_awaiting_input n' = Some opened"
    "ai_discussion_items opened = [demo_item]" using q(2) by (auto simp: open_items_def bind_eq_Some_conv)
  have e: "ev_node_id demo_question = Some demo_nid" "ev_kind demo_question = ''node.awaiting_input''"
    "get (ev_data demo_question) ''discussion_items'' = Some (Array [demo_item])"
    by (simp_all add: demo_question_def demo_event_def get_def)
  have "n' \<noteq> n" using n(2) n'(2) by auto
  from refold_exceptions[OF a e(1) n(1)[unfolded node_in_read] n'(1)[unfolded node_in_read] this] e n'(2,3)
  obtain d'' n'' where "apply_event demo_ext demo_rid demo_question ?d' = (Inr (), d'')"
    "node_in d'' = Some n''" "map_option ai_discussion_items (n_awaiting_input n'') = Some [demo_item, demo_item]"
    unfolding node_in_read by (auto simp: MAX_ITEMS_def)
  then show ?thesis by (auto simp: open_items_def)
qed

end
