(* ===== verification/Report_Facts.thy ===== *)
theory Report_Facts
  imports Report
begin

text \<open>
  Facts about report payloads: what the sanitizer returns passes the strict validator, it
  changes nothing of a valid payload, it fails exactly on the required fields, it never touches
  a field that carries an outcome or provenance, and the typed origin alone decides what a merge
  is. The three advisory arrays share one interface, the locale of element checks.
\<close>

section \<open>Element checks\<close>

locale element_check =
  fixes field :: string
    and not_array :: report_error
    and check :: "json \<Rightarrow> nat \<Rightarrow> report_error + unit"
  assumes index_irrelevant: "check v i = Inr () \<Longrightarrow> check v j = Inr ()"
begin

lemma check_all: "for_each (\<lambda>(i, item). check item i) (enumerate k xs) = Inr u \<longleftrightarrow>
    (\<forall>v\<in>set xs. check v 0 = Inr ())"
proof (induction xs arbitrary: k)
  case (Cons v vs)
  have "check v k = Inr () \<longleftrightarrow> check v 0 = Inr ()" using index_irrelevant by blast
  with Cons show ?case by (auto simp: res_simps)
qed simp

lemma kept_pass: "v \<in> set (map snd (filter (\<lambda>(i, item). check item i = Inr ()) (enumerate k xs))) \<Longrightarrow>
    check v 0 = Inr ()"
  by (auto intro: index_irrelevant)

lemma keeps_valid:
  assumes "\<forall>v\<in>set xs. check v 0 = Inr ()"
  shows "map snd (filter (\<lambda>(i, item). check item i = Inr ()) (enumerate k xs)) = xs"
    and "List.map_filter (\<lambda>(i, item). case check item i of Inr _ \<Rightarrow> None
           | Inl e \<Rightarrow> Some \<lparr>aw_field = field, aw_index = Some i, aw_reason = e\<rparr>) (enumerate k xs) = []"
proof -
  have "\<forall>(i, item)\<in>set (enumerate k xs). check item i = Inr ()"
    using assms by (auto simp: enumerate_eq_zip dest!: set_zip_rightD intro: index_irrelevant)
  then show "map snd (filter (\<lambda>(i, item). check item i = Inr ()) (enumerate k xs)) = xs"
    and "List.map_filter (\<lambda>(i, item). case check item i of Inr _ \<Rightarrow> None
           | Inl e \<Rightarrow> Some \<lparr>aw_field = field, aw_index = Some i, aw_reason = e\<rparr>) (enumerate k xs) = []"
    by (auto simp: List.map_filter_def filter_id_conv filter_empty_conv split: sum.splits)
qed

lemma sanitized_passes:
  "validate_elements not_array check (map_of (fst (sanitize_element_array field not_array check st)) field)
     = Inr ()"
proof (cases st)
  case (Pair obj ws)
  show ?thesis
  proof (cases "map_of obj field")
    case None
    with Pair show ?thesis by (simp add: sanitize_element_array_def validate_elements_def)
  next
    case (Some v)
    with Pair show ?thesis
      by (cases v) (auto simp: sanitize_element_array_def validate_elements_def check_all
          simp del: set_map dest!: kept_pass)
  qed
qed

lemma untouched: "k \<noteq> field \<Longrightarrow>
    map_of (fst (sanitize_element_array field not_array check st)) k = map_of (fst st) k"
  by (cases st) (auto simp: sanitize_element_array_def split: option.splits json.splits)

lemma valid_unchanged:
  assumes "sorted_keys obj" and "validate_elements not_array check (map_of obj field) = Inr ()"
  shows "sanitize_element_array field not_array check (obj, ws) = (obj, ws)"
  using assms
  by (auto simp: sanitize_element_array_def validate_elements_def check_all keeps_valid map_insert_same
      split: option.splits json.splits)

end

lemma options_index:
  "validate_string_array_at v i = Inr () \<Longrightarrow> validate_string_array_at v j = Inr ()"
  by (cases v) (auto simp: validate_string_array_at_def ok_or_def for_each_Inr res_simps)

interpretation discussion: element_check "''discussion_items''" DiscussionItemsNotArray
    validate_discussion_item
  by unfold_locales
    (auto simp: validate_discussion_item_def ok_or_def ensure_def Let_def options_index
      split: option.splits if_splits)

interpretation spinoff: element_check "''spinoff_proposals''" SpinoffProposalsNotArray
    validate_spinoff_proposal
  by unfold_locales
    (auto simp: validate_spinoff_proposal_def ok_or_def ensure_def Let_def
      split: option.splits if_splits)

interpretation wrap_up: element_check "''wrap_up_recommendations''"
    "FieldNotArray ''wrap_up_recommendations''" "string_element ''wrap_up_recommendations''"
  by unfold_locales (auto simp: string_element_def res_simps)

section \<open>The sanitizer\<close>

definition ADVISORY_FIELDS :: "string list" where
  "ADVISORY_FIELDS = [''summary'', ''discussion_items'', ''spinoff_proposals'', ''wrap_up_recommendations'']"

lemma sanitize_summary_untouched:
  "k \<noteq> ''summary'' \<Longrightarrow> map_of (fst (sanitize_summary obj)) k = map_of obj k"
  by (simp add: sanitize_summary_def)

lemma sanitize_summary_ok: "summary_ok (map_of (fst (sanitize_summary obj)) ''summary'')"
  by (simp add: sanitize_summary_def summary_ok_def)

lemmas sanitize_untouched = sanitize_summary_untouched discussion.untouched spinoff.untouched
  wrap_up.untouched

lemmas sanitize_passes = discussion.sanitized_passes spinoff.sanitized_passes wrap_up.sanitized_passes

lemma sanitize_Inr:
  "sanitize_report_advisory data = Inr r \<longleftrightarrow>
     (\<exists>obj. data = Object obj \<and> validate_required_fields obj = Inr () \<and>
       r = (let st = sanitize_string_array_field ''wrap_up_recommendations''
              (sanitize_element_array ''spinoff_proposals'' SpinoffProposalsNotArray
                 validate_spinoff_proposal
              (sanitize_element_array ''discussion_items'' DiscussionItemsNotArray
                 validate_discussion_item (sanitize_summary obj)))
            in \<lparr>sr_report = Object (fst st), sr_warnings = snd st\<rparr>))"
  by (cases data) (auto simp: sanitize_report_advisory_def res_simps Let_def)

lemma validate_required_fields_cong:
  "(\<And>k. k \<in> {''success'', ''cancelled'', ''reason''} \<Longrightarrow> map_of a k = map_of b k) \<Longrightarrow>
     validate_required_fields a = validate_required_fields b"
  by (simp add: validate_required_fields_def)

text \<open>What the lenient sanitizer accepts, it repairs: the report it returns passes the strict
  validator.\<close>

theorem sanitized_report_is_valid:
  assumes "sanitize_report_advisory data = Inr r"
  shows "validate_report_payload (sr_report r) = Inr ()"
proof -
  from assms obtain obj where req: "validate_required_fields obj = Inr ()"
    and r: "r = (let st = sanitize_string_array_field ''wrap_up_recommendations''
              (sanitize_element_array ''spinoff_proposals'' SpinoffProposalsNotArray
                 validate_spinoff_proposal
              (sanitize_element_array ''discussion_items'' DiscussionItemsNotArray
                 validate_discussion_item (sanitize_summary obj)))
            in \<lparr>sr_report = Object (fst st), sr_warnings = snd st\<rparr>)"
    unfolding sanitize_Inr by blast
  define out where "out = fst (sanitize_string_array_field ''wrap_up_recommendations''
              (sanitize_element_array ''spinoff_proposals'' SpinoffProposalsNotArray
                 validate_spinoff_proposal
              (sanitize_element_array ''discussion_items'' DiscussionItemsNotArray
                 validate_discussion_item (sanitize_summary obj))))"
  note out_simps = out_def sanitize_string_array_field_def sanitize_untouched sanitize_passes
    validate_discussion_items_def validate_spinoff_proposals_def validate_string_array_def
  have "sr_report r = Object out" by (simp add: r out_def Let_def)
  moreover have keys: "map_of out k = map_of obj k" if "k \<notin> set ADVISORY_FIELDS" for k
    using that by (simp add: out_simps ADVISORY_FIELDS_def)
  moreover have "summary_ok (map_of out ''summary'')"
    by (simp add: out_simps sanitize_summary_ok)
  moreover have "validate_discussion_items (map_of out ''discussion_items'') = Inr ()"
    by (simp add: out_simps)
  moreover have "validate_spinoff_proposals (map_of out ''spinoff_proposals'') = Inr ()"
    by (simp add: out_simps)
  moreover have "validate_string_array (map_of out ''wrap_up_recommendations'')
      ''wrap_up_recommendations'' = Inr ()"
    by (simp add: out_simps)
  moreover have "validate_required_fields out = Inr ()"
    by (subst validate_required_fields_cong[of out obj]) (auto simp: req ADVISORY_FIELDS_def intro!: keys)
  ultimately show ?thesis by (simp add: validate_report_payload_def ensure_def ok_or_def)
qed

definition sample_report :: json where
  "sample_report = Object [(''discussion_items'', Array [String ''loose'', Object [(''topic'', String ''t'')]]),
     (''success'', Bool True), (''summary'', Bool False), (''via'', String ''explicit-merge'')]"

theorem sanitized_report_is_valid_witness:
  "sanitize_report_advisory sample_report = Inr
     \<lparr>sr_report = Object [(''discussion_items'', Array [Object [(''topic'', String ''t'')]]),
        (''success'', Bool True), (''via'', String ''explicit-merge'')],
      sr_warnings = [\<lparr>aw_field = ''summary'', aw_index = None, aw_reason = SummaryNotString\<rparr>,
        \<lparr>aw_field = ''discussion_items'', aw_index = Some 0, aw_reason = DiscussionItemNotObject 0\<rparr>]\<rparr> \<and>
   validate_report_payload (Object [(''discussion_items'', Array [Object [(''topic'', String ''t'')]]),
        (''success'', Bool True), (''via'', String ''explicit-merge'')]) = Inr ()"
  (is "?s \<and> _")
proof -
  have s: ?s by code_simp
  from s sanitized_report_is_valid[OF s] show ?thesis by simp
qed

text \<open>The sanitizer is the identity on payloads the strict validator accepts, and warns of
  nothing there.\<close>

theorem sanitize_keeps_valid_report:
  assumes "wf_json data" and "validate_report_payload data = Inr ()"
  shows "sanitize_report_advisory data = Inr \<lparr>sr_report = data, sr_warnings = []\<rparr>"
proof -
  from assms obtain obj where data: "data = Object obj" and sorted: "sorted_keys obj"
    and req: "validate_required_fields obj = Inr ()" and sum: "summary_ok (map_of obj ''summary'')"
    and "validate_discussion_items (map_of obj ''discussion_items'') = Inr ()"
    and "validate_spinoff_proposals (map_of obj ''spinoff_proposals'') = Inr ()"
    and "validate_string_array (map_of obj ''wrap_up_recommendations'') ''wrap_up_recommendations'' = Inr ()"
    by (cases data) (auto simp: validate_report_payload_def res_simps)
  moreover from sum have "sanitize_summary obj = (obj, [])" by (simp add: sanitize_summary_def)
  ultimately show ?thesis
    by (simp add: sanitize_Inr sanitize_string_array_field_def discussion.valid_unchanged
        spinoff.valid_unchanged wrap_up.valid_unchanged validate_discussion_items_def
        validate_spinoff_proposals_def validate_string_array_def)
qed

theorem sanitize_keeps_valid_report_witness:
  "wf_json (Object [(''success'', Bool True)]) \<and>
   sanitize_report_advisory (Object [(''success'', Bool True)])
     = Inr \<lparr>sr_report = Object [(''success'', Bool True)], sr_warnings = []\<rparr>"
proof -
  have w: "wf_json (Object [(''success'', Bool True)])" by simp
  have v: "validate_report_payload (Object [(''success'', Bool True)]) = Inr ()" by code_simp
  from w sanitize_keeps_valid_report[OF w v] show ?thesis by simp
qed

lemma sanitize_keeps_key:
  assumes "sanitize_report_advisory data = Inr r" and "k \<notin> set ADVISORY_FIELDS"
  shows "get (sr_report r) k = get data k"
  using assms by (auto simp: sanitize_Inr sanitize_string_array_field_def Let_def
      ADVISORY_FIELDS_def sanitize_untouched)

lemma sanitize_Inl:
  "sanitize_report_advisory data = Inl e \<longleftrightarrow>
     (case data of Object obj \<Rightarrow> validate_required_fields obj = Inl e | _ \<Rightarrow> e = NotObject)"
  by (cases data) (auto simp: sanitize_report_advisory_def res_simps Let_def)

lemma confirmed_merge_cong:
  "(\<And>k. k \<in> {''success'', ''cancelled'', REPORT_ORIGIN_KEY, ''via''} \<Longrightarrow> get a k = get b k) \<Longrightarrow>
     report_is_confirmed_merge a = report_is_confirmed_merge b"
  by (simp add: report_is_confirmed_merge_def from_report_def get_str_def)

text \<open>The sanitizer fails exactly when the payload is no object or a required field is bad, with
  the strict validator's error; otherwise it leaves the outcome and the provenance alone, so a
  report is a confirmed merge after sanitizing exactly when it was one before.\<close>

theorem sanitize_preserves_outcome:
  "case sanitize_report_advisory data of
     Inl e \<Rightarrow> (case data of Object obj \<Rightarrow> validate_required_fields obj = Inl e | _ \<Rightarrow> e = NotObject)
   | Inr r \<Rightarrow> report_is_confirmed_merge (sr_report r) = report_is_confirmed_merge data \<and>
       from_report (sr_report r) = from_report data \<and>
       get (sr_report r) ''success'' = get data ''success'' \<and>
       get (sr_report r) ''cancelled'' = get data ''cancelled'' \<and>
       get (sr_report r) ''reason'' = get data ''reason''"
proof (cases "sanitize_report_advisory data")
  case (Inl e)
  then show ?thesis using sanitize_Inl[of data e] by simp
next
  case (Inr r)
  have keys: "get (sr_report r) k = get data k"
    if "k \<in> {''success'', ''cancelled'', ''reason'', REPORT_ORIGIN_KEY, ''via''}" for k
  proof -
    from that have "k \<notin> set ADVISORY_FIELDS" by (elim insertE emptyE) (simp_all add: ADVISORY_FIELDS_def)
    then show ?thesis by (rule sanitize_keeps_key[OF Inr])
  qed
  then have "report_is_confirmed_merge (sr_report r) = report_is_confirmed_merge data"
    by (intro confirmed_merge_cong) auto
  with Inr keys show ?thesis by (simp add: from_report_def)
qed

section \<open>Provenance\<close>

lemma de_report_origin_json: "de_report_origin (report_origin_json og) = Some og"
proof (cases og)
  case (OriginRunMerge oper w i)
  then show ?thesis
    by (cases oper; cases w; cases i)
      (simp_all add: report_origin_json_def de_report_origin_def opt_entry_def map_remove_def
        de_run_merge_def struct_fields_def optional_def de_option_def de_string_def)
qed (simp_all add: report_origin_json_def de_report_origin_def)

text \<open>Stamping an origin on a report object and reading it back returns that origin, whatever
  origin a caller had put there before; no other field changes, and restamping is idempotent.\<close>

theorem stamp_roundtrip:
  "from_report (stamp og (Object m)) = Some og \<and>
   (k \<noteq> REPORT_ORIGIN_KEY \<longrightarrow> get (stamp og (Object m)) k = get (Object m) k) \<and>
   stamp og (stamp og' (Object m)) = stamp og (Object m)"
proof -
  have "map_insert k v (map_insert k v' xs) = map_insert k v xs"
    for k v v' and xs :: "(string \<times> json) list"
    by (induction xs) auto
  then show ?thesis by (simp add: stamp_def from_report_def de_report_origin_json)
qed

theorem stamp_roundtrip_witness:
  "get (stamp OriginAgent (Object [(''success'', Bool True)])) ''success'' = Some (Bool True)"
  using stamp_roundtrip[of OriginAgent "[(''success'', Bool True)]" "''success''"] by simp

text \<open>A report whose \<open>origin\<close> field is present but is not a run-merge origin (an agent's, the
  supervisor's or an unreadable one) is never a confirmed merge, whatever its \<open>via\<close> claims; only
  a report without any origin falls back to the legacy \<open>via\<close>. A cancelled node never recovers.\<close>

theorem forged_via_is_no_merge:
  assumes "get report REPORT_ORIGIN_KEY \<noteq> None"
    and "\<not> (case from_report report of Some og \<Rightarrow> is_run_merge og | None \<Rightarrow> False)"
  shows "\<not> report_is_confirmed_merge report \<and> \<not> permits_terminal_merge_recovery s report"
  using assms by (auto simp: report_is_confirmed_merge_def permits_terminal_merge_recovery_def Let_def)

theorem forged_via_is_no_merge_witness:
  "\<not> report_is_confirmed_merge (Object [(''origin'', Object [(''kind'', String ''agent'')]),
     (''success'', Bool True), (''via'', String VIA_EXPLICIT_MERGE)])"
  (is "\<not> report_is_confirmed_merge ?r")
proof -
  have "get ?r REPORT_ORIGIN_KEY \<noteq> None"
    and "\<not> (case from_report ?r of Some og \<Rightarrow> is_run_merge og | None \<Rightarrow> False)"
    by code_simp+
  from forged_via_is_no_merge[OF this] show ?thesis by simp
qed

end
