(* ===== verification/Std_Text.thy ===== *)
theory Std_Text
  imports Node_Status
begin

text \<open>
  The text functions of Rust's standard library that the supervisor's adapters apply to the
  output of other programs: lossy UTF-8 decoding, splitting, trimming of ASCII white space
  and the parsing of unsigned numbers.
\<close>

section \<open>Lossy decoding\<close>

text \<open>
  \<open>String::from_utf8_lossy\<close>: a maximal ill-formed subsequence becomes one U+FFFD. The
  second byte of a sequence is constrained by its lead byte (no overlong forms, surrogates
  or code points above U+10FFFF).
\<close>

definition REPLACEMENT :: string where
  "REPLACEMENT = [CHR 0xEF, CHR 0xBF, CHR 0xBD]"

definition in_range :: "char \<Rightarrow> char \<Rightarrow> char \<Rightarrow> bool" where
  "in_range lo hi c \<longleftrightarrow> lo \<le> c \<and> c \<le> hi"

definition is_cont :: "char \<Rightarrow> bool" where
  "is_cont = in_range (CHR 0x80) (CHR 0xBF)"

text \<open>The number of continuation bytes a lead byte asks for, and the test of the first one.\<close>

definition utf8_lead :: "char \<Rightarrow> (nat \<times> (char \<Rightarrow> bool)) option" where
  "utf8_lead c =
     (if c < CHR 0x80 then Some (0, is_cont)
      else if in_range (CHR 0xC2) (CHR 0xDF) c then Some (1, is_cont)
      else if c = CHR 0xE0 then Some (2, in_range (CHR 0xA0) (CHR 0xBF))
      else if c = CHR 0xED then Some (2, in_range (CHR 0x80) (CHR 0x9F))
      else if in_range (CHR 0xE1) (CHR 0xEF) c then Some (2, is_cont)
      else if c = CHR 0xF0 then Some (3, in_range (CHR 0x90) (CHR 0xBF))
      else if in_range (CHR 0xF1) (CHR 0xF3) c then Some (3, is_cont)
      else if c = CHR 0xF4 then Some (3, in_range (CHR 0x80) (CHR 0x8F))
      else None)"

text \<open>The bytes of the sequence that are well-formed, at most \<open>n\<close> after the lead byte.\<close>

fun conts :: "nat \<Rightarrow> (char \<Rightarrow> bool) \<Rightarrow> string \<Rightarrow> nat" where
  "conts 0 ok s = 0"
| "conts (Suc n) ok [] = 0"
| "conts (Suc n) ok (c # s) = (if ok c then Suc (conts n is_cont s) else 0)"

function from_utf8_lossy :: "bytes \<Rightarrow> string" where
  "from_utf8_lossy [] = []"
| "from_utf8_lossy (c # s) = (case utf8_lead c of
       None \<Rightarrow> REPLACEMENT @ from_utf8_lossy s
     | Some (n, ok) \<Rightarrow>
         let k = conts n ok s in
         (if k = n then c # take n s else REPLACEMENT) @ from_utf8_lossy (drop k s))"
  by pat_completeness auto
termination
  by (relation "measure length") (auto simp: le_imp_less_Suc)

text \<open>\<open>std::str::from_utf8\<close> accepts exactly the well-formed byte strings.\<close>

function utf8_valid :: "bytes \<Rightarrow> bool" where
  "utf8_valid [] \<longleftrightarrow> True"
| "utf8_valid (c # s) \<longleftrightarrow> (case utf8_lead c of
       None \<Rightarrow> False
     | Some (n, ok) \<Rightarrow> conts n ok s = n \<and> utf8_valid (drop n s))"
  by pat_completeness auto
termination
  by (relation "measure length") (auto simp: le_imp_less_Suc)

definition from_utf8 :: "bytes \<Rightarrow> string option" where
  "from_utf8 s = (if utf8_valid s then Some s else None)"

lemma from_utf8_lossy_valid: "utf8_valid s \<Longrightarrow> from_utf8_lossy s = s"
  by (induction s rule: utf8_valid.induct) (auto split: option.splits simp: Let_def)

lemma from_utf8_lossy_ascii:
  assumes "list_all (\<lambda>c. c < CHR 0x80) s"
  shows "from_utf8_lossy s = s"
  using assms by (induction s) (auto simp: utf8_lead_def)

section \<open>Splitting and trimming\<close>

text \<open>\<open>split(|b| b == sep)\<close>: always at least one piece.\<close>

fun split_on :: "char \<Rightarrow> string \<Rightarrow> string list" where
  "split_on sep [] = [[]]"
| "split_on sep (c # s) =
     (if c = sep then [] # split_on sep s
      else case split_on sep s of [] \<Rightarrow> [[c]] | p # ps \<Rightarrow> (c # p) # ps)"

lemma split_on_no_sep: "sep \<notin> set s \<Longrightarrow> split_on sep s = [s]"
  by (induction s) auto

lemma split_on_append: "sep \<notin> set s \<Longrightarrow> split_on sep (s @ sep # t) = s # split_on sep t"
  by (induction s) auto

definition trim_ascii :: "bytes \<Rightarrow> bytes" where
  "trim_ascii b = rev (dropWhile is_ascii_whitespace (rev (dropWhile is_ascii_whitespace b)))"

lemma trim_ascii_id:
  assumes "b \<noteq> []" and "\<not> is_ascii_whitespace (hd b)" and "\<not> is_ascii_whitespace (last b)"
  shows "trim_ascii b = b"
proof -
  have "dropWhile is_ascii_whitespace b = b"
    using assms(1,2) by (cases b) auto
  moreover have "dropWhile is_ascii_whitespace (rev b) = rev b"
    using assms(1,3) by (cases "rev b") (auto simp: last_rev hd_rev)
  ultimately show ?thesis by (simp add: trim_ascii_def)
qed

text \<open>\<open>split_whitespace\<close>: the maximal runs of bytes that start no white-space character.\<close>

function split_ws_loop :: "string \<Rightarrow> string \<Rightarrow> string list" where
  "split_ws_loop word [] = (if word = [] then [] else [rev word])"
| "split_ws_loop word (c # s) =
     (case List.find (\<lambda>w. w \<noteq> [] \<and> prefix w (c # s)) white_space_utf8 of
        None \<Rightarrow> split_ws_loop (c # word) s
      | Some w \<Rightarrow> (if word = [] then [] else [rev word]) @
          split_ws_loop [] (drop (length w) (c # s)))"
  by pat_completeness auto
termination
proof (relation "measure (\<lambda>(word, s). length s)", goal_cases)
  case (3 word c s w)
  then have "w \<noteq> []" by (auto simp: find_Some_iff)
  then show ?case by (cases w) auto
qed auto

definition split_whitespace :: "string \<Rightarrow> string list" where
  "split_whitespace s = split_ws_loop [] s"

text \<open>\<open>split_once(sep)\<close> at the first separator, and \<open>lines()\<close>: the pieces between line
  feeds, each without one trailing carriage return, an empty last piece dropped.\<close>

definition split_once :: "char \<Rightarrow> string \<Rightarrow> (string \<times> string) option" where
  "split_once sep s = (if sep \<in> set s
     then Some (takeWhile (\<lambda>c. c \<noteq> sep) s, tl (dropWhile (\<lambda>c. c \<noteq> sep) s)) else None)"

definition strip_cr :: "string \<Rightarrow> string" where
  "strip_cr s = (if s \<noteq> [] \<and> last s = CHR 0x0D then butlast s else s)"

definition str_lines :: "string \<Rightarrow> string list" where
  "str_lines s = (let ps = split_on CHR 0x0A s in
     map strip_cr (butlast ps) @ (if last ps = [] then [] else [last ps]))"

fun find_map :: "('a \<Rightarrow> 'b option) \<Rightarrow> 'a list \<Rightarrow> 'b option" where
  "find_map f [] = None"
| "find_map f (x # xs) = (case f x of Some y \<Rightarrow> Some y | None \<Rightarrow> find_map f xs)"

text \<open>\<open>rsplit_once(p)\<close>: the parts around the last occurrence of \<open>p\<close>.\<close>

fun rsplit_once :: "string \<Rightarrow> string \<Rightarrow> (string \<times> string) option" where
  "rsplit_once p s = (case (case s of [] \<Rightarrow> None | c # t \<Rightarrow>
       map_option (\<lambda>(a, b). (c # a, b)) (rsplit_once p t)) of
      Some r \<Rightarrow> Some r
    | None \<Rightarrow> map_option (\<lambda>b. ([], b)) (strip_prefix p s))"

declare rsplit_once.simps [simp del]

section \<open>Numbers\<close>

definition parse_u32 :: "string \<Rightarrow> u32 option" where
  "parse_u32 s = Option.bind (parse_u64 s) try_u32"

definition saturating_mul :: "'a::len word \<Rightarrow> 'a word \<Rightarrow> 'a word" where
  "saturating_mul a b = (if unat a * unat b < 2 ^ LENGTH('a) then a * b else - 1)"

definition saturating_sub :: "'a::len word \<Rightarrow> 'a word \<Rightarrow> 'a word" where
  "saturating_sub a b = (if b \<le> a then a - b else 0)"

text \<open>\<open>chars().take(n).collect()\<close> on UTF-8 text: continuation bytes belong to the character before.\<close>

fun take_chars :: "nat \<Rightarrow> string \<Rightarrow> string" where
  "take_chars k [] = []"
| "take_chars k (c # s) =
     (if is_cont c then c # take_chars k s
      else case k of 0 \<Rightarrow> [] | Suc j \<Rightarrow> c # take_chars j s)"

end
