(* ===== verification/Adapters.thy ===== *)
theory Adapters
  imports Std_Text Reducer_Work
begin

text \<open>
  The typed adapters over the \<open>git\<close> and \<open>tmux\<close> programs (\<open>git/repo.rs\<close>,
  \<open>multiplexer/tmux.rs\<close>). The programs and the file system are the parameter \<open>host\<close> over an
  arbitrary type \<open>'w\<close> of outside worlds: commands that only read answer from the world,
  commands that write also return the next one. The evidence archive (\<open>evidence.rs\<close>), the
  retained displays (\<open>session.rs\<close>) and the authenticated removal of a leftover checkout are
  fields of \<open>host\<close> as well. Each adapter function builds the same
  argument list as the source and reads the output the same way.
\<close>

section \<open>The outside world\<close>

text \<open>\<open>Command::output()\<close>: not spawned, or the exit code (\<open>None\<close> when killed by a signal),
  standard output and standard error.\<close>

datatype cmd_output = CmdSpawnErr string | CmdExited "int option" bytes bytes

datatype retention = Retained | NotApplicable | Unavailable | RetryRetention

record 'w host =
  git_read :: "'w \<Rightarrow> string \<Rightarrow> string list \<Rightarrow> cmd_output"       \<comment> \<open>\<open>git -C dir args\<close>\<close>
  git_write :: "'w \<Rightarrow> string \<Rightarrow> string list \<Rightarrow> cmd_output \<times> 'w"
  tmux_read :: "'w \<Rightarrow> string option \<Rightarrow> string list \<Rightarrow> cmd_output"  \<comment> \<open>\<open>tmux -u [-S socket] args\<close>\<close>
  tmux_write :: "'w \<Rightarrow> string option \<Rightarrow> string list \<Rightarrow> cmd_output \<times> 'w"
  path_exists :: "'w \<Rightarrow> string \<Rightarrow> bool"
  remove_leftover :: "'w \<Rightarrow> 'w \<Rightarrow> string \<Rightarrow> string \<Rightarrow> bool \<times> 'w"
    \<comment> \<open>removal of a checkout git has unregistered but not deleted, authenticated against
      what the first world, the one before git's removal, shows at its path\<close>
  save_dormant_pane :: "node \<Rightarrow> 'w \<Rightarrow> bool \<times> 'w"
  archive_before_cleanup :: "run_dir \<Rightarrow> node \<Rightarrow> 'w \<Rightarrow> bool \<times> run_dir \<times> 'w"
  retain_completed_display :: "run_dir \<Rightarrow> node \<Rightarrow> 'w \<Rightarrow> retention \<times> run_dir \<times> 'w"
  close_original_workmux_window :: "node \<Rightarrow> 'w \<Rightarrow> 'w"
  close_persistent_non_pi :: "node \<Rightarrow> 'w \<Rightarrow> 'w"

fun cmd_success :: "cmd_output \<Rightarrow> bool" where
  "cmd_success (CmdSpawnErr e) = False"
| "cmd_success (CmdExited code out err) = (code = Some 0)"

text \<open>The standard output of a command that exited with status 0.\<close>

fun stdout_ok :: "cmd_output \<Rightarrow> bytes option" where
  "stdout_ok (CmdSpawnErr e) = None"
| "stdout_ok (CmdExited code out err) = (if code = Some 0 then Some out else None)"

section \<open>Git\<close>

record worktree_registration =
  wr_path :: string
  wr_branch :: "string option"

fun registration_loop ::
    "worktree_registration list \<Rightarrow> worktree_registration option \<Rightarrow> bytes list \<Rightarrow>
     worktree_registration list option" where
  "registration_loop rows current [] =
     (let rows = rows @ (case current of None \<Rightarrow> [] | Some r \<Rightarrow> [r]) in
      if rows = [] then None else Some rows)"
| "registration_loop rows current (raw # rest) =
     (if raw = [] then
        registration_loop (rows @ (case current of None \<Rightarrow> [] | Some r \<Rightarrow> [r])) None rest
      else case from_utf8 raw of
          None \<Rightarrow> None
        | Some field \<Rightarrow>
            (case strip_prefix ''worktree '' field of
               Some path \<Rightarrow>
                 if current \<noteq> None \<or> path = [] then None
                 else registration_loop rows (Some \<lparr>wr_path = path, wr_branch = None\<rparr>) rest
             | None \<Rightarrow>
                 (case strip_prefix ''branch refs/heads/'' field of
                    Some branch \<Rightarrow>
                      (case current of
                         None \<Rightarrow> None
                       | Some row \<Rightarrow>
                           if branch = [] then None
                           else registration_loop rows (Some (row\<lparr>wr_branch := Some branch\<rparr>))
                                  rest)
                  | None \<Rightarrow> registration_loop rows current rest)))"

definition parse_worktree_registrations :: "bytes \<Rightarrow> worktree_registration list option" where
  "parse_worktree_registrations bs = registration_loop [] None (split_on CHR 0x00 bs)"

definition worktree_registrations ::
    "'w host \<Rightarrow> 'w \<Rightarrow> string \<Rightarrow> worktree_registration list option" where
  "worktree_registrations H w repo =
     Option.bind (stdout_ok (git_read H w repo [''worktree'', ''list'', ''--porcelain'', ''-z'']))
       parse_worktree_registrations"

definition main_worktree :: "'w host \<Rightarrow> 'w \<Rightarrow> string \<Rightarrow> string option" where
  "main_worktree H w dir = Option.bind (worktree_registrations H w dir)
     (\<lambda>rows. case rows of [] \<Rightarrow> None | row # _ \<Rightarrow> Some (wr_path row))"

definition rev_list_count :: "'w host \<Rightarrow> 'w \<Rightarrow> string \<Rightarrow> string \<Rightarrow> string \<Rightarrow> u64 option" where
  "rev_list_count H w repo from_rev to_rev =
     (if from_rev = [] \<or> to_rev = [] then None
      else Option.bind (stdout_ok (git_read H w repo
             [''rev-list'', ''--count'', ''--end-of-options'', from_rev @ ''..'' @ to_rev]))
           (\<lambda>out. parse_u64 (trim (from_utf8_lossy out))))"

text \<open>The trimmed output of a query, when there is any.\<close>

definition nonempty_output :: "cmd_output \<Rightarrow> string option" where
  "nonempty_output out = Option.bind (stdout_ok out)
     (\<lambda>bs. let s = trim (from_utf8_lossy bs) in if s = [] then None else Some s)"

definition head_oid :: "'w host \<Rightarrow> 'w \<Rightarrow> string \<Rightarrow> string option" where
  "head_oid H w dir = nonempty_output (git_read H w dir [''rev-parse'', ''HEAD''])"

definition head_branch :: "'w host \<Rightarrow> 'w \<Rightarrow> string \<Rightarrow> string option" where
  "head_branch H w dir =
     nonempty_output (git_read H w dir [''symbolic-ref'', ''--quiet'', ''--short'', ''HEAD''])"

definition is_ancestor :: "'w host \<Rightarrow> 'w \<Rightarrow> string \<Rightarrow> string \<Rightarrow> string \<Rightarrow> bool" where
  "is_ancestor H w repo ancestor descendant =
     cmd_success (git_read H w repo [''merge-base'', ''--is-ancestor'', ancestor, descendant])"

definition merge_tree_clean :: "'w host \<Rightarrow> 'w \<Rightarrow> string \<Rightarrow> string \<Rightarrow> string \<Rightarrow> bool" where
  "merge_tree_clean H w repo source branch =
     cmd_success (git_read H w repo [''merge-tree'', ''--write-tree'', source, branch])"

definition worktree_status_clean :: "'w host \<Rightarrow> 'w \<Rightarrow> string \<Rightarrow> bool option" where
  "worktree_status_clean H w dir =
     map_option (list_all is_ascii_whitespace)
       (stdout_ok (git_read H w dir [''status'', ''--porcelain'', ''--untracked-files=all'']))"

text \<open>\<open>run_lenient_detail\<close>: \<open>None\<close> is success, \<open>Some\<close> the captured failure.\<close>

fun run_lenient_detail :: "cmd_output \<Rightarrow> string option" where
  "run_lenient_detail (CmdSpawnErr e) = Some (''spawn failed: '' @ e)"
| "run_lenient_detail (CmdExited code out err) =
     (if code = Some 0 then None else Some (trim (from_utf8_lossy err)))"

definition worktree_remove_detail ::
    "'w host \<Rightarrow> 'w \<Rightarrow> string \<Rightarrow> string \<Rightarrow> bool \<Rightarrow> string option \<times> 'w" where
  "worktree_remove_detail H w repo worktree_path force =
     (case git_write H w repo
        ([''worktree'', ''remove''] @ (if force then [''--force''] else []) @ [worktree_path]) of
        (out, w') \<Rightarrow> (run_lenient_detail out, w'))"

definition worktree_remove :: "'w host \<Rightarrow> 'w \<Rightarrow> string \<Rightarrow> string \<Rightarrow> bool \<Rightarrow> bool \<times> 'w" where
  "worktree_remove H w repo worktree_path force =
     (case worktree_remove_detail H w repo worktree_path force of
        (detail, w') \<Rightarrow> (detail = None, w'))"

definition branch_delete ::
    "'w host \<Rightarrow> 'w \<Rightarrow> string \<Rightarrow> string \<Rightarrow> bool \<Rightarrow> string option \<times> 'w" where
  "branch_delete H w repo branch force =
     (case git_write H w repo
        [''branch'', if force then ''-D'' else ''-d'', ''--'', branch] of
        (out, w') \<Rightarrow> (run_lenient_detail out, w'))"

section \<open>Tmux\<close>

definition kill_window :: "'w host \<Rightarrow> 'w \<Rightarrow> string option \<Rightarrow> string \<Rightarrow> bool \<times> 'w" where
  "kill_window H w socket target =
     (case tmux_write H w socket [''kill-window'', ''-t'', target] of
        (out, w') \<Rightarrow> (cmd_success out, w'))"

definition kill_session :: "'w host \<Rightarrow> 'w \<Rightarrow> string option \<Rightarrow> string \<Rightarrow> bool \<times> 'w" where
  "kill_session H w socket session =
     (case tmux_write H w socket [''kill-session'', ''-t'', session] of
        (out, w') \<Rightarrow> (cmd_success out, w'))"

datatype window_scope = ScopeSession string | ScopeAll

definition list_windows_raw ::
    "'w host \<Rightarrow> 'w \<Rightarrow> string option \<Rightarrow> window_scope \<Rightarrow> string \<Rightarrow> string option" where
  "list_windows_raw H w socket scope fmt =
     map_option from_utf8_lossy (stdout_ok (tmux_read H w socket
       ([''list-windows''] @ (case scope of ScopeSession s \<Rightarrow> [''-t'', s] | ScopeAll \<Rightarrow> [''-a'']) @
        [''-F'', fmt])))"

definition TAB :: char where
  "TAB = CHR 0x09"

definition find_window_by_path ::
    "'w host \<Rightarrow> 'w \<Rightarrow> string option \<Rightarrow> string option \<Rightarrow> string \<Rightarrow> string option" where
  "find_window_by_path H w socket session worktree_path =
     Option.bind (list_windows_raw H w socket
         (case session of Some s \<Rightarrow> ScopeSession s | None \<Rightarrow> ScopeAll)
         (''#{window_id}'' @ [TAB] @ ''#{pane_current_path}''))
       (\<lambda>out. find_map (\<lambda>line. case split_once TAB line of
            None \<Rightarrow> None
          | Some (wid, path) \<Rightarrow>
              if trim_end path \<noteq> worktree_path then None
              else (let wid = trim wid in if wid = [] then None else Some wid)) (str_lines out))"

definition list_session_windows ::
    "'w host \<Rightarrow> 'w \<Rightarrow> string option \<Rightarrow> string \<Rightarrow> (bool \<times> string list) option" where
  "list_session_windows H w socket session =
     map_option (\<lambda>out.
        let rows = List.map_filter (split_once TAB) (str_lines out) in
        (list_ex (\<lambda>(att, _). trim att \<noteq> ''0'') rows,
         filter (\<lambda>n. n \<noteq> []) (map (\<lambda>(_, name). trim_end name) rows)))
       (list_windows_raw H w socket (ScopeSession session)
         (''#{session_attached}'' @ [TAB] @ ''#{window_name}''))"

end
