(* ===== verification/Outcome.thy ===== *)
theory Outcome
  imports Report
begin

text \<open>
  The outcome tables of \<open>supervise/outcome.rs\<close>: what the terminal report of a node says, which
  teardown that authorizes, and what the watchdog does about a node that is still live.
\<close>

section \<open>Reasons the supervisor stamps\<close>

definition WORKER_EXITED_NONZERO_REASON :: string where
  "WORKER_EXITED_NONZERO_REASON = ''worker-exited-nonzero''"

definition WORKER_KILLED_BY_SIGNAL_REASON :: string where
  "WORKER_KILLED_BY_SIGNAL_REASON = ''worker-killed-by-signal''"

definition NO_WORKER_REASON :: string where
  "NO_WORKER_REASON = ''no-worker-node''"

definition AGENT_DIED_REASON_PREFIX :: string where
  "AGENT_DIED_REASON_PREFIX = ''agent-''"

section \<open>Terminal outcomes\<close>

datatype teardown = Full | PreserveWork | SourceRelative

datatype terminal_outcome =
    OutMerged
  | OutBlocked
  | OutFailed
  | OutCancelled
  | OutPlainSuccess

definition is_supervisor_failure :: "json \<Rightarrow> bool \<Rightarrow> report_origin option \<Rightarrow> bool" where
  "is_supervisor_failure report origin_present og = (case og of
       Some OriginSupervisor \<Rightarrow> True
     | Some _ \<Rightarrow> False
     | None \<Rightarrow>
         if origin_present then False
         else (case get_str report ''reason'' of
             None \<Rightarrow> False
           | Some reason \<Rightarrow>
               reason = WORKER_EXITED_NONZERO_REASON
               \<or> reason = WORKER_KILLED_BY_SIGNAL_REASON
               \<or> reason = NO_WORKER_REASON
               \<or> prefix AGENT_DIED_REASON_PREFIX reason))"

definition classify :: "node \<Rightarrow> terminal_outcome option" where
  "classify n = (case n_last_report n of
       None \<Rightarrow> None
     | Some report \<Rightarrow>
         (let success = get_bool report ''success'';
              cancelled = (get_bool report ''cancelled'' = Some True);
              origin_present = (get report REPORT_ORIGIN_KEY \<noteq> None);
              og = from_report report
          in if cancelled then Some OutCancelled
             else if report_is_confirmed_merge report then Some OutMerged
             else case success of
                 Some False \<Rightarrow>
                   Some (if is_supervisor_failure report origin_present og then OutFailed
                         else OutBlocked)
               | Some True \<Rightarrow> Some OutPlainSuccess
               | None \<Rightarrow> Some OutBlocked))"

fun outcome_teardown :: "terminal_outcome \<Rightarrow> teardown" where
  "outcome_teardown OutMerged = Full"
| "outcome_teardown OutBlocked = PreserveWork"
| "outcome_teardown OutFailed = PreserveWork"
| "outcome_teardown OutCancelled = SourceRelative"
| "outcome_teardown OutPlainSuccess = SourceRelative"

definition is_explicit_merge :: "terminal_outcome \<Rightarrow> bool" where
  "is_explicit_merge x \<longleftrightarrow> x = OutMerged"

section \<open>Live nodes\<close>

datatype death_observation = ObsAlive | DeadWithinGrace | DeadGraceElapsed

datatype live_verdict =
    WorkerFailed worker_exit
  | AttentionRequired
  | CrashBackstopFailed
  | DeferGrace
  | VerdictAlive
  | RoundWaiting

definition classify_live_node :: "worker_exit option \<Rightarrow> death_observation \<Rightarrow> live_verdict" where
  "classify_live_node worker_exit death = (case worker_exit of
       Some x \<Rightarrow> if is_failure x then WorkerFailed x else AttentionRequired
     | None \<Rightarrow> (case death of
           ObsAlive \<Rightarrow> VerdictAlive
         | DeadWithinGrace \<Rightarrow> DeferGrace
         | DeadGraceElapsed \<Rightarrow> CrashBackstopFailed))"

definition classify_live_node_with_round ::
    "bool \<Rightarrow> worker_exit option \<Rightarrow> death_observation \<Rightarrow> live_verdict" where
  "classify_live_node_with_round round_reported worker_exit death =
     (if round_reported then RoundWaiting else classify_live_node worker_exit death)"

end
