(* ===== verification/Teardown.thy ===== *)
theory Teardown
  imports Adapters Outcome Cancel
begin

text \<open>
  Teardown of terminal nodes (\<open>supervise/cleanup.rs\<close>): the roll-up decision, the guards that
  decide whether a worktree and its branch may go, the removal itself and the audit events it
  leaves on the run log. The caller-owned path (\<open>cleanup_caller_nodes\<close>) is not modelled.
  A step takes the run directory and the outside world and returns both.
\<close>

section \<open>Roll-up\<close>

definition ok_flatten :: "'a option res \<Rightarrow> 'a option" where
  "ok_flatten r = (case r of Inl _ \<Rightarrow> None | Inr x \<Rightarrow> x)"

record rollup_outcome =
  ro_status :: status
  ro_recovery_merge_seq :: "u64 option"

definition max_seq :: "u64 list \<Rightarrow> u64 option" where
  "max_seq ss = (case ss of [] \<Rightarrow> None | s # t \<Rightarrow> Some (fold max t s))"

definition rollup_decision :: "ext \<Rightarrow> run_id \<Rightarrow> run_dir \<Rightarrow> bool \<Rightarrow> bool \<Rightarrow> rollup_outcome option" where
  "rollup_decision X rid d children_all_terminal children_all_successful =
     (case ok_flatten (read_manifest_opt rid d) of
        None \<Rightarrow> None
      | Some manifest \<Rightarrow>
          if m_status manifest \<in> {Done, Cancelled} then None
          else if \<not> children_all_terminal then None
          else case read_node_status_facts X d None of
              Inl _ \<Rightarrow> None
            | Inr node_facts \<Rightarrow>
                (case aggregate_terminal_status (map nf_status node_facts) of
                   None \<Rightarrow> None
                 | Some s \<Rightarrow>
                     if m_status manifest = Failed then
                       (if s \<noteq> Done \<or> \<not> children_all_successful then None
                        else map_option (\<lambda>seq. \<lparr>ro_status = Done, ro_recovery_merge_seq = Some seq\<rparr>)
                               (max_seq (List.map_filter nf_confirmed_merge_seq node_facts)))
                     else Some \<lparr>ro_status = s, ro_recovery_merge_seq = None\<rparr>))"

section \<open>Audit events\<close>

definition opt_str :: "string option \<Rightarrow> json" where
  "opt_str s = (case s of None \<Rightarrow> Null | Some x \<Rightarrow> String x)"

definition audit_key :: "string \<Rightarrow> run_id \<Rightarrow> node \<Rightarrow> string" where
  "audit_key k rid n = k @ '':'' @ run_id_str rid @ '':'' @ node_id_str (n_node_id n)"

text \<open>The keyed append every \<open>record_*\<close> function ends with, and whether it succeeded.\<close>

definition audit ::
    "ext \<Rightarrow> (u64 \<Rightarrow> time) \<Rightarrow> run_id \<Rightarrow> node \<Rightarrow> string \<Rightarrow> json \<Rightarrow> run_dir \<Rightarrow> bool \<times> run_dir" where
  "audit X clock rid n k data d =
     (case append_and_apply_event X clock rid k (Some (n_node_id n)) (Some (audit_key k rid n)) data d of
        (Inl _, d') \<Rightarrow> (False, d') | (Inr _, d') \<Rightarrow> (True, d'))"

definition record_window_missing ::
    "ext \<Rightarrow> (u64 \<Rightarrow> time) \<Rightarrow> run_id \<Rightarrow> node \<Rightarrow> string \<Rightarrow> run_dir \<Rightarrow> run_dir" where
  "record_window_missing X clock rid n target d =
     snd (audit X clock rid n ''cleanup.window_missing''
       (Object [(''method'', String (if n_tmux_identity n \<noteq> None then ''window-id'' else ''window-name'')),
          (''node_id'', String (node_id_str (n_node_id n))),
          (''window'', String target),
          (''worktree_path'', opt_str (n_worktree_path n))]) d)"

definition record_worktree_missing ::
    "ext \<Rightarrow> (u64 \<Rightarrow> time) \<Rightarrow> run_id \<Rightarrow> node \<Rightarrow> string \<Rightarrow> run_dir \<Rightarrow> run_dir" where
  "record_worktree_missing X clock rid n worktree_path d =
     snd (audit X clock rid n ''cleanup.worktree_missing''
       (Object [(''branch'', opt_str (n_branch n)),
          (''node_id'', String (node_id_str (n_node_id n))),
          (''worktree_path'', String worktree_path)]) d)"

definition record_worktree_remove_failed ::
    "ext \<Rightarrow> (u64 \<Rightarrow> time) \<Rightarrow> run_id \<Rightarrow> node \<Rightarrow> string \<Rightarrow> run_dir \<Rightarrow> run_dir" where
  "record_worktree_remove_failed X clock rid n checkout d =
     snd (audit X clock rid n ''cleanup.worktree_remove_failed''
       (Object [(''branch'', opt_str (n_branch n)), (''worktree_path'', String checkout)]) d)"

definition record_branch_remove_failed ::
    "ext \<Rightarrow> (u64 \<Rightarrow> time) \<Rightarrow> run_id \<Rightarrow> node \<Rightarrow> string \<Rightarrow> string \<Rightarrow> run_dir \<Rightarrow> run_dir" where
  "record_branch_remove_failed X clock rid n branch detail d =
     snd (audit X clock rid n ''cleanup.branch_remove_failed''
       (Object [(''branch'', String branch), (''error'', String detail),
          (''node_id'', String (node_id_str (n_node_id n)))]) d)"

definition record_branch_preserved ::
    "ext \<Rightarrow> (u64 \<Rightarrow> time) \<Rightarrow> run_id \<Rightarrow> node \<Rightarrow> string option \<Rightarrow> string \<Rightarrow> string \<Rightarrow> run_dir \<Rightarrow>
     bool \<times> run_dir" where
  "record_branch_preserved X clock rid n branch worktree_path reason d =
     audit X clock rid n ''cleanup.branch_preserved''
       (Object [(''branch'', opt_str branch), (''node_id'', String (node_id_str (n_node_id n))),
          (''reason'', String reason), (''worktree_path'', String worktree_path)]) d"

definition preserve_reason :: "terminal_outcome option \<Rightarrow> string" where
  "preserve_reason x = (if x = Some OutFailed then ''failed (branch preserved)'' else ''blocked report'')"

section \<open>Guards\<close>

datatype unmerged_check = HasUnmerged | UnmergedUnverifiable | NoUnmerged

definition branch_unmerged_vs_source ::
    "'w host \<Rightarrow> 'w \<Rightarrow> string \<Rightarrow> string \<Rightarrow> string \<Rightarrow> unmerged_check" where
  "branch_unmerged_vs_source H w repo source branch = (case rev_list_count H w repo source branch of
       Some count \<Rightarrow> if count > 0 then HasUnmerged else NoUnmerged
     | None \<Rightarrow> UnmergedUnverifiable)"

datatype cleanliness = Clean | Dirty | CleanUnverifiable

definition worktree_cleanliness :: "'w host \<Rightarrow> 'w \<Rightarrow> string option \<Rightarrow> cleanliness" where
  "worktree_cleanliness H w worktree_path = (case filter_opt (\<lambda>s. s \<noteq> []) worktree_path of
       None \<Rightarrow> Clean
     | Some wt \<Rightarrow>
         if \<not> path_exists H w wt then Clean
         else case worktree_status_clean H w wt of
             Some True \<Rightarrow> Clean
           | Some False \<Rightarrow> Dirty
           | None \<Rightarrow> CleanUnverifiable)"

definition worktree_is_clean :: "'w host \<Rightarrow> 'w \<Rightarrow> string option \<Rightarrow> bool" where
  "worktree_is_clean H w worktree_path \<longleftrightarrow> worktree_cleanliness H w worktree_path = Clean"

datatype head_teardown = DeferToBranch | HeadSafe | HeadPreserve string

datatype head_reach = InSource | NotInSource | ReachUnverifiable | NoSource

definition head_reach_from_source ::
    "'w host \<Rightarrow> 'w \<Rightarrow> string \<Rightarrow> string option \<Rightarrow> string \<Rightarrow> head_reach" where
  "head_reach_from_source H w repo source oid = (case source of
       Some src \<Rightarrow> (case rev_list_count H w repo src oid of
           Some n \<Rightarrow> if n = 0 then InSource else NotInSource
         | None \<Rightarrow> ReachUnverifiable)
     | None \<Rightarrow> NoSource)"

definition head_teardown_safety ::
    "'w host \<Rightarrow> 'w \<Rightarrow> string \<Rightarrow> string \<Rightarrow> string option \<Rightarrow> string option \<Rightarrow> head_teardown" where
  "head_teardown_safety H w repo worktree_path recorded_branch source =
     (case head_oid H w worktree_path of
        None \<Rightarrow> HeadPreserve ''worktree HEAD unreadable (git error; preserving)''
      | Some oid \<Rightarrow>
          (case head_branch H w worktree_path of
             Some b \<Rightarrow>
               if recorded_branch = Some b then DeferToBranch
               else (case head_reach_from_source H w repo source oid of
                   InSource \<Rightarrow> HeadSafe
                 | NotInSource \<Rightarrow> HeadPreserve
                     ''HEAD on a non-recorded branch has commits not in source (no explicit merge)''
                 | ReachUnverifiable \<Rightarrow> HeadPreserve
                     ''HEAD-branch unmerged-commit check unavailable (git error; preserving)''
                 | NoSource \<Rightarrow> HeadPreserve
                     ''HEAD on a branch other than the recorded one, no recorded source to verify against (preserving)'')
           | None \<Rightarrow>
               (case head_reach_from_source H w repo source oid of
                   InSource \<Rightarrow> HeadSafe
                 | NotInSource \<Rightarrow> HeadPreserve
                     ''detached HEAD has commits not in source (no explicit merge)''
                 | ReachUnverifiable \<Rightarrow> HeadPreserve
                     ''detached HEAD unmerged-commit check unavailable (git error; preserving)''
                 | NoSource \<Rightarrow> HeadPreserve
                     ''detached HEAD with no recorded source to verify against (preserving)'')))"

definition manifest_source_repo :: "run_id \<Rightarrow> run_dir \<Rightarrow> string option" where
  "manifest_source_repo rid d = filter_opt (\<lambda>s. s \<noteq> [])
     (Option.bind (ok_flatten (read_manifest_opt rid d)) m_source_repo)"

definition manifest_source_branch :: "run_id \<Rightarrow> run_dir \<Rightarrow> string option" where
  "manifest_source_branch rid d = filter_opt (\<lambda>s. s \<noteq> [])
     (Option.bind (ok_flatten (read_manifest_opt rid d)) m_source_branch)"

section \<open>Recoverable work\<close>

definition git_ahead_count :: "'w host \<Rightarrow> 'w \<Rightarrow> string \<Rightarrow> string \<Rightarrow> string \<Rightarrow> u64 option" where
  "git_ahead_count H w repo base branch = rev_list_count H w repo base branch"

definition branch_merges_cleanly :: "'w host \<Rightarrow> 'w \<Rightarrow> string \<Rightarrow> string \<Rightarrow> string \<Rightarrow> bool" where
  "branch_merges_cleanly H w repo source branch \<longleftrightarrow>
     (if is_ancestor H w repo source branch then True else merge_tree_clean H w repo source branch)"

record recoverability =
  rc_unmerged_commits :: u64
  rc_merges_cleanly :: bool
  rc_branch :: string
  rc_worktree_path :: "string option"

definition recoverable :: "recoverability \<Rightarrow> bool" where
  "recoverable r \<longleftrightarrow> rc_unmerged_commits r > 0 \<and> rc_merges_cleanly r"

definition to_report_value :: "recoverability \<Rightarrow> json" where
  "to_report_value r = Object
     [(''branch'', String (rc_branch r)), (''merges_cleanly'', Bool (rc_merges_cleanly r)),
      (''recoverable'', Bool (recoverable r)),
      (''unmerged_commits'', Number (PosInt (rc_unmerged_commits r))),
      (''worktree_path'', opt_str (rc_worktree_path r))]"

text \<open>The inputs both probes need: a branch, a source branch and a repository to ask.\<close>

definition probe_inputs :: "run_id \<Rightarrow> run_dir \<Rightarrow> node \<Rightarrow> (string \<times> string \<times> string) option" where
  "probe_inputs rid d n = do {
     branch \<leftarrow> filter_opt (\<lambda>s. s \<noteq> []) (n_branch n);
     manifest \<leftarrow> ok_flatten (read_manifest_opt rid d);
     source \<leftarrow> filter_opt (\<lambda>s. s \<noteq> []) (m_source_branch manifest);
     repo \<leftarrow> (case filter_opt (\<lambda>s. s \<noteq> []) (m_source_repo manifest) of
        Some r \<Rightarrow> Some r | None \<Rightarrow> n_worktree_path n);
     Some (repo, source, branch) }"

definition node_recoverability ::
    "'w host \<Rightarrow> 'w \<Rightarrow> run_id \<Rightarrow> run_dir \<Rightarrow> node \<Rightarrow> recoverability option" where
  "node_recoverability H w rid d n = do {
     (repo, source, branch) \<leftarrow> probe_inputs rid d n;
     ahead \<leftarrow> filter_opt (\<lambda>a. a > 0) (git_ahead_count H w repo source branch);
     Some \<lparr>rc_unmerged_commits = ahead,
       rc_merges_cleanly = branch_merges_cleanly H w repo source branch,
       rc_branch = branch, rc_worktree_path = filter_opt (\<lambda>s. s \<noteq> []) (n_worktree_path n)\<rparr> }"

definition node_is_empty_handed :: "'w host \<Rightarrow> 'w \<Rightarrow> run_id \<Rightarrow> run_dir \<Rightarrow> node \<Rightarrow> bool" where
  "node_is_empty_handed H w rid d n = (case probe_inputs rid d n of
       None \<Rightarrow> False
     | Some (repo, source, branch) \<Rightarrow>
         git_ahead_count H w repo source branch = Some 0 \<and>
         worktree_is_clean H w (n_worktree_path n))"

section \<open>Removing one node\<close>

definition close_tmux_window ::
    "ext \<Rightarrow> (u64 \<Rightarrow> time) \<Rightarrow> run_id \<Rightarrow> 'w host \<Rightarrow> node \<Rightarrow> run_dir \<times> 'w \<Rightarrow> run_dir \<times> 'w" where
  "close_tmux_window X clock rid H n dw = (case dw of (d, w) \<Rightarrow>
     (let socket = filter_opt (\<lambda>s. s \<noteq> []) (Option.bind (n_tmux_identity n) ti_socket) in
      case (case n_tmux_identity n of
              Some i \<Rightarrow> Some (ti_window_id i) | None \<Rightarrow> n_tmux_window n) of
        None \<Rightarrow> (d, w)
      | Some target \<Rightarrow>
          (case kill_window H w socket target of (killed, w1) \<Rightarrow>
             if killed then (d, w1)
             else
               (let session = filter_opt (\<lambda>s. s \<noteq> []) (map_option ti_session (n_tmux_identity n));
                    found = Option.bind (n_worktree_path n) (find_window_by_path H w1 socket session)
                in case filter_opt (\<lambda>r. r \<noteq> target) found of
                     None \<Rightarrow> (record_window_missing X clock rid n target d, w1)
                   | Some recovered \<Rightarrow>
                       (case kill_window H w1 socket recovered of (killed2, w2) \<Rightarrow>
                          if killed2 then (d, w2)
                          else (record_window_missing X clock rid n target d, w2))))))"

definition delete_branch ::
    "ext \<Rightarrow> (u64 \<Rightarrow> time) \<Rightarrow> run_id \<Rightarrow> 'w host \<Rightarrow> node \<Rightarrow> string \<Rightarrow> string \<Rightarrow> bool \<Rightarrow> run_dir \<times> 'w \<Rightarrow>
     run_dir \<times> 'w" where
  "delete_branch X clock rid H n repo branch merged dw = (case dw of (d, w) \<Rightarrow>
     (case branch_delete H w repo branch merged of
        (Some detail, w') \<Rightarrow> (record_branch_remove_failed X clock rid n branch detail d, w')
      | (None, w') \<Rightarrow> (d, w')))"

text \<open>The guards of a teardown without a confirmed merge, in their order: the reason to
  preserve, with the branch the audit event names.\<close>

definition source_relative_veto ::
    "'w host \<Rightarrow> 'w \<Rightarrow> run_id \<Rightarrow> run_dir \<Rightarrow> node \<Rightarrow> string \<Rightarrow> string \<Rightarrow> string option" where
  "source_relative_veto H w rid d n repo worktree_path =
     (let source = manifest_source_branch rid d in
      case (case (n_branch n, source) of
              (Some branch, Some src) \<Rightarrow>
                (case branch_unmerged_vs_source H w repo src branch of
                   HasUnmerged \<Rightarrow> Some ''unmerged commits vs source (no explicit merge)''
                 | UnmergedUnverifiable \<Rightarrow>
                     Some ''unmerged-commit check unavailable (git error; preserving)''
                 | NoUnmerged \<Rightarrow> None)
            | _ \<Rightarrow> None) of
        Some reason \<Rightarrow> Some reason
      | None \<Rightarrow>
          (case worktree_cleanliness H w (Some worktree_path) of
             Dirty \<Rightarrow> Some ''uncommitted changes in worktree (no explicit merge)''
           | CleanUnverifiable \<Rightarrow> Some ''worktree cleanliness unavailable (git error; preserving)''
           | Clean \<Rightarrow>
               if path_exists H w worktree_path then
                 (case head_teardown_safety H w repo worktree_path
                         (filter_opt (\<lambda>s. s \<noteq> []) (n_branch n)) source of
                    HeadPreserve reason \<Rightarrow> Some reason
                  | _ \<Rightarrow> None)
               else None))"

text \<open>The removal of the worktree and then of the branch. On a merge a checkout that git
  left on disk is retried; without one a refusal preserves both.\<close>

definition remove_worktree_and_branch ::
    "ext \<Rightarrow> (u64 \<Rightarrow> time) \<Rightarrow> run_id \<Rightarrow> 'w host \<Rightarrow> node \<Rightarrow> string \<Rightarrow> string \<Rightarrow> bool \<Rightarrow> run_dir \<times> 'w \<Rightarrow>
     run_dir \<times> 'w" where
  "remove_worktree_and_branch X clock rid H n repo worktree_path merged dw =
     (case dw of (d, w) \<Rightarrow>
     (let finish = (\<lambda>dw. case n_branch n of
            None \<Rightarrow> dw | Some branch \<Rightarrow> delete_branch X clock rid H n repo branch merged dw)
      in case worktree_remove H w repo worktree_path merged of (removed, w1) \<Rightarrow>
         if removed then finish (d, w1)
         else if \<not> path_exists H w1 worktree_path then
           finish (record_worktree_missing X clock rid n worktree_path d, w1)
         else if merged then
           (case remove_leftover H w w1 repo worktree_path of (retried, w2) \<Rightarrow>
              if retried then finish (d, w2)
              else (record_worktree_remove_failed X clock rid n worktree_path d, w2))
         else (snd (record_branch_preserved X clock rid n (n_branch n) worktree_path
                 ''worktree not cleanly removable (dirty/locked; preserved for retry)'' d), w1)))"

definition tmux_persistent :: "run_id \<Rightarrow> run_dir \<Rightarrow> bool" where
  "tmux_persistent rid d = (case Option.bind (ok_flatten (read_manifest_opt rid d)) m_tmux_retention of
       None \<Rightarrow> False | Some policy \<Rightarrow> tr_persistent policy)"

text \<open>The display of the node; \<open>False\<close> vetoes the rest of the teardown.\<close>

definition settle_display ::
    "ext \<Rightarrow> (u64 \<Rightarrow> time) \<Rightarrow> run_id \<Rightarrow> 'w host \<Rightarrow> node \<Rightarrow> run_dir \<times> 'w \<Rightarrow> bool \<times> run_dir \<times> 'w" where
  "settle_display X clock rid H n dw = (case dw of (d, w) \<Rightarrow>
     if tmux_persistent rid d then
       (case retain_completed_display H d n w of (r, d1, w1) \<Rightarrow>
          (case r of
             RetryRetention \<Rightarrow> (False, d1, w1)
           | NotApplicable \<Rightarrow> (True, d1, close_persistent_non_pi H n w1)
           | _ \<Rightarrow> (True, d1, close_original_workmux_window H n w1)))
     else (True, close_tmux_window X clock rid H n (d, w)))"

definition cleanup_node_after_evidence ::
    "ext \<Rightarrow> (u64 \<Rightarrow> time) \<Rightarrow> run_id \<Rightarrow> 'w host \<Rightarrow> node \<Rightarrow> run_dir \<times> 'w \<Rightarrow> run_dir \<times> 'w" where
  "cleanup_node_after_evidence X clock rid H n dw =
     (case settle_display X clock rid H n dw of (go, d, w) \<Rightarrow>
      if \<not> go then (d, w)
      else case n_worktree_path n of
          None \<Rightarrow> (d, w)
        | Some worktree_path \<Rightarrow>
            (let outcome = classify n;
                 td = (case outcome of None \<Rightarrow> SourceRelative | Some t \<Rightarrow> outcome_teardown t)
             in if td = PreserveWork then
                  (snd (record_branch_preserved X clock rid n (n_branch n) worktree_path
                     (preserve_reason outcome) d), w)
                else
                  (let main_repo = (case main_worktree H w worktree_path of
                         Some r \<Rightarrow> Some r | None \<Rightarrow> manifest_source_repo rid d);
                       repo = (case main_repo of Some r \<Rightarrow> r | None \<Rightarrow> worktree_path);
                       merged = (case outcome of None \<Rightarrow> False | Some t \<Rightarrow> is_explicit_merge t)
                   in case (if merged then None
                            else source_relative_veto H w rid d n repo worktree_path) of
                        Some reason \<Rightarrow>
                          (snd (record_branch_preserved X clock rid n (n_branch n) worktree_path
                             reason d), w)
                      | None \<Rightarrow>
                          remove_worktree_and_branch X clock rid H n repo worktree_path merged
                            (d, w))))"

definition cleanup_node ::
    "ext \<Rightarrow> (u64 \<Rightarrow> time) \<Rightarrow> run_id \<Rightarrow> 'w host \<Rightarrow> node \<Rightarrow> run_dir \<times> 'w \<Rightarrow> run_dir \<times> 'w" where
  "cleanup_node X clock rid H n dw = (case dw of (d, w) \<Rightarrow>
     (case ok_flatten (read_manifest_opt rid d) of
        None \<Rightarrow> (d, w)
      | Some m \<Rightarrow>
          if m_agent_owner m = Caller then (d, w)
          else case archive_before_cleanup H d n w of (archived, d1, w1) \<Rightarrow>
            if archived then cleanup_node_after_evidence X clock rid H n (d1, w1) else (d1, w1)))"

section \<open>Terminal runs\<close>

fun read_listed_nodes :: "run_id \<Rightarrow> run_dir \<Rightarrow> (string \<times> node entry) list \<Rightarrow> node list res" where
  "read_listed_nodes rid d [] = Inr []"
| "read_listed_nodes rid d ((stem, _) # es) = (case NodeId_parse_str stem of
       Inl _ \<Rightarrow> read_listed_nodes rid d es
     | Inr nid \<Rightarrow>
         rbind (rbind (read_node_opt rid d nid) (ok_or CorruptEventLog)) (\<lambda>n.
         rbind (read_listed_nodes rid d es) (\<lambda>ns. Inr (n # ns))))"

definition list_nodes :: "run_id \<Rightarrow> run_dir \<Rightarrow> node list res" where
  "list_nodes rid d =
     rbind (rbind (read_manifest_opt rid d) (ok_or CorruptEventLog)) (\<lambda>manifest.
     rbind (read_listed_nodes rid d (d_nodes d)) (\<lambda>ns.
     if length ns \<noteq> unat (m_node_count manifest) then Inl CorruptEventLog else Inr ns))"

fun cleanup_each ::
    "ext \<Rightarrow> (u64 \<Rightarrow> time) \<Rightarrow> run_id \<Rightarrow> 'w host \<Rightarrow> node list \<Rightarrow> run_dir \<times> 'w \<Rightarrow> run_dir \<times> 'w" where
  "cleanup_each X clock rid H [] dw = dw"
| "cleanup_each X clock rid H (n # ns) dw =
     cleanup_each X clock rid H ns (cleanup_node X clock rid H n dw)"

definition node_settled :: "bool \<Rightarrow> node \<Rightarrow> bool" where
  "node_settled persistent n \<longleftrightarrow>
     (case n_evidence n of None \<Rightarrow> True | Some e \<Rightarrow> we_status e = EvComplete) \<and>
     (\<not> persistent \<or> n_evidence n = None \<or> n_retained_display n \<noteq> None
        \<or> n_retention_unavailable n \<noteq> None)"

text \<open>The caller-owned branch is the argument \<open>caller\<close> (\<open>cleanup_caller_nodes\<close>).\<close>

definition cleanup_terminal_nodes ::
    "ext \<Rightarrow> (u64 \<Rightarrow> time) \<Rightarrow> run_id \<Rightarrow> 'w host \<Rightarrow>
     (manifest \<Rightarrow> run_dir \<times> 'w \<Rightarrow> bool \<times> run_dir \<times> 'w) \<Rightarrow> run_dir \<times> 'w \<Rightarrow> bool \<times> run_dir \<times> 'w" where
  "cleanup_terminal_nodes X clock rid H caller dw =
     (case ok_flatten (read_manifest_opt rid (fst dw)) of
        None \<Rightarrow> (False, dw)
      | Some m \<Rightarrow>
          if m_agent_owner m = Caller then caller m dw
          else (case list_nodes rid (fst dw) of
              Inl _ \<Rightarrow> (False, dw)
            | Inr ns \<Rightarrow>
                (let dw' = cleanup_each X clock rid H ns dw in
                 case list_nodes rid (fst dw') of
                   Inl _ \<Rightarrow> (False, dw')
                 | Inr ns' \<Rightarrow>
                     (list_all (node_settled (tmux_persistent rid (fst dw'))) ns', dw'))))"

section \<open>The managed tmux session\<close>

definition managed_session :: "run_id \<Rightarrow> run_dir \<Rightarrow> string option" where
  "managed_session rid d = Option.bind (ok_flatten (read_manifest_opt rid d)) m_managed_tmux_session"

definition managed_session_socket :: "run_id \<Rightarrow> run_dir \<Rightarrow> string \<Rightarrow> string option" where
  "managed_session_socket rid d session = (case list_nodes rid d of
       Inl _ \<Rightarrow> None
     | Inr ns \<Rightarrow> find_map (\<lambda>n. case n_tmux_identity n of
           Some i \<Rightarrow> if ti_session i = session then filter_opt (\<lambda>s. s \<noteq> []) (ti_socket i) else None
         | None \<Rightarrow> None) ns)"

definition is_synthetic_default_window :: "string \<Rightarrow> bool" where
  "is_synthetic_default_window name \<longleftrightarrow>
     trim name \<in> {''zsh'', ''bash'', ''sh'', ''fish'', ''-zsh'', ''-bash'', ''-sh''}"

text \<open>\<open>record_session_killed\<close> and \<open>record_session_retained\<close>.\<close>

definition record_session ::
    "ext \<Rightarrow> (u64 \<Rightarrow> time) \<Rightarrow> run_id \<Rightarrow> string \<Rightarrow> string \<Rightarrow> run_dir \<Rightarrow> run_dir" where
  "record_session X clock rid k session d =
     snd (append_and_apply_event X clock rid k None (Some (k @ '':'' @ run_id_str rid))
       (Object [(''session'', String session)]) d)"

definition cleanup_managed_session ::
    "ext \<Rightarrow> (u64 \<Rightarrow> time) \<Rightarrow> run_id \<Rightarrow> 'w host \<Rightarrow> run_dir \<times> 'w \<Rightarrow> run_dir \<times> 'w" where
  "cleanup_managed_session X clock rid H dw = (case dw of (d, w) \<Rightarrow>
     if tmux_persistent rid d then (d, w)
     else case managed_session rid d of
         None \<Rightarrow> (d, w)
       | Some session \<Rightarrow>
           (let socket = managed_session_socket rid d session in
            case list_session_windows H w socket session of
              None \<Rightarrow> (d, w)
            | Some (attached, names) \<Rightarrow>
                if attached then (record_session X clock rid ''cleanup.session_retained'' session d, w)
                else if names = [] \<or> \<not> list_all is_synthetic_default_window names then (d, w)
                else (case kill_session H w socket session of (killed, w') \<Rightarrow>
                    if killed then (record_session X clock rid ''cleanup.session_killed'' session d, w')
                    else (d, w'))))"

section \<open>Idle residents\<close>

definition rebase_in_progress :: "'w host \<Rightarrow> 'w \<Rightarrow> string \<Rightarrow> bool" where
  "rebase_in_progress H w dir = list_ex (\<lambda>name.
     case stdout_ok (git_read H w dir [''rev-parse'', ''--path-format=absolute'', ''--git-path'', name]) of
       None \<Rightarrow> False
     | Some out \<Rightarrow> path_exists H w (trim (from_utf8_lossy out))) [''rebase-merge'', ''rebase-apply'']"

definition landed_checkout_veto ::
    "'w host \<Rightarrow> 'w \<Rightarrow> string \<Rightarrow> string \<Rightarrow> string \<Rightarrow> string \<Rightarrow> string option" where
  "landed_checkout_veto H w repo worktree_path branch source =
     (if rebase_in_progress H w worktree_path then Some ''rebase in progress in the worktree''
      else case branch_unmerged_vs_source H w repo source branch of
          HasUnmerged \<Rightarrow> Some ''unlanded commits vs source''
        | UnmergedUnverifiable \<Rightarrow> Some ''unlanded-commit check unavailable''
        | NoUnmerged \<Rightarrow>
            (case worktree_cleanliness H w (Some worktree_path) of
               Dirty \<Rightarrow> Some ''uncommitted or untracked changes in worktree''
             | CleanUnverifiable \<Rightarrow> Some ''worktree cleanliness unavailable''
             | Clean \<Rightarrow>
                 (case head_teardown_safety H w repo worktree_path (Some branch) (Some source) of
                    HeadPreserve reason \<Rightarrow> Some reason
                  | _ \<Rightarrow> None)))"

text \<open>The first component is the reason to keep the worktree, or \<open>None\<close> once it is removed.\<close>

definition remove_landed_resident_worktree ::
    "ext \<Rightarrow> (u64 \<Rightarrow> time) \<Rightarrow> run_id \<Rightarrow> 'w host \<Rightarrow> node \<Rightarrow> run_dir \<times> 'w \<Rightarrow>
     string option \<times> run_dir \<times> 'w" where
  "remove_landed_resident_worktree X clock rid H n dw = (case dw of (d, w) \<Rightarrow>
     (case n_worktree_path n of
        None \<Rightarrow> (Some ''no recorded worktree'', d, w)
      | Some worktree_path \<Rightarrow>
      if \<not> path_exists H w worktree_path
      then (Some ''worktree already missing (not recorded as removed by expiry)'', d, w)
      else case filter_opt (\<lambda>s. s \<noteq> []) (n_branch n) of
        None \<Rightarrow> (Some ''no recorded branch'', d, w)
      | Some branch \<Rightarrow>
      (case manifest_source_branch rid d of
        None \<Rightarrow> (Some ''no recorded source branch'', d, w)
      | Some source \<Rightarrow>
      (case (case main_worktree H w worktree_path of
               Some r \<Rightarrow> Some r | None \<Rightarrow> manifest_source_repo rid d) of
        None \<Rightarrow> (Some ''source repository unavailable'', d, w)
      | Some repo \<Rightarrow>
      (case landed_checkout_veto H w repo worktree_path branch source of
        Some reason \<Rightarrow> (Some reason, d, w)
      | None \<Rightarrow>
      (case save_dormant_pane H n w of (saved, w1) \<Rightarrow>
         if \<not> saved
         then (Some ''pane history could not be saved before releasing the display'', d, w1)
         else case close_tmux_window X clock rid H n (d, w1) of (d2, w2) \<Rightarrow>
           (case worktree_remove H w2 repo worktree_path False of (removed, w3) \<Rightarrow>
              (if removed then None else Some ''worktree not cleanly removable (dirty/locked)'',
               d2, w3))))))))"

end
