(* ===== verification/Watchdog.thy ===== *)
theory Watchdog
  imports Std_Text Reducer_Work
begin

text \<open>
  Agent liveness (\<open>supervise/watchdog.rs\<close>, with \<open>pid_alive\<close> of \<open>supervise/pid_file.rs\<close>): the
  identity of a process across pid reuse, the one-tick snapshot of tmux windows parsed from
  \<open>tmux list-windows\<close>, and the liveness verdict. What the kernel, sysinfo and tmux answer is
  the parameter \<open>probes\<close>; \<open>pid_start_identity\<close> is the Linux one. Log messages are not kept.
\<close>

section \<open>What the host answers\<close>

datatype kill_result = KillOk | KillErr int  \<comment> \<open>\<open>errno\<close>\<close>

text \<open>\<open>proc::TimedOutcome\<close>, with the exit status reduced to \<open>success()\<close>.\<close>

datatype timed_outcome = TimedExited bool bytes | TimedTimedOut | TimedSpawnErr

record probes =
  kill_0 :: "int \<Rightarrow> kill_result"                \<comment> \<open>\<open>libc::kill(pid, 0)\<close>\<close>
  proc_stat :: "u32 \<Rightarrow> string option"           \<comment> \<open>\<open>/proc/<pid>/stat\<close> as UTF-8 text\<close>
  sysinfo_start_time :: "u32 \<Rightarrow> u64 option"     \<comment> \<open>\<open>sysinfo::Process::start_time\<close>\<close>
  tmux_list_windows :: "string option \<Rightarrow> timed_outcome"  \<comment> \<open>per socket\<close>

section \<open>Processes\<close>

definition EPERM :: int where
  "EPERM = 1"

definition to_pid_t :: "u32 \<Rightarrow> int option" where
  "to_pid_t pid = (if pid = 0 \<or> pid > 0x7FFFFFFF then None else Some (uint pid))"

definition pid_alive :: "probes \<Rightarrow> u32 \<Rightarrow> bool" where
  "pid_alive H pid = (case to_pid_t pid of
       None \<Rightarrow> False
     | Some p \<Rightarrow> (case kill_0 H p of KillOk \<Rightarrow> True | KillErr e \<Rightarrow> e = EPERM))"

definition pid_start_time :: "probes \<Rightarrow> u32 \<Rightarrow> u64 option" where
  "pid_start_time H pid = sysinfo_start_time H pid"

definition linux_start_identity :: "string \<Rightarrow> string option" where
  "linux_start_identity stat = do {
     (_, rest) \<leftarrow> rsplit_once '') '' stat;
     ticks \<leftarrow> (let fs = split_whitespace rest in if 19 < length fs then Some (fs ! 19) else None);
     _ \<leftarrow> parse_u64 ticks;
     Some (''linux:'' @ ticks) }"

definition pid_start_identity :: "probes \<Rightarrow> u32 \<Rightarrow> string option" where
  "pid_start_identity H pid = Option.bind (proc_stat H pid) linux_start_identity"

record recorded_start =
  st_secs :: "u64 option"
  st_identity :: "string option"

definition RecordedStart_capture :: "probes \<Rightarrow> u32 \<Rightarrow> recorded_start" where
  "RecordedStart_capture H pid =
     \<lparr>st_secs = pid_start_time H pid, st_identity = pid_start_identity H pid\<rparr>"

definition RecordedStart_new :: "u64 option \<Rightarrow> string option \<Rightarrow> recorded_start" where
  "RecordedStart_new secs identity =
     \<lparr>st_secs = secs, st_identity = filter_opt (\<lambda>s. s \<noteq> []) identity\<rparr>"

text \<open>\<open>u64::try_from(t.timestamp()).unwrap_or(0)\<close>: whole seconds, rounded down.\<close>

definition timestamp_u64 :: "time \<Rightarrow> u64" where
  "timestamp_u64 t = (let s = t div 1000000000 in if s < 0 then 0 else word_of_int s)"

definition of_agent :: "node \<Rightarrow> recorded_start" where
  "of_agent n = RecordedStart_new (map_option timestamp_u64 (n_agent_pid_start_time n))
     (n_agent_pid_start_identity n)"

definition is_recorded :: "recorded_start \<Rightarrow> bool" where
  "is_recorded s \<longleftrightarrow> st_secs s \<noteq> None \<or> st_identity s \<noteq> None"

definition abs_diff :: "u64 \<Rightarrow> u64 \<Rightarrow> u64" where
  "abs_diff a b = (if a \<le> b then b - a else a - b)"

definition start_matches :: "probes \<Rightarrow> recorded_start \<Rightarrow> u32 \<Rightarrow> bool option" where
  "start_matches H s pid = (case st_identity s of
       Some recorded \<Rightarrow> map_option (\<lambda>actual. actual = recorded) (pid_start_identity H pid)
     | None \<Rightarrow> (case st_secs s of
           None \<Rightarrow> None
         | Some recorded \<Rightarrow>
             map_option (\<lambda>actual. abs_diff recorded actual \<le> 1) (pid_start_time H pid)))"

section \<open>The tmux snapshot\<close>

datatype tmux_probe = Present | Absent | ProbeUnknown

datatype socket_windows = Reachable "string set" "string set" | Unreachable

type_synonym tmux_snapshot = "string option \<Rightarrow> socket_windows option"

datatype probe_outcome = ProbeOk bytes | ProbeNonZero | ProbeSpawnErr | ProbeTimedOut

definition run_timed :: "timed_outcome \<Rightarrow> probe_outcome" where
  "run_timed t = (case t of
       TimedExited success stdout \<Rightarrow> if success then ProbeOk stdout else ProbeNonZero
     | TimedTimedOut \<Rightarrow> ProbeTimedOut
     | TimedSpawnErr \<Rightarrow> ProbeSpawnErr)"

text \<open>One line of the listing, \<open>id|name\<close>, added to the two sets.\<close>

definition listing_line :: "bytes \<Rightarrow> string set \<times> string set \<Rightarrow> string set \<times> string set" where
  "listing_line raw acc = (case acc of (ids, names) \<Rightarrow>
     (let line = trim_ascii raw in
      if line = [] then (ids, names)
      else if CHR ''|'' \<in> set line then
        (let ident = trim_ascii (takeWhile (\<lambda>c. c \<noteq> CHR ''|'') line);
             name = trim_ascii (tl (dropWhile (\<lambda>c. c \<noteq> CHR ''|'') line))
         in (if ident = [] then ids else insert (from_utf8_lossy ident) ids,
             insert (from_utf8_lossy name) names))
      else (insert (from_utf8_lossy line) ids, names)))"

definition probe_socket :: "probes \<Rightarrow> string option \<Rightarrow> socket_windows" where
  "probe_socket H socket = (case run_timed (tmux_list_windows H socket) of
       ProbeOk stdout \<Rightarrow>
         (case fold listing_line (split_on CHR 0x0A stdout) ({}, {}) of
            (ids, names) \<Rightarrow> Reachable ids names)
     | ProbeNonZero \<Rightarrow> Unreachable
     | ProbeSpawnErr \<Rightarrow> Unreachable
     | ProbeTimedOut \<Rightarrow> Unreachable)"

definition collect :: "probes \<Rightarrow> string option set \<Rightarrow> tmux_snapshot" where
  "collect H sockets = (\<lambda>s. if s \<in> sockets then Some (probe_socket H s) else None)"

definition lookup_qualified :: "tmux_snapshot \<Rightarrow> tmux_identity \<Rightarrow> tmux_probe" where
  "lookup_qualified snap ident = (case snap (ti_socket ident) of
       Some (Reachable ids names) \<Rightarrow> if ti_window_id ident \<in> ids then Present else Absent
     | _ \<Rightarrow> ProbeUnknown)"

definition lookup_by_name :: "tmux_snapshot \<Rightarrow> string \<Rightarrow> tmux_probe" where
  "lookup_by_name snap window_name = (case snap None of
       Some (Reachable ids names) \<Rightarrow> if window_name \<in> names then Present else Absent
     | _ \<Rightarrow> ProbeUnknown)"

section \<open>Liveness\<close>

datatype liveness = LiveAlive | LiveDead | LiveRecycled | LiveTmuxGone

fun liveness_reason :: "liveness \<Rightarrow> string" where
  "liveness_reason LiveAlive = ''alive''"
| "liveness_reason LiveDead = ''agent-died''"
| "liveness_reason LiveRecycled = ''agent-pid-recycled''"
| "liveness_reason LiveTmuxGone = ''agent-tmux-window-gone''"

record agent_probe =
  ap_pid :: u32
  ap_start :: recorded_start
  ap_tmux_window :: "string option"
  ap_tmux_identity :: "tmux_identity option"
  ap_skip_tmux_check :: bool

definition agent_probe_socket :: "agent_probe \<Rightarrow> bool \<times> string option" where
  "agent_probe_socket p =
     (if ap_skip_tmux_check p then (False, None)
      else case ap_tmux_identity p of
          Some i \<Rightarrow> (True, ti_socket i)
        | None \<Rightarrow> (ap_tmux_window p \<noteq> None, None))"

definition window_verdict :: "tmux_snapshot \<Rightarrow> agent_probe \<Rightarrow> tmux_probe option" where
  "window_verdict snap p = (case ap_tmux_identity p of
       Some i \<Rightarrow> Some (lookup_qualified snap i)
     | None \<Rightarrow> map_option (lookup_by_name snap) (ap_tmux_window p))"

definition probe_verdict :: "tmux_snapshot \<Rightarrow> agent_probe \<Rightarrow> tmux_probe option" where
  "probe_verdict snap p = (if ap_skip_tmux_check p then None else window_verdict snap p)"

definition check_liveness :: "probes \<Rightarrow> agent_probe \<Rightarrow> tmux_snapshot \<Rightarrow> liveness" where
  "check_liveness H p snap =
     (if \<not> pid_alive H (ap_pid p) then LiveDead
      else if start_matches H (ap_start p) (ap_pid p) = Some False then LiveRecycled
      else if \<not> ap_skip_tmux_check p \<and> window_verdict snap p = Some Absent then LiveTmuxGone
      else LiveAlive)"

definition check_liveness_for_lifecycle ::
    "probes \<Rightarrow> agent_probe \<Rightarrow> tmux_snapshot \<Rightarrow> bool \<Rightarrow> liveness" where
  "check_liveness_for_lifecycle H p snap interactive =
     (let verdict = check_liveness H p snap in
      if \<not> interactive \<or> ap_skip_tmux_check p then verdict
      else case verdict of
          LiveAlive \<Rightarrow> LiveAlive
        | LiveTmuxGone \<Rightarrow> LiveTmuxGone
        | _ \<Rightarrow> (case probe_verdict snap p of
              Some Absent \<Rightarrow> LiveTmuxGone
            | Some _ \<Rightarrow> LiveAlive
            | None \<Rightarrow> verdict))"

end
