(* ===== verification/Supervisor.thy ===== *)
theory Supervisor
  imports Teardown Watchdog
begin

text \<open>
  The watchdog tick and the bounded retry of dead workers (\<open>supervise/mod.rs\<close>). Each function
  that takes the run lock is one step on the run directory and the outside world; what other
  processes do between two locks is the argument \<open>gap\<close>. Clocks and environment variables are
  the record \<open>sup_env\<close>, the spawning of workers the record \<open>spawner\<close>. Durations and instants
  are nanoseconds. Log messages and I/O faults are not kept.
\<close>

section \<open>Configuration\<close>

record sup_env =
  se_env :: "string \<Rightarrow> string option"
  se_now :: time
  se_instant :: nat
  se_rfc3339 :: "time \<Rightarrow> string"
  se_probes :: probes

definition from_secs :: "nat \<Rightarrow> nat" where
  "from_secs n = n * 1000000000"

definition env_secs :: "sup_env \<Rightarrow> string \<Rightarrow> nat \<Rightarrow> nat" where
  "env_secs E name dflt = (case Option.bind (se_env E name) (\<lambda>v. parse_u64 (trim v)) of
       Some n \<Rightarrow> unat n | None \<Rightarrow> dflt)"

definition env_count :: "sup_env \<Rightarrow> string \<Rightarrow> u32 \<Rightarrow> u32" where
  "env_count E name dflt = (case Option.bind (se_env E name) (\<lambda>v. parse_u32 (trim v)) of
       Some n \<Rightarrow> n | None \<Rightarrow> dflt)"

definition spawn_grace :: "sup_env \<Rightarrow> nat" where
  "spawn_grace E = from_secs (env_secs E ''TASKFLEET_WATCHDOG_GRACE_SECS'' 5)"

definition death_grace :: "sup_env \<Rightarrow> nat" where
  "death_grace E = from_secs (env_secs E ''TASKFLEET_DEATH_GRACE_SECS'' 5)"

definition agent_retry_max_attempts :: "sup_env \<Rightarrow> u32" where
  "agent_retry_max_attempts E = env_count E ''TASKFLEET_AGENT_RETRY_MAX_ATTEMPTS'' 3"

definition agent_respawn_max_failures :: "sup_env \<Rightarrow> u32" where
  "agent_respawn_max_failures E = env_count E ''TASKFLEET_AGENT_RESPAWN_MAX_FAILURES'' 3"

definition AGENT_RETRY_MAX_BACKOFF_SECS :: u64 where
  "AGENT_RETRY_MAX_BACKOFF_SECS = 120"

definition agent_retry_backoff :: "sup_env \<Rightarrow> u32 \<Rightarrow> nat" where
  "agent_retry_backoff E attempt =
     (let base_secs = (case Option.bind (se_env E ''TASKFLEET_AGENT_RETRY_BACKOFF_SECS'')
                (\<lambda>v. parse_u64 (trim v)) of Some n \<Rightarrow> n | None \<Rightarrow> 10);
          shift = unat (min (saturating_sub attempt 1) 5);
          secs = min (saturating_mul base_secs (push_bit shift 1)) AGENT_RETRY_MAX_BACKOFF_SECS
      in from_secs (unat secs))"

section \<open>Branch names of retries\<close>

definition strip_retry_suffix :: "string \<Rightarrow> string" where
  "strip_retry_suffix branch = (case rsplit_once ''-r'' branch of
       Some (base, digits) \<Rightarrow> if digits \<noteq> [] \<and> list_all is_ascii_digit digits then base else branch
     | None \<Rightarrow> branch)"

definition retry_branch_name :: "string option \<Rightarrow> u32 \<Rightarrow> string" where
  "retry_branch_name prior attempt =
     (let stem = (case filter_opt (\<lambda>s. s \<noteq> []) (map_option trim prior) of
            Some s \<Rightarrow> s | None \<Rightarrow> ''wt/retry'')
      in strip_retry_suffix stem @ ''-r'' @ decimal (unat attempt))"

section \<open>Synthesized reports\<close>

definition failed_report :: "string \<Rightarrow> string \<Rightarrow> json" where
  "failed_report reason summary = Object
     [(''cancelled'', Bool False), (''discussion_items'', Array []), (''failed'', Bool True),
      (''reason'', String reason), (''spinoff_proposals'', Array []), (''success'', Bool False),
      (''summary'', String summary), (''wrap_up_recommendations'', Array [])]"

text \<open>\<open>obj.insert(key, value)\<close> on the object behind \<open>as_object_mut\<close>.\<close>

definition insert_field :: "string \<Rightarrow> json \<Rightarrow> json \<Rightarrow> json" where
  "insert_field k v data = (case data of Object m \<Rightarrow> Object (map_insert k v m) | _ \<Rightarrow> data)"

definition insert_opt_field :: "string \<Rightarrow> json option \<Rightarrow> json \<Rightarrow> json" where
  "insert_opt_field k v data = (case v of None \<Rightarrow> data | Some x \<Rightarrow> insert_field k x data)"

definition json_i32 :: "int \<Rightarrow> json" where
  "json_i32 i = Number (if i < 0 then NegInt i else PosInt (word_of_int i))"

definition json_u32 :: "u32 \<Rightarrow> json" where
  "json_u32 w = Number (PosInt (ucast w))"

definition show_int :: "int \<Rightarrow> string" where
  "show_int i = (if i < 0 then CHR ''-'' # decimal (nat (- i)) else decimal (nat i))"

definition exit_reason :: "worker_exit \<Rightarrow> string \<times> string" where
  "exit_reason x = (case (wx_signal x, wx_code x) of
       (Some sig, _) \<Rightarrow> (WORKER_KILLED_BY_SIGNAL_REASON, ''worker killed by signal '' @ show_int sig)
     | (None, Some code) \<Rightarrow> (WORKER_EXITED_NONZERO_REASON, ''worker exited with status '' @ show_int code)
     | (None, None) \<Rightarrow> (WORKER_EXITED_NONZERO_REASON, ''worker exited abnormally''))"

definition worker_exit_report :: "sup_env \<Rightarrow> string \<Rightarrow> worker_exit \<Rightarrow> json" where
  "worker_exit_report E node_id x = (case exit_reason x of (reason, detail) \<Rightarrow>
     stamp OriginSupervisor
       (insert_field ''worker_exited_at'' (String (se_rfc3339 E (wx_at x)))
       (insert_opt_field ''signal'' (map_option json_i32 (wx_signal x))
       (insert_opt_field ''exit_code'' (map_option json_i32 (wx_code x))
       (failed_report reason (''Node '' @ node_id @ '' '' @ detail @
          ''; supervisor terminalized the run failed (branch preserved).''))))))"

definition crash_report :: "string \<Rightarrow> liveness \<Rightarrow> recoverability option \<Rightarrow> u32 \<Rightarrow> json" where
  "crash_report node_id v r retried =
     stamp OriginSupervisor
       (insert_opt_field ''retry_attempts'' (if retried > 0 then Some (json_u32 retried) else None)
       (insert_opt_field ''recoverable_work'' (map_option to_report_value r)
       (failed_report (liveness_reason v)
          (''Agent for node '' @ node_id @ '' stopped responding: '' @ liveness_reason v))))"

definition respawn_failure_report :: "string \<Rightarrow> u32 \<Rightarrow> string \<Rightarrow> json" where
  "respawn_failure_report node_id attempt err =
     stamp OriginSupervisor
       (insert_field ''retry_attempts'' (json_u32 (saturating_sub attempt 1))
       (failed_report ''agent-respawn-failed''
          (''Node '' @ node_id @ '' died empty-handed; auto-retry re-spawn failed after '' @
             decimal (unat attempt) @ '' attempt(s): '' @ err)))"

section \<open>Locked steps\<close>

definition within_spawn_grace :: "time option \<Rightarrow> time \<Rightarrow> nat \<Rightarrow> bool" where
  "within_spawn_grace started_at now grace = (case started_at of
       None \<Rightarrow> False
     | Some t \<Rightarrow> if 0 \<le> now - t then now - t < int grace else True)"

definition retry_eligible_kind :: "node \<Rightarrow> bool" where
  "retry_eligible_kind n \<longleftrightarrow> is_autonomous_single_node_worker (n_kind n) \<and> n_parent_node_id n = None"

definition round_reported_by_current_attempt :: "node \<Rightarrow> bool" where
  "round_reported_by_current_attempt n = (case Option.bind (n_resident n) open_round of
       None \<Rightarrow> False | Some r \<Rightarrow> rr_attempt r = n_retry_attempts n)"

text \<open>\<open>read_node_opt(..).ok().flatten()\<close> with a test on the node.\<close>

definition reread_node :: "run_id \<Rightarrow> node_id \<Rightarrow> (node \<Rightarrow> bool) \<Rightarrow> run_dir \<Rightarrow> node option" where
  "reread_node rid nid P d = filter_opt P (ok_flatten (read_node_opt rid d nid))"

definition append_unkeyed ::
    "ext \<Rightarrow> (u64 \<Rightarrow> time) \<Rightarrow> run_id \<Rightarrow> string \<Rightarrow> node_id \<Rightarrow> json \<Rightarrow> run_dir \<Rightarrow> bool \<times> run_dir" where
  "append_unkeyed X clock rid k nid data d =
     (case append_and_apply_unlocked X clock rid k (Some nid) None data d of
        (Inl _, d') \<Rightarrow> (False, d') | (Inr _, d') \<Rightarrow> (True, d'))"

definition synthesize_worker_exit_failure ::
    "ext \<Rightarrow> (u64 \<Rightarrow> time) \<Rightarrow> sup_env \<Rightarrow> run_id \<Rightarrow> node_id \<Rightarrow> worker_exit \<Rightarrow> run_dir \<Rightarrow> run_dir" where
  "synthesize_worker_exit_failure X clock E rid nid x d =
     (case reread_node rid nid (\<lambda>n. \<not> is_terminal (n_status n) \<and> n_worker_exit n = Some x
             \<and> \<not> round_reported_by_current_attempt n) d of
        None \<Rightarrow> d
      | Some n \<Rightarrow> snd (append_unkeyed X clock rid ''node.report'' nid
          (worker_exit_report E (node_id_str nid) x) d))"

definition record_death_observed ::
    "ext \<Rightarrow> (u64 \<Rightarrow> time) \<Rightarrow> run_id \<Rightarrow> node_id \<Rightarrow> int option \<Rightarrow> run_dir \<Rightarrow> run_dir" where
  "record_death_observed X clock rid nid stale_agent_pid d =
     (case reread_node rid nid (\<lambda>f. n_first_death_at f = None \<and> n_worker_exit f = None
             \<and> n_last_report f = None \<and> n_pending_merge f = None
             \<and> n_agent_pid f = stale_agent_pid \<and> \<not> is_terminal (n_status f)) d of
        None \<Rightarrow> d
      | Some f \<Rightarrow> snd (append_unkeyed X clock rid ''node.death_observed'' nid (Object []) d))"

record retry_park =
  pk_attempt :: u32
  pk_retry_at :: nat
  pk_reason :: string
  pk_spawn_failures :: u32

type_synonym retry_states = "(string \<times> retry_park) list"

definition park_on_death ::
    "sup_env \<Rightarrow> run_id \<Rightarrow> 'w host \<Rightarrow> liveness \<Rightarrow> node \<Rightarrow> run_dir \<Rightarrow> 'w \<Rightarrow> retry_park option" where
  "park_on_death E rid H v f d w =
     (let resident = (case ok_flatten (read_manifest_opt rid d) of
            None \<Rightarrow> False | Some m \<Rightarrow> m_resident m \<noteq> None)
      in if v = LiveDead \<and> \<not> resident \<and> retry_eligible_kind f \<and> node_is_empty_handed H w rid d f
            \<and> n_retry_attempts f < agent_retry_max_attempts E
         then (let attempt = n_retry_attempts f + 1 in
               Some \<lparr>pk_attempt = attempt,
                 pk_retry_at = se_instant E + agent_retry_backoff E attempt,
                 pk_reason = liveness_reason v, pk_spawn_failures = 0\<rparr>)
         else None)"

definition synthesize_crash_backstop_failure ::
    "ext \<Rightarrow> (u64 \<Rightarrow> time) \<Rightarrow> sup_env \<Rightarrow> run_id \<Rightarrow> 'w host \<Rightarrow> node_id \<Rightarrow> liveness \<Rightarrow> int option \<Rightarrow>
     retry_states \<Rightarrow> run_dir \<times> 'w \<Rightarrow> retry_states \<times> run_dir" where
  "synthesize_crash_backstop_failure X clock E rid H nid v stale_agent_pid parks dw =
     (case dw of (d, w) \<Rightarrow>
     (case reread_node rid nid (\<lambda>f. n_last_report f = None \<and> n_worker_exit f = None
             \<and> n_pending_merge f = None \<and> n_agent_pid f = stale_agent_pid
             \<and> \<not> is_terminal (n_status f)) d of
        None \<Rightarrow> (parks, d)
      | Some f \<Rightarrow>
          (case park_on_death E rid H v f d w of
             Some park \<Rightarrow> (map_insert (node_id_str nid) park parks, d)
           | None \<Rightarrow>
               (parks, snd (append_unkeyed X clock rid ''node.report'' nid
                  (crash_report (node_id_str nid) v (node_recoverability H w rid d f)
                     (n_retry_attempts f)) d)))))"

definition terminalize_respawn_failure ::
    "ext \<Rightarrow> (u64 \<Rightarrow> time) \<Rightarrow> run_id \<Rightarrow> node_id \<Rightarrow> u32 \<Rightarrow> string \<Rightarrow> run_dir \<Rightarrow> bool \<times> run_dir" where
  "terminalize_respawn_failure X clock rid nid attempt err d =
     (case reread_node rid nid (\<lambda>n. \<not> is_terminal (n_status n)) d of
        None \<Rightarrow> (True, d)
      | Some n \<Rightarrow> append_unkeyed X clock rid ''node.report'' nid
          (respawn_failure_report (node_id_str nid) attempt err) d)"

section \<open>Retrying dead workers\<close>

record spawn_outcome =
  so_branch :: string
  so_worktree_path :: string
  so_fields :: "(string \<times> json) list"
    \<comment> \<open>the remaining fields of the payload: tmux, Pi session and agent identity\<close>

record 'w spawner =
  respawn_agent :: "node \<Rightarrow> manifest \<Rightarrow> u32 \<Rightarrow> 'w \<Rightarrow> (string + spawn_outcome) \<times> 'w"
  capture_base_sha :: "'w \<Rightarrow> string \<Rightarrow> string option"
  teardown_respawn_outcome :: "spawn_outcome \<Rightarrow> 'w \<Rightarrow> 'w"
  commit_materialization :: "spawn_outcome \<Rightarrow> 'w \<Rightarrow> 'w"
  discard_superseded_source :: "node \<Rightarrow> 'w \<Rightarrow> 'w"

definition retry_event_data :: "'w spawner \<Rightarrow> 'w \<Rightarrow> retry_park \<Rightarrow> spawn_outcome \<Rightarrow> json" where
  "retry_event_data S w park s = Object (fold (\<lambda>(k, v). map_insert k v)
     [(''attempt'', json_u32 (pk_attempt park)), (''reason'', String (pk_reason park)),
      (''branch'', String (so_branch s)),
      (''base_sha'', opt_str (capture_base_sha S w (so_worktree_path s))),
      (''worktree_path'', String (so_worktree_path s))] (so_fields s))"

definition cleanup_superseded_node ::
    "ext \<Rightarrow> (u64 \<Rightarrow> time) \<Rightarrow> run_id \<Rightarrow> 'w host \<Rightarrow> 'w spawner \<Rightarrow> node \<Rightarrow> run_dir \<times> 'w \<Rightarrow> run_dir \<times> 'w" where
  "cleanup_superseded_node X clock rid H S n dw =
     (case cleanup_node_after_evidence X clock rid H n dw of (d, w) \<Rightarrow>
        (d, if (case n_worktree_path n of None \<Rightarrow> True | Some p \<Rightarrow> \<not> path_exists H w p)
            then discard_superseded_source S n w else w))"

text \<open>The values the loop falls back to for a node without a park.\<close>

definition default_park :: retry_park where
  "default_park = \<lparr>pk_attempt = 1, pk_retry_at = 0, pk_reason = ''agent-died'', pk_spawn_failures = 0\<rparr>"

text \<open>One due park. \<open>gap\<close> runs before each of the two locks.\<close>

definition respawn_failed ::
    "ext \<Rightarrow> (u64 \<Rightarrow> time) \<Rightarrow> sup_env \<Rightarrow> run_id \<Rightarrow> node_id \<Rightarrow> retry_park \<Rightarrow> string \<Rightarrow> nat \<Rightarrow>
     retry_states \<Rightarrow> run_dir \<Rightarrow> retry_states \<times> run_dir" where
  "respawn_failed X clock E rid nid park err now parks d =
     (let node_id = node_id_str nid; failures = pk_spawn_failures park + 1 in
      if failures \<ge> agent_respawn_max_failures E then
        (case terminalize_respawn_failure X clock rid nid (pk_attempt park) err d of
           (settled, d') \<Rightarrow> (if settled then map_remove node_id parks else parks, d'))
      else if map_of parks node_id = None then (parks, d)
      else (map_insert node_id (park\<lparr>pk_spawn_failures := failures,
              pk_retry_at := now + agent_retry_backoff E (pk_attempt park)\<rparr>) parks, d))"

definition attach_respawn ::
    "ext \<Rightarrow> (u64 \<Rightarrow> time) \<Rightarrow> run_id \<Rightarrow> 'w host \<Rightarrow> 'w spawner \<Rightarrow> node_id \<Rightarrow> node \<Rightarrow> retry_park \<Rightarrow>
     spawn_outcome \<Rightarrow> json \<Rightarrow> retry_states \<Rightarrow> run_dir \<times> 'w \<Rightarrow> retry_states \<times> run_dir \<times> 'w" where
  "attach_respawn X clock rid H S nid n park s data parks dw = (case dw of (d, w) \<Rightarrow>
     (case reread_node rid nid (\<lambda>m. \<not> is_terminal (n_status m) \<and> node_is_empty_handed H w rid d m) d of
        None \<Rightarrow> (map_remove (node_id_str nid) parks, d, teardown_respawn_outcome S s w)
      | Some m \<Rightarrow>
          (case append_unkeyed X clock rid ''node.retry'' nid data d of
             (False, d') \<Rightarrow> (parks, d', teardown_respawn_outcome S s w)
           | (True, d') \<Rightarrow>
               (map_remove (node_id_str nid) parks,
                cleanup_superseded_node X clock rid H S n (d', commit_materialization S s w)))))"

definition reconcile_one ::
    "ext \<Rightarrow> (u64 \<Rightarrow> time) \<Rightarrow> sup_env \<Rightarrow> run_id \<Rightarrow> 'w host \<Rightarrow> 'w spawner \<Rightarrow>
     (string \<Rightarrow> run_dir \<times> 'w \<Rightarrow> run_dir \<times> 'w) \<Rightarrow> nat \<Rightarrow> string \<Rightarrow>
     retry_states \<times> run_dir \<times> 'w \<Rightarrow> retry_states \<times> run_dir \<times> 'w" where
  "reconcile_one X clock E rid H S gap now node_id st = (case st of (parks, dw) \<Rightarrow>
     (case NodeId_parse_str node_id of
        Inl _ \<Rightarrow> (map_remove node_id parks, dw)
      | Inr nid \<Rightarrow>
          (case gap node_id dw of (d, w) \<Rightarrow>
          (case reread_node rid nid (\<lambda>n. \<not> is_terminal (n_status n) \<and> retry_eligible_kind n
                  \<and> node_is_empty_handed H w rid d n) d of
             None \<Rightarrow> (map_remove node_id parks, d, w)
           | Some n \<Rightarrow>
               (case ok_flatten (read_manifest_opt rid d) of
                  None \<Rightarrow> (parks, d, w)
                | Some manifest \<Rightarrow>
                    (let park = (case map_of parks node_id of Some p \<Rightarrow> p | None \<Rightarrow> default_park) in
                     case respawn_agent S n manifest (pk_attempt park) w of
                       (Inl err, w1) \<Rightarrow>
                         (case gap node_id (d, w1) of (d2, w2) \<Rightarrow>
                         (case respawn_failed X clock E rid nid park err now parks d2 of
                            (parks', d') \<Rightarrow> (parks', d', w2)))
                     | (Inr s, w1) \<Rightarrow>
                         attach_respawn X clock rid H S nid n park s
                           (retry_event_data S w1 park s) parks (gap node_id (d, w1))))))))"

definition reconcile_agent_retries ::
    "ext \<Rightarrow> (u64 \<Rightarrow> time) \<Rightarrow> sup_env \<Rightarrow> run_id \<Rightarrow> 'w host \<Rightarrow> 'w spawner \<Rightarrow>
     (string \<Rightarrow> run_dir \<times> 'w \<Rightarrow> run_dir \<times> 'w) \<Rightarrow> nat \<Rightarrow>
     retry_states \<times> run_dir \<times> 'w \<Rightarrow> retry_states \<times> run_dir \<times> 'w" where
  "reconcile_agent_retries X clock E rid H S gap now st =
     fold (reconcile_one X clock E rid H S gap now)
       (map fst (filter (\<lambda>(_, p). pk_retry_at p \<le> now) (fst st))) st"

section \<open>The tick\<close>

datatype scan_item = ScanSkip | ScanTold worker_exit | ScanProbe agent_probe

definition agent_probe_of :: "node \<Rightarrow> int \<Rightarrow> agent_probe" where
  "agent_probe_of n pid = \<lparr>ap_pid = word_of_int pid, ap_start = of_agent n,
     ap_tmux_window = n_tmux_window n, ap_tmux_identity = n_tmux_identity n,
     ap_skip_tmux_check = (n_tmux_identity n = None \<and> n_tmux_window n = None)\<rparr>"

definition scan_node :: "sup_env \<Rightarrow> retry_states \<Rightarrow> string \<Rightarrow> node \<Rightarrow> scan_item" where
  "scan_node E parks node_id n =
     (if is_terminal (n_status n) then ScanSkip
      else if classify_live_node_with_round (round_reported_by_current_attempt n) (n_worker_exit n)
                ObsAlive = RoundWaiting then ScanSkip
      else case n_worker_exit n of
          Some x \<Rightarrow> if is_failure x then ScanTold x else ScanSkip
        | None \<Rightarrow>
            if map_of parks node_id \<noteq> None then ScanSkip
            else if within_spawn_grace (n_started_at n) (se_now E) (spawn_grace E) then ScanSkip
            else (case n_agent_pid n of
                None \<Rightarrow> ScanSkip
              | Some pid \<Rightarrow> ScanProbe (agent_probe_of n pid)))"

text \<open>The scan of \<open>nodes/\<close> under the shared lock.\<close>

definition scan :: "sup_env \<Rightarrow> run_id \<Rightarrow> retry_states \<Rightarrow> run_dir \<Rightarrow> (node_id \<times> node \<times> scan_item) list" where
  "scan E rid parks d = List.map_filter (\<lambda>(stem, _). case NodeId_parse_str stem of
       Inl _ \<Rightarrow> None
     | Inr nid \<Rightarrow> map_option (\<lambda>n. (nid, n, scan_node E parks stem n))
         (ok_flatten (read_node_opt rid d nid))) (d_nodes d)"

definition scan_sockets :: "(node_id \<times> node \<times> scan_item) list \<Rightarrow> string option set" where
  "scan_sockets items = set (List.map_filter (\<lambda>(_, _, it). case it of
       ScanProbe p \<Rightarrow> (case agent_probe_socket p of (probes, s) \<Rightarrow> if probes then Some s else None)
     | _ \<Rightarrow> None) items)"

definition observe_death :: "sup_env \<Rightarrow> tmux_snapshot \<Rightarrow> node \<Rightarrow> agent_probe \<Rightarrow> liveness \<times> death_observation" where
  "observe_death E snap n p =
     (let v = check_liveness_for_lifecycle (se_probes E) p snap False;
          anchor = (case n_first_death_at n of Some t \<Rightarrow> t | None \<Rightarrow> se_now E);
          elapsed = se_now E - anchor
      in (v, if v = LiveDead \<or> v = LiveRecycled then
               (if elapsed \<ge> int (death_grace E) then DeadGraceElapsed else DeadWithinGrace)
             else ObsAlive))"

definition tick_candidate ::
    "ext \<Rightarrow> (u64 \<Rightarrow> time) \<Rightarrow> sup_env \<Rightarrow> run_id \<Rightarrow> 'w host \<Rightarrow> (string \<Rightarrow> run_dir \<times> 'w \<Rightarrow> run_dir \<times> 'w) \<Rightarrow>
     tmux_snapshot \<Rightarrow> node_id \<times> node \<times> scan_item \<Rightarrow>
     retry_states \<times> run_dir \<times> 'w \<Rightarrow> retry_states \<times> run_dir \<times> 'w" where
  "tick_candidate X clock E rid H gap snap item st = (case (item, st) of
     ((nid, n, ScanProbe p), (parks, dw)) \<Rightarrow>
       (case observe_death E snap n p of (v, death) \<Rightarrow>
          (case classify_live_node None death of
             DeferGrace \<Rightarrow>
               if n_first_death_at n = None then
                 (case gap (node_id_str nid) dw of (d, w) \<Rightarrow>
                    (parks, record_death_observed X clock rid nid (n_agent_pid n) d, w))
               else (parks, dw)
           | CrashBackstopFailed \<Rightarrow>
               (case gap (node_id_str nid) dw of (d, w) \<Rightarrow>
                  (case synthesize_crash_backstop_failure X clock E rid H nid v (n_agent_pid n)
                          parks (d, w) of (parks', d') \<Rightarrow> (parks', d', w)))
           | _ \<Rightarrow> (parks, dw)))
   | (_, st) \<Rightarrow> st)"

definition tick_told ::
    "ext \<Rightarrow> (u64 \<Rightarrow> time) \<Rightarrow> sup_env \<Rightarrow> run_id \<Rightarrow> (string \<Rightarrow> run_dir \<times> 'w \<Rightarrow> run_dir \<times> 'w) \<Rightarrow>
     node_id \<times> node \<times> scan_item \<Rightarrow> retry_states \<times> run_dir \<times> 'w \<Rightarrow> retry_states \<times> run_dir \<times> 'w" where
  "tick_told X clock E rid gap item st = (case (item, st) of
     ((nid, n, ScanTold x), (parks, dw)) \<Rightarrow>
       (case gap (node_id_str nid) dw of (d, w) \<Rightarrow>
          (parks, synthesize_worker_exit_failure X clock E rid nid x d, w))
   | (_, st) \<Rightarrow> st)"

definition watchdog_tick ::
    "ext \<Rightarrow> (u64 \<Rightarrow> time) \<Rightarrow> sup_env \<Rightarrow> run_id \<Rightarrow> 'w host \<Rightarrow> 'w spawner \<Rightarrow>
     (string \<Rightarrow> run_dir \<times> 'w \<Rightarrow> run_dir \<times> 'w) \<Rightarrow>
     retry_states \<times> run_dir \<times> 'w \<Rightarrow> retry_states \<times> run_dir \<times> 'w" where
  "watchdog_tick X clock E rid H S gap st = (case st of (parks, d, w) \<Rightarrow>
     (case read_manifest_opt rid d of
        Inr (Some manifest) \<Rightarrow>
          if is_interactive (m_lifecycle manifest) then st
          else
            (let items = scan E rid parks d;
                 snap = collect (se_probes E) (scan_sockets items);
                 st1 = fold (tick_candidate X clock E rid H gap snap) items st;
                 st2 = fold (tick_told X clock E rid gap) items st1
             in reconcile_agent_retries X clock E rid H S gap (se_instant E) st2)
      | _ \<Rightarrow> st))"

end
