(* ===== verification/Pid_File.thy ===== *)
theory Pid_File
  imports Watchdog
begin

text \<open>
  The supervisor pid file (\<open>supervise/pid_file.rs\<close>): one line naming the process that owns the
  run, with the start identity that tells a reused pid apart, and the claim of a run under its
  lock. The file is absent, a symlink, unreadable (\<open>Unparsable\<close>) or its UTF-8 text.
\<close>

type_synonym pid_file = "string entry option"

datatype pid_error =
    PidFileSymlinkRejected
  | SupervisorAlreadyRunning u32 bool  \<comment> \<open>the owner, and whether its start was recorded\<close>

definition reject_pid_symlink :: "pid_file \<Rightarrow> pid_error + unit" where
  "reject_pid_symlink f = (if f = Some Symlink then Inl PidFileSymlinkRejected else Inr ())"

definition read_pid_string :: "pid_file \<Rightarrow> string option" where
  "read_pid_string f = (case f of Some (File s) \<Rightarrow> Some s | _ \<Rightarrow> None)"

definition pid_contents :: "probes \<Rightarrow> u32 \<Rightarrow> string" where
  "pid_contents H pid =
     (let start = RecordedStart_capture H pid in
      if is_recorded start then
        (let secs = (case st_secs start of None \<Rightarrow> ''-'' | Some st \<Rightarrow> decimal (unat st)) in
         case st_identity start of
           Some i \<Rightarrow> decimal (unat pid) @ '' '' @ secs @ '' '' @ i
         | None \<Rightarrow> decimal (unat pid) @ '' '' @ secs)
      else decimal (unat pid))"

definition write_pid :: "probes \<Rightarrow> u32 \<Rightarrow> pid_file \<Rightarrow> pid_error + pid_file" where
  "write_pid H pid f = rbind (reject_pid_symlink f) (\<lambda>_. Inr (Some (File (pid_contents H pid))))"

definition parse_start :: "string list \<Rightarrow> recorded_start" where
  "parse_start tokens = RecordedStart_new
     (case tokens of t # _ \<Rightarrow> parse_u64 t | [] \<Rightarrow> None)
     (case tokens of _ # t # _ \<Rightarrow> Some t | _ \<Rightarrow> None)"

definition read_pid :: "pid_file \<Rightarrow> u32 option" where
  "read_pid f = do {
     s \<leftarrow> read_pid_string f;
     pid \<leftarrow> (case split_whitespace s of t # _ \<Rightarrow> parse_u32 t | [] \<Rightarrow> None);
     _ \<leftarrow> to_pid_t pid;
     Some pid }"

definition read_pid_record :: "pid_file \<Rightarrow> (u32 \<times> recorded_start) option" where
  "read_pid_record f = do {
     s \<leftarrow> read_pid_string f;
     (t, rest) \<leftarrow> (case split_whitespace s of t # rest \<Rightarrow> Some (t, rest) | [] \<Rightarrow> None);
     pid \<leftarrow> parse_u32 t;
     _ \<leftarrow> to_pid_t pid;
     Some (pid, parse_start rest) }"

datatype pid_record = PidAbsent | PidUnreadable | PidPresent u32 recorded_start

definition classify_pid_record :: "pid_file \<Rightarrow> pid_record" where
  "classify_pid_record f = (case f of
       None \<Rightarrow> PidAbsent
     | Some (File s) \<Rightarrow>
         (case split_whitespace s of
            [] \<Rightarrow> PidUnreadable
          | t # rest \<Rightarrow> (case parse_u32 t of
                None \<Rightarrow> PidUnreadable
              | Some pid \<Rightarrow> if to_pid_t pid = None then PidUnreadable
                            else PidPresent pid (parse_start rest)))
     | Some _ \<Rightarrow> PidUnreadable)"

definition pid_live_with_identity :: "probes \<Rightarrow> u32 \<Rightarrow> recorded_start \<Rightarrow> bool" where
  "pid_live_with_identity H pid recorded \<longleftrightarrow>
     pid_alive H pid \<and> start_matches H recorded pid \<noteq> Some False"

text \<open>Under the run lock: the error, or the file left behind.\<close>

definition claim_pid_atomic :: "probes \<Rightarrow> u32 \<Rightarrow> pid_file \<Rightarrow> pid_error + pid_file" where
  "claim_pid_atomic H our_pid f = (case read_pid_record f of
       Some (existing, start) \<Rightarrow>
         if pid_live_with_identity H existing start
         then Inl (SupervisorAlreadyRunning existing (is_recorded start))
         else write_pid H our_pid f
     | None \<Rightarrow> write_pid H our_pid f)"

definition remove_if_owner :: "u32 \<Rightarrow> pid_file \<Rightarrow> pid_file" where
  "remove_if_owner expected_pid f = (if read_pid f = Some expected_pid then None else f)"

text \<open>\<open>supervisor_spawn::read_live_recorded_pid\<close>.\<close>

definition read_live_recorded_pid :: "probes \<Rightarrow> pid_file \<Rightarrow> u32 option" where
  "read_live_recorded_pid H f = (case read_pid_record f of
       Some (pid, start) \<Rightarrow> if pid_live_with_identity H pid start then Some pid else None
     | None \<Rightarrow> None)"

end
