(* ===== verification/Tail.thy ===== *)
theory Tail
  imports Append
begin

text \<open>
  Following an event log (\<open>supervise/tail.rs\<close>). \<open>read_until\<close> on the rest of the file yields
  \<open>phys_lines\<close>; the tail's own \<open>trim_line_end\<close> is the one of \<open>events.rs\<close>. The text of a corrupt
  line's excerpt and its hash (\<open>escape_debug\<close>, \<open>DefaultHasher\<close>) are the parameter \<open>tail_text\<close>.
  Errors of the file system are not modelled; byte offsets are natural numbers.
\<close>

record tail_text =
  tx_excerpt :: "bytes \<Rightarrow> string"
  tx_hash :: "string \<Rightarrow> u64"

record corrupt_entry =
  cl_byte_offset :: nat
  cl_byte_len :: nat
  cl_line_excerpt :: string

record event_tail =
  et_pos :: nat
  et_last_seq :: u64
  et_corrupt :: "corrupt_entry option"
  et_reported_corrupt :: "(nat \<times> u64) set"

definition EventTail_new :: "u64 \<Rightarrow> event_tail" where
  "EventTail_new since_seq = \<lparr>et_pos = 0, et_last_seq = since_seq, et_corrupt = None, et_reported_corrupt = {}\<rparr>"

text \<open>The read loop: the lines that are left, the bytes consumed, the highest sequence number seen
  and the events to return. It stops at a torn line and at a complete line that is no event.\<close>

fun poll_loop ::
    "ext \<Rightarrow> (bytes \<times> bool) list \<Rightarrow> nat \<Rightarrow> u64 \<Rightarrow> event list \<Rightarrow> nat \<times> u64 \<times> event list \<times> bytes option" where
  "poll_loop X [] consumed ls out = (consumed, ls, out, None)"
| "poll_loop X ((buf, whole) # rest) consumed ls out =
     (if \<not> whole then (consumed, ls, out, None)
      else if trim_line_end buf = [] then poll_loop X rest (consumed + length buf) ls out
      else case event_of_line X (trim_line_end buf) of
          None \<Rightarrow> (consumed, ls, out, Some buf)
        | Some ev \<Rightarrow>
            if ev_seq ev \<le> ls then poll_loop X rest (consumed + length buf) ls out
            else poll_loop X rest (consumed + length buf) (ev_seq ev) (out @ [ev]))"

definition poll :: "ext \<Rightarrow> tail_text \<Rightarrow> bytes option \<Rightarrow> event_tail \<Rightarrow> event list \<times> event_tail" where
  "poll X T file et = (case file of
       None \<Rightarrow> ([], et)
     | Some bs \<Rightarrow>
         (let et1 = (if length bs < et_pos et then et\<lparr>et_pos := 0, et_corrupt := None\<rparr> else et) in
          if et_corrupt et1 \<noteq> None then ([], et1)
          else if length bs = et_pos et1 then ([], et1)
          else case poll_loop X (phys_lines (drop (et_pos et1) bs)) 0 (et_last_seq et1) [] of
              (consumed, ls, out, None) \<Rightarrow> (out, et1\<lparr>et_pos := et_pos et1 + consumed, et_last_seq := ls\<rparr>)
            | (consumed, ls, out, Some buf) \<Rightarrow>
                (out, et1\<lparr>et_pos := et_pos et1 + consumed, et_last_seq := ls,
                   et_corrupt := Some \<lparr>cl_byte_offset = et_pos et1 + consumed, cl_byte_len = length buf,
                     cl_line_excerpt = tx_excerpt T (trim_line_end buf)\<rparr>\<rparr>)))"

definition take_new_corrupt :: "tail_text \<Rightarrow> event_tail \<Rightarrow> corrupt_entry option \<times> event_tail" where
  "take_new_corrupt T et = (case et_corrupt et of
       None \<Rightarrow> (None, et)
     | Some c \<Rightarrow>
         (let key = (cl_byte_offset c, tx_hash T (cl_line_excerpt c));
              et2 = et\<lparr>et_corrupt := None, et_pos := et_pos et + cl_byte_len c,
                et_reported_corrupt := insert key (et_reported_corrupt et)\<rparr>
          in (if key \<in> et_reported_corrupt et then None else Some c, et2)))"

definition restart :: "event_tail \<Rightarrow> event_tail" where
  "restart et = et\<lparr>et_pos := 0, et_corrupt := None\<rparr>"

text \<open>\<open>report_corrupt_line\<close> (\<open>supervise/mod.rs\<close>) on the supervisor's own log, which is then both the
  log that is healed and the one the diagnostic goes to. \<open>bak\<close> renders the path of a backup.\<close>

definition quarantined_data :: "(string \<Rightarrow> string) \<Rightarrow> string \<Rightarrow> quarantine \<Rightarrow> json" where
  "quarantined_data bak source q = Object [(''backup_path'', String (bak (q_backup_ts q))),
     (''removed_byte_offsets'', Array (map (\<lambda>off. Number (PosInt (word_of_nat off))) (q_removed_byte_offsets q))),
     (''source'', String source)]"

definition skipped_data :: "string \<Rightarrow> corrupt_entry \<Rightarrow> json" where
  "skipped_data source c = Object [(''byte_offset'', Number (PosInt (word_of_nat (cl_byte_offset c)))),
     (''line_excerpt'', String (cl_line_excerpt c)), (''source'', String source)]"

definition report_corrupt_line ::
    "ext \<Rightarrow> (u64 \<Rightarrow> time) \<Rightarrow> tail_text \<Rightarrow> (string \<Rightarrow> string) \<Rightarrow> run_id \<Rightarrow> bool \<Rightarrow> string \<Rightarrow> string \<Rightarrow>
     event_tail \<times> run_dir \<Rightarrow> event_tail \<times> run_dir" where
  "report_corrupt_line X clock T bak rid quarantine source ts st = (case st of (et, d) \<Rightarrow>
     (case take_new_corrupt T et of
        (None, et1) \<Rightarrow> (et1, d)
      | (Some c, et1) \<Rightarrow>
          (let skipped = (et1, snd (append_and_apply_event X clock rid
                 ''supervisor.event_log_skipped_line'' None None (skipped_data source c) d)) in
           if quarantine then
             (case quarantine_corrupt_lines_unlocked X ts d of
                Inr (Some q, d1) \<Rightarrow>
                  (restart et1, snd (append_and_apply_event X clock rid
                     ''supervisor.event_log_quarantined'' None None (quarantined_data bak source q) d1))
              | _ \<Rightarrow> skipped)
           else skipped)))"

end
