(* ===== verification/Children.thy ===== *)
theory Children
  imports Supervisor Pid_File Tail
begin

text \<open>
  A parent supervisor and its child runs (\<open>supervise/mod.rs\<close>, \<open>supervise/state.rs\<close>,
  \<open>supervise/reducer.rs\<close>): the startup state machine of child supervisors, the consumption of
  child reports, and the roll-up of the run. The other runs' directories and pid files are the
  record \<open>fleet\<close>; forking a child supervisor is the parameter \<open>fork\<close>; instants are nanoseconds.
\<close>

section \<open>State\<close>

record sup_state =
  ss_last_seq_own :: u64
  ss_last_seq_by_child :: "(string \<times> u64) list"
  ss_last_processed_report_seq_by_child :: "(string \<times> u64) list"
  ss_spawned_children :: "(string \<times> u32) list"
  ss_captured_armed :: "string list"

definition sup_state_default :: sup_state where
  "sup_state_default = \<lparr>ss_last_seq_own = 0, ss_last_seq_by_child = [],
     ss_last_processed_report_seq_by_child = [], ss_spawned_children = [], ss_captured_armed = []\<rparr>"

record fleet =
  fl_dir :: "string \<Rightarrow> run_dir"
  fl_pid :: "string \<Rightarrow> pid_file"

text \<open>\<open>parse_run_id(..).ok().and_then(run_paths_exact(..).ok())\<close>.\<close>

definition child_paths :: "fleet \<Rightarrow> string \<Rightarrow> run_id option" where
  "child_paths F cid = (case RunId_parse_str cid of
       Inl _ \<Rightarrow> None
     | Inr rid \<Rightarrow> if d_root_symlink (fl_dir F (run_id_str rid)) then None else Some rid)"

section \<open>Starting child supervisors\<close>

datatype child_spawn = Starting nat u32 | SpawnFailed u32 nat

datatype spawn_action = Confirm u32 | MarkFailed | Retry | Wait

definition CHILD_SPAWN_MAX_ATTEMPTS :: u32 where
  "CHILD_SPAWN_MAX_ATTEMPTS = 5"

definition child_spawn_deadline :: "sup_env \<Rightarrow> nat" where
  "child_spawn_deadline E = from_secs (env_secs E ''TASKFLEET_CHILD_SPAWN_DEADLINE_SECS'' 10)"

definition child_spawn_action ::
    "child_spawn \<Rightarrow> u32 option \<Rightarrow> nat \<Rightarrow> nat \<Rightarrow> u32 \<Rightarrow> spawn_action" where
  "child_spawn_action st confirmed_pid now deadline max_attempts = (case confirmed_pid of
       Some pid \<Rightarrow> Confirm pid
     | None \<Rightarrow> (case st of
           Starting since _ \<Rightarrow> if now - since \<ge> deadline then MarkFailed else Wait
         | SpawnFailed attempts retry_at \<Rightarrow>
             if attempts \<ge> max_attempts then Wait
             else if now \<ge> retry_at then Retry else Wait))"

definition child_retry_backoff :: "u32 \<Rightarrow> nat" where
  "child_retry_backoff attempts =
     (let shift = unat (min (saturating_sub attempts 1) 5)
      in min (from_secs 2 * unat (push_bit shift 1 :: u32)) (from_secs 30))"

fun child_spawn_attempts :: "child_spawn \<Rightarrow> u32" where
  "child_spawn_attempts (Starting _ a) = a"
| "child_spawn_attempts (SpawnFailed a _) = a"

definition record_child_attached ::
    "ext \<Rightarrow> (u64 \<Rightarrow> time) \<Rightarrow> run_id \<Rightarrow> string \<Rightarrow> u32 \<Rightarrow> run_dir \<times> fleet \<Rightarrow> run_dir \<times> fleet" where
  "record_child_attached X clock parent cid pid dF = (case dF of (d, F) \<Rightarrow>
     (let F' = (case child_paths F cid of
            None \<Rightarrow> F
          | Some rid \<Rightarrow> F\<lparr>fl_dir := (fl_dir F)(run_id_str rid :=
              snd (append_and_apply_event X clock rid ''supervisor.attached'' (Some (NodeId ''n-0001'')) None
                (Object [(''pid'', json_u32 pid)]) (fl_dir F (run_id_str rid))))\<rparr>)
      in (snd (append_and_apply_event X clock parent ''child.supervisor_attached'' None None
            (Object [(''child_run_id'', String cid), (''supervisor_pid'', json_u32 pid)]) d), F')))"

text \<open>The event of a failed attempt; \<open>fin\<close> is the \<open>final\<close> field, which only the deadline writes.\<close>

definition spawn_failed_data :: "string \<Rightarrow> string \<Rightarrow> u32 \<Rightarrow> bool option \<Rightarrow> json" where
  "spawn_failed_data cid reason attempts fin = Object
     ([(''attempts'', json_u32 attempts), (''child_run_id'', String cid)] @
      (case fin of None \<Rightarrow> [] | Some b \<Rightarrow> [(''final'', Bool b)]) @ [(''reason'', String reason)])"

definition record_spawn_failed ::
    "ext \<Rightarrow> (u64 \<Rightarrow> time) \<Rightarrow> run_id \<Rightarrow> node_id option \<Rightarrow> json \<Rightarrow> run_dir \<Rightarrow> run_dir" where
  "record_spawn_failed X clock parent nid data d =
     snd (append_and_apply_event X clock parent ''child.spawn_failed'' nid None data d)"

type_synonym fork = "string \<Rightarrow> fleet \<Rightarrow> (string + unit) \<times> fleet"

type_synonym child_state = "(string \<times> child_spawn) list \<times> sup_state \<times> run_dir \<times> fleet"

text \<open>One iteration of \<open>reconcile_child_spawns\<close>.\<close>

definition reconcile_child ::
    "ext \<Rightarrow> (u64 \<Rightarrow> time) \<Rightarrow> sup_env \<Rightarrow> run_id \<Rightarrow> fork \<Rightarrow> nat \<Rightarrow> string \<Rightarrow> child_state \<Rightarrow> child_state" where
  "reconcile_child X clock E parent fork now cid cs = (case cs of (spawns, st, d, F) \<Rightarrow>
     (case map_of spawns cid of
        None \<Rightarrow> cs
      | Some sp \<Rightarrow>
          (let confirmed = Option.bind (child_paths F cid)
                 (\<lambda>rid. read_live_recorded_pid (se_probes E) (fl_pid F (run_id_str rid)));
               attempts = child_spawn_attempts sp in
           case child_spawn_action sp confirmed now (child_spawn_deadline E) CHILD_SPAWN_MAX_ATTEMPTS of
             Confirm pid \<Rightarrow>
               (case record_child_attached X clock parent cid pid (d, F) of (d', F') \<Rightarrow>
                  (map_remove cid spawns,
                   st\<lparr>ss_spawned_children := map_insert cid pid (ss_spawned_children st)\<rparr>, d', F'))
           | MarkFailed \<Rightarrow>
               (map_insert cid (SpawnFailed attempts (now + child_retry_backoff attempts)) spawns, st,
                record_spawn_failed X clock parent None (spawn_failed_data cid
                  ''no identity-verified pid within CHILD_SPAWN_DEADLINE'' attempts
                  (Some (attempts \<ge> CHILD_SPAWN_MAX_ATTEMPTS))) d, F)
           | Retry \<Rightarrow>
               (let next = attempts + 1 in
                case fork cid F of
                  (Inr _, F') \<Rightarrow> (map_insert cid (Starting now next) spawns, st, d, F')
                | (Inl err, F') \<Rightarrow>
                    (map_insert cid (SpawnFailed next (now + child_retry_backoff next)) spawns, st,
                     record_spawn_failed X clock parent None (spawn_failed_data cid err next None) d, F'))
           | Wait \<Rightarrow> cs)))"

definition reconcile_child_spawns ::
    "ext \<Rightarrow> (u64 \<Rightarrow> time) \<Rightarrow> sup_env \<Rightarrow> run_id \<Rightarrow> fork \<Rightarrow> child_state \<Rightarrow> child_state" where
  "reconcile_child_spawns X clock E parent fork cs =
     fold (reconcile_child X clock E parent fork (se_instant E)) (map fst (fst cs)) cs"

definition reseed_child_spawns ::
    "fleet \<Rightarrow> string list \<Rightarrow> sup_state \<Rightarrow> nat \<Rightarrow> (string \<times> child_spawn) list" where
  "reseed_child_spawns F child_ids st now = fold (\<lambda>cid out.
     if map_of (ss_spawned_children st) cid \<noteq> None then out
     else if (case Option.bind (child_paths F cid)
                (\<lambda>rid. ok_flatten (read_manifest_opt rid (fl_dir F (run_id_str rid)))) of
              None \<Rightarrow> False | Some m \<Rightarrow> is_terminal (m_status m))
     then out else map_insert cid (Starting now 1) out) child_ids []"

text \<open>The sweep of the persisted set at boot; \<open>reason\<close> renders a parse error.\<close>

definition quarantine_corrupt_persisted_children ::
    "ext \<Rightarrow> (u64 \<Rightarrow> time) \<Rightarrow> (id_error \<Rightarrow> string) \<Rightarrow> run_id \<Rightarrow> sup_state \<times> run_dir \<Rightarrow> sup_state \<times> run_dir" where
  "quarantine_corrupt_persisted_children X clock reason rid sd =
     fold (\<lambda>(cid, e) (st, d).
        (st\<lparr>ss_spawned_children := map_remove cid (ss_spawned_children st)\<rparr>,
         snd (append_and_apply_event X clock rid ''supervisor.child_id_quarantined'' None
           (Some (''supervisor-child-id-quarantine:'' @ take_chars 64 cid))
           (Object [(''child_run_id'', String cid), (''reason'', String (reason e)),
              (''source'', String ''spawned_children'')]) d)))
     (List.map_filter (\<lambda>(cid, _). case RunId_parse_str cid of Inl e \<Rightarrow> Some (cid, e) | Inr _ \<Rightarrow> None)
        (ss_spawned_children (fst sd))) sd"


section \<open>Consuming reports\<close>

record child_tracking =
  ct_parent_node_id :: string
  ct_tail :: event_tail
  ct_terminal :: bool

datatype cli_error = InvalidId | AppendFailed core_error

definition cursor_data :: "string \<Rightarrow> u64 \<Rightarrow> json" where
  "cursor_data cid seq = Object [(''child_run_id'', String cid), (''report_seq'', Number (PosInt seq))]"

text \<open>\<open>Ok(None)\<close> is \<open>Inr False\<close>, \<open>Ok(Some(()))\<close> is \<open>Inr True\<close>.\<close>

definition process_node_report ::
    "ext \<Rightarrow> (u64 \<Rightarrow> time) \<Rightarrow> run_id \<Rightarrow> string \<Rightarrow> string \<Rightarrow> string \<Rightarrow> u64 \<Rightarrow> sup_state \<times> run_dir \<Rightarrow>
     (cli_error + bool) \<times> sup_state \<times> run_dir" where
  "process_node_report X clock parent parent_node_id cid child_node_id report_seq sd = (case sd of (st, d) \<Rightarrow>
     (case (NodeId_parse_str parent_node_id, RunId_parse_str cid, NodeId_parse_str child_node_id) of
        (Inr parent_nid, Inr _, Inr _) \<Rightarrow>
          (if (case map_of (ss_last_processed_report_seq_by_child st) cid of
                 None \<Rightarrow> False | Some prev \<Rightarrow> report_seq \<le> prev)
           then (Inr False, st, d)
           else case append_and_apply_unlocked X clock parent ''supervisor.cursor_advanced'' (Some parent_nid) None
                  (cursor_data cid report_seq) d of
               (Inl e, d') \<Rightarrow> (Inl (AppendFailed e), st, d')
             | (Inr _, d') \<Rightarrow>
                 (Inr True, st\<lparr>ss_last_processed_report_seq_by_child :=
                    map_insert cid report_seq (ss_last_processed_report_seq_by_child st)\<rparr>, d'))
      | _ \<Rightarrow> (Inl InvalidId, st, d)))"

definition terminal_word :: "json \<Rightarrow> bool" where
  "terminal_word data \<longleftrightarrow> (case get_str data ''status'' of
     None \<Rightarrow> False | Some s \<Rightarrow> s \<in> {''done'', ''failed'', ''cancelled''})"

text \<open>The events a poll of one child's tail returned; a failed consumption rewinds the tail and
  stops.\<close>

fun consume_child_events ::
    "ext \<Rightarrow> (u64 \<Rightarrow> time) \<Rightarrow> run_id \<Rightarrow> string \<Rightarrow> event list \<Rightarrow> child_tracking \<times> sup_state \<times> run_dir \<Rightarrow>
     child_tracking \<times> sup_state \<times> run_dir" where
  "consume_child_events X clock parent cid [] cs = cs"
| "consume_child_events X clock parent cid (ev # evs) (ct, st, d) =
     (let st1 = st\<lparr>ss_last_seq_by_child := map_insert cid (ev_seq ev) (ss_last_seq_by_child st)\<rparr> in
      if ev_kind ev = ''node.report'' then
        (case process_node_report X clock parent (ct_parent_node_id ct) cid
                (case ev_node_id ev of Some n \<Rightarrow> node_id_str n | None \<Rightarrow> ''n-0001'') (ev_seq ev) (st1, d) of
           (Inr _, st2, d2) \<Rightarrow> consume_child_events X clock parent cid evs (ct\<lparr>ct_terminal := True\<rparr>, st2, d2)
         | (Inl _, st2, d2) \<Rightarrow>
             (let rewind_to = saturating_sub (ev_seq ev) 1 in
              (ct\<lparr>ct_tail := EventTail_new rewind_to, ct_terminal := False\<rparr>,
               st2\<lparr>ss_last_seq_by_child := map_insert cid rewind_to (ss_last_seq_by_child st2)\<rparr>, d2)))
      else if ev_kind ev = ''run.status'' \<and> terminal_word (ev_data ev) then
        consume_child_events X clock parent cid evs (ct\<lparr>ct_terminal := True\<rparr>, st1, d)
      else consume_child_events X clock parent cid evs (ct, st1, d))"

definition child_terminal_status_from_report :: "json \<Rightarrow> status" where
  "child_terminal_status_from_report report =
     (if get_bool report ''cancelled'' = Some True then Cancelled
      else if get_bool report ''success'' = Some True then Done else Failed)"

section \<open>Children and roll-up\<close>

text \<open>The scan of \<open>nodes/\<close>: the first node that lists a child owns it; a node that cannot be read
  fails the scan.\<close>

fun discover_loop :: "run_id \<Rightarrow> run_dir \<Rightarrow> string list \<Rightarrow> (string \<times> string) list \<Rightarrow> (string \<times> string) list res" where
  "discover_loop rid d [] out = Inr out"
| "discover_loop rid d (stem # stems) out = (case NodeId_parse_str stem of
       Inl _ \<Rightarrow> discover_loop rid d stems out
     | Inr nid \<Rightarrow> rbind (read_node_opt rid d nid) (\<lambda>no.
         discover_loop rid d stems (case no of
             None \<Rightarrow> out
           | Some n \<Rightarrow> fold (\<lambda>c out. if map_of out (run_id_str (cr_run_id c)) = None
                 then map_insert (run_id_str (cr_run_id c)) stem out else out) (n_children n) out)))"

definition discover_children_unlocked :: "run_id \<Rightarrow> run_dir \<Rightarrow> (string \<times> string) list res" where
  "discover_children_unlocked rid d = discover_loop rid d (map fst (d_nodes d)) []"

definition child_completion_evidence ::
    "string list \<Rightarrow> (string \<times> child_tracking) list \<Rightarrow> status list option \<Rightarrow> bool \<times> bool" where
  "child_completion_evidence linked tails statuses =
     (let linked_consumed = list_all (\<lambda>c. case map_of tails c of
            None \<Rightarrow> False | Some t \<Rightarrow> ct_terminal t) linked;
          all_terminal = (case statuses of None \<Rightarrow> False
            | Some ss \<Rightarrow> list_all is_terminal ss \<and> list_all (\<lambda>(_, t). ct_terminal t) tails \<and> linked_consumed);
          all_successful = (case statuses of None \<Rightarrow> False | Some ss \<Rightarrow> list_all (\<lambda>s. s = Done) ss)
      in (all_terminal, all_successful))"

definition all_work_done :: "run_id \<Rightarrow> run_dir \<Rightarrow> (string \<times> child_tracking) list \<Rightarrow> bool" where
  "all_work_done rid d tails = (case read_manifest_opt rid d of
       Inr (Some m) \<Rightarrow> m_status m \<in> {Done, Failed, Cancelled} \<and> list_all (\<lambda>(_, t). ct_terminal t) tails
     | _ \<Rightarrow> False)"

definition child_statuses :: "fleet \<Rightarrow> string list \<Rightarrow> status list option" where
  "child_statuses F linked = those (map (\<lambda>cid. Option.bind (child_paths F cid) (\<lambda>rid.
     map_option m_status (ok_flatten (read_manifest_opt rid (fl_dir F (run_id_str rid)))))) linked)"

definition rollup_status_word :: "status \<Rightarrow> string" where
  "rollup_status_word s = (case s of Done \<Rightarrow> ''done'' | Cancelled \<Rightarrow> ''cancelled'' | _ \<Rightarrow> ''failed'')"

definition rollup_event :: "run_id \<Rightarrow> rollup_outcome \<Rightarrow> string \<times> json" where
  "rollup_event rid dec = (case ro_recovery_merge_seq dec of
       Some seq \<Rightarrow> (''supervisor-recovery-rollup:'' @ run_id_str rid @ '':merge-report:'' @ decimal (unat seq),
         Object [(''children_successful'', Bool True), (''recovery_merge_report_seq'', Number (PosInt seq)),
           (''status'', String (rollup_status_word (ro_status dec)))])
     | None \<Rightarrow> (''supervisor-rollup:'' @ run_id_str rid @ '':run-status'',
         Object [(''status'', String (rollup_status_word (ro_status dec)))]))"

text \<open>The roll-up of one tick, under the run lock.\<close>

definition roll_up ::
    "ext \<Rightarrow> (u64 \<Rightarrow> time) \<Rightarrow> run_id \<Rightarrow> fleet \<Rightarrow> (string \<times> child_tracking) list \<Rightarrow> string option io" where
  "roll_up X clock rid F tails =
     bind_io (replay_unapplied_unlocked X rid) (\<lambda>_.
     bind_io (reading (discover_children_unlocked rid)) (\<lambda>linked.
     (\<lambda>d. case child_completion_evidence (map fst linked) tails (child_statuses F (map fst linked)) of
        (terminal, successful) \<Rightarrow>
          (case rollup_decision X rid d terminal successful of
             None \<Rightarrow> ret None d
           | Some dec \<Rightarrow>
               bind_io (append_and_apply_unlocked X clock rid ''run.status'' None
                   (Some (fst (rollup_event rid dec))) (snd (rollup_event rid dec)))
                 (\<lambda>_. ret (Some (rollup_status_word (ro_status dec)))) d))))"

section \<open>Dropped log events\<close>

definition DROPPED_WARN_INTERVAL :: nat where
  "DROPPED_WARN_INTERVAL = from_secs 60"

definition maybe_warn_dropped :: "u64 \<Rightarrow> nat \<Rightarrow> u64 \<times> nat option \<Rightarrow> bool \<times> u64 \<times> nat option" where
  "maybe_warn_dropped current now warned = (case warned of (last_count, last_at) \<Rightarrow>
     if current \<le> last_count then (False, last_count, last_at)
     else if (case last_at of None \<Rightarrow> True | Some t \<Rightarrow> now - t \<ge> DROPPED_WARN_INTERVAL)
     then (True, current, Some now) else (False, last_count, last_at))"

end
