(* ===== verification/Teardown_Facts.thy ===== *)
theory Teardown_Facts
  imports Teardown
begin

text \<open>
  Teardown never destroys unmerged work. The first part says which reports authorize what;
  the second states what git documents about the commands used (\<open>git_laws\<close>) and proves that a
  teardown without a confirmed merge keeps every commit reachable and every uncommitted file;
  the third that it never even issues a forcing command.
\<close>

section \<open>The outcome table\<close>

lemma classify_merged_iff:
  "classify n = Some OutMerged \<longleftrightarrow>
    (\<exists>r. n_last_report n = Some r \<and> report_is_confirmed_merge r \<and> get_bool r ''cancelled'' \<noteq> Some True)"
  by (auto simp: classify_def Let_def split: option.splits bool.splits)

lemma classify_preserve_iff:
  "(\<exists>x. classify n = Some x \<and> outcome_teardown x = PreserveWork) \<longleftrightarrow>
    (\<exists>r. n_last_report n = Some r \<and> get_bool r ''cancelled'' \<noteq> Some True \<and>
       \<not> report_is_confirmed_merge r \<and> get_bool r ''success'' \<noteq> Some True)"
  by (auto simp: classify_def Let_def split: option.splits bool.splits if_splits)

lemma teardown_full_iff: "outcome_teardown x = Full \<longleftrightarrow> x = OutMerged"
  by (cases x) auto

section \<open>What git keeps\<close>

text \<open>
  A view of the repository in a world: the commits reachable from a revision, the branches, the
  commit at the HEAD of a worktree, the commits reachable from some ref or from the HEAD of a worktree whose directory exists,
  and the worktrees with uncommitted work.
\<close>

record ('w, 'c) repo_view =
  v_reach :: "'w \<Rightarrow> string \<Rightarrow> 'c set"
  v_branch :: "'w \<Rightarrow> string \<Rightarrow> bool"
  v_head :: "'w \<Rightarrow> string \<Rightarrow> string option"
  v_kept :: "'w \<Rightarrow> 'c set"
  v_unsaved :: "'w \<Rightarrow> string \<Rightarrow> bool"

definition same_repo :: "('w, 'c) repo_view \<Rightarrow> 'w \<Rightarrow> 'w \<Rightarrow> bool" where
  "same_repo V w w' \<longleftrightarrow> v_reach V w' = v_reach V w \<and> v_branch V w' = v_branch V w \<and>
     v_head V w' = v_head V w \<and> v_kept V w' = v_kept V w \<and> v_unsaved V w' = v_unsaved V w"

definition keeps_work :: "('w, 'c) repo_view \<Rightarrow> 'w \<Rightarrow> 'w \<Rightarrow> bool" where
  "keeps_work V w w' \<longleftrightarrow> v_kept V w \<subseteq> v_kept V w' \<and> (\<forall>p. v_unsaved V w p \<longrightarrow> v_unsaved V w' p)"

text \<open>The queries: \<open>rev-list --count a..b\<close> is 0 only when \<open>b\<close> adds nothing to \<open>a\<close>; a branch
  keeps its commits; HEAD on a branch is at its tip.\<close>

definition query_laws :: "'w host \<Rightarrow> ('w, 'c) repo_view \<Rightarrow> bool" where
  "query_laws H V \<longleftrightarrow>
     (\<forall>w repo a b. rev_list_count H w repo a b = Some 0 \<longrightarrow> v_reach V w b \<subseteq> v_reach V w a) \<and>
     (\<forall>w b. v_branch V w b \<longrightarrow> v_reach V w b \<subseteq> v_kept V w) \<and>
     (\<forall>w p oid. head_oid H w p = Some oid \<longrightarrow> v_head V w p = Some oid) \<and>
     (\<forall>w p b oid. head_branch H w p = Some b \<longrightarrow> head_oid H w p = Some oid \<longrightarrow>
        v_branch V w b \<and> v_reach V w oid \<subseteq> v_reach V w b)"

text \<open>\<open>worktree remove\<close> without \<open>--force\<close> refuses a worktree with uncommitted work, touches no
  branch and gives up only what the HEAD of the removed worktree reached.\<close>

definition remove_laws :: "'w host \<Rightarrow> ('w, 'c) repo_view \<Rightarrow> bool" where
  "remove_laws H V \<longleftrightarrow> (\<forall>w w' repo p removed. worktree_remove H w repo p False = (removed, w') \<longrightarrow>
     (\<forall>q. v_unsaved V w q \<longrightarrow> v_unsaved V w' q) \<and>
     (\<forall>b. v_branch V w b \<longrightarrow> v_branch V w' b \<and> v_reach V w' b = v_reach V w b) \<and>
     (\<not> path_exists H w p \<longrightarrow> v_kept V w \<subseteq> v_kept V w') \<and>
     (\<forall>oid. v_head V w p = Some oid \<longrightarrow> v_kept V w \<subseteq> v_kept V w' \<union> v_reach V w oid))"

text \<open>\<open>branch -d\<close> deletes only a branch merged into its upstream or HEAD; tmux and the display
  code do not touch the repository.\<close>

definition other_laws :: "'w host \<Rightarrow> ('w, 'c) repo_view \<Rightarrow> bool" where
  "other_laws H V \<longleftrightarrow>
     (\<forall>w w' repo b r. branch_delete H w repo b False = (r, w') \<longrightarrow> keeps_work V w w') \<and>
     (\<forall>w w' s args r. tmux_write H w s args = (r, w') \<longrightarrow> same_repo V w w') \<and>
     (\<forall>w n. same_repo V w (close_original_workmux_window H n w)) \<and>
     (\<forall>w n ok w'. save_dormant_pane H n w = (ok, w') \<longrightarrow> same_repo V w w') \<and>
     (\<forall>w n. same_repo V w (close_persistent_non_pi H n w)) \<and>
     (\<forall>d n w r d' w'. retain_completed_display H d n w = (r, d', w') \<longrightarrow> same_repo V w w') \<and>
     (\<forall>d n w r d' w'. archive_before_cleanup H d n w = (r, d', w') \<longrightarrow> same_repo V w w')"

definition git_laws :: "'w host \<Rightarrow> ('w, 'c) repo_view \<Rightarrow> bool" where
  "git_laws H V \<longleftrightarrow> query_laws H V \<and> remove_laws H V \<and> other_laws H V"

lemma same_repo_refl [simp]: "same_repo V w w"
  by (simp add: same_repo_def)

lemma same_repo_trans: "same_repo V w w1 \<Longrightarrow> same_repo V w1 w2 \<Longrightarrow> same_repo V w w2"
  by (simp add: same_repo_def)

lemma same_repo_keeps: "same_repo V w w' \<Longrightarrow> keeps_work V w w'"
  by (simp add: same_repo_def keeps_work_def)

lemma keeps_work_refl [simp]: "keeps_work V w w"
  by (simp add: keeps_work_def)

lemma keeps_work_trans: "keeps_work V w w1 \<Longrightarrow> keeps_work V w1 w2 \<Longrightarrow> keeps_work V w w2"
  by (auto simp: keeps_work_def)

lemma git_lawsD:
  assumes "git_laws H V"
  shows "rev_list_count H w repo a b = Some 0 \<Longrightarrow> v_reach V w b \<subseteq> v_reach V w a"
    and "v_branch V w b \<Longrightarrow> v_reach V w b \<subseteq> v_kept V w"
    and "head_branch H w p = Some b \<Longrightarrow> head_oid H w p = Some oid \<Longrightarrow>
      v_branch V w b \<and> v_reach V w oid \<subseteq> v_reach V w b"
    and "branch_delete H w repo b False = (r, w') \<Longrightarrow> keeps_work V w w'"
    and "tmux_write H w s args = (x, w') \<Longrightarrow> same_repo V w w'"
    and "same_repo V w (close_original_workmux_window H n w)"
    and "same_repo V w (close_persistent_non_pi H n w)"
    and "retain_completed_display H d n w = (rt, d', w') \<Longrightarrow> same_repo V w w'"
    and "archive_before_cleanup H d n w = (ok, d', w') \<Longrightarrow> same_repo V w w'"
    and "save_dormant_pane H n w = (ok2, w') \<Longrightarrow> same_repo V w w'"
    and "head_oid H w p = Some oid \<Longrightarrow> v_head V w p = Some oid"
  using assms unfolding git_laws_def query_laws_def other_laws_def by metis+

lemma remove_lawsD:
  assumes "git_laws H V" and "worktree_remove H w repo p False = (removed, w')"
  shows "v_unsaved V w q \<Longrightarrow> v_unsaved V w' q"
    and "v_branch V w b \<Longrightarrow> v_branch V w' b \<and> v_reach V w' b = v_reach V w b"
    and "\<not> path_exists H w p \<Longrightarrow> v_kept V w \<subseteq> v_kept V w'"
    and "v_head V w p = Some oid \<Longrightarrow> v_kept V w \<subseteq> v_kept V w' \<union> v_reach V w oid"
  using assms unfolding git_laws_def remove_laws_def by metis+

lemma kill_window_repo:
  "git_laws H V \<Longrightarrow> kill_window H w s t = (k, w') \<Longrightarrow> same_repo V w w'"
  by (auto simp: kill_window_def git_lawsD(5) split: prod.splits)

lemma close_tmux_window_repo:
  assumes L: "git_laws H V" and c: "close_tmux_window X clock rid H n (d, w) = (d', w')"
  shows "same_repo V w w'"
  using c by (auto simp: close_tmux_window_def Let_def split: option.splits prod.splits if_splits
      intro: same_repo_trans dest!: kill_window_repo[OF L])

lemma settle_display_repo:
  assumes L: "git_laws H V" and s: "settle_display X clock rid H n (d, w) = (go, d', w')"
  shows "same_repo V w w'"
  using s by (auto simp: settle_display_def split: prod.splits retention.splits if_splits
      dest: git_lawsD(8)[OF L] close_tmux_window_repo[OF L]
      intro: same_repo_trans[OF _ git_lawsD(6)[OF L]] same_repo_trans[OF _ git_lawsD(7)[OF L]])

section \<open>The guards suffice\<close>

text \<open>A HEAD the guard lets go is reachable from a branch.\<close>

lemma head_guard:
  assumes L: "git_laws H V"
    and g: "head_teardown_safety H w repo p rb source \<in> {DeferToBranch, HeadSafe}"
    and s: "\<And>s. source = Some s \<Longrightarrow> v_branch V w s"
  obtains oid b where "head_oid H w p = Some oid" "v_branch V w b" "v_reach V w oid \<subseteq> v_reach V w b"
proof -
  obtain oid where o: "head_oid H w p = Some oid"
    using g by (cases "head_oid H w p") (auto simp: head_teardown_safety_def)
  show thesis
  proof (cases "\<exists>b. head_branch H w p = Some b \<and> rb = Some b")
    case True
    then show thesis using that[OF o] git_lawsD(3)[OF L _ o] by blast
  next
    case False
    then have "head_reach_from_source H w repo source oid = InSource"
      using g o by (auto simp: head_teardown_safety_def split: option.splits head_reach.splits if_splits)
    then obtain src where "source = Some src" "rev_list_count H w repo src oid = Some 0"
      by (auto simp: head_reach_from_source_def split: option.splits if_splits)
    then show thesis using that[OF o] s git_lawsD(1)[OF L] by blast
  qed
qed

lemma removal_of_reachable_head:
  assumes L: "git_laws H V" and r: "worktree_remove H w repo p False = (removed, w')"
    and h: "v_head V w p = Some oid" "v_branch V w b" "v_reach V w oid \<subseteq> v_reach V w b"
  shows "keeps_work V w w'"
proof -
  have "v_reach V w oid \<subseteq> v_kept V w'"
    using h remove_lawsD(2)[OF L r, of b] git_lawsD(2)[OF L, of w' b] by auto
  then have "v_kept V w \<subseteq> v_kept V w'" using remove_lawsD(4)[OF L r h(1)] by auto
  then show ?thesis using remove_lawsD(1)[OF L r] by (simp add: keeps_work_def)
qed

lemma guarded_removal_keeps_work:
  assumes L: "git_laws H V"
    and g: "path_exists H w p \<Longrightarrow>
      head_teardown_safety H w repo p rb source \<in> {DeferToBranch, HeadSafe}"
    and s: "\<And>s. source = Some s \<Longrightarrow> v_branch V w s"
    and r: "worktree_remove H w repo p False = (removed, w')"
  shows "keeps_work V w w'"
proof (cases "path_exists H w p")
  case True
  obtain oid b where h: "head_oid H w p = Some oid" "v_branch V w b" "v_reach V w oid \<subseteq> v_reach V w b"
    using head_guard[OF L g[OF True] s] by blast
  then show ?thesis using removal_of_reachable_head[OF L r git_lawsD(11)[OF L h(1)]] by blast
next
  case False
  then show ?thesis using remove_lawsD(1,3)[OF L r] by (simp add: keeps_work_def)
qed

lemma source_relative_vetoD:
  assumes "source_relative_veto H w rid d n repo p = None" and "path_exists H w p"
  shows "head_teardown_safety H w repo p (filter_opt (\<lambda>s. s \<noteq> []) (n_branch n))
      (manifest_source_branch rid d) \<in> {DeferToBranch, HeadSafe}"
  using assms by (auto simp: source_relative_veto_def Let_def
      split: option.splits cleanliness.splits head_teardown.splits)

lemma delete_branch_keeps_work:
  "git_laws H V \<Longrightarrow> delete_branch X clock rid H n repo b False (d, w) = (d', w') \<Longrightarrow> keeps_work V w w'"
  by (auto simp: delete_branch_def dest: git_lawsD(4) split: prod.splits option.splits)

lemma remove_without_merge_keeps_work:
  assumes L: "git_laws H V"
    and v: "source_relative_veto H w rid d n repo p = None"
    and s: "\<And>s. manifest_source_branch rid d = Some s \<Longrightarrow> v_branch V w s"
    and r: "remove_worktree_and_branch X clock rid H n repo p False (d, w) = (d', w')"
  shows "keeps_work V w w'"
proof -
  obtain removed w1 where rm: "worktree_remove H w repo p False = (removed, w1)" by fastforce
  have k: "keeps_work V w w1"
    by (rule guarded_removal_keeps_work[OF L source_relative_vetoD[OF v] s rm])
  have fin: "keeps_work V w1 w'" if "w' = w1 \<or> (\<exists>b d0. delete_branch X clock rid H n repo b False (d0, w1) = (d', w'))"
    using that delete_branch_keeps_work[OF L] by auto
  have "w' = w1 \<or> (\<exists>b d0. delete_branch X clock rid H n repo b False (d0, w1) = (d', w'))"
    using r rm by (auto simp: remove_worktree_and_branch_def Let_def split: if_splits option.splits)
  then show ?thesis using keeps_work_trans[OF k fin] by simp
qed

text \<open>The state in which the guards of \<open>cleanup_node\<close> run: after the evidence archive and the
  display.\<close>

definition guard_state ::
    "ext \<Rightarrow> (u64 \<Rightarrow> time) \<Rightarrow> run_id \<Rightarrow> 'w host \<Rightarrow> node \<Rightarrow> run_dir \<times> 'w \<Rightarrow> run_dir \<times> 'w" where
  "guard_state X clock rid H n dw = (case archive_before_cleanup H (fst dw) n (snd dw) of
     (_, dw1) \<Rightarrow> snd (settle_display X clock rid H n dw1))"

lemma cleanup_after_evidence_keeps_work:
  assumes L: "git_laws H V" and nm: "classify n \<noteq> Some OutMerged"
    and s: "\<And>go d1 w1 s. settle_display X clock rid H n (d, w) = (go, d1, w1) \<Longrightarrow>
      manifest_source_branch rid d1 = Some s \<Longrightarrow> v_branch V w1 s"
    and r: "cleanup_node_after_evidence X clock rid H n (d, w) = (d', w')"
  shows "keeps_work V w w'"
proof -
  obtain go d1 w1 where sd: "settle_display X clock rid H n (d, w) = (go, d1, w1)"
    using prod_cases3 by blast
  have k: "keeps_work V w w1"
    by (rule same_repo_keeps[OF settle_display_repo[OF L sd]])
  have m: "\<not> (case classify n of None \<Rightarrow> False | Some t \<Rightarrow> is_explicit_merge t)"
    using nm by (cases "classify n") (auto simp: is_explicit_merge_def)
  have "w' = w1 \<or> (\<exists>p repo. source_relative_veto H w1 rid d1 n repo p = None \<and>
      remove_worktree_and_branch X clock rid H n repo p False (d1, w1) = (d', w'))"
    using r m unfolding cleanup_node_after_evidence_def sd
    by (auto simp: Let_def split: if_splits option.splits)
  then show ?thesis
    using keeps_work_trans[OF k] k remove_without_merge_keeps_work[OF L _ s[OF sd]] by metis
qed

text \<open>C5: teardown keeps unmerged work. Under git's documented behaviour, cleaning up a node
  whose terminal report is not a confirmed merge - blocked, failed, cancelled, a plain success,
  or no report at all - leaves every commit that a ref or a worktree's HEAD reached reachable,
  and every worktree with uncommitted work still there with it, provided the run's recorded
  source branch is a branch.\<close>

theorem teardown_keeps_unmerged_work:
  assumes "git_laws H V" and "classify n \<noteq> Some OutMerged"
    and "\<forall>s. manifest_source_branch rid (fst (guard_state X clock rid H n (d, w))) = Some s \<longrightarrow>
      v_branch V (snd (guard_state X clock rid H n (d, w))) s"
  shows "v_kept V w \<subseteq> v_kept V (snd (cleanup_node X clock rid H n (d, w))) \<and>
    (\<forall>p. v_unsaved V w p \<longrightarrow> v_unsaved V (snd (cleanup_node X clock rid H n (d, w))) p)"
proof -
  obtain ok d1 w1 where a: "archive_before_cleanup H d n w = (ok, d1, w1)"
    using prod_cases3 by blast
  have k: "keeps_work V w w1" by (rule same_repo_keeps[OF git_lawsD(9)[OF assms(1) a]])
  have s: "\<And>go d2 w2 s. settle_display X clock rid H n (d1, w1) = (go, d2, w2) \<Longrightarrow>
      manifest_source_branch rid d2 = Some s \<Longrightarrow> v_branch V w2 s"
    using assms(3) a by (simp add: guard_state_def)
  obtain d2 w2 where c: "cleanup_node_after_evidence X clock rid H n (d1, w1) = (d2, w2)"
    by fastforce
  have "keeps_work V w1 w2"
    by (rule cleanup_after_evidence_keeps_work[OF assms(1,2) s c])
  then have "keeps_work V w (snd (cleanup_node X clock rid H n (d, w)))"
    using keeps_work_trans[OF k] k a c by (simp add: cleanup_node_def split: option.splits)
  then show ?thesis by (simp add: keeps_work_def)
qed

section \<open>Forcing commands\<close>

definition forcing :: "string list \<Rightarrow> bool" where
  "forcing args \<longleftrightarrow> (\<exists>p. args = [''worktree'', ''remove'', ''--force'', p]) \<or>
     (\<exists>b. args = [''branch'', ''-D'', ''--'', b])"

text \<open>The host with other forcing commands and another removal of leftover checkouts.\<close>

definition with_force ::
    "('w \<Rightarrow> string \<Rightarrow> string list \<Rightarrow> cmd_output \<times> 'w) \<Rightarrow>
     ('w \<Rightarrow> 'w \<Rightarrow> string \<Rightarrow> string \<Rightarrow> bool \<times> 'w) \<Rightarrow> 'w host \<Rightarrow> 'w host" where
  "with_force gw rl H = H\<lparr>git_write := (\<lambda>w dir args. if forcing args then gw w dir args
     else git_write H w dir args), remove_leftover := rl\<rparr>"

lemma with_force_queries [simp]:
  "git_read (with_force gw rl H) = git_read H"
  "tmux_read (with_force gw rl H) = tmux_read H"
  "tmux_write (with_force gw rl H) = tmux_write H"
  "path_exists (with_force gw rl H) = path_exists H"
  "archive_before_cleanup (with_force gw rl H) = archive_before_cleanup H"
  "retain_completed_display (with_force gw rl H) = retain_completed_display H"
  "close_original_workmux_window (with_force gw rl H) = close_original_workmux_window H"
  "close_persistent_non_pi (with_force gw rl H) = close_persistent_non_pi H"
  by (simp_all add: with_force_def)

lemma with_force_git [simp]:
  "rev_list_count (with_force gw rl H) = rev_list_count H"
  "head_oid (with_force gw rl H) = head_oid H"
  "head_branch (with_force gw rl H) = head_branch H"
  "worktree_status_clean (with_force gw rl H) = worktree_status_clean H"
  "main_worktree (with_force gw rl H) = main_worktree H"
  by (simp_all add: fun_eq_iff rev_list_count_def head_oid_def head_branch_def
      worktree_status_clean_def main_worktree_def worktree_registrations_def)

lemma with_force_guards [simp]:
  "branch_unmerged_vs_source (with_force gw rl H) = branch_unmerged_vs_source H"
  "worktree_cleanliness (with_force gw rl H) = worktree_cleanliness H"
  "head_teardown_safety (with_force gw rl H) = head_teardown_safety H"
  unfolding fun_eq_iff branch_unmerged_vs_source_def worktree_cleanliness_def
    head_teardown_safety_def head_reach_from_source_def with_force_queries with_force_git
  by simp_all

lemma with_force_veto [simp]:
  "source_relative_veto (with_force gw rl H) = source_relative_veto H"
  unfolding fun_eq_iff source_relative_veto_def with_force_queries with_force_guards by simp

lemma with_force_tmux [simp]:
  "kill_window (with_force gw rl H) = kill_window H"
  "find_window_by_path (with_force gw rl H) = find_window_by_path H"
  by (simp_all add: fun_eq_iff kill_window_def find_window_by_path_def list_windows_raw_def)

lemma with_force_display [simp]:
  "settle_display X clock rid (with_force gw rl H) = settle_display X clock rid H"
  unfolding fun_eq_iff settle_display_def close_tmux_window_def with_force_queries with_force_tmux
  by simp

lemma with_force_unforced [simp]:
  "worktree_remove (with_force gw rl H) w repo p False = worktree_remove H w repo p False"
  "branch_delete (with_force gw rl H) w repo b False = branch_delete H w repo b False"
  by (simp_all add: worktree_remove_def worktree_remove_detail_def branch_delete_def with_force_def
      forcing_def)

lemma with_force_removal:
  "remove_worktree_and_branch X clock rid (with_force gw rl H) n repo p False dw =
   remove_worktree_and_branch X clock rid H n repo p False dw"
  unfolding remove_worktree_and_branch_def delete_branch_def with_force_queries with_force_unforced
    if_False by (rule refl)

text \<open>C30: only a confirmed merge forces. Unless the node's last report is a confirmed merge that
  is not a cancellation, tearing the node down gives the same result whatever
  \<open>worktree remove --force\<close>, \<open>branch -D\<close> and the removal of a leftover checkout would do: none of
  them is reached.\<close>

theorem force_requires_confirmed_merge:
  assumes "\<nexists>r. n_last_report n = Some r \<and> report_is_confirmed_merge r \<and>
    get_bool r ''cancelled'' \<noteq> Some True"
  shows "cleanup_node X clock rid (with_force gw rl H) n dw = cleanup_node X clock rid H n dw"
proof -
  have "classify n \<noteq> Some OutMerged" using assms by (simp add: classify_merged_iff)
  then have m: "(case classify n of None \<Rightarrow> False | Some t \<Rightarrow> is_explicit_merge t) = False"
    by (cases "classify n") (auto simp: is_explicit_merge_def)
  show ?thesis
    unfolding cleanup_node_def cleanup_node_after_evidence_def with_force_queries with_force_display
      with_force_git with_force_veto Let_def m with_force_removal by (rule refl)
qed

end
