(* ===== verification/Pid_Facts.thy ===== *)
theory Pid_Facts
  imports Pid_File Schema_Facts
begin

text \<open>
  The pid file reads back what was captured, and a live owner excludes every other claim.
\<close>

section \<open>Round trip\<close>

definition blank_starts :: "char set" where
  "blank_starts = hd ` set white_space_utf8"

definition is_token :: "string \<Rightarrow> bool" where
  "is_token t \<longleftrightarrow> t \<noteq> [] \<and> list_all (\<lambda>c. c \<notin> blank_starts) t"

lemma no_blank_prefix:
  assumes "c \<notin> blank_starts"
  shows "List.find (\<lambda>w. w \<noteq> [] \<and> prefix w (c # s)) white_space_utf8 = None"
  unfolding find_None_iff
proof clarify
  fix w assume w: "w \<in> set white_space_utf8" "w \<noteq> []" "prefix w (c # s)"
  then have "hd w = c" by (metis hd_append2 list.sel(1) prefixE)
  with w(1) have "c \<in> blank_starts" unfolding blank_starts_def by (metis imageI)
  with assms show False by simp
qed

lemma split_ws_token:
  "list_all (\<lambda>c. c \<notin> blank_starts) t \<Longrightarrow> split_ws_loop word (t @ s) = split_ws_loop (rev t @ word) s"
  by (induction t arbitrary: word) (simp_all add: no_blank_prefix)

lemma find_space: "List.find (\<lambda>w. w \<noteq> [] \<and> prefix w (CHR '' '' # s)) white_space_utf8 = Some '' ''"
  by (simp add: white_space_utf8_def)

lemma split_one_token: "is_token t \<Longrightarrow> split_whitespace t = [t]"
  using split_ws_token[of t "[]" "[]"] by (simp add: split_whitespace_def is_token_def)

lemma split_tokens:
  "is_token t \<Longrightarrow> split_whitespace (t @ CHR '' '' # s) = t # split_whitespace s"
  using split_ws_token[of t "[]" "CHR '' '' # s"]
  by (simp add: split_whitespace_def is_token_def find_space)


lemma digit_not_blank: "is_ascii_digit c \<Longrightarrow> c \<notin> blank_starts"
  by (auto simp: is_ascii_digit_def blank_starts_def white_space_utf8_def less_eq_char_def)

lemma decimal_token: "is_token (decimal n)"
  using decimal_digits[of n] decimal_nonempty[of n]
  by (auto simp: is_token_def list_all_iff digit_not_blank)

lemma parse_u64_token: "parse_u64 t = Some n \<Longrightarrow> is_token t"
proof -
  assume p: "parse_u64 t = Some n"
  have plus: "CHR ''+'' \<notin> blank_starts" by (auto simp: blank_starts_def white_space_utf8_def)
  show ?thesis
    using p plus by (cases t) (auto simp: parse_u64_def Let_def is_token_def list_all_iff digit_not_blank
        split: if_splits)
qed

lemma identity_token: "pid_start_identity H pid = Some i \<Longrightarrow> is_token i"
proof -
  assume "pid_start_identity H pid = Some i"
  then obtain ticks n where i: "i = ''linux:'' @ ticks" and t: "parse_u64 ticks = Some n"
    by (auto simp: pid_start_identity_def linux_start_identity_def Let_def bind_eq_Some_conv
        split: if_splits)
  have "list_all (\<lambda>c. c \<notin> blank_starts) ''linux:''"
    by (auto simp: blank_starts_def white_space_utf8_def)
  then show ?thesis using parse_u64_token[OF t] unfolding i is_token_def by auto
qed

lemma parse_u64_decimal: "parse_u64 (decimal (unat (w :: u64))) = Some w"
  using parse_u64_digits[OF decimal_nonempty decimal_digits, of "unat w"] unsigned_less[of w]
  by (simp add: digits_value_decimal)

lemma parse_u32_decimal: "parse_u32 (decimal (unat (w :: u32))) = Some w"
proof -
  define x :: u64 where "x = of_nat (unat w)"
  have small: "unat w < 2 ^ 32" using unsigned_less[of w] by simp
  then have big: "unat w < 2 ^ 64" by (rule less_trans) simp
  have ux: "unat x = unat w" using big unfolding x_def by (intro of_nat_inverse[OF refl]) simp
  have "unat (ucast x :: u32) = unat w"
    using small by (simp add: unsigned_ucast_eq ux take_bit_nat_eq_self)
  then have "(ucast x :: u32) = w" by (rule unsigned_word_eqI)
  moreover have "parse_u64 (decimal (unat w)) = Some x"
    using parse_u64_digits[OF decimal_nonempty decimal_digits, of "unat w"] big
    by (simp add: digits_value_decimal x_def)
  ultimately show ?thesis using small by (simp add: parse_u32_def try_u32_def ux)
qed

lemma parse_u64_dash: "parse_u64 ''-'' = None" "is_token ''-''"
  by (auto simp: parse_u64_def is_ascii_digit_def is_token_def blank_starts_def white_space_utf8_def
      less_eq_char_def)

lemma identity_nonempty: "pid_start_identity H pid = Some i \<Longrightarrow> i \<noteq> []"
  using identity_token by (auto simp: is_token_def)

lemma start_tokens:
  assumes "is_recorded (RecordedStart_capture H pid)"
  obtains tokens where "pid_contents H pid = decimal (unat pid) @ CHR '' '' # tokens"
    "parse_start (split_whitespace tokens) = RecordedStart_capture H pid"
proof -
  define secs where "secs = (case pid_start_time H pid of None \<Rightarrow> ''-'' | Some st \<Rightarrow> decimal (unat st))"
  have tok: "is_token secs" and ps: "parse_u64 secs = pid_start_time H pid"
    by (simp_all add: secs_def decimal_token parse_u64_decimal parse_u64_dash split: option.split)
  show thesis
  proof (cases "pid_start_identity H pid")
    case None
    have "pid_contents H pid = decimal (unat pid) @ CHR '' '' # secs"
      using assms None by (simp add: pid_contents_def RecordedStart_capture_def Let_def secs_def)
    moreover have "parse_start (split_whitespace secs) = RecordedStart_capture H pid"
      using None by (simp add: split_one_token[OF tok] parse_start_def ps RecordedStart_new_def
          RecordedStart_capture_def filter_opt_def)
    ultimately show thesis using that by blast
  next
    case (Some i)
    have "pid_contents H pid = decimal (unat pid) @ CHR '' '' # secs @ CHR '' '' # i"
      using assms Some by (simp add: pid_contents_def RecordedStart_capture_def Let_def secs_def)
    moreover have "parse_start (split_whitespace (secs @ CHR '' '' # i)) = RecordedStart_capture H pid"
      using Some identity_nonempty[OF Some]
      by (simp add: split_tokens[OF tok] split_one_token[OF identity_token[OF Some]] parse_start_def
          ps RecordedStart_new_def RecordedStart_capture_def filter_opt_def)
    ultimately show thesis using that by blast
  qed
qed

lemma written_record_reads_back:
  assumes "to_pid_t pid \<noteq> None" and "f \<noteq> Some Symlink"
  shows "\<exists>f'. write_pid H pid f = Inr f' \<and>
    read_pid_record f' = Some (pid, RecordedStart_capture H pid) \<and> read_pid f' = Some pid"
proof -
  obtain p where p: "to_pid_t pid = Some p" using assms(1) by blast
  obtain rest where w: "split_whitespace (pid_contents H pid) = decimal (unat pid) # rest"
    "parse_start rest = RecordedStart_capture H pid"
  proof (cases "is_recorded (RecordedStart_capture H pid)")
    case True
    then obtain tokens where "pid_contents H pid = decimal (unat pid) @ CHR '' '' # tokens"
      "parse_start (split_whitespace tokens) = RecordedStart_capture H pid" by (rule start_tokens)
    then show ?thesis using that by (simp add: split_tokens[OF decimal_token])
  next
    case False
    then have "pid_contents H pid = decimal (unat pid)" "RecordedStart_capture H pid = \<lparr>st_secs = None, st_identity = None\<rparr>"
      by (simp_all add: pid_contents_def Let_def is_recorded_def RecordedStart_capture_def)
    then show ?thesis using that[of "[]"]
      by (simp add: split_one_token[OF decimal_token] parse_start_def RecordedStart_new_def filter_opt_def)
  qed
  with assms(2) p show ?thesis
    by (simp add: write_pid_def reject_pid_symlink_def read_pid_record_def read_pid_def
        read_pid_string_def parse_u32_decimal)
qed

text \<open>The pid file round trip. Whatever the process table says, writing the record of a pid in
  the valid range over anything but a symlink and reading it back gives that pid with exactly the
  start values captured for it; a symlink is refused.\<close>

theorem pid_record_roundtrip:
  assumes "to_pid_t pid \<noteq> None"
  shows "case write_pid H pid f of
      Inl e \<Rightarrow> f = Some Symlink \<and> e = PidFileSymlinkRejected
    | Inr f' \<Rightarrow> read_pid_record f' = Some (pid, RecordedStart_capture H pid) \<and> read_pid f' = Some pid"
proof (cases "f = Some Symlink")
  case True
  then show ?thesis by (simp add: write_pid_def reject_pid_symlink_def)
next
  case False
  then show ?thesis using written_record_reads_back[OF assms False, of H] by auto
qed

lemma claim_writes:
  "claim_pid_atomic H pid f = Inr f' \<Longrightarrow> write_pid H pid f = Inr f'"
  by (auto simp: claim_pid_atomic_def split: option.splits prod.splits if_splits)

lemma matches_own_capture:
  assumes "pid_start_identity H' pid = pid_start_identity H pid"
    and "pid_start_time H' pid = pid_start_time H pid"
  shows "start_matches H' (RecordedStart_capture H pid) pid \<noteq> Some False"
  using assms by (auto simp: start_matches_def RecordedStart_capture_def abs_diff_def
      split: option.splits)

text \<open>C33: one supervisor per run. After a successful claim, and for as long as the owner is alive with
  the start values it was recorded with, every other claim fails with the owner's pid and leaves
  the file alone, and the owner is the recorded live process.\<close>

theorem claimed_run_excludes_others:
  assumes "claim_pid_atomic H pid f = Inr f'" and "pid_alive H' pid"
    and "pid_start_identity H' pid = pid_start_identity H pid"
    and "pid_start_time H' pid = pid_start_time H pid"
  shows "(\<exists>recorded. claim_pid_atomic H' other f' = Inl (SupervisorAlreadyRunning pid recorded)) \<and>
    read_live_recorded_pid H' f' = Some pid"
proof -
  have valid: "to_pid_t pid \<noteq> None" using assms(2) by (auto simp: pid_alive_def split: option.splits)
  have "read_pid_record f' = Some (pid, RecordedStart_capture H pid)"
    using written_record_reads_back[OF valid, of f H] claim_writes[OF assms(1)]
    by (cases "f = Some Symlink") (auto simp: write_pid_def reject_pid_symlink_def)
  moreover have "pid_live_with_identity H' pid (RecordedStart_capture H pid)"
    using assms(2) matches_own_capture[OF assms(3,4)] by (simp add: pid_live_with_identity_def)
  ultimately show ?thesis by (simp add: claim_pid_atomic_def read_live_recorded_pid_def)
qed

end
