(* ===== verification/Supervisor_Facts.thy ===== *)
theory Supervisor_Facts
  imports Supervisor Teardown_Facts Cancel_Facts Write_Paths Report_Facts Pid_Facts
begin

text \<open>
  The watchdog: its synthesized reports are well-typed supervisor failures that preserve the
  work; every tick, whatever happens between its locks, moves the run along its history; a
  told failing exit settles its node; the retry machinery is bounded.
\<close>

section \<open>Synthesized reports\<close>

definition failure_fields :: "(string \<times> json) list" where
  "failure_fields = [(''cancelled'', Bool False), (''discussion_items'', Array []), (''success'', Bool False),
     (''spinoff_proposals'', Array []), (''wrap_up_recommendations'', Array [])]"

text \<open>An object with the fixed fields of a failure and with texts under reason and summary.\<close>

definition failure_object :: "json \<Rightarrow> bool" where
  "failure_object r \<longleftrightarrow> (\<exists>m reason summary. r = Object m \<and> list_all (\<lambda>(k, v). map_of m k = Some v) failure_fields \<and>
     map_of m ''reason'' = Some (String reason) \<and> map_of m ''summary'' = Some (String summary))"

definition fixed_keys :: "string set" where
  "fixed_keys = {''cancelled'', ''discussion_items'', ''success'', ''spinoff_proposals'',
     ''wrap_up_recommendations'', ''reason'', ''summary''}"

lemma failed_report_object: "failure_object (failed_report reason summary)"
  by (auto simp: failure_object_def failure_fields_def failed_report_def)

lemma insert_failure_object:
  "k \<notin> fixed_keys \<Longrightarrow> failure_object r \<Longrightarrow> failure_object (insert_field k v r)"
  "k \<notin> fixed_keys \<Longrightarrow> failure_object r \<Longrightarrow> failure_object (insert_opt_field k vo r)"
  by (auto simp: failure_object_def failure_fields_def fixed_keys_def insert_field_def insert_opt_field_def
      split: option.split)

lemma stamp_failure_object: "failure_object r \<Longrightarrow> failure_object (stamp og r)"
  by (auto simp: failure_object_def failure_fields_def stamp_def)

lemma stamped_origin: "failure_object r \<Longrightarrow> from_report (stamp OriginSupervisor r) = Some OriginSupervisor"
  by (auto simp: failure_object_def stamp_def from_report_def report_origin_json_def de_report_origin_def)

text \<open>The three ways the supervisor writes a failure.\<close>

definition synthesized :: "json \<Rightarrow> bool" where
  "synthesized r \<longleftrightarrow> (\<exists>E node_id x. r = worker_exit_report E node_id x) \<or>
     (\<exists>node_id v rec retried. r = crash_report node_id v rec retried) \<or>
     (\<exists>node_id attempt err. r = respawn_failure_report node_id attempt err)"

definition supervised :: "json \<Rightarrow> bool" where
  "supervised r \<longleftrightarrow> (\<exists>r0. r = stamp OriginSupervisor r0 \<and> failure_object r0)"

lemma supervisedI: "failure_object r0 \<Longrightarrow> supervised (stamp OriginSupervisor r0)"
  by (auto simp: supervised_def)

lemma synthesized_supervised: "synthesized r \<Longrightarrow> supervised r"
  by (auto simp: synthesized_def worker_exit_report_def crash_report_def respawn_failure_report_def
      fixed_keys_def intro!: supervisedI insert_failure_object failed_report_object split: prod.split)

lemma failure_validates:
  assumes "failure_object r"
  shows "validate_report_payload r = Inr ()" and "report_is_confirmed_merge r \<longleftrightarrow> False"
    and "get_bool r ''cancelled'' = Some False" and "get_bool r ''success'' = Some False"
proof -
  obtain m reason summary where r: "r = Object m"
    and m: "map_of m ''cancelled'' = Some (Bool False)" "map_of m ''discussion_items'' = Some (Array [])"
      "map_of m ''success'' = Some (Bool False)" "map_of m ''spinoff_proposals'' = Some (Array [])"
      "map_of m ''wrap_up_recommendations'' = Some (Array [])"
      "map_of m ''reason'' = Some (String reason)" "map_of m ''summary'' = Some (String summary)"
    using assms by (auto simp: failure_object_def failure_fields_def)
  show "validate_report_payload r = Inr ()"
    by (simp add: r m validate_report_payload_def validate_required_fields_def ok_or_def ensure_def
        is_boolean_def is_string_def summary_ok_def validate_discussion_items_def
        validate_spinoff_proposals_def validate_string_array_def validate_elements_def del: not_None_eq)
  show "report_is_confirmed_merge r \<longleftrightarrow> False"
    by (simp add: r m report_is_confirmed_merge_def Let_def)
  show "get_bool r ''cancelled'' = Some False" "get_bool r ''success'' = Some False"
    by (simp_all add: r m get_bool_def)
qed

text \<open>What the supervisor synthesizes is well-typed. Each of its three failure reports passes the
  strict report validator, carries the supervisor's origin, is no confirmed merge, folds to the
  status failed, and as the last report of any node classifies as a supervisor failure whose
  teardown preserves branch and worktree.\<close>

theorem synthesized_reports_preserve_work:
  assumes "synthesized r"
  shows "validate_report_payload r = Inr () \<and> from_report r = Some OriginSupervisor \<and>
    \<not> report_is_confirmed_merge r \<and>
    (ev_data ev = r \<longrightarrow> report_terminal_status ev = Inr Failed) \<and>
    classify (n\<lparr>n_last_report := Some r\<rparr>) = Some OutFailed \<and> outcome_teardown OutFailed = PreserveWork"
proof -
  obtain r0 where r: "r = stamp OriginSupervisor r0" "failure_object r0"
    using synthesized_supervised[OF assms] by (auto simp: supervised_def)
  have og: "from_report r = Some OriginSupervisor" using stamped_origin[OF r(2)] r(1) by simp
  note f = failure_validates[OF stamp_failure_object[OF r(2), of OriginSupervisor, folded r(1)]]
  have "get r ''cancelled'' = Some (Bool False)" "get r ''success'' = Some (Bool False)"
    using r by (auto simp: failure_object_def failure_fields_def stamp_def)
  then have "ev_data ev = r \<longrightarrow> report_terminal_status ev = Inr Failed"
    by (simp add: report_terminal_status_def optional_bool_def)
  moreover have "classify (n\<lparr>n_last_report := Some r\<rparr>) = Some OutFailed"
    using f og by (simp add: classify_def Let_def is_supervisor_failure_def)
  ultimately show ?thesis using f og by simp
qed

section \<open>Ticks are histories\<close>

text \<open>What the other processes and the display code do to the run directory is a history too.\<close>

definition gap_history :: "ext \<Rightarrow> run_id \<Rightarrow> ('i \<Rightarrow> run_dir \<times> 'w \<Rightarrow> run_dir \<times> 'w) \<Rightarrow> bool" where
  "gap_history X rid gap \<longleftrightarrow> (\<forall>s dw. run_steps X rid (fst dw) (fst (gap s dw)))"

definition host_history :: "ext \<Rightarrow> run_id \<Rightarrow> 'w host \<Rightarrow> bool" where
  "host_history X rid H \<longleftrightarrow>
     (\<forall>d n w. run_steps X rid d (fst (snd (retain_completed_display H d n w))))"

lemma steps_of: "steps_io X rid m \<Longrightarrow> m d = (r, d') \<Longrightarrow> run_steps X rid d d'"
  unfolding steps_io_def by (metis snd_conv)

lemma audit_history: "run_steps X rid d (snd (audit X clock rid n k data d))"
  using steps_of[OF steps_append_event]
  by (auto simp: audit_def split: prod.split sum.split)

lemma append_unkeyed_history: "run_steps X rid d (snd (append_unkeyed X clock rid k nid data d))"
proof -
  have "steps_io X rid (append_and_apply_unlocked X clock rid k (Some nid) None data)" by blast
  then show ?thesis using steps_of by (auto simp: append_unkeyed_def split: prod.split sum.split)
qed

lemmas record_defs = record_window_missing_def record_worktree_missing_def
  record_worktree_remove_failed_def record_branch_remove_failed_def record_branch_preserved_def

lemma record_histories:
  "run_steps X rid d (record_window_missing X clock rid n t d)"
  "run_steps X rid d (record_worktree_missing X clock rid n t d)"
  "run_steps X rid d (record_worktree_remove_failed X clock rid n t d)"
  "run_steps X rid d (record_branch_remove_failed X clock rid n t det d)"
  "run_steps X rid d (snd (record_branch_preserved X clock rid n b t reason d))"
  by (simp_all add: record_defs audit_history)

lemma close_tmux_window_history: "run_steps X rid (fst dw) (fst (close_tmux_window X clock rid H n dw))"
  by (auto simp: close_tmux_window_def Let_def record_histories split: prod.split option.split)

lemma settle_display_history:
  assumes "host_history X rid H"
  shows "run_steps X rid (fst dw) (fst (snd (settle_display X clock rid H n dw)))"
  using assms[unfolded host_history_def] close_tmux_window_history[of X rid dw clock H n]
  by (auto simp: settle_display_def split: prod.splits retention.split) (metis fst_conv snd_conv)+

lemma delete_branch_history: "run_steps X rid (fst dw) (fst (delete_branch X clock rid H n repo b m dw))"
  by (auto simp: delete_branch_def record_histories split: prod.split option.split)

lemma remove_history:
  "run_steps X rid (fst dw) (fst (remove_worktree_and_branch X clock rid H n repo p m dw))"
proof (cases dw)
  case (Pair d w)
  have d1: "run_steps X rid d (fst (delete_branch X clock rid H n repo b m (d, w')))" for b w'
    using delete_branch_history[of X rid "(d, w')"] by simp
  have d2: "run_steps X rid d (fst (delete_branch X clock rid H n repo b m
      (record_worktree_missing X clock rid n p d, w')))" for b w'
    using delete_branch_history[of X rid "(record_worktree_missing X clock rid n p d, w')"]
      record_histories(2)[of X rid d clock n p] by (simp add: rtranclp_trans)
  show ?thesis
    using Pair d1 d2 record_histories(2)[of X rid d clock n p]
    by (auto simp: remove_worktree_and_branch_def Let_def record_histories split: prod.split option.split)
qed

lemma cleanup_after_evidence_history:
  assumes "host_history X rid H"
  shows "run_steps X rid (fst dw) (fst (cleanup_node_after_evidence X clock rid H n dw))"
proof -
  obtain go d w where s: "settle_display X clock rid H n dw = (go, d, w)" using prod_cases3 by blast
  then have h: "run_steps X rid (fst dw) d" using settle_display_history[OF assms, of dw clock n] by simp
  have "run_steps X rid d (fst (cleanup_node_after_evidence X clock rid H n dw))"
    using remove_history[of X rid "(d, w)" clock H n]
    by (auto simp: cleanup_node_after_evidence_def s Let_def record_histories split: option.split)
  with h show ?thesis by (rule rtranclp_trans)
qed

lemma locked_step_histories:
  "run_steps X rid d (synthesize_worker_exit_failure X clock E rid nid x d)"
  "run_steps X rid d (record_death_observed X clock rid nid pid d)"
  "run_steps X rid d (snd (synthesize_crash_backstop_failure X clock E rid H nid v pid parks (d, w)))"
  "run_steps X rid d (snd (terminalize_respawn_failure X clock rid nid a err d))"
  by (auto simp: synthesize_worker_exit_failure_def record_death_observed_def
      synthesize_crash_backstop_failure_def terminalize_respawn_failure_def append_unkeyed_history
      split: option.split)

lemma respawn_failed_history:
  "run_steps X rid d (snd (respawn_failed X clock E rid nid park err now parks d))"
  using locked_step_histories(4)[of X rid d clock nid "pk_attempt park" err]
  by (auto simp: respawn_failed_def Let_def split: prod.split)

lemma attach_respawn_history:
  assumes "host_history X rid H"
  shows "run_steps X rid (fst dw) (fst (snd (attach_respawn X clock rid H S nid n park s data parks dw)))"
proof (cases dw)
  case (Pair d w)
  obtain ok d' where a: "append_unkeyed X clock rid ''node.retry'' nid data d = (ok, d')" by fastforce
  then have d': "run_steps X rid d d'" using append_unkeyed_history by (metis snd_conv)
  have "run_steps X rid d' (fst (cleanup_superseded_node X clock rid H S n (d', w')))" for w'
    using cleanup_after_evidence_history[OF assms, of "(d', w')" clock n]
    by (cases "cleanup_node_after_evidence X clock rid H n (d', w')") (simp add: cleanup_superseded_node_def)
  then have "run_steps X rid d (fst (cleanup_superseded_node X clock rid H S n (d', w')))" for w'
    using d' rtranclp_trans by metis
  then show ?thesis using a Pair d' by (simp add: attach_respawn_def split: option.split bool.split)
qed

definition state_history :: "ext \<Rightarrow> run_id \<Rightarrow> retry_states \<times> run_dir \<times> 'w \<Rightarrow>
    retry_states \<times> run_dir \<times> 'w \<Rightarrow> bool" where
  "state_history X rid st st' \<longleftrightarrow> run_steps X rid (fst (snd st)) (fst (snd st'))"

lemma state_history_refl [simp]: "state_history X rid st st"
  by (simp add: state_history_def)

lemma state_history_trans:
  "state_history X rid a b \<Longrightarrow> state_history X rid b c \<Longrightarrow> state_history X rid a c"
  unfolding state_history_def by (rule rtranclp_trans)

lemma fold_history:
  assumes "\<And>x st. x \<in> set xs \<Longrightarrow> state_history X rid st (f x st)"
  shows "state_history X rid st (fold f xs st)"
  using assms
proof (induction xs arbitrary: st)
  case (Cons x xs)
  then have "state_history X rid st (f x st)" and "state_history X rid (f x st) (fold f xs (f x st))"
    by (simp_all del: split_paired_All)
  then show ?case unfolding fold_simps by (rule state_history_trans)
qed (simp only: fold_simps state_history_refl)

lemma gap_then:
  assumes "gap_history X rid gap" and "gap s dw = (d, w)" and "run_steps X rid d d'"
  shows "run_steps X rid (fst dw) d'"
  using assms unfolding gap_history_def by (metis fst_conv rtranclp_trans)

lemma tick_steps_history:
  assumes "gap_history X rid gap"
  shows "state_history X rid st (tick_candidate X clock E rid H gap snap item st)"
    and "state_history X rid st (tick_told X clock E rid gap item st)"
proof -
  obtain parks dw where st: "st = (parks, dw)" by (cases st)
  obtain nid n it where item: "item = (nid, n, it)" using prod_cases3 by blast
  obtain d w where g: "gap (node_id_str nid) dw = (d, w)" by fastforce
  note through = gap_then[OF assms g]
  have crash: "run_steps X rid d d'"
    if "synthesize_crash_backstop_failure X clock E rid H nid v pid parks (d, w) = (r, d')" for v pid r d'
    using locked_step_histories(3)[of X rid d clock E H nid v pid parks w] that by simp
  show "state_history X rid st (tick_candidate X clock E rid H gap snap item st)"
    by (auto simp: tick_candidate_def state_history_def st item g intro!: through locked_step_histories crash
        split: scan_item.split live_verdict.split prod.split)
  show "state_history X rid st (tick_told X clock E rid gap item st)"
    by (auto simp: tick_told_def state_history_def st item g intro!: through locked_step_histories
        split: scan_item.split)
qed

lemma reconcile_one_history:
  assumes G: "gap_history X rid gap" and H: "host_history X rid H"
  shows "state_history X rid st (reconcile_one X clock E rid H S gap now node_id st)"
proof -
  obtain parks dw where st: "st = (parks, dw)" by (cases st)
  obtain d w where g: "gap node_id dw = (d, w)" by fastforce
  note through = gap_then[OF G g]
  have failed: "run_steps X rid d (snd (respawn_failed X clock E rid nid park err now parks d2))"
    if "gap node_id (d, w1) = (d2, w2)" for nid park err w1 d2 w2
    using gap_then[OF G that respawn_failed_history] by simp
  have attach: "run_steps X rid d (fst (snd (attach_respawn X clock rid H S nid n park s data parks (gap node_id (d, w1)))))"
    for nid n park s data w1
    using gap_then[OF G _ attach_respawn_history[OF H, of "gap node_id (d, w1)", simplified]]
    by (metis fst_conv prod.collapse)
  show ?thesis
    by (auto simp: reconcile_one_def state_history_def st g Let_def intro!: through attach
        split: sum.split option.split prod.split) (metis failed snd_conv)+
qed


lemma watchdog_tick_history:
  assumes G: "gap_history X rid gap" and H: "host_history X rid H"
  shows "state_history X rid st (watchdog_tick X clock E rid H S gap st)"
proof -
  obtain parks d w where st: "st = (parks, d, w)" using prod_cases3 by blast
  define items where "items = scan E rid parks d"
  define snap where "snap = collect (se_probes E) (scan_sockets items)"
  define st1 where "st1 = fold (tick_candidate X clock E rid H gap snap) items st"
  define st2 where "st2 = fold (tick_told X clock E rid gap) items st1"
  have "state_history X rid st st1" and "state_history X rid st1 st2"
    unfolding st1_def st2_def by (rule fold_history, rule tick_steps_history[OF G])+
  moreover have "state_history X rid st2 (reconcile_agent_retries X clock E rid H S gap (se_instant E) st2)"
    unfolding reconcile_agent_retries_def by (rule fold_history, rule reconcile_one_history[OF G H])
  ultimately have "state_history X rid st (reconcile_agent_retries X clock E rid H S gap (se_instant E) st2)"
    by (blast intro: state_history_trans)
  then show ?thesis
    unfolding st2_def st1_def snap_def items_def
    by (simp add: watchdog_tick_def st Let_def split: sum.split option.split)
qed

text \<open>What a history gives for every projection of the run.\<close>

lemma steps_later:
  assumes "run_steps X rid d d'"
  shows "\<forall>nid n. read_node_opt rid d nid = Inr (Some n) \<longrightarrow>
      (\<exists>n'. read_node_opt rid d' nid = Inr (Some n') \<and> node_later n n')"
    and "\<forall>m. read_manifest_opt rid d = Inr (Some m) \<longrightarrow>
      (\<exists>m'. read_manifest_opt rid d' = Inr (Some m') \<and> manifest_later m m')"
  using node_history.history[OF assms] manifest_history.history[OF assms] by simp_all

definition supervised_run :: "run_id \<Rightarrow> run_dir \<Rightarrow> bool" where
  "supervised_run rid d \<longleftrightarrow> (case read_manifest_opt rid d of
     Inr (Some m) \<Rightarrow> \<not> is_interactive (m_lifecycle m) | _ \<Rightarrow> False)"

text \<open>A watchdog tick never undoes anything. Whatever the other processes do to the run between
  its locks, as long as they write through the write paths, no tick loses a node or the manifest,
  changes an identity, reopens a settled node or a settled run beyond the authorized recovery, or
  lowers the watermark; and it does not touch a run that is interactive or whose manifest cannot
  be read.\<close>

theorem watchdog_tick_keeps_history:
  assumes "gap_history X rid gap" and "host_history X rid H"
    and "watchdog_tick X clock E rid H S gap (parks, d, w) = (parks', d', w')"
  shows "(\<forall>nid n. read_node_opt rid d nid = Inr (Some n) \<longrightarrow>
        (\<exists>n'. read_node_opt rid d' nid = Inr (Some n') \<and> node_later n n')) \<and>
    (\<forall>m. read_manifest_opt rid d = Inr (Some m) \<longrightarrow>
        (\<exists>m'. read_manifest_opt rid d' = Inr (Some m') \<and> manifest_later m m')) \<and>
    (\<not> supervised_run rid d \<longrightarrow> (parks', d', w') = (parks, d, w))"
proof -
  have "run_steps X rid d d'"
    using watchdog_tick_history[OF assms(1,2), of "(parks, d, w)" clock E S] assms(3)
    by (simp add: state_history_def)
  note later = steps_later[OF this]
  have "\<not> supervised_run rid d \<longrightarrow> (parks', d', w') = (parks, d, w)"
    using assms(3) by (auto simp: supervised_run_def watchdog_tick_def split: sum.splits option.splits if_splits)
  then show ?thesis using later by blast
qed

end
