(* ===== verification/Death_Facts.thy ===== *)
theory Death_Facts
  imports Supervisor_Facts
begin

text \<open>
  What happens to dead workers: a told failing exit settles its node within one tick, an observed
  death ends in a bounded park or in a settled node, and the retry machinery is bounded.
\<close>

section \<open>The reports fit in the log\<close>

definition fits :: "nat \<Rightarrow> json \<Rightarrow> bool" where
  "fits k v \<longleftrightarrow> wf_json v \<and> exact_json k v"

lemma insert_field_fits:
  assumes "fits (Suc k) r" and "fits k v"
  shows "fits (Suc k) (insert_field f v r)"
proof (cases r)
  case (Object m)
  have "p \<in> set (map_insert f v m) \<Longrightarrow> p = (f, v) \<or> p \<in> set m" for p
    by (induction m) (auto split: if_splits)
  then have "\<forall>p\<in>set (map_insert f v m). wf_json (snd p) \<and> exact_json k (snd p)"
    using assms Object by (fastforce simp: fits_def)
  with assms(1) Object show ?thesis by (simp add: fits_def insert_field_def sorted_keys_insert)
qed (use assms in \<open>simp_all add: insert_field_def\<close>)

lemma insert_opt_field_fits:
  "fits (Suc k) r \<Longrightarrow> (\<And>v. vo = Some v \<Longrightarrow> fits k v) \<Longrightarrow> fits (Suc k) (insert_opt_field f vo r)"
  using insert_field_fits by (cases vo) (simp_all add: insert_opt_field_def)

lemma stamp_fits: "fits (Suc (Suc k)) r \<Longrightarrow> fits (Suc (Suc k)) (stamp OriginSupervisor r)"
  using insert_field_fits[of "Suc k" r "report_origin_json OriginSupervisor" REPORT_ORIGIN_KEY]
  unfolding stamp_def insert_field_def by (simp add: report_origin_json_def fits_def)

lemma opt_str_fits: "fits k (opt_str so)"
  by (cases so) (simp_all add: opt_str_def fits_def)

lemma leaf_fits [simp]:
  "fits k (String s)" "fits k (json_u32 u)" "fits (Suc k) (to_report_value r)"
  "fits (Suc (Suc k)) (failed_report a b)" "fits (Suc k) (Object [])"
  using opt_str_fits[of k "rc_worktree_path r"]
  by (simp_all add: fits_def json_u32_def failed_report_def to_report_value_def)

text \<open>Exit codes and signal numbers are \<open>i32\<close> values in the source.\<close>

definition i32_exit :: "worker_exit \<Rightarrow> bool" where
  "i32_exit x \<longleftrightarrow> (\<forall>c\<in>set_option (wx_code x) \<union> set_option (wx_signal x). - (2 ^ 31) \<le> c \<and> c < 2 ^ 31)"

lemma json_i32_fits: "i32_exit x \<Longrightarrow> c = wx_code x \<or> c = wx_signal x \<Longrightarrow>
    map_option json_i32 c = Some v \<Longrightarrow> fits k v"
  by (elim disjE) (cases c; force simp: i32_exit_def json_i32_def fits_def dest: sym)+

lemma depth: obtains k where "MAX_DEPTH - 1 = Suc (Suc k)"
  using that[of 124] by (simp add: MAX_DEPTH_def)

lemmas fits_intros = stamp_fits insert_field_fits insert_opt_field_fits leaf_fits

lemma crash_report_fits: "fits (MAX_DEPTH - 1) (crash_report nid v rec retried)"
  by (rule depth) (auto simp: crash_report_def intro!: fits_intros split: if_splits)

lemma exit_report_fits: "i32_exit x \<Longrightarrow> fits (MAX_DEPTH - 1) (worker_exit_report E nid x)"
  by (rule depth, cases "exit_reason x") (auto simp: worker_exit_report_def intro!: fits_intros intro: json_i32_fits)

section \<open>Appending to one node\<close>

lemma append_event_to_node:
  assumes X: "ext_ok X" and rm: "room X rid (Suc k) d" and v: "valid_target rid nid"
    and f: "fits (MAX_DEPTH - 1) data"
    and r: "\<And>s. \<exists>n'. reduce_event_to_ops X rid d (new_event clock rid kind (Some nid) key data s) = Inr [OpNode n']
      \<and> n_node_id n' = nid \<and> P n'"
  obtains s d' n' where "append_and_apply_unlocked X clock rid kind (Some nid) key data d = (Inr s, d')"
    "room X rid k d'" "read_node_opt rid d' nid = Inr (Some n')" "P n'"
    "\<And>i. i \<noteq> nid \<Longrightarrow> read_node_opt rid d' i = read_node_opt rid d i"
proof -
  have l: "loggable (new_event clock rid kind (Some nid) key data s)" for s
    using v f by (simp add: loggable_def new_event_def valid_target_def fits_def)
  obtain m where m: "read_manifest_opt rid d = Inr (Some m)" using room_manifest[OF rm] by blast
  obtain s ops ev d' where a: "ev = new_event clock rid kind (Some nid) key data s"
    "append_and_apply_unlocked X clock rid kind (Some nid) key data d = (Inr s, d')"
    "reduce_event_to_ops X rid d ev = Inr ops" "d' = recorded_state X rid ev ops d" "room X rid k d'"
    by (rule append_in_room[OF X rm l]) (use r in blast)+
  from r[of s] a(1,3) obtain n' where ops: "ops = [OpNode n']" "n_node_id n' = nid" "P n'" by auto
  obtain d1 where d1: "commit_ops rid ops d = (Inr (), d1)" "list_all (\<lambda>oper. reads_back rid oper d1) ops"
    "\<And>p. p \<notin> set (map op_path ops) \<Longrightarrow> same_at rid p d d1"
    using reducer.commit_plan[OF a(3)] by blast
  have reads: "read_node_opt rid d' i = read_node_opt rid d1 i" for i
    using recorded_node[OF a(3) m] a(4) d1(1) by simp
  have "read_node_opt rid d' nid = Inr (Some n')" using d1(2) ops reads by (simp add: reads_back_def)
  moreover have "read_node_opt rid d' i = read_node_opt rid d i" if "i \<noteq> nid" for i
    using d1(3)[of "NodePath i"] that ops reads by (simp add: op_path_def same_at_def)
  ultimately show ?thesis using that a(2,5) ops(3) by simp
qed

lemma append_to_node:
  assumes "ext_ok X" and "room X rid (Suc k) d" and "valid_target rid nid" and "fits (MAX_DEPTH - 1) data"
    and "\<And>s. \<exists>n'. reduce_event_to_ops X rid d (new_event clock rid kind (Some nid) None data s) = Inr [OpNode n']
      \<and> n_node_id n' = nid \<and> P n'"
  obtains d' n' where "append_unkeyed X clock rid kind nid data d = (True, d')" "room X rid k d'"
    "read_node_opt rid d' nid = Inr (Some n')" "P n'"
    "\<And>i. i \<noteq> nid \<Longrightarrow> read_node_opt rid d' i = read_node_opt rid d i"
  by (rule append_event_to_node[OF assms]) (use that in \<open>simp add: append_unkeyed_def\<close>)

definition failed_with :: "json \<Rightarrow> node \<Rightarrow> bool" where
  "failed_with data n \<longleftrightarrow> n_status n = Failed \<and> n_last_report n = Some data"

lemma reduce_failure:
  assumes "supervised data" and n: "read_node_opt rid d nid = Inr (Some n)" and "\<not> is_terminal (n_status n)"
  shows "\<exists>n'. reduce_event_to_ops X rid d (new_event clock rid ''node.report'' (Some nid) None data s) =
      Inr [OpNode n'] \<and> n_node_id n' = nid \<and> failed_with data n'"
proof -
  let ?ev = "new_event clock rid ''node.report'' (Some nid) None data s"
  have "get data ''cancelled'' = Some (Bool False)" "get data ''success'' = Some (Bool False)"
    using assms(1) by (auto simp: supervised_def failure_object_def failure_fields_def stamp_def)
  then have "report_terminal_status ?ev = Inr Failed"
    by (simp add: report_terminal_status_def optional_bool_def new_event_def)
  moreover have "n_node_id n = nid" using node_store.read_checked[OF n] by simp
  ultimately show ?thesis
    using assms by (simp add: reduce_event_to_ops_def reducers_def reduce_node_report_def new_event_def
        require_envelope_node_id_def ok_or_def with_node_def failed_with_def)
qed

lemma append_failure:
  assumes "ext_ok X" and "room X rid (Suc k) d" and "valid_target rid nid" and "fits (MAX_DEPTH - 1) data"
    and "supervised data" and "read_node_opt rid d nid = Inr (Some n)" and "\<not> is_terminal (n_status n)"
  obtains d' n' where "append_unkeyed X clock rid ''node.report'' nid data d = (True, d')" "room X rid k d'"
    "read_node_opt rid d' nid = Inr (Some n')" "failed_with data n'"
    "\<And>i. i \<noteq> nid \<Longrightarrow> read_node_opt rid d' i = read_node_opt rid d i"
  by (rule append_to_node[OF assms(1-4) reduce_failure[OF assms(5-7)]]) (rule that)


section \<open>Observed deaths\<close>

lemma reread_node_Some:
  "reread_node rid nid P d = Some n \<longleftrightarrow> read_node_opt rid d nid = Inr (Some n) \<and> P n"
  by (auto simp: reread_node_def filter_opt_Some ok_flatten_def split: sum.splits option.splits)

lemma crash_supervised: "supervised (crash_report nid v rec retried)"
  by (rule synthesized_supervised) (auto simp: synthesized_def)

lemma exit_supervised: "supervised (worker_exit_report E nid x)"
  by (rule synthesized_supervised) (unfold synthesized_def, intro disjI1 exI, rule refl)

text \<open>A park that the retry machinery may hold for a node.\<close>

definition bounded_park :: "sup_env \<Rightarrow> node \<Rightarrow> retry_park \<Rightarrow> bool" where
  "bounded_park E n p \<longleftrightarrow> pk_attempt p = n_retry_attempts n + 1 \<and>
     0 < pk_attempt p \<and> pk_attempt p \<le> agent_retry_max_attempts E \<and> pk_spawn_failures p = 0 \<and>
     se_instant E \<le> pk_retry_at p \<and> pk_retry_at p \<le> se_instant E + from_secs 120"

lemma backoff_bounded: "agent_retry_backoff E a \<le> from_secs 120"
proof -
  have "unat (min w 120) \<le> 120" for w :: u64
    using min.cobounded2[of w 120] by (simp add: word_le_nat_alt)
  then show ?thesis
    by (simp add: agent_retry_backoff_def Let_def from_secs_def AGENT_RETRY_MAX_BACKOFF_SECS_def)
qed

lemma word_inc_bounds: "a < b \<Longrightarrow> 0 < a + 1 \<and> a + 1 \<le> b" for a b :: "'a::len word"
  by uint_arith

lemma park_on_death_bounded:
  assumes "park_on_death E rid H v n d w = Some p"
  shows "bounded_park E n p \<and> v = LiveDead \<and> retry_eligible_kind n \<and> node_is_empty_handed H w rid d n"
proof -
  have "n_retry_attempts n < agent_retry_max_attempts E" and p: "pk_attempt p = n_retry_attempts n + 1"
    using assms by (auto simp: park_on_death_def Let_def split: if_splits)
  then have "0 < pk_attempt p \<and> pk_attempt p \<le> agent_retry_max_attempts E"
    by (simp add: word_inc_bounds)
  with assms p show ?thesis
    using backoff_bounded by (auto simp: park_on_death_def bounded_park_def Let_def split: if_splits)
qed


lemma observed_death_resolved:
  assumes X: "ext_ok X" and rm: "room X rid (Suc k) d" and v: "valid_target rid nid"
    and n: "read_node_opt rid d nid = Inr (Some n)" and unsettled: "\<not> is_terminal (n_status n)"
      "n_last_report n = None" "n_worker_exit n = None" "n_pending_merge n = None"
  obtains p where "synthesize_crash_backstop_failure X clock E rid H nid lv (n_agent_pid n) parks (d, w) =
      (map_insert (node_id_str nid) p parks, d)" "bounded_park E n p" "node_is_empty_handed H w rid d n"
      "retry_eligible_kind n" "room X rid k d"
  | d' n' where "synthesize_crash_backstop_failure X clock E rid H nid lv (n_agent_pid n) parks (d, w) = (parks, d')"
      "read_node_opt rid d' nid = Inr (Some n')" "room X rid k d'"
      "failed_with (crash_report (node_id_str nid) lv (node_recoverability H w rid d n) (n_retry_attempts n)) n'"
      "\<And>i. i \<noteq> nid \<Longrightarrow> read_node_opt rid d' i = read_node_opt rid d i"
proof -
  have f: "reread_node rid nid (\<lambda>f. n_last_report f = None \<and> n_worker_exit f = None
             \<and> n_pending_merge f = None \<and> n_agent_pid f = n_agent_pid n \<and> \<not> is_terminal (n_status f)) d = Some n"
    using n unsettled by (simp add: reread_node_Some)
  show thesis
  proof (cases "park_on_death E rid H lv n d w")
    case (Some p)
    with f that(1)[of p] park_on_death_bounded[OF Some] room_Suc[OF rm] show ?thesis
      by (simp add: synthesize_crash_backstop_failure_def)
  next
    case None
    let ?r = "crash_report (node_id_str nid) lv (node_recoverability H w rid d n) (n_retry_attempts n)"
    obtain d' n' where a: "append_unkeyed X clock rid ''node.report'' nid ?r d = (True, d')" "room X rid k d'"
      "read_node_opt rid d' nid = Inr (Some n')" "failed_with ?r n'"
      "\<And>i. i \<noteq> nid \<Longrightarrow> read_node_opt rid d' i = read_node_opt rid d i"
      by (rule append_failure[OF X rm v crash_report_fits crash_supervised n unsettled(1)]) (rule that)
    show ?thesis by (rule that(2)[OF _ a(3,2,4,5)]) (simp add: synthesize_crash_backstop_failure_def f None a(1))
  qed
qed

text \<open>C21: an observed death is always resolved. When the last worker process of an open node that has
  neither reported nor is merging stays dead past the grace period, the tick either parks the
  node for a retry, only for a worker that is empty-handed, with an attempt number between one and
  the configured maximum and a delay of at most two minutes, or settles it as failed with the
  crash report as its last report; the other nodes are untouched.\<close>

theorem observed_death_is_resolved:
  assumes "ext_ok X" and "room X rid 1 d" and "valid_target rid nid"
    and "read_node_opt rid d nid = Inr (Some n)" and "\<not> is_terminal (n_status n)"
    and "n_last_report n = None" and "n_worker_exit n = None" and "n_pending_merge n = None"
    and "observe_death E snap n p = (lv, DeadGraceElapsed)"
    and "tick_candidate X clock E rid H (\<lambda>_ dw. dw) snap (nid, n, ScanProbe p) (parks, d, w) = (parks', d', w')"
  shows "w' = w \<and> (\<forall>i. i \<noteq> nid \<longrightarrow> read_node_opt rid d' i = read_node_opt rid d i) \<and>
    ((\<exists>p. map_of parks' (node_id_str nid) = Some p \<and> bounded_park E n p \<and>
        node_is_empty_handed H w rid d n \<and> retry_eligible_kind n) \<or>
     (\<exists>n'. read_node_opt rid d' nid = Inr (Some n') \<and>
        failed_with (crash_report (node_id_str nid) lv (node_recoverability H w rid d n) (n_retry_attempts n)) n'))"
proof -
  have "room X rid (Suc 0) d" using assms(2) by simp
  note resolved = observed_death_resolved[OF assms(1) this assms(3-8)]
  have "w' = w" and t: "synthesize_crash_backstop_failure X clock E rid H nid lv (n_agent_pid n) parks (d, w) = (parks', d')"
    using assms(9,10) by (auto simp: tick_candidate_def classify_live_node_def split: prod.splits)
  then show ?thesis
  proof (rule_tac resolved[of clock E H lv parks w])
    fix p assume "synthesize_crash_backstop_failure X clock E rid H nid lv (n_agent_pid n) parks (d, w) =
        (map_insert (node_id_str nid) p parks, d)"
      "bounded_park E n p" "node_is_empty_handed H w rid d n" "retry_eligible_kind n"
    with t \<open>w' = w\<close> show ?thesis by auto
  next
    fix d1 n' assume "synthesize_crash_backstop_failure X clock E rid H nid lv (n_agent_pid n) parks (d, w) = (parks, d1)"
      and n': "read_node_opt rid d1 nid = Inr (Some n')"
        "failed_with (crash_report (node_id_str nid) lv (node_recoverability H w rid d n) (n_retry_attempts n)) n'"
        "\<And>i. i \<noteq> nid \<Longrightarrow> read_node_opt rid d1 i = read_node_opt rid d i"
    with t have "d' = d1" by simp
    with n' \<open>w' = w\<close> show ?thesis by blast
  qed
qed


section \<open>Told exits\<close>

text \<open>The room and the state of the told node along the tick: unchanged until it is settled.\<close>

definition told_state :: "ext \<Rightarrow> run_id \<Rightarrow> node_id \<Rightarrow> node \<Rightarrow> nat \<Rightarrow> retry_states \<times> run_dir \<times> 'w \<Rightarrow> bool" where
  "told_state X rid nid n k st \<longleftrightarrow> room X rid k (fst (snd st)) \<and>
     (read_node_opt rid (fst (snd st)) nid = Inr (Some n) \<or> settled_node rid (fst (snd st)) nid)"

definition idle :: "string \<Rightarrow> run_dir \<times> 'w \<Rightarrow> run_dir \<times> 'w" where
  "idle s dw = dw"

lemma idle_history: "gap_history X rid idle"
  by (simp add: gap_history_def idle_def)

lemma settled_later: "run_steps X rid d d' \<Longrightarrow> settled_node rid d nid \<Longrightarrow> settled_node rid d' nid"
  unfolding settled_node_def
  using node_history.history[of X rid d d' nid] by (fastforce simp: node_later_def is_terminal_def)

text \<open>A locked step on a node: it keeps the room it does not use, the other nodes, and history.\<close>

definition node_local :: "ext \<Rightarrow> run_id \<Rightarrow> node_id \<Rightarrow> (run_dir \<Rightarrow> run_dir) \<Rightarrow> bool" where
  "node_local X rid nid f \<longleftrightarrow> (\<forall>k d. room X rid (Suc k) d \<longrightarrow> room X rid k (f d) \<and> run_steps X rid d (f d) \<and>
     (\<forall>i. i \<noteq> nid \<longrightarrow> read_node_opt rid (f d) i = read_node_opt rid d i))"

lemma reduce_death:
  assumes n: "read_node_opt rid d nid = Inr (Some n)" and "n_first_death_at n = None" "n_worker_exit n = None"
    "n_last_report n = None" "n_pending_merge n = None" "\<not> is_terminal (n_status n)"
  shows "\<exists>n'. reduce_event_to_ops X rid d (new_event clock rid ''node.death_observed'' (Some nid) None (Object []) s) =
      Inr [OpNode n'] \<and> n_node_id n' = nid \<and> True"
proof -
  have "n_node_id n = nid" using node_store.read_checked[OF n] by simp
  with assms show ?thesis
    by (simp add: reduce_event_to_ops_def reducers_def reduce_node_death_observed_def new_event_def
        require_envelope_node_id_def ok_or_def with_node_def)
qed

lemma death_local:
  assumes X: "ext_ok X" and v: "valid_target rid nid"
  shows "node_local X rid nid (record_death_observed X clock rid nid pid)"
  unfolding node_local_def
proof (intro allI impI)
  fix k d assume rm: "room X rid (Suc k) d"
  let ?f = "record_death_observed X clock rid nid pid"
  have "room X rid k (?f d) \<and> (\<forall>i. i \<noteq> nid \<longrightarrow> read_node_opt rid (?f d) i = read_node_opt rid d i)"
  proof (cases "?f d = d")
    case False
    then obtain n where n: "read_node_opt rid d nid = Inr (Some n)" "n_first_death_at n = None" "n_worker_exit n = None"
      "n_last_report n = None" "n_pending_merge n = None" "\<not> is_terminal (n_status n)"
      and f: "?f d = snd (append_unkeyed X clock rid ''node.death_observed'' nid (Object []) d)"
      by (auto simp: record_death_observed_def reread_node_Some split: option.splits)
    have "fits (MAX_DEPTH - 1) (Object [])" by (simp add: fits_def MAX_DEPTH_def)
    from append_to_node[OF X rm v this reduce_death[OF n]] obtain d' where
      "append_unkeyed X clock rid ''node.death_observed'' nid (Object []) d = (True, d')" "room X rid k d'"
      "\<And>i. i \<noteq> nid \<Longrightarrow> read_node_opt rid d' i = read_node_opt rid d i" by metis
    with f show ?thesis by simp
  qed (use room_Suc[OF rm] in simp)
  then show "room X rid k (?f d) \<and> run_steps X rid d (?f d) \<and>
      (\<forall>i. i \<noteq> nid \<longrightarrow> read_node_opt rid (?f d) i = read_node_opt rid d i)"
    using locked_step_histories(2) by blast
qed


text \<open>The locked steps that append a failure for a node that is still open.\<close>

lemma failure_local:
  assumes X: "ext_ok X" and v: "valid_target rid nid"
    and cases: "\<And>d. f d = d \<or> (\<exists>n data. read_node_opt rid d nid = Inr (Some n) \<and> \<not> is_terminal (n_status n) \<and>
       fits (MAX_DEPTH - 1) data \<and> supervised data \<and> f d = snd (append_unkeyed X clock rid ''node.report'' nid data d))"
    and hist: "\<And>d. run_steps X rid d (f d)"
  shows "node_local X rid nid f"
  unfolding node_local_def
proof (intro allI impI)
  fix k d assume rm: "room X rid (Suc k) d"
  have "room X rid k (f d) \<and> (\<forall>i. i \<noteq> nid \<longrightarrow> read_node_opt rid (f d) i = read_node_opt rid d i)"
  proof (cases "f d = d")
    case False
    then obtain n data where n: "read_node_opt rid d nid = Inr (Some n)" "\<not> is_terminal (n_status n)"
      "fits (MAX_DEPTH - 1) data" "supervised data"
      and f: "f d = snd (append_unkeyed X clock rid ''node.report'' nid data d)" using cases by blast
    from append_failure[OF X rm v n(3,4,1,2)] obtain d' where
      "append_unkeyed X clock rid ''node.report'' nid data d = (True, d')" "room X rid k d'"
      "\<And>i. i \<noteq> nid \<Longrightarrow> read_node_opt rid d' i = read_node_opt rid d i" by metis
    with f show ?thesis by simp
  qed (use room_Suc[OF rm] in simp)
  then show "room X rid k (f d) \<and> run_steps X rid d (f d) \<and>
      (\<forall>i. i \<noteq> nid \<longrightarrow> read_node_opt rid (f d) i = read_node_opt rid d i)" using hist by blast
qed

lemma crash_local:
  assumes "ext_ok X" and "valid_target rid nid"
  shows "node_local X rid nid (\<lambda>d. snd (synthesize_crash_backstop_failure X clock E rid H nid lv pid parks (d, w)))"
proof (rule failure_local[OF assms, where clock = clock])
  fix d
  show "snd (synthesize_crash_backstop_failure X clock E rid H nid lv pid parks (d, w)) = d \<or>
    (\<exists>n data. read_node_opt rid d nid = Inr (Some n) \<and> \<not> is_terminal (n_status n) \<and>
       fits (MAX_DEPTH - 1) data \<and> supervised data \<and>
       snd (synthesize_crash_backstop_failure X clock E rid H nid lv pid parks (d, w)) =
         snd (append_unkeyed X clock rid ''node.report'' nid data d))"
    using crash_report_fits crash_supervised
    by (auto simp: synthesize_crash_backstop_failure_def reread_node_Some split: option.split) blast+
qed (rule locked_step_histories)

lemma exit_local:
  assumes "ext_ok X" and "valid_target rid nid" and "i32_exit x"
  shows "node_local X rid nid (synthesize_worker_exit_failure X clock E rid nid x)"
proof (rule failure_local[OF assms(1,2), where clock = clock])
  fix d
  show "synthesize_worker_exit_failure X clock E rid nid x d = d \<or>
    (\<exists>n data. read_node_opt rid d nid = Inr (Some n) \<and> \<not> is_terminal (n_status n) \<and>
       fits (MAX_DEPTH - 1) data \<and> supervised data \<and>
       synthesize_worker_exit_failure X clock E rid nid x d =
         snd (append_unkeyed X clock rid ''node.report'' nid data d))"
    using exit_report_fits[OF assms(3)] exit_supervised
    by (auto simp: synthesize_worker_exit_failure_def reread_node_Some split: option.split) blast+
qed (rule locked_step_histories)

lemma local_keeps_told:
  assumes f: "node_local X rid i f" and "told_state X rid nid n (Suc k) (parks, d, w)"
    and "i = nid \<Longrightarrow> settled_node rid (f d) nid"
  shows "told_state X rid nid n k (parks', f d, w)"
proof -
  have "room X rid (Suc k) d" using assms(2) by (simp add: told_state_def)
  with f have "room X rid k (f d)" "run_steps X rid d (f d)"
    "\<And>j. j \<noteq> i \<Longrightarrow> read_node_opt rid (f d) j = read_node_opt rid d j" unfolding node_local_def by blast+
  then show ?thesis using assms(2,3) settled_later[of X rid d "f d" nid] by (cases "i = nid") (auto simp: told_state_def)
qed


lemma told_state_weaken: "told_state X rid nid n (Suc k) st \<Longrightarrow> told_state X rid nid n k st"
  by (auto simp: told_state_def room_Suc)

lemma candidate_keeps_told:
  assumes X: "ext_ok X" and v: "valid_target rid i" and ne: "i \<noteq> nid \<or> it = ScanTold x"
    and t: "told_state X rid nid n (Suc k) st"
  shows "told_state X rid nid n k (tick_candidate X clock E rid H idle snap (i, n', it) st)"
proof -
  obtain parks d w where st: "st = (parks, d, w)" using prod_cases3 by blast
  show ?thesis
  proof (cases it)
    case (ScanProbe p)
    then have "i \<noteq> nid" using ne by simp
    obtain lv death where o: "observe_death E snap n' p = (lv, death)" by fastforce
    obtain parks' d' where c: "synthesize_crash_backstop_failure X clock E rid H i lv (n_agent_pid n') parks (d, w) =
        (parks', d')" by fastforce
    note keep = local_keeps_told[OF _ t[unfolded st]]
    have "told_state X rid nid n k (parks, record_death_observed X clock rid i (n_agent_pid n') d, w)"
      by (rule keep[OF death_local[OF X v]]) (use \<open>i \<noteq> nid\<close> in blast)
    moreover have "told_state X rid nid n k (parks', d', w)"
      using keep[OF crash_local[OF X v, where clock = clock and E = E and H = H and lv = lv and
          pid = "n_agent_pid n'" and parks = parks and w = w], of parks'] \<open>i \<noteq> nid\<close> c by simp
    ultimately show ?thesis
      using ScanProbe o c st told_state_weaken[OF t]
      by (simp add: tick_candidate_def idle_def split: live_verdict.split)
  qed (use told_state_weaken[OF t] st in \<open>simp_all add: tick_candidate_def\<close>)
qed

definition told_node :: "node \<Rightarrow> worker_exit \<Rightarrow> bool" where
  "told_node n x \<longleftrightarrow> \<not> is_terminal (n_status n) \<and> n_worker_exit n = Some x \<and> is_failure x \<and>
     \<not> round_reported_by_current_attempt n"

lemma told_exit_settles:
  assumes X: "ext_ok X" and v: "valid_target rid nid" and n: "told_node n x" and x: "i32_exit x"
    and t: "told_state X rid nid n (Suc k) (parks, d, w)"
  shows "settled_node rid (synthesize_worker_exit_failure X clock E rid nid x d) nid"
proof (cases "settled_node rid d nid")
  case True
  then show ?thesis using settled_later[OF locked_step_histories(1)] by blast
next
  case False
  with t have rm: "room X rid (Suc k) d" and rd: "read_node_opt rid d nid = Inr (Some n)"
    by (auto simp: told_state_def)
  have "\<not> is_terminal (n_status n)" using n by (simp add: told_node_def)
  from append_failure[OF X rm v exit_report_fits[OF x] exit_supervised rd this] obtain d' n' where
    a: "append_unkeyed X clock rid ''node.report'' nid (worker_exit_report E (node_id_str nid) x) d = (True, d')"
    "read_node_opt rid d' nid = Inr (Some n')" "failed_with (worker_exit_report E (node_id_str nid) x) n'" by metis
  have "reread_node rid nid (\<lambda>n. \<not> is_terminal (n_status n) \<and> n_worker_exit n = Some x
             \<and> \<not> round_reported_by_current_attempt n) d = Some n"
    using n rd by (simp add: reread_node_Some told_node_def)
  with a show ?thesis
    by (simp add: synthesize_worker_exit_failure_def settled_node_def failed_with_def is_terminal_def)
qed

lemma told_keeps_told:
  assumes X: "ext_ok X" and v: "valid_target rid i" and same: "i = nid \<Longrightarrow> it = ScanTold x"
    and n: "told_node n x" and x: "\<And>y. it = ScanTold y \<Longrightarrow> i32_exit y"
    and t: "told_state X rid nid n (Suc k) st"
  shows "told_state X rid nid n k (tick_told X clock E rid idle (i, n', it) st) \<and>
    (i = nid \<longrightarrow> settled_node rid (fst (snd (tick_told X clock E rid idle (i, n', it) st))) nid)"
proof -
  obtain parks d w where st: "st = (parks, d, w)" using prod_cases3 by blast
  show ?thesis
  proof (cases it)
    case (ScanTold y)
    let ?d = "synthesize_worker_exit_failure X clock E rid i y d"
    have s: "settled_node rid ?d nid" if "i = nid"
      using told_exit_settles[OF X _ n _ t[unfolded st], where clock = clock and E = E] v x same that ScanTold by auto
    have "told_state X rid nid n k (parks, ?d, w)"
      by (rule local_keeps_told[OF exit_local[OF X v x[OF ScanTold]] t[unfolded st] s])
    with s show ?thesis by (simp add: tick_told_def idle_def ScanTold st)
  qed (use told_state_weaken[OF t] st same in \<open>auto simp: tick_told_def\<close>)
qed


text \<open>What the scan of a run directory hands to the two loops.\<close>

definition scan_ok :: "run_id \<Rightarrow> node_id \<Rightarrow> worker_exit \<Rightarrow> node_id \<times> node \<times> scan_item \<Rightarrow> bool" where
  "scan_ok rid nid x item \<longleftrightarrow> (case item of (i, n', it) \<Rightarrow> valid_target rid i \<and>
     (i = nid \<longrightarrow> it = ScanTold x) \<and> (\<forall>y. it = ScanTold y \<longrightarrow> i32_exit y))"

lemma fold_candidates:
  assumes "ext_ok X" and "list_all (scan_ok rid nid x) items" and "told_state X rid nid n (length items + k) st"
  shows "told_state X rid nid n k (fold (tick_candidate X clock E rid H idle snap) items st)"
  using assms(2,3)
proof (induction items arbitrary: st)
  case (Cons item items)
  obtain i n' it where item: "item = (i, n', it)" using prod_cases3 by blast
  have "told_state X rid nid n (Suc (length items + k)) st" using Cons.prems(2) by (simp add: told_state_def)
  then have "told_state X rid nid n (length items + k) (tick_candidate X clock E rid H idle snap item st)"
    unfolding item using Cons.prems(1) item
    by (intro candidate_keeps_told[OF assms(1), where x = x]) (auto simp: scan_ok_def)
  with Cons.IH Cons.prems(1) show ?case by (simp only: fold_simps list.pred_inject)
qed (simp only: list.size fold_simps add_0)

lemma fold_told:
  assumes X: "ext_ok X" and n: "told_node n x" and "list_all (scan_ok rid nid x) items"
    and "told_state X rid nid n (length items + k) st"
    and "nid \<in> fst ` set items \<or> settled_node rid (fst (snd st)) nid"
  shows "settled_node rid (fst (snd (fold (tick_told X clock E rid idle) items st))) nid"
  using assms(3-)
proof (induction items arbitrary: st)
  case (Cons item items)
  obtain i n' it where item: "item = (i, n', it)" using prod_cases3 by blast
  let ?st = "tick_told X clock E rid idle item st"
  have "told_state X rid nid n (Suc (length items + k)) st" using Cons.prems(2) by (simp add: told_state_def)
  then have t: "told_state X rid nid n (length items + k) ?st"
    "i = nid \<longrightarrow> settled_node rid (fst (snd ?st)) nid"
    using told_keeps_told[OF X _ _ n, of rid i nid it _ st clock E n'] Cons.prems(1) item
    by (auto simp: scan_ok_def simp del: split_paired_All split_paired_Ex)
  have "settled_node rid (fst (snd st)) nid \<Longrightarrow> settled_node rid (fst (snd ?st)) nid"
    using tick_steps_history(2)[OF idle_history] settled_later unfolding state_history_def by blast
  with Cons.prems(3) t(2) item have "nid \<in> fst ` set items \<or> settled_node rid (fst (snd ?st)) nid" by auto
  with Cons.IH[OF _ t(1)] Cons.prems(1) show ?case by (simp only: fold_simps list.pred_inject)
qed (simp only: list.set fold_simps image_empty empty_iff simp_thms)

definition exits_fit :: "run_id \<Rightarrow> run_dir \<Rightarrow> bool" where
  "exits_fit rid d \<longleftrightarrow> (\<forall>i m y. read_node_opt rid d i = Inr (Some m) \<longrightarrow> n_worker_exit m = Some y \<longrightarrow> i32_exit y)"

lemma scan_items:
  assumes "RunId_parse_str (run_id_str rid) = Inr rid"
    and exits: "exits_fit rid d" and n: "read_node_opt rid d nid = Inr (Some n)" "told_node n x" "valid_target rid nid"
  shows "list_all (scan_ok rid nid x) (scan E rid parks d)" and "nid \<in> fst ` set (scan E rid parks d)"
    and "length (scan E rid parks d) \<le> length (d_nodes d)"
proof -
  have told: "scan_node E parks stem n = ScanTold x" for stem
    using n(2) by (simp add: scan_node_def told_node_def classify_live_node_with_round_def classify_live_node_def)
  have tolds: "scan_node E parks stem m = ScanTold y \<Longrightarrow> n_worker_exit m = Some y" for stem m y
    by (auto simp: scan_node_def split: if_splits option.splits)
  show "list_all (scan_ok rid nid x) (scan E rid parks d)"
    using assms(1) n(1) told tolds exits[unfolded exits_fit_def]
    by (fastforce simp: scan_def list_all_iff map_filter_def scan_ok_def valid_target_def NodeId_parse_str_Inr
        ok_flatten_def split: sum.splits option.splits)
  obtain e where "map_of (d_nodes d) (node_id_str nid) = Some e"
    using n(1) by (cases "map_of (d_nodes d) (node_id_str nid)")
      (auto simp: read_node_opt_def res_simps node_entry_def read_json_opt_def)
  then have "(node_id_str nid, e) \<in> set (d_nodes d)" by (rule map_of_SomeD)
  then show "nid \<in> fst ` set (scan E rid parks d)"
    using n(1,3) by (force simp: scan_def map_filter_def valid_target_def ok_flatten_def)
  show "length (scan E rid parks d) \<le> length (d_nodes d)"
    by (simp add: scan_def map_filter_def)
qed


text \<open>C20: a told failing exit settles its node within one tick. On a supervised run that is up to date,
  when the runner has recorded a failing exit of a node's worker and no open round was reported by
  that attempt, the next tick leaves the node settled, however many other nodes the tick also
  handles and whatever their probes answer.\<close>

theorem told_exit_settles_node:
  assumes "ext_ok X" and "host_history X rid H" and "supervised_run rid d"
    and "room X rid (2 * length (d_nodes d)) d" and "valid_target rid nid"
    and "read_node_opt rid d nid = Inr (Some n)" and "told_node n x"
    and "exits_fit rid d"
    and "watchdog_tick X clock E rid H S idle (parks, d, w) = (parks', d', w')"
  shows "settled_node rid d' nid"
proof -
  define items where "items = scan E rid parks d"
  have "RunId_parse_str (run_id_str rid) = Inr rid" using assms(5) by (simp add: valid_target_def)
  from scan_items[OF this assms(8,6,7,5)]
  have i: "list_all (scan_ok rid nid x) items" "nid \<in> fst ` set items" "length items \<le> length (d_nodes d)"
    unfolding items_def by blast+
  let ?st1 = "fold (tick_candidate X clock E rid H idle (collect (se_probes E) (scan_sockets items))) items (parks, d, w)"
  let ?st2 = "fold (tick_told X clock E rid idle) items ?st1"
  have "room X rid (length items + length items) d" using assms(4) i(3) by (auto simp: room_def)
  then have "told_state X rid nid n (length items + length items) (parks, d, w)"
    using assms(6) by (simp add: told_state_def)
  from fold_candidates[OF assms(1) i(1) this]
  have "told_state X rid nid n (length items + 0) ?st1" by simp
  from fold_told[OF assms(1,7) i(1) this] i(2) have s: "settled_node rid (fst (snd ?st2)) nid" by blast
  have "state_history X rid ?st2 (reconcile_agent_retries X clock E rid H S idle (se_instant E) ?st2)"
    unfolding reconcile_agent_retries_def by (rule fold_history, rule reconcile_one_history[OF idle_history assms(2)])
  with s have "settled_node rid (fst (snd (reconcile_agent_retries X clock E rid H S idle (se_instant E) ?st2))) nid"
    unfolding state_history_def using settled_later by blast
  moreover have "watchdog_tick X clock E rid H S idle (parks, d, w) =
      reconcile_agent_retries X clock E rid H S idle (se_instant E) ?st2"
    using assms(3) by (auto simp: supervised_run_def watchdog_tick_def items_def Let_def split: sum.splits option.splits)
  ultimately have "settled_node rid (fst (snd (watchdog_tick X clock E rid H S idle (parks, d, w)))) nid" by simp
  then show ?thesis unfolding assms(9) by simp
qed

end
