(* ===== verification/Child_Facts.thy ===== *)
theory Child_Facts
  imports Children Death_Facts
begin

text \<open>
  Child supervisors: the startup machine settles after a bounded number of steps, and every child
  report is consumed exactly once, also across a crash between its two writes.
\<close>

section \<open>The startup machine\<close>

fun spawn_budget :: "child_spawn \<Rightarrow> nat" where
  "spawn_budget (Starting _ a) = 2 * (5 - unat a) + 1"
| "spawn_budget (SpawnFailed a _) = 2 * (5 - unat a)"

fun tracked_budget :: "child_spawn option \<Rightarrow> nat" where
  "tracked_budget None = 0"
| "tracked_budget (Some sp) = Suc (spawn_budget sp)"

definition attempts_ok :: "child_spawn \<Rightarrow> bool" where
  "attempts_ok sp \<longleftrightarrow> unat (child_spawn_attempts sp) \<le> 5"

text \<open>A tracked child either keeps its state or uses up budget, and never exceeds its attempts.\<close>

definition settling :: "child_spawn option \<Rightarrow> child_spawn option \<Rightarrow> bool" where
  "settling o1 o2 \<longleftrightarrow> (o2 = o1 \<or> tracked_budget o2 < tracked_budget o1) \<and>
     (\<forall>sp. o2 = Some sp \<longrightarrow> attempts_ok sp)"

lemma settling_refl: "(\<And>sp. o1 = Some sp \<Longrightarrow> attempts_ok sp) \<Longrightarrow> settling o1 o1"
  by (auto simp: settling_def)

lemma settling_trans: "settling a b \<Longrightarrow> settling b c \<Longrightarrow> settling a c"
  by (auto simp: settling_def)

lemma word_inc_unat: "a < b \<Longrightarrow> unat (a + 1) = Suc (unat a)" for a b :: u32
  by unat_arith

lemma reconcile_child_settling:
  assumes ok: "\<And>c sp. map_of (fst cs) c = Some sp \<Longrightarrow> attempts_ok sp"
  shows "settling (map_of (fst cs) c) (map_of (fst (reconcile_child X clock E parent fork now cid cs)) c)"
proof -
  obtain spawns st d F where cs: "cs = (spawns, st, d, F)" using prod_cases4 by blast
  have refl: "settling (map_of spawns c) (map_of spawns c)" for c
    using ok cs by (auto intro: settling_refl)
  show ?thesis
  proof (cases "map_of spawns cid")
    case None
    then show ?thesis using refl cs by (simp add: reconcile_child_def)
  next
    case (Some sp)
    have a: "attempts_ok sp" using ok Some cs by auto
    define confirmed where "confirmed = Option.bind (child_paths F cid)
        (\<lambda>rid. read_live_recorded_pid (se_probes E) (fl_pid F (run_id_str rid)))"
    define act where "act = child_spawn_action sp confirmed now (child_spawn_deadline E) CHILD_SPAWN_MAX_ATTEMPTS"
    have other: "map_of (fst (reconcile_child X clock E parent fork now cid cs)) c = map_of spawns c" if "c \<noteq> cid"
      using that Some unfolding cs
      by (auto simp: reconcile_child_def Let_def split: spawn_action.split prod.split sum.split)
    have self: "settling (Some sp) (map_of (fst (reconcile_child X clock E parent fork now cid cs)) cid)"
    proof (cases act)
      case (Confirm pid)
      then show ?thesis using Some unfolding cs act_def confirmed_def
        by (auto simp: reconcile_child_def settling_def split: prod.split)
    next
      case MarkFailed
      then obtain since n where "sp = Starting since n"
        by (auto simp: act_def child_spawn_action_def split: option.splits child_spawn.splits if_splits)
      with MarkFailed Some a show ?thesis unfolding cs act_def confirmed_def
        by (simp add: reconcile_child_def settling_def attempts_ok_def)
    next
      case Retry
      then obtain n t where sp: "sp = SpawnFailed n t" and n: "n < 5"
        by (auto simp: act_def child_spawn_action_def CHILD_SPAWN_MAX_ATTEMPTS_def
            split: option.splits child_spawn.splits if_splits)
      have "unat (n + 1) = Suc (unat n)" "unat n < 5" using word_inc_unat[OF n] n by (simp_all add: word_less_nat_alt)
      with sp Retry Some show ?thesis unfolding cs act_def confirmed_def
        by (auto simp: reconcile_child_def settling_def attempts_ok_def Let_def split: prod.split sum.split)
    next
      case Wait
      then show ?thesis using Some refl[of cid] unfolding cs act_def confirmed_def
        by (simp add: reconcile_child_def)
    qed
    show ?thesis using other self refl Some cs by (cases "c = cid") auto
  qed
qed


lemma fold_settling:
  assumes "\<And>c sp. map_of (fst cs) c = Some sp \<Longrightarrow> attempts_ok sp"
  shows "settling (map_of (fst cs) c) (map_of (fst (fold (reconcile_child X clock E parent fork now) cids cs)) c)"
  using assms
proof (induction cids arbitrary: cs)
  case Nil
  then show ?case by (auto intro: settling_refl)
next
  case (Cons cid cids)
  let ?cs = "reconcile_child X clock E parent fork now cid cs"
  have step: "settling (map_of (fst cs) c) (map_of (fst ?cs) c)" for c
    by (rule reconcile_child_settling[OF Cons.prems])
  then have "settling (map_of (fst ?cs) c) (map_of (fst (fold (reconcile_child X clock E parent fork now) cids ?cs)) c)"
    by (intro Cons.IH) (auto simp: settling_def)
  with step show ?case unfolding fold_simps by (rule settling_trans)
qed

text \<open>A sequence of passes, each with its own clock, environment and fork results, and with whatever
  happened to the runs before it.\<close>

type_synonym child_pass = "sup_env \<times> fork \<times> (run_dir \<times> fleet \<Rightarrow> run_dir \<times> fleet)"

definition pass :: "ext \<Rightarrow> (u64 \<Rightarrow> time) \<Rightarrow> run_id \<Rightarrow> child_pass \<Rightarrow> child_state \<Rightarrow> child_state" where
  "pass X clock parent p cs = (case (p, cs) of ((E, fork, gap), (spawns, st, dF)) \<Rightarrow>
     reconcile_child_spawns X clock E parent fork (spawns, st, gap dF))"

fun spawn_changes :: "ext \<Rightarrow> (u64 \<Rightarrow> time) \<Rightarrow> run_id \<Rightarrow> string \<Rightarrow> child_pass list \<Rightarrow> child_state \<Rightarrow> nat" where
  "spawn_changes X clock parent c [] cs = 0"
| "spawn_changes X clock parent c (p # ps) cs =
     (if map_of (fst (pass X clock parent p cs)) c = map_of (fst cs) c then 0 else 1) +
     spawn_changes X clock parent c ps (pass X clock parent p cs)"

lemma pass_settling:
  assumes "\<And>c sp. map_of (fst cs) c = Some sp \<Longrightarrow> attempts_ok sp"
  shows "settling (map_of (fst cs) c) (map_of (fst (pass X clock parent p cs)) c)"
proof -
  obtain spawns st dF E fork gap where cs: "cs = (spawns, st, dF)" "p = (E, fork, gap)" using prod_cases3 by metis
  then show ?thesis
    using fold_settling[of "(spawns, st, gap dF)" c] assms by (simp add: pass_def reconcile_child_spawns_def)
qed

lemma changes_bounded:
  assumes "\<And>c sp. map_of (fst cs) c = Some sp \<Longrightarrow> attempts_ok sp"
  shows "spawn_changes X clock parent c ps cs \<le> tracked_budget (map_of (fst cs) c) \<and>
    (\<forall>sp. map_of (fst (fold (pass X clock parent) ps cs)) c = Some sp \<longrightarrow> attempts_ok sp)"
  using assms
proof (induction ps arbitrary: cs)
  case (Cons p ps)
  let ?cs = "pass X clock parent p cs"
  have step: "settling (map_of (fst cs) c) (map_of (fst ?cs) c)" for c by (rule pass_settling[OF Cons.prems])
  have "spawn_changes X clock parent c ps ?cs \<le> tracked_budget (map_of (fst ?cs) c) \<and>
      (\<forall>sp. map_of (fst (fold (pass X clock parent) ps ?cs)) c = Some sp \<longrightarrow> attempts_ok sp)"
    by (rule Cons.IH) (use step in \<open>auto simp: settling_def\<close>)
  with step[of c] show ?case by (auto simp: settling_def)
qed (use assms in auto)

text \<open>The forks of a child, as the fleet shows them: a measure of the fleet that every fork of the child,
  successful or not, increases by one, and that no fork of another child, no write to a run and nothing
  that happens between the passes changes.\<close>

definition counts_forks :: "(fleet \<Rightarrow> nat) \<Rightarrow> string \<Rightarrow> child_pass list \<Rightarrow> bool" where
  "counts_forks cnt cid ps \<longleftrightarrow> (\<forall>F dirs. cnt (F\<lparr>fl_dir := dirs\<rparr>) = cnt F) \<and>
     (\<forall>(E, fork, gap)\<in>set ps. (\<forall>c F. cnt (snd (fork c F)) = (if c = cid then Suc (cnt F) else cnt F)) \<and>
        (\<forall>d F. cnt (snd (gap (d, F))) = cnt F))"

fun fleet_of :: "child_state \<Rightarrow> fleet" where
  "fleet_of (spawns, st, d, F) = F"

text \<open>While the child is tracked, each attempt after the first is one fork; once it is not, there were at
  most four.\<close>

definition forks_match :: "nat \<Rightarrow> child_spawn option \<Rightarrow> nat \<Rightarrow> bool" where
  "forks_match start o1 n = (case o1 of
       Some sp \<Rightarrow> Suc n = start + unat (child_spawn_attempts sp) \<and> attempts_ok sp
     | None \<Rightarrow> n \<le> start + 4)"

lemma attached_forks:
  assumes "\<And>F dirs. cnt (F\<lparr>fl_dir := dirs\<rparr>) = (cnt F :: nat)" and "record_child_attached X clock parent c pid (d, F) = (d', F')"
  shows "cnt F' = cnt F"
  using assms by (auto simp: record_child_attached_def Let_def split: option.splits)

lemma reconcile_child_forks:
  assumes dirs: "\<And>F dirs. cnt (F\<lparr>fl_dir := dirs\<rparr>) = (cnt F :: nat)"
    and fork: "\<And>c F. cnt (snd (fork c F)) = (if c = cid then Suc (cnt F) else cnt F)"
    and inv: "forks_match start (map_of (fst cs) cid) (cnt (fleet_of cs))"
  shows "forks_match start (map_of (fst (reconcile_child X clock E parent fork now c cs)) cid)
    (cnt (fleet_of (reconcile_child X clock E parent fork now c cs)))"
proof -
  obtain spawns st d F where cs: "cs = (spawns, st, d, F)" using prod_cases4 by blast
  show ?thesis
  proof (cases "map_of spawns c")
    case None
    then show ?thesis using inv cs by (simp add: reconcile_child_def)
  next
    case (Some sp)
    define confirmed where "confirmed = Option.bind (child_paths F c)
        (\<lambda>rid. read_live_recorded_pid (se_probes E) (fl_pid F (run_id_str rid)))"
    define act where "act = child_spawn_action sp confirmed now (child_spawn_deadline E) CHILD_SPAWN_MAX_ATTEMPTS"
    note step = reconcile_child_def[of X clock E parent fork now c cs, unfolded cs prod.case Some option.case Let_def,
        folded confirmed_def, folded act_def]
    show ?thesis
    proof (cases act)
      case (Confirm pid)
      obtain d' F' where a: "record_child_attached X clock parent c pid (d, F) = (d', F')" by fastforce
      then show ?thesis using inv Some attached_forks[OF dirs a] unfolding cs step Confirm
        by (auto simp: forks_match_def attempts_ok_def split: option.splits)
    next
      case MarkFailed
      then show ?thesis using inv Some unfolding cs step MarkFailed
        by (auto simp: forks_match_def attempts_ok_def split: option.splits)
    next
      case Retry
      then obtain n t where sp: "sp = SpawnFailed n t" and n: "n < 5"
        by (auto simp: act_def child_spawn_action_def CHILD_SPAWN_MAX_ATTEMPTS_def
            split: option.splits child_spawn.splits if_splits)
      have "unat (n + 1) = Suc (unat n)" "unat n < 5" using word_inc_unat[OF n] n by (simp_all add: word_less_nat_alt)
      moreover obtain r F' where f: "fork c F = (r, F')" by fastforce
      moreover have "cnt F' = (if c = cid then Suc (cnt F) else cnt F)" using fork[of c F] f by simp
      ultimately show ?thesis using inv Some sp unfolding cs step Retry
        by (cases r) (auto simp: forks_match_def attempts_ok_def split: option.splits if_splits)
    next
      case Wait
      then show ?thesis using inv unfolding cs step Wait by simp
    qed
  qed
qed

lemma fold_forks:
  assumes "\<And>F dirs. cnt (F\<lparr>fl_dir := dirs\<rparr>) = (cnt F :: nat)"
    and "\<And>c F. cnt (snd (fork c F)) = (if c = cid then Suc (cnt F) else cnt F)"
    and "forks_match start (map_of (fst cs) cid) (cnt (fleet_of cs))"
  shows "forks_match start (map_of (fst (fold (reconcile_child X clock E parent fork now) cids cs)) cid)
    (cnt (fleet_of (fold (reconcile_child X clock E parent fork now) cids cs)))"
  using assms(3) by (induction cids arbitrary: cs) (simp_all add: reconcile_child_forks[OF assms(1,2)])

lemma passes_forks:
  assumes "counts_forks cnt cid ps" and "forks_match start (map_of (fst cs) cid) (cnt (fleet_of cs))"
  shows "forks_match start (map_of (fst (fold (pass X clock parent) ps cs)) cid)
    (cnt (fleet_of (fold (pass X clock parent) ps cs)))"
  using assms
proof (induction ps arbitrary: cs)
  case (Cons p ps)
  obtain spawns st d F E fork gap where cs: "cs = (spawns, st, d, F)" "p = (E, fork, gap)" using prod_cases3 prod_cases4 by metis
  from Cons.prems(1) have c: "\<And>F dirs. cnt (F\<lparr>fl_dir := dirs\<rparr>) = cnt F"
    "\<And>c F. cnt (snd (fork c F)) = (if c = cid then Suc (cnt F) else cnt F)" "cnt (snd (gap (d, F))) = cnt F"
    and rest: "counts_forks cnt cid ps" unfolding counts_forks_def cs by auto
  obtain d1 F1 where g: "gap (d, F) = (d1, F1)" by fastforce
  have "forks_match start (map_of (fst (spawns, st, d1, F1)) cid) (cnt (fleet_of (spawns, st, d1, F1)))"
    using Cons.prems(2) c(3) by (simp add: cs g)
  from fold_forks[OF c(1,2) this, of X clock E parent "se_instant E" "map fst spawns"]
  have "forks_match start (map_of (fst (pass X clock parent p cs)) cid) (cnt (fleet_of (pass X clock parent p cs)))"
    by (simp add: pass_def reconcile_child_spawns_def cs g)
  from Cons.IH[OF rest this] show ?case by simp
qed simp

text \<open>C34: the startup of child supervisors terminates. A freshly forked child changes its startup state
  in at most ten passes of the supervisor, whatever the clocks, the configured deadline, the
  results of the forks, the pid files and everything else that happens to the runs in between. It is
  forked at most four times more, five in all: as long as it is tracked, its attempt number, never above
  five, is one more than the forks since. After that it is confirmed, and no longer tracked, or given up
  for good.\<close>

theorem child_startup_terminates:
  assumes "\<forall>c sp. map_of spawns c = Some sp \<longrightarrow> attempts_ok sp" and "map_of spawns cid = Some (Starting since 1)"
    and "counts_forks cnt cid ps" and "cs' = fold (pass X clock parent) ps (spawns, st, d, F)"
  shows "spawn_changes X clock parent cid ps (spawns, st, d, F) \<le> 10 \<and>
    cnt (fleet_of cs') \<le> cnt F + 4 \<and>
    (\<forall>sp. map_of (fst cs') cid = Some sp \<longrightarrow> unat (child_spawn_attempts sp) \<le> 5 \<and>
       Suc (cnt (fleet_of cs')) = cnt F + unat (child_spawn_attempts sp))"
proof -
  have "forks_match (cnt F) (map_of (fst (spawns, st, d, F)) cid) (cnt (fleet_of (spawns, st, d, F)))"
    using assms(2) by (simp add: forks_match_def attempts_ok_def)
  from passes_forks[OF assms(3) this, of X clock parent] show ?thesis
    using changes_bounded[of "(spawns, st, d, F)" X clock parent cid ps] assms(1,2,4)
    by (auto simp: forks_match_def attempts_ok_def split: option.splits)
qed


section \<open>Consuming a report\<close>

definition projected_cursor :: "node \<Rightarrow> string \<Rightarrow> u64 option" where
  "projected_cursor n cid = Option.bind (map_of (n_last_processed_report_seq_by_child n) cid) as_u64"

lemma reduce_cursor:
  assumes n: "read_node_opt rid d nid = Inr (Some n)" and c: "RunId_parse_str cid = Inr crid"
  obtains ops where "\<And>s. reduce_event_to_ops X rid d
      (new_event clock rid ''supervisor.cursor_advanced'' (Some nid) None (cursor_data cid seq) s) = Inr (ops s)"
    "(\<exists>prev. projected_cursor n cid = Some prev \<and> seq \<le> prev \<and> (\<forall>s. ops s = [])) \<or>
     (\<forall>s. \<exists>n'. ops s = [OpNode n'] \<and> n_node_id n' = nid \<and> projected_cursor n' cid = Some seq)"
proof -
  let ?ev = "new_event clock rid ''supervisor.cursor_advanced'' (Some nid) None (cursor_data cid seq)"
  let ?n = "\<lambda>s. n\<lparr>n_last_processed_report_seq_by_child :=
      map_insert cid (Number (PosInt seq)) (n_last_processed_report_seq_by_child n), n_updated_at := ev_ts (?ev s)\<rparr>"
  have id: "n_node_id n = nid" using node_store.read_checked[OF n] by simp
  let ?ops = "\<lambda>s. if (case projected_cursor n cid of None \<Rightarrow> False | Some p \<Rightarrow> seq \<le> p) then [] else [OpNode (?n s)]"
  have "reduce_event_to_ops X rid d (?ev s) = Inr (?ops s)" for s
    using n c by (simp add: reduce_event_to_ops_def reducers_def reduce_supervisor_cursor_advanced_def new_event_def
        require_envelope_node_id_def ok_or_def with_node_def cursor_data_def want_str_def get_str_def get_u64_def
        projected_cursor_def split: option.split)
  moreover have "projected_cursor (?n s) cid = Some seq" for s by (simp add: projected_cursor_def)
  ultimately show ?thesis using that[of ?ops] id by (auto split: option.splits)
qed


lemma append_cursor:
  assumes X: "ext_ok X" and rm: "room X rid (Suc k) d" and v: "valid_target rid nid"
    and n: "read_node_opt rid d nid = Inr (Some n)" and c: "RunId_parse_str cid = Inr crid"
  obtains q d' n' cur where "append_and_apply_unlocked X clock rid ''supervisor.cursor_advanced'' (Some nid) None
      (cursor_data cid seq) d = (Inr q, d')" "room X rid k d'" "read_node_opt rid d' nid = Inr (Some n')"
    "projected_cursor n' cid = Some cur" "seq \<le> cur"
proof -
  let ?ev = "new_event clock rid ''supervisor.cursor_advanced'' (Some nid) None (cursor_data cid seq)"
  have l: "loggable (?ev s)" for s
    using v by (simp add: loggable_def new_event_def valid_target_def cursor_data_def MAX_DEPTH_def)
  obtain ops where r: "\<And>s. reduce_event_to_ops X rid d (?ev s) = Inr (ops s)" and
    o: "(\<exists>prev. projected_cursor n cid = Some prev \<and> seq \<le> prev \<and> (\<forall>s. ops s = [])) \<or>
      (\<forall>s. \<exists>n'. ops s = [OpNode n'] \<and> n_node_id n' = nid \<and> projected_cursor n' cid = Some seq)"
    using reduce_cursor[OF n c] by metis
  obtain m where m: "read_manifest_opt rid d = Inr (Some m)" using room_manifest[OF rm] by blast
  obtain s ops' ev d' where a: "ev = ?ev s"
    "append_and_apply_unlocked X clock rid ''supervisor.cursor_advanced'' (Some nid) None (cursor_data cid seq) d = (Inr s, d')"
    "reduce_event_to_ops X rid d ev = Inr ops'" "d' = recorded_state X rid ev ops' d" "room X rid k d'"
    by (rule append_in_room[OF X rm l]) (use r in blast)+
  have ops: "ops' = ops s" using r a by simp
  have reads: "read_node_opt rid d' nid = read_node_opt rid (snd (commit_ops rid ops' d)) nid"
    using recorded_node[OF a(3) m] a(4) by simp
  have "\<exists>n' cur. read_node_opt rid d' nid = Inr (Some n') \<and> projected_cursor n' cid = Some cur \<and> seq \<le> cur"
  proof (cases "ops' = []")
    case True
    then have "\<exists>prev. projected_cursor n cid = Some prev \<and> seq \<le> prev"
      using o ops by (metis list.distinct(1))
    with True reads n show ?thesis by (auto simp: ret_def)
  next
    case False
    with o ops obtain n' where n': "ops' = [OpNode n']" "n_node_id n' = nid" "projected_cursor n' cid = Some seq" by auto
    obtain d1 where "commit_ops rid ops' d = (Inr (), d1)" "list_all (\<lambda>oper. reads_back rid oper d1) ops'"
      using reducer.commit_plan[OF a(3)] by blast
    with n' reads show ?thesis by (auto simp: reads_back_def)
  qed
  with that a(2,5) show ?thesis by blast
qed

text \<open>C32: a child's report is consumed exactly once. On a run that is up to date, the first report of a
  child past its cursor is consumed: the durable event is recorded, the parent node's projected
  cursor and the supervisor's cursor both reach the report, also when an earlier attempt crashed
  between the two writes; and from then on the same report, and every earlier one of that child, is
  refused without touching anything.\<close>

theorem child_report_consumed_once:
  assumes "ext_ok X" and "room X rid 1 d" and "valid_target rid nid"
    and "read_node_opt rid d nid = Inr (Some n)" and "NodeId_parse_str pn = Inr nid"
    and "RunId_parse_str cid = Inr crid" and "NodeId_parse_str cn = Inr cnid"
    and "\<forall>prev. map_of (ss_last_processed_report_seq_by_child st) cid = Some prev \<longrightarrow> prev < seq"
  shows "\<exists>st' d' n' cur. process_node_report X clock rid pn cid cn seq (st, d) = (Inr True, st', d') \<and>
    map_of (ss_last_processed_report_seq_by_child st') cid = Some seq \<and>
    read_node_opt rid d' nid = Inr (Some n') \<and> projected_cursor n' cid = Some cur \<and> seq \<le> cur \<and>
    (\<forall>seq' \<le> seq. \<forall>d''. process_node_report X clock rid pn cid cn seq' (st', d'') = (Inr False, st', d''))"
proof -
  have "room X rid (Suc 0) d" using assms(2) by simp
  from append_cursor[OF assms(1) this assms(3,4,6), of clock seq] obtain q d' n' cur where
    a: "append_and_apply_unlocked X clock rid ''supervisor.cursor_advanced'' (Some nid) None
      (cursor_data cid seq) d = (Inr q, d')" "read_node_opt rid d' nid = Inr (Some n')"
    "projected_cursor n' cid = Some cur" "seq \<le> cur" by metis
  let ?st = "st\<lparr>ss_last_processed_report_seq_by_child :=
      map_insert cid seq (ss_last_processed_report_seq_by_child st)\<rparr>"
  have "process_node_report X clock rid pn cid cn seq (st, d) = (Inr True, ?st, d')"
    using assms(5-8) a(1) by (auto simp: process_node_report_def split: option.split)
  moreover have "process_node_report X clock rid pn cid cn seq' (?st, d'') = (Inr False, ?st, d'')"
    if "seq' \<le> seq" for seq' d'' using assms(5-7) that by (simp add: process_node_report_def)
  ultimately show ?thesis using a(2-4) by (intro exI[of _ ?st] exI[of _ d'] exI[of _ n'] exI[of _ cur]) simp
qed


section \<open>Roll-up\<close>

definition rolled_up :: "status list \<Rightarrow> status" where
  "rolled_up ss = (if Failed \<in> set ss then Failed else if Cancelled \<in> set ss then Cancelled else Done)"

lemma aggregate_rolled_up:
  "aggregate_terminal_status ss =
     (if ss = [] \<or> list_ex (\<lambda>s. \<not> is_terminal s) ss then None else Some (rolled_up ss))"
  by (simp add: aggregate_terminal_status_def aggregate_loop_spec rolled_up_def)

lemma rolled_up_terminal: "is_terminal (rolled_up ss)"
  by (simp add: rolled_up_def is_terminal_def)

lemma rollup_data: "snd (rollup_event rid \<lparr>ro_status = rolled_up ss, ro_recovery_merge_seq = None\<rparr>) =
    status_data (rolled_up ss) None"
  by (simp add: rollup_event_def status_data_def rollup_status_word_def rolled_up_def status_name_def)

lemma append_run_status:
  assumes X: "ext_ok X" and rm: "room X rid (Suc k) d" and v: "RunId_parse_str (run_id_str rid) = Inr rid"
    and m: "read_manifest_opt rid d = Inr (Some m)" "\<not> is_terminal (m_status m)" and s: "is_terminal s"
  obtains q d' m' where
    "append_and_apply_unlocked X clock rid ''run.status'' None key (status_data s None) d = (Inr q, d')"
    "room X rid k d'" "read_manifest_opt rid d' = Inr (Some m')" "m_status m' = s"
proof -
  let ?ev = "new_event clock rid ''run.status'' None key (status_data s None)"
  have l: "loggable (?ev q)" for q
    using v status_data_loggable by (simp add: loggable_def new_event_def)
  have r: "reduce_event_to_ops X rid d (?ev q) = Inr (run_status_plan X d (?ev q) m s)" for q
    by (rule reduce_run_status_data[of "?ev q" rid s None, OF _ _ _ m(1)]) (simp_all add: new_event_def)
  obtain q ops ev d' where a: "ev = ?ev q"
    "append_and_apply_unlocked X clock rid ''run.status'' None key (status_data s None) d = (Inr q, d')"
    "reduce_event_to_ops X rid d ev = Inr ops" "d' = recorded_state X rid ev ops d" "room X rid k d'"
    by (rule append_in_room[OF X rm l]) (rule exI, rule r, blast)
  have ops: "ops = run_status_plan X d ev m s" using r[of q] a(1,3) by simp
  obtain d1 m1 where d1: "commit_ops rid ops d = (Inr (), d1)" "read_manifest_opt rid d1 = Inr (Some m1)" "m_status m1 = s"
    unfolding ops by (rule commit_run_status[OF a(3)[unfolded ops] m(1) s]) (use m(2) in blast)
  obtain m' where "read_manifest_opt rid d' = Inr (Some m')" "m_status m' = m_status m1"
    using recorded_status[OF a(3) m(1) d1(1,2)] a(4) by auto
  with that a(2,5) d1(3) show ?thesis by blast
qed

text \<open>C31: the roll-up of an open run. On a run that is up to date, a tick's roll-up settles the run exactly
  when the manifest of every linked child can be read and is terminal, the terminal report of every
  linked child and of every tailed child has been consumed, the log names at least one node, and every
  node of the log is terminal; the status is then failed if some node failed, else cancelled if some was
  cancelled, else done. Otherwise nothing is written.\<close>

theorem roll_up_settles_open_run:
  assumes "ext_ok X" and "room X rid 1 d" and "RunId_parse_str (run_id_str rid) = Inr rid"
    and "read_manifest_opt rid d = Inr (Some m)" and "\<not> is_terminal (m_status m)"
    and "discover_children_unlocked rid d = Inr linked"
    and "read_node_status_facts X d None = Inr facts" and "ss = map nf_status facts"
  shows "if (\<exists>children. child_statuses F (map fst linked) = Some children \<and> list_all is_terminal children) \<and>
       (\<forall>cid\<in>set (map fst linked). \<exists>t. map_of tails cid = Some t \<and> ct_terminal t) \<and>
       (\<forall>(cid, t)\<in>set tails. ct_terminal t) \<and> ss \<noteq> [] \<and> list_all is_terminal ss
     then \<exists>d' m'. roll_up X clock rid F tails d = (Inr (Some (rollup_status_word (rolled_up ss))), d') \<and>
       read_manifest_opt rid d' = Inr (Some m') \<and> m_status m' = rolled_up ss
     else roll_up X clock rid F tails d = (Inr None, d)"
proof -
  obtain evs where "synced X rid d evs" using assms(2) by (auto simp: room_def)
  note rep = replay_synced[OF assms(1) this]
  obtain t succ where ev: "child_completion_evidence (map fst linked) tails (child_statuses F (map fst linked)) = (t, succ)"
    by fastforce
  have t: "t \<longleftrightarrow> (\<exists>children. child_statuses F (map fst linked) = Some children \<and> list_all is_terminal children) \<and>
       (\<forall>cid\<in>set (map fst linked). \<exists>t. map_of tails cid = Some t \<and> ct_terminal t) \<and> (\<forall>(cid, t)\<in>set tails. ct_terminal t)"
    using ev by (auto simp: child_completion_evidence_def list_all_iff split: option.splits)
  have open_run: "m_status m \<noteq> Done" "m_status m \<noteq> Cancelled" "m_status m \<noteq> Failed"
    using assms(5) by (auto simp: is_terminal_def)
  have dec: "rollup_decision X rid d t succ = (if t \<and> ss \<noteq> [] \<and> list_all is_terminal ss
      then Some \<lparr>ro_status = rolled_up ss, ro_recovery_merge_seq = None\<rparr> else None)"
    using assms(4,7,8) open_run by (auto simp: rollup_decision_def ok_flatten_def aggregate_rolled_up list_ex_iff list_all_iff)
  have up: "roll_up X clock rid F tails d = (case rollup_decision X rid d t succ of
      None \<Rightarrow> ret None d
    | Some dec \<Rightarrow> bind_io (append_and_apply_unlocked X clock rid ''run.status'' None
        (Some (fst (rollup_event rid dec))) (snd (rollup_event rid dec)))
        (\<lambda>_. ret (Some (rollup_status_word (ro_status dec)))) d)"
    using rep assms(6) ev by (simp add: roll_up_def bind_io_def reading_def)
  show ?thesis
  proof (cases "t \<and> ss \<noteq> [] \<and> list_all is_terminal ss")
    case True
    let ?dec = "\<lparr>ro_status = rolled_up ss, ro_recovery_merge_seq = None\<rparr>"
    have "room X rid (Suc 0) d" using assms(2) by simp
    from append_run_status[OF assms(1) this assms(3-5) rolled_up_terminal, of clock "Some (fst (rollup_event rid ?dec))" ss]
    obtain q d' m' where a: "append_and_apply_unlocked X clock rid ''run.status'' None (Some (fst (rollup_event rid ?dec)))
        (status_data (rolled_up ss) None) d = (Inr q, d')"
      "read_manifest_opt rid d' = Inr (Some m')" "m_status m' = rolled_up ss" by metis
    have "roll_up X clock rid F tails d = (Inr (Some (rollup_status_word (rolled_up ss))), d')"
      unfolding up dec using True a(1) by (simp add: bind_io_def ret_def rollup_data)
    with True a(2,3) show ?thesis unfolding t by auto
  next
    case False
    then have "rollup_decision X rid d t succ = None" unfolding dec by (rule if_not_P)
    then have "roll_up X clock rid F tails d = (Inr None, d)" unfolding up by (simp add: ret_def)
    with False show ?thesis unfolding t by auto
  qed
qed

end
