(* ===== verification/Tail_Facts.thy ===== *)
theory Tail_Facts
  imports Tail Append_Facts
begin

text \<open>
  The tail refines an abstract reader of the event list: polling a growing log hands out every
  event past the cursor once and in order, whatever torn lines the polls see in between.
\<close>

text \<open>The abstract reader: of the events not read yet, those above the highest number so far.\<close>

fun newer :: "u64 \<Rightarrow> event list \<Rightarrow> event list" where
  "newer ls [] = []"
| "newer ls (ev # evs) = (if ev_seq ev \<le> ls then newer ls evs else ev # newer (ev_seq ev) evs)"

definition top_seq :: "u64 \<Rightarrow> event list \<Rightarrow> u64" where
  "top_seq ls evs = fold (\<lambda>ev m. max m (ev_seq ev)) evs ls"

lemma top_seq_simps [simp]:
  "top_seq ls [] = ls" "top_seq ls (ev # evs) = top_seq (max ls (ev_seq ev)) evs"
  "top_seq ls (evs @ evs') = top_seq (top_seq ls evs) evs'"
  by (simp_all add: top_seq_def)

lemma newer_append: "newer ls (evs @ evs') = newer ls evs @ newer (top_seq ls evs) evs'"
  by (induction evs arbitrary: ls) (auto simp: max_def not_le)

lemma newer_ordered:
  "sorted_wrt (<) (map ev_seq evs) \<Longrightarrow> newer ls evs = filter (\<lambda>ev. ls < ev_seq ev) evs"
proof (induction evs arbitrary: ls)
  case (Cons ev evs)
  then have above: "\<forall>e\<in>set evs. ev_seq ev < ev_seq e" and s: "sorted_wrt (<) (map ev_seq evs)" by simp_all
  from above have "filter (\<lambda>e. ev_seq ev < ev_seq e) evs = evs"
    and "ls < ev_seq ev \<Longrightarrow> filter (\<lambda>e. ls < ev_seq e) evs = evs"
    by (auto simp: filter_id_conv dest: less_trans)
  then show ?case using Cons.IH[OF s] by (auto simp: not_le)
qed simp

definition text_bytes :: "ext \<Rightarrow> event list \<Rightarrow> bytes" where
  "text_bytes X evs = join (map (event_text X) evs) []"

lemma poll_loop_lines:
  assumes X: "ext_ok X" and "list_all loggable evs"
  shows "poll_loop X (line_pairs X evs @ (if t = [] then [] else [(t, False)])) consumed ls out =
    (consumed + length (text_bytes X evs), top_seq ls evs, out @ newer ls evs, None)"
  using assms(2)
proof (induction evs arbitrary: consumed ls out)
  case (Cons ev evs)
  have "trim_line_end (event_text X ev @ [NL]) = event_text X ev" "event_text X ev \<noteq> []"
    "event_of_line X (event_text X ev) = Some ev"
    using log_content[OF X, of ev] event_of_text[OF X, of ev] Cons.prems by simp_all
  with Cons show ?case by (cases "ev_seq ev \<le> ls") (simp_all add: text_bytes_def max_absorb1 max_absorb2)
qed (simp add: text_bytes_def)


text \<open>A tail that has read exactly these events of the log.\<close>

definition tail_at :: "ext \<Rightarrow> event_tail \<Rightarrow> event list \<Rightarrow> bool" where
  "tail_at X et evs \<longleftrightarrow> et_pos et = length (text_bytes X evs) \<and> et_corrupt et = None"

lemma poll_reads:
  assumes X: "ext_ok X" and l: "list_all loggable (evs @ new)" and t: "line_ok t" and a: "tail_at X et evs"
    and p: "poll X T (Some (join (map (event_text X) (evs @ new)) t)) et = (out, et')"
  shows "out = newer (et_last_seq et) new \<and> tail_at X et' (evs @ new) \<and>
    et_last_seq et' = top_seq (et_last_seq et) new"
proof -
  define bs where "bs = join (map (event_text X) (evs @ new)) t"
  have bs: "bs = text_bytes X evs @ text_bytes X new @ t"
    unfolding bs_def text_bytes_def map_append join_append by (metis join_tail append_assoc)
  have rest: "drop (et_pos et) bs = join (map (event_text X) new) t"
    unfolding bs using a by (simp add: tail_at_def) (simp add: text_bytes_def flip: join_tail)
  have all: "text_bytes X (evs @ new) = text_bytes X evs @ text_bytes X new"
    unfolding text_bytes_def map_append join_append by (metis join_tail)
  have len: "\<not> length bs < et_pos et" using a bs by (simp add: tail_at_def)
  note p' = p[folded bs_def]
  show ?thesis
  proof (cases "length bs = et_pos et")
    case True
    with a bs have "text_bytes X new = []" by (simp add: tail_at_def)
    then have "new = []" by (cases new) (simp_all add: text_bytes_def)
    with True a p' show ?thesis by (auto simp: poll_def Let_def tail_at_def)
  next
    case False
    have "list_all line_ok (map (event_text X) new)"
      using event_lines.enc_ok_all[OF log_fit[OF X], of new] l by simp
    then have "phys_lines (drop (et_pos et) bs) = line_pairs X new @ (if t = [] then [] else [(t, False)])"
      unfolding rest using phys_lines_join[OF _ t] by (simp add: line_pairs_def)
    with False len a p' l show ?thesis
      by (auto simp: poll_def tail_at_def all poll_loop_lines[OF X, of new])
  qed
qed

text \<open>A growing log: with each step new events are appended after those there are, and the file may
  end in a torn line of its own.\<close>

fun grown :: "ext \<Rightarrow> event list \<Rightarrow> (event list \<times> bytes) list \<Rightarrow> bytes option list" where
  "grown X evs [] = []"
| "grown X evs ((new, t) # steps) =
     Some (join (map (event_text X) (evs @ new)) t) # grown X (evs @ new) steps"

fun follow :: "ext \<Rightarrow> tail_text \<Rightarrow> bytes option list \<Rightarrow> event_tail \<Rightarrow> event list" where
  "follow X T [] et = []"
| "follow X T (f # fs) et = (case poll X T f et of (out, et') \<Rightarrow> out @ follow X T fs et')"

lemma follow_newer:
  assumes "ext_ok X" and "list_all loggable (evs @ concat (map fst steps))" and "list_all line_ok (map snd steps)"
    and "tail_at X et evs"
  shows "follow X T (grown X evs steps) et = newer (et_last_seq et) (concat (map fst steps))"
  using assms(2-)
proof (induction steps arbitrary: evs et)
  case (Cons s steps)
  obtain new t where s: "s = (new, t)" by fastforce
  obtain out et' where p: "poll X T (Some (join (map (event_text X) (evs @ new)) t)) et = (out, et')" by fastforce
  have "out = newer (et_last_seq et) new" "tail_at X et' (evs @ new)" "et_last_seq et' = top_seq (et_last_seq et) new"
    using poll_reads[OF assms(1) _ _ Cons.prems(3) p] Cons.prems(1,2) s by auto
  then show ?case using Cons.IH[of "evs @ new" et'] Cons.prems(1,2) p s by (simp add: newer_append)
qed simp

text \<open>C28: the tail delivers exactly once. Over any number of polls of a growing log, each with
  whatever torn line the file then ends in, the tail hands out precisely the events above its
  starting cursor, each once and in log order. The same holds after the cursor was sent back to the
  start of the file, since the sequence cursor is kept.\<close>

theorem tail_delivers_exactly_once:
  assumes "ext_ok X" and "list_all loggable (concat (map fst steps))" and "list_all line_ok (map snd steps)"
    and "sorted_wrt (<) (map ev_seq (concat (map fst steps)))"
  shows "follow X T (grown X [] steps) (EventTail_new s) = filter (\<lambda>ev. s < ev_seq ev) (concat (map fst steps)) \<and>
    follow X T (grown X [] steps) (restart et) = filter (\<lambda>ev. et_last_seq et < ev_seq ev) (concat (map fst steps))"
proof -
  have "tail_at X (EventTail_new s) []" "tail_at X (restart et) []"
    by (simp_all add: tail_at_def EventTail_new_def restart_def text_bytes_def)
  with follow_newer[OF assms(1) _ assms(3), of "[]"] newer_ordered[OF assms(4)] assms(2) show ?thesis
    by (simp add: EventTail_new_def restart_def)
qed

end
