(* ===== verification/Resident.thy ===== *)
theory Resident
  imports Teardown
begin

text \<open>
  The supervisor's resident duties (\<open>supervise/resident.rs\<close>) and the idle deadline
  (\<open>run/resident.rs\<close>). chrono's arithmetic is the record \<open>chrono_ops\<close>: \<open>Duration::seconds\<close> panics
  outside its range, which is \<open>None\<close> here and the result \<open>Panics\<close> of the code that calls it. The
  two clock readings, the resident lock and the notification hook are arguments; \<open>gap\<close> is what
  other processes do before the lock is taken.
\<close>

datatype 'a panics = Panics | Returns 'a

record chrono_ops =
  duration_seconds :: "int \<Rightarrow> int option"
  checked_add_signed :: "time \<Rightarrow> int \<Rightarrow> time option"

definition I64_MAX :: int where
  "I64_MAX = 9223372036854775807"

definition idle_deadline :: "chrono_ops \<Rightarrow> resident_policy \<Rightarrow> node \<Rightarrow> time option panics" where
  "idle_deadline C policy n = (case n_resident n of
       None \<Rightarrow> Returns None
     | Some state \<Rightarrow>
         if rs_dormant_since state \<noteq> None \<or> n_worker_exit n = None then Returns None
         else (case open_round state of
             None \<Rightarrow> Returns None
           | Some rnd \<Rightarrow>
               (let secs = (if int (unat (rp_idle_expiry_secs policy)) \<le> I64_MAX
                            then int (unat (rp_idle_expiry_secs policy)) else I64_MAX) in
                case duration_seconds C secs of
                  None \<Rightarrow> Panics
                | Some dur \<Rightarrow> Returns (checked_add_signed C (rr_reported_at rnd) dur))))"

definition root_node :: node_id where
  "root_node = NodeId ''n-0001''"

record 'w resident_env =
  re_chrono :: chrono_ops
  re_now :: time
  re_now_locked :: time
  re_lock_free :: bool
  re_fire :: "manifest \<Rightarrow> u64 \<Rightarrow> run_dir \<times> 'w \<Rightarrow> bool \<times> run_dir \<times> 'w"
    \<comment> \<open>\<open>notify::maybe_fire_round_reported\<close>\<close>
  re_gap :: "run_dir \<times> 'w \<Rightarrow> run_dir \<times> 'w"

text \<open>The check under the resident lock; the deadline is only computed once the rest holds.\<close>

definition still_due :: "'w resident_env \<Rightarrow> resident_policy \<Rightarrow> u64 \<Rightarrow> node \<Rightarrow> bool panics" where
  "still_due R policy seq n =
     (if \<not> is_terminal (n_status n) \<and> (case n_resident n of
            None \<Rightarrow> False
          | Some s \<Rightarrow> rs_dormant_since s = None \<and> rs_expiry_attention_at s = None \<and>
              (case open_round s of None \<Rightarrow> False | Some r \<Rightarrow> rr_event_seq r = seq))
      then (case idle_deadline (re_chrono R) policy n of
          Panics \<Rightarrow> Panics
        | Returns d \<Rightarrow> Returns (case d of None \<Rightarrow> False | Some t \<Rightarrow> t \<le> re_now_locked R))
      else Returns False)"

definition expire_resident ::
    "ext \<Rightarrow> (u64 \<Rightarrow> time) \<Rightarrow> run_id \<Rightarrow> 'w host \<Rightarrow> round_report \<Rightarrow> node \<Rightarrow> run_dir \<times> 'w \<Rightarrow> run_dir \<times> 'w" where
  "expire_resident X clock rid H rnd n dw =
     (case remove_landed_resident_worktree X clock rid H n dw of (kept, d, w) \<Rightarrow>
        (let (kind, data) = (case kept of
               None \<Rightarrow> (''node.resident_dormant'', Object [(''reason'', String ''idle-expired''),
                   (''round'', Number (PosInt (ucast (rr_round rnd)))), (''worktree_path'', opt_str (n_worktree_path n))])
             | Some reason \<Rightarrow> (''node.resident_attention'', Object [(''reason'', String reason),
                   (''round'', Number (PosInt (ucast (rr_round rnd))))]));
             key = ''resident-expiry:'' @ run_id_str rid @ '':'' @ decimal (unat (rr_event_seq rnd))
         in (snd (append_and_apply_event X clock rid kind (Some root_node) (Some key) data d), w)))"

definition resident_tick ::
    "ext \<Rightarrow> (u64 \<Rightarrow> time) \<Rightarrow> run_id \<Rightarrow> 'w host \<Rightarrow> 'w resident_env \<Rightarrow> u64 option \<times> run_dir \<times> 'w \<Rightarrow>
     (u64 option \<times> run_dir \<times> 'w) panics" where
  "resident_tick X clock rid H R st = (case st of (notified, d, w) \<Rightarrow>
     (case (read_manifest_opt rid d, read_node_opt rid d root_node) of
        (Inr (Some manifest), Inr (Some n)) \<Rightarrow>
          (case (m_resident manifest, n_resident n, Option.bind (n_resident n) open_round) of
             (Some policy, Some state, Some rnd) \<Rightarrow>
               if is_terminal (m_status manifest) \<or> is_terminal (n_status n) then Returns st
               else
                 (let (notified1, d1, w1) =
                        (if notified \<noteq> Some (rr_event_seq rnd) then
                           (case re_fire R manifest (rr_event_seq rnd) (d, w) of (fired, d', w') \<Rightarrow>
                              (if fired then Some (rr_event_seq rnd) else notified, d', w'))
                         else (notified, d, w))
                  in if rs_dormant_since state \<noteq> None \<or> rs_expiry_attention_at state \<noteq> None
                     then Returns (notified1, d1, w1)
                     else case idle_deadline (re_chrono R) policy n of
                         Panics \<Rightarrow> Panics
                       | Returns None \<Rightarrow> Returns (notified1, d1, w1)
                       | Returns (Some deadline) \<Rightarrow>
                           if re_now R < deadline \<or> \<not> re_lock_free R then Returns (notified1, d1, w1)
                           else (case re_gap R (d1, w1) of (d2, w2) \<Rightarrow>
                             (case read_node_opt rid d2 root_node of
                                Inr (Some n2) \<Rightarrow>
                                  (case still_due R policy (rr_event_seq rnd) n2 of
                                     Panics \<Rightarrow> Panics
                                   | Returns False \<Rightarrow> Returns (notified1, d2, w2)
                                   | Returns True \<Rightarrow> Returns (notified1, expire_resident X clock rid H rnd n2 (d2, w2)))
                              | _ \<Rightarrow> Returns (notified1, d2, w2))))
           | _ \<Rightarrow> Returns st)
      | _ \<Rightarrow> Returns st))"

end
