(* ===== verification/Resident_Facts.thy ===== *)
theory Resident_Facts
  imports Resident Teardown_Facts
begin

text \<open>
  Idle expiry: when its deadline computation panics, and that it never gives up unlanded work.
\<close>

section \<open>The deadline\<close>

text \<open>chrono's \<open>Duration::seconds\<close>: panics beyond \<open>i64::MAX\<close> milliseconds, else is exact.\<close>

definition chrono_ok :: "chrono_ops \<Rightarrow> bool" where
  "chrono_ok C \<longleftrightarrow> (\<forall>s. duration_seconds C s =
     (if - (I64_MAX div 1000) \<le> s \<and> s \<le> I64_MAX div 1000 then Some (s * 1000000000) else None))"

text \<open>A resident that waits: an open round reported by a worker that has exited, nothing decided.\<close>

definition resident_waits :: "run_id \<Rightarrow> run_dir \<Rightarrow> resident_policy \<Rightarrow> bool" where
  "resident_waits rid d policy \<longleftrightarrow> (\<exists>m n s rnd.
     read_manifest_opt rid d = Inr (Some m) \<and> read_node_opt rid d root_node = Inr (Some n) \<and>
     m_resident m = Some policy \<and> \<not> is_terminal (m_status m) \<and> \<not> is_terminal (n_status n) \<and>
     n_resident n = Some s \<and> open_round s = Some rnd \<and> n_worker_exit n \<noteq> None \<and>
     rs_dormant_since s = None \<and> rs_expiry_attention_at s = None)"

lemma clamped_seconds:
  fixes k :: nat
  assumes "chrono_ok C"
  shows "duration_seconds C (if int k \<le> I64_MAX then int k else I64_MAX) = None \<longleftrightarrow> 9223372036854775 < k"
proof -
  have "(if int k \<le> I64_MAX then int k else I64_MAX) \<le> I64_MAX div 1000 \<longleftrightarrow> \<not> 9223372036854775 < k"
    and "- (I64_MAX div 1000) \<le> (if int k \<le> I64_MAX then int k else I64_MAX)"
    by (auto simp: I64_MAX_def)
  then show ?thesis using assms unfolding chrono_ok_def by (metis option.distinct(1))
qed

lemma deadline_panics_iff:
  assumes "chrono_ok C"
  shows "idle_deadline C policy n = Panics \<longleftrightarrow> 9223372036854775 < unat (rp_idle_expiry_secs policy) \<and>
    (\<exists>s rnd. n_resident n = Some s \<and> open_round s = Some rnd \<and> n_worker_exit n \<noteq> None \<and> rs_dormant_since s = None)"
  unfolding clamped_seconds[OF assms, of "unat (rp_idle_expiry_secs policy)", symmetric] idle_deadline_def Let_def
  by (auto simp del: uint_nat split: option.split if_split)

lemma still_due_panics:
  "chrono_ok (re_chrono R) \<Longrightarrow> still_due R policy seq n = Panics \<Longrightarrow>
     9223372036854775 < unat (rp_idle_expiry_secs policy)"
  by (auto simp: still_due_def simp: deadline_panics_iff split: if_splits panics.splits)

text \<open>A long idle expiry takes the supervisor down. For a resident that waits for its next message
  the supervisor's tick panics exactly when the run's idle expiry is more than 9223372036854775
  seconds: the deadline is built with \<open>chrono::Duration::seconds\<close>, which panics there, although the
  surrounding code (the clamp to \<open>i64::MAX\<close> and the checked addition) treats an overflow as no
  deadline.\<close>

theorem long_idle_expiry_panics:
  assumes "chrono_ok (re_chrono R)" and "resident_waits rid d policy"
  shows "resident_tick X clock rid H R (notified, d, w) = Panics \<longleftrightarrow>
    9223372036854775 < unat (rp_idle_expiry_secs policy)"
proof -
  from assms(2) obtain m n s rnd where w:
    "read_manifest_opt rid d = Inr (Some m)" "read_node_opt rid d root_node = Inr (Some n)"
    "m_resident m = Some policy" "\<not> is_terminal (m_status m)" "\<not> is_terminal (n_status n)"
    "n_resident n = Some s" "open_round s = Some rnd" "n_worker_exit n \<noteq> None"
    "rs_dormant_since s = None" "rs_expiry_attention_at s = None" unfolding resident_waits_def by blast
  show ?thesis
  proof
    assume "9223372036854775 < unat (rp_idle_expiry_secs policy)"
    then have "idle_deadline (re_chrono R) policy n = Panics"
      using w deadline_panics_iff[OF assms(1)] by blast
    with w show "resident_tick X clock rid H R (notified, d, w) = Panics"
      by (simp add: resident_tick_def split: prod.split)
  next
    assume "resident_tick X clock rid H R (notified, d, w) = Panics"
    then have "idle_deadline (re_chrono R) policy n = Panics \<or>
        (\<exists>n2. still_due R policy (rr_event_seq rnd) n2 = Panics)"
      using w by (auto simp: resident_tick_def Let_def split: prod.splits panics.splits option.splits if_splits
          sum.splits bool.splits)
    then show "9223372036854775 < unat (rp_idle_expiry_secs policy)"
      using deadline_panics_iff[OF assms(1)] still_due_panics[OF assms(1)] by blast
  qed
qed

section \<open>Expiry keeps work\<close>

lemma landed_veto_guard:
  assumes "landed_checkout_veto H w repo p branch source = None"
  shows "head_teardown_safety H w repo p (Some branch) (Some source) \<in> {DeferToBranch, HeadSafe}"
  using assms by (auto simp: landed_checkout_veto_def
      split: if_splits unmerged_check.splits cleanliness.splits head_teardown.splits)


lemma remove_landed_keeps_work:
  assumes L: "git_laws H V" and s: "\<forall>s. manifest_source_branch rid d = Some s \<longrightarrow> v_branch V w s"
    and r: "remove_landed_resident_worktree X clock rid H n (d, w) = (kept, d', w')"
  shows "keeps_work V w w'"
proof (cases "w' = w")
  case False
  then obtain p branch source repo saved w1 where c: "landed_checkout_veto H w repo p branch source = None"
    "manifest_source_branch rid d = Some source" "save_dormant_pane H n w = (saved, w1)"
    and rest: "\<not> saved \<and> w' = w1 \<or> (\<exists>d2 w2 removed. close_tmux_window X clock rid H n (d, w1) = (d2, w2) \<and>
      worktree_remove H w2 repo p False = (removed, w'))"
    using r by (auto simp: remove_landed_resident_worktree_def split: option.splits if_splits prod.splits)
  have k1: "keeps_work V w w1" by (rule same_repo_keeps[OF git_lawsD(10)[OF L c(3)]])
  show ?thesis
  proof (cases "\<not> saved \<and> w' = w1")
    case False
    with rest obtain d2 w2 removed where cl: "close_tmux_window X clock rid H n (d, w1) = (d2, w2)"
      and rm: "worktree_remove H w2 repo p False = (removed, w')" by blast
    have same: "same_repo V w w2"
      by (rule same_repo_trans[OF git_lawsD(10)[OF L c(3)] close_tmux_window_repo[OF L cl]])
    obtain oid b where h: "head_oid H w p = Some oid" "v_branch V w b" "v_reach V w oid \<subseteq> v_reach V w b"
      using head_guard[OF L landed_veto_guard[OF c(1)]] s c(2) by blast
    have "v_head V w2 p = Some oid" "v_branch V w2 b" "v_reach V w2 oid \<subseteq> v_reach V w2 b"
      using h git_lawsD(11)[OF L h(1)] same by (simp_all add: same_repo_def)
    then have "keeps_work V w2 w'" by (rule removal_of_reachable_head[OF L rm])
    then show ?thesis using keeps_work_trans[OF same_repo_keeps[OF same]] by blast
  qed (use k1 in simp)
qed simp


text \<open>Idle expiry keeps unlanded work. Under git's documented behaviour, what an expiring resident
  does under its lock, the removal of the worktree or the attention event, leaves every commit that
  a ref or a worktree's HEAD reached reachable, and every worktree with uncommitted work in place.\<close>

theorem resident_expiry_keeps_work:
  assumes "git_laws H V" and "\<forall>s. manifest_source_branch rid d = Some s \<longrightarrow> v_branch V w s"
    and "expire_resident X clock rid H rnd n (d, w) = (d', w')"
  shows "v_kept V w \<subseteq> v_kept V w' \<and> (\<forall>p. v_unsaved V w p \<longrightarrow> v_unsaved V w' p)"
proof -
  obtain kept d1 where "remove_landed_resident_worktree X clock rid H n (d, w) = (kept, d1, w')"
    using assms(3) by (auto simp: expire_resident_def Let_def split: prod.splits)
  from remove_landed_keeps_work[OF assms(1,2) this] show ?thesis by (simp add: keeps_work_def)
qed

end
