(* ===== verification/Supervisor_Demo.thy ===== *)
theory Supervisor_Demo
  imports Witnesses Child_Facts Tail_Facts Resident_Facts
begin

text \<open>
  The theorems about the supervisor applied to concrete runs: a repository with one worktree, a
  process table with one process, and the run of \<open>Demo_Run\<close> with a dead worker, a told exit, a
  child and a waiting resident.
\<close>

section \<open>A repository\<close>

text \<open>Branch \<open>main\<close> with commit 0; branch \<open>work\<close> with commit 1 on top, checked out at \<open>/wt\<close>;
  \<open>landed\<close> says that \<open>main\<close> has commit 1 as well.\<close>

record repo_state =
  r_landed :: bool
  r_worktree :: bool
  r_branch :: bool

definition ok_out :: "string \<Rightarrow> cmd_output" where
  "ok_out s = CmdExited (Some 0) s []"

definition repo_read :: "repo_state \<Rightarrow> string \<Rightarrow> string list \<Rightarrow> cmd_output" where
  "repo_read w dir args =
     (if args = [''rev-parse'', ''HEAD''] \<and> dir = ''/wt'' \<and> r_worktree w \<and> r_branch w then ok_out ''c1''
      else if args = [''symbolic-ref'', ''--quiet'', ''--short'', ''HEAD''] \<and> dir = ''/wt'' \<and> r_worktree w \<and> r_branch w
        then ok_out ''work''
      else if args = [''status'', ''--porcelain'', ''--untracked-files=all''] then ok_out []
      else if hd args = ''rev-list'' then ok_out (if r_landed w then ''0'' else ''1'')
      else CmdSpawnErr ''unsupported'')"

definition repo_write :: "repo_state \<Rightarrow> string \<Rightarrow> string list \<Rightarrow> cmd_output \<times> repo_state" where
  "repo_write w dir args =
     (if args = [''worktree'', ''remove'', ''/wt''] \<and> r_worktree w \<and> r_branch w then (ok_out [], w\<lparr>r_worktree := False\<rparr>)
      else if args = [''branch'', ''-d'', ''--'', ''work''] \<and> r_landed w \<and> \<not> r_worktree w
        then (ok_out [], w\<lparr>r_branch := False\<rparr>)
      else (CmdExited (Some 1) [] ''refused'', w))"

definition demo_host :: "repo_state host" where
  "demo_host = \<lparr>git_read = repo_read, git_write = repo_write, tmux_read = (\<lambda>_ _ _. CmdSpawnErr []),
     tmux_write = (\<lambda>w _ _. (CmdSpawnErr [], w)), path_exists = (\<lambda>w p. p = ''/wt'' \<and> r_worktree w),
     remove_leftover = (\<lambda>_ w _ _. (False, w)), save_dormant_pane = (\<lambda>_ w. (True, w)),
     archive_before_cleanup = (\<lambda>d _ w. (True, d, w)), retain_completed_display = (\<lambda>d _ w. (Unavailable, d, w)),
     close_original_workmux_window = (\<lambda>_ w. w), close_persistent_non_pi = (\<lambda>_ w. w)\<rparr>"

definition demo_view :: "(repo_state, nat) repo_view" where
  "demo_view = \<lparr>v_reach = (\<lambda>w rev. if r_landed w \<or> rev \<noteq> ''main'' then {0, 1} else {0}),
     v_branch = (\<lambda>w b. b = ''main'' \<or> b = ''work'' \<and> r_branch w),
     v_head = (\<lambda>w p. if p = ''/wt'' \<and> r_worktree w \<and> r_branch w then Some ''c1'' else None),
     v_kept = (\<lambda>w. if r_landed w \<or> r_branch w then {0, 1} else {0}),
     v_unsaved = (\<lambda>w p. False)\<rparr>"

lemma strip_none: "List.find (\<lambda>w. w \<noteq> [] \<and> prefix w s) ws = None \<Longrightarrow> strip_leading ws s = s"
  by (subst strip_leading.simps) simp

lemma demo_outputs: "parse_u64 (trim (from_utf8_lossy ''1'')) = Some 1"
  "trim (from_utf8_lossy ''c1'') = ''c1''" "trim (from_utf8_lossy ''work'') = ''work''"
proof -
  have t: "trim ''1'' = ''1''" "trim ''c1'' = ''c1''" "trim ''work'' = ''work''"
    by (simp_all add: trim_def trim_start_def trim_end_def strip_none white_space_utf8_def)
  have u: "from_utf8_lossy ''1'' = ''1''" "from_utf8_lossy ''c1'' = ''c1''" "from_utf8_lossy ''work'' = ''work''"
    by code_simp+
  have "decimal 1 = ''1''" by code_simp
  then have "parse_u64 ''1'' = Some 1" using parse_u64_decimal[of 1] by simp
  then show "parse_u64 (trim (from_utf8_lossy ''1'')) = Some 1" unfolding u t .
  show "trim (from_utf8_lossy ''c1'') = ''c1''" "trim (from_utf8_lossy ''work'') = ''work''" unfolding u t by simp_all
qed

lemma demo_queries: "query_laws demo_host demo_view"
  by (auto simp: query_laws_def rev_list_count_def head_oid_def head_branch_def nonempty_output_def demo_host_def
      demo_view_def repo_read_def ok_out_def demo_outputs Let_def simp del: from_utf8_lossy.simps split: if_splits bind_splits)

lemma demo_removals: "remove_laws demo_host demo_view"
  by (auto simp: remove_laws_def worktree_remove_def worktree_remove_detail_def demo_host_def demo_view_def
      repo_write_def ok_out_def split: if_splits)

lemma demo_others: "other_laws demo_host demo_view"
  by (auto simp: other_laws_def branch_delete_def keeps_work_def same_repo_def demo_host_def demo_view_def
      repo_write_def ok_out_def split: if_splits)

lemma demo_git_laws: "git_laws demo_host demo_view"
  using demo_queries demo_removals demo_others by (simp add: git_laws_def)


section \<open>Teardown\<close>

definition demo_sourced :: run_dir where
  "demo_sourced = demo_run\<lparr>d_manifest := (case d_manifest demo_run of
     Some (File m) \<Rightarrow> Some (File (m\<lparr>m_source_branch := Some ''main''\<rparr>)) | e \<Rightarrow> e)\<rparr>"

definition demo_worker :: node where
  "demo_worker = demo_node\<lparr>n_worktree_path := Some ''/wt'', n_branch := Some ''work'',
     n_last_report := Some (Object [(''success'', Bool True)])\<rparr>"

definition unmerged :: repo_state where
  "unmerged = \<lparr>r_landed = False, r_worktree = True, r_branch = True\<rparr>"

lemma demo_worker_display: "n_tmux_identity demo_worker = None" "n_tmux_window demo_worker = None"
  by code_simp+

lemma demo_sourced_facts: "manifest_source_branch demo_rid demo_sourced = Some ''main''"
  "tmux_persistent demo_rid demo_sourced = False"
  by code_simp+

lemma demo_guard_state:
  "guard_state X clock demo_rid demo_host demo_worker (demo_sourced, w) = (demo_sourced, w)"
  by (simp add: guard_state_def settle_display_def close_tmux_window_def demo_host_def demo_sourced_facts
      demo_worker_display)

lemma demo_not_merge: "\<not> report_is_confirmed_merge (Object [(''success'', Bool True)])"
  by code_simp

lemma demo_worker_report: "n_last_report demo_worker = Some (Object [(''success'', Bool True)])"
  by (simp add: demo_worker_def)

text \<open>A node that reported success without a merge: its commit stays reachable.\<close>

theorem teardown_keeps_unmerged_work_witness:
  "1 \<in> v_kept demo_view (snd (cleanup_node demo_ext (\<lambda>_. 7) demo_rid demo_host demo_worker (demo_sourced, unmerged)))"
proof -
  have "classify demo_worker \<noteq> Some OutMerged"
    using demo_not_merge by (simp add: classify_merged_iff demo_worker_report)
  moreover have "\<forall>s. manifest_source_branch demo_rid
      (fst (guard_state demo_ext (\<lambda>_. 7) demo_rid demo_host demo_worker (demo_sourced, unmerged))) = Some s \<longrightarrow>
      v_branch demo_view (snd (guard_state demo_ext (\<lambda>_. 7) demo_rid demo_host demo_worker (demo_sourced, unmerged))) s"
    by (simp add: demo_guard_state demo_sourced_facts demo_view_def)
  moreover have "1 \<in> v_kept demo_view unmerged" by (simp add: demo_view_def unmerged_def)
  ultimately show ?thesis using teardown_keeps_unmerged_work[OF demo_git_laws] by blast
qed

theorem force_requires_confirmed_merge_witness:
  "cleanup_node demo_ext (\<lambda>_. 7) demo_rid (with_force (\<lambda>w _ _. (ok_out [], w\<lparr>r_branch := False\<rparr>)) (\<lambda>_ w _ _. (True, w)) demo_host)
     demo_worker (demo_sourced, unmerged) =
   cleanup_node demo_ext (\<lambda>_. 7) demo_rid demo_host demo_worker (demo_sourced, unmerged)"
  by (rule force_requires_confirmed_merge) (use demo_not_merge in \<open>simp add: demo_worker_report\<close>)

definition demo_round :: round_report where
  "demo_round = \<lparr>rr_round = 1, rr_attempt = 0, rr_reported_at = 5, rr_event_seq = 2, rr_summary = ''done'',
     rr_closed_at = None, rr_closed_by = None\<rparr>"

text \<open>An idle resident whose round has landed: the worktree goes, the commit stays.\<close>

theorem resident_expiry_keeps_work_witness:
  "1 \<in> v_kept demo_view (snd (expire_resident demo_ext (\<lambda>_. 7) demo_rid demo_host demo_round demo_worker
     (demo_sourced, unmerged\<lparr>r_landed := True\<rparr>)))"
proof -
  let ?w = "unmerged\<lparr>r_landed := True\<rparr>"
  obtain d' w' where e: "expire_resident demo_ext (\<lambda>_. 7) demo_rid demo_host demo_round demo_worker (demo_sourced, ?w) =
      (d', w')" by fastforce
  have "\<forall>s. manifest_source_branch demo_rid demo_sourced = Some s \<longrightarrow> v_branch demo_view ?w s"
    by (simp add: demo_sourced_facts demo_view_def)
  moreover have "1 \<in> v_kept demo_view ?w" by (simp add: demo_view_def)
  ultimately show ?thesis using resident_expiry_keeps_work[OF demo_git_laws _ e] e by auto
qed


section \<open>Processes and tails\<close>

definition demo_probes :: probes where
  "demo_probes = \<lparr>kill_0 = (\<lambda>p. if p = 42 then KillOk else KillErr 3), proc_stat = (\<lambda>_. None),
     sysinfo_start_time = (\<lambda>pid. if pid = 42 then Some 1000 else None), tmux_list_windows = (\<lambda>_. TimedSpawnErr)\<rparr>"

lemma demo_pid: "to_pid_t 42 = Some 42" "pid_alive demo_probes 42"
  by (simp_all add: to_pid_t_def pid_alive_def demo_probes_def)

theorem pid_record_roundtrip_witness:
  "case write_pid demo_probes 42 None of
     Inl e \<Rightarrow> False | Inr f \<Rightarrow> read_pid_record f = Some (42, \<lparr>st_secs = Some 1000, st_identity = None\<rparr>)"
proof -
  have "to_pid_t 42 \<noteq> None" by (simp add: demo_pid)
  from pid_record_roundtrip[OF this, where H = demo_probes and f = None] show ?thesis
    by (auto simp: RecordedStart_capture_def pid_start_time_def pid_start_identity_def demo_probes_def split: sum.splits)
qed

theorem claimed_run_excludes_others_witness:
  "\<exists>f recorded. claim_pid_atomic demo_probes 42 None = Inr f \<and>
     claim_pid_atomic demo_probes 43 f = Inl (SupervisorAlreadyRunning 42 recorded)"
proof -
  obtain f where f: "claim_pid_atomic demo_probes 42 None = Inr f"
    by (simp add: claim_pid_atomic_def read_pid_record_def read_pid_string_def write_pid_def reject_pid_symlink_def)
  from claimed_run_excludes_others[OF f demo_pid(2) refl refl, of 43] f show ?thesis by blast
qed

theorem synthesized_reports_preserve_work_witness:
  "validate_report_payload (respawn_failure_report ''n-0001'' 3 ''no pty'') = Inr () \<and>
   classify (demo_worker\<lparr>n_last_report := Some (respawn_failure_report ''n-0001'' 3 ''no pty'')\<rparr>) = Some OutFailed"
proof -
  have "synthesized (respawn_failure_report ''n-0001'' 3 ''no pty'')" unfolding synthesized_def by blast
  from synthesized_reports_preserve_work[OF this, of demo_merge demo_worker] show ?thesis by blast
qed

definition demo_text :: tail_text where
  "demo_text = \<lparr>tx_excerpt = (\<lambda>b. b), tx_hash = (\<lambda>_. 0)\<rparr>"

theorem tail_delivers_exactly_once_witness:
  "follow demo_ext demo_text (grown demo_ext []
      [([demo_event ''run.created'' 1 demo_created], ''torn''), ([demo_event ''node.created'' 2 demo_created], [])])
     (EventTail_new 1) = [demo_event ''node.created'' 2 demo_created]"
proof -
  let ?steps = "[([demo_event ''run.created'' 1 demo_created], ''torn''), ([demo_event ''node.created'' 2 demo_created], [])]"
  have "list_all loggable (concat (map fst ?steps))" using demo_created_loggable by simp
  moreover have "list_all line_ok (map snd ?steps)" by (simp add: line_ok_def)
  moreover have "sorted_wrt (<) (map ev_seq (concat (map fst ?steps)))" by (simp add: demo_event_def)
  ultimately have "follow demo_ext demo_text (grown demo_ext [] ?steps) (EventTail_new 1) =
      filter (\<lambda>ev. 1 < ev_seq ev) (concat (map fst ?steps))"
    using tail_delivers_exactly_once[OF demo_ext_ok] by blast
  then show ?thesis by (simp add: demo_event_def)
qed

text \<open>A fork that leaves one more byte in a pid file of its own, and fails to start anything.\<close>

definition fork_log :: "fleet \<Rightarrow> nat" where
  "fork_log F = (case fl_pid F ''forks'' of Some (File bs) \<Rightarrow> length bs | _ \<Rightarrow> 0)"

definition demo_fork :: fork where
  "demo_fork c F = (Inr (), if c = ''child''
     then F\<lparr>fl_pid := (fl_pid F)(''forks'' := Some (File (replicate (Suc (fork_log F)) CHR ''x'')))\<rparr> else F)"

theorem child_startup_terminates_witness:
  "\<forall>X clock E F k. let cs = ([(''child'', Starting 0 1)], sup_state_default, demo_run, F); ps = replicate k (E, demo_fork, \<lambda>dF. dF) in
     spawn_changes X clock demo_rid ''child'' ps cs \<le> 10 \<and>
     fork_log (fleet_of (fold (pass X clock demo_rid) ps cs)) \<le> fork_log F + 4"
proof -
  have "\<forall>c sp. map_of [(''child'', Starting 0 1)] c = Some sp \<longrightarrow> attempts_ok sp" by (simp add: attempts_ok_def)
  moreover have "map_of [(''child'', Starting 0 1)] ''child'' = Some (Starting 0 1)" by simp
  moreover have "counts_forks fork_log ''child'' (replicate k (E, demo_fork, \<lambda>dF. dF))" for k E
    by (auto simp: counts_forks_def demo_fork_def fork_log_def)
  ultimately show ?thesis unfolding Let_def using child_startup_terminates[OF _ _ _ refl] by blast
qed

section \<open>A run with a worker\<close>

text \<open>The synced run with its node replaced.\<close>

definition with_node_entry :: "(node \<Rightarrow> node) \<Rightarrow> run_dir" where
  "with_node_entry f = demo_synced\<lparr>d_nodes := [(''n-0001'', File (f (demo_node\<lparr>n_status := Running\<rparr>)))]\<rparr>"

lemma demo_node_keys: "n_schema_version demo_node \<in> set SUPPORTED_STATE_SCHEMAS"
  "n_node_id demo_node = demo_nid" "n_run_id demo_node = demo_rid"
  by code_simp+


definition keeps_ids :: "(node \<Rightarrow> node) \<Rightarrow> bool" where
  "keeps_ids f \<longleftrightarrow> (\<forall>n. n_schema_version (f n) = n_schema_version n \<and> n_node_id (f n) = n_node_id n \<and>
     n_run_id (f n) = n_run_id n)"

definition entry_node :: "(node \<Rightarrow> node) \<Rightarrow> node" where
  "entry_node f = f (demo_node\<lparr>n_status := Running\<rparr>)"

lemma entry_reads:
  assumes "keeps_ids f"
  shows "read_node_opt demo_rid (with_node_entry f) i =
    Inr (if i = demo_nid then Some (entry_node f) else None)"
proof -
  obtain n where "read_node_opt demo_rid demo_synced demo_nid = Inr (Some n)" by (rule demo_synced_node)
  then have "\<not> d_root_symlink demo_synced" "\<not> d_nodes_symlink demo_synced" by (simp_all add: read_node_opt_Inr)
  moreover have "node_id_str i = ''n-0001'' \<longleftrightarrow> i = demo_nid" by (cases i) (simp add: demo_nid_def)
  ultimately show ?thesis
    using assms demo_node_keys
    by (auto simp: read_node_opt_Inr node_entry_def with_node_entry_def node_valid_def keeps_ids_def entry_node_def)
qed

lemma entry_manifest: "read_manifest_opt demo_rid (with_node_entry f) = read_manifest_opt demo_rid demo_synced"
  by (simp add: read_manifest_opt_def with_node_entry_def store_defs)

lemma entry_synced: "synced demo_ext demo_rid (with_node_entry f) demo_events"
  using demo_is_synced entry_manifest[of f]
  by (simp add: synced_def log_is_def checked_events_def guard_root_def with_node_entry_def)

lemma entry_room: "k < 1000 \<Longrightarrow> room demo_ext demo_rid k (with_node_entry f)"
proof -
  assume "k < 1000"
  then have "unat (last_seq demo_events) + k < 2 ^ 64" by (simp add: demo_last)
  then show ?thesis using entry_synced unfolding room_def by blast
qed

lemma demo_target: "valid_target demo_rid demo_nid"
  using demo_ids by (simp add: valid_target_def)

lemma entry_supervised: "supervised_run demo_rid (with_node_entry f)"
proof -
  have "case read_manifest_opt demo_rid demo_run of Inr (Some m) \<Rightarrow> \<not> is_interactive (m_lifecycle m) | _ \<Rightarrow> False"
    by code_simp
  then obtain m where m: "read_manifest_opt demo_rid demo_run = Inr (Some m)" "\<not> is_interactive (m_lifecycle m)"
    by (auto split: sum.splits option.splits)
  then have "read_manifest_opt demo_rid demo_logged = Inr (Some m)" by (simp add: demo_logged_def log_reads)
  then obtain d where "advance_applied_seq demo_rid 2 demo_logged = (Inr (), d)"
    "read_manifest_opt demo_rid d = Inr (Some (advanced demo_logged 2 m))"
    by (rule advance_some[where seq = 2]) blast
  with m(2) show ?thesis by (simp add: supervised_run_def entry_manifest demo_synced_def advanced_def)
qed

definition demo_env :: sup_env where
  "demo_env = \<lparr>se_env = (\<lambda>_. None), se_now = 100000000000, se_instant = 0, se_rfc3339 = (\<lambda>_. ''1970''),
     se_probes = demo_probes\<rparr>"

definition demo_spawner :: "repo_state spawner" where
  "demo_spawner = \<lparr>respawn_agent = (\<lambda>_ _ _ w. (Inl ''no pty'', w)), capture_base_sha = (\<lambda>_ _. None),
     teardown_respawn_outcome = (\<lambda>_ w. w), commit_materialization = (\<lambda>_ w. w),
     discard_superseded_source = (\<lambda>_ w. w)\<rparr>"

lemma demo_host_history: "host_history X rid demo_host"
  by (simp add: host_history_def demo_host_def)

definition demo_exit :: worker_exit where
  "demo_exit = \<lparr>wx_code = Some 1, wx_signal = None, wx_at = 9\<rparr>"

lemma demo_exit_i32: "i32_exit demo_exit"
  by (simp add: i32_exit_def demo_exit_def)

abbreviation exited :: "node \<Rightarrow> node" where
  "exited n \<equiv> n\<lparr>n_worker_exit := Some demo_exit\<rparr>"

abbreviation demo_tick :: "(node \<Rightarrow> node) \<Rightarrow> retry_states \<times> run_dir \<times> repo_state" where
  "demo_tick f \<equiv> watchdog_tick demo_ext (\<lambda>_. 7) demo_env demo_rid demo_host demo_spawner idle
     ([], with_node_entry f, unmerged)"

theorem told_exit_settles_node_witness:
  "settled_node demo_rid (fst (snd (demo_tick exited))) demo_nid"
proof -
  have ids: "keeps_ids exited" by (simp add: keeps_ids_def)
  have rd: "read_node_opt demo_rid (with_node_entry exited) demo_nid = Inr (Some (entry_node exited))"
    using entry_reads[OF ids] by simp
  have "n_resident demo_node = None" by code_simp
  then have told: "told_node (entry_node exited) demo_exit"
    by (simp add: told_node_def entry_node_def demo_exit_def is_failure_def is_clean_def is_terminal_def
        round_reported_by_current_attempt_def)
  have fit: "exits_fit demo_rid (with_node_entry exited)"
    using demo_exit_i32 by (auto simp: exits_fit_def entry_reads[OF ids] entry_node_def split: if_splits)
  have rm: "room demo_ext demo_rid (2 * length (d_nodes (with_node_entry exited))) (with_node_entry exited)"
    by (rule entry_room) (simp add: with_node_entry_def)
  obtain parks' d' w' where t: "demo_tick exited = (parks', d', w')" using prod_cases3 by blast
  from told_exit_settles_node[OF demo_ext_ok demo_host_history entry_supervised rm demo_target rd told fit t]
  show ?thesis unfolding t by simp
qed

theorem watchdog_tick_keeps_history_witness:
  "\<exists>n'. read_node_opt demo_rid (fst (snd (demo_tick exited))) demo_nid = Inr (Some n') \<and>
     node_later (entry_node exited) n'"
proof -
  have rd: "read_node_opt demo_rid (with_node_entry exited) demo_nid = Inr (Some (entry_node exited))"
    using entry_reads[of exited] by (simp add: keeps_ids_def)
  obtain parks' d' w' where t: "demo_tick exited = (parks', d', w')" using prod_cases3 by blast
  from watchdog_tick_keeps_history[OF idle_history demo_host_history t] rd show ?thesis unfolding t by simp
qed


abbreviation dying :: "node \<Rightarrow> node" where
  "dying n \<equiv> n\<lparr>n_agent_pid := Some 77, n_first_death_at := Some 0\<rparr>"

lemma demo_node_fresh: "n_last_report demo_node = None" "n_worker_exit demo_node = None" "n_pending_merge demo_node = None"
  by code_simp+

lemma demo_death: "observe_death demo_env snap (entry_node dying) (agent_probe_of (entry_node dying) 77) = (LiveDead, DeadGraceElapsed)"
proof -
  have "\<not> pid_alive demo_probes 77" by (simp add: pid_alive_def to_pid_t_def demo_probes_def EPERM_def)
  then show ?thesis
    by (simp add: observe_death_def check_liveness_for_lifecycle_def check_liveness_def agent_probe_of_def
        demo_env_def entry_node_def death_grace_def env_secs_def from_secs_def)
qed

theorem observed_death_is_resolved_witness:
  "\<exists>parks' d'. tick_candidate demo_ext (\<lambda>_. 7) demo_env demo_rid demo_host (\<lambda>_ dw. dw) (\<lambda>_. None)
      (demo_nid, entry_node dying, ScanProbe (agent_probe_of (entry_node dying) 77)) ([], with_node_entry dying, unmerged) =
      (parks', d', unmerged) \<and>
    ((\<exists>p. map_of parks' ''n-0001'' = Some p \<and> bounded_park demo_env (entry_node dying) p) \<or>
     (\<exists>n'. read_node_opt demo_rid d' demo_nid = Inr (Some n') \<and> n_status n' = Failed))"
proof -
  have rd: "read_node_opt demo_rid (with_node_entry dying) demo_nid = Inr (Some (entry_node dying))"
    using entry_reads[of dying] by (simp add: keeps_ids_def)
  have n: "\<not> is_terminal (n_status (entry_node dying))" "n_last_report (entry_node dying) = None"
    "n_worker_exit (entry_node dying) = None" "n_pending_merge (entry_node dying) = None"
    by (simp_all add: entry_node_def is_terminal_def demo_node_fresh)
  obtain parks' d' w' where t: "tick_candidate demo_ext (\<lambda>_. 7) demo_env demo_rid demo_host (\<lambda>_ dw. dw) (\<lambda>_. None)
      (demo_nid, entry_node dying, ScanProbe (agent_probe_of (entry_node dying) 77)) ([], with_node_entry dying, unmerged) =
      (parks', d', w')" using prod_cases3 by blast
  have "room demo_ext demo_rid 1 (with_node_entry dying)" by (rule entry_room) simp
  from observed_death_is_resolved[OF demo_ext_ok this demo_target rd n demo_death t] t show ?thesis
    by (auto simp: failed_with_def demo_nid_def)
qed

definition demo_child :: string where
  "demo_child = ''01hzxk3v5n8q2r4t6w7y9abcdf''"

lemma demo_child_id: "RunId_parse_str demo_child = Inr (RunId demo_child)"
  by code_simp

theorem child_report_consumed_once_witness:
  "\<exists>st' d'. process_node_report demo_ext (\<lambda>_. 7) demo_rid ''n-0001'' demo_child ''n-0001'' 5
       (sup_state_default, with_node_entry id) = (Inr True, st', d') \<and>
     process_node_report demo_ext (\<lambda>_. 7) demo_rid ''n-0001'' demo_child ''n-0001'' 5 (st', d') = (Inr False, st', d')"
proof -
  have rd: "read_node_opt demo_rid (with_node_entry id) demo_nid = Inr (Some (entry_node id))"
    using entry_reads[of id] by (simp add: keeps_ids_def)
  have nid: "NodeId_parse_str ''n-0001'' = Inr demo_nid" by code_simp
  have rm: "room demo_ext demo_rid 1 (with_node_entry id)" by (rule entry_room) simp
  have "\<forall>prev. map_of (ss_last_processed_report_seq_by_child sup_state_default) demo_child = Some prev \<longrightarrow> prev < 5"
    by (simp add: sup_state_default_def)
  from child_report_consumed_once[OF demo_ext_ok rm demo_target rd nid demo_child_id nid this, of "\<lambda>_. 7"]
  show ?thesis by (metis order_refl)
qed

section \<open>A waiting resident\<close>

definition demo_policy :: resident_policy where
  "demo_policy = \<lparr>rp_name = ''docs'', rp_idle_expiry_secs = 9223372036854776\<rparr>"

definition demo_resident :: run_dir where
  "demo_resident = demo_run\<lparr>d_manifest := (case d_manifest demo_run of
       Some (File m) \<Rightarrow> Some (File (m\<lparr>m_resident := Some demo_policy\<rparr>)) | e \<Rightarrow> e),
     d_nodes := [(''n-0001'', File (exited (demo_node\<lparr>n_status := Running,
       n_resident := Some (resident_state_default\<lparr>rs_last_round := Some demo_round\<rparr>)\<rparr>)))]\<rparr>"

definition demo_chrono :: chrono_ops where
  "demo_chrono = \<lparr>duration_seconds = (\<lambda>s. if - (I64_MAX div 1000) \<le> s \<and> s \<le> I64_MAX div 1000
       then Some (s * 1000000000) else None), checked_add_signed = (\<lambda>t d. Some (t + d))\<rparr>"

definition demo_resident_env :: "repo_state resident_env" where
  "demo_resident_env = \<lparr>re_chrono = demo_chrono, re_now = 0, re_now_locked = 0, re_lock_free = True,
     re_fire = (\<lambda>_ _ dw. (True, dw)), re_gap = (\<lambda>dw. dw)\<rparr>"

lemma demo_resident_waits: "resident_waits demo_rid demo_resident demo_policy"
proof -
  have "case read_manifest_opt demo_rid demo_resident of
      Inr (Some m) \<Rightarrow> m_resident m = Some demo_policy \<and> \<not> is_terminal (m_status m) | _ \<Rightarrow> False" by code_simp
  then obtain m where m: "read_manifest_opt demo_rid demo_resident = Inr (Some m)" "m_resident m = Some demo_policy"
    "\<not> is_terminal (m_status m)" by (auto split: sum.splits option.splits)
  have "case read_node_opt demo_rid demo_resident root_node of
      Inr (Some n) \<Rightarrow> \<not> is_terminal (n_status n) \<and> n_worker_exit n \<noteq> None \<and>
        n_resident n = Some (resident_state_default\<lparr>rs_last_round := Some demo_round\<rparr>) | _ \<Rightarrow> False" by code_simp
  then obtain n where n: "read_node_opt demo_rid demo_resident root_node = Inr (Some n)" "\<not> is_terminal (n_status n)"
    "n_worker_exit n \<noteq> None" "n_resident n = Some (resident_state_default\<lparr>rs_last_round := Some demo_round\<rparr>)"
    by (auto split: sum.splits option.splits)
  have "open_round (resident_state_default\<lparr>rs_last_round := Some demo_round\<rparr>) = Some demo_round"
    by (simp add: open_round_def demo_round_def filter_opt_def)
  with m n show ?thesis unfolding resident_waits_def by (auto simp: resident_state_default_def)
qed

theorem long_idle_expiry_panics_witness:
  "resident_tick demo_ext (\<lambda>_. 7) demo_rid demo_host demo_resident_env (None, demo_resident, unmerged) = Panics"
proof -
  have "chrono_ok (re_chrono demo_resident_env)" by (simp add: chrono_ok_def demo_resident_env_def demo_chrono_def)
  from long_idle_expiry_panics[OF this demo_resident_waits] show ?thesis by (simp add: demo_policy_def)
qed


section \<open>Roll-up\<close>

definition reported_events :: "event list" where
  "reported_events = demo_events @ [demo_event ''node.report'' 3 (Object [(''success'', Bool True)])]"

definition demo_applied :: run_dir where
  "demo_applied = demo_run\<lparr>d_manifest := (case d_manifest demo_run of
     Some (File m) \<Rightarrow> Some (File (m\<lparr>m_applied_seq := 3\<rparr>)) | e \<Rightarrow> e)\<rparr>"

definition demo_reported :: run_dir where
  "demo_reported = demo_applied\<lparr>d_events := Some (join (map (event_text demo_ext) reported_events) [])\<rparr>"

lemma reported_log: "log_is demo_ext demo_reported reported_events []"
proof -
  have "loggable (demo_event ''node.report'' 3 (Object [(''success'', Bool True)]))" unfolding demo_loggable by code_simp
  then show ?thesis
    using demo_created_loggable
    by (simp add: log_is_def demo_reported_def reported_events_def demo_events_def line_ok_def)
qed

lemma reported_manifest:
  obtains m where "read_manifest_opt demo_rid demo_reported = Inr (Some m)" "m_applied_seq m = 3" "\<not> is_terminal (m_status m)"
proof -
  have "case read_manifest_opt demo_rid demo_applied of
      Inr (Some m) \<Rightarrow> m_applied_seq m = 3 \<and> \<not> is_terminal (m_status m) | _ \<Rightarrow> False" by code_simp
  then show ?thesis using that by (auto simp: demo_reported_def log_reads split: sum.splits option.splits)
qed

lemma reported_checked: "checked_events demo_reported = Inr ()"
proof -
  have "checked_events demo_applied = Inr ()" by code_simp
  then show ?thesis by (simp add: demo_reported_def log_reads)
qed

lemma reported_last: "last_seq reported_events = 3"
  by (simp add: last_seq_def reported_events_def demo_event_def)

lemma reported_room: "room demo_ext demo_rid 1 demo_reported"
proof -
  obtain m where "read_manifest_opt demo_rid demo_reported = Inr (Some m)" "m_applied_seq m = 3" by (rule reported_manifest)
  then have "synced demo_ext demo_rid demo_reported reported_events"
    using reported_log reported_checked reported_last
    by (simp add: synced_def) (simp add: reported_events_def demo_events_def demo_event_def)
  moreover have "unat (last_seq reported_events) + 1 < 2 ^ 64" by (simp add: reported_last)
  ultimately show ?thesis unfolding room_def by blast
qed

lemma reported_facts: "map nf_status (finish_facts (observe_all reported_events acc_default)) = [Done]"
proof -
  have "acc_order (observe_all reported_events acc_default) = [demo_nid]"
    "acc_status (observe_all reported_events acc_default) demo_nid = Some Done" by code_simp+
  then show ?thesis by (simp add: finish_facts_def)
qed

lemma reported_no_children: "discover_children_unlocked demo_rid demo_reported = Inr []"
proof -
  have e: "discover_loop rid (d\<lparr>d_events := es\<rparr>) stems out = discover_loop rid d stems out" for rid d es stems out
    by (induction stems arbitrary: out) (simp_all add: log_reads split: sum.split)
  have "discover_children_unlocked demo_rid demo_applied = Inr []" by code_simp
  then show ?thesis by (simp add: discover_children_unlocked_def demo_reported_def e)
qed

theorem roll_up_settles_open_run_witness:
  "\<exists>d' m'. roll_up demo_ext (\<lambda>_. 7) demo_rid \<lparr>fl_dir = (\<lambda>_. demo_empty), fl_pid = (\<lambda>_. None)\<rparr> [] demo_reported =
      (Inr (Some ''done''), d') \<and> read_manifest_opt demo_rid d' = Inr (Some m') \<and> m_status m' = Done"
proof -
  obtain m where m: "read_manifest_opt demo_rid demo_reported = Inr (Some m)" "\<not> is_terminal (m_status m)"
    by (rule reported_manifest)
  have "list_all object_event reported_events"
    by (simp add: reported_events_def demo_events_def object_event_def demo_event_def demo_created_def)
  from facts_of_log[OF demo_ext_ok reported_log reported_checked this, of None]
  have f: "read_node_status_facts demo_ext demo_reported None = Inr (finish_facts (observe_all reported_events acc_default))"
    by (simp add: in_bound_def)
  from roll_up_settles_open_run[OF demo_ext_ok reported_room demo_ids(1) m reported_no_children f refl,
      of "\<lparr>fl_dir = (\<lambda>_. demo_empty), fl_pid = (\<lambda>_. None)\<rparr>" "[]" "\<lambda>_. 7"]
  show ?thesis unfolding reported_facts
    by (simp add: child_statuses_def rolled_up_def rollup_status_word_def is_terminal_def)
qed

end
