(* ===== verification/Idempotency.thy ===== *)
theory Idempotency
  imports Std_Text Schema
begin

unbundle bit_operations_syntax

text \<open>
  The reservations behind \<open>run create --idempotency-key\<close> (\<open>idempotency.rs\<close>): one file per hashed
  \<open>(repo, branch, key)\<close> in the \<open>idempotency\<close> directory, which names the run the key stands for and
  the process that is creating it. Every operation holds the lock of its key, so it is one step;
  a new record is linked into place, a changed one renamed over the old. An error keeps the code of
  its \<open>CliError\<close>. Disk faults and the lock files themselves are not modelled.
\<close>

section \<open>The name of a reservation\<close>

definition FNV_OFFSET_LOW :: u64 where
  "FNV_OFFSET_LOW = 0xcbf29ce484222325"

definition FNV_OFFSET_HIGH :: u64 where
  "FNV_OFFSET_HIGH = 0x84222325cbf29ce4"

definition FNV_PRIME :: u64 where
  "FNV_PRIME = 0x100000001b3"

definition byte_of :: "char \<Rightarrow> u64" where
  "byte_of c = of_nat (of_char c)"

fun fnv1a64 :: "u64 \<Rightarrow> bytes \<Rightarrow> u64" where
  "fnv1a64 h [] = h"
| "fnv1a64 h (b # bs) = fnv1a64 ((h XOR byte_of b) * FNV_PRIME) bs"

definition to_le_bytes :: "u64 \<Rightarrow> bytes" where
  "to_le_bytes w = map (\<lambda>i. char_of (unat (drop_bit (8 * i) w AND 255))) [0 ..< 8]"

fun hash_parts :: "u64 \<Rightarrow> u64 \<Rightarrow> string list \<Rightarrow> u64 \<times> u64" where
  "hash_parts low high [] = (low, high)"
| "hash_parts low high (part # parts) =
     (let len = to_le_bytes (of_nat (length part)) in
      hash_parts (fnv1a64 (fnv1a64 low len) part) (fnv1a64 (fnv1a64 high len) part) parts)"

text \<open>\<open>format!("{w:016x}")\<close>.\<close>

definition hex_digit :: "nat \<Rightarrow> char" where
  "hex_digit n = (if n < 10 then char_of (48 + n) else char_of (87 + n))"

definition hex16 :: "u64 \<Rightarrow> string" where
  "hex16 w = map (\<lambda>i. hex_digit (unat (drop_bit (60 - 4 * i) w AND 15))) [0 ..< 16]"

definition unwrap_or :: "'a \<Rightarrow> 'a option \<Rightarrow> 'a" where
  "unwrap_or d x = (case x of None \<Rightarrow> d | Some v \<Rightarrow> v)"

definition key_hash :: "string option \<Rightarrow> string option \<Rightarrow> string \<Rightarrow> string" where
  "key_hash repo branch key =
     (case hash_parts FNV_OFFSET_LOW FNV_OFFSET_HIGH [unwrap_or [] repo, unwrap_or [] branch, key] of
        (low, high) \<Rightarrow> hex16 high @ hex16 low)"

section \<open>Records\<close>

record creator_lease =
  cl_pid :: u32
  cl_pid_start_secs :: "u64 option"
  cl_started_at :: time
  cl_materializer_lease_path :: "string option"

record caller_plan =
  kp_request :: string
  kp_branch :: string
  kp_checkout :: string
  kp_base_sha :: string

record reservation_record =
  rv_schema_version :: u32
  rv_run_id :: string
  rv_creator :: "creator_lease option"
  rv_stale_run_ids :: "string list"
  rv_caller_plan :: "caller_plan option"

definition ReservationRecord_new :: "string \<Rightarrow> creator_lease \<Rightarrow> reservation_record" where
  "ReservationRecord_new run_id creator = \<lparr>rv_schema_version = 1, rv_run_id = run_id,
     rv_creator = Some creator, rv_stale_run_ids = [], rv_caller_plan = None\<rparr>"

definition opt_json :: "('a \<Rightarrow> json) \<Rightarrow> 'a option \<Rightarrow> json" where
  "opt_json f v = (case v of None \<Rightarrow> Null | Some x \<Rightarrow> f x)"

definition lease_json :: "ext \<Rightarrow> creator_lease \<Rightarrow> json" where
  "lease_json X l = Object
     [(''materializer_lease_path'', opt_json String (cl_materializer_lease_path l)),
      (''pid'', Number (PosInt (ucast (cl_pid l)))),
      (''pid_start_secs'', opt_json (\<lambda>s. Number (PosInt s)) (cl_pid_start_secs l)),
      (''started_at'', String (ser_datetime X (cl_started_at l)))]"

definition plan_json :: "caller_plan \<Rightarrow> json" where
  "plan_json p = Object [(''base_sha'', String (kp_base_sha p)), (''branch'', String (kp_branch p)),
     (''checkout'', String (kp_checkout p)), (''request'', String (kp_request p))]"

definition record_json :: "ext \<Rightarrow> reservation_record \<Rightarrow> json" where
  "record_json X r = Object
     [(''caller_plan'', opt_json plan_json (rv_caller_plan r)),
      (''creator'', opt_json (lease_json X) (rv_creator r)), (''run_id'', String (rv_run_id r)),
      (''schema_version'', Number (PosInt (ucast (rv_schema_version r)))),
      (''stale_run_ids'', Array (map String (rv_stale_run_ids r)))]"

definition de_creator_lease :: "ext \<Rightarrow> json \<Rightarrow> creator_lease option" where
  "de_creator_lease X v = do {
     g \<leftarrow> struct_fields [(''pid'', False), (''pid_start_secs'', False), (''started_at'', False),
        (''materializer_lease_path'', True)] v;
     p \<leftarrow> req de_u32 g ''pid'';
     s \<leftarrow> optional de_u64 g ''pid_start_secs'';
     t \<leftarrow> req (de_datetime X) g ''started_at'';
     l \<leftarrow> optional de_string g ''materializer_lease_path'';
     Some \<lparr>cl_pid = p, cl_pid_start_secs = s, cl_started_at = t, cl_materializer_lease_path = l\<rparr> }"

definition de_caller_plan :: "json \<Rightarrow> caller_plan option" where
  "de_caller_plan v = do {
     g \<leftarrow> struct_fields [(''request'', False), (''branch'', False), (''checkout'', False), (''base_sha'', False)] v;
     r \<leftarrow> req de_string g ''request'';
     b \<leftarrow> req de_string g ''branch'';
     c \<leftarrow> req de_string g ''checkout'';
     s \<leftarrow> req de_string g ''base_sha'';
     Some \<lparr>kp_request = r, kp_branch = b, kp_checkout = c, kp_base_sha = s\<rparr> }"

definition de_reservation_record :: "ext \<Rightarrow> json \<Rightarrow> reservation_record option" where
  "de_reservation_record X v = do {
     g \<leftarrow> struct_fields [(''schema_version'', False), (''run_id'', False), (''creator'', False),
        (''stale_run_ids'', True), (''caller_plan'', True)] v;
     sv \<leftarrow> req de_u32 g ''schema_version'';
     r \<leftarrow> req de_string g ''run_id'';
     c \<leftarrow> optional (de_creator_lease X) g ''creator'';
     st \<leftarrow> defaulted [] (de_vec de_string) g ''stale_run_ids'';
     p \<leftarrow> optional de_caller_plan g ''caller_plan'';
     Some \<lparr>rv_schema_version = sv, rv_run_id = r, rv_creator = c, rv_stale_run_ids = st, rv_caller_plan = p\<rparr> }"

section \<open>The directory\<close>

type_synonym idem_dir = "string \<rightharpoonup> bytes"

type_synonym 'a cli = "string + 'a"

definition read_record :: "ext \<Rightarrow> string \<Rightarrow> idem_dir \<Rightarrow> reservation_record option cli" where
  "read_record X path fs = (case fs path of
       None \<Rightarrow> Inr None
     | Some raw \<Rightarrow>
         if \<not> utf8_valid raw then Inl ''io_error''
         else if prefix ''{'' (trim_start raw) then
           (case Option.bind (json_from_slice X raw) (de_reservation_record X) of
              None \<Rightarrow> Inl ''idempotency_record_invalid''
            | Some r \<Rightarrow> if rv_schema_version r \<noteq> 1 then Inl ''idempotency_record_unsupported'' else Inr (Some r))
         else Inr (Some \<lparr>rv_schema_version = 0, rv_run_id = trim raw, rv_creator = None,
                rv_stale_run_ids = [], rv_caller_plan = None\<rparr>))"

definition claim_tmp :: "reservation_record \<Rightarrow> string" where
  "claim_tmp r = ''.tmp-claim-'' @ key_hash None None (rv_run_id r)"

text \<open>A hard link of the written temporary file, which fails when the name is taken; the guard removes
  the temporary file either way.\<close>

definition write_record_exclusive :: "ext \<Rightarrow> string \<Rightarrow> reservation_record \<Rightarrow> idem_dir \<Rightarrow> bool \<times> idem_dir" where
  "write_record_exclusive X path r fs =
     (let bs = json_to_vec X (record_json X r); fs1 = fs(claim_tmp r \<mapsto> bs);
          linked = (fs1 path = None); fs2 = (if linked then fs1(path \<mapsto> bs) else fs1)
      in (linked, fs2(claim_tmp r := None)))"

definition write_tmp :: "string \<Rightarrow> string" where
  "write_tmp path = ''.tmp-write-'' @ path"

definition write_record_atomic :: "ext \<Rightarrow> string \<Rightarrow> reservation_record \<Rightarrow> idem_dir \<Rightarrow> idem_dir" where
  "write_record_atomic X path r fs =
     (let bs = json_to_vec X (record_json X r); fs1 = fs(write_tmp path \<mapsto> bs);
          fs2 = (fs1(path \<mapsto> bs))(write_tmp path := None)
      in fs2(write_tmp path := None))"

section \<open>Operations\<close>

datatype reservation = Reserved | AlreadyReserved reservation_record

datatype reclaim_outcome = Reclaimed | Published | Changed reservation_record

definition lookup_key :: "ext \<Rightarrow> string \<Rightarrow> idem_dir \<Rightarrow> reservation_record option cli" where
  "lookup_key X p fs = read_record X p fs"

text \<open>What a claim found instead of a free name.\<close>

definition contended :: "ext \<Rightarrow> string \<Rightarrow> (reservation_record \<Rightarrow> 'a) \<Rightarrow> idem_dir \<Rightarrow> 'a cli" where
  "contended X p f fs = rbind (read_record X p fs) (\<lambda>ro. case ro of None \<Rightarrow> Inl ''io_error'' | Some r \<Rightarrow> Inr (f r))"

definition reserve_in :: "ext \<Rightarrow> string \<Rightarrow> reservation_record \<Rightarrow> idem_dir \<Rightarrow> reservation cli \<times> idem_dir" where
  "reserve_in X p r fs = (case read_record X p fs of
       Inl e \<Rightarrow> (Inl e, fs)
     | Inr (Some existing) \<Rightarrow> (Inr (AlreadyReserved existing), fs)
     | Inr None \<Rightarrow>
         (case write_record_exclusive X p r fs of
            (True, fs') \<Rightarrow> (Inr Reserved, fs')
          | (False, fs') \<Rightarrow> (contended X p AlreadyReserved fs', fs')))"

definition reclaim_in ::
    "ext \<Rightarrow> string \<Rightarrow> reservation_record \<Rightarrow> reservation_record \<Rightarrow> bool \<Rightarrow> idem_dir \<Rightarrow> reclaim_outcome cli \<times> idem_dir" where
  "reclaim_in X p observed replacement published fs =
     (if published then (Inr Published, fs)
      else case read_record X p fs of
        Inl e \<Rightarrow> (Inl e, fs)
      | Inr (Some current) \<Rightarrow>
          if current = observed then (Inr Reclaimed, write_record_atomic X p replacement fs)
          else (Inr (Changed current), fs)
      | Inr None \<Rightarrow>
          (case write_record_exclusive X p replacement fs of
             (True, fs') \<Rightarrow> (Inr Reclaimed, fs')
           | (False, fs') \<Rightarrow> (contended X p Changed fs', fs')))"

definition finish_stale_cleanup :: "ext \<Rightarrow> string \<Rightarrow> string \<Rightarrow> idem_dir \<Rightarrow> unit cli \<times> idem_dir" where
  "finish_stale_cleanup X p run_id fs = (case read_record X p fs of
       Inl e \<Rightarrow> (Inl e, fs)
     | Inr None \<Rightarrow> (Inr (), fs)
     | Inr (Some r) \<Rightarrow>
         if rv_run_id r \<noteq> run_id then (Inl ''idempotency_owner_changed'', fs)
         else if rv_stale_run_ids r \<noteq> []
         then (Inr (), write_record_atomic X p (r\<lparr>rv_stale_run_ids := []\<rparr>) fs)
         else (Inr (), fs))"

definition release_in :: "ext \<Rightarrow> string \<Rightarrow> string \<Rightarrow> idem_dir \<Rightarrow> unit cli \<times> idem_dir" where
  "release_in X p run_id fs = (case read_record X p fs of
       Inl e \<Rightarrow> (Inl e, fs)
     | Inr None \<Rightarrow> (Inr (), fs)
     | Inr (Some r) \<Rightarrow> if rv_run_id r \<noteq> run_id then (Inr (), fs) else (Inr (), fs(p := None)))"

section \<open>The materializer lease\<close>

datatype lease_liveness = LeaseLive | LeaseDead | LeaseUnverifiable

text \<open>Whether a lease file opens, and whether its lock was free.\<close>

datatype try_lock = LockFree | WouldBlock | LockError

definition materializer_liveness :: "try_lock option \<Rightarrow> lease_liveness" where
  "materializer_liveness opened = (case opened of
       None \<Rightarrow> LeaseUnverifiable
     | Some LockFree \<Rightarrow> LeaseDead
     | Some WouldBlock \<Rightarrow> LeaseLive
     | Some LockError \<Rightarrow> LeaseUnverifiable)"

end
