(* ===== verification/Telemetry.thy ===== *)
theory Telemetry
  imports Resident
begin

text \<open>
  Advisory worker telemetry (\<open>telemetry.rs\<close>): one bounded sample per node, kept beside the
  event-sourced state. An update validates the request and, under the run lock, the node's current
  attempt, and replaces the sample; a read classifies it against the clock. The result of
  opening and locking the existing lock file is an argument; a document with a repeated key is
  outside the model of serde_json's reader.
\<close>

definition TELEMETRY_SCHEMA_VERSION :: u32 where
  "TELEMETRY_SCHEMA_VERSION = 1"

definition TELEMETRY_PROTOCOL_VERSION :: u32 where
  "TELEMETRY_PROTOCOL_VERSION = 1"

definition TELEMETRY_MAX_BYTES :: nat where
  "TELEMETRY_MAX_BYTES = 4 * 1024"

definition TELEMETRY_FRESHNESS_SECS :: int where
  "TELEMETRY_FRESHNESS_SECS = 90"

section \<open>Requests and samples\<close>

datatype telemetry_state = AgentActive | ToolRunning | Settled | Shutdown

record telemetry_update =
  tu_schema_version :: u32
  tu_protocol_version :: u32
  tu_run_id :: run_id
  tu_node_id :: node_id
  tu_attempt :: u32
  tu_state :: telemetry_state
  tu_active_tool_count :: "u8 option"
  tu_tool_name :: "string option"

record telemetry_accepted =
  ta_accepted :: bool
  ta_run_id :: run_id
  ta_node_id :: node_id
  ta_attempt :: u32
  ta_received_at :: time
  ta_expires_at :: time

datatype telemetry_error =
    TelemetryCore core_error
  | InvalidRequest
  | TooLarge string nat
  | UnsupportedSchema u32
  | UnsupportedProtocol u32
  | InvalidMetadata string
  | RunMismatch run_id run_id
  | RunStateNotCurrent
  | TelemetryNodeNotFound node_id
  | TerminalNode node_id status
  | AttemptMismatch u32 u32
  | ClockOverflow

datatype telemetry_sample_status = SampleAbsent | SampleCurrent | SampleStale | ClockUnreliable | SampleInvalid

record telemetry_view =
  tv_sample :: telemetry_sample_status
  tv_state :: "telemetry_state option"
  tv_age_ms :: "int option"
  tv_state_elapsed_ms :: "int option"
  tv_attempt :: "u32 option"
  tv_active_tool_count :: "u8 option"
  tv_tool_name :: "string option"

definition bare_view :: "telemetry_sample_status \<Rightarrow> telemetry_view" where
  "bare_view s = \<lparr>tv_sample = s, tv_state = None, tv_age_ms = None, tv_state_elapsed_ms = None,
     tv_attempt = None, tv_active_tool_count = None, tv_tool_name = None\<rparr>"

record stored_sample =
  ss_schema_version :: u32
  ss_protocol_version :: u32
  ss_run_id :: run_id
  ss_node_id :: node_id
  ss_attempt :: u32
  ss_state :: telemetry_state
  ss_active_tool_count :: "u8 option"
  ss_tool_name :: "string option"
  ss_state_since :: time
  ss_received_at :: time
  ss_expires_at :: time

section \<open>JSON\<close>

definition telemetry_state_name :: "telemetry_state \<Rightarrow> string" where
  "telemetry_state_name s = (case s of
       AgentActive \<Rightarrow> ''agent_active'' | ToolRunning \<Rightarrow> ''tool_running''
     | Settled \<Rightarrow> ''settled'' | Shutdown \<Rightarrow> ''shutdown'')"

definition de_telemetry_state :: "json \<Rightarrow> telemetry_state option" where
  "de_telemetry_state v = Option.bind (enum_variant v) (\<lambda>s.
     if s = ''agent_active'' then Some AgentActive else if s = ''tool_running'' then Some ToolRunning
     else if s = ''settled'' then Some Settled else if s = ''shutdown'' then Some Shutdown else None)"

text \<open>\<open>#[serde(deny_unknown_fields)]\<close>: an object has no other keys.\<close>

definition strict_fields :: "(string \<times> bool) list \<Rightarrow> json \<Rightarrow> (string \<Rightarrow> json option) option" where
  "strict_fields fs v = (case v of
       Object m \<Rightarrow> if list_all (\<lambda>p. fst p \<in> fst ` set fs) m then Some (map_of m) else None
     | _ \<Rightarrow> struct_fields fs v)"

definition update_fields :: "(string \<times> bool) list" where
  "update_fields = [(''schema_version'', False), (''protocol_version'', False), (''run_id'', False),
     (''node_id'', False), (''attempt'', False), (''state'', False), (''active_tool_count'', True), (''tool_name'', True)]"

definition de_telemetry_update :: "json \<Rightarrow> telemetry_update option" where
  "de_telemetry_update v = do {
     g \<leftarrow> strict_fields update_fields v;
     sv \<leftarrow> req de_u32 g ''schema_version'';
     pv \<leftarrow> req de_u32 g ''protocol_version'';
     r \<leftarrow> req de_run_id g ''run_id'';
     n \<leftarrow> req de_node_id g ''node_id'';
     a \<leftarrow> req de_u32 g ''attempt'';
     st \<leftarrow> req de_telemetry_state g ''state'';
     c \<leftarrow> optional de_u8 g ''active_tool_count'';
     t \<leftarrow> optional de_string g ''tool_name'';
     Some \<lparr>tu_schema_version = sv, tu_protocol_version = pv, tu_run_id = r, tu_node_id = n, tu_attempt = a,
       tu_state = st, tu_active_tool_count = c, tu_tool_name = t\<rparr> }"

definition u32_json :: "u32 \<Rightarrow> json" where
  "u32_json n = Number (PosInt (ucast n))"

text \<open>\<open>skip_serializing_if = "Option::is_none"\<close>.\<close>

definition some_entry :: "string \<Rightarrow> ('a \<Rightarrow> json) \<Rightarrow> 'a option \<Rightarrow> (string \<times> json) list" where
  "some_entry k f v = (case v of None \<Rightarrow> [] | Some x \<Rightarrow> [(k, f x)])"

definition update_json :: "telemetry_update \<Rightarrow> json" where
  "update_json u = Object
     (some_entry ''active_tool_count'' (\<lambda>c. Number (PosInt (ucast c))) (tu_active_tool_count u) @
      [(''attempt'', u32_json (tu_attempt u)), (''node_id'', String (node_id_str (tu_node_id u))),
       (''protocol_version'', u32_json (tu_protocol_version u)), (''run_id'', String (run_id_str (tu_run_id u))),
       (''schema_version'', u32_json (tu_schema_version u)), (''state'', String (telemetry_state_name (tu_state u)))] @
      some_entry ''tool_name'' String (tu_tool_name u))"

definition sample_json :: "ext \<Rightarrow> stored_sample \<Rightarrow> json" where
  "sample_json X s = Object
     (some_entry ''active_tool_count'' (\<lambda>c. Number (PosInt (ucast c))) (ss_active_tool_count s) @
      [(''attempt'', u32_json (ss_attempt s)), (''expires_at'', String (ser_datetime X (ss_expires_at s))),
       (''node_id'', String (node_id_str (ss_node_id s))), (''protocol_version'', u32_json (ss_protocol_version s)),
       (''received_at'', String (ser_datetime X (ss_received_at s))), (''run_id'', String (run_id_str (ss_run_id s))),
       (''schema_version'', u32_json (ss_schema_version s)), (''state'', String (telemetry_state_name (ss_state s))),
       (''state_since'', String (ser_datetime X (ss_state_since s)))] @
      some_entry ''tool_name'' String (ss_tool_name s))"

definition de_stored_sample :: "ext \<Rightarrow> json \<Rightarrow> stored_sample option" where
  "de_stored_sample X v = do {
     g \<leftarrow> strict_fields (update_fields @ [(''state_since'', False), (''received_at'', False), (''expires_at'', False)]) v;
     sv \<leftarrow> req de_u32 g ''schema_version'';
     pv \<leftarrow> req de_u32 g ''protocol_version'';
     r \<leftarrow> req de_run_id g ''run_id'';
     n \<leftarrow> req de_node_id g ''node_id'';
     a \<leftarrow> req de_u32 g ''attempt'';
     st \<leftarrow> req de_telemetry_state g ''state'';
     c \<leftarrow> optional de_u8 g ''active_tool_count'';
     t \<leftarrow> optional de_string g ''tool_name'';
     since \<leftarrow> req (de_datetime X) g ''state_since'';
     rec \<leftarrow> req (de_datetime X) g ''received_at'';
     expiry \<leftarrow> req (de_datetime X) g ''expires_at'';
     Some \<lparr>ss_schema_version = sv, ss_protocol_version = pv, ss_run_id = r, ss_node_id = n, ss_attempt = a,
       ss_state = st, ss_active_tool_count = c, ss_tool_name = t, ss_state_since = since, ss_received_at = rec,
       ss_expires_at = expiry\<rparr> }"

section \<open>Validation\<close>

definition is_ascii_alphanumeric :: "char \<Rightarrow> bool" where
  "is_ascii_alphanumeric c \<longleftrightarrow> is_ascii_digit c \<or> is_ascii_lowercase c \<or> (CHR ''A'' \<le> c \<and> c \<le> CHR ''Z'')"

definition valid_tool_name :: "string \<Rightarrow> bool" where
  "valid_tool_name name \<longleftrightarrow> 1 \<le> length name \<and> length name \<le> 64 \<and>
     list_all (\<lambda>b. is_ascii_alphanumeric b \<or> b \<in> set ''_.:-'') name"

definition validate_metadata ::
    "telemetry_state \<Rightarrow> u8 option \<Rightarrow> string option \<Rightarrow> telemetry_error + unit" where
  "validate_metadata st count name =
     (if st \<noteq> ToolRunning \<and> (count \<noteq> None \<or> name \<noteq> None)
      then Inl (InvalidMetadata ''tool metadata is allowed only for tool_running'')
      else if (case count of None \<Rightarrow> False | Some c \<Rightarrow> \<not> (1 \<le> c \<and> c \<le> 32))
      then Inl (InvalidMetadata ''active_tool_count must be between 1 and 32'')
      else case name of
          None \<Rightarrow> Inr ()
        | Some t \<Rightarrow>
            if count \<noteq> Some 1 then Inl (InvalidMetadata ''tool_name requires active_tool_count=1'')
            else if \<not> valid_tool_name t
            then Inl (InvalidMetadata ''tool_name must match ^[A-Za-z0-9_.:-]{1,64}$'')
            else Inr ())"

definition validate_update_shape :: "telemetry_update \<Rightarrow> telemetry_error + unit" where
  "validate_update_shape u =
     (if tu_schema_version u \<noteq> TELEMETRY_SCHEMA_VERSION then Inl (UnsupportedSchema (tu_schema_version u))
      else if tu_protocol_version u \<noteq> TELEMETRY_PROTOCOL_VERSION then Inl (UnsupportedProtocol (tu_protocol_version u))
      else validate_metadata (tu_state u) (tu_active_tool_count u) (tu_tool_name u))"

definition freshness :: int where
  "freshness = TELEMETRY_FRESHNESS_SECS * 1000000000"

definition valid_stored_shape :: "chrono_ops \<Rightarrow> run_id \<Rightarrow> node_id \<Rightarrow> stored_sample \<Rightarrow> bool" where
  "valid_stored_shape C rid nid s \<longleftrightarrow>
     ss_schema_version s = TELEMETRY_SCHEMA_VERSION \<and> ss_protocol_version s = TELEMETRY_PROTOCOL_VERSION \<and>
     ss_run_id s = rid \<and> ss_node_id s = nid \<and>
     checked_add_signed C (ss_received_at s) freshness = Some (ss_expires_at s) \<and>
     validate_metadata (ss_state s) (ss_active_tool_count s) (ss_tool_name s) = Inr ()"

definition ensure_size :: "string \<Rightarrow> nat \<Rightarrow> telemetry_error + unit" where
  "ensure_size what bytes = (if bytes \<le> TELEMETRY_MAX_BYTES then Inr () else Inl (TooLarge what bytes))"

definition parse_telemetry_update :: "ext \<Rightarrow> bytes \<Rightarrow> telemetry_error + telemetry_update" where
  "parse_telemetry_update X bs =
     rbind (ensure_size ''request'' (length bs)) (\<lambda>_.
     case Option.bind (json_from_slice X bs) de_telemetry_update of
       None \<Rightarrow> Inl InvalidRequest
     | Some u \<Rightarrow>
         rbind (validate_update_shape u) (\<lambda>_.
         rbind (ensure_size ''normalized request'' (length (json_to_vec X (update_json u)))) (\<lambda>_.
         Inr u)))"

section \<open>The sample files\<close>

text \<open>The \<open>telemetry\<close> directory: whether it is a symlink, and its files by node. Opening a symlink fails,
  after \<open>checked_telemetry_file\<close> has refused it already.\<close>

datatype raw_file = SymlinkFile | Contents bytes

record telemetry_dir =
  td_symlink :: bool
  td_files :: "(string \<times> raw_file) list"

definition checked_telemetry_file :: "run_dir \<Rightarrow> telemetry_dir \<Rightarrow> node_id \<Rightarrow> unit res" where
  "checked_telemetry_file d td nid =
     rbind (guard_root d) (\<lambda>_.
     rbind (reject_symlink (td_symlink td) (SymlinkSubdir ''telemetry'')) (\<lambda>_.
     reject_symlink (map_of (td_files td) (node_id_str nid) = Some SymlinkFile) (SymlinkStateFile ''telemetry'')))"

datatype stored_read = StoredAbsent | StoredCorrupt | StoredValid stored_sample

definition read_stored :: "ext \<Rightarrow> telemetry_dir \<Rightarrow> node_id \<Rightarrow> stored_read res" where
  "read_stored X td nid = (case map_of (td_files td) (node_id_str nid) of
       None \<Rightarrow> Inr StoredAbsent
     | Some SymlinkFile \<Rightarrow> Inl IoLoop
     | Some (Contents bs) \<Rightarrow>
         if length bs > TELEMETRY_MAX_BYTES then Inr StoredCorrupt
         else Inr (case Option.bind (json_from_slice X bs) (de_stored_sample X) of
             Some s \<Rightarrow> StoredValid s | None \<Rightarrow> StoredCorrupt))"

definition write_sample :: "bytes \<Rightarrow> node_id \<Rightarrow> telemetry_dir \<Rightarrow> telemetry_dir" where
  "write_sample bs nid td = td\<lparr>td_files := AList.update (node_id_str nid) (Contents bs) (td_files td)\<rparr>"

definition canonical_projections_current :: "ext \<Rightarrow> run_id \<Rightarrow> run_dir \<Rightarrow> bool res" where
  "canonical_projections_current X rid d =
     rbind (read_manifest_opt rid d) (\<lambda>mo. case mo of
       None \<Rightarrow> Inr False
     | Some m \<Rightarrow> rbind (checked_events d) (\<lambda>_. rbind (recover_last_seq X d) (\<lambda>s. Inr (m_applied_seq m = s))))"

section \<open>Updates\<close>

definition core_res :: "'a res \<Rightarrow> telemetry_error + 'a" where
  "core_res r = (case r of Inl e \<Rightarrow> Inl (TelemetryCore e) | Inr x \<Rightarrow> Inr x)"

text \<open>Everything an update checks before it writes: the node must exist, be open and be in the
  attempt the request names.\<close>

definition update_target :: "ext \<Rightarrow> run_id \<Rightarrow> unit res \<Rightarrow> telemetry_update \<Rightarrow> run_dir \<Rightarrow> telemetry_error + node" where
  "update_target X rid lock u d =
     rbind (validate_update_shape u) (\<lambda>_.
     rbind (ensure_size ''normalized request'' (length (json_to_vec X (update_json u)))) (\<lambda>_.
     if tu_run_id u \<noteq> rid then Inl (RunMismatch rid (tu_run_id u))
     else rbind (core_res lock) (\<lambda>_.
     rbind (core_res (canonical_projections_current X rid d)) (\<lambda>current.
     if \<not> current then Inl RunStateNotCurrent
     else rbind (core_res (read_node_opt rid d (tu_node_id u))) (\<lambda>no. case no of
       None \<Rightarrow> Inl (TelemetryNodeNotFound (tu_node_id u))
     | Some n \<Rightarrow>
         if is_terminal (n_status n) then Inl (TerminalNode (n_node_id n) (n_status n))
         else if tu_attempt u \<noteq> n_retry_attempts n then Inl (AttemptMismatch (n_retry_attempts n) (tu_attempt u))
         else Inr n)))))"

definition next_sample :: "chrono_ops \<Rightarrow> run_id \<Rightarrow> telemetry_update \<Rightarrow> stored_read \<Rightarrow> time \<Rightarrow> time \<Rightarrow> stored_sample" where
  "next_sample C rid u prior received_at expires_at =
     \<lparr>ss_schema_version = TELEMETRY_SCHEMA_VERSION, ss_protocol_version = TELEMETRY_PROTOCOL_VERSION,
      ss_run_id = tu_run_id u, ss_node_id = tu_node_id u, ss_attempt = tu_attempt u, ss_state = tu_state u,
      ss_active_tool_count = tu_active_tool_count u, ss_tool_name = tu_tool_name u,
      ss_state_since = (case prior of
          StoredValid s \<Rightarrow>
            if valid_stored_shape C rid (tu_node_id u) s \<and> ss_attempt s = tu_attempt u \<and> ss_state s = tu_state u
            then ss_state_since s else received_at
        | _ \<Rightarrow> received_at),
      ss_received_at = received_at, ss_expires_at = expires_at\<rparr>"

definition update_telemetry ::
    "ext \<Rightarrow> chrono_ops \<Rightarrow> run_id \<Rightarrow> unit res \<Rightarrow> telemetry_update \<Rightarrow> time \<Rightarrow> run_dir \<Rightarrow> telemetry_dir \<Rightarrow>
     (telemetry_error + telemetry_accepted) \<times> telemetry_dir" where
  "update_telemetry X C rid lock u now d td =
     (case update_target X rid lock u d of
        Inl e \<Rightarrow> (Inl e, td)
      | Inr _ \<Rightarrow>
     (case checked_add_signed C now freshness of
        None \<Rightarrow> (Inl ClockOverflow, td)
      | Some expires_at \<Rightarrow>
     (case rbind (checked_telemetry_file d td (tu_node_id u)) (\<lambda>_. read_stored X td (tu_node_id u)) of
        Inl e \<Rightarrow> (Inl (TelemetryCore e), td)
      | Inr prior \<Rightarrow>
     (let stored = json_to_vec X (sample_json X (next_sample C rid u prior now expires_at)) in
      case ensure_size ''stored sample'' (length stored) of
        Inl e \<Rightarrow> (Inl e, td)
      | Inr _ \<Rightarrow>
          (Inr \<lparr>ta_accepted = True, ta_run_id = tu_run_id u, ta_node_id = tu_node_id u, ta_attempt = tu_attempt u,
             ta_received_at = now, ta_expires_at = expires_at\<rparr>,
           write_sample stored (tu_node_id u) td)))))"

section \<open>Reads\<close>

definition read_node :: "run_id \<Rightarrow> run_dir \<Rightarrow> node_id \<Rightarrow> node res" where
  "read_node rid d nid =
     rbind (checked_node d nid) (\<lambda>_.
     rbind (rbind (read_json_opt (node_entry d nid)) (ok_or IoNotFound)) (\<lambda>n.
     rbind (check_schema (n_schema_version n)) (\<lambda>_.
     rbind (check_key ''node'' (node_id_str nid) (node_id_str (n_node_id n))) (\<lambda>_.
     rbind (check_run_id ''node_run_id'' rid (n_run_id n)) (\<lambda>_.
     Inr n)))))"

definition millis :: "int \<Rightarrow> int" where
  "millis ns = ns div 1000000"

definition classify_sample :: "stored_sample \<Rightarrow> time \<Rightarrow> telemetry_view" where
  "classify_sample s now =
     (let clock_bad = (now < ss_received_at s \<or> now < ss_state_since s) in
      \<lparr>tv_sample = (if clock_bad then ClockUnreliable else if now \<ge> ss_expires_at s then SampleStale else SampleCurrent),
       tv_state = Some (ss_state s),
       tv_age_ms = (if clock_bad then None else Some (millis (now - ss_received_at s))),
       tv_state_elapsed_ms = (if clock_bad then None else Some (millis (now - ss_state_since s))),
       tv_attempt = Some (ss_attempt s), tv_active_tool_count = ss_active_tool_count s, tv_tool_name = ss_tool_name s\<rparr>)"

definition read_telemetry_locked ::
    "ext \<Rightarrow> chrono_ops \<Rightarrow> run_id \<Rightarrow> node_id \<Rightarrow> time \<Rightarrow> run_dir \<Rightarrow> telemetry_dir \<Rightarrow> telemetry_view res" where
  "read_telemetry_locked X C rid nid now d td =
     rbind (read_node rid d nid) (\<lambda>n.
     rbind (checked_telemetry_file d td nid) (\<lambda>_.
     rbind (read_stored X td nid) (\<lambda>sr.
     Inr (case sr of
         StoredAbsent \<Rightarrow> bare_view SampleAbsent
       | StoredCorrupt \<Rightarrow> bare_view SampleInvalid
       | StoredValid s \<Rightarrow>
           if \<not> valid_stored_shape C rid nid s then bare_view SampleInvalid
           else if ss_attempt s \<noteq> n_retry_attempts n then bare_view SampleAbsent
           else classify_sample s now))))"

definition read_telemetry ::
    "ext \<Rightarrow> chrono_ops \<Rightarrow> run_id \<Rightarrow> node_id \<Rightarrow> time \<Rightarrow> run_dir \<Rightarrow> telemetry_dir \<Rightarrow> telemetry_error + telemetry_view" where
  "read_telemetry X C rid nid now d td =
     rbind (core_res (canonical_projections_current X rid d)) (\<lambda>current.
     if \<not> current then Inl RunStateNotCurrent
     else core_res (read_telemetry_locked X C rid nid now d td))"

definition projected_node_ids :: "run_dir \<Rightarrow> node_id list res" where
  "projected_node_ids d =
     rbind (guard_root d) (\<lambda>_.
     rbind (reject_symlink (d_nodes_symlink d) (SymlinkSubdir ''nodes'')) (\<lambda>_.
     Inr (sort_key node_id_str (List.map_filter
       (\<lambda>p. case NodeId_parse_str (fst p) of Inl _ \<Rightarrow> None | Inr nid \<Rightarrow> Some nid) (d_nodes d)))))"

fun read_rows ::
    "ext \<Rightarrow> chrono_ops \<Rightarrow> run_id \<Rightarrow> time \<Rightarrow> run_dir \<Rightarrow> telemetry_dir \<Rightarrow> node_id list \<Rightarrow> (node_id \<times> telemetry_view) list res" where
  "read_rows X C rid now d td [] = Inr []"
| "read_rows X C rid now d td (nid # nids) =
     rbind (read_telemetry_locked X C rid nid now d td) (\<lambda>v.
     rbind (read_rows X C rid now d td nids) (\<lambda>rows. Inr ((nid, v) # rows)))"

definition read_all_telemetry ::
    "ext \<Rightarrow> chrono_ops \<Rightarrow> run_id \<Rightarrow> time \<Rightarrow> run_dir \<Rightarrow> telemetry_dir \<Rightarrow>
     telemetry_error + (node_id \<times> telemetry_view) list" where
  "read_all_telemetry X C rid now d td =
     rbind (core_res (projected_node_ids d)) (\<lambda>nids.
     rbind (core_res (canonical_projections_current X rid d)) (\<lambda>current.
     if \<not> current then Inl RunStateNotCurrent else core_res (read_rows X C rid now d td nids)))"

end
