(* ===== verification/Landed.thy ===== *)
theory Landed
  imports Adapters
begin

text \<open>
  The \<open>landed\<close> signal (\<open>run/landed.rs\<close>): whether the commits of a worker branch are integrated in
  their target. Patch equivalence (\<open>git cherry\<close>) decides first, ancestry is the second rung, and the
  marker of the terminal report is consulted only when git cannot tell. The commands run through
  the \<open>host\<close> of \<open>Adapters\<close>.
\<close>

datatype landed_method = GitVerified | ReportMarker | Unverified

definition landed_wire :: "landed_method \<Rightarrow> string" where
  "landed_wire meth = (case meth of
       GitVerified \<Rightarrow> ''git-verified'' | ReportMarker \<Rightarrow> ''report-marker'' | Unverified \<Rightarrow> ''unverified'')"

record landed_verdict =
  lv_landed :: bool
  lv_method :: landed_method

record landing_inputs =
  li_source_repo :: "string option"
  li_source_branch :: "string option"
  li_worktree_path :: "string option"
  li_branch :: "string option"
  li_base_sha :: "string option"
  li_report :: "json option"

definition report_has_merge_marker :: "json option \<Rightarrow> bool" where
  "report_has_merge_marker report = (case report of None \<Rightarrow> False | Some r \<Rightarrow> report_is_confirmed_merge r)"

text \<open>A value that is safe as a positional argument: no blank and no leading dash.\<close>

definition safe_arg :: "string option \<Rightarrow> string option" where
  "safe_arg s = filter_opt (\<lambda>t. t \<noteq> [] \<and> hd t \<noteq> CHR ''-'') (map_option trim s)"

definition branch_advanced_past_base :: "'w host \<Rightarrow> 'w \<Rightarrow> string \<Rightarrow> string option \<Rightarrow> string \<Rightarrow> bool" where
  "branch_advanced_past_base H w repo base branch = (case base of
       None \<Rightarrow> True
     | Some b \<Rightarrow>
         (case stdout_ok (git_read H w repo [''rev-list'', ''--count'', b @ ''..'' @ branch]) of
            None \<Rightarrow> False
          | Some out \<Rightarrow> (case parse_u64 (trim (from_utf8_lossy out)) of None \<Rightarrow> False | Some n \<Rightarrow> n > 0)))"

text \<open>The lines of \<open>git cherry\<close>: whether there was a commit and whether all are present; a line of any
  other shape gives no answer.\<close>

fun cherry_loop :: "string list \<Rightarrow> bool \<Rightarrow> bool \<Rightarrow> (bool \<times> bool) option" where
  "cherry_loop [] saw_commit all_present = Some (saw_commit, all_present)"
| "cherry_loop (raw # rest) saw_commit all_present =
     (let line = trim raw in
      if line = [] then cherry_loop rest saw_commit all_present
      else if hd line = CHR ''+'' then cherry_loop rest True False
      else if hd line = CHR ''-'' then cherry_loop rest True all_present
      else None)"

definition git_verify_landed :: "'w host \<Rightarrow> 'w \<Rightarrow> landing_inputs \<Rightarrow> bool option" where
  "git_verify_landed H w inputs = do {
     repo \<leftarrow> (case safe_arg (li_source_repo inputs) of
        Some r \<Rightarrow> Some r | None \<Rightarrow> safe_arg (li_worktree_path inputs));
     source \<leftarrow> safe_arg (li_source_branch inputs);
     branch \<leftarrow> safe_arg (li_branch inputs);
     let base = safe_arg (li_base_sha inputs);
     out \<leftarrow> stdout_ok (git_read H w repo ([''cherry'', source, branch] @
        (case base of None \<Rightarrow> [] | Some b \<Rightarrow> [b])));
     (saw_commit, all_present) \<leftarrow> cherry_loop (str_lines (from_utf8_lossy out)) False True;
     if saw_commit \<and> all_present then Some True
     else if is_ancestor H w repo branch source \<and> branch_advanced_past_base H w repo base branch
     then Some True
     else if saw_commit then Some False else None }"

definition landing_signal :: "'w host \<Rightarrow> 'w \<Rightarrow> landing_inputs \<Rightarrow> landed_verdict" where
  "landing_signal H w inputs = (case git_verify_landed H w inputs of
       Some b \<Rightarrow> \<lparr>lv_landed = b, lv_method = GitVerified\<rparr>
     | None \<Rightarrow>
         if report_has_merge_marker (li_report inputs)
         then \<lparr>lv_landed = True, lv_method = ReportMarker\<rparr>
         else \<lparr>lv_landed = False, lv_method = Unverified\<rparr>)"

end
