(* ===== verification/Writer_Fence.thy ===== *)
theory Writer_Fence
  imports Append
begin

text \<open>
  The durable settlement fence of caller-owned runs (\<open>run/writer_fence.rs\<close>): the recorded identity
  of the two lock files, the revalidation of a held writer lease, and the sticky settlement
  intent. Opening, locking and stat-ing the lock files is the record \<open>fence_env\<close>: the result of the
  \<open>i\<close>-th inspection, the inode of the gate that was locked (or why it was not), and whether a
  checkout is its own canonical path. The run lock is held from the replay on.
\<close>

record identity =
  id_dev :: u64
  id_ino :: u64

record fence =
  fc_writer :: identity
  fc_launch_gate :: identity

datatype fence_error = InvalidSettlementIntent | FenceUnavailable | GateBusy | WriterActive
  | SettlementConflict | FenceCore core_error

record fence_env =
  fe_inspect :: "nat \<Rightarrow> fence option"
  fe_gate :: "fence_error + identity"
  fe_canonical :: "string \<Rightarrow> bool"

definition identity_json :: "identity \<Rightarrow> json" where
  "identity_json i = Object [(''dev'', Number (PosInt (id_dev i))), (''ino'', Number (PosInt (id_ino i)))]"

definition fence_json :: "fence \<Rightarrow> json" where
  "fence_json f = Object [(''launch_gate'', identity_json (fc_launch_gate f)), (''writer'', identity_json (fc_writer f))]"

definition check_creation_fence :: "ext \<Rightarrow> run_dir \<Rightarrow> fence \<Rightarrow> fence_error + unit" where
  "check_creation_fence X d f = (case read_all_events X d of
       Inl e \<Rightarrow> Inl (FenceCore e)
     | Inr evs \<Rightarrow>
         if Option.bind (List.find (\<lambda>e. ev_kind e = ''run.created'') evs) (\<lambda>e. get (ev_data e) ''writer_fence'')
              \<noteq> Some (fence_json f)
         then Inl SettlementConflict else Inr ())"

text \<open>\<open>held\<close> is the inode of the lease's own descriptor.\<close>

definition revalidate_unlocked ::
    "ext \<Rightarrow> run_id \<Rightarrow> fence option \<Rightarrow> identity \<Rightarrow> caller_settlement_intent \<Rightarrow> run_dir \<Rightarrow> fence_error + unit" where
  "revalidate_unlocked X rid inspected held intent d = (case inspected of
       None \<Rightarrow> Inl FenceUnavailable
     | Some f \<Rightarrow> rbind (check_creation_fence X d f) (\<lambda>_.
         if held \<noteq> fc_writer f
            \<or> (si_writer_dev intent, si_writer_ino intent) \<noteq> (id_dev (fc_writer f), id_ino (fc_writer f))
            \<or> (si_gate_dev intent, si_gate_ino intent) \<noteq> (id_dev (fc_launch_gate f), id_ino (fc_launch_gate f))
         then Inl FenceUnavailable
         else case read_manifest_opt rid d of
             Inl e \<Rightarrow> Inl (FenceCore e)
           | Inr mo \<Rightarrow>
               if Option.bind mo m_caller_settlement_intent \<noteq> Some intent
               then Inl FenceUnavailable else Inr ()))"

section \<open>The sticky intent\<close>

definition operation_name :: "settlement_operation \<Rightarrow> string" where
  "operation_name oper = (case oper of
       SettleMerge \<Rightarrow> ''merge'' | SettleCancel \<Rightarrow> ''cancel'' | SettleDiscard \<Rightarrow> ''discard'')"

definition intent_json :: "caller_settlement_intent \<Rightarrow> json" where
  "intent_json i = Object
     [(''actor'', String (si_actor i)), (''gate_dev'', Number (PosInt (si_gate_dev i))),
      (''gate_ino'', Number (PosInt (si_gate_ino i))), (''generation'', Number (PosInt (si_generation i))),
      (''key'', String (si_key i)), (''node_id'', String (node_id_str (si_node_id i))),
      (''operation'', String (operation_name (si_operation i))),
      (''reason'', case si_reason i of None \<Rightarrow> Null | Some r \<Rightarrow> String r),
      (''run_id'', String (run_id_str (si_run_id i))), (''seq'', Number (PosInt (si_seq i))),
      (''writer_dev'', Number (PosInt (si_writer_dev i))), (''writer_ino'', Number (PosInt (si_writer_ino i)))]"

definition intent_args_ok :: "string \<Rightarrow> settlement_operation \<Rightarrow> string \<Rightarrow> string option \<Rightarrow> bool" where
  "intent_args_ok key operation actor reason \<longleftrightarrow>
     \<not> (trim key = [] \<or> length key > 256 \<or> trim actor = [] \<or> length actor > 256
        \<or> (case reason of None \<Rightarrow> False | Some r \<Rightarrow> trim r = [] \<or> length r > 1024)
        \<or> (operation \<in> {SettleDiscard, SettleCancel} \<and> reason = None))"

definition same_fence :: "caller_settlement_intent \<Rightarrow> caller_settlement_intent \<Rightarrow> bool" where
  "same_fence a b \<longleftrightarrow> si_writer_dev a = si_writer_dev b \<and> si_writer_ino a = si_writer_ino b \<and>
     si_gate_dev a = si_gate_dev b \<and> si_gate_ino a = si_gate_ino b \<and> si_generation a = si_generation b"

text \<open>An intent that is already recorded is reused: by a discard of a cancelled run, and by a
  repetition of the same request.\<close>

definition reuses_intent ::
    "manifest \<Rightarrow> node \<Rightarrow> caller_settlement_intent \<Rightarrow> caller_settlement_intent \<Rightarrow> bool" where
  "reuses_intent m n old new \<longleftrightarrow>
     si_operation new = SettleDiscard \<and> si_operation old = SettleCancel \<and> m_status m \<in> {Cancelled, Failed}
       \<and> n_status n = m_status m \<and> si_key old = si_key new \<and> si_run_id old = si_run_id new
       \<and> si_node_id old = si_node_id new \<and> same_fence old new \<and> n_pending_merge n = None
       \<and> m_node_count m = 1 \<and> node_id_str (si_node_id new) = ''n-0001''
     \<or> si_key old = si_key new \<and> si_operation old = si_operation new \<and> si_actor old = si_actor new
       \<and> si_reason old = si_reason new \<and> same_fence old new \<and> si_node_id old = si_node_id new"

text \<open>The log names exactly this node, in a state that satisfies \<open>P\<close>.\<close>

definition only_fact :: "ext \<Rightarrow> run_dir \<Rightarrow> node_id \<Rightarrow> (status \<Rightarrow> bool) \<Rightarrow> bool res" where
  "only_fact X d nid P = rbind (read_node_status_facts X d None) (\<lambda>fs. Inr (case fs of
       [f] \<Rightarrow> nf_node_id f = nid \<and> P (nf_status f) | _ \<Rightarrow> False))"

definition first_intent_guard ::
    "ext \<Rightarrow> run_dir \<Rightarrow> manifest \<Rightarrow> node \<Rightarrow> node_id \<Rightarrow> settlement_operation \<Rightarrow> bool \<Rightarrow> bool res" where
  "first_intent_guard X d m n nid operation allow_failed =
     rbind (if operation = SettleDiscard then
              (if n_pending_merge n \<noteq> None \<or> m_node_count m \<noteq> 1 \<or> node_id_str nid \<noteq> ''n-0001''
                  \<or> m_status m \<notin> {Failed, Cancelled} \<or> n_status n \<noteq> m_status m
               then Inr False else only_fact X d nid (\<lambda>s. s = m_status m))
            else Inr True) (\<lambda>ok1.
     if \<not> ok1 then Inr False
     else rbind (if operation = SettleCancel then
              (if m_node_count m \<noteq> 1 \<or> node_id_str nid \<noteq> ''n-0001'' then Inr False
               else only_fact X d nid (\<lambda>s. \<not> is_terminal s))
            else Inr True) (\<lambda>ok2.
     Inr (ok2 \<and> (is_terminal (m_status m) \<longrightarrow>
       allow_failed \<and> operation \<in> {SettleMerge, SettleDiscard} \<and> m_status m = Failed \<and> n_status n = Failed
       \<and> m_node_count m = 1 \<and> node_id_str nid = ''n-0001''))))"

definition new_intent ::
    "run_id \<Rightarrow> fence \<Rightarrow> node \<Rightarrow> node_id \<Rightarrow> string \<Rightarrow> settlement_operation \<Rightarrow> string \<Rightarrow> string option \<Rightarrow>
     caller_settlement_intent" where
  "new_intent rid f n nid key operation actor reason =
     \<lparr>si_run_id = rid, si_node_id = nid, si_key = key, si_operation = operation, si_actor = actor,
      si_reason = reason, si_writer_dev = id_dev (fc_writer f), si_writer_ino = id_ino (fc_writer f),
      si_gate_dev = id_dev (fc_launch_gate f), si_gate_ino = id_ino (fc_launch_gate f),
      si_generation = lifecycle_generation n, si_seq = 0\<rparr>"

definition record_intent_locked ::
    "ext \<Rightarrow> (u64 \<Rightarrow> time) \<Rightarrow> run_id \<Rightarrow> fence_env \<Rightarrow> identity \<Rightarrow> node_id \<Rightarrow> string \<Rightarrow> settlement_operation \<Rightarrow>
     string \<Rightarrow> string option \<Rightarrow> bool \<Rightarrow> run_dir \<Rightarrow> (fence_error + caller_settlement_intent) \<times> run_dir" where
  "record_intent_locked X clock rid E held nid key operation actor reason allow_failed d =
     (case fe_inspect E 2 of
        None \<Rightarrow> (Inl FenceUnavailable, d)
      | Some f \<Rightarrow>
      if held \<noteq> fc_launch_gate f then (Inl FenceUnavailable, d)
      else case check_creation_fence X d f of
        Inl e \<Rightarrow> (Inl e, d)
      | Inr _ \<Rightarrow>
      (case (read_manifest_opt rid d, read_node_opt rid d nid) of
        (Inl e, _) \<Rightarrow> (Inl (FenceCore e), d)
      | (Inr None, _) \<Rightarrow> (Inl FenceUnavailable, d)
      | (_, Inl e) \<Rightarrow> (Inl (FenceCore e), d)
      | (_, Inr None) \<Rightarrow> (Inl FenceUnavailable, d)
      | (Inr (Some m), Inr (Some n)) \<Rightarrow>
      if m_agent_owner m \<noteq> Caller \<or> n_run_id n \<noteq> rid \<or> n_worktree_path n = None \<or> n_branch n = None
         \<or> m_caller_settlement_intent m = None
           \<and> (case n_worktree_path n of None \<Rightarrow> True | Some checkout \<Rightarrow> \<not> fe_canonical E checkout)
      then (Inl FenceUnavailable, d)
      else
        (let intent = new_intent rid f n nid key operation actor reason in
         case m_caller_settlement_intent m of
           Some old \<Rightarrow>
             (if reuses_intent m n old intent then Inr old else Inl SettlementConflict, d)
         | None \<Rightarrow>
             (case first_intent_guard X d m n nid operation allow_failed of
                Inl e \<Rightarrow> (Inl (FenceCore e), d)
              | Inr False \<Rightarrow> (Inl SettlementConflict, d)
              | Inr True \<Rightarrow>
                  if fe_inspect E 3 \<noteq> Some f then (Inl FenceUnavailable, d)
                  else case append_and_apply_unlocked X clock rid ''caller.settlement_intent'' (Some nid)
                         (Some key) (intent_json intent) d of
                      (Inl e, d') \<Rightarrow> (Inl (FenceCore e), d')
                    | (Inr seq, d') \<Rightarrow> (Inr (intent\<lparr>si_seq := seq\<rparr>), d')))))"

definition record_intent ::
    "ext \<Rightarrow> (u64 \<Rightarrow> time) \<Rightarrow> run_id \<Rightarrow> fence_env \<Rightarrow> node_id \<Rightarrow> string \<Rightarrow> settlement_operation \<Rightarrow>
     string \<Rightarrow> string option \<Rightarrow> bool \<Rightarrow> run_dir \<Rightarrow> (fence_error + caller_settlement_intent) \<times> run_dir" where
  "record_intent X clock rid E nid key operation actor reason allow_failed d =
     (if \<not> intent_args_ok key operation actor reason then (Inl InvalidSettlementIntent, d)
      else case fe_inspect E 0 of
        None \<Rightarrow> (Inl FenceUnavailable, d)
      | Some f0 \<Rightarrow>
      (case fe_gate E of
        Inl e \<Rightarrow> (Inl e, d)
      | Inr held \<Rightarrow>
      if fe_inspect E 1 \<noteq> Some f0 then (Inl FenceUnavailable, d)
      else case replay_unapplied_unlocked X rid d of
        (Inl e, d1) \<Rightarrow> (Inl (FenceCore e), d1)
      | (Inr _, d1) \<Rightarrow>
          record_intent_locked X clock rid E held nid key operation actor reason allow_failed d1))"

end
