(* ===== verification/Merge_Recovery.thy ===== *)
theory Merge_Recovery
  imports Landed Supervisor Pid_File Writer_Fence
begin

text \<open>
  Recovery of a crashed \<open>run merge\<close> (\<open>run/merge_recovery.rs\<close>, with \<open>CallerMergeAuthority\<close> of
  \<open>run/merge.rs\<close>). A merge records its transaction in the log before it moves a ref; a transaction
  that is still pending after its driver died is resolved once, from the recorded object ids. Git
  runs through \<open>host\<close>, the process table is \<open>probes\<close>, the writer lease, path canonicalization and
  the check of a native session file are the record \<open>lease\<close>. \<open>gap i\<close> is what other processes do
  before the \<open>i\<close>-th lock; the repository stands still between two gaps.
\<close>

section \<open>Git reads\<close>

definition is_oid :: "string \<Rightarrow> bool" where
  "is_oid s \<longleftrightarrow> (length s = 40 \<or> length s = 64) \<and> list_all is_ascii_hexdigit s"

definition read_oid :: "'w host \<Rightarrow> 'w \<Rightarrow> string \<Rightarrow> string \<Rightarrow> string option" where
  "read_oid H w repo rv =
     (if repo = [] \<or> rv = [] \<or> hd rv = CHR ''-'' then None
      else Option.bind (stdout_ok (git_read H w repo [''rev-parse'', ''--verify'', ''--end-of-options'', rv]))
        (\<lambda>out. let sha = trim (from_utf8_lossy out) in if is_oid sha then Some sha else None))"

definition ancestor :: "'w host \<Rightarrow> 'w \<Rightarrow> string \<Rightarrow> string \<Rightarrow> string \<Rightarrow> bool option" where
  "ancestor H w repo older newer =
     (case git_read H w repo [''merge-base'', ''--is-ancestor'', older, newer] of
        CmdSpawnErr _ \<Rightarrow> None
      | CmdExited code _ _ \<Rightarrow>
          if code = Some 0 then Some True else if code = Some 1 then Some False else None)"

definition resolve_source ::
    "'w host \<Rightarrow> 'w \<Rightarrow> string option \<Rightarrow> string option \<Rightarrow> string \<Rightarrow> (string \<times> string) option" where
  "resolve_source H w source_repo worktree_path source_branch =
     find_map (\<lambda>repo. map_option (\<lambda>oid. (repo, oid)) (read_oid H w repo source_branch))
       (List.map_filter id [source_repo, worktree_path])"

section \<open>Verdicts\<close>

datatype recovery = NothingPending | DriverAlive | RecoveryCannotVerify | Completed | LandingCompleted
  | RecoveryRejected string | Superseded

datatype verdict = Complete | Reject string | CannotVerify

text \<open>The dash in a message, in UTF-8.\<close>

definition EM_DASH :: string where
  "EM_DASH = [CHR 0xE2, CHR 0x80, CHR 0x94]"

definition never_landed :: string where
  "never_landed = ''source ref unchanged '' @ EM_DASH @ '' merge never landed''"

datatype landing = Landed | NotLanded | Unverifiable

definition worker_landed ::
    "'w host \<Rightarrow> 'w \<Rightarrow> string \<Rightarrow> string \<Rightarrow> string \<Rightarrow> string option \<Rightarrow> landing" where
  "worker_landed H w repo source_rev worker_oid base_sha =
     (let sig = landing_signal H w \<lparr>li_source_repo = Some repo, li_source_branch = Some source_rev,
            li_worktree_path = None, li_branch = Some worker_oid, li_base_sha = base_sha, li_report = None\<rparr>
      in if lv_method sig = GitVerified then (if lv_landed sig then Landed else NotLanded) else Unverifiable)"

definition classify_txn ::
    "'w host \<Rightarrow> 'w \<Rightarrow> merge_txn \<Rightarrow> string option \<Rightarrow> string option \<Rightarrow> verdict" where
  "classify_txn H w txn source_repo worktree_path =
     (case resolve_source H w source_repo worktree_path (mt_source_branch txn) of
        None \<Rightarrow> CannotVerify
      | Some (repo, source_now) \<Rightarrow>
          if source_now = mt_expected_source_oid txn
          then Reject never_landed
          else (case worker_landed H w repo source_now (mt_worker_oid txn) (mt_base_sha txn) of
              Unverifiable \<Rightarrow> CannotVerify
            | NotLanded \<Rightarrow> Reject ''source ref moved but the worker's recorded work is not integrated''
            | Landed \<Rightarrow>
                (case worker_landed H w repo (mt_expected_source_oid txn) (mt_worker_oid txn) (mt_base_sha txn) of
                   Landed \<Rightarrow> Reject
                     ''worker content was already integrated before the merge; the source move was unrelated''
                 | NotLanded \<Rightarrow> Complete
                 | Unverifiable \<Rightarrow> CannotVerify)))"

definition DRIVER_STALE_AFTER_MINS :: int where
  "DRIVER_STALE_AFTER_MINS = 30"

definition driver_is_alive :: "probes \<Rightarrow> time \<Rightarrow> merge_txn \<Rightarrow> bool" where
  "driver_is_alive P now txn = (case mt_driver_pid txn of
       None \<Rightarrow> False
     | Some pid \<Rightarrow>
         (let start = RecordedStart_new (mt_driver_pid_start_secs txn) (mt_driver_pid_start_identity txn) in
          if pid \<le> 0 \<or> \<not> pid_live_with_identity P (word_of_int pid) start then False
          else if is_recorded start then True
          else now - mt_started_at txn < int (from_secs (60 * nat DRIVER_STALE_AFTER_MINS))))"

section \<open>Evidence in the log\<close>

text \<open>The \<open>merge.started\<close> events that carry exactly this transaction.\<close>

definition started_events :: "ext \<Rightarrow> run_id \<Rightarrow> node_id \<Rightarrow> merge_txn \<Rightarrow> event list \<Rightarrow> event list" where
  "started_events X rid nid txn evs = filter (\<lambda>e. ev_kind e = ''merge.started'' \<and> ev_run_id e = rid \<and>
     ev_node_id e = Some nid \<and> de_merge_txn X (ev_data e) = Some txn) evs"

definition proof_events :: "string \<Rightarrow> run_id \<Rightarrow> node_id \<Rightarrow> merge_txn \<Rightarrow> u64 \<Rightarrow> event list \<Rightarrow> event list" where
  "proof_events kind rid nid txn start_seq evs = filter (\<lambda>e. ev_kind e = kind \<and> ev_seq e > start_seq \<and>
     ev_run_id e = rid \<and> ev_node_id e = Some nid \<and> get_str (ev_data e) ''op_id'' = Some (mt_op_id txn) \<and>
     get_str (ev_data e) ''worker_oid'' = Some (mt_worker_oid txn) \<and>
     get_str (ev_data e) ''expected_source_oid'' = Some (mt_expected_source_oid txn)) evs"

definition verified_native_integrated_oid ::
    "ext \<Rightarrow> run_id \<Rightarrow> 'w host \<Rightarrow> node_id \<Rightarrow> merge_txn \<Rightarrow> string option \<Rightarrow> string option \<Rightarrow>
     run_dir \<times> 'w \<Rightarrow> string option" where
  "verified_native_integrated_oid X rid H nid txn source_repo worktree_path dw = (case dw of (d, w) \<Rightarrow>
     if mt_caller_authority txn \<noteq> None then None
     else (case read_all_events X d of
         Inl _ \<Rightarrow> None
       | Inr evs \<Rightarrow>
           (case started_events X rid nid txn evs of
              [start] \<Rightarrow>
                (case proof_events ''merge.native_prepared'' rid nid txn (ev_seq start) evs of
                   [prf] \<Rightarrow> do {
                     tip \<leftarrow> get_str (ev_data prf) ''integrated_oid'';
                     if \<not> is_oid tip then None
                     else do {
                       (repo, now) \<leftarrow> resolve_source H w source_repo worktree_path (mt_source_branch txn);
                       if read_oid H w repo tip \<noteq> Some tip
                          \<or> ancestor H w repo (mt_expected_source_oid txn) tip \<noteq> Some True
                          \<or> ancestor H w repo tip now \<noteq> Some True
                       then None else Some tip } }
                 | _ \<Rightarrow> None)
            | _ \<Rightarrow> None)))"

section \<open>Reports\<close>

definition completion_report :: "merge_txn \<Rightarrow> json" where
  "completion_report txn = stamp (OriginRunMerge (Some (mt_op_id txn)) (Some (mt_worker_oid txn)) None)
     (Object [(''success'', Bool True),
        (''summary'', String (''recovered crashed merge of '' @ mt_worker_branch txn @ '' into '' @
           mt_source_branch txn @ '' (op '' @ mt_op_id txn @ '')'')),
        (''via'', String VIA_EXPLICIT_MERGE)])"

text \<open>\<open>report["origin"]["integrated_oid"] = json!(oid)\<close>.\<close>

definition with_integrated_oid :: "string option \<Rightarrow> json \<Rightarrow> json" where
  "with_integrated_oid oid report = (case (oid, get report ''origin'') of
       (Some i, Some og) \<Rightarrow> insert_field ''origin'' (insert_field ''integrated_oid'' (String i) og) report
     | _ \<Rightarrow> report)"

definition explicit_merge_key :: "run_id \<Rightarrow> node_id \<Rightarrow> string" where
  "explicit_merge_key rid nid = ''explicit-merge:'' @ run_id_str rid @ '':'' @ node_id_str nid"

definition landed_key :: "run_id \<Rightarrow> node_id \<Rightarrow> string \<Rightarrow> string" where
  "landed_key rid nid op_id = ''round-landed:'' @ run_id_str rid @ '':'' @ node_id_str nid @ '':'' @ op_id"

definition abort_key :: "run_id \<Rightarrow> node_id \<Rightarrow> string \<Rightarrow> string" where
  "abort_key rid nid op_id = ''merge-aborted:'' @ run_id_str rid @ '':'' @ node_id_str nid @ '':'' @ op_id"

definition abort_txn ::
    "ext \<Rightarrow> (u64 \<Rightarrow> time) \<Rightarrow> run_id \<Rightarrow> node_id \<Rightarrow> string \<Rightarrow> string \<Rightarrow> append_outcome io" where
  "abort_txn X clock rid nid op_id reason =
     append_and_apply_idempotent X clock rid ''merge.aborted'' (Some nid) (abort_key rid nid op_id)
       (\<lambda>_. Inr (Object [(''op_id'', String op_id), (''reason'', String reason)]))"

section \<open>Native runs\<close>

definition landed_data :: "merge_txn \<Rightarrow> string \<Rightarrow> json" where
  "landed_data txn oid = Object [(''integrated_oid'', String oid), (''op_id'', String (mt_op_id txn)),
     (''source_branch'', String (mt_source_branch txn)), (''worker_oid'', String (mt_worker_oid txn))]"

text \<open>What an outcome of a keyed append means: \<open>done\<close>, unless the key holds something else.\<close>

definition unless_conflict :: "recovery \<Rightarrow> recovery \<Rightarrow> append_outcome \<Rightarrow> recovery" where
  "unless_conflict other ok out = (case out of Conflict _ \<Rightarrow> other | _ \<Rightarrow> ok)"

text \<open>The step under the run lock: the transaction is verified again and resolved.\<close>

definition resolve_locked ::
    "ext \<Rightarrow> (u64 \<Rightarrow> time) \<Rightarrow> run_id \<Rightarrow> 'w host \<Rightarrow> 'w \<Rightarrow> node_id \<Rightarrow> merge_txn \<Rightarrow> verdict \<Rightarrow> string option \<Rightarrow>
     string option \<Rightarrow> string option \<Rightarrow> recovery io" where
  "resolve_locked X clock rid H w nid txn v integrated_oid source_repo worktree_path =
     bind_io (reading (\<lambda>d. read_node_opt rid d nid)) (\<lambda>no. case no of
       None \<Rightarrow> ret Superseded
     | Some n \<Rightarrow>
         if map_option mt_op_id (n_pending_merge n) \<noteq> Some (mt_op_id txn) then ret Superseded
         else if is_terminal (n_status n) then
           bind_io (abort_txn X clock rid nid (mt_op_id txn) ''node terminalized before recovery could complete'')
             (\<lambda>_. ret Superseded)
         else (case v of
             Complete \<Rightarrow>
               if mt_landing txn then
                 (case (case integrated_oid of Some i \<Rightarrow> Some i | None \<Rightarrow>
                     read_oid H w (case source_repo of Some r \<Rightarrow> r | None \<Rightarrow>
                         (case worktree_path of Some p \<Rightarrow> p | None \<Rightarrow> ''.'')) (mt_source_branch txn)) of
                    None \<Rightarrow> ret RecoveryCannotVerify
                  | Some oid \<Rightarrow>
                      bind_io (append_and_apply_idempotent X clock rid ''node.round_landed'' (Some nid)
                          (landed_key rid nid (mt_op_id txn)) (\<lambda>_. Inr (landed_data txn oid)))
                        (\<lambda>out. ret (unless_conflict Superseded LandingCompleted out)))
               else
                 bind_io (append_and_apply_idempotent X clock rid ''node.report'' (Some nid)
                     (explicit_merge_key rid nid)
                     (\<lambda>_. Inr (with_integrated_oid integrated_oid (completion_report txn))))
                   (\<lambda>out. ret (unless_conflict Superseded Completed out))
           | Reject reason \<Rightarrow>
               bind_io (abort_txn X clock rid nid (mt_op_id txn) reason)
                 (\<lambda>out. ret (unless_conflict Superseded (RecoveryRejected reason) out))
           | CannotVerify \<Rightarrow> ret RecoveryCannotVerify))"

definition locked_result :: "recovery io \<Rightarrow> run_dir \<times> 'w \<Rightarrow> recovery \<times> run_dir \<times> 'w" where
  "locked_result m dw = (case m (fst dw) of
       (Inl _, d') \<Rightarrow> (RecoveryCannotVerify, d', snd dw) | (Inr r, d') \<Rightarrow> (r, d', snd dw))"

definition recover_native_node ::
    "ext \<Rightarrow> (u64 \<Rightarrow> time) \<Rightarrow> probes \<Rightarrow> time \<Rightarrow> run_id \<Rightarrow> 'w host \<Rightarrow> (nat \<Rightarrow> run_dir \<times> 'w \<Rightarrow> run_dir \<times> 'w) \<Rightarrow>
     node_id \<Rightarrow> run_dir \<times> 'w \<Rightarrow> recovery \<times> run_dir \<times> 'w" where
  "recover_native_node X clock P now rid H gap nid dw0 = (let dw1 = gap 1 dw0 in
     case (read_node_opt rid (fst dw1) nid, read_manifest_opt rid (fst dw1)) of
       (Inr no, Inr mo) \<Rightarrow>
         (let source_repo = Option.bind mo m_source_repo; worktree_path = Option.bind no n_worktree_path in
          case Option.bind no n_pending_merge of
            None \<Rightarrow> (NothingPending, dw1)
          | Some txn \<Rightarrow>
              if (case no of None \<Rightarrow> False | Some n \<Rightarrow> is_terminal (n_status n)) then (NothingPending, dw1)
              else if driver_is_alive P now txn then (DriverAlive, dw1)
              else
                (let dw2 = gap 2 dw1; v = classify_txn H (snd dw2) txn source_repo worktree_path in
                 if v = CannotVerify then (RecoveryCannotVerify, dw2)
                 else
                   (let dw3 = gap 3 dw2;
                        integrated_oid = verified_native_integrated_oid X rid H nid txn source_repo worktree_path dw3;
                        dw4 = gap 4 dw3
                    in locked_result (resolve_locked X clock rid H (snd dw4) nid txn v integrated_oid
                         source_repo worktree_path) dw4)))
     | _ \<Rightarrow> (RecoveryCannotVerify, dw1))"

section \<open>Caller-owned runs\<close>

record 'w lease =
  le_acquire :: "caller_settlement_intent \<Rightarrow> run_dir \<times> 'w \<Rightarrow> identity option"
    \<comment> \<open>\<open>writer_fence::acquire_exclusive\<close>\<close>
  le_inspect :: "'w \<Rightarrow> fence option"
  le_canonical :: "'w \<Rightarrow> string \<Rightarrow> string \<Rightarrow> bool"
    \<comment> \<open>the first path canonicalizes to the second\<close>
  le_session_verify :: "'w \<Rightarrow> string \<Rightarrow> string \<Rightarrow> string \<Rightarrow> (u64 \<times> u64) option"
    \<comment> \<open>\<open>session::verify\<close>\<close>

definition authority_verify ::
    "ext \<Rightarrow> run_id \<Rightarrow> 'w host \<Rightarrow> 'w lease \<Rightarrow> identity \<Rightarrow> caller_settlement_intent \<Rightarrow> node \<Rightarrow> string \<Rightarrow> string \<Rightarrow>
     run_dir \<times> 'w \<Rightarrow> bool" where
  "authority_verify X rid H L held intent n source_repo source dw = (case dw of (d, w) \<Rightarrow>
     revalidate_unlocked X rid (le_inspect L w) held intent d = Inr () \<and>
     (case (n_worktree_path n, n_branch n) of
        (Some checkout, Some branch) \<Rightarrow>
          (case worktree_registrations H w checkout of
             None \<Rightarrow> False
           | Some rows \<Rightarrow>
               n_run_id n = rid \<and> si_node_id intent = n_node_id n \<and> le_canonical L w checkout checkout
               \<and> head_branch H w checkout = Some branch
               \<and> list_ex (\<lambda>r. wr_path r = checkout \<and> wr_branch r = Some branch) rows
               \<and> list_ex (\<lambda>r. wr_branch r = Some source \<and> le_canonical L w (wr_path r) source_repo) rows
               \<and> si_generation intent = lifecycle_generation n
               \<and> (case n_caller_pi_lifecycle n of
                    None \<Rightarrow> n_caller_pi_session n = None
                  | Some lc \<Rightarrow>
                      (case n_caller_pi_session n of
                         None \<Rightarrow> False
                       | Some b \<Rightarrow>
                           ps_generation b = Some (pl_generation lc) \<and> ps_pi_session_id b = pl_pi_session_id lc
                           \<and> ps_original_cwd b = checkout \<and> pl_session_path lc = Some (ps_session_path b)
                           \<and> le_session_verify L w (ps_session_path b) (ps_pi_session_id b) checkout
                               = Some (ps_file_dev b, ps_file_ino b))))
      | _ \<Rightarrow> False))"

definition linked_txns ::
    "ext \<Rightarrow> run_id \<Rightarrow> manifest \<Rightarrow> node \<Rightarrow> node_id \<Rightarrow> caller_settlement_intent \<Rightarrow> event list \<Rightarrow> merge_txn list" where
  "linked_txns X rid m n nid intent evs = filter
     (\<lambda>t. (case mt_caller_authority t of None \<Rightarrow> False | Some link \<Rightarrow>
             ml_intent_seq link = si_seq intent \<and> ml_intent_key link = si_key intent
             \<and> (ml_writer_dev link, ml_writer_ino link) = (si_writer_dev intent, si_writer_ino intent))
          \<and> m_source_branch m = Some (mt_source_branch t) \<and> n_branch n = Some (mt_worker_branch t))
     (List.map_filter (\<lambda>e. de_merge_txn X (ev_data e))
        (filter (\<lambda>e. ev_seq e > si_seq intent \<and> ev_kind e = ''merge.started'' \<and> ev_run_id e = rid
            \<and> ev_node_id e = Some nid) evs))"

text \<open>A transaction counts only when both event records agree with the recorded intent. With
  \<open>report_required\<close> the transaction is the one the terminal report names.\<close>

definition reported_txn ::
    "ext \<Rightarrow> run_id \<Rightarrow> node \<Rightarrow> node_id \<Rightarrow> caller_settlement_intent \<Rightarrow> event list \<Rightarrow> merge_txn list \<Rightarrow> merge_txn option" where
  "reported_txn X rid n nid intent evs txns = do {
     report \<leftarrow> n_last_report n;
     if n_pending_merge n \<noteq> None \<or> \<not> is_terminal (n_status n) \<or> get_str report ''via'' \<noteq> Some VIA_EXPLICIT_MERGE
        \<or> get_bool report ''success'' \<noteq> Some True
     then None
     else (case from_report report of
         Some (OriginRunMerge (Some oper) (Some oid) _) \<Rightarrow>
           (case filter (\<lambda>e. ev_kind e = ''node.report'' \<and> ev_run_id e = rid \<and> ev_node_id e = Some nid
                \<and> ev_data e = report) evs of
              [r] \<Rightarrow>
                (case filter (\<lambda>t. mt_op_id t = oper \<and> mt_worker_oid t = oid \<and>
                     list_ex (\<lambda>e. ev_kind e = ''merge.started'' \<and> ev_seq e > si_seq intent \<and> ev_seq e < ev_seq r
                       \<and> ev_node_id e = Some nid \<and> de_merge_txn X (ev_data e) = Some t) evs) txns of
                   [t] \<Rightarrow> Some t | _ \<Rightarrow> None)
            | _ \<Rightarrow> None)
       | _ \<Rightarrow> None) }"

definition verified_caller_transaction ::
    "ext \<Rightarrow> run_id \<Rightarrow> node_id \<Rightarrow> caller_settlement_intent \<Rightarrow> bool \<Rightarrow> run_dir \<Rightarrow> merge_txn option" where
  "verified_caller_transaction X rid nid intent report_required d =
     (case (read_manifest_opt rid d, read_node_opt rid d nid, read_all_events X d) of
        (Inr (Some m), Inr (Some n), Inr evs) \<Rightarrow>
          if m_agent_owner m \<noteq> Caller \<or> m_caller_settlement_intent m \<noteq> Some intent
             \<or> si_operation intent \<noteq> SettleMerge \<or> si_run_id intent \<noteq> rid \<or> si_node_id intent \<noteq> nid
             \<or> si_seq intent = 0 \<or> n_run_id n \<noteq> rid \<or> n_node_id n \<noteq> nid
          then None
          else do {
            ie \<leftarrow> List.find (\<lambda>e. ev_seq e = si_seq intent \<and> ev_kind e = ''caller.settlement_intent''
                    \<and> ev_run_id e = rid \<and> ev_node_id e = Some nid) evs;
            original \<leftarrow> de_caller_settlement_intent (ev_data ie);
            if original\<lparr>si_seq := si_seq intent\<rparr> \<noteq> intent then None
            else
              (let txns = linked_txns X rid m n nid intent evs in
               if report_required then reported_txn X rid n nid intent evs txns
               else do {
                 pending \<leftarrow> n_pending_merge n;
                 case filter (\<lambda>t. t = pending) txns of [t] \<Rightarrow> Some t | _ \<Rightarrow> None }) }
      | _ \<Rightarrow> None)"

definition caller_verdict ::
    "ext \<Rightarrow> run_id \<Rightarrow> 'w host \<Rightarrow> node_id \<Rightarrow> merge_txn \<Rightarrow> string \<Rightarrow> run_dir \<times> 'w \<Rightarrow> verdict" where
  "caller_verdict X rid H nid txn repo dw = (case dw of (d, w) \<Rightarrow>
     (case (read_all_events X d, mt_caller_authority txn) of
        (Inr evs, Some link) \<Rightarrow>
          (case started_events X rid nid txn evs of
             [start] \<Rightarrow>
               (case filter (\<lambda>e. get_u64 (ev_data e) ''intent_seq'' = Some (ml_intent_seq link))
                   (proof_events ''merge.rebased'' rid nid txn (ev_seq start) evs) of
                  [] \<Rightarrow> if read_oid H w repo (mt_source_branch txn) = Some (mt_expected_source_oid txn)
                        then Reject never_landed else CannotVerify
                | [prf] \<Rightarrow>
                    (case get_str (ev_data prf) ''integrated_oid'' of
                       None \<Rightarrow> CannotVerify
                     | Some tip \<Rightarrow>
                         if \<not> is_oid tip then CannotVerify
                         else (case (read_oid H w repo (mt_source_branch txn),
                                 read_oid H w repo (mt_expected_source_oid txn), read_oid H w repo tip) of
                             (Some now, Some expected, Some integrated) \<Rightarrow>
                               if expected \<noteq> mt_expected_source_oid txn \<or> integrated \<noteq> tip then CannotVerify
                               else if now = expected then
                                 (if tip = expected \<and> mt_worker_oid txn = expected then Complete
                                  else Reject never_landed)
                               else (case (ancestor H w repo expected tip, ancestor H w repo tip now) of
                                   (Some True, Some True) \<Rightarrow> if tip \<noteq> expected then Complete else CannotVerify
                                 | (Some _, Some False) \<Rightarrow> Reject ''source moved without the recorded rebased tip''
                                 | (Some False, Some _) \<Rightarrow> Reject ''source moved without the recorded rebased tip''
                                 | _ \<Rightarrow> CannotVerify)
                           | _ \<Rightarrow> CannotVerify))
                | _ \<Rightarrow> CannotVerify)
           | _ \<Rightarrow> CannotVerify)
      | _ \<Rightarrow> CannotVerify))"

definition caller_landed ::
    "ext \<Rightarrow> run_id \<Rightarrow> 'w host \<Rightarrow> node_id \<Rightarrow> merge_txn \<Rightarrow> string \<Rightarrow> run_dir \<times> 'w \<Rightarrow> bool" where
  "caller_landed X rid H nid txn source_repo dw \<longleftrightarrow> caller_verdict X rid H nid txn source_repo dw = Complete"

definition resolve_caller_locked ::
    "ext \<Rightarrow> (u64 \<Rightarrow> time) \<Rightarrow> run_id \<Rightarrow> 'w lease \<Rightarrow> 'w \<Rightarrow> identity \<Rightarrow> node_id \<Rightarrow> caller_settlement_intent \<Rightarrow>
     merge_txn \<Rightarrow> verdict \<Rightarrow> recovery io" where
  "resolve_caller_locked X clock rid L w held nid intent recorded v = (\<lambda>d.
     if revalidate_unlocked X rid (le_inspect L w) held intent d \<noteq> Inr () then ret RecoveryCannotVerify d
     else bind_io (reading (\<lambda>d. read_node_opt rid d nid)) (\<lambda>fresh.
       bind_io (reading (read_manifest_opt rid)) (\<lambda>current.
       if Option.bind fresh n_pending_merge \<noteq> Some recorded
          \<or> Option.bind current m_caller_settlement_intent \<noteq> Some intent
          \<or> (case fresh of None \<Rightarrow> True | Some n \<Rightarrow> is_terminal (n_status n) \<and> n_status n \<noteq> Failed)
       then ret Superseded
       else (case v of
           Complete \<Rightarrow>
             bind_io (append_and_apply_idempotent X clock rid ''node.report'' (Some nid)
                 (explicit_merge_key rid nid) (\<lambda>_. Inr (completion_report recorded)))
               (\<lambda>out. ret (unless_conflict RecoveryCannotVerify Completed out))
         | Reject reason \<Rightarrow>
             bind_io (abort_txn X clock rid nid (mt_op_id recorded) reason)
               (\<lambda>out. ret (unless_conflict RecoveryCannotVerify (RecoveryRejected reason) out))
         | CannotVerify \<Rightarrow> ret RecoveryCannotVerify))) d)"

definition recover_caller_node ::
    "ext \<Rightarrow> (u64 \<Rightarrow> time) \<Rightarrow> probes \<Rightarrow> time \<Rightarrow> run_id \<Rightarrow> 'w host \<Rightarrow> 'w lease \<Rightarrow>
     (nat \<Rightarrow> run_dir \<times> 'w \<Rightarrow> run_dir \<times> 'w) \<Rightarrow> node_id \<Rightarrow> run_dir \<times> 'w \<Rightarrow> recovery \<times> run_dir \<times> 'w" where
  "recover_caller_node X clock P now rid H L gap nid dw0 = (let dw1 = gap 1 dw0 in
     case (read_manifest_opt rid (fst dw1), read_node_opt rid (fst dw1) nid) of
       (Inr (Some m), Inr (Some n)) \<Rightarrow>
         (case n_pending_merge n of
            None \<Rightarrow> (NothingPending, dw1)
          | Some txn \<Rightarrow>
         (case m_caller_settlement_intent m of
            None \<Rightarrow> (RecoveryCannotVerify, dw1)
          | Some intent \<Rightarrow>
         (let dw2 = gap 2 dw1 in case le_acquire L intent dw2 of
            None \<Rightarrow> (RecoveryCannotVerify, dw2)
          | Some held \<Rightarrow>
         (let dw3 = gap 3 dw2 in case verified_caller_transaction X rid nid intent False (fst dw3) of
            None \<Rightarrow> (RecoveryCannotVerify, dw3)
          | Some recorded \<Rightarrow>
            if recorded \<noteq> txn then (RecoveryCannotVerify, dw3)
            else if driver_is_alive P now txn then (DriverAlive, dw3)
            else
         (case (m_source_repo m, m_source_branch m) of
            (Some repo, Some source) \<Rightarrow>
              (let dw4 = gap 4 dw3 in
               if \<not> authority_verify X rid H L held intent n repo source dw4 then (RecoveryCannotVerify, dw4)
               else
              (let dw5 = gap 5 dw4; v = caller_verdict X rid H nid recorded repo dw5 in
               if v = CannotVerify then (RecoveryCannotVerify, dw5)
               else
              (let dw6 = gap 6 dw5 in
               if \<not> authority_verify X rid H L held intent n repo source dw6 then (RecoveryCannotVerify, dw6)
               else let dw7 = gap 7 dw6 in
                 locked_result (resolve_caller_locked X clock rid L (snd dw7) held nid intent recorded v) dw7)))
          | _ \<Rightarrow> (RecoveryCannotVerify, dw3))))))
     | _ \<Rightarrow> (RecoveryCannotVerify, dw1))"

section \<open>All nodes\<close>

definition recover_node ::
    "ext \<Rightarrow> (u64 \<Rightarrow> time) \<Rightarrow> probes \<Rightarrow> time \<Rightarrow> run_id \<Rightarrow> 'w host \<Rightarrow> 'w lease \<Rightarrow>
     (nat \<Rightarrow> run_dir \<times> 'w \<Rightarrow> run_dir \<times> 'w) \<Rightarrow> node_id \<Rightarrow> run_dir \<times> 'w \<Rightarrow> recovery \<times> run_dir \<times> 'w" where
  "recover_node X clock P now rid H L gap nid dw =
     (case read_manifest_opt rid (fst dw) of
        Inr (Some m) \<Rightarrow>
          if m_agent_owner m = Caller then recover_caller_node X clock P now rid H L gap nid dw
          else recover_native_node X clock P now rid H gap nid dw
      | _ \<Rightarrow> (RecoveryCannotVerify, dw))"

text \<open>The scan for pending transactions; a node that cannot be read fails it.\<close>

fun pending_nodes :: "run_id \<Rightarrow> run_dir \<Rightarrow> string list \<Rightarrow> node_id list res" where
  "pending_nodes rid d [] = Inr []"
| "pending_nodes rid d (stem # stems) = (case NodeId_parse_str stem of
       Inl _ \<Rightarrow> pending_nodes rid d stems
     | Inr nid \<Rightarrow> rbind (read_node_opt rid d nid) (\<lambda>no.
         rbind (pending_nodes rid d stems) (\<lambda>ids.
         Inr (if Option.bind no n_pending_merge \<noteq> None then nid # ids else ids))))"

definition recover_run ::
    "ext \<Rightarrow> (u64 \<Rightarrow> time) \<Rightarrow> probes \<Rightarrow> time \<Rightarrow> run_id \<Rightarrow> 'w host \<Rightarrow> 'w lease \<Rightarrow>
     (nat \<Rightarrow> run_dir \<times> 'w \<Rightarrow> run_dir \<times> 'w) \<Rightarrow> run_dir \<times> 'w \<Rightarrow> run_dir \<times> 'w" where
  "recover_run X clock P now rid H L gap dw =
     (case pending_nodes rid (fst dw) (map fst (d_nodes (fst dw))) of
        Inl _ \<Rightarrow> dw
      | Inr nids \<Rightarrow> fold (\<lambda>nid dw. snd (recover_node X clock P now rid H L gap nid (gap 0 dw))) nids dw)"

end
