(* ===== verification/Creation.thy ===== *)
theory Creation
  imports Idempotency Telemetry Merge_Recovery
begin

text \<open>
  The creation of a native run (\<open>run/create.rs\<close>, with \<open>from_core\<close> and the id parsers of
  \<open>run/mod.rs\<close>), from the reservation of its idempotency key to the edge in its parent's log. A run
  is built in a private staging directory and becomes visible by one rename; until then every error
  undoes it. \<open>gap i\<close> is what other processes do before the \<open>i\<close>-th access to shared state. What the
  code outside this file contributes is the record \<open>create_env\<close>: the materialization of the worker
  (\<open>run/spawn.rs\<close>), its rollback, the writing of prompt and launcher, the supervisor's start. The
  options are resolved already (\<open>new_run\<close>); the failure a test can inject after publication and the
  printed answer are left out. An error keeps the code of its \<open>CliError\<close>.
\<close>

section \<open>Errors and ids\<close>

definition from_core :: "core_error \<Rightarrow> string" where
  "from_core e = (case e of
       CorruptEventLog \<Rightarrow> ''corrupt_state'' | JsonError \<Rightarrow> ''corrupt_state'' | CorruptProjection _ \<Rightarrow> ''corrupt_state''
     | UnsupportedSchemaVersion _ \<Rightarrow> ''corrupt_state''
     | SymlinkRunDir \<Rightarrow> ''corrupt_run'' | SymlinkSubdir _ \<Rightarrow> ''corrupt_run'' | SymlinkStateFile _ \<Rightarrow> ''corrupt_run''
     | EmptyIdempotencyKey \<Rightarrow> ''invalid_value''
     | _ \<Rightarrow> ''io_error'')"

definition parse_run_id :: "string \<Rightarrow> run_id cli" where
  "parse_run_id s = (case RunId_parse_str s of Inl _ \<Rightarrow> Inl ''invalid_id'' | Inr r \<Rightarrow> Inr r)"

section \<open>Names and sessions\<close>

definition MAX_WORKMUX_WINDOW_NAME_BYTES :: nat where
  "MAX_WORKMUX_WINDOW_NAME_BYTES = 50"

definition BRANCH_DISPLAY_ID_CHARS :: nat where
  "BRANCH_DISPLAY_ID_CHARS = 10"

definition to_ascii_lowercase :: "char \<Rightarrow> char" where
  "to_ascii_lowercase c = (if CHR ''A'' \<le> c \<and> c \<le> CHR ''Z'' then char_of (of_char c + 32 :: nat) else c)"

text \<open>\<open>join("-")\<close>.\<close>

fun join_dash :: "string list \<Rightarrow> string" where
  "join_dash [] = []"
| "join_dash [s] = s"
| "join_dash (s # t # ss) = s @ CHR ''-'' # join_dash (t # ss)"

text \<open>Each character, of any number of bytes, becomes one character: continuation bytes disappear.\<close>

definition slug :: "string \<Rightarrow> string" where
  "slug title = join_dash (filter (\<lambda>s. s \<noteq> []) (split_on CHR ''-''
     (map (\<lambda>c. let l = to_ascii_lowercase c in if is_ascii_alphanumeric l then l else CHR ''-'')
        (filter (\<lambda>c. \<not> is_cont c) title))))"

definition derive_branch_name :: "kind \<Rightarrow> run_id \<Rightarrow> string \<Rightarrow> string" where
  "derive_branch_name kind rid title =
     (let display_id = drop (RunId_LEN - BRANCH_DISPLAY_ID_CHARS) (run_id_str rid);
          pre = ''wt/'' @ display_id @ ''-'';
          sl = (if slug title = [] then wire_name kind else slug title);
          max_slug_len = MAX_WORKMUX_WINDOW_NAME_BYTES - length pre
      in pre @ rev (dropWhile (\<lambda>c. c = CHR ''-'') (rev (take max_slug_len sl))))"

definition validate_tmux_session_name :: "string \<Rightarrow> unit cli" where
  "validate_tmux_session_name name =
     (if name \<noteq> [] \<and> length name \<le> 64 \<and> list_all (\<lambda>b. is_ascii_alphanumeric b \<or> b = CHR ''-'' \<or> b = CHR ''_'') name
      then Inr () else Inl ''invalid_tmux_session'')"

text \<open>\<open>char::is_whitespace\<close> anywhere in a text: one of its UTF-8 forms occurs.\<close>

definition has_white_space :: "string \<Rightarrow> bool" where
  "has_white_space s \<longleftrightarrow> list_ex (\<lambda>u. contains_sub u s) white_space_utf8"

definition resolve_parent_session ::
    "bool \<Rightarrow> string option \<Rightarrow> lifecycle \<Rightarrow> string option \<Rightarrow> string option cli" where
  "resolve_parent_session headless tmux_session lifecycle configured_default =
     (case tmux_session of
        Some raw \<Rightarrow>
          (let name = trim raw in
           if name = [] then Inl ''invalid_value''
           else if has_white_space name \<or> CHR '':'' \<in> set name \<or> CHR ''.'' \<in> set name then Inl ''invalid_value''
           else Inr (Some name))
      | None \<Rightarrow>
          if headless then Inr (Some ''headless'')
          else if lifecycle = Autonomous then
            (case configured_default of
               Some name \<Rightarrow> rbind (validate_tmux_session_name name) (\<lambda>_. Inr (Some name))
             | None \<Rightarrow> Inr None)
          else Inr None)"

datatype prompt_source = PromptTask string | PromptFile string

definition resolve_prompt_source :: "(string \<Rightarrow> bool) \<Rightarrow> string option \<Rightarrow> string option \<Rightarrow> prompt_source cli" where
  "resolve_prompt_source file_exists task prompt_file = (case (task, prompt_file) of
       (Some t, None) \<Rightarrow> if trim t = [] then Inl ''invalid_value'' else Inr (PromptTask (trim t))
     | (None, Some p) \<Rightarrow> if \<not> file_exists p then Inl ''prompt_file_not_found'' else Inr (PromptFile p)
     | (Some _, Some _) \<Rightarrow> Inl ''invalid_arguments''
     | (None, None) \<Rightarrow> Inl ''missing-task-or-prompt-file'')"

definition DEFAULT_IDLE_EXPIRY_SECS :: u64 where
  "DEFAULT_IDLE_EXPIRY_SECS = 24 * 60 * 60"

record resident_args =
  ra_resident :: bool
  ra_name :: "string option"
  ra_idle_expiry :: "u64 option"  \<comment> \<open>\<open>Duration::as_secs\<close>\<close>
  ra_interactive :: bool
  ra_kind :: kind
  ra_parent_given :: bool  \<comment> \<open>\<open>--parent-run-id\<close> or \<open>--parent-node-id\<close>\<close>

definition resident_policy_of :: "resident_args \<Rightarrow> resident_policy option cli" where
  "resident_policy_of a =
     (if \<not> ra_resident a then
        (if ra_name a \<noteq> None \<or> ra_idle_expiry a \<noteq> None then Inl ''invalid_arguments'' else Inr None)
      else case ra_name a of
          None \<Rightarrow> Inl ''invalid_arguments''
        | Some name \<Rightarrow>
            if \<not> ResidentPolicy_validate_name name then Inl ''invalid_resident_name''
            else if ra_interactive a then Inl ''invalid_arguments''
            else if \<not> is_autonomous_single_node_worker (ra_kind a) then Inl ''invalid_arguments''
            else if ra_parent_given a then Inl ''invalid_arguments''
            else (case ra_idle_expiry a of
                None \<Rightarrow> Inr (Some \<lparr>rp_name = name, rp_idle_expiry_secs = DEFAULT_IDLE_EXPIRY_SECS\<rparr>)
              | Some secs \<Rightarrow>
                  if secs = 0 then Inl ''invalid_arguments''
                  else Inr (Some \<lparr>rp_name = name, rp_idle_expiry_secs = secs\<rparr>)))"

definition capture_base_sha :: "'w host \<Rightarrow> 'w \<Rightarrow> string \<Rightarrow> string option" where
  "capture_base_sha H w worktree_path =
     Option.bind (stdout_ok (git_read H w worktree_path [''rev-parse'', ''HEAD'']))
       (\<lambda>out. let sha = trim (from_utf8_lossy out) in
          if (length sha = 40 \<or> length sha = 64) \<and> list_all is_ascii_hexdigit sha then Some sha else None)"

definition capture_materialized_source_branch :: "'w host \<Rightarrow> 'w \<Rightarrow> string \<Rightarrow> string \<Rightarrow> string option" where
  "capture_materialized_source_branch H w worktree_path branch =
     Option.bind (stdout_ok (git_read H w worktree_path [''reflog'', ''show'', ''--format=%gs'', ''-1'', branch]))
       (\<lambda>out. filter_opt (\<lambda>base. base \<noteq> [] \<and> base \<noteq> ''HEAD'')
          (strip_prefix ''branch: Created from '' (trim (from_utf8_lossy out))))"

section \<open>The state root\<close>

text \<open>The reservations, the public runs and the staging area by run id, and the world outside.\<close>

record 'w root =
  rt_idem :: idem_dir
  rt_runs :: "string \<rightharpoonup> run_dir"
  rt_staging :: "string \<rightharpoonup> run_dir"
  rt_world :: 'w

definition has_manifest :: "run_dir option \<Rightarrow> bool" where
  "has_manifest d = (case d of None \<Rightarrow> False | Some d \<Rightarrow> d_manifest d \<noteq> None)"

record SpawnOutcome =
  so_branch :: string
  so_worktree_path :: string
  so_tmux_window :: string
  so_agent_pid_hint :: int
  so_agent_start_time :: u64
  so_agent_start_identity :: string
  so_tmux_socket :: "string option"
  so_tmux_session :: "string option"
  so_tmux_window_id :: "string option"
  so_tmux_pane_id :: "string option"
  so_tmux_server_pid :: "u32 option"
  so_tmux_server_pid_start_secs :: "u64 option"
  so_tmux_server_marker :: "string option"
  so_pi_session_id :: "string option"
  so_pi_session_path :: "string option"
  so_pi_session_cwd :: "string option"

record 'w create_env =
  ce_host :: "'w host"
  ce_probes :: "'w \<Rightarrow> probes"
  ce_now :: "'w \<Rightarrow> time"
  ce_lease :: "'w \<Rightarrow> string \<Rightarrow> try_lock option"
  ce_creator :: creator_lease                       \<comment> \<open>this process\<close>
  ce_polls :: nat                                   \<comment> \<open>how often a live creator is polled before the deadline\<close>
  ce_rollback :: "run_dir option \<Rightarrow> run_id \<Rightarrow> 'w \<Rightarrow> 'w"
  ce_write_prompt :: "unit cli"
  ce_write_launcher :: "unit cli"
  ce_materialize :: "string \<Rightarrow> 'w \<Rightarrow> SpawnOutcome cli \<times> 'w"
  ce_drop_outcome :: "SpawnOutcome \<Rightarrow> 'w \<Rightarrow> 'w"   \<comment> \<open>the rollback of an uncommitted outcome\<close>
  ce_cleanup_session :: "'w \<Rightarrow> 'w"
  ce_verify_agent_pid :: "SpawnOutcome \<Rightarrow> 'w \<Rightarrow> unit cli"
  ce_claude_session :: "string option"
  ce_from_timestamp :: "int \<Rightarrow> time option"
  ce_spawn_supervisor :: "run_id \<Rightarrow> 'w \<Rightarrow> u32 cli \<times> 'w"

section \<open>An existing reservation\<close>

definition CREATOR_WITHOUT_IDENTITY_STALE_AFTER_MINS :: int where
  "CREATOR_WITHOUT_IDENTITY_STALE_AFTER_MINS = 30"

datatype existing_reservation = RunPublished run_id | CreatorLive | CreatorDead | CreatorUnverifiable

definition classify_existing_reservation ::
    "'w create_env \<Rightarrow> 'w root \<Rightarrow> reservation_record \<Rightarrow> existing_reservation cli" where
  "classify_existing_reservation E s r =
     rbind (parse_run_id (rv_run_id r)) (\<lambda>rid.
     if has_manifest (rt_runs s (rv_run_id r)) then Inr (RunPublished rid)
     else case rv_creator r of
         None \<Rightarrow> Inr CreatorUnverifiable
       | Some creator \<Rightarrow>
           (case cl_materializer_lease_path creator of
              Some path \<Rightarrow> Inr (case materializer_liveness (ce_lease E (rt_world s) path) of
                  LeaseLive \<Rightarrow> CreatorLive | LeaseDead \<Rightarrow> CreatorDead | LeaseUnverifiable \<Rightarrow> CreatorUnverifiable)
            | None \<Rightarrow>
                (let live = pid_live_with_identity (ce_probes E (rt_world s)) (cl_pid creator)
                       (RecordedStart_new (cl_pid_start_secs creator) None) in
                 Inr (if \<not> live then CreatorDead
                   else if cl_pid_start_secs creator \<noteq> None then CreatorLive
                   else if ce_now E (rt_world s) - cl_started_at creator
                        < CREATOR_WITHOUT_IDENTITY_STALE_AFTER_MINS * 60 * 1000000000
                   then CreatorLive else CreatorUnverifiable))))"

section \<open>The parent's log\<close>

definition append_child_spawned_if_missing ::
    "ext \<Rightarrow> (u64 \<Rightarrow> time) \<Rightarrow> run_id \<Rightarrow> node_id \<Rightarrow> string \<Rightarrow> string \<Rightarrow> json \<Rightarrow> unit io" where
  "append_child_spawned_if_missing X clock parent parent_node child edge_key data =
     bind_io (reading (read_all_events X)) (\<lambda>evs.
     if list_ex (\<lambda>e. ev_kind e = ''child.spawned'' \<and> get_str (ev_data e) ''child_run_id'' = Some child) evs
     then ret ()
     else bind_io (append_and_apply_unlocked X clock parent ''child.spawned'' (Some parent_node) (Some edge_key) data)
            (\<lambda>_. ret ()))"

definition child_data :: "string \<Rightarrow> kind \<Rightarrow> string \<Rightarrow> json" where
  "child_data child kind title = Object
     [(''child_kind'', String (wire_name kind)), (''child_node_id'', String ''n-0001''),
      (''child_run_id'', String child), (''child_title'', String title)]"

text \<open>Under the lock of the parent's run, which creates the directory when there is none.\<close>

definition append_edge ::
    "ext \<Rightarrow> (u64 \<Rightarrow> time) \<Rightarrow> run_id \<Rightarrow> node_id \<Rightarrow> string \<Rightarrow> kind \<Rightarrow> string \<Rightarrow> 'w root \<Rightarrow> unit cli \<times> 'w root" where
  "append_edge X clock parent parent_node child kind title s =
     (case append_child_spawned_if_missing X clock parent parent_node child (''child-spawned:'' @ child)
             (child_data child kind title) (unwrap_or empty_dir (rt_runs s (run_id_str parent))) of
        (r, d) \<Rightarrow>
          (case r of Inl e \<Rightarrow> Inl (from_core e) | Inr _ \<Rightarrow> Inr (),
           s\<lparr>rt_runs := (rt_runs s)(run_id_str parent \<mapsto> d)\<rparr>))"

definition published_manifest :: "run_id \<Rightarrow> 'w root \<Rightarrow> manifest cli" where
  "published_manifest rid s =
     (case read_manifest_opt rid (unwrap_or empty_dir (rt_runs s (run_id_str rid))) of
        Inl e \<Rightarrow> Inl (from_core e) | Inr None \<Rightarrow> Inl ''run_not_published'' | Inr (Some m) \<Rightarrow> Inr m)"

definition repair_parent_child_publication ::
    "ext \<Rightarrow> (u64 \<Rightarrow> time) \<Rightarrow> (nat \<Rightarrow> 'w root \<Rightarrow> 'w root) \<Rightarrow> run_id \<Rightarrow> 'w root \<Rightarrow> unit cli \<times> 'w root" where
  "repair_parent_child_publication X clock gap child s0 =
     (let s = gap 0 s0 in
      case published_manifest child s of
        Inl e \<Rightarrow> (Inl e, s)
      | Inr m \<Rightarrow>
          (case (m_parent_run_id m, m_parent_node_id m) of
             (Some parent, Some parent_node) \<Rightarrow>
               append_edge X clock parent parent_node (run_id_str child) (m_kind m) (m_title m) (gap 1 s)
           | (None, None) \<Rightarrow> (Inr (), s)
           | _ \<Rightarrow> (Inl ''child_parent_link_invalid'', s)))"

section \<open>Winning the key\<close>

datatype acquired = Won "string list" | Replay run_id manifest

text \<open>The answer for a run that is public already.\<close>

definition replay_published ::
    "ext \<Rightarrow> (u64 \<Rightarrow> time) \<Rightarrow> (nat \<Rightarrow> 'w root \<Rightarrow> 'w root) \<Rightarrow> run_id \<Rightarrow> 'w root \<Rightarrow> acquired cli \<times> 'w root" where
  "replay_published X clock gap rid s =
     (case repair_parent_child_publication X clock gap rid s of
        (Inl e, s1) \<Rightarrow> (Inl e, s1)
      | (Inr _, s1) \<Rightarrow>
          (case published_manifest rid (gap 4 s1) of
             Inl e \<Rightarrow> (Inl e, gap 4 s1)
           | Inr m \<Rightarrow>
               if m_agent_owner m = Caller then (Inl ''idempotency_key_conflict'', gap 4 s1)
               else (Inr (Replay rid m), gap 4 s1)))"

text \<open>The fast path before anything is resolved: a lookup that finds a published run.\<close>

definition lookup_replay ::
    "ext \<Rightarrow> (u64 \<Rightarrow> time) \<Rightarrow> 'w create_env \<Rightarrow> (nat \<Rightarrow> 'w root \<Rightarrow> 'w root) \<Rightarrow> string \<Rightarrow> 'w root \<Rightarrow>
     acquired option cli \<times> 'w root" where
  "lookup_replay X clock E gap p s0 =
     (let s = gap 10 s0 in
      case lookup_key X p (rt_idem s) of
        Inl e \<Rightarrow> (Inl e, s)
      | Inr None \<Rightarrow> (Inr None, s)
      | Inr (Some existing) \<Rightarrow>
          if rv_caller_plan existing \<noteq> None then (Inl ''idempotency_key_conflict'', s)
          else (case classify_existing_reservation E (gap 11 s) existing of
              Inl e \<Rightarrow> (Inl e, gap 11 s)
            | Inr (RunPublished rid) \<Rightarrow>
                (case replay_published X clock gap rid (gap 11 s) of
                   (Inl e, s1) \<Rightarrow> (Inl e, s1) | (Inr a, s1) \<Rightarrow> (Inr (Some a), s1))
            | Inr _ \<Rightarrow> (Inr None, gap 11 s)))"

text \<open>One operation on the reservations.\<close>

definition with_idem :: "(idem_dir \<Rightarrow> 'a \<times> idem_dir) \<Rightarrow> 'w root \<Rightarrow> 'a \<times> 'w root" where
  "with_idem f s = (case f (rt_idem s) of (r, fs) \<Rightarrow> (r, s\<lparr>rt_idem := fs\<rparr>))"

definition still_observed :: "reservation \<Rightarrow> reservation_record option" where
  "still_observed r = (case r of Reserved \<Rightarrow> None | AlreadyReserved existing \<Rightarrow> Some existing)"

definition reserve_step ::
    "ext \<Rightarrow> string \<Rightarrow> reservation_record \<Rightarrow> 'w root \<Rightarrow> reservation_record option cli \<times> 'w root" where
  "reserve_step X p proposed s = (case with_idem (reserve_in X p proposed) s of
       (Inl e, s') \<Rightarrow> (Inl e, s') | (Inr r, s') \<Rightarrow> (Inr (still_observed r), s'))"

text \<open>Polling a live creator until it publishes, dies, releases the key or the deadline passes.\<close>

fun wait_creator ::
    "ext \<Rightarrow> 'w create_env \<Rightarrow> (nat \<Rightarrow> 'w root \<Rightarrow> 'w root) \<Rightarrow> string \<Rightarrow> reservation_record \<Rightarrow> nat \<Rightarrow> 'w root \<Rightarrow>
     reservation_record option cli \<times> 'w root" where
  "wait_creator X E gap p proposed 0 s = (Inl ''idempotency_creator_live'', s)"
| "wait_creator X E gap p proposed (Suc k) s0 =
     (let s = gap 0 s0 in
      case lookup_key X p (rt_idem s) of
        Inl e \<Rightarrow> (Inl e, s)
      | Inr None \<Rightarrow> reserve_step X p proposed (gap 1 s)
      | Inr (Some current) \<Rightarrow>
          (case classify_existing_reservation E (gap 2 s) current of
             Inl e \<Rightarrow> (Inl e, gap 2 s)
           | Inr CreatorLive \<Rightarrow> wait_creator X E gap p proposed k (gap 2 s)
           | Inr _ \<Rightarrow> (Inr (Some current), gap 2 s)))"

text \<open>The replacement inherits the cleanup obligations of the record it reclaims.\<close>

definition reclaiming :: "reservation_record \<Rightarrow> reservation_record \<Rightarrow> reservation_record" where
  "reclaiming proposed existing =
     proposed\<lparr>rv_stale_run_ids := remdups_adj (sort (rv_stale_run_ids existing @ [rv_run_id existing]))\<rparr>"

fun acquire_loop ::
    "ext \<Rightarrow> (u64 \<Rightarrow> time) \<Rightarrow> 'w create_env \<Rightarrow> (nat \<Rightarrow> 'w root \<Rightarrow> 'w root) \<Rightarrow> string \<Rightarrow> reservation_record \<Rightarrow> nat \<Rightarrow>
     reservation_record option \<Rightarrow> 'w root \<Rightarrow> acquired cli \<times> 'w root" where
  "acquire_loop X clock E gap p proposed k None s = (Inr (Won []), s)"
| "acquire_loop X clock E gap p proposed 0 (Some existing) s = (Inl ''idempotency_reservation_contended'', s)"
| "acquire_loop X clock E gap p proposed (Suc k) (Some existing) s0 =
     (if rv_caller_plan existing \<noteq> None then (Inl ''idempotency_key_conflict'', s0)
      else let s = gap 3 s0 in
      (case classify_existing_reservation E s existing of
         Inl e \<Rightarrow> (Inl e, s)
       | Inr (RunPublished rid) \<Rightarrow>
           replay_published X clock gap rid s
       | Inr CreatorLive \<Rightarrow>
           (case wait_creator X E gap p proposed (ce_polls E) s of
              (Inl e, s1) \<Rightarrow> (Inl e, s1)
            | (Inr observed, s1) \<Rightarrow> acquire_loop X clock E gap p proposed k observed s1)
       | Inr CreatorUnverifiable \<Rightarrow> (Inl ''idempotency_creator_unverifiable'', s)
       | Inr CreatorDead \<Rightarrow>
           (let s1 = gap 5 s in
            case with_idem (reclaim_in X p existing (reclaiming proposed existing)
                   (has_manifest (rt_runs s1 (rv_run_id existing)))) s1 of
              (Inl e, s2) \<Rightarrow> (Inl e, s2)
            | (Inr Reclaimed, s2) \<Rightarrow> (Inr (Won (rv_stale_run_ids (reclaiming proposed existing))), s2)
            | (Inr Published, s2) \<Rightarrow> acquire_loop X clock E gap p proposed k (Some existing) s2
            | (Inr (Changed current), s2) \<Rightarrow> acquire_loop X clock E gap p proposed k (Some current) s2)))"

definition acquire_key ::
    "ext \<Rightarrow> (u64 \<Rightarrow> time) \<Rightarrow> 'w create_env \<Rightarrow> (nat \<Rightarrow> 'w root \<Rightarrow> 'w root) \<Rightarrow> string \<Rightarrow> run_id \<Rightarrow> 'w root \<Rightarrow>
     acquired cli \<times> 'w root" where
  "acquire_key X clock E gap p rid s0 =
     (let proposed = ReservationRecord_new (run_id_str rid) (ce_creator E) in
      case reserve_step X p proposed (gap 6 s0) of
        (Inl e, s) \<Rightarrow> (Inl e, s)
      | (Inr observed, s) \<Rightarrow> acquire_loop X clock E gap p proposed 8 observed s)"

section \<open>The events\<close>

text \<open>A \<open>serde_json::Map\<close> filled in the order of the entries that are present.\<close>

definition object_of :: "(string \<times> json option) list \<Rightarrow> json" where
  "object_of es = Object (fold (\<lambda>(k, v) m. case v of None \<Rightarrow> m | Some j \<Rightarrow> map_insert k j m) es [])"

definition selected_json :: "selected_candidate \<Rightarrow> json" where
  "selected_json c = Object
     ([(''candidate_index'', Number (PosInt (ucast (sc_candidate_index c)))),
       (''command'', Array (map String (sc_command c))), (''harness'', String (sc_harness c))] @
      some_entry ''telemetry'' String (sc_telemetry c))"

definition skipped_json :: "skipped_candidate \<Rightarrow> json" where
  "skipped_json c = Object
     [(''candidate_index'', Number (PosInt (ucast (sk_candidate_index c)))), (''harness'', String (sk_harness c)),
      (''reason'', String (sk_reason c))]"

definition selection_json :: "agent_selection \<Rightarrow> json" where
  "selection_json a = Object
     ([(''capability'', String (as_capability a)), (''fallback'', Array (map skipped_json (as_fallback a))),
       (''interaction'', String (as_interaction a)), (''profile'', String (as_profile a))] @
      some_entry ''requested_harness'' String (as_requested_harness a) @
      [(''residency'', String (as_residency a)), (''schema_version'', u32_json (as_schema_version a)),
       (''selected'', selected_json (as_selected a)), (''selection_source'', String (as_selection_source a))])"

definition resident_json :: "resident_policy \<Rightarrow> json" where
  "resident_json p = Object
     [(''idle_expiry_secs'', Number (PosInt (rp_idle_expiry_secs p))), (''name'', String (rp_name p))]"

definition retention_json :: "tmux_retention_policy \<Rightarrow> json" where
  "retention_json p = Object
     [(''completed_window_max'', u32_json (tr_completed_window_max p)),
      (''completed_window_ttl_secs'', Number (PosInt (tr_completed_window_ttl_secs p))),
      (''persistent'', Bool (tr_persistent p))]"

definition session_json :: "creator_session \<Rightarrow> json" where
  "session_json c = Object [(''harness'', String (cs_harness c)), (''session_id'', String (cs_session_id c))]"

text \<open>What the arguments, the configuration and the environment resolved to.\<close>

record new_run =
  nr_run_id :: run_id
  nr_kind :: kind
  nr_lifecycle :: lifecycle
  nr_title :: string
  nr_source_repo :: "string option"
  nr_materialization_repo :: "string option"
  nr_source_branch :: "string option"
  nr_parent_session :: "string option"
  nr_tmux_retention :: "tmux_retention_policy option"
  nr_notify_cmd :: "string option"
  nr_resident :: "resident_policy option"
  nr_harness :: string
  nr_harness_source :: string
  nr_selection :: agent_selection
  nr_task :: "string option"
  nr_created_by_run_id :: "run_id option"
  nr_created_by_session :: "creator_session option"
  nr_parent :: "(run_id \<times> node_id) option"
  nr_idempotency_key :: "string option"
  nr_skip_materialize :: bool

definition lifecycle_kebab :: "lifecycle \<Rightarrow> string" where
  "lifecycle_kebab l = (case l of Autonomous \<Rightarrow> ''autonomous'' | Interactive \<Rightarrow> ''interactive'')"

definition created_data :: "new_run \<Rightarrow> json" where
  "created_data n = object_of
     [(''kind'', Some (String (wire_name (nr_kind n)))),
      (''lifecycle'', Some (String (lifecycle_kebab (nr_lifecycle n)))),
      (''title'', Some (String (nr_title n))),
      (''source_repo'', map_option String (nr_materialization_repo n)),
      (''source_branch'', map_option String (nr_source_branch n)),
      (''managed_tmux_session'', map_option String (nr_parent_session n)),
      (''tmux_retention'', map_option retention_json (nr_tmux_retention n)),
      (''notify_cmd'', map_option String (nr_notify_cmd n)),
      (''resident'', map_option resident_json (nr_resident n)),
      (''harness'', Some (String (nr_harness n))),
      (''harness_source'', Some (String (nr_harness_source n))),
      (''agent_selection'', Some (selection_json (nr_selection n))),
      (''task'', map_option String (nr_task n)),
      (''created_by_run_id'', map_option (\<lambda>r. String (run_id_str r)) (nr_created_by_run_id n)),
      (''created_by_session'', map_option session_json (nr_created_by_session n)),
      (''parent_run_id'', map_option (\<lambda>p. String (run_id_str (fst p))) (nr_parent n)),
      (''parent_node_id'', map_option (\<lambda>p. String (node_id_str (snd p))) (nr_parent n))]"

definition int_json :: "int \<Rightarrow> json" where
  "int_json i = Number (if i < 0 then NegInt i else PosInt (word_of_int i))"

definition node_data :: "ext \<Rightarrow> 'w create_env \<Rightarrow> new_run \<Rightarrow> SpawnOutcome \<Rightarrow> string option \<Rightarrow> string option \<Rightarrow> json" where
  "node_data X E n o' base_sha source_branch = object_of (map (\<lambda>(k, v). (k, Some v))
     [(''kind'', String (wire_name (nr_kind n))),
      (''branch'', String (so_branch o')),
      (''source_branch'', opt_json String source_branch),
      (''base_sha'', opt_json String base_sha),
      (''worktree_path'', String (so_worktree_path o')),
      (''tmux_window'', String (so_tmux_window o')),
      (''tmux_socket'', opt_json String (so_tmux_socket o')),
      (''tmux_session'', opt_json String (so_tmux_session o')),
      (''tmux_window_id'', opt_json String (so_tmux_window_id o')),
      (''tmux_pane_id'', opt_json String (so_tmux_pane_id o')),
      (''tmux_server_pid'', opt_json u32_json (so_tmux_server_pid o')),
      (''tmux_server_pid_start_secs'', opt_json (\<lambda>v. Number (PosInt v)) (so_tmux_server_pid_start_secs o')),
      (''tmux_server_marker'', opt_json String (so_tmux_server_marker o')),
      (''pi_session_id'', opt_json String (so_pi_session_id o')),
      (''pi_session_path'', opt_json String (so_pi_session_path o')),
      (''pi_session_cwd'', opt_json String (so_pi_session_cwd o')),
      (''claude_session_id'', opt_json String (ce_claude_session E)),
      (''attempt'', Number (PosInt 0)),
      (''agent_pid'', int_json (so_agent_pid_hint o')),
      (''agent_pid_start_time'', opt_json (\<lambda>t. String (ser_datetime X t))
         (ce_from_timestamp E (if uint (so_agent_start_time o') \<le> I64_MAX then uint (so_agent_start_time o') else I64_MAX))),
      (''agent_pid_start_identity'', String (so_agent_start_identity o')),
      (''task'', opt_json String (nr_task n)),
      (''parent_node_id'', opt_json (\<lambda>p. String (node_id_str (snd p))) (nr_parent n))])"

section \<open>Building and publishing\<close>

datatype created = CreatedRun run_id "u32 option" | ReplayedRun run_id manifest

text \<open>An append in the staging directory of the run.\<close>

definition stage_append ::
    "ext \<Rightarrow> (u64 \<Rightarrow> time) \<Rightarrow> run_id \<Rightarrow> string \<Rightarrow> node_id option \<Rightarrow> json \<Rightarrow> 'w root \<Rightarrow> unit cli \<times> 'w root" where
  "stage_append X clock rid k nid data s =
     (case append_and_apply_event X clock rid k nid None data
             (unwrap_or empty_dir (rt_staging s (run_id_str rid))) of
        (r, d) \<Rightarrow> (case r of Inl e \<Rightarrow> Inl (from_core e) | Inr _ \<Rightarrow> Inr (),
                  s\<lparr>rt_staging := (rt_staging s)(run_id_str rid \<mapsto> d)\<rparr>))"

definition remove_staging :: "run_id \<Rightarrow> 'w root \<Rightarrow> 'w root" where
  "remove_staging rid s = s\<lparr>rt_staging := (rt_staging s)(run_id_str rid := None)\<rparr>"

text \<open>\<open>rename\<close>: onto a directory that is not empty it fails, an empty one it replaces.\<close>

definition publish_staging_run :: "run_id \<Rightarrow> 'w root \<Rightarrow> unit cli \<times> 'w root" where
  "publish_staging_run rid s = (case rt_staging s (run_id_str rid) of
       None \<Rightarrow> (Inl ''run_publish_failed'', s)
     | Some d \<Rightarrow>
         if (case rt_runs s (run_id_str rid) of None \<Rightarrow> True | Some d' \<Rightarrow> d' = empty_dir)
         then (Inr (), s\<lparr>rt_runs := (rt_runs s)(run_id_str rid \<mapsto> d),
           rt_staging := (rt_staging s)(run_id_str rid := None)\<rparr>)
         else (Inl ''run_publish_failed'', s))"

definition cleanup_orphan_child :: "'w create_env \<Rightarrow> run_id \<Rightarrow> 'w root \<Rightarrow> 'w root" where
  "cleanup_orphan_child E rid s = remove_staging rid (s\<lparr>rt_world := ce_cleanup_session E (rt_world s)\<rparr>)"

fun remove_stale :: "'w create_env \<Rightarrow> string list \<Rightarrow> 'w root \<Rightarrow> unit cli \<times> 'w root" where
  "remove_stale E [] s = (Inr (), s)"
| "remove_stale E (stale # rest) s = (case parse_run_id stale of
       Inl e \<Rightarrow> (Inl e, s)
     | Inr rid \<Rightarrow> remove_stale E rest (remove_staging rid
         (s\<lparr>rt_world := ce_rollback E (rt_staging s stale) rid (rt_world s)\<rparr>)))"

text \<open>The worker: materialized, recorded and published, or undone. The result says whether the run is
  public.\<close>

definition materialize_and_publish ::
    "ext \<Rightarrow> (u64 \<Rightarrow> time) \<Rightarrow> 'w create_env \<Rightarrow> new_run \<Rightarrow> 'w root \<Rightarrow> unit cli \<times> 'w root" where
  "materialize_and_publish X clock E n s =
     (let rid = nr_run_id n in
      case ce_write_launcher E of
        Inl e \<Rightarrow> (Inl e, s)
      | Inr _ \<Rightarrow>
      (case ce_materialize E (derive_branch_name (nr_kind n) rid (nr_title n)) (rt_world s) of
         (Inl e, w) \<Rightarrow> (Inl e, cleanup_orphan_child E rid (s\<lparr>rt_world := w\<rparr>))
       | (Inr out, w) \<Rightarrow>
           (let base_sha = capture_base_sha (ce_host E) w (so_worktree_path out);
                source_branch = (case nr_source_branch n of Some b \<Rightarrow> Some b
                  | None \<Rightarrow> capture_materialized_source_branch (ce_host E) w (so_worktree_path out) (so_branch out));
                undo = (\<lambda>s. cleanup_orphan_child E rid (s\<lparr>rt_world := ce_drop_outcome E out (rt_world s)\<rparr>))
            in
            case ce_verify_agent_pid E out w of
              Inl e \<Rightarrow> (Inl e, undo (s\<lparr>rt_world := w\<rparr>))
            | Inr _ \<Rightarrow>
            (case stage_append X clock rid ''node.created'' (Some root_node)
                    (node_data X E n out base_sha source_branch) (s\<lparr>rt_world := w\<rparr>) of
               (Inl e, s1) \<Rightarrow> (Inl e, undo s1)
             | (Inr _, s1) \<Rightarrow>
                 (case publish_staging_run rid s1 of
                    (Inl e, s2) \<Rightarrow> (Inl e, undo s2)
                  | (Inr _, s2) \<Rightarrow> (Inr (), s2))))))"

definition build_run ::
    "ext \<Rightarrow> (u64 \<Rightarrow> time) \<Rightarrow> 'w create_env \<Rightarrow> new_run \<Rightarrow> 'w root \<Rightarrow> unit cli \<times> 'w root" where
  "build_run X clock E n s =
     (let rid = nr_run_id n;
          s0 = s\<lparr>rt_staging := (rt_staging s)(run_id_str rid \<mapsto> unwrap_or empty_dir (rt_staging s (run_id_str rid)))\<rparr>
      in
      case (if nr_skip_materialize n then Inr () else ce_write_prompt E) of
        Inl e \<Rightarrow> (Inl e, s0)
      | Inr _ \<Rightarrow>
      (case stage_append X clock rid ''run.created'' None (created_data n) s0 of
         (Inl e, s1) \<Rightarrow> (Inl e, s1)
       | (Inr _, s1) \<Rightarrow>
           if nr_skip_materialize n then publish_staging_run rid s1
           else materialize_and_publish X clock E n s1))"

text \<open>Everything after the key is won, up to publication.\<close>

definition prepare_run ::
    "ext \<Rightarrow> (u64 \<Rightarrow> time) \<Rightarrow> 'w create_env \<Rightarrow> (nat \<Rightarrow> 'w root \<Rightarrow> 'w root) \<Rightarrow> new_run \<Rightarrow> string \<Rightarrow> string list \<Rightarrow>
     'w root \<Rightarrow> (bool \<times> unit cli) \<times> 'w root" where
  "prepare_run X clock E gap n p stale s0 =
     (case remove_stale E stale s0 of
        (Inl e, s) \<Rightarrow> ((stale \<noteq> [], Inl e), s)
      | (Inr _, s) \<Rightarrow>
      (case (if stale = [] then (Inr (), s)
             else with_idem (finish_stale_cleanup X p (run_id_str (nr_run_id n))) (gap 7 s)) of
         (Inl e, s1) \<Rightarrow> ((True, Inl e), s1)
       | (Inr _, s1) \<Rightarrow>
           if (case nr_parent n of None \<Rightarrow> False | Some (parent, _) \<Rightarrow> \<not> has_manifest (rt_runs s1 (run_id_str parent)))
           then ((False, Inl ''parent_not_found''), s1)
           else (case build_run X clock E n s1 of (r, s2) \<Rightarrow> ((False, r), s2))))"

text \<open>The drop of an armed reservation guard: the key is released, unless it carries a cleanup
  obligation.\<close>

definition drop_guard ::
    "ext \<Rightarrow> (nat \<Rightarrow> 'w root \<Rightarrow> 'w root) \<Rightarrow> new_run \<Rightarrow> string \<Rightarrow> bool \<Rightarrow> 'w root \<Rightarrow> 'w root" where
  "drop_guard X gap n p preserve s =
     (if nr_idempotency_key n = None \<or> preserve then s
      else snd (with_idem (release_in X p (run_id_str (nr_run_id n))) (gap 8 s)))"

definition announce ::
    "ext \<Rightarrow> (u64 \<Rightarrow> time) \<Rightarrow> 'w create_env \<Rightarrow> (nat \<Rightarrow> 'w root \<Rightarrow> 'w root) \<Rightarrow> new_run \<Rightarrow> 'w root \<Rightarrow> created cli \<times> 'w root" where
  "announce X clock E gap n s =
     (let rid = nr_run_id n in
      case (case nr_parent n of
          None \<Rightarrow> (Inr (), s)
        | Some (parent, parent_node) \<Rightarrow>
            append_edge X clock parent parent_node (run_id_str rid) (nr_kind n) (nr_title n) (gap 9 s)) of
        (Inl e, s1) \<Rightarrow> (Inl e, s1)
      | (Inr _, s1) \<Rightarrow>
          if nr_skip_materialize n \<or> nr_parent n \<noteq> None then (Inr (CreatedRun rid None), s1)
          else (case ce_spawn_supervisor E rid (rt_world s1) of
              (Inl e, w) \<Rightarrow> (Inl e, s1\<lparr>rt_world := w\<rparr>)
            | (Inr pid, w) \<Rightarrow> (Inr (CreatedRun rid (Some pid)), s1\<lparr>rt_world := w\<rparr>)))"

definition create_won ::
    "ext \<Rightarrow> (u64 \<Rightarrow> time) \<Rightarrow> 'w create_env \<Rightarrow> (nat \<Rightarrow> 'w root \<Rightarrow> 'w root) \<Rightarrow> new_run \<Rightarrow> string \<Rightarrow> string list \<Rightarrow>
     'w root \<Rightarrow> created cli \<times> 'w root" where
  "create_won X clock E gap n p stale s =
     (case prepare_run X clock E gap n p stale s of
        ((preserve, Inl e), s1) \<Rightarrow> (Inl e, drop_guard X gap n p preserve s1)
      | ((_, Inr _), s1) \<Rightarrow> announce X clock E gap n s1)"

definition create_native ::
    "ext \<Rightarrow> (u64 \<Rightarrow> time) \<Rightarrow> 'w create_env \<Rightarrow> (nat \<Rightarrow> 'w root \<Rightarrow> 'w root) \<Rightarrow> new_run \<Rightarrow> 'w root \<Rightarrow> created cli \<times> 'w root" where
  "create_native X clock E gap n s0 =
     (let p = key_hash (nr_source_repo n) (nr_source_branch n) (unwrap_or [] (nr_idempotency_key n));
          keyed = (nr_idempotency_key n \<noteq> None)
      in
      case (if keyed then lookup_replay X clock E gap p s0 else (Inr None, s0)) of
        (Inl e, s) \<Rightarrow> (Inl e, s)
      | (Inr (Some (Replay rid m)), s) \<Rightarrow> (Inr (ReplayedRun rid m), s)
      | (Inr _, s) \<Rightarrow>
      (case (if keyed then acquire_key X clock E gap p (nr_run_id n) s else (Inr (Won []), s)) of
         (Inl e, s1) \<Rightarrow> (Inl e, s1)
       | (Inr (Replay rid m), s1) \<Rightarrow> (Inr (ReplayedRun rid m), s1)
       | (Inr (Won stale), s1) \<Rightarrow>
           create_won X clock E gap n p stale s1))"

end
