(* ===== verification/Merge.thy ===== *)
theory Merge
  imports Creation Teardown
begin

text \<open>
  The merge of a native run (\<open>run/merge.rs\<close>), with the guards of \<open>run/mod.rs\<close> and the restart of the
  supervisor (\<open>run/reattach.rs\<close>, \<open>SupervisorView::probe\<close> of \<open>run/dto.rs\<close>): the transaction is recorded
  before git is touched, the source moves only by a fast-forward under the shared merge lock, the
  terminal report follows, and somebody is left to consume it. A step works on the run and the
  outside world and answers or fails with the code of its \<open>CliError\<close>; \<open>gap i\<close> is what other
  processes do before the \<open>i\<close>-th access. The merge lock's directory, the resident lock, the
  admission and the spawning of a supervisor are the record \<open>merge_env\<close>. The run id is resolved
  already; the printed answer and its prose warnings are left out, the typed warnings are kept.
\<close>

section \<open>Steps\<close>

type_synonym ('w, 'a) act = "run_dir \<times> 'w \<Rightarrow> 'a cli \<times> run_dir \<times> 'w"

definition act_bind :: "('w, 'a) act \<Rightarrow> ('a \<Rightarrow> ('w, 'b) act) \<Rightarrow> ('w, 'b) act" where
  "act_bind m f = (\<lambda>s. case m s of (Inl e, s') \<Rightarrow> (Inl e, s') | (Inr x, s') \<Rightarrow> f x s')"

definition act_of :: "(run_dir \<times> 'w \<Rightarrow> 'a cli) \<Rightarrow> ('w, 'a) act" where
  "act_of r = (\<lambda>s. (r s, s))"

definition act_gap :: "(nat \<Rightarrow> run_dir \<times> 'w \<Rightarrow> run_dir \<times> 'w) \<Rightarrow> nat \<Rightarrow> ('w, unit) act" where
  "act_gap gap i = (\<lambda>s. (Inr (), gap i s))"

definition cli_core :: "'a res \<Rightarrow> 'a cli" where
  "cli_core r = (case r of Inl e \<Rightarrow> Inl (from_core e) | Inr x \<Rightarrow> Inr x)"

definition act_io :: "'a io \<Rightarrow> ('w, 'a) act" where
  "act_io m = (\<lambda>s. case m (fst s) of (r, d') \<Rightarrow> (cli_core r, d', snd s))"

lemmas act_defs = act_bind_def act_of_def act_gap_def act_io_def

section \<open>The environment\<close>

text \<open>\<open>std::fs::create_dir\<close>: made, a directory is there already, or another failure.\<close>

datatype 'w dir_result = DirCreated 'w | DirExists | DirError

record 'w merge_env =
  me_pid :: u32
  me_now :: time
  me_op_id :: string                                     \<comment> \<open>\<open>new_op_id()\<close>\<close>
  me_probes :: probes
  me_try_exists :: "'w \<Rightarrow> string \<Rightarrow> bool option"          \<comment> \<open>\<open>Path::try_exists\<close>\<close>
  me_resident_lock :: "unit cli"                         \<comment> \<open>\<open>ResidentLock::acquire\<close>\<close>
  me_lock_timeout :: "string option"                     \<comment> \<open>\<open>MERGE_LOCK_TIMEOUT\<close>\<close>
  me_polls :: "u64 \<Rightarrow> nat"                               \<comment> \<open>how often a wait of so many seconds polls\<close>
  me_create_dir :: "'w \<Rightarrow> string \<Rightarrow> 'w dir_result"
  me_remove_dir :: "'w \<Rightarrow> string \<Rightarrow> 'w"
  me_pid_file :: "'w \<Rightarrow> pid_file"                        \<comment> \<open>\<open>supervisor.pid\<close> of the run\<close>
  me_admit :: "unit cli"                                 \<comment> \<open>\<open>admission::admit\<close>\<close>
  me_spawn :: "'w \<Rightarrow> u32 cli \<times> 'w"
    \<comment> \<open>starting a detached supervisor and waiting for its pid, 0 when it did not show\<close>

record merge_args =
  ma_node_id :: "string option"
  ma_source :: "string option"
  ma_report_file :: "bytes option option"  \<comment> \<open>\<open>Some None\<close>: a file that cannot be read\<close>
  ma_dry_run :: bool

definition DEFAULT_NODE_ID :: string where
  "DEFAULT_NODE_ID = ''n-0001''"

definition MAX_REPORT_BYTES :: nat where
  "MAX_REPORT_BYTES = 1024 * 1024"

section \<open>Guards\<close>

definition parse_node_id :: "string \<Rightarrow> node_id cli" where
  "parse_node_id s = (case NodeId_parse_str s of Inl _ \<Rightarrow> Inl ''invalid_id'' | Inr i \<Rightarrow> Inr i)"

definition require_nonempty :: "string \<Rightarrow> string cli" where
  "require_nonempty s = (if trim s = [] then Inl ''invalid_value'' else Inr (trim s))"

definition reject_legacy_kind :: "kind \<Rightarrow> unit cli" where
  "reject_legacy_kind k = ensure (k \<noteq> Unknown) ''legacy_run_read_only''"

definition require_writer_fence :: "manifest \<Rightarrow> unit cli" where
  "require_writer_fence m = ensure (m_agent_owner m \<noteq> Caller) ''writer_fence_unavailable''"

definition branch_for :: "node \<Rightarrow> string option" where
  "branch_for n = (if n_branch n = Some [] then None else n_branch n)"

text \<open>The manifest, before any node is looked at.\<close>

definition merge_manifest :: "run_id \<Rightarrow> run_dir \<Rightarrow> manifest cli" where
  "merge_manifest rid d =
     rbind (cli_core (read_manifest_opt rid d)) (\<lambda>mo.
     rbind (ok_or ''run_not_found'' mo) (\<lambda>m.
     rbind (reject_legacy_kind (m_kind m)) (\<lambda>_.
     rbind (require_writer_fence m) (\<lambda>_. Inr m))))"

definition merge_node :: "run_id \<Rightarrow> node_id \<Rightarrow> run_dir \<Rightarrow> (node \<times> string \<times> string) cli" where
  "merge_node rid nid d =
     rbind (cli_core (read_node_opt rid d nid)) (\<lambda>no.
     rbind (ok_or ''node_not_found'' no) (\<lambda>n.
     rbind (ok_or ''no_worktree'' (n_worktree_path n)) (\<lambda>worktree_path.
     rbind (ok_or ''no_branch'' (branch_for n)) (\<lambda>branch.
     Inr (n, worktree_path, branch)))))"

text \<open>A checkout that is gone: the status is read again under the lock to say why.\<close>

definition worktree_gone_error :: "run_id \<Rightarrow> manifest \<Rightarrow> run_dir \<Rightarrow> unit cli" where
  "worktree_gone_error rid m d =
     rbind (cli_core (read_manifest_opt rid d)) (\<lambda>mo.
     Inl (if is_terminal (case mo of Some m' \<Rightarrow> m_status m' | None \<Rightarrow> m_status m)
          then ''run_already_terminal'' else ''worktree_missing''))"

definition worktree_guard ::
    "run_id \<Rightarrow> 'w merge_env \<Rightarrow> (nat \<Rightarrow> run_dir \<times> 'w \<Rightarrow> run_dir \<times> 'w) \<Rightarrow> manifest \<Rightarrow> string \<Rightarrow> bool \<Rightarrow> ('w, unit) act" where
  "worktree_guard rid E gap m worktree_path dry_run = (\<lambda>s.
     if dry_run \<or> me_try_exists E (snd s) worktree_path \<noteq> Some False then (Inr (), s)
     else act_bind (act_gap gap 11) (\<lambda>_. act_of (\<lambda>(d, w). worktree_gone_error rid m d)) s)"

definition main_or_master :: "worktree_registration \<Rightarrow> bool" where
  "main_or_master r \<longleftrightarrow> wr_branch r = Some ''main'' \<or> wr_branch r = Some ''master''"

definition effective_source :: "'w host \<Rightarrow> string option \<Rightarrow> manifest \<Rightarrow> string \<Rightarrow> 'w \<Rightarrow> string option" where
  "effective_source H source m worktree_path w = (case source of
       Some s \<Rightarrow> Some s
     | None \<Rightarrow> (case m_source_branch m of
         Some s \<Rightarrow> Some s
       | None \<Rightarrow> Option.bind (worktree_registrations H w worktree_path)
           (\<lambda>rows. Option.bind (List.find main_or_master rows) wr_branch)))"

section \<open>The report\<close>

definition read_report_file :: "ext \<Rightarrow> bytes option \<Rightarrow> json cli" where
  "read_report_file X file = (case file of
       None \<Rightarrow> Inl ''report_file_unreadable''
     | Some buf \<Rightarrow>
         if length buf > MAX_REPORT_BYTES then Inl ''report_file_too_large''
         else ok_or ''report_file_invalid_json'' (json_from_slice X buf))"

definition initial_report :: "ext \<Rightarrow> bytes option option \<Rightarrow> string \<Rightarrow> string option \<Rightarrow> json cli" where
  "initial_report X report_file branch source = (case report_file of
       Some file \<Rightarrow> read_report_file X file
     | None \<Rightarrow> Inr (Object [(''success'', Bool True),
         (''summary'', String (case source of
            None \<Rightarrow> ''merged '' @ branch @ '' via run merge''
          | Some src \<Rightarrow> ''merged '' @ branch @ '' into '' @ src @ '' via run merge''))]))"

definition build_report ::
    "ext \<Rightarrow> bytes option option \<Rightarrow> string \<Rightarrow> string option \<Rightarrow> (json \<times> advisory_warning list) cli" where
  "build_report X report_file branch source =
     rbind (initial_report X report_file branch source) (\<lambda>report.
     rbind (ok_or ''report_not_object'' (as_object report)) (\<lambda>obj.
     if (case map_of obj ''success'' of None \<Rightarrow> False | Some v \<Rightarrow> as_bool v \<noteq> Some True)
        \<or> (case map_of obj ''cancelled'' of None \<Rightarrow> False | Some v \<Rightarrow> as_bool v = Some True)
     then Inl ''invalid_merge_report''
     else (case sanitize_report_advisory (Object (map_insert ''via'' (String VIA_EXPLICIT_MERGE) obj)) of
         Inl _ \<Rightarrow> Inl ''schema_violation''
       | Inr sr \<Rightarrow> Inr (sr_report sr, sr_warnings sr))))"

section \<open>Git\<close>

definition merge_failed :: string where
  "merge_failed = ''merge_failed''"

definition worktree_tracked_clean :: "'w host \<Rightarrow> 'w \<Rightarrow> string \<Rightarrow> bool option" where
  "worktree_tracked_clean H w dir = map_option (list_all is_ascii_whitespace)
     (stdout_ok (git_read H w dir [''status'', ''--porcelain'', ''--untracked-files=no'']))"

text \<open>\<open>git_output\<close>, for commands that only read and for those that write.\<close>

definition git_output_read :: "'w host \<Rightarrow> string \<Rightarrow> string list \<Rightarrow> ('w, string) act" where
  "git_output_read H dir args = act_of (\<lambda>(d, w).
     map_sum id (\<lambda>out. trim (from_utf8_lossy out)) (ok_or merge_failed (stdout_ok (git_read H w dir args))))"

definition git_output_write :: "'w host \<Rightarrow> string \<Rightarrow> string list \<Rightarrow> ('w, unit) act" where
  "git_output_write H dir args = (\<lambda>(d, w). case git_write H w dir args of
     (out, w') \<Rightarrow> (if cmd_success out then Inr () else Inl merge_failed, d, w'))"

text \<open>Equality of \<open>std::path::Path\<close> is equality of components.\<close>

definition path_components :: "string \<Rightarrow> bool \<times> string list" where
  "path_components p = (prefix ''/'' p,
     (if prefix ''/'' p then [] else takeWhile (\<lambda>s. s = ''.'') (take 1 (split_on CHR ''/'' p))) @
     filter (\<lambda>s. s \<noteq> [] \<and> s \<noteq> ''.'') (split_on CHR ''/'' p))"

definition path_join :: "string \<Rightarrow> string \<Rightarrow> string" where
  "path_join a b = (if a = [] \<or> last a = CHR ''/'' then a @ b else a @ CHR ''/'' # b)"

definition select_target :: "string option \<Rightarrow> worktree_registration list \<Rightarrow> worktree_registration option" where
  "select_target source rows = (case source of
       Some s \<Rightarrow> List.find (\<lambda>r. wr_branch r = Some s) rows
     | None \<Rightarrow> List.find main_or_master rows)"

definition validate_dry_run_target :: "'w host \<Rightarrow> string \<Rightarrow> string option \<Rightarrow> 'w \<Rightarrow> unit cli" where
  "validate_dry_run_target H worktree_path source w =
     rbind (ok_or merge_failed (worktree_registrations H w worktree_path)) (\<lambda>rows.
     rbind (ok_or merge_failed (select_target source rows)) (\<lambda>target.
     ensure (worktree_tracked_clean H w (wr_path target) = Some True) merge_failed))"

text \<open>What is checked before the lock: the recorded checkout on the recorded branch, registered, clean,
  and another branch to merge it into.\<close>

definition merge_target ::
    "'w host \<Rightarrow> string \<Rightarrow> string \<Rightarrow> string option \<Rightarrow> 'w \<Rightarrow> (string \<times> string) cli" where
  "merge_target H worktree_path branch source w =
     rbind (ensure (branch \<noteq> ''main'' \<and> branch \<noteq> ''master'') merge_failed) (\<lambda>_.
     rbind (ensure (head_branch H w worktree_path = Some branch) merge_failed) (\<lambda>_.
     rbind (ok_or merge_failed (worktree_registrations H w worktree_path)) (\<lambda>rows.
     rbind (ensure (list_ex (\<lambda>r. path_components (wr_path r) = path_components worktree_path \<and>
        wr_branch r = Some branch) rows) merge_failed) (\<lambda>_.
     rbind (ok_or merge_failed (select_target source rows)) (\<lambda>target.
     rbind (ok_or merge_failed (wr_branch target)) (\<lambda>src.
     rbind (ensure (branch \<noteq> src) merge_failed) (\<lambda>_.
     rbind (ensure (worktree_status_clean H w worktree_path = Some True) merge_failed) (\<lambda>_.
     Inr (wr_path target, src)))))))))"

definition lock_seconds :: "'w merge_env \<Rightarrow> u64 cli" where
  "lock_seconds E = (let timeout = (case me_lock_timeout E of Some t \<Rightarrow> t | None \<Rightarrow> ''600'') in
     case parse_u64 timeout of
       Some n \<Rightarrow> rbind (ensure (1 \<le> n \<and> n \<le> 86400 \<and> length timeout \<le> 5 \<and> list_all is_ascii_digit timeout) merge_failed) (\<lambda>_. Inr n)
     | None \<Rightarrow> Inl merge_failed)"

fun lock_loop ::
    "'w merge_env \<Rightarrow> (nat \<Rightarrow> run_dir \<times> 'w \<Rightarrow> run_dir \<times> 'w) \<Rightarrow> string \<Rightarrow> nat \<Rightarrow> ('w, unit) act" where
  "lock_loop E gap lock_path k (d, w) = (case me_create_dir E w lock_path of
       DirCreated w' \<Rightarrow> (Inr (), d, w')
     | DirExists \<Rightarrow>
         (case k of 0 \<Rightarrow> (Inl ''merge_in_progress'', d, w)
          | Suc j \<Rightarrow> lock_loop E gap lock_path j (gap 16 (d, w)))
     | DirError \<Rightarrow> (Inl merge_failed, d, w))"

text \<open>The compare half of the compare-and-swap.\<close>

definition check_source :: "'w host \<Rightarrow> string \<Rightarrow> string \<Rightarrow> string option \<Rightarrow> ('w, unit) act" where
  "check_source H target_path source expected_source_oid = act_of (\<lambda>(d, w). case expected_source_oid of
       None \<Rightarrow> Inr ()
     | Some expected \<Rightarrow> rbind (ok_or merge_failed (read_oid H w target_path source)) (\<lambda>actual.
         ensure (actual = expected) ''merge_source_moved''))"

definition read_oid_act :: "'w host \<Rightarrow> string \<Rightarrow> string \<Rightarrow> ('w, string) act" where
  "read_oid_act H dir rv = act_of (\<lambda>(d, w). ok_or merge_failed (read_oid H w dir rv))"

text \<open>Under the lock: the target is checked again, the worker's branch is rebased unless it is where
  the source is, and the source is fast-forwarded to it. What a callback leaves in a cell of its caller
  is its answer, and the answer of the merge.\<close>

definition merge_locked ::
    "'w host \<Rightarrow> (nat \<Rightarrow> run_dir \<times> 'w \<Rightarrow> run_dir \<times> 'w) \<Rightarrow> string \<Rightarrow> string \<Rightarrow> string \<Rightarrow> string \<Rightarrow> string option \<Rightarrow>
     ('w, unit) act \<Rightarrow> (string \<Rightarrow> ('w, 'a) act) \<Rightarrow> ('w, 'a) act" where
  "merge_locked H gap worktree_path branch target_path source expected before_mutation before_ref_move =
     act_bind (act_gap gap 17) (\<lambda>_.
     act_bind (act_of (\<lambda>(d, w). ensure (head_branch H w target_path = Some source) merge_failed)) (\<lambda>_.
     act_bind (act_of (\<lambda>(d, w). ensure (worktree_tracked_clean H w target_path = Some True) merge_failed)) (\<lambda>_.
     act_bind (check_source H target_path source expected) (\<lambda>_.
     act_bind (read_oid_act H target_path branch) (\<lambda>worker_oid.
     act_bind (read_oid_act H target_path source) (\<lambda>source_oid.
     act_bind (if worker_oid \<noteq> source_oid
         then act_bind before_mutation (\<lambda>_. git_output_write H worktree_path [''rebase'', ''--'', source])
         else act_of (\<lambda>_. Inr ())) (\<lambda>_.
     act_bind (act_gap gap 18) (\<lambda>_.
     act_bind (check_source H target_path source expected) (\<lambda>_.
     act_bind (read_oid_act H target_path branch) (\<lambda>integrated_oid.
     act_bind (before_ref_move integrated_oid) (\<lambda>kept.
     act_bind before_mutation (\<lambda>_.
     act_bind (git_output_write H target_path [''merge'', ''--ff-only'', ''--no-overwrite-ignore'', ''--'', branch]) (\<lambda>_.
     act_of (\<lambda>_. Inr kept))))))))))))))"

definition unlocking :: "'w merge_env \<Rightarrow> string \<Rightarrow> ('w, 'a) act \<Rightarrow> ('w, 'a) act" where
  "unlocking E lock_path m = (\<lambda>s. case m s of (r, d, w) \<Rightarrow> (r, d, me_remove_dir E w lock_path))"

definition run_git_merge ::
    "'w host \<Rightarrow> 'w merge_env \<Rightarrow> (nat \<Rightarrow> run_dir \<times> 'w \<Rightarrow> run_dir \<times> 'w) \<Rightarrow> string \<Rightarrow> string \<Rightarrow> string option \<Rightarrow>
     string option \<Rightarrow> ('w, unit) act \<Rightarrow> (string \<Rightarrow> ('w, 'a) act) \<Rightarrow> ('w, 'a) act" where
  "run_git_merge H E gap worktree_path branch source expected before_mutation before_ref_move =
     act_bind (act_of (\<lambda>(d, w). merge_target H worktree_path branch source w)) (\<lambda>(target_path, src).
     act_bind (git_output_read H worktree_path [''rev-parse'', ''--path-format=absolute'', ''--git-common-dir''])
       (\<lambda>common.
     let lock_path = path_join common ''worktree-merge.lock'' in
     act_bind (act_of (\<lambda>_. lock_seconds E)) (\<lambda>seconds.
     act_bind (lock_loop E gap lock_path (me_polls E seconds)) (\<lambda>_.
     unlocking E lock_path
       (merge_locked H gap worktree_path branch target_path src expected before_mutation before_ref_move)))))"

section \<open>Transactions\<close>

definition link_json :: "caller_merge_link \<Rightarrow> json" where
  "link_json l = Object [(''intent_key'', String (ml_intent_key l)), (''intent_seq'', Number (PosInt (ml_intent_seq l))),
     (''writer_dev'', Number (PosInt (ml_writer_dev l))), (''writer_ino'', Number (PosInt (ml_writer_ino l)))]"

definition txn_json :: "ext \<Rightarrow> merge_txn \<Rightarrow> json" where
  "txn_json X t = Object
     ([(''base_sha'', opt_json String (mt_base_sha t))] @
      some_entry ''caller_authority'' link_json (mt_caller_authority t) @
      [(''driver_pid'', opt_json int_json (mt_driver_pid t))] @
      some_entry ''driver_pid_start_identity'' String (mt_driver_pid_start_identity t) @
      [(''driver_pid_start_secs'', opt_json (\<lambda>n. Number (PosInt n)) (mt_driver_pid_start_secs t)),
       (''expected_source_oid'', String (mt_expected_source_oid t))] @
      (if mt_landing t then [(''landing'', Bool True)] else []) @
      [(''op_id'', String (mt_op_id t)), (''source_branch'', String (mt_source_branch t)),
       (''started_at'', String (ser_datetime X (mt_started_at t))),
       (''worker_branch'', String (mt_worker_branch t)), (''worker_oid'', String (mt_worker_oid t))])"

record merge_start_handle =
  mh_op_id :: string
  mh_expected_source_oid :: string
  mh_worker_oid :: string

definition new_txn ::
    "'w merge_env \<Rightarrow> string \<Rightarrow> string \<Rightarrow> string \<Rightarrow> string \<Rightarrow> node \<Rightarrow> caller_merge_link option \<Rightarrow> bool \<Rightarrow> merge_txn" where
  "new_txn E source_branch worker_branch expected_source_oid worker_oid n link landing =
     \<lparr>mt_op_id = me_op_id E, mt_source_branch = source_branch, mt_worker_branch = worker_branch,
      mt_expected_source_oid = expected_source_oid, mt_worker_oid = worker_oid, mt_base_sha = n_base_sha n,
      mt_driver_pid = Some (sint (me_pid E)),
      mt_driver_pid_start_secs = pid_start_time (me_probes E) (me_pid E),
      mt_driver_pid_start_identity = pid_start_identity (me_probes E) (me_pid E),
      mt_caller_authority = link, mt_landing = landing, mt_started_at = me_now E\<rparr>"

definition record_merge_start ::
    "ext \<Rightarrow> (u64 \<Rightarrow> time) \<Rightarrow> run_id \<Rightarrow> 'w host \<Rightarrow> 'w merge_env \<Rightarrow> (nat \<Rightarrow> run_dir \<times> 'w \<Rightarrow> run_dir \<times> 'w) \<Rightarrow> node_id \<Rightarrow>
     string \<Rightarrow> string \<Rightarrow> node \<Rightarrow> string option \<Rightarrow> caller_merge_link option \<Rightarrow> bool \<Rightarrow> ('w, merge_start_handle) act" where
  "record_merge_start X clock rid H E gap nid worktree_path worker_branch n source_branch link landing =
     act_bind (act_of (\<lambda>_. ok_or merge_failed source_branch)) (\<lambda>src.
     act_bind (read_oid_act H worktree_path src) (\<lambda>expected.
     act_bind (read_oid_act H worktree_path worker_branch) (\<lambda>worker_oid.
     act_bind (act_gap gap 14) (\<lambda>_ s.
     (case append_and_apply_event X clock rid ''merge.started'' (Some nid) None
         (txn_json X (new_txn E src worker_branch expected worker_oid n link landing)) (fst s) of
        (Inl _, d') \<Rightarrow> (Inl ''merge_txn_record_failed'', d', snd s)
      | (Inr _, d') \<Rightarrow> (Inr \<lparr>mh_op_id = me_op_id E, mh_expected_source_oid = expected, mh_worker_oid = worker_oid\<rparr>,
          d', snd s))))))"

definition abort_merge_start ::
    "ext \<Rightarrow> (u64 \<Rightarrow> time) \<Rightarrow> run_id \<Rightarrow> node_id \<Rightarrow> string \<Rightarrow> string \<Rightarrow> run_dir \<times> 'w \<Rightarrow> run_dir \<times> 'w" where
  "abort_merge_start X clock rid nid op_id reason s =
     (snd (append_and_apply_event X clock rid ''merge.aborted'' (Some nid) (Some (abort_key rid nid op_id))
        (Object [(''op_id'', String op_id), (''reason'', String reason)]) (fst s)), snd s)"

section \<open>The consumer of the report\<close>

definition supervisor_probe :: "probes \<Rightarrow> pid_file \<Rightarrow> u32 option \<times> bool" where
  "supervisor_probe P f = (case classify_pid_record f of
       PidPresent pid start \<Rightarrow> (Some pid, pid_live_with_identity P pid start)
     | _ \<Rightarrow> (None, False))"

definition stale_key :: "u32 \<Rightarrow> recorded_start \<Rightarrow> string" where
  "stale_key pid start = ''stale-on-reattach:'' @ decimal (unat pid) @
     (case st_secs start of Some st \<Rightarrow> '':'' @ decimal (unat st) | None \<Rightarrow> [])"

definition spawn_supervisor ::
    "ext \<Rightarrow> (u64 \<Rightarrow> time) \<Rightarrow> run_id \<Rightarrow> 'w merge_env \<Rightarrow> (nat \<Rightarrow> run_dir \<times> 'w \<Rightarrow> run_dir \<times> 'w) \<Rightarrow> ('w, u32) act" where
  "spawn_supervisor X clock rid E gap =
     act_bind (act_of (\<lambda>_. me_admit E)) (\<lambda>_.
     act_bind (\<lambda>s. case read_pid_record (me_pid_file E (snd s)) of
         None \<Rightarrow> (Inr (), s)
       | Some (existing, start) \<Rightarrow>
           if pid_live_with_identity (me_probes E) existing start then (Inl ''supervisor_already_running'', s)
           else (Inr (), snd (append_and_apply_event X clock rid ''supervisor.exited'' None (Some (stale_key existing start))
             (Object [(''pid'', u32_json existing), (''reason'', String ''stale-on-reattach'')]) (fst s)), snd s)) (\<lambda>_.
     act_bind (act_gap gap 20) (\<lambda>_.
     act_bind (act_io (append_and_apply_event X clock rid ''supervisor.reattach-requested'' None None (Object []))) (\<lambda>_.
     act_bind (\<lambda>(d, w). case me_spawn E w of (r, w') \<Rightarrow> (r, d, w')) (\<lambda>pid.
     act_bind (act_gap gap 21) (\<lambda>_ s.
     (Inr pid, snd (append_and_apply_event X clock rid ''supervisor.reattached'' None None
        (Object [(''pid'', u32_json pid)]) (fst s)), snd s)))))))"

datatype consumer_outcome = ConsumerAlive | ConsumerTerminal | NotSupervised | Reattached "u32 option" | Deferred string

definition any_node_merged_explicitly :: "run_id \<Rightarrow> run_dir \<Rightarrow> bool" where
  "any_node_merged_explicitly rid d = (case list_nodes rid d of
       Inl _ \<Rightarrow> False
     | Inr ns \<Rightarrow> list_ex (\<lambda>n. Option.bind (n_last_report n) (\<lambda>r. get_str r ''via'') = Some VIA_EXPLICIT_MERGE) ns)"

text \<open>What is read under one lock: whether the run is over, whether teardown is due, the recorded
  supervisor, and whether there ever was one.\<close>

definition consumer_facts ::
    "ext \<Rightarrow> run_id \<Rightarrow> 'w merge_env \<Rightarrow> run_dir \<times> 'w \<Rightarrow> (bool \<times> bool \<times> bool \<times> bool) res" where
  "consumer_facts X rid E s = (case s of (d, w) \<Rightarrow>
     rbind (read_manifest_opt rid d) (\<lambda>mo.
     let terminal = (case mo of None \<Rightarrow> False | Some m \<Rightarrow> is_terminal (m_status m));
         warranted = (case mo of None \<Rightarrow> False | Some m \<Rightarrow> kind_lifecycle (m_kind m) = Autonomous)
           \<or> any_node_merged_explicitly rid d;
         live = supervisor_probe (me_probes E) (me_pid_file E w)
     in rbind (if fst live \<noteq> None then Inr True
          else rbind (read_all_events X d) (\<lambda>evs. Inr (list_ex (\<lambda>e. ev_kind e = ''supervisor.started'') evs)))
        (\<lambda>ever_supervised. Inr (terminal, warranted, snd live, ever_supervised))))"

definition ensure_report_consumer ::
    "ext \<Rightarrow> (u64 \<Rightarrow> time) \<Rightarrow> run_id \<Rightarrow> 'w merge_env \<Rightarrow> (nat \<Rightarrow> run_dir \<times> 'w \<Rightarrow> run_dir \<times> 'w) \<Rightarrow> run_dir \<times> 'w \<Rightarrow>
     consumer_outcome \<times> run_dir \<times> 'w" where
  "ensure_report_consumer X clock rid E gap s0 =
     (let s = gap 22 s0; recovery_command = ''taskfleet run reattach '' @ run_id_str rid in
      case consumer_facts X rid E s of
        Inl _ \<Rightarrow> (Deferred recovery_command, s)
      | Inr (terminal, warranted, alive, ever_supervised) \<Rightarrow>
          if alive then (ConsumerAlive, s)
          else if \<not> ever_supervised then (NotSupervised, s)
          else if terminal \<and> \<not> warranted then (ConsumerTerminal, s)
          else (case spawn_supervisor X clock rid E gap (gap 24 s) of
              (Inr pid, s') \<Rightarrow> (Reattached (if pid = 0 then None else Some pid), s')
            | (Inl code, s') \<Rightarrow>
                (if code = ''supervisor_already_running'' then ConsumerAlive else Deferred recovery_command, s')))"

section \<open>The verb\<close>

record merge_outcome =
  mo_node_id :: node_id
  mo_branch :: string
  mo_source :: "string option"
  mo_merged :: bool
  mo_report_seq :: "u64 option"
  mo_supervisor :: "consumer_outcome option"
  mo_dry_run :: bool
  mo_report_advisory_warnings :: "advisory_warning list"

definition prepared_data :: "merge_start_handle \<Rightarrow> string \<Rightarrow> json" where
  "prepared_data h oid = Object [(''expected_source_oid'', String (mh_expected_source_oid h)),
     (''integrated_oid'', String oid), (''op_id'', String (mh_op_id h)), (''worker_oid'', String (mh_worker_oid h))]"

text \<open>The callback before the ref moves: the rebased tip is evidence in the log first.\<close>

definition record_prepared ::
    "ext \<Rightarrow> (u64 \<Rightarrow> time) \<Rightarrow> run_id \<Rightarrow> (nat \<Rightarrow> run_dir \<times> 'w \<Rightarrow> run_dir \<times> 'w) \<Rightarrow> node_id \<Rightarrow> merge_start_handle \<Rightarrow>
     string \<Rightarrow> ('w, string) act" where
  "record_prepared X clock rid gap nid h oid =
     act_bind (act_gap gap 19) (\<lambda>_.
     act_bind (act_io (append_and_apply_event X clock rid ''merge.native_prepared'' (Some nid) None (prepared_data h oid)))
       (\<lambda>_. act_of (\<lambda>_. Inr oid)))"

definition merge_fresh ::
    "ext \<Rightarrow> (u64 \<Rightarrow> time) \<Rightarrow> run_id \<Rightarrow> 'w host \<Rightarrow> 'w merge_env \<Rightarrow> (nat \<Rightarrow> run_dir \<times> 'w \<Rightarrow> run_dir \<times> 'w) \<Rightarrow> node_id \<Rightarrow>
     node \<Rightarrow> string \<Rightarrow> string \<Rightarrow> string option \<Rightarrow> json \<Rightarrow> ('w, u64 \<times> consumer_outcome) act" where
  "merge_fresh X clock rid H E gap nid n worktree_path branch src report =
     act_bind (act_gap gap 13) (\<lambda>_.
     act_bind (record_merge_start X clock rid H E gap nid worktree_path branch n src None False) (\<lambda>h s.
     case run_git_merge H E gap worktree_path branch src (Some (mh_expected_source_oid h)) (act_of (\<lambda>_. Inr ()))
         (record_prepared X clock rid gap nid h) s of
       (Inl e, s') \<Rightarrow> (Inl e, abort_merge_start X clock rid nid (mh_op_id h) ''merge did not complete'' (gap 23 s'))
     | (Inr oid, s') \<Rightarrow>
         act_bind (act_gap gap 15) (\<lambda>_.
         act_bind (act_io (append_and_apply_event X clock rid ''node.report'' (Some nid) (Some (explicit_merge_key rid nid))
             (stamp (OriginRunMerge (Some (mh_op_id h)) (Some (mh_worker_oid h)) (Some oid)) report))) (\<lambda>result s2.
         case ensure_report_consumer X clock rid E gap s2 of (c, s3) \<Rightarrow> (Inr (ar_seq result, c), s3))) s'))"

definition merge_recovered ::
    "ext \<Rightarrow> (u64 \<Rightarrow> time) \<Rightarrow> run_id \<Rightarrow> 'w host \<Rightarrow> 'w lease \<Rightarrow> 'w merge_env \<Rightarrow> (nat \<Rightarrow> run_dir \<times> 'w \<Rightarrow> run_dir \<times> 'w) \<Rightarrow>
     node_id \<Rightarrow> node \<Rightarrow> string \<Rightarrow> string \<Rightarrow> string option \<Rightarrow> json \<Rightarrow> ('w, u64 option \<times> consumer_outcome) act" where
  "merge_recovered X clock rid H L E gap nid n worktree_path branch src report = (\<lambda>s.
     case recover_node X clock (me_probes E) (me_now E) rid H L gap nid s of
       (Completed, s') \<Rightarrow> (case ensure_report_consumer X clock rid E gap s' of (c, s'') \<Rightarrow> (Inr (None, c), s''))
     | (DriverAlive, s') \<Rightarrow> (Inl ''merge_in_progress'', s')
     | (RecoveryCannotVerify, s') \<Rightarrow> (Inl ''merge_recovery_unverifiable'', s')
     | (_, s') \<Rightarrow>
         act_bind (merge_fresh X clock rid H E gap nid n worktree_path branch src report)
           (\<lambda>(seq, c). act_of (\<lambda>_. Inr (Some seq, c))) s')"

definition execute ::
    "ext \<Rightarrow> (u64 \<Rightarrow> time) \<Rightarrow> run_id \<Rightarrow> 'w host \<Rightarrow> 'w lease \<Rightarrow> 'w merge_env \<Rightarrow> (nat \<Rightarrow> run_dir \<times> 'w \<Rightarrow> run_dir \<times> 'w) \<Rightarrow>
     merge_args \<Rightarrow> ('w, merge_outcome) act" where
  "execute X clock rid H L E gap args =
     act_bind (act_of (\<lambda>_. parse_node_id (unwrap_or DEFAULT_NODE_ID (ma_node_id args)))) (\<lambda>nid.
     act_bind (act_of (\<lambda>_. case ma_source args of
         None \<Rightarrow> Inr None | Some s \<Rightarrow> rbind (require_nonempty s) (\<lambda>t. Inr (Some t)))) (\<lambda>source.
     act_bind (act_of (\<lambda>(d, w). merge_manifest rid d)) (\<lambda>m.
     act_bind (act_gap gap 10) (\<lambda>_.
     act_bind (act_of (\<lambda>(d, w). merge_node rid nid d)) (\<lambda>(n, worktree_path, branch).
     act_bind (act_of (\<lambda>_. ensure (m_status m \<noteq> Cancelled) ''run_already_terminal'')) (\<lambda>_.
     act_bind (worktree_guard rid E gap m worktree_path (ma_dry_run args)) (\<lambda>_.
     act_bind (act_of (\<lambda>(d, w). Inr (effective_source H source m worktree_path w))) (\<lambda>src.
     act_bind (act_of (\<lambda>_. build_report X (ma_report_file args) branch src)) (\<lambda>(report, warnings).
     let outcome = \<lparr>mo_node_id = nid, mo_branch = branch, mo_source = src, mo_merged = False, mo_report_seq = None,
           mo_supervisor = None, mo_dry_run = True, mo_report_advisory_warnings = warnings\<rparr> in
     if ma_dry_run args then
       act_bind (act_of (\<lambda>(d, w). validate_dry_run_target H worktree_path src w)) (\<lambda>_. act_of (\<lambda>_. Inr outcome))
     else
       act_bind (act_of (\<lambda>_. if m_resident m \<noteq> None then me_resident_lock E else Inr ())) (\<lambda>_.
       act_bind (act_gap gap 12) (\<lambda>_.
       act_bind (merge_recovered X clock rid H L E gap nid n worktree_path branch src report) (\<lambda>(seq, c).
       act_of (\<lambda>_. Inr (outcome\<lparr>mo_merged := True, mo_report_seq := seq, mo_supervisor := Some c,
         mo_dry_run := False\<rparr>))))))))))))))"

end
