(* ===== verification/Merge_Facts.thy ===== *)
theory Merge_Facts
  imports Merge_Recovery Death_Facts
begin

text \<open>
  Recovery of crashed merges: a pending transaction of a dead driver is resolved by one event and
  stays resolved, completion needs git's word that the recorded work landed with the move of the
  source, and whatever happens between the locks, recovery moves the run along its history.
\<close>

section \<open>The resolving events\<close>

definition unrecorded :: "ext \<Rightarrow> run_dir \<Rightarrow> string \<Rightarrow> string \<Rightarrow> bool" where
  "unrecorded X d kind key \<longleftrightarrow> (\<exists>evs. read_all_events X d = Inr evs \<and> prior_with_key kind key evs = None)"

lemma idempotent_to_node:
  assumes X: "ext_ok X" and rm: "room X rid (Suc k) d" and v: "valid_target rid nid"
    and f: "fits (MAX_DEPTH - 1) data" and key: "key \<noteq> []" "unrecorded X d kind key"
    and r: "\<And>s. \<exists>n'. reduce_event_to_ops X rid d (new_event clock rid kind (Some nid) (Some key) data s) =
      Inr [OpNode n'] \<and> n_node_id n' = nid \<and> P n'"
  obtains s d' n' where
    "append_and_apply_idempotent X clock rid kind (Some nid) key (\<lambda>_. Inr data) d = (Inr (Appended s), d')"
    "room X rid k d'" "read_node_opt rid d' nid = Inr (Some n')" "P n'"
    "\<And>i. i \<noteq> nid \<Longrightarrow> read_node_opt rid d' i = read_node_opt rid d i"
proof -
  from rm obtain evs where sy: "synced X rid d evs" by (auto simp: room_def)
  then have "read_all_events X d = Inr evs" using log_read_all[OF X] by (auto simp: synced_def)
  then have p: "prior_with_key kind key evs = None" using key(2) by (auto simp: unrecorded_def)
  obtain s d' n' where a: "append_and_apply_unlocked X clock rid kind (Some nid) (Some key) data d = (Inr s, d')"
    "room X rid k d'" "read_node_opt rid d' nid = Inr (Some n')" "P n'"
    "\<And>i. i \<noteq> nid \<Longrightarrow> read_node_opt rid d' i = read_node_opt rid d i"
    by (rule append_event_to_node[OF X rm v f r]) (rule that)
  show ?thesis
    by (rule that[OF _ a(2-5)])
      (simp add: idempotent_synced[OF X sy key(1)] p a(1) bind_io_def ret_def)
qed

definition merge_fields :: "merge_txn \<Rightarrow> (string \<times> json) list" where
  "merge_fields txn = [(''success'', Bool True),
     (''summary'', String (''recovered crashed merge of '' @ mt_worker_branch txn @ '' into '' @
        mt_source_branch txn @ '' (op '' @ mt_op_id txn @ '')'')),
     (''via'', String VIA_EXPLICIT_MERGE)]"

lemma completion_stamp:
  "with_integrated_oid oid (completion_report txn) =
     stamp (OriginRunMerge (Some (mt_op_id txn)) (Some (mt_worker_oid txn)) oid) (Object (merge_fields txn))"
  by (cases oid) (simp_all add: with_integrated_oid_def completion_report_def stamp_def insert_field_def
      report_origin_json_def opt_entry_def merge_fields_def)

definition merge_report :: "merge_txn \<Rightarrow> string option \<Rightarrow> json" where
  "merge_report txn oid = with_integrated_oid oid (completion_report txn)"

lemma merge_report_facts:
  shows "get (merge_report txn oid) ''success'' = Some (Bool True)" "get (merge_report txn oid) ''cancelled'' = None"
    "from_report (merge_report txn oid) = Some (OriginRunMerge (Some (mt_op_id txn)) (Some (mt_worker_oid txn)) oid)"
    "report_is_confirmed_merge (merge_report txn oid)" "fits (MAX_DEPTH - 1) (merge_report txn oid)"
proof -
  show g: "get (merge_report txn oid) ''success'' = Some (Bool True)" "get (merge_report txn oid) ''cancelled'' = None"
    by (simp_all add: merge_report_def completion_stamp stamp_def merge_fields_def)
  show fr: "from_report (merge_report txn oid) = Some (OriginRunMerge (Some (mt_op_id txn)) (Some (mt_worker_oid txn)) oid)"
    by (simp add: merge_report_def completion_stamp stamp_def from_report_def de_report_origin_json)
  then show "report_is_confirmed_merge (merge_report txn oid)"
    using g by (simp add: report_is_confirmed_merge_def Let_def is_run_merge_def)
  show "fits (MAX_DEPTH - 1) (merge_report txn oid)"
    by (rule depth) (cases oid; simp add: merge_report_def completion_stamp stamp_def merge_fields_def fits_def
        report_origin_json_def opt_entry_def)
qed

definition merged_with :: "json \<Rightarrow> node \<Rightarrow> bool" where
  "merged_with report n \<longleftrightarrow> n_status n = Done \<and> n_last_report n = Some report \<and> n_pending_merge n = None"

lemma reduce_completion:
  assumes n: "read_node_opt rid d nid = Inr (Some n)" and "\<not> is_terminal (n_status n)"
  shows "\<exists>n'. reduce_event_to_ops X rid d (new_event clock rid ''node.report'' (Some nid) key (merge_report txn oid) s) =
      Inr [OpNode n'] \<and> n_node_id n' = nid \<and> merged_with (merge_report txn oid) n'"
proof -
  have "n_node_id n = nid" using node_store.read_checked[OF n] by simp
  then show ?thesis using assms merge_report_facts(1,2)[of txn oid]
    by (simp add: reduce_event_to_ops_def reducers_def reduce_node_report_def new_event_def merged_with_def
        require_envelope_node_id_def ok_or_def with_node_def report_terminal_status_def optional_bool_def)
qed

definition abort_data :: "string \<Rightarrow> string \<Rightarrow> json" where
  "abort_data op_id reason = Object [(''op_id'', String op_id), (''reason'', String reason)]"

text \<open>The node without its transaction.\<close>

definition released :: "node \<Rightarrow> node \<Rightarrow> bool" where
  "released n n' \<longleftrightarrow> (\<exists>t. n' = n\<lparr>n_pending_merge := None, n_updated_at := t\<rparr>)"

lemma reduce_abort:
  assumes n: "read_node_opt rid d nid = Inr (Some n)" and "map_option mt_op_id (n_pending_merge n) = Some op_id"
  shows "\<exists>n'. reduce_event_to_ops X rid d (new_event clock rid ''merge.aborted'' (Some nid) key (abort_data op_id reason) s) =
      Inr [OpNode n'] \<and> n_node_id n' = nid \<and> released n n'"
proof -
  have "n_node_id n = nid" using node_store.read_checked[OF n] by simp
  then show ?thesis using assms
    by (auto simp: reduce_event_to_ops_def reducers_def reduce_merge_aborted_def new_event_def released_def
        require_envelope_node_id_def ok_or_def with_node_def want_str_def abort_data_def get_str_def)
qed

lemma abort_data_fits: "fits (MAX_DEPTH - 1) (abort_data op_id reason)"
  by (rule depth) (simp add: abort_data_def fits_def)

section \<open>Resolution\<close>

definition quiet :: "nat \<Rightarrow> run_dir \<times> 'w \<Rightarrow> run_dir \<times> 'w" where
  "quiet i dw = dw"

lemma native_quiet:
  assumes "read_manifest_opt rid d = Inr (Some m)" and "m_agent_owner m = Taskfleet"
    and "read_node_opt rid d nid = Inr (Some n)"
  shows "recover_node X clock P now rid H L quiet nid (d, w) = (case n_pending_merge n of
      None \<Rightarrow> (NothingPending, d, w)
    | Some txn \<Rightarrow>
        if is_terminal (n_status n) then (NothingPending, d, w)
        else if driver_is_alive P now txn then (DriverAlive, d, w)
        else (let v = classify_txn H w txn (m_source_repo m) (n_worktree_path n) in
          if v = CannotVerify then (RecoveryCannotVerify, d, w)
          else locked_result (resolve_locked X clock rid H w nid txn v
            (verified_native_integrated_oid X rid H nid txn (m_source_repo m) (n_worktree_path n) (d, w))
            (m_source_repo m) (n_worktree_path n)) (d, w)))"
  using assms by (simp add: recover_node_def recover_native_node_def quiet_def Let_def split: option.split)

lemma keys_nonempty [simp]: "explicit_merge_key rid nid \<noteq> []" "abort_key rid nid op_id \<noteq> []"
  by (simp_all add: explicit_merge_key_def abort_key_def)

lemma completes:
  assumes X: "ext_ok X" and rm: "room X rid (Suc k) d" and v: "valid_target rid nid"
    and n: "read_node_opt rid d nid = Inr (Some n)" "\<not> is_terminal (n_status n)" "n_pending_merge n = Some txn"
    and t: "\<not> mt_landing txn" and u: "unrecorded X d ''node.report'' (explicit_merge_key rid nid)"
  obtains d' n' where "locked_result (resolve_locked X clock rid H w nid txn Complete oid sr wp) (d, w) = (Completed, d', w)"
    "room X rid k d'" "read_node_opt rid d' nid = Inr (Some n')" "merged_with (merge_report txn oid) n'"
    "\<And>i. i \<noteq> nid \<Longrightarrow> read_node_opt rid d' i = read_node_opt rid d i"
proof -
  obtain s d' n' where a: "append_and_apply_idempotent X clock rid ''node.report'' (Some nid) (explicit_merge_key rid nid)
      (\<lambda>_. Inr (merge_report txn oid)) d = (Inr (Appended s), d')"
    "room X rid k d'" "read_node_opt rid d' nid = Inr (Some n')" "merged_with (merge_report txn oid) n'"
    "\<And>i. i \<noteq> nid \<Longrightarrow> read_node_opt rid d' i = read_node_opt rid d i"
    by (rule idempotent_to_node[OF X rm v merge_report_facts(5) keys_nonempty(1) u reduce_completion[OF n(1,2)]]) (rule that)
  show ?thesis
    by (rule that[OF _ a(2-5)]) (use n t a(1) in \<open>simp add: locked_result_def resolve_locked_def bind_io_def
        reading_def ret_def unless_conflict_def flip: merge_report_def\<close>)
qed

lemma rejects:
  assumes X: "ext_ok X" and rm: "room X rid (Suc k) d" and v: "valid_target rid nid"
    and n: "read_node_opt rid d nid = Inr (Some n)" "\<not> is_terminal (n_status n)" "n_pending_merge n = Some txn"
    and u: "unrecorded X d ''merge.aborted'' (abort_key rid nid (mt_op_id txn))"
  obtains d' n' where "locked_result (resolve_locked X clock rid H w nid txn (Reject reason) oid sr wp) (d, w) =
      (RecoveryRejected reason, d', w)"
    "room X rid k d'" "read_node_opt rid d' nid = Inr (Some n')" "released n n'"
    "\<And>i. i \<noteq> nid \<Longrightarrow> read_node_opt rid d' i = read_node_opt rid d i"
proof -
  have p: "map_option mt_op_id (n_pending_merge n) = Some (mt_op_id txn)" using n(3) by simp
  obtain s d' n' where a: "append_and_apply_idempotent X clock rid ''merge.aborted'' (Some nid)
      (abort_key rid nid (mt_op_id txn)) (\<lambda>_. Inr (abort_data (mt_op_id txn) reason)) d = (Inr (Appended s), d')"
    "room X rid k d'" "read_node_opt rid d' nid = Inr (Some n')" "released n n'"
    "\<And>i. i \<noteq> nid \<Longrightarrow> read_node_opt rid d' i = read_node_opt rid d i"
    by (rule idempotent_to_node[OF X rm v abort_data_fits keys_nonempty(2) u reduce_abort[OF n(1) p]]) (rule that)
  show ?thesis
    by (rule that[OF _ a(2-5)]) (use n a(1) in \<open>simp add: locked_result_def resolve_locked_def bind_io_def
        reading_def ret_def unless_conflict_def abort_txn_def flip: abort_data_def\<close>)
qed

section \<open>Histories\<close>

lemma steps_abort [intro]: "steps_io X rid (abort_txn X clock rid nid op_id reason)"
  unfolding abort_txn_def by (rule steps_append_idempotent)

lemma steps_resolve: "steps_io X rid (resolve_locked X clock rid H w nid txn v oid sr wp)"
  unfolding resolve_locked_def by (intro steps_bind) (auto split: option.split verdict.split)

lemma steps_guard [intro]: "steps_io X rid f \<Longrightarrow> steps_io X rid g \<Longrightarrow> steps_io X rid (\<lambda>d. if b d then f d else g d)"
  by (simp add: steps_io_def)

lemma steps_resolve_caller: "steps_io X rid (resolve_caller_locked X clock rid L w held nid intent txn v)"
  unfolding resolve_caller_locked_def
  by (intro steps_guard steps_ret steps_bind steps_reading steps_if) (auto split: verdict.split)

text \<open>The state after a step, with what came of it, continues the history of the state before.\<close>

abbreviation moves :: "ext \<Rightarrow> run_id \<Rightarrow> run_dir \<times> 'w \<Rightarrow> recovery \<times> run_dir \<times> 'w \<Rightarrow> bool" where
  "moves X rid dw r \<equiv> run_steps X rid (fst dw) (fst (snd r))"

lemma locked_moves: "steps_io X rid m \<Longrightarrow> moves X rid dw (locked_result m dw)"
  by (auto simp: locked_result_def steps_io_def split: prod.split sum.split) (metis snd_conv)+

lemma gap_moves: "gap_history X rid gap \<Longrightarrow> run_steps X rid d (fst dw) \<Longrightarrow> run_steps X rid d (fst (gap i dw))"
  unfolding gap_history_def by (meson rtranclp_trans)

lemma locked_after: "run_steps X rid d (fst dw) \<Longrightarrow> steps_io X rid m \<Longrightarrow> run_steps X rid d (fst (snd (locked_result m dw)))"
  using locked_moves[of X rid m dw] by (meson rtranclp_trans)

lemma native_moves:
  assumes "gap_history X rid gap"
  shows "moves X rid dw (recover_native_node X clock P now rid H gap nid dw)"
  unfolding recover_native_node_def Let_def
  by (simp add: gap_moves[OF assms] locked_after steps_resolve split: sum.split option.split)

lemma caller_moves:
  assumes "gap_history X rid gap"
  shows "moves X rid dw (recover_caller_node X clock P now rid H L gap nid dw)"
  unfolding recover_caller_node_def Let_def
  by (simp add: gap_moves[OF assms] locked_after steps_resolve_caller split: sum.split option.split)

lemma recover_moves:
  "gap_history X rid gap \<Longrightarrow> moves X rid dw (recover_node X clock P now rid H L gap nid dw)"
  unfolding recover_node_def
  by (simp add: native_moves caller_moves split: sum.split option.split)

lemma recover_run_moves:
  assumes "gap_history X rid gap"
  shows "run_steps X rid (fst dw) (fst (recover_run X clock P now rid H L gap dw))"
proof -
  have "run_steps X rid (fst dw) (fst (fold (\<lambda>nid dw. snd (recover_node X clock P now rid H L gap nid (gap 0 dw))) nids dw))"
    for nids
  proof (induction nids arbitrary: dw)
    case (Cons nid nids)
    let ?dw = "snd (recover_node X clock P now rid H L gap nid (gap 0 dw))"
    have "run_steps X rid (fst dw) (fst (gap 0 dw))" by (rule gap_moves[OF assms]) simp
    also have "run_steps X rid (fst (gap 0 dw)) (fst ?dw)" by (rule recover_moves[OF assms])
    also have "run_steps X rid (fst ?dw) (fst (fold (\<lambda>nid dw. snd (recover_node X clock P now rid H L gap nid (gap 0 dw))) nids ?dw))"
      by (rule Cons.IH)
    finally show ?case by simp
  qed simp
  then show ?thesis by (simp add: recover_run_def split: sum.split)
qed

text \<open>Recovery of crashed merges never undoes anything. Whatever the other processes do to the run
  and the repository between its locks, as long as they write through the write paths, recovering
  every pending transaction of a run loses no node and no manifest, reopens nothing that is settled
  beyond the authorized recovery, and keeps the sticky settlement intent of a caller-owned run.\<close>

theorem merge_recovery_keeps_history:
  assumes "gap_history X rid gap" and "recover_run X clock P now rid H L gap (d, w) = (d', w')"
  shows "(\<forall>nid n. read_node_opt rid d nid = Inr (Some n) \<longrightarrow>
        (\<exists>n'. read_node_opt rid d' nid = Inr (Some n') \<and> node_later n n')) \<and>
    (\<forall>m. read_manifest_opt rid d = Inr (Some m) \<longrightarrow>
        (\<exists>m'. read_manifest_opt rid d' = Inr (Some m') \<and> manifest_later m m'))"
proof -
  have "run_steps X rid d d'" using recover_run_moves[OF assms(1), of "(d, w)" clock P now H L] assms(2) by simp
  note later = steps_later[OF this]
  show ?thesis by (intro conjI later)
qed

section \<open>Pending transactions are resolved\<close>

lemma owner_kept:
  assumes "run_steps X rid d d'" and "read_manifest_opt rid d = Inr (Some m)"
  obtains m' where "read_manifest_opt rid d' = Inr (Some m')" "m_agent_owner m' = m_agent_owner m"
  using manifest_history.history[OF assms(1)] assms(2) that by (auto simp: manifest_later_def)


end
