(* ===== verification/Telemetry_Facts.thy ===== *)
theory Telemetry_Facts
  imports Telemetry Death_Facts
begin

text \<open>
  Telemetry is bounded, advisory and honest about its age: whatever the sample file holds, a read
  returns validated metadata and an age within the freshness window when it calls a sample current;
  an accepted update is what the next read returns.
\<close>

section \<open>The sample codec\<close>

lemma de_telemetry_state_name: "de_telemetry_state (String (telemetry_state_name s)) = Some s"
  by (cases s) (simp_all add: telemetry_state_name_def de_telemetry_state_def enum_variant_def)

lemma unat_widen:
  assumes "LENGTH('a) \<le> LENGTH('b)"
  shows "unat (ucast (w :: 'a::len word) :: 'b::len word) = unat w"
proof -
  have "(2 :: nat) ^ LENGTH('a) \<le> 2 ^ LENGTH('b)" using assms by (intro power_increasing) auto
  with unsigned_less[of w] have "unat w < 2 ^ LENGTH('b)" by (rule order_less_le_trans)
  then show ?thesis by (simp add: unsigned_ucast_eq take_bit_nat_eq_self)
qed

lemma narrow_widen:
  assumes "LENGTH('a) \<le> LENGTH('b)"
  shows "ucast (ucast (w :: 'a::len word) :: 'b::len word) = w"
proof -
  have "unat (ucast (ucast w :: 'b word) :: 'a word) = take_bit LENGTH('a) (unat w)"
    by (simp only: unsigned_ucast_eq[of "ucast w :: 'b word"] unat_widen[OF assms])
  then show ?thesis using unsigned_less[of w] by (intro unsigned_word_eqI[where 'a = nat]) (simp add: take_bit_nat_eq_self)
qed

lemma de_u32_json: "de_u32 (u32_json n) = Some n"
  using unsigned_less[of n] by (simp add: de_u32_def u32_json_def try_u32_def unat_widen narrow_widen)

lemma de_u8_json: "de_u8 (Number (PosInt (ucast (c :: u8)))) = Some c"
  using unsigned_less[of c] by (simp add: de_u8_def unat_widen narrow_widen)

lemma sample_json_roundtrip:
  assumes "ext_ok X" and "valid_target (ss_run_id s) (ss_node_id s)"
  shows "de_stored_sample X (sample_json X s) = Some s"
proof -
  have id: "de_run_id (String (run_id_str (ss_run_id s))) = Some (ss_run_id s)"
    "de_node_id (String (node_id_str (ss_node_id s))) = Some (ss_node_id s)"
    using assms(2) by (simp_all add: valid_target_def de_run_id_def de_node_id_def)
  show ?thesis
    by (cases "ss_active_tool_count s"; cases "ss_tool_name s")
      (simp_all add: sample_json_def de_stored_sample_def strict_fields_def update_fields_def some_entry_def
        req_def optional_def de_option_def de_u32_json de_u8_json de_telemetry_state_name id de_datetime_def
        ext_ok_time[OF assms(1)] de_string_def)
qed

lemma sample_json_exact: "wf_json (sample_json X s) \<and> exact_json MAX_DEPTH (sample_json X s)"
  by (cases "ss_active_tool_count s"; cases "ss_tool_name s")
    (simp_all add: sample_json_def some_entry_def u32_json_def MAX_DEPTH_def)


section \<open>Views\<close>

text \<open>Chrono's checked addition adds, when it answers.\<close>

definition adds :: "chrono_ops \<Rightarrow> bool" where
  "adds C \<longleftrightarrow> (\<forall>t dur t'. checked_add_signed C t dur = Some t' \<longrightarrow> t' = t + dur)"

definition metadata_ok :: "telemetry_view \<Rightarrow> bool" where
  "metadata_ok v \<longleftrightarrow>
     (tv_state v \<noteq> Some ToolRunning \<longrightarrow> tv_active_tool_count v = None \<and> tv_tool_name v = None) \<and>
     (\<forall>c. tv_active_tool_count v = Some c \<longrightarrow> 1 \<le> unat c \<and> unat c \<le> 32) \<and>
     (\<forall>t. tv_tool_name v = Some t \<longrightarrow> tv_active_tool_count v = Some 1 \<and> t \<noteq> [] \<and> length t \<le> 64)"

lemma validated_metadata:
  assumes "validate_metadata (ss_state s) (ss_active_tool_count s) (ss_tool_name s) = Inr ()"
  shows "metadata_ok (classify_sample s now)"
proof -
  have w: "1 \<le> unat c \<and> unat c \<le> 32" if "1 \<le> c" "c \<le> 32" for c :: u8
    using that by (simp add: word_le_nat_alt)
  show ?thesis using assms
    by (auto simp: validate_metadata_def metadata_ok_def classify_sample_def Let_def valid_tool_name_def
        split: if_splits option.splits dest: w)
qed

lemma bare_metadata: "metadata_ok (bare_view s)" "tv_sample (bare_view s) = s"
  by (simp_all add: metadata_ok_def bare_view_def)

lemma current_age:
  assumes "adds C" and "valid_stored_shape C rid nid s" and "tv_sample (classify_sample s now) = SampleCurrent"
  shows "\<exists>ms. tv_age_ms (classify_sample s now) = Some ms \<and> 0 \<le> ms \<and> ms < TELEMETRY_FRESHNESS_SECS * 1000"
proof -
  from assms(1,2) have "ss_expires_at s = ss_received_at s + freshness" by (auto simp: valid_stored_shape_def adds_def)
  with assms(3) show ?thesis
    by (auto simp: classify_sample_def Let_def millis_def freshness_def TELEMETRY_FRESHNESS_SECS_def split: if_splits)
qed

text \<open>C36: what a telemetry read shows is bounded, whatever the sample file holds. For any directory and
  any bytes in it, a read that answers shows tool metadata only for a running tool, a tool count
  between 1 and 32 and a tool name of 1 to 64 characters only with a count of one; a sample it calls
  current is at least zero and less than ninety seconds old, and a sample of another attempt than
  the node's is never shown.\<close>

theorem telemetry_view_bounds:
  assumes "adds C" and "read_telemetry X C rid nid now d td = Inr v"
  shows "metadata_ok v \<and>
    (tv_sample v = SampleCurrent \<longrightarrow> (\<exists>ms. tv_age_ms v = Some ms \<and> 0 \<le> ms \<and> ms < 90000)) \<and>
    (\<forall>a. tv_attempt v = Some a \<longrightarrow> (\<exists>n. read_node rid d nid = Inr n \<and> n_retry_attempts n = a))"
proof -
  from assms(2) have "read_telemetry_locked X C rid nid now d td = Inr v"
    by (auto simp: read_telemetry_def core_res_def res_simps split: sum.splits if_splits)
  then obtain n sr where n: "read_node rid d nid = Inr n" and v: "v = (case sr of
        StoredAbsent \<Rightarrow> bare_view SampleAbsent
      | StoredCorrupt \<Rightarrow> bare_view SampleInvalid
      | StoredValid s \<Rightarrow>
          if \<not> valid_stored_shape C rid nid s then bare_view SampleInvalid
          else if ss_attempt s \<noteq> n_retry_attempts n then bare_view SampleAbsent
          else classify_sample s now)"
    by (auto simp: read_telemetry_locked_def res_simps split: sum.splits)
  show ?thesis
  proof (cases "\<exists>s. sr = StoredValid s \<and> valid_stored_shape C rid nid s \<and> ss_attempt s = n_retry_attempts n")
    case True
    then obtain s where s: "sr = StoredValid s" "valid_stored_shape C rid nid s" "ss_attempt s = n_retry_attempts n" by blast
    then have e: "v = classify_sample s now" by (simp add: v)
    have "metadata_ok v" unfolding e by (rule validated_metadata) (use s(2) in \<open>simp add: valid_stored_shape_def\<close>)
    moreover have "tv_sample v = SampleCurrent \<longrightarrow> (\<exists>ms. tv_age_ms v = Some ms \<and> 0 \<le> ms \<and> ms < 90000)"
      unfolding e using current_age[OF assms(1) s(2)] by (simp add: TELEMETRY_FRESHNESS_SECS_def)
    moreover have "tv_attempt v = Some (n_retry_attempts n)" by (simp add: e classify_sample_def Let_def s(3))
    ultimately show ?thesis using n by auto
  next
    case False
    then have "v = bare_view SampleAbsent \<or> v = bare_view SampleInvalid"
      by (auto simp: v split: stored_read.split)
    then show ?thesis by (auto simp: bare_metadata) (simp_all add: bare_view_def)
  qed
qed

section \<open>Updates\<close>

lemma written_sample:
  assumes X: "ext_ok X" and v: "valid_target (ss_run_id s) (ss_node_id s)"
    and "length (json_to_vec X (sample_json X s)) \<le> TELEMETRY_MAX_BYTES"
  shows "read_stored X (write_sample (json_to_vec X (sample_json X s)) nid td) nid = Inr (StoredValid s)"
  using assms sample_json_exact[of X s]
  by (simp add: read_stored_def write_sample_def map_of_AList_update sample_json_roundtrip ext_ok_json)

lemma update_accepted:
  assumes "update_telemetry X C rid lock u now d td = (Inr a, td')"
  obtains n expires_at prior where "update_target X rid lock u d = Inr n"
    "checked_add_signed C now freshness = Some expires_at"
    "checked_telemetry_file d td (tu_node_id u) = Inr ()" "read_stored X td (tu_node_id u) = Inr prior"
    "length (json_to_vec X (sample_json X (next_sample C rid u prior now expires_at))) \<le> TELEMETRY_MAX_BYTES"
    "td' = write_sample (json_to_vec X (sample_json X (next_sample C rid u prior now expires_at))) (tu_node_id u) td"
    "a = \<lparr>ta_accepted = True, ta_run_id = tu_run_id u, ta_node_id = tu_node_id u, ta_attempt = tu_attempt u,
       ta_received_at = now, ta_expires_at = expires_at\<rparr>"
  using assms
  by (auto simp: update_telemetry_def Let_def ensure_size_def res_simps split: sum.splits option.splits if_splits)

lemma update_target_facts:
  assumes "update_target X rid lock u d = Inr n"
  shows "validate_metadata (tu_state u) (tu_active_tool_count u) (tu_tool_name u) = Inr ()" "tu_run_id u = rid"
    "canonical_projections_current X rid d = Inr True" "read_node_opt rid d (tu_node_id u) = Inr (Some n)"
    "\<not> is_terminal (n_status n)" "n_retry_attempts n = tu_attempt u"
  using assms
  by (auto simp: update_target_def validate_update_shape_def core_res_def res_simps
      split: sum.splits option.splits if_splits)

lemma read_node_of_opt: "read_node_opt rid d nid = Inr (Some n) \<Longrightarrow> read_node rid d nid = Inr n"
  by (auto simp: read_node_opt_def read_node_def res_simps ok_or_def split: sum.splits option.splits)

text \<open>C35: an accepted update is what the next read returns. The read shows exactly the state, attempt
  and metadata of the request; measured from the time of receipt it is current until the expiry
  that was answered, stale from then on, and flagged when the reading clock is behind; the state
  counts as held since its first report in this attempt. The update touched no other node's sample.\<close>

theorem telemetry_reads_back:
  assumes "ext_ok X" and "adds C" and "valid_target rid (tu_node_id u)"
    and "update_telemetry X C rid lock u now d td = (Inr a, td')"
  shows "ta_expires_at a = now + 90 * 1000000000 \<and>
    (\<exists>since. (since = now \<or> (\<exists>s. read_stored X td (tu_node_id u) = Inr (StoredValid s) \<and> since = ss_state_since s \<and>
         ss_attempt s = tu_attempt u \<and> ss_state s = tu_state u)) \<and>
       (\<forall>t. read_telemetry X C rid (tu_node_id u) t d td' = Inr
         \<lparr>tv_sample = (if t < now \<or> t < since then ClockUnreliable
            else if t < ta_expires_at a then SampleCurrent else SampleStale),
          tv_state = Some (tu_state u),
          tv_age_ms = (if t < now \<or> t < since then None else Some ((t - now) div 1000000)),
          tv_state_elapsed_ms = (if t < now \<or> t < since then None else Some ((t - since) div 1000000)),
          tv_attempt = Some (tu_attempt u), tv_active_tool_count = tu_active_tool_count u,
          tv_tool_name = tu_tool_name u\<rparr>)) \<and>
    (\<forall>k. k \<noteq> node_id_str (tu_node_id u) \<longrightarrow> map_of (td_files td') k = map_of (td_files td) k)"
proof -
  obtain n expires_at prior where u: "update_target X rid lock u d = Inr n"
    "checked_add_signed C now freshness = Some expires_at"
    "checked_telemetry_file d td (tu_node_id u) = Inr ()" "read_stored X td (tu_node_id u) = Inr prior"
    "length (json_to_vec X (sample_json X (next_sample C rid u prior now expires_at))) \<le> TELEMETRY_MAX_BYTES"
    "td' = write_sample (json_to_vec X (sample_json X (next_sample C rid u prior now expires_at))) (tu_node_id u) td"
    "ta_expires_at a = expires_at"
    by (rule update_accepted[OF assms(4)]) simp
  let ?s = "next_sample C rid u prior now expires_at"
  note f = update_target_facts[OF u(1)]
  have exp: "expires_at = now + 90 * 1000000000"
    using assms(2) u(2) by (auto simp: adds_def freshness_def TELEMETRY_FRESHNESS_SECS_def)
  have s: "ss_run_id ?s = rid" "ss_node_id ?s = tu_node_id u" "ss_attempt ?s = tu_attempt u"
    using f(2) by (simp_all add: next_sample_def)
  have shape: "valid_stored_shape C rid (tu_node_id u) ?s"
    using f(1,2) u(2) by (simp add: valid_stored_shape_def next_sample_def)
  have stored: "read_stored X td' (tu_node_id u) = Inr (StoredValid ?s)"
    unfolding u(6) by (rule written_sample[OF assms(1)]) (use assms(3) s u(5) in simp_all)
  have chk: "checked_telemetry_file d td' (tu_node_id u) = Inr ()"
    using u(3) by (auto simp: u(6) write_sample_def checked_telemetry_file_def reject_symlink_def map_of_AList_update
        res_simps split: sum.splits if_splits)
  have "read_telemetry X C rid (tu_node_id u) t d td' = Inr (classify_sample ?s t)" for t
    using f(3,6) read_node_of_opt[OF f(4)] chk stored shape s(3)
    by (simp add: read_telemetry_def core_res_def read_telemetry_locked_def)
  moreover have "ss_state_since ?s = now \<or> (\<exists>s. read_stored X td (tu_node_id u) = Inr (StoredValid s) \<and>
      ss_state_since ?s = ss_state_since s \<and> ss_attempt s = tu_attempt u \<and> ss_state s = tu_state u)"
    using u(4) by (cases prior) (auto simp: next_sample_def)
  moreover have "map_of (td_files td') k = map_of (td_files td) k" if "k \<noteq> node_id_str (tu_node_id u)" for k
    using that by (simp add: u(6) write_sample_def map_of_AList_update)
  ultimately show ?thesis
    using exp u(7) by (intro conjI exI[of _ "ss_state_since ?s"])
      (auto simp: classify_sample_def Let_def next_sample_def millis_def)
qed

section \<open>Sequences of requests\<close>

definition bounded_samples :: "telemetry_dir \<Rightarrow> bool" where
  "bounded_samples td \<longleftrightarrow> (\<forall>k bs. map_of (td_files td) k = Some (Contents bs) \<longrightarrow> length bs \<le> 4096)"

text \<open>A request with the lock, the clock and the run it meets.\<close>

type_synonym request = "unit res \<times> telemetry_update \<times> time \<times> run_dir"

definition after_request :: "ext \<Rightarrow> chrono_ops \<Rightarrow> run_id \<Rightarrow> request \<Rightarrow> telemetry_dir \<Rightarrow> telemetry_dir" where
  "after_request X C rid q td = (case q of (lock, u, now, d) \<Rightarrow> snd (update_telemetry X C rid lock u now d td))"

lemma refused_unchanged: "update_telemetry X C rid lock u now d td = (Inl e, td') \<Longrightarrow> td' = td"
  by (auto simp: update_telemetry_def Let_def split: sum.splits option.splits)

lemma update_bounded:
  assumes "bounded_samples td"
  shows "bounded_samples (snd (update_telemetry X C rid lock u now d td))"
proof (cases "update_telemetry X C rid lock u now d td")
  case (Pair r td')
  show ?thesis
  proof (cases r)
    case (Inl e)
    with Pair refused_unchanged assms show ?thesis by fastforce
  next
    case (Inr a)
    obtain bs where bs: "length bs \<le> TELEMETRY_MAX_BYTES" "td' = write_sample bs (tu_node_id u) td"
      by (rule update_accepted[OF Pair[unfolded Inr]]) blast
    then show ?thesis using assms Pair
      by (auto simp: bounded_samples_def write_sample_def map_of_AList_update TELEMETRY_MAX_BYTES_def split: if_splits)
  qed
qed

text \<open>Telemetry never grows and never answers for a closed or restarted worker. Over any sequence of
  requests, accepted or not, every sample file stays within four KiB; the next request, if it is
  refused, changes no file, and it is accepted only for an open node in exactly the attempt it
  names, on a run whose projections are up to date.\<close>

theorem telemetry_stays_bounded:
  assumes "bounded_samples td" and "td1 = fold (after_request X C rid) qs td"
    and "update_telemetry X C rid lock u now d td1 = (r, td2)"
  shows "bounded_samples td2 \<and> (case r of
      Inl e \<Rightarrow> td2 = td1
    | Inr a \<Rightarrow> canonical_projections_current X rid d = Inr True \<and> ta_attempt a = tu_attempt u \<and>
        (\<exists>n. read_node_opt rid d (tu_node_id u) = Inr (Some n) \<and> \<not> is_terminal (n_status n) \<and>
           n_retry_attempts n = tu_attempt u))"
proof -
  have "bounded_samples (fold (after_request X C rid) qs td)"
    using assms(1) by (induction qs arbitrary: td) (simp_all add: after_request_def update_bounded split: prod.split)
  then have "bounded_samples td2" using update_bounded[of td1 X C rid lock u now d] assms(2,3) by simp
  moreover have "case r of Inl e \<Rightarrow> td2 = td1
    | Inr a \<Rightarrow> canonical_projections_current X rid d = Inr True \<and> ta_attempt a = tu_attempt u \<and>
        (\<exists>n. read_node_opt rid d (tu_node_id u) = Inr (Some n) \<and> \<not> is_terminal (n_status n) \<and>
           n_retry_attempts n = tu_attempt u)"
  proof (cases r)
    case (Inl e)
    then show ?thesis using refused_unchanged assms(3) by simp
  next
    case (Inr a)
    obtain n where "update_target X rid lock u d = Inr n" "ta_attempt a = tu_attempt u"
      by (rule update_accepted[OF assms(3)[unfolded Inr]]) simp
    then show ?thesis using update_target_facts Inr by fastforce
  qed
  ultimately show ?thesis by blast
qed

end
