(* ===== verification/Run_Merge_Facts.thy ===== *)
theory Run_Merge_Facts
  imports Merge Merge_Facts Telemetry_Facts
begin

text \<open>
  \<open>run merge\<close> on a run that is up to date: whatever goes wrong, the worker's node is open again with
  no transaction left, and when the merge succeeds the node is done with a confirmed merge that names
  the transaction; git is touched only under a transaction that is in the log already, and the tip
  the source was moved to is the one the log and the report name.
\<close>

section \<open>Events on a run that is up to date\<close>

definition log_room :: "ext \<Rightarrow> run_id \<Rightarrow> nat \<Rightarrow> run_dir \<Rightarrow> event list \<Rightarrow> bool" where
  "log_room X rid k d evs \<longleftrightarrow> synced X rid d evs \<and> unat (last_seq evs) + k < 2 ^ 64"

lemma log_room_weaken: "log_room X rid k d evs \<Longrightarrow> j \<le> k \<Longrightarrow> log_room X rid j d evs"
  by (auto simp: log_room_def)

lemma log_room_events: "ext_ok X \<Longrightarrow> log_room X rid k d evs \<Longrightarrow> read_all_events X d = Inr evs"
  by (auto simp: log_room_def synced_def log_read_all)

lemma event_in_room:
  assumes X: "ext_ok X" and rm: "log_room X rid (Suc k) d evs"
    and l: "\<And>s. loggable (new_event clock rid kind nid key data s)"
    and r: "\<And>s. \<exists>ops. reduce_event_to_ops X rid d (new_event clock rid kind nid key data s) = Inr ops"
    and key: "\<And>i. key = Some i \<Longrightarrow> prior_with_key kind i evs = None"
  obtains ar ops ev d' where "ev = new_event clock rid kind nid key data (last_seq evs + 1)"
    "append_and_apply_event X clock rid kind nid key data d = (Inr ar, d')"
    "reduce_event_to_ops X rid d ev = Inr ops" "d' = recorded_state X rid ev ops d" "log_room X rid k d' (evs @ [ev])"
proof -
  have sy: "synced X rid d evs" and u: "unat (last_seq evs) + Suc k < 2 ^ 64" using rm by (simp_all add: log_room_def)
  define ev where "ev = new_event clock rid kind nid key data (last_seq evs + 1)"
  obtain ops where ops: "reduce_event_to_ops X rid d ev = Inr ops" using r ev_def by blast
  have seq: "ev_seq ev = last_seq evs + 1" by (simp add: ev_def new_event_def)
  note w = word_add_one_room[OF u]
  have "find_prior_with_key X d kind i = Inr None" if "key = Some i" for i
    using find_prior_synced[OF X sy, of kind i] key[OF that] by simp
  then have "append_and_apply_event X clock rid kind nid key data d =
      (Inr \<lparr>ar_seq = ev_seq ev, ar_idempotent_replay = False, ar_applied = (ops \<noteq> []), ar_prior = None\<rparr>,
       recorded_state X rid ev ops d)"
    using replay_synced[OF X sy] append_synced[OF X sy ev_def] ops
    by (cases key) (simp_all add: append_and_apply_event_def bind_io_def reading_def ret_def)
  moreover have "synced X rid (recorded_state X rid ev ops d) (evs @ [ev])"
    using recorded_synced[OF sy _ seq _ ops] l w by (simp add: ev_def)
  moreover have "last_seq (evs @ [ev]) = last_seq evs + 1" using seq by (simp add: last_seq_def)
  ultimately show ?thesis using that[OF ev_def] ops w by (simp add: log_room_def)
qed

text \<open>An event that plans one node.\<close>

lemma node_event:
  assumes X: "ext_ok X" and rm: "log_room X rid (Suc k) d evs" and v: "valid_target rid nid"
    and f: "fits (MAX_DEPTH - 1) data" and key: "\<And>i. key = Some i \<Longrightarrow> prior_with_key kind i evs = None"
    and r: "\<And>s. \<exists>n'. reduce_event_to_ops X rid d (new_event clock rid kind (Some nid) key data s) = Inr [OpNode n']
      \<and> n_node_id n' = nid \<and> P n'"
  obtains ar d' n' where "append_and_apply_event X clock rid kind (Some nid) key data d = (Inr ar, d')"
    "log_room X rid k d' (evs @ [new_event clock rid kind (Some nid) key data (last_seq evs + 1)])"
    "read_node_opt rid d' nid = Inr (Some n')" "P n'"
proof -
  have l: "loggable (new_event clock rid kind (Some nid) key data s)" for s
    using v f by (simp add: loggable_def new_event_def valid_target_def fits_def)
  obtain m where m: "read_manifest_opt rid d = Inr (Some m)" using rm by (auto simp: log_room_def synced_def)
  obtain ar ops ev d' where a: "ev = new_event clock rid kind (Some nid) key data (last_seq evs + 1)"
    "append_and_apply_event X clock rid kind (Some nid) key data d = (Inr ar, d')"
    "reduce_event_to_ops X rid d ev = Inr ops" "d' = recorded_state X rid ev ops d" "log_room X rid k d' (evs @ [ev])"
    by (rule event_in_room[OF X rm l _ key]) (use r in blast)+
  from r[of "last_seq evs + 1"] a(1,3) obtain n' where ops: "ops = [OpNode n']" "n_node_id n' = nid" "P n'" by auto
  obtain d1 where d1: "commit_ops rid ops d = (Inr (), d1)" "list_all (\<lambda>oper. reads_back rid oper d1) ops"
    using reducer.commit_plan[OF a(3)] by blast
  have "read_node_opt rid d' nid = Inr (Some n')"
    using recorded_node[OF a(3) m] a(4) d1 ops by (simp add: reads_back_def)
  then show ?thesis using that[OF a(2) _ _ ops(3)] a(1,5) by simp
qed

text \<open>An event that plans nothing.\<close>

lemma audit_event:
  assumes X: "ext_ok X" and rm: "log_room X rid (Suc k) d evs" and v: "valid_target rid i" "nid = None \<or> nid = Some i"
    and f: "fits (MAX_DEPTH - 1) data" and kind: "map_of reducers kind = None"
  obtains ar d' evs' where "append_and_apply_event X clock rid kind nid key data d = (Inr ar, d')"
    "log_room X rid k d' (evs @ evs')" "\<And>j. read_node_opt rid d' j = read_node_opt rid d j"
    "list_all (\<lambda>e. map_of reducers (ev_kind e) = None) evs'"
proof (cases "\<exists>i. key = Some i \<and> prior_with_key kind i evs \<noteq> None")
  case True
  then obtain i p where i: "key = Some i" "prior_with_key kind i evs = Some p" by blast
  have sy: "synced X rid d evs" using rm by (simp add: log_room_def)
  have "\<exists>ar. append_and_apply_event X clock rid kind nid key data d = (Inr ar, d)"
    using replay_synced[OF X sy] find_prior_synced[OF X sy, of kind i] i
    by (simp add: append_and_apply_event_def bind_io_def reading_def ret_def)
  then show ?thesis using that[of _ d "[]"] rm i(1) by (auto simp: log_room_def)
next
  case False
  have l: "loggable (new_event clock rid kind nid key data s)" for s
    using v f by (auto simp: loggable_def new_event_def valid_target_def fits_def)
  have r: "reduce_event_to_ops X rid d (new_event clock rid kind nid key data s) = Inr []" for s
    using kind by (simp add: reduce_event_to_ops_def new_event_def no_projection_def)
  obtain m where m: "read_manifest_opt rid d = Inr (Some m)" using rm by (auto simp: log_room_def synced_def)
  obtain ar ops ev d' where a: "ev = new_event clock rid kind nid key data (last_seq evs + 1)"
    "append_and_apply_event X clock rid kind nid key data d = (Inr ar, d')"
    "reduce_event_to_ops X rid d ev = Inr ops" "d' = recorded_state X rid ev ops d" "log_room X rid k d' (evs @ [ev])"
    by (rule event_in_room[OF X rm l]) (use r False in blast)+
  then have "ops = []" using r by simp
  then have "read_node_opt rid d' j = read_node_opt rid d j" for j
    using recorded_node[OF a(3) m, of j] a(4) by (simp add: ret_def)
  then show ?thesis using that[OF a(2,5)] a(1) kind by (simp add: new_event_def)
qed

section \<open>The transaction\<close>

lemma i32_roundtrip: "de_i32 (int_json (sint (p :: u32))) = Some (sint p)"
proof -
  have b: "- (2 ^ 31) \<le> sint p \<and> sint p < 2 ^ 31" using sint_ge[of p] sint_lt[of p] by simp
  have w: "uint (word_of_int i :: u64) = i" if "0 \<le> i" "i < 2 ^ 31" for i
    using that by (simp add: uint_word_of_int)
  have "de_i32 (int_json i) = Some i" if "- (2 ^ 31) \<le> i" "i < 2 ^ 31" for i
    using that w[of i] by (auto simp: de_i32_def int_json_def try_i32_def)
  then show ?thesis using b by blast
qed

lemma txn_roundtrip:
  assumes "ext_ok X"
  shows "de_merge_txn X (txn_json X (new_txn E sb wb eo wo n None l)) = Some (new_txn E sb wb eo wo n None l)"
proof -
  have nn: "int_json i \<noteq> Null" for i by (simp add: int_json_def)
  show ?thesis
    by (cases "n_base_sha n"; cases "pid_start_time (me_probes E) (me_pid E)";
        cases "pid_start_identity (me_probes E) (me_pid E)"; cases l)
      (simp_all add: txn_json_def new_txn_def de_merge_txn_def struct_fields_def req_def optional_def de_option_def
        defaulted_def opt_json_def some_entry_def i32_roundtrip de_string_def de_u64_def de_datetime_def
        ext_ok_time[OF assms] nn de_bool_def)
qed

lemma txn_fits: "fits (MAX_DEPTH - 1) (txn_json X (new_txn E sb wb eo wo n None l))"
proof -
  have "fits k (int_json (sint (p :: u32)))" for k p
    using sint_ge[of p] by (simp add: int_json_def fits_def)
  then show ?thesis
    by (rule_tac depth, cases "n_base_sha n"; cases "pid_start_time (me_probes E) (me_pid E)";
        cases "pid_start_identity (me_probes E) (me_pid E)"; cases l)
      (simp_all add: txn_json_def new_txn_def opt_json_def some_entry_def fits_def)
qed

definition opened :: "node \<Rightarrow> merge_txn \<Rightarrow> node \<Rightarrow> bool" where
  "opened n txn n' \<longleftrightarrow> (\<exists>t. n' = n\<lparr>n_pending_merge := Some txn, n_updated_at := t\<rparr>)"

lemma reduce_started:
  assumes X: "ext_ok X" and m: "read_manifest_opt rid d = Inr (Some m)" "m_agent_owner m = Taskfleet"
    and n: "read_node_opt rid d nid = Inr (Some n)" "\<not> is_terminal (n_status n)" "n_pending_merge n = None"
    and t: "txn = new_txn E sb wb eo wo n0 None l"
  shows "\<exists>n'. reduce_event_to_ops X rid d (new_event clock rid ''merge.started'' (Some nid) None (txn_json X txn) s) =
      Inr [OpNode n'] \<and> n_node_id n' = nid \<and> opened n txn n'"
proof -
  have "n_node_id n = nid" using node_store.read_checked[OF n(1)] by simp
  moreover have "mt_caller_authority txn = None" by (simp add: t new_txn_def)
  ultimately show ?thesis using assms txn_roundtrip[OF X, of E sb wb eo wo n0 l]
    by (auto simp: reduce_event_to_ops_def reducers_def reduce_merge_started_def new_event_def opened_def
        require_envelope_node_id_def ok_or_def with_node_def merge_link_ok_def)
qed

section \<open>The report\<close>

lemma fits_remove: "fits (Suc k) (Object m) \<Longrightarrow> fits (Suc k) (Object (map_remove f m))"
proof -
  have "p \<in> set (map_remove f m) \<Longrightarrow> p \<in> set m" for p by (simp add: map_remove_def)
  then show "fits (Suc k) (Object m) \<Longrightarrow> ?thesis" by (auto simp: fits_def sorted_keys_remove)
qed

lemma fits_insert: "fits (Suc k) (Object m) \<Longrightarrow> fits k v \<Longrightarrow> fits (Suc k) (Object (map_insert f v m))"
  using insert_field_fits[of k "Object m" v f] by (simp add: insert_field_def)

lemma sanitize_array_fits:
  assumes "fits (Suc k) (Object (fst st))"
  shows "fits (Suc k) (Object (fst (sanitize_element_array f na check st)))"
proof -
  obtain obj ws where st: "st = (obj, ws)" by (cases st)
  show ?thesis
  proof (cases "map_of obj f")
    case (Some v)
    then have v: "fits k v" using assms map_of_SomeD[OF Some] by (auto simp: st fits_def)
    show ?thesis
    proof (cases v)
      case (Array arr)
      have "set (map snd (filter (\<lambda>(i, item). check item i = Inr ()) (enumerate 0 arr))) \<subseteq> set arr"
        by (auto simp: in_set_enumerate_eq)
      then have "fits k (Array (map snd (filter (\<lambda>(i, item). check item i = Inr ()) (enumerate 0 arr))))"
        using v Array by (auto simp: fits_def split: nat.splits)
      then show ?thesis using assms Some Array by (simp add: sanitize_element_array_def st fits_insert)
    qed (use assms Some in \<open>simp_all add: sanitize_element_array_def st fits_remove\<close>)
  qed (use assms in \<open>simp add: sanitize_element_array_def st\<close>)
qed

lemma sanitize_fits:
  assumes "fits (Suc k) data" and "sanitize_report_advisory data = Inr r"
  shows "fits (Suc k) (sr_report r)"
proof -
  obtain obj where d: "data = Object obj" using assms(2) by (auto simp: sanitize_Inr)
  have "fits (Suc k) (Object (fst (sanitize_summary obj)))"
    using assms(1) d by (simp add: sanitize_summary_def fits_remove)
  then show ?thesis using assms(2) d
    by (simp add: sanitize_Inr sanitize_string_array_field_def Let_def sanitize_array_fits)
qed

text \<open>A report file that can be written as an event's data.\<close>

definition shallow_report :: "ext \<Rightarrow> merge_args \<Rightarrow> bool" where
  "shallow_report X args \<longleftrightarrow>
     (\<forall>buf v. ma_report_file args = Some (Some buf) \<longrightarrow> json_from_slice X buf = Some v \<longrightarrow> fits (MAX_DEPTH - 1) v)"

lemma built_report:
  assumes "build_report X (ma_report_file args) branch src = Inr (report, ws)" and "shallow_report X args"
  shows "get report ''success'' = Some (Bool True)" "get report ''cancelled'' \<in> {None, Some Null, Some (Bool False)}"
    "fits (MAX_DEPTH - 1) report"
proof -
  obtain obj sr where o: "(case map_of obj ''success'' of None \<Rightarrow> False | Some v \<Rightarrow> as_bool v \<noteq> Some True) = False"
    "(case map_of obj ''cancelled'' of None \<Rightarrow> False | Some v \<Rightarrow> as_bool v = Some True) = False"
    and fo: "fits (MAX_DEPTH - 1) (Object obj)"
    and sr: "sanitize_report_advisory (Object (map_insert ''via'' (String VIA_EXPLICIT_MERGE) obj)) = Inr sr"
    and report: "report = sr_report sr"
  proof -
    obtain k where k: "MAX_DEPTH - 1 = Suc (Suc k)" by (rule depth)
    let ?bad = "\<lambda>obj. (case map_of obj ''success'' of None \<Rightarrow> False | Some v \<Rightarrow> as_bool v \<noteq> Some True) \<or>
      (case map_of obj ''cancelled'' of None \<Rightarrow> False | Some v \<Rightarrow> as_bool v = Some True)"
    from assms(1) obtain r obj where r: "initial_report X (ma_report_file args) branch src = Inr r" "as_object r = Some obj"
      and c: "(if ?bad obj then Inl ''invalid_merge_report''
        else (case sanitize_report_advisory (Object (map_insert ''via'' (String VIA_EXPLICIT_MERGE) obj)) of
            Inl _ \<Rightarrow> Inl ''schema_violation'' | Inr sr \<Rightarrow> Inr (sr_report sr, sr_warnings sr))) = Inr (report, ws)"
      unfolding build_report_def by (auto simp only: res_simps)
    have bad: "\<not> ?bad obj" using c by (rule contrapos_pn) simp
    with c obtain sr where "sanitize_report_advisory (Object (map_insert ''via'' (String VIA_EXPLICIT_MERGE) obj)) = Inr sr"
      "report = sr_report sr" by (auto split: sum.splits simp del: de_Morgan_disj)
    moreover note r bad
    moreover have "fits (Suc (Suc k)) r"
      using r(1) assms(2) k
      by (auto simp: initial_report_def shallow_report_def read_report_file_def ok_or_def fits_def
          split: option.splits if_splits)
    moreover have "r = Object obj" using r(2) by (cases r) simp_all
    ultimately show thesis using that[of obj sr] k by (simp only: simp_thms) blast
  qed
  from sr have vr: "validate_required_fields (map_insert ''via'' (String VIA_EXPLICIT_MERGE) obj) = Inr ()"
    by (simp add: sanitize_Inr)
  have keep: "get report f = map_of obj f" if "f \<in> {''success'', ''cancelled''}" for f
    using sanitize_keeps_key[OF sr, of f] that by (auto simp: report ADVISORY_FIELDS_def)
  obtain sv where "map_of obj ''success'' = Some sv"
    using vr by (auto simp: validate_required_fields_def ok_or_def split: option.splits)
  then show "get report ''success'' = Some (Bool True)" using o(1) keep[of "''success''"] by (cases sv) simp_all
  show "get report ''cancelled'' \<in> {None, Some Null, Some (Bool False)}"
  proof (cases "map_of obj ''cancelled''")
    case (Some c)
    then show ?thesis using vr o(2) keep[of "''cancelled''"]
      by (cases c) (auto simp: validate_required_fields_def ok_or_def res_simps split: option.splits)
  qed (use keep in simp)
  obtain k where k: "MAX_DEPTH - 1 = Suc (Suc k)" by (rule depth)
  have "fits (Suc (Suc k)) (Object (map_insert ''via'' (String VIA_EXPLICIT_MERGE) obj))"
    using fo k by (simp add: fits_insert)
  then show "fits (MAX_DEPTH - 1) report" using sanitize_fits[OF _ sr] k report by simp
qed

abbreviation merge_origin :: "string \<Rightarrow> string \<Rightarrow> string \<Rightarrow> report_origin" where
  "merge_origin oper worker_oid oid \<equiv> OriginRunMerge (Some oper) (Some worker_oid) (Some oid)"

lemma stamped_report:
  assumes "get report ''success'' = Some (Bool True)" "get report ''cancelled'' \<in> {None, Some Null, Some (Bool False)}"
    and "fits (MAX_DEPTH - 1) report"
    and st_def: "st = stamp (merge_origin oper worker_oid oid) report"
  shows "get st ''success'' = Some (Bool True)" "get st ''cancelled'' \<in> {None, Some Null, Some (Bool False)}"
    "fits (MAX_DEPTH - 1) st" "from_report st = Some (merge_origin oper worker_oid oid)" "report_is_confirmed_merge st"
proof -
  obtain m where m: "report = Object m" using assms(1) by (cases report) (simp_all add: get_def)
  show g: "get st ''success'' = Some (Bool True)" "get st ''cancelled'' \<in> {None, Some Null, Some (Bool False)}"
    using assms(1,2) by (simp_all add: st_def stamp_def m)
  obtain k where k: "MAX_DEPTH - 1 = Suc (Suc k)" by (rule depth)
  show "fits (MAX_DEPTH - 1) st"
    using assms(3) unfolding k st_def stamp_def m
    by (auto intro!: fits_insert) (simp add: fits_def report_origin_json_def opt_entry_def)
  show fr: "from_report st = Some (merge_origin oper worker_oid oid)"
    by (simp add: st_def stamp_def m from_report_def de_report_origin_json)
  show "report_is_confirmed_merge st" using g fr by (auto simp: report_is_confirmed_merge_def Let_def is_run_merge_def)
qed

lemma reduce_merge_report:
  assumes n: "read_node_opt rid d nid = Inr (Some n)" and "\<not> is_terminal (n_status n)"
    and "get report ''success'' = Some (Bool True)" "get report ''cancelled'' \<in> {None, Some Null, Some (Bool False)}"
  shows "\<exists>n'. reduce_event_to_ops X rid d (new_event clock rid ''node.report'' (Some nid) key report s) =
      Inr [OpNode n'] \<and> n_node_id n' = nid \<and> merged_with report n'"
proof -
  have "n_node_id n = nid" using node_store.read_checked[OF n] by simp
  moreover have "report_terminal_status (new_event clock rid ''node.report'' (Some nid) key report s) = Inr Done"
    using assms(3,4) by (auto simp: report_terminal_status_def optional_bool_def new_event_def)
  ultimately show ?thesis using assms
    by (simp add: reduce_event_to_ops_def reducers_def reduce_node_report_def new_event_def merged_with_def
        require_envelope_node_id_def ok_or_def with_node_def)
qed

section \<open>Git\<close>

lemma act_bind_Inr: "act_bind m f s = (Inr y, s') \<longleftrightarrow> (\<exists>x s1. m s = (Inr x, s1) \<and> f x s1 = (Inr y, s'))"
  by (auto simp: act_bind_def split: prod.splits sum.splits)

lemma act_bind_Inl:
  "act_bind m f s = (Inl e, s') \<longleftrightarrow> m s = (Inl e, s') \<or> (\<exists>x s1. m s = (Inr x, s1) \<and> f x s1 = (Inl e, s'))"
  by (auto simp: act_bind_def split: prod.splits sum.splits)

lemma act_of_eq: "act_of r s = (x, s') \<longleftrightarrow> r s = x \<and> s' = s"
  by (auto simp: act_of_def)

lemma quiet_same: "quiet i s = s"
  by (simp add: quiet_def)

lemma act_quiet [simp]: "act_gap quiet i s = (Inr (), s)"
  by (simp add: act_gap_def quiet_same)

lemma git_write_success: "git_output_write H dir args s = (Inr u, s') \<longleftrightarrow>
    fst s' = fst s \<and> (\<exists>out. git_write H (snd s) dir args = (out, snd s') \<and> cmd_success out)"
  by (cases s; cases s') (auto simp: git_output_write_def split: prod.splits)

lemma read_oid_success: "read_oid_act H dir rv s = (Inr oid, s') \<longleftrightarrow> read_oid H (snd s) dir rv = Some oid \<and> s' = s"
  by (cases s) (auto simp: read_oid_act_def act_of_def res_simps)

lemma check_source_success:
  "check_source H t src (Some ex) s = (Inr u, s') \<longleftrightarrow> read_oid H (snd s) t src = Some ex \<and> s' = s"
  by (cases s) (auto simp: check_source_def act_of_def res_simps ensure_def)

lemmas act_success = act_bind_Inr act_of_eq act_quiet git_write_success read_oid_success check_source_success

text \<open>A step that leaves the run as it is, and one whose run satisfies a predicate afterwards.\<close>

definition stays :: "('w, 'a) act \<Rightarrow> bool" where
  "stays m \<longleftrightarrow> (\<forall>d w. fst (snd (m (d, w))) = d)"

definition leads :: "run_dir \<Rightarrow> (run_dir \<Rightarrow> bool) \<Rightarrow> ('w, 'a) act \<Rightarrow> bool" where
  "leads d K m \<longleftrightarrow> (\<forall>w. K (fst (snd (m (d, w)))))"

lemma stays_of [simp, intro]: "stays (act_of r)"
  by (simp add: stays_def act_of_def)

lemma stays_quiet [simp, intro]: "stays (act_gap quiet i)"
  by (simp add: stays_def)

lemma stays_write [simp, intro]: "stays (git_output_write H dir args)" "stays (git_output_read H dir args)"
  "stays (check_source H t src ex)" "stays (read_oid_act H t rv)"
  by (simp_all add: stays_def git_output_write_def git_output_read_def check_source_def read_oid_act_def act_of_def split: prod.split)

lemma stays_bind [intro]: "stays m \<Longrightarrow> (\<And>x. stays (f x)) \<Longrightarrow> stays (act_bind m f)"
  by (simp add: stays_def act_bind_def split: prod.split sum.split) (metis fst_conv snd_conv)

lemma stays_lock: "stays (lock_loop E quiet p k)"
proof -
  have "fst (snd (lock_loop E quiet p k (d, w))) = d" for d w
  proof (induction k arbitrary: w)
    case 0
    show ?case by (subst lock_loop.simps) (simp split: dir_result.split)
  next
    case (Suc k)
    then show ?case by (subst lock_loop.simps) (simp add: quiet_same[of 16 "(d, w)"] del: lock_loop.simps split: dir_result.split)
  qed
  then show ?thesis by (simp add: stays_def)
qed

lemma leads_bind: "stays m \<Longrightarrow> K d \<Longrightarrow> (\<And>x. leads d K (f x)) \<Longrightarrow> leads d K (act_bind m f)"
  by (simp add: stays_def leads_def act_bind_def split: prod.split sum.split) (metis fst_conv snd_conv)

lemma leads_then: "leads d K m \<Longrightarrow> (\<And>x. stays (f x)) \<Longrightarrow> leads d K (act_bind m f)"
  by (simp add: stays_def leads_def act_bind_def split: prod.split sum.split) (metis fst_conv snd_conv surj_pair)

text \<open>What a merge can do to the run is what its callback does.\<close>

lemma git_merge_leads:
  assumes "K d" and "\<And>oid. leads d K (cb oid)"
  shows "leads d K (run_git_merge H E quiet wt branch src ex (act_of (\<lambda>_. Inr ())) cb)"
proof -
  have "leads d K (merge_locked H quiet wt branch t s ex (act_of (\<lambda>_. Inr ())) cb)" for t s
    unfolding merge_locked_def
    by (intro leads_bind leads_then assms stays_bind stays_of stays_quiet stays_write) auto
  then have "leads d K (unlocking E p (merge_locked H quiet wt branch t s ex (act_of (\<lambda>_. Inr ())) cb))" for p t s
    by (simp add: leads_def unlocking_def split: prod.split) (metis fst_conv snd_conv)
  then show ?thesis unfolding run_git_merge_def Let_def
    by (auto intro!: leads_bind assms stays_of stays_write stays_lock split: prod.split)
qed

lemma git_merge_success:
  assumes "run_git_merge H E quiet wt branch src (Some ex) (act_of (\<lambda>_. Inr ())) cb (d, w) = (Inr a, d', w')"
  obtains t s oid w0 w1 w2 w3 out p k where "merge_target H wt branch src w = Inr (t, s)"
    "lock_loop E quiet p k (d, w) = (Inr (), d, w0)"
    "head_branch H w0 t = Some s"
    "w1 = w0 \<and> oid = ex \<or> (\<exists>done. git_write H w0 wt [''rebase'', ''--'', s] = (done, w1) \<and> cmd_success done)"
    "read_oid H w1 t s = Some ex" "read_oid H w1 t branch = Some oid" "cb oid (d, w1) = (Inr a, d', w2)"
    "git_write H w2 t [''merge'', ''--ff-only'', ''--no-overwrite-ignore'', ''--'', branch] = (out, w3)"
    "cmd_success out" "w' = me_remove_dir E w3 p"
proof -
  from assms obtain t s p w0 k where pre: "merge_target H wt branch src w = Inr (t, s)"
    and lk: "lock_loop E quiet p k (d, w) = (Inr (), d, w0)"
    and l: "unlocking E p (merge_locked H quiet wt branch t s (Some ex) (act_of (\<lambda>_. Inr ())) cb) (d, w0) = (Inr a, d', w')"
    using stays_lock[of E] unfolding run_git_merge_def Let_def stays_def
    by (auto simp: act_success git_output_read_def split: prod.splits) (metis fst_conv snd_conv)
  then obtain w3 where m: "merge_locked H quiet wt branch t s (Some ex) (act_of (\<lambda>_. Inr ())) cb (d, w0) = (Inr a, d', w3)"
    and w': "w' = me_remove_dir E w3 p" by (auto simp: unlocking_def split: prod.splits)
  from m obtain w1 oid w2 out where h: "head_branch H w0 t = Some s"
    and r: "w1 = w0 \<and> oid = ex \<or> (\<exists>done. git_write H w0 wt [''rebase'', ''--'', s] = (done, w1) \<and> cmd_success done)"
    and o: "read_oid H w1 t s = Some ex" "read_oid H w1 t branch = Some oid" "cb oid (d, w1) = (Inr a, d', w2)"
    "git_write H w2 t [''merge'', ''--ff-only'', ''--no-overwrite-ignore'', ''--'', branch] = (out, w3)" "cmd_success out"
    unfolding merge_locked_def act_success ensure_def
    by (clarsimp simp: act_success split: if_splits) (blast 6)
  show ?thesis by (rule that[OF pre lk h r o w'])
qed

section \<open>The consumer\<close>

text \<open>A run that went on by audit events only: the log grew, the nodes did not change.\<close>

definition audited :: "ext \<Rightarrow> run_id \<Rightarrow> nat \<Rightarrow> run_dir \<Rightarrow> event list \<Rightarrow> run_dir \<Rightarrow> bool" where
  "audited X rid k d evs d' \<longleftrightarrow> (\<exists>evs'. log_room X rid k d' (evs @ evs') \<and> list_all (\<lambda>e. map_of reducers (ev_kind e) = None) evs') \<and>
     (\<forall>j. read_node_opt rid d' j = read_node_opt rid d j)"

lemma audited_append:
  assumes X: "ext_ok X" and v: "valid_target rid i" "nid = None \<or> nid = Some i"
    and f: "fits (MAX_DEPTH - 1) data" and kind: "map_of reducers kind = None" and a: "audited X rid (Suc k) d evs d1"
  shows "audited X rid k d evs (snd (append_and_apply_event X clock rid kind nid key data d1)) \<and>
    (\<exists>ar. fst (append_and_apply_event X clock rid kind nid key data d1) = Inr ar)"
proof -
  from a obtain evs' where rm: "log_room X rid (Suc k) d1 (evs @ evs')" "list_all (\<lambda>e. map_of reducers (ev_kind e) = None) evs'"
    and same: "\<And>j. read_node_opt rid d1 j = read_node_opt rid d j" by (auto simp: audited_def)
  obtain ar d' evs2 where "append_and_apply_event X clock rid kind nid key data d1 = (Inr ar, d')"
    "log_room X rid k d' ((evs @ evs') @ evs2)" "\<And>j. read_node_opt rid d' j = read_node_opt rid d1 j"
    "list_all (\<lambda>e. map_of reducers (ev_kind e) = None) evs2"
    by (rule audit_event[OF X rm(1) v f kind]) (rule that)
  then show ?thesis using same rm(2) by (auto simp: audited_def intro!: exI[of _ "evs' @ evs2"])
qed

lemma audited_weaken: "audited X rid k d evs d' \<Longrightarrow> j \<le> k \<Longrightarrow> audited X rid j d evs d'"
  unfolding audited_def using log_room_weaken by blast

lemma u32_fits: "fits (MAX_DEPTH - 1) (Object [(''pid'', u32_json p), (''reason'', String r)])"
  "fits (MAX_DEPTH - 1) (Object [(''pid'', u32_json p)])" "fits (MAX_DEPTH - 1) (Object [])"
  by (rule depth, simp add: fits_def u32_json_def)+

lemma supervisor_kinds: "map_of reducers ''supervisor.exited'' = None" "map_of reducers ''supervisor.reattach-requested'' = None"
  "map_of reducers ''supervisor.reattached'' = None" "map_of reducers ''merge.native_prepared'' = None"
  by (simp_all add: reducers_def)

text \<open>A step that records so many audit events at most.\<close>

definition costs :: "ext \<Rightarrow> run_id \<Rightarrow> nat \<Rightarrow> ('w, 'a) act \<Rightarrow> bool" where
  "costs X rid k m \<longleftrightarrow> (\<forall>j d evs d1 w. audited X rid (j + k) d evs d1 \<longrightarrow> audited X rid j d evs (fst (snd (m (d1, w)))))"

lemma costs_bind:
  assumes "costs X rid a m" and "\<And>x. costs X rid b (f x)"
  shows "costs X rid (a + b) (act_bind m f)"
proof -
  have "audited X rid j d evs (fst (snd (act_bind m f (d1, w))))" if h: "audited X rid (j + (a + b)) d evs d1" for j d evs d1 w
  proof -
    obtain r d2 w2 where m: "m (d1, w) = (r, d2, w2)" by (metis surj_pair)
    have "audited X rid (j + b + a) d evs d1" using h by (simp add: ac_simps)
    then have two: "audited X rid (j + b) d evs d2" using assms(1) m unfolding costs_def by (metis fst_conv snd_conv)
    show ?thesis
    proof (cases r)
      case (Inl e)
      then show ?thesis using m audited_weaken[OF two, of j] by (simp add: act_bind_def)
    next
      case (Inr x)
      then show ?thesis using m two assms(2)[of x] by (simp add: act_bind_def costs_def)
    qed
  qed
  then show ?thesis by (simp add: costs_def)
qed

lemma costs_stays: "stays m \<Longrightarrow> costs X rid 0 m"
  by (simp add: costs_def stays_def)

lemma costs_append:
  assumes "ext_ok X" and "valid_target rid i" "nid = None \<or> nid = Some i" and "fits (MAX_DEPTH - 1) data"
    and "map_of reducers kind = None"
  shows "costs X rid 1 (act_io (append_and_apply_event X clock rid kind nid key data))"
    "costs X rid 1 (\<lambda>s. (r, snd (append_and_apply_event X clock rid kind nid key data (fst s)), snd s))"
  using audited_append[OF assms] by (simp_all add: costs_def act_io_def split: prod.split) (metis snd_conv)

lemma spawn_costs:
  assumes X: "ext_ok X" and v: "valid_target rid i"
  shows "costs X rid 3 (spawn_supervisor X clock rid E quiet)"
proof -
  note ap = costs_append[OF X v _ u32_fits(1) supervisor_kinds(1)] costs_append[OF X v _ u32_fits(3) supervisor_kinds(2)]
    costs_append[OF X v _ u32_fits(2) supervisor_kinds(3)]
  have "costs X rid 1 (\<lambda>s. case read_pid_record (me_pid_file E (snd s)) of
         None \<Rightarrow> (Inr (), s)
       | Some (existing, start) \<Rightarrow>
           if pid_live_with_identity (me_probes E) existing start then (Inl ''supervisor_already_running'', s)
           else (Inr (), snd (append_and_apply_event X clock rid ''supervisor.exited'' None (Some (stale_key existing start))
             (Object [(''pid'', u32_json existing), (''reason'', String ''stale-on-reattach'')]) (fst s)), snd s))"
    unfolding costs_def
  proof (intro allI impI)
    fix j d evs d1 w assume h: "audited X rid (j + 1) d evs d1"
    have w: "audited X rid j d evs d1" by (rule audited_weaken[OF h]) simp
    have "audited X rid j d evs (snd (append_and_apply_event X clock rid ''supervisor.exited'' None (Some (stale_key p st))
        (Object [(''pid'', u32_json p), (''reason'', String ''stale-on-reattach'')]) d1))" for p st
      using audited_append[OF X v _ u32_fits(1) supervisor_kinds(1), of None j] h by simp
    then show "audited X rid j d evs (fst (snd (case read_pid_record (me_pid_file E (snd (d1, w))) of
         None \<Rightarrow> (Inr (), d1, w)
       | Some (existing, start) \<Rightarrow>
           if pid_live_with_identity (me_probes E) existing start then (Inl ''supervisor_already_running'', d1, w)
           else (Inr (), snd (append_and_apply_event X clock rid ''supervisor.exited'' None (Some (stale_key existing start))
             (Object [(''pid'', u32_json existing), (''reason'', String ''stale-on-reattach'')]) (fst (d1, w))), snd (d1, w)))))"
      using w by (simp split: option.split)
  qed
  moreover have "stays (\<lambda>(d, w). case me_spawn E w of (r, w') \<Rightarrow> (r, d, w'))" by (simp add: stays_def split: prod.split)
  ultimately have "costs X rid (0 + (1 + (0 + (1 + (0 + (0 + 1)))))) (spawn_supervisor X clock rid E quiet)"
    unfolding spawn_supervisor_def by (intro costs_bind costs_stays stays_of stays_quiet ap) auto
  then show ?thesis by (simp add: numeral_3_eq_3)
qed

lemma consumer_audited:
  assumes X: "ext_ok X" and v: "valid_target rid i" and rm: "log_room X rid 3 d evs"
  shows "audited X rid 0 d evs (fst (snd (ensure_report_consumer X clock rid E quiet (d, w))))"
proof -
  have a: "audited X rid 3 d evs d" using rm unfolding audited_def by (intro conjI exI[of _ "[]"]) simp_all
  have sp: "audited X rid 0 d evs (fst (snd (spawn_supervisor X clock rid E quiet (d, w))))"
    using spawn_costs[OF X v] a unfolding costs_def by (metis add_0)
  show ?thesis using sp audited_weaken[OF a, of 0]
    by (auto simp: ensure_report_consumer_def quiet_same Let_def split: sum.split prod.split)
qed

section \<open>A fresh merge\<close>

definition mergeable :: "ext \<Rightarrow> run_id \<Rightarrow> node_id \<Rightarrow> string \<Rightarrow> run_dir \<Rightarrow> node \<Rightarrow> event list \<Rightarrow> bool" where
  "mergeable X rid nid op_id d n evs \<longleftrightarrow> log_room X rid 6 d evs \<and> valid_target rid nid \<and>
     read_node_opt rid d nid = Inr (Some n) \<and> \<not> is_terminal (n_status n) \<and> n_pending_merge n = None \<and>
     prior_with_key ''node.report'' (explicit_merge_key rid nid) evs = None \<and>
     prior_with_key ''merge.aborted'' (abort_key rid nid op_id) evs = None"

text \<open>The node as it was, but for the time of its last change.\<close>

definition untouched_node :: "node \<Rightarrow> node \<Rightarrow> bool" where
  "untouched_node n n' \<longleftrightarrow> (\<exists>t. n' = n\<lparr>n_updated_at := t\<rparr>)"

lemma audit_no_prior:
  assumes "list_all (\<lambda>e. map_of reducers (ev_kind e) = None) evs" and "map_of reducers kind \<noteq> None"
  shows "prior_with_key kind key evs = None"
  using assms by (auto simp: prior_with_key_def find_None_iff list_all_iff)

lemma start_recorded:
  assumes X: "ext_ok X" and mg: "mergeable X rid nid (me_op_id E) d n evs"
    and m: "read_manifest_opt rid d = Inr (Some m)" "m_agent_owner m = Taskfleet"
    and o: "src = Some s" "read_oid H w wt s = Some eo" "read_oid H w wt branch = Some wo"
    and txn: "txn = new_txn E s branch eo wo n0 None False"
  obtains d1 n1 where "record_merge_start X clock rid H E quiet nid wt branch n0 src None False (d, w) =
      (Inr \<lparr>mh_op_id = me_op_id E, mh_expected_source_oid = eo, mh_worker_oid = wo\<rparr>, d1, w)"
    "log_room X rid 5 d1 (evs @ [new_event clock rid ''merge.started'' (Some nid) None (txn_json X txn) (last_seq evs + 1)])"
    "read_node_opt rid d1 nid = Inr (Some n1)" "opened n txn n1"
proof -
  from mg have n: "read_node_opt rid d nid = Inr (Some n)" "\<not> is_terminal (n_status n)" "n_pending_merge n = None"
    and v: "valid_target rid nid" and rm: "log_room X rid (Suc 5) d evs" by (simp_all add: mergeable_def)
  obtain ar d1 n1 where e: "append_and_apply_event X clock rid ''merge.started'' (Some nid) None (txn_json X txn) d = (Inr ar, d1)"
    "log_room X rid 5 d1 (evs @ [new_event clock rid ''merge.started'' (Some nid) None (txn_json X txn) (last_seq evs + 1)])"
    "read_node_opt rid d1 nid = Inr (Some n1)" "opened n txn n1"
    by (rule node_event[OF X rm v txn_fits[of X E s branch eo wo n0 False, folded txn] _ reduce_started[OF X m n txn]])
      (simp, rule that)
  show ?thesis
    by (rule that[OF _ e(2-4)])
      (use o e(1) in \<open>simp add: record_merge_start_def act_bind_def act_of_def read_oid_act_def ok_or_def txn\<close>)
qed

lemma started_transaction:
  assumes X: "ext_ok X" and mg: "mergeable X rid nid (me_op_id E) d n evs"
    and m: "read_manifest_opt rid d = Inr (Some m)" "m_agent_owner m = Taskfleet"
  shows "(\<exists>e. record_merge_start X clock rid H E quiet nid wt branch n0 src None False (d, w) = (Inl e, d, w)) \<or>
    (\<exists>s eo wo txn d1 n1. record_merge_start X clock rid H E quiet nid wt branch n0 src None False (d, w) =
        (Inr \<lparr>mh_op_id = me_op_id E, mh_expected_source_oid = eo, mh_worker_oid = wo\<rparr>, d1, w) \<and>
      src = Some s \<and> read_oid H w wt s = Some eo \<and> read_oid H w wt branch = Some wo \<and>
      txn = new_txn E s branch eo wo n0 None False \<and>
      log_room X rid 5 d1 (evs @ [new_event clock rid ''merge.started'' (Some nid) None (txn_json X txn) (last_seq evs + 1)]) \<and>
      read_node_opt rid d1 nid = Inr (Some n1) \<and> opened n txn n1)"
proof (cases "\<exists>s eo wo. src = Some s \<and> read_oid H w wt s = Some eo \<and> read_oid H w wt branch = Some wo")
  case True
  then obtain s eo wo where o: "src = Some s" "read_oid H w wt s = Some eo" "read_oid H w wt branch = Some wo" by blast
  show ?thesis by (rule start_recorded[OF X mg m o refl]) (use o in blast)
next
  case False
  then show ?thesis
    by (cases src; cases "read_oid H w wt (the src)"; cases "read_oid H w wt branch")
      (auto simp: record_merge_start_def act_bind_def act_of_def read_oid_act_def ok_or_def)
qed

lemma prepared_fits: "fits (MAX_DEPTH - 1) (prepared_data h oid)"
  by (rule depth) (simp add: prepared_data_def fits_def)

lemma prepared_leads:
  assumes X: "ext_ok X" and v: "valid_target rid nid" and rm: "log_room X rid (Suc k) d evs"
  shows "audited X rid k d evs d" "leads d (audited X rid k d evs) (record_prepared X clock rid quiet nid h oid :: ('w, string) act)"
proof -
  have a: "audited X rid (Suc k) d evs d" using rm unfolding audited_def by (intro conjI exI[of _ "[]"]) simp_all
  then show "audited X rid k d evs d" by (rule audited_weaken) simp
  have "costs X rid (0 + (1 + 0)) (record_prepared X clock rid quiet nid h oid :: ('w, string) act)" unfolding record_prepared_def
    by (intro costs_bind costs_stays stays_quiet stays_of costs_append(1)[OF X v _ prepared_fits supervisor_kinds(4)]) simp
  then show "leads d (audited X rid k d evs) (record_prepared X clock rid quiet nid h oid :: ('w, string) act)"
    using a by (simp add: costs_def leads_def)
qed

lemma abort_reopens:
  assumes X: "ext_ok X" and v: "valid_target rid nid" and a: "audited X rid (Suc k) d evs d2"
    and p: "prior_with_key ''merge.aborted'' (abort_key rid nid (mt_op_id txn)) evs = None"
    and n: "read_node_opt rid d nid = Inr (Some n1)" "opened n txn n1" "n_pending_merge n = None"
  shows "\<exists>n' evs'. read_node_opt rid (fst (abort_merge_start X clock rid nid (mt_op_id txn) reason (d2, w))) nid = Inr (Some n') \<and>
    untouched_node n n' \<and> log_room X rid k (fst (abort_merge_start X clock rid nid (mt_op_id txn) reason (d2, w))) (evs @ evs')"
proof -
  from a obtain evs' where rm: "log_room X rid (Suc k) d2 (evs @ evs')" "list_all (\<lambda>e. map_of reducers (ev_kind e) = None) evs'"
    and n2: "read_node_opt rid d2 nid = Inr (Some n1)" using n(1) by (auto simp: audited_def)
  have p': "prior_with_key ''merge.aborted'' (abort_key rid nid (mt_op_id txn)) (evs @ evs') = None"
    using p audit_no_prior[OF rm(2), of "''merge.aborted''"] by (simp add: prior_with_key_append reducers_def)
  have pend: "map_option mt_op_id (n_pending_merge n1) = Some (mt_op_id txn)" using n(2) by (auto simp: opened_def)
  obtain ar d' n' where e: "append_and_apply_event X clock rid ''merge.aborted'' (Some nid) (Some (abort_key rid nid (mt_op_id txn)))
      (abort_data (mt_op_id txn) reason) d2 = (Inr ar, d')"
    "log_room X rid k d' ((evs @ evs') @ [new_event clock rid ''merge.aborted'' (Some nid)
       (Some (abort_key rid nid (mt_op_id txn))) (abort_data (mt_op_id txn) reason) (last_seq (evs @ evs') + 1)])"
    "read_node_opt rid d' nid = Inr (Some n')" "released n1 n'"
    by (rule node_event[OF X rm(1) v abort_data_fits _ reduce_abort[OF n2 pend], where clock = clock and key = "Some (abort_key rid nid (mt_op_id txn))"])
      (use p' in simp, rule that)
  have "untouched_node n n'"
    using e(4) n(2,3) by (cases n) (auto simp: released_def opened_def untouched_node_def)
  then show ?thesis using e(1-3) by (auto simp: abort_merge_start_def simp flip: abort_data_def)
qed

lemma report_merges:
  assumes X: "ext_ok X" and v: "valid_target rid nid" and a: "audited X rid 4 d evs d2"
    and p: "prior_with_key ''node.report'' (explicit_merge_key rid nid) evs = None"
    and n: "read_node_opt rid d nid = Inr (Some n1)" "\<not> is_terminal (n_status n1)"
    and report: "get report ''success'' = Some (Bool True)" "get report ''cancelled'' \<in> {None, Some Null, Some (Bool False)}"
      "fits (MAX_DEPTH - 1) report"
  obtains ar d3 n' evs' where "append_and_apply_event X clock rid ''node.report'' (Some nid) (Some (explicit_merge_key rid nid))
      report d2 = (Inr ar, d3)" "read_node_opt rid d3 nid = Inr (Some n')" "merged_with report n'"
    "log_room X rid 3 d3 (evs @ evs')"
proof -
  have four: "(4 :: nat) = Suc 3" by simp
  from a obtain evs' where rm: "log_room X rid (Suc 3) d2 (evs @ evs')" "list_all (\<lambda>e. map_of reducers (ev_kind e) = None) evs'"
    and n2: "read_node_opt rid d2 nid = Inr (Some n1)" using n(1) unfolding four by (auto simp: audited_def)
  have p': "prior_with_key ''node.report'' (explicit_merge_key rid nid) (evs @ evs') = None"
    using p audit_no_prior[OF rm(2), of "''node.report''"] by (simp add: prior_with_key_append reducers_def)
  obtain ar d3 n' where "append_and_apply_event X clock rid ''node.report'' (Some nid) (Some (explicit_merge_key rid nid))
      report d2 = (Inr ar, d3)"
    "log_room X rid 3 d3 ((evs @ evs') @ [new_event clock rid ''node.report'' (Some nid) (Some (explicit_merge_key rid nid))
       report (last_seq (evs @ evs') + 1)])"
    "read_node_opt rid d3 nid = Inr (Some n')" "merged_with report n'"
    by (rule node_event[OF X rm(1) v report(3) _ reduce_merge_report[OF n2 n(2) report(1,2)],
          where clock = clock and key = "Some (explicit_merge_key rid nid)"]) (use p' in simp, rule that)
  then show ?thesis using that by simp
qed

text \<open>The outcome of a fresh merge, with the step of the git driver that led to it.\<close>

definition report_ok :: "json \<Rightarrow> bool" where
  "report_ok report \<longleftrightarrow> get report ''success'' = Some (Bool True) \<and>
     get report ''cancelled'' \<in> {None, Some Null, Some (Bool False)} \<and> fits (MAX_DEPTH - 1) report"

definition txn_logged ::
    "ext \<Rightarrow> (u64 \<Rightarrow> time) \<Rightarrow> run_id \<Rightarrow> 'w host \<Rightarrow> 'w merge_env \<Rightarrow> node_id \<Rightarrow> node \<Rightarrow> string \<Rightarrow> string \<Rightarrow> string option \<Rightarrow>
     event list \<Rightarrow> 'w \<Rightarrow> run_dir \<Rightarrow> bool" where
  "txn_logged X clock rid H E nid n0 wt branch src evs w d' \<longleftrightarrow> (\<exists>s eo wo evs'. src = Some s \<and>
     read_oid H w wt s = Some eo \<and> read_oid H w wt branch = Some wo \<and>
     log_room X rid 0 d' (evs @ new_event clock rid ''merge.started'' (Some nid) None
       (txn_json X (new_txn E s branch eo wo n0 None False)) (last_seq evs + 1) # evs'))"

lemma fresh_outcome:
  assumes X: "ext_ok X" and mg: "mergeable X rid nid (me_op_id E) d n evs"
    and m: "read_manifest_opt rid d = Inr (Some m)" "m_agent_owner m = Taskfleet" and ok: "report_ok report"
    and run: "merge_fresh X clock rid H E quiet nid n0 wt branch src report (d, w) = (r, d', w')"
  shows "case r of
      Inl e \<Rightarrow> (\<exists>n'. read_node_opt rid d' nid = Inr (Some n') \<and> untouched_node n n') \<and>
        (w' \<noteq> w \<longrightarrow> txn_logged X clock rid H E nid n0 wt branch src evs w d')
    | Inr _ \<Rightarrow> txn_logged X clock rid H E nid n0 wt branch src evs w d' \<and>
        (\<exists>n' s eo wo oid h d1 d2 w2. read_node_opt rid d' nid = Inr (Some n') \<and> src = Some s \<and>
        merged_with (stamp (merge_origin (me_op_id E) wo oid) report) n' \<and>
        read_oid H w wt s = Some eo \<and> read_oid H w wt branch = Some wo \<and>
        run_git_merge H E quiet wt branch src (Some eo) (act_of (\<lambda>_. Inr ())) (record_prepared X clock rid quiet nid h) (d1, w) =
          (Inr oid, d2, w2) \<and>
        (\<exists>d3. w' = snd (snd (ensure_report_consumer X clock rid E quiet (d3, w2)))))"
proof -
  from mg have v: "valid_target rid nid" and n: "read_node_opt rid d nid = Inr (Some n)" "\<not> is_terminal (n_status n)"
    "n_pending_merge n = None" by (simp_all add: mergeable_def)
  from started_transaction[OF X mg m, where clock = clock and H = H and wt = wt and branch = branch and ?n0.0 = n0
      and src = src and w = w]
  consider e where "record_merge_start X clock rid H E quiet nid wt branch n0 src None False (d, w) = (Inl e, d, w)"
    | s eo wo txn d1 n1 where "record_merge_start X clock rid H E quiet nid wt branch n0 src None False (d, w) =
        (Inr \<lparr>mh_op_id = me_op_id E, mh_expected_source_oid = eo, mh_worker_oid = wo\<rparr>, d1, w)"
      "src = Some s" "read_oid H w wt s = Some eo" "read_oid H w wt branch = Some wo"
      "txn = new_txn E s branch eo wo n0 None False"
      "log_room X rid 5 d1 (evs @ [new_event clock rid ''merge.started'' (Some nid) None (txn_json X txn) (last_seq evs + 1)])"
      "read_node_opt rid d1 nid = Inr (Some n1)" "opened n txn n1"
    by blast
  then show ?thesis
  proof cases
    case 1
    then show ?thesis using run n by (auto simp: merge_fresh_def act_bind_def untouched_node_def intro!: exI[of _ "n_updated_at n"])
  next
    case 2
    let ?h = "\<lparr>mh_op_id = me_op_id E, mh_expected_source_oid = eo, mh_worker_oid = wo\<rparr>"
    let ?evs = "evs @ [new_event clock rid ''merge.started'' (Some nid) None (txn_json X txn) (last_seq evs + 1)]"
    have op: "mt_op_id txn = me_op_id E" by (simp add: 2(5) new_txn_def)
    have rm: "log_room X rid (Suc 4) d1 ?evs" using 2(6) by simp
    have p: "prior_with_key ''node.report'' (explicit_merge_key rid nid) ?evs = None"
      "prior_with_key ''merge.aborted'' (abort_key rid nid (mt_op_id txn)) ?evs = None"
      using mg by (simp_all add: mergeable_def prior_with_key_append op) (simp_all add: prior_with_key_def new_event_def)
    have open1: "\<not> is_terminal (n_status n1)" using n(2) 2(8) by (auto simp: opened_def)
    note pl = prepared_leads[OF X v rm]
    obtain q d2 w2 where g: "run_git_merge H E quiet wt branch src (Some eo) (act_of (\<lambda>_. Inr ()))
        (record_prepared X clock rid quiet nid ?h) (d1, w) = (q, d2, w2)" by (metis surj_pair)
    have "leads d1 (audited X rid 4 d1 ?evs) (run_git_merge H E quiet wt branch src (Some eo) (act_of (\<lambda>_. Inr ()))
        (record_prepared X clock rid quiet nid ?h))" by (rule git_merge_leads[OF pl])
    then have "audited X rid 4 d1 ?evs (fst (snd (run_git_merge H E quiet wt branch src (Some eo) (act_of (\<lambda>_. Inr ()))
        (record_prepared X clock rid quiet nid ?h) (d1, w))))" unfolding leads_def by blast
    then have a: "audited X rid 4 d1 ?evs d2" using g by simp
    show ?thesis
    proof (cases q)
      case (Inl e)
      then have "r = Inl e" "d' = fst (abort_merge_start X clock rid nid (me_op_id E) ''merge did not complete'' (d2, w2))"
        using run 2(1) g by (auto simp: merge_fresh_def act_bind_def quiet_same)
      moreover have "audited X rid (Suc 0) d1 ?evs d2" by (rule audited_weaken[OF a]) simp
      note abort_reopens[OF X v this p(2) 2(7,8) n(3), of clock "''merge did not complete''" w2, unfolded op]
      ultimately show ?thesis using 2(2-5) by (auto simp: txn_logged_def)
    next
      case (Inr oid)
      let ?report = "stamp (merge_origin (me_op_id E) wo oid) report"
      have st: "get ?report ''success'' = Some (Bool True)" "get ?report ''cancelled'' \<in> {None, Some Null, Some (Bool False)}"
        "fits (MAX_DEPTH - 1) ?report" using stamped_report[OF _ _ _ refl, of report] ok by (simp_all add: report_ok_def)
      obtain ar d3 n' evs' where rep: "append_and_apply_event X clock rid ''node.report'' (Some nid)
          (Some (explicit_merge_key rid nid)) ?report d2 = (Inr ar, d3)" "read_node_opt rid d3 nid = Inr (Some n')"
        "merged_with ?report n'" "log_room X rid 3 d3 (?evs @ evs')"
        by (rule report_merges[OF X v a p(1) 2(7) open1 st]) (rule that)
      obtain c d4 w4 where c: "ensure_report_consumer X clock rid E quiet (d3, w2) = (c, d4, w4)" by (metis surj_pair)
      have "r = Inr (ar_seq ar, c)" "d' = d4" "w' = w4"
        using run 2(1) g Inr rep(1) c by (auto simp: merge_fresh_def act_bind_def act_io_def cli_core_def)
      moreover have "audited X rid 0 d3 (?evs @ evs') d4" using consumer_audited[OF X v rep(4), of clock E w2] c by simp
      then have "read_node_opt rid d4 nid = Inr (Some n')" "txn_logged X clock rid H E nid n0 wt branch src evs w d4"
        using rep(2) 2(2-5) by (auto simp: audited_def txn_logged_def)
      moreover have "w4 = snd (snd (ensure_report_consumer X clock rid E quiet (d3, w2)))" using c by simp
      ultimately show ?thesis using 2(2-4) g Inr rep(3) by simp blast
    qed
  qed
qed

text \<open>When the git driver gets through with every callback that does, the merge succeeds.\<close>

lemma fresh_success:
  assumes X: "ext_ok X" and mg: "mergeable X rid nid (me_op_id E) d n evs"
    and m: "read_manifest_opt rid d = Inr (Some m)" "m_agent_owner m = Taskfleet" and ok: "report_ok report"
    and o: "read_oid H w wt s = Some eo" "read_oid H w wt branch = Some wo"
    and git: "\<And>(cb :: string \<Rightarrow> ('w, string) act) d d' a. cb oid (d, w1) = (Inr a, d', w1) \<Longrightarrow>
      run_git_merge H E quiet wt branch (Some s) (Some eo) (act_of (\<lambda>_. Inr ())) cb (d, w) = (Inr a, d', w2)"
  obtains x d' d3 where "merge_fresh X clock rid H E quiet nid n0 wt branch (Some s) report (d, w) =
    (Inr x, d', snd (snd (ensure_report_consumer X clock rid E quiet (d3, w2))))"
proof -
  from mg have v: "valid_target rid nid" and n: "\<not> is_terminal (n_status n)" by (simp_all add: mergeable_def)
  let ?h = "\<lparr>mh_op_id = me_op_id E, mh_expected_source_oid = eo, mh_worker_oid = wo\<rparr>"
  let ?txn = "new_txn E s branch eo wo n0 None False"
  let ?evs = "evs @ [new_event clock rid ''merge.started'' (Some nid) None (txn_json X ?txn) (last_seq evs + 1)]"
  obtain d1 n1 where st: "record_merge_start X clock rid H E quiet nid wt branch n0 (Some s) None False (d, w) = (Inr ?h, d1, w)"
    "log_room X rid 5 d1 ?evs" "read_node_opt rid d1 nid = Inr (Some n1)" "opened n ?txn n1"
    by (rule start_recorded[OF X mg m refl o refl]) (rule that)
  have rm: "log_room X rid (Suc 4) d1 ?evs" using st(2) by simp
  have p: "prior_with_key ''node.report'' (explicit_merge_key rid nid) ?evs = None"
    using mg by (simp add: mergeable_def prior_with_key_append) (simp add: prior_with_key_def new_event_def)
  have open1: "\<not> is_terminal (n_status n1)" using n st(4) by (auto simp: opened_def)
  have a1: "audited X rid (Suc 4) d1 ?evs d1" using rm unfolding audited_def by (intro conjI exI[of _ "[]"]) simp_all
  obtain ar d2 where pr: "append_and_apply_event X clock rid ''merge.native_prepared'' (Some nid) None (prepared_data ?h oid) d1 =
      (Inr ar, d2)" "audited X rid 4 d1 ?evs d2"
    using audited_append[OF X v _ prepared_fits supervisor_kinds(4) a1, of "Some nid" clock None ?h oid]
    by (cases "append_and_apply_event X clock rid ''merge.native_prepared'' (Some nid) None (prepared_data ?h oid) d1") auto
  have g: "run_git_merge H E quiet wt branch (Some s) (Some eo) (act_of (\<lambda>_. Inr ())) (record_prepared X clock rid quiet nid ?h)
      (d1, w) = (Inr oid, d2, w2)"
    by (rule git) (use pr(1) in \<open>simp add: record_prepared_def act_bind_def act_io_def act_of_def cli_core_def\<close>)
  have sr: "get (stamp (merge_origin (me_op_id E) wo oid) report) ''success'' = Some (Bool True)"
    "get (stamp (merge_origin (me_op_id E) wo oid) report) ''cancelled'' \<in> {None, Some Null, Some (Bool False)}"
    "fits (MAX_DEPTH - 1) (stamp (merge_origin (me_op_id E) wo oid) report)"
    using stamped_report[OF _ _ _ refl, of report] ok by (simp_all add: report_ok_def)
  obtain ar' d3 where rep: "append_and_apply_event X clock rid ''node.report'' (Some nid) (Some (explicit_merge_key rid nid))
      (stamp (merge_origin (me_op_id E) wo oid) report) d2 = (Inr ar', d3)"
    by (rule report_merges[OF X v pr(2) p st(3) open1 sr]) (rule that)
  obtain c d4 w4 where c: "ensure_report_consumer X clock rid E quiet (d3, w2) = (c, d4, w4)" by (metis surj_pair)
  show ?thesis
    by (rule that[of "(ar_seq ar', c)" d4 d3])
      (use st(1) g rep c in \<open>simp add: merge_fresh_def act_bind_def act_io_def cli_core_def\<close>)
qed

section \<open>The verb\<close>

lemma act_of_bind: "act_bind (act_of f) g s = (case f s of Inl e \<Rightarrow> (Inl e, s) | Inr x \<Rightarrow> g x s)"
  by (simp add: act_bind_def act_of_def split: sum.split)

lemma act_quiet_bind: "act_bind (act_gap quiet i) g s = g () s"
  by (simp add: act_bind_def)

lemma guard_quiet: "worktree_guard rid E quiet m wt dry s = (case fst (worktree_guard rid E quiet m wt dry s) of
    Inl e \<Rightarrow> (Inl e, s) | Inr _ \<Rightarrow> (Inr (), s))"
  by (simp add: worktree_guard_def act_quiet_bind act_of_def worktree_gone_error_def split: sum.split prod.split)

text \<open>A merge that ends before the recovery step changed nothing and merged nothing; otherwise the
  guards held.\<close>

lemma execute_cases:
  assumes "execute X clock rid H L E quiet args s = (r, s')"
  obtains "s' = s" "\<And>o'. r = Inr o' \<Longrightarrow> mo_dry_run o' \<and> \<not> mo_merged o'"
  | nid m n wt branch src report ws q where
    "parse_node_id (unwrap_or DEFAULT_NODE_ID (ma_node_id args)) = Inr nid" "merge_manifest rid (fst s) = Inr m"
    "merge_node rid nid (fst s) = Inr (n, wt, branch)" "build_report X (ma_report_file args) branch src = Inr (report, ws)"
    "merge_recovered X clock rid H L E quiet nid n wt branch src report s = (q, s')"
    "\<And>e. r = Inl e \<Longrightarrow> q = Inl e"
    "\<And>o'. r = Inr o' \<Longrightarrow> mo_merged o' \<and> \<not> mo_dry_run o' \<and> mo_source o' = src \<and> mo_branch o' = branch \<and>
       (\<exists>c. q = Inr (mo_report_seq o', c))"
proof -
  have guard: "act_bind (worktree_guard rid E quiet m wt dry) g s = (case fst (worktree_guard rid E quiet m wt dry s) of
    Inl e \<Rightarrow> (Inl e, s) | Inr _ \<Rightarrow> g () s)" for m wt dry s and g :: "unit \<Rightarrow> ('a, 'b) act"
    by (subst act_bind_def, subst guard_quiet) (simp split: sum.split)
  note step = assms[unfolded execute_def act_of_bind act_quiet_bind guard Let_def]
  show thesis
    using step that
    by (clarsimp simp: act_bind_def[of "merge_recovered X clock rid H L E quiet _ _ _ _ _ _"] act_of_def act_of_bind act_quiet_bind
        guard Let_def split: sum.splits prod.splits if_splits)
qed

lemma manifest_owner: "merge_manifest rid d = Inr m \<Longrightarrow> read_manifest_opt rid d = Inr (Some m) \<and> m_agent_owner m = Taskfleet"
  by (cases "m_agent_owner m")
    (auto simp: merge_manifest_def cli_core_def res_simps require_writer_fence_def ensure_def split: sum.splits if_splits)

lemma merge_node_read: "merge_node rid nid d = Inr (n, wt, branch) \<Longrightarrow>
    read_node_opt rid d nid = Inr (Some n) \<and> n_worktree_path n = Some wt \<and> n_branch n = Some branch"
  by (auto simp: merge_node_def cli_core_def res_simps branch_for_def split: sum.splits if_splits)

text \<open>The whole verb on an open node: nothing, or a fresh merge.\<close>

lemma execute_outcome:
  assumes X: "ext_ok X" and nid: "parse_node_id (unwrap_or DEFAULT_NODE_ID (ma_node_id args)) = Inr nid"
    and mg: "mergeable X rid nid (me_op_id E) d n evs" and sh: "shallow_report X args"
    and run: "execute X clock rid H L E quiet args (d, w) = (r, d', w')"
  obtains "d' = d" "w' = w" "\<And>o'. r = Inr o' \<Longrightarrow> mo_dry_run o' \<and> \<not> mo_merged o'"
  | m wt branch src report q where "read_manifest_opt rid d = Inr (Some m)" "m_agent_owner m = Taskfleet" "report_ok report"
    "n_worktree_path n = Some wt" "n_branch n = Some branch"
    "merge_fresh X clock rid H E quiet nid n wt branch src report (d, w) = (q, d', w')"
    "\<And>e. r = Inl e \<Longrightarrow> \<exists>e. q = Inl e"
    "\<And>o'. r = Inr o' \<Longrightarrow> mo_merged o' \<and> \<not> mo_dry_run o' \<and> mo_source o' = src \<and> mo_branch o' = branch \<and> (\<exists>x. q = Inr x)"
  using run
proof (cases rule: execute_cases)
  case 1
  then show ?thesis using that(1) by simp
next
  case (2 nid' m n' wt branch src report ws q)
  have e: "nid' = nid" "n' = n" and n: "n_worktree_path n = Some wt" "n_branch n = Some branch"
    and p: "n_pending_merge n = None" "read_node_opt rid d nid = Inr (Some n)"
    using 2(1,3) nid mg merge_node_read[of rid nid d] by (auto simp: mergeable_def)
  have m: "read_manifest_opt rid d = Inr (Some m)" "m_agent_owner m = Taskfleet" using manifest_owner 2(2) by auto
  have ok: "report_ok report" using built_report[OF 2(4) sh] by (simp add: report_ok_def)
  have "recover_node X clock (me_probes E) (me_now E) rid H L quiet nid (d, w) = (NothingPending, d, w)"
    using native_quiet[OF m p(2), of X clock] p(1) by simp
  then obtain q' where "merge_fresh X clock rid H E quiet nid n wt branch src report (d, w) = (q', d', w')"
    "(\<exists>e. q = Inl e) \<longleftrightarrow> (\<exists>e. q' = Inl e)"
    using 2(5) by (auto simp: merge_recovered_def e act_bind_def act_of_def split: prod.splits sum.splits)
  then show ?thesis using that(2)[OF m ok n] 2(6,7) by (metis sum.exhaust Inl_Inr_False)
qed

text \<open>C4: \<open>run merge\<close> settles the node or leaves it open. On a run that is up to date, with an open node
  and no transaction pending, whatever git, the merge lock, the report file or the supervisor do: a
  merge that fails leaves the node exactly as it was, open and without a transaction, so the worker
  can go on and try again; a preview changes nothing; and a merge that succeeds leaves the node done,
  with no transaction, and with a report that counts as a confirmed merge and names this
  transaction and the tip that was integrated.\<close>

theorem merge_settles_or_reopens:
  assumes "ext_ok X" and "parse_node_id (unwrap_or DEFAULT_NODE_ID (ma_node_id args)) = Inr nid"
    and "mergeable X rid nid (me_op_id E) d n evs" and "shallow_report X args"
    and "execute X clock rid H L E quiet args (d, w) = (r, d', w')"
  shows "case r of
      Inl e \<Rightarrow> \<exists>n'. read_node_opt rid d' nid = Inr (Some n') \<and> untouched_node n n'
    | Inr o' \<Rightarrow>
        if mo_dry_run o' then \<not> mo_merged o' \<and> d' = d \<and> w' = w
        else mo_merged o' \<and> (\<exists>n' report wo oid. read_node_opt rid d' nid = Inr (Some n') \<and> merged_with report n' \<and>
          report_is_confirmed_merge report \<and> from_report report = Some (merge_origin (me_op_id E) wo oid))"
proof -
  have n: "read_node_opt rid d nid = Inr (Some n)" using assms(3) by (simp add: mergeable_def)
  from assms show ?thesis
  proof (cases rule: execute_outcome)
    case 1
    have "untouched_node n n" unfolding untouched_node_def by (rule exI[of _ "n_updated_at n"]) simp
    then show ?thesis using 1 n by (cases r) auto
  next
    case (2 m wt branch src report q)
    note f = fresh_outcome[OF assms(1,3) 2(1-3,6)]
    show ?thesis
    proof (cases r)
      case (Inl e)
      then show ?thesis using 2(7) f by auto
    next
      case (Inr o')
      then obtain x where "q = Inr x" using 2(8) by blast
      with f obtain n' wo oid where "read_node_opt rid d' nid = Inr (Some n')"
        "merged_with (stamp (merge_origin (me_op_id E) wo oid) report) n'" by auto
      moreover have "get report ''success'' = Some (Bool True)" "get report ''cancelled'' \<in> {None, Some Null, Some (Bool False)}"
        "fits (MAX_DEPTH - 1) report" using 2(3) by (simp_all add: report_ok_def)
      note stamped_report(4,5)[OF this refl]
      ultimately show ?thesis using Inr 2(8)[OF Inr] by auto
    qed
  qed
qed

text \<open>C3: git is touched only under a transaction that is in the log. Whenever \<open>run merge\<close> leaves anything
  in the outside world different, a ref, a checkout, the merge lock or a new supervisor, the log
  holds this merge's \<open>merge.started\<close>, and its data reads back as a transaction with the very ids that
  the source and the worker's branch had when the merge began: what a crash leaves behind can be
  judged from the log alone.\<close>

theorem git_moves_under_transaction:
  assumes "ext_ok X" and "parse_node_id (unwrap_or DEFAULT_NODE_ID (ma_node_id args)) = Inr nid"
    and "mergeable X rid nid (me_op_id E) d n evs" and "shallow_report X args"
    and "execute X clock rid H L E quiet args (d, w) = (r, d', w')" and "w' \<noteq> w"
  shows "\<exists>wt ev evs' txn. n_worktree_path n = Some wt \<and> read_all_events X d' = Inr (evs @ ev # evs') \<and>
    ev_kind ev = ''merge.started'' \<and> ev_node_id ev = Some nid \<and> de_merge_txn X (ev_data ev) = Some txn \<and>
    mt_op_id txn = me_op_id E \<and> n_branch n = Some (mt_worker_branch txn) \<and>
    read_oid H w wt (mt_source_branch txn) = Some (mt_expected_source_oid txn) \<and>
    read_oid H w wt (mt_worker_branch txn) = Some (mt_worker_oid txn)"
  using assms(1-5)
proof (cases rule: execute_outcome)
  case 1
  then show ?thesis using assms(6) by simp
next
  case (2 m wt branch src report q)
  have "txn_logged X clock rid H E nid n wt branch src evs w d'"
    using fresh_outcome[OF assms(1,3) 2(1-3,6)] assms(6) by (cases q) auto
  then obtain s eo wo evs' where t: "read_oid H w wt s = Some eo" "read_oid H w wt branch = Some wo"
    "log_room X rid 0 d' (evs @ new_event clock rid ''merge.started'' (Some nid) None
       (txn_json X (new_txn E s branch eo wo n None False)) (last_seq evs + 1) # evs')" by (auto simp: txn_logged_def)
  let ?txn = "new_txn E s branch eo wo n None False"
  let ?ev = "new_event clock rid ''merge.started'' (Some nid) None (txn_json X ?txn) (last_seq evs + 1)"
  have "de_merge_txn X (ev_data ?ev) = Some ?txn" using txn_roundtrip[OF assms(1)] by (simp add: new_event_def)
  moreover have "read_all_events X d' = Inr (evs @ ?ev # evs')" by (rule log_room_events[OF assms(1) t(3)])
  moreover have "ev_kind ?ev = ''merge.started'' \<and> ev_node_id ?ev = Some nid" by (simp add: new_event_def)
  moreover have "mt_op_id ?txn = me_op_id E" "mt_worker_branch ?txn = branch" "mt_source_branch ?txn = s"
    "mt_expected_source_oid ?txn = eo" "mt_worker_oid ?txn = wo" by (simp_all add: new_txn_def)
  ultimately show ?thesis using 2(4,5) t(1,2) by metis
qed

section \<open>The landed tip\<close>

text \<open>Git and the file system as documented. \<open>anc\<close> is ancestry in the commit graph, which has no
  cycles. A directory that is not git's changes no answer of git. A rebase that succeeds leaves every
  checkout on its branch, and leaves the rebased branch on top of the branch it was rebased onto, as
  read in any checkout registered with the repository. A \<open>merge --ff-only\<close> that succeeds either moved
  the checked-out branch forward to the tip it was given, or found that tip already contained and moved
  nothing. Starting a supervisor moves no ref.\<close>

definition merge_laws :: "(string \<Rightarrow> string \<Rightarrow> bool) \<Rightarrow> 'w host \<Rightarrow> 'w merge_env \<Rightarrow> bool" where
  "merge_laws anc H E \<longleftrightarrow>
     (\<forall>a b. anc a b \<longrightarrow> anc b a \<longrightarrow> a = b) \<and>
     (\<forall>w p w' dir args. me_create_dir E w p = DirCreated w' \<longrightarrow> git_read H w' dir args = git_read H w dir args) \<and>
     (\<forall>w p dir args. git_read H (me_remove_dir E w p) dir args = git_read H w dir args) \<and>
     (\<forall>w wt s out w' dir. git_write H w wt [''rebase'', ''--'', s] = (out, w') \<longrightarrow> cmd_success out \<longrightarrow>
        head_branch H w' dir = head_branch H w dir) \<and>
     (\<forall>w wt branch s out w' rows row so bo. head_branch H w wt = Some branch \<longrightarrow>
        worktree_registrations H w wt = Some rows \<longrightarrow> row \<in> set rows \<longrightarrow> head_branch H w (wr_path row) = Some s \<longrightarrow>
        git_write H w wt [''rebase'', ''--'', s] = (out, w') \<longrightarrow> cmd_success out \<longrightarrow>
        read_oid H w' (wr_path row) s = Some so \<longrightarrow> read_oid H w' (wr_path row) branch = Some bo \<longrightarrow> anc so bo) \<and>
     (\<forall>w dir branch s so bo out w'. head_branch H w dir = Some s \<longrightarrow>
        read_oid H w dir s = Some so \<longrightarrow> read_oid H w dir branch = Some bo \<longrightarrow>
        git_write H w dir [''merge'', ''--ff-only'', ''--no-overwrite-ignore'', ''--'', branch] = (out, w') \<longrightarrow> cmd_success out \<longrightarrow>
        anc so bo \<and> read_oid H w' dir s = Some bo \<or> anc bo so \<and> read_oid H w' dir s = Some so) \<and>
     (\<forall>w dir rv. read_oid H (snd (me_spawn E w)) dir rv = read_oid H w dir rv)"

lemma merge_lawsD:
  assumes "merge_laws anc H E"
  shows "anc a b \<Longrightarrow> anc b a \<Longrightarrow> a = b"
    and "git_write H w wt [''rebase'', ''--'', s] = (out, w') \<Longrightarrow> cmd_success out \<Longrightarrow>
      head_branch H w' dir = head_branch H w dir"
    and "head_branch H w wt = Some branch \<Longrightarrow> worktree_registrations H w wt = Some rows \<Longrightarrow> row \<in> set rows \<Longrightarrow>
      head_branch H w (wr_path row) = Some s \<Longrightarrow> git_write H w wt [''rebase'', ''--'', s] = (out, w') \<Longrightarrow> cmd_success out \<Longrightarrow>
      read_oid H w' (wr_path row) s = Some so \<Longrightarrow> read_oid H w' (wr_path row) branch = Some bo \<Longrightarrow> anc so bo"
    and "head_branch H w dir = Some s \<Longrightarrow> read_oid H w dir s = Some so \<Longrightarrow> read_oid H w dir branch = Some bo \<Longrightarrow>
      git_write H w dir [''merge'', ''--ff-only'', ''--no-overwrite-ignore'', ''--'', branch] = (out, w') \<Longrightarrow> cmd_success out \<Longrightarrow>
      anc so bo \<and> read_oid H w' dir s = Some bo \<or> anc bo so \<and> read_oid H w' dir s = Some so"
    and "me_create_dir E w p = DirCreated w' \<Longrightarrow> git_read H w' dir args = git_read H w dir args"
    and "git_read H (me_remove_dir E w p) dir args = git_read H w dir args"
    and "read_oid H (snd (me_spawn E w)) dir rv = read_oid H w dir rv"
proof -
  note L = assms[unfolded merge_laws_def]
  show "anc a b \<Longrightarrow> anc b a \<Longrightarrow> a = b"
    by (erule (1) L[THEN conjunct1, rule_format])
  show "git_write H w wt [''rebase'', ''--'', s] = (out, w') \<Longrightarrow> cmd_success out \<Longrightarrow>
      head_branch H w' dir = head_branch H w dir"
    by (erule (1) L[THEN conjunct2, THEN conjunct2, THEN conjunct2, THEN conjunct1, rule_format])
  show "head_branch H w wt = Some branch \<Longrightarrow> worktree_registrations H w wt = Some rows \<Longrightarrow> row \<in> set rows \<Longrightarrow>
      head_branch H w (wr_path row) = Some s \<Longrightarrow> git_write H w wt [''rebase'', ''--'', s] = (out, w') \<Longrightarrow> cmd_success out \<Longrightarrow>
      read_oid H w' (wr_path row) s = Some so \<Longrightarrow> read_oid H w' (wr_path row) branch = Some bo \<Longrightarrow> anc so bo"
    by (erule (7) L[THEN conjunct2, THEN conjunct2, THEN conjunct2, THEN conjunct2, THEN conjunct1, rule_format])
  show "head_branch H w dir = Some s \<Longrightarrow> read_oid H w dir s = Some so \<Longrightarrow> read_oid H w dir branch = Some bo \<Longrightarrow>
      git_write H w dir [''merge'', ''--ff-only'', ''--no-overwrite-ignore'', ''--'', branch] = (out, w') \<Longrightarrow> cmd_success out \<Longrightarrow>
      anc so bo \<and> read_oid H w' dir s = Some bo \<or> anc bo so \<and> read_oid H w' dir s = Some so"
    by (erule (4) L[THEN conjunct2, THEN conjunct2, THEN conjunct2, THEN conjunct2, THEN conjunct2, THEN conjunct1, rule_format])
  show "me_create_dir E w p = DirCreated w' \<Longrightarrow> git_read H w' dir args = git_read H w dir args"
    by (erule L[THEN conjunct2, THEN conjunct1, rule_format])
  show "git_read H (me_remove_dir E w p) dir args = git_read H w dir args"
    by (rule L[THEN conjunct2, THEN conjunct2, THEN conjunct1, rule_format])
  show "read_oid H (snd (me_spawn E w)) dir rv = read_oid H w dir rv"
    by (rule L[THEN conjunct2, THEN conjunct2, THEN conjunct2, THEN conjunct2, THEN conjunct2, THEN conjunct2, rule_format])
qed

lemma lock_reads:
  assumes L: "merge_laws anc H E"
  shows "lock_loop E quiet p k (d, w) = (Inr (), d, w0) \<Longrightarrow> git_read H w0 dir args = git_read H w dir args"
proof (induction k arbitrary: w)
  case 0
  then show ?case
    by (subst (asm) lock_loop.simps)
      (auto simp: merge_lawsD(5)[OF L] simp del: lock_loop.simps split: dir_result.splits)
next
  case (Suc k)
  from Suc.prems show ?case using Suc.IH
    by (subst (asm) lock_loop.simps)
      (auto simp: merge_lawsD(5)[OF L] quiet_same[of 16 "(d, w)"] simp del: lock_loop.simps split: dir_result.splits)
qed

lemma reads_determine:
  assumes "\<And>dir args. git_read H w0 dir args = git_read H w dir args"
  shows "head_branch H w0 dir = head_branch H w dir" "read_oid H w0 dir rv = read_oid H w dir rv"
    "worktree_registrations H w0 dir = worktree_registrations H w dir"
  using assms by (simp_all add: head_branch_def read_oid_def worktree_registrations_def)

definition keeps_refs :: "'w host \<Rightarrow> ('w, 'a) act \<Rightarrow> bool" where
  "keeps_refs H m \<longleftrightarrow> (\<forall>d w dir rv. read_oid H (snd (snd (m (d, w)))) dir rv = read_oid H w dir rv)"

lemma keeps_refs_bind: "keeps_refs H m \<Longrightarrow> (\<And>x. keeps_refs H (f x)) \<Longrightarrow> keeps_refs H (act_bind m f)"
  by (simp add: keeps_refs_def act_bind_def split: prod.split sum.split) (metis snd_conv)

lemma keeps_refs_steps [simp]: "keeps_refs H (act_of r)" "keeps_refs H (act_gap quiet i)" "keeps_refs H (act_io m)"
  "keeps_refs H (\<lambda>s. (x, g (fst s), snd s))"
  by (simp_all add: keeps_refs_def act_of_def act_io_def split: prod.split)

lemma consumer_refs:
  assumes "merge_laws anc H E"
  shows "read_oid H (snd (snd (ensure_report_consumer X clock rid E quiet (d, w)))) dir rv = read_oid H w dir rv"
proof -
  have sp: "read_oid H (snd (me_spawn E w)) dir rv = read_oid H w dir rv" for w dir rv by (rule merge_lawsD(7)[OF assms])
  have "keeps_refs H (\<lambda>(d, w). case me_spawn E w of (r, w') \<Rightarrow> (r, d, w'))"
    unfolding keeps_refs_def using sp by (simp split: prod.split) (metis snd_conv)
  moreover have "keeps_refs H (\<lambda>s. case read_pid_record (me_pid_file E (snd s)) of
         None \<Rightarrow> (Inr (), s)
       | Some (existing, start) \<Rightarrow>
           if pid_live_with_identity (me_probes E) existing start then (Inl ''supervisor_already_running'', s)
           else (Inr (), snd (append_and_apply_event X clock rid ''supervisor.exited'' None (Some (stale_key existing start))
             (Object [(''pid'', u32_json existing), (''reason'', String ''stale-on-reattach'')]) (fst s)), snd s))"
    by (simp add: keeps_refs_def split: option.split)
  ultimately have k: "keeps_refs H (spawn_supervisor X clock rid E quiet)"
    unfolding spawn_supervisor_def by (intro keeps_refs_bind) (simp_all, simp add: keeps_refs_def)
  show ?thesis
    using k[unfolded keeps_refs_def]
    by (auto simp: ensure_report_consumer_def quiet_same Let_def split: sum.split prod.split) (metis snd_conv)+
qed

lemma merge_target_row:
  assumes "merge_target H wt branch (Some s) w = Inr (t, s')"
  obtains rows row where "worktree_registrations H w wt = Some rows" "row \<in> set rows" "wr_path row = t"
    "s' = s" "head_branch H w wt = Some branch"
  using assms that nth_mem
  by (fastforce simp: merge_target_def select_target_def res_simps ensure_def find_Some_iff split: if_splits)

text \<open>With the branch where the source is or freshly rebased onto it, a fast-forward that succeeds leaves
  the source at the branch's tip.\<close>

lemma fast_forward_lands:
  assumes L: "merge_laws anc H E" and hb: "head_branch H w0 t = Some s"
    and row: "head_branch H w0 wt = Some branch" "worktree_registrations H w0 wt = Some rows" "row \<in> set rows" "wr_path row = t"
    and w1: "w1 = w0 \<and> oid = eo \<or> (\<exists>done. git_write H w0 wt [''rebase'', ''--'', s] = (done, w1) \<and> cmd_success done)"
    and r: "read_oid H w1 t s = Some eo" "read_oid H w1 t branch = Some oid"
    and ff: "git_write H w1 t [''merge'', ''--ff-only'', ''--no-overwrite-ignore'', ''--'', branch] = (out, w3)" "cmd_success out"
  shows "read_oid H w3 t s = Some oid"
proof -
  have h1: "head_branch H w1 t = Some s" using w1 hb merge_lawsD(2)[OF L] by auto
  have "oid = eo \<or> anc eo oid"
    using w1 merge_lawsD(3)[OF L row(1-3), unfolded row(4), OF hb] r by blast
  with merge_lawsD(4)[OF L h1 r ff] merge_lawsD(1)[OF L, of eo oid] show ?thesis by auto
qed


end
