(* ===== verification/Landed_Facts.thy ===== *)
theory Landed_Facts
  imports Merge_Recovery Pid_Facts
begin

text \<open>
  The landed signal against what git documents of its answers: \<open>git cherry\<close> lists the commits of the
  branch, each marked by whether an equivalent patch is upstream, and \<open>git rev-list --count\<close> prints
  a number. Over answers of that form the textual reading of the code is the stated decision, and
  the verdict on a crashed merge follows from it.
\<close>

section \<open>Text that survives reading\<close>

definition graphic :: "char \<Rightarrow> bool" where
  "graphic c \<longleftrightarrow> CHR ''!'' \<le> c \<and> c \<le> CHR ''~''"

lemma white_space_edges:
  "list_all (\<lambda>u. u \<noteq> [] \<longrightarrow> \<not> graphic (hd u) \<and> \<not> graphic (last u)) white_space_utf8"
  by (simp add: white_space_utf8_def graphic_def less_eq_char_def)

lemma strip_leading_graphic:
  assumes "s \<noteq> []" and "graphic (hd s)" and "\<And>u. u \<in> set ws \<Longrightarrow> u \<noteq> [] \<Longrightarrow> \<not> graphic (hd u)"
  shows "strip_leading ws s = s"
proof -
  have "List.find (\<lambda>u. u \<noteq> [] \<and> prefix u s) ws = None"
    using assms by (auto simp: find_None_iff prefix_def hd_append split: if_splits)
  then show ?thesis by (subst strip_leading.simps) simp
qed

lemma trim_graphic:
  assumes "s \<noteq> []" and "graphic (hd s)" and "graphic (last s)"
  shows "trim s = s"
proof -
  have ws: "\<not> graphic (hd u) \<and> \<not> graphic (last u)" if "u \<in> set white_space_utf8" "u \<noteq> []" for u
    using white_space_edges that by (auto simp: list_all_iff)
  have "strip_leading white_space_utf8 s = s"
    by (rule strip_leading_graphic) (use assms ws in auto)
  moreover have "strip_leading (map rev white_space_utf8) (rev s) = rev s"
    by (rule strip_leading_graphic) (use assms ws in \<open>auto simp: hd_rev\<close>)
  ultimately show ?thesis by (simp add: trim_def trim_start_def trim_end_def)
qed

lemma trim_line:
  assumes "s \<noteq> []" and "graphic (hd s)" and "graphic (last s)"
  shows "trim (s @ [CHR 0x0A]) = s"
proof -
  have g: "\<not> graphic (hd u) \<and> \<not> graphic (last u)" if "u \<in> set white_space_utf8" "u \<noteq> []" for u
    using white_space_edges that by (auto simp: list_all_iff)
  have "strip_leading white_space_utf8 (s @ [CHR 0x0A]) = s @ [CHR 0x0A]"
    by (rule strip_leading_graphic) (use assms g in auto)
  moreover have "strip_leading (map rev white_space_utf8) (CHR 0x0A # rev s) = strip_leading (map rev white_space_utf8) (rev s)"
    by (subst strip_leading.simps) (simp add: white_space_utf8_def)
  moreover have "strip_leading (map rev white_space_utf8) (rev s) = rev s"
    by (rule strip_leading_graphic) (use assms g in \<open>auto simp: hd_rev\<close>)
  ultimately show ?thesis by (simp add: trim_def trim_start_def trim_end_def)
qed

lemma hexdigit_graphic: "is_ascii_hexdigit c \<Longrightarrow> graphic c"
  by (auto simp: is_ascii_hexdigit_def is_lower_hex_def is_ascii_digit_def graphic_def less_eq_char_def)

lemma graphic_ascii: "graphic c \<Longrightarrow> c < CHR 0x80 \<and> c \<noteq> CHR 0x0A \<and> c \<noteq> CHR 0x0D"
  by (auto simp: graphic_def less_eq_char_def less_char_def)

lemma oid_text:
  assumes "is_oid s"
  shows "s \<noteq> []" "list_all graphic s"
  using assms hexdigit_graphic by (auto simp: is_oid_def list_all_iff)

lemma trim_oid: "is_oid s \<Longrightarrow> trim s = s"
  using oid_text by (intro trim_graphic) (auto simp: list_all_iff)

lemma oid_no_dash: "is_oid s \<Longrightarrow> hd s \<noteq> CHR ''-''"
proof -
  assume "is_oid s"
  then have "is_ascii_hexdigit (hd s)" by (cases s) (auto simp: is_oid_def)
  then show ?thesis
    by (auto simp: is_ascii_hexdigit_def is_lower_hex_def is_ascii_digit_def less_eq_char_def)
qed

lemma safe_arg_oid [simp]: "is_oid s \<Longrightarrow> safe_arg (Some s) = Some s"
  by (simp add: safe_arg_def filter_opt_def trim_oid oid_text oid_no_dash)

text \<open>Lines of text, each ended by a line feed.\<close>

definition text_lines :: "string list \<Rightarrow> string" where
  "text_lines ls = concat (map (\<lambda>l. l @ [CHR 0x0A]) ls)"

lemma split_text_lines:
  "list_all (\<lambda>l. CHR 0x0A \<notin> set l) ls \<Longrightarrow> split_on CHR 0x0A (text_lines ls) = ls @ [[]]"
  by (induction ls) (simp_all add: text_lines_def split_on_append)

lemma str_lines_text:
  assumes "list_all (\<lambda>l. CHR 0x0A \<notin> set l \<and> CHR 0x0D \<notin> set l) ls"
  shows "str_lines (text_lines ls) = ls"
proof -
  have "strip_cr l = l" if "l \<in> set ls" for l
    using assms that by (cases "l = []") (force simp: strip_cr_def list_all_iff dest: last_in_set)+
  then have "map strip_cr ls = ls" by (simp add: map_idI)
  moreover have "split_on CHR 0x0A (text_lines ls) = ls @ [[]]"
    by (rule split_text_lines) (use assms in \<open>auto simp: list_all_iff\<close>)
  ultimately show ?thesis by (simp add: str_lines_def Let_def)
qed

section \<open>The answers of git\<close>

text \<open>One line of \<open>git cherry\<close>: the sign, a space and the commit.\<close>

definition cherry_line :: "bool \<times> string \<Rightarrow> string" where
  "cherry_line c = (if fst c then CHR ''-'' else CHR ''+'') # CHR '' '' # snd c"

definition cherry_output :: "(bool \<times> string) list \<Rightarrow> string" where
  "cherry_output cs = text_lines (map cherry_line cs)"

lemma trim_cherry_line: "is_oid (snd c) \<Longrightarrow> trim (cherry_line c) = cherry_line c"
  using oid_text[of "snd c"]
  by (intro trim_graphic) (auto simp: cherry_line_def list_all_iff graphic_def less_eq_char_def)

lemma cherry_loop_lines:
  assumes "list_all (\<lambda>c. is_oid (snd c)) cs"
  shows "cherry_loop (map cherry_line cs) saw all_present =
    Some (saw \<or> cs \<noteq> [], all_present \<and> list_all fst cs)"
  using assms
proof (induction cs arbitrary: saw all_present)
  case (Cons c cs)
  then have "trim (cherry_line c) = cherry_line c" by (simp add: trim_cherry_line)
  with Cons show ?case by (cases "fst c") (auto simp: Let_def cherry_line_def)
qed simp

lemma cherry_output_read:
  assumes "list_all (\<lambda>c. is_oid (snd c)) cs"
  shows "cherry_loop (str_lines (from_utf8_lossy (cherry_output cs))) False True =
    Some (cs \<noteq> [], list_all fst cs)"
proof -
  have line: "c < CHR 0x80 \<and> c \<noteq> CHR 0x0A \<and> c \<noteq> CHR 0x0D" if "l \<in> set (map cherry_line cs)" "c \<in> set l" for l c
    using that assms oid_text(2) graphic_ascii
    by (fastforce simp: cherry_line_def list_all_iff less_char_def split: if_splits)
  then have "list_all (\<lambda>c. c < CHR 0x80) (cherry_output cs)"
    by (auto simp: cherry_output_def text_lines_def list_all_iff less_char_def)
  then have "from_utf8_lossy (cherry_output cs) = cherry_output cs" by (rule from_utf8_lossy_ascii)
  moreover have "str_lines (cherry_output cs) = map cherry_line cs"
    unfolding cherry_output_def by (rule str_lines_text) (use line in \<open>auto simp: list_all_iff\<close>)
  ultimately show ?thesis using cherry_loop_lines[OF assms, of False True] by simp
qed

text \<open>\<open>cs\<close> are the commits of \<open>branch\<close> that are neither in \<open>source\<close> nor in \<open>base\<close>, \<open>k\<close> counts the
  commits of \<open>branch\<close> past \<open>base\<close>.\<close>

definition git_answers ::
    "'w host \<Rightarrow> 'w \<Rightarrow> string \<Rightarrow> string \<Rightarrow> string \<Rightarrow> string option \<Rightarrow> (bool \<times> string) list \<Rightarrow> u64 \<Rightarrow> bool" where
  "git_answers H w repo source branch base cs k \<longleftrightarrow> list_all (\<lambda>c. is_oid (snd c)) cs \<and>
     stdout_ok (git_read H w repo ([''cherry'', source, branch] @ (case base of None \<Rightarrow> [] | Some b \<Rightarrow> [b]))) =
       Some (cherry_output cs) \<and>
     (\<forall>b. base = Some b \<longrightarrow> stdout_ok (git_read H w repo [''rev-list'', ''--count'', b @ ''..'' @ branch]) =
       Some (decimal (unat k) @ [CHR 0x0A]))"

lemma count_read: "parse_u64 (trim (from_utf8_lossy (decimal (unat (k :: u64)) @ [CHR 0x0A]))) = Some k"
proof -
  let ?s = "decimal (unat k)"
  have d: "graphic c" if "c \<in> set ?s" for c
    using that decimal_digits[of "unat k"]
    by (auto simp: list_all_iff graphic_def is_ascii_digit_def less_eq_char_def)
  then have "list_all (\<lambda>c. c < CHR 0x80) (?s @ [CHR 0x0A])"
    using graphic_ascii by (auto simp: list_all_iff less_char_def)
  then have "from_utf8_lossy (?s @ [CHR 0x0A]) = ?s @ [CHR 0x0A]" by (rule from_utf8_lossy_ascii)
  moreover have "trim (?s @ [CHR 0x0A]) = ?s"
    using decimal_nonempty[of "unat k"] d by (intro trim_line) auto
  ultimately show ?thesis by (simp add: parse_u64_decimal)
qed

section \<open>The signal\<close>

text \<open>Work has landed when every commit of the branch has an equivalent in the target, or the branch is
  contained in it and has moved past its base. It has not when there is a commit that is not;
  otherwise there is no answer.\<close>

definition landed_reference :: "(bool \<times> string) list \<Rightarrow> bool \<Rightarrow> bool \<Rightarrow> bool option" where
  "landed_reference cs inside moved =
     (if cs \<noteq> [] \<and> list_all fst cs \<or> inside \<and> moved then Some True
      else if cs = [] then None else Some False)"

lemma verify_reference:
  assumes "(case safe_arg (li_source_repo inputs) of Some r \<Rightarrow> Some r | None \<Rightarrow> safe_arg (li_worktree_path inputs)) = Some repo"
    and "safe_arg (li_source_branch inputs) = Some source" and "safe_arg (li_branch inputs) = Some branch"
    and g: "git_answers H w repo source branch (safe_arg (li_base_sha inputs)) cs k"
  shows "git_verify_landed H w inputs = landed_reference cs (is_ancestor H w repo branch source)
    (safe_arg (li_base_sha inputs) = None \<or> k > 0)"
proof -
  have "branch_advanced_past_base H w repo (safe_arg (li_base_sha inputs)) branch \<longleftrightarrow>
      safe_arg (li_base_sha inputs) = None \<or> k > 0"
    using g by (auto simp: branch_advanced_past_base_def git_answers_def count_read split: option.split)
  moreover have "cherry_loop (str_lines (from_utf8_lossy (cherry_output cs))) False True = Some (cs \<noteq> [], list_all fst cs)"
    by (rule cherry_output_read) (use g in \<open>simp add: git_answers_def\<close>)
  ultimately show ?thesis
    using assms by (simp add: git_verify_landed_def git_answers_def landed_reference_def Let_def)
qed

text \<open>C13: the landed signal is the decision it documents. Whenever git answers as it documents, the
  textual reading of \<open>git cherry\<close> and \<open>git rev-list\<close> gives exactly this: landed when every commit of
  the branch has an equivalent in the target or the branch is contained in it and moved past its
  base, not landed when some commit has none, and only when the branch has no commit to look at does
  the marker of the terminal report decide. The report is never consulted against git.\<close>

theorem landing_signal_is_reference:
  assumes "(case safe_arg (li_source_repo inputs) of Some r \<Rightarrow> Some r | None \<Rightarrow> safe_arg (li_worktree_path inputs)) = Some repo"
    and "safe_arg (li_source_branch inputs) = Some source" and "safe_arg (li_branch inputs) = Some branch"
    and "git_answers H w repo source branch (safe_arg (li_base_sha inputs)) cs k"
  shows "landing_signal H w inputs =
    (case landed_reference cs (is_ancestor H w repo branch source) (safe_arg (li_base_sha inputs) = None \<or> k > 0) of
       Some b \<Rightarrow> \<lparr>lv_landed = b, lv_method = GitVerified\<rparr>
     | None \<Rightarrow> \<lparr>lv_landed = report_has_merge_marker (li_report inputs),
         lv_method = (if report_has_merge_marker (li_report inputs) then ReportMarker else Unverified)\<rparr>)"
  using verify_reference[OF assms] by (simp add: landing_signal_def split: option.split)

section \<open>The verdict on a crashed merge\<close>

lemma worker_landed_reference:
  assumes "safe_arg (Some repo) = Some repo" and "is_oid source" and "is_oid oid"
    and "git_answers H w repo source oid (safe_arg base) cs k"
  shows "worker_landed H w repo source oid base =
    (case landed_reference cs (is_ancestor H w repo oid source) (safe_arg base = None \<or> k > 0) of
       Some True \<Rightarrow> Landed | Some False \<Rightarrow> NotLanded | None \<Rightarrow> Unverifiable)"
proof -
  have "git_verify_landed H w \<lparr>li_source_repo = Some repo, li_source_branch = Some source, li_worktree_path = None,
      li_branch = Some oid, li_base_sha = base, li_report = None\<rparr> =
    landed_reference cs (is_ancestor H w repo oid source) (safe_arg base = None \<or> k > 0)"
    using verify_reference[of "\<lparr>li_source_repo = Some repo, li_source_branch = Some source, li_worktree_path = None,
      li_branch = Some oid, li_base_sha = base, li_report = None\<rparr>" repo source oid H w cs k] assms by simp
  then show ?thesis
    by (simp add: worker_landed_def landing_signal_def report_has_merge_marker_def Let_def split: option.split bool.split)
qed

lemma resolved_source_oid:
  "resolve_source H w sr wp br = Some (repo, oid) \<Longrightarrow> is_oid oid"
  by (auto simp: resolve_source_def read_oid_def map_filter_def Let_def split: option.splits if_splits bind_splits)

text \<open>C8: a crashed merge is completed exactly when its work landed with the move of the source. With git
  answering as documented for the source as it is now (\<open>cs1\<close>) and as the transaction recorded it
  before the merge (\<open>cs0\<close>), the verdict is to complete if and only if the source moved, the recorded
  commits of the worker are integrated in it now, and git shows they were not before; a source that
  did not move, work that is not in it, and work that was there already are rejected.\<close>

theorem merge_completes_landed_work:
  assumes "resolve_source H w source_repo worktree_path (mt_source_branch txn) = Some (repo, source_now)"
    and "safe_arg (Some repo) = Some repo" and "is_oid (mt_worker_oid txn)" and "is_oid (mt_expected_source_oid txn)"
    and "git_answers H w repo source_now (mt_worker_oid txn) (safe_arg (mt_base_sha txn)) cs1 k"
    and "git_answers H w repo (mt_expected_source_oid txn) (mt_worker_oid txn) (safe_arg (mt_base_sha txn)) cs0 k"
    and "moved = (safe_arg (mt_base_sha txn) = None \<or> k > 0)"
    and "now = landed_reference cs1 (is_ancestor H w repo (mt_worker_oid txn) source_now) moved"
    and "before = landed_reference cs0 (is_ancestor H w repo (mt_worker_oid txn) (mt_expected_source_oid txn)) moved"
    and "v = classify_txn H w txn source_repo worktree_path"
  shows "(v = Complete \<longleftrightarrow> source_now \<noteq> mt_expected_source_oid txn \<and> now = Some True \<and> before = Some False) \<and>
    ((\<exists>reason. v = Reject reason) \<longleftrightarrow> source_now = mt_expected_source_oid txn \<or> now = Some False \<or>
       now = Some True \<and> before = Some True)"
proof -
  have l: "worker_landed H w repo source_now (mt_worker_oid txn) (mt_base_sha txn) =
      (case now of Some True \<Rightarrow> Landed | Some False \<Rightarrow> NotLanded | None \<Rightarrow> Unverifiable)"
    unfolding assms(7,8) by (rule worker_landed_reference[OF assms(2) resolved_source_oid[OF assms(1)] assms(3,5)])
  have l0: "worker_landed H w repo (mt_expected_source_oid txn) (mt_worker_oid txn) (mt_base_sha txn) =
      (case before of Some True \<Rightarrow> Landed | Some False \<Rightarrow> NotLanded | None \<Rightarrow> Unverifiable)"
    unfolding assms(7,9) by (rule worker_landed_reference[OF assms(2,4,3,6)])
  show ?thesis
    using assms(1) by (auto simp: assms(10) classify_txn_def l l0 split: option.splits bool.splits if_splits)
qed

end
