(* ===== verification/Merge_Demo.thy ===== *)
theory Merge_Demo
  imports Supervisor_Demo Run_Merge_Facts Landed_Facts
begin

text \<open>
  The theorems about merges and their recovery applied to a concrete repository: \<open>main\<close> checked out at
  \<open>/main\<close>, the worker's branch \<open>work\<close> at \<open>/wt\<close> one commit ahead, and the run of \<open>Demo_Run\<close> with a
  worker on it.
\<close>

section \<open>A repository with two checkouts\<close>

record merge_world =
  mw_main :: string
  mw_locked :: bool

definition base_oid :: string where
  "base_oid = replicate 40 CHR ''a''"

definition work_oid :: string where
  "work_oid = replicate 40 CHR ''b''"

definition rev_of :: "merge_world \<Rightarrow> string \<Rightarrow> string option" where
  "rev_of w r = (if r = ''main'' then Some (mw_main w) else if r = ''work'' then Some work_oid
     else if r = base_oid \<or> r = work_oid then Some r else None)"

definition worktree_rows :: bytes where
  "worktree_rows = ''worktree /main'' @ [CHR 0x00] @ ''branch refs/heads/main'' @ [CHR 0x00, CHR 0x00] @
     ''worktree /wt'' @ [CHR 0x00] @ ''branch refs/heads/work'' @ [CHR 0x00, CHR 0x00]"

definition merge_read :: "merge_world \<Rightarrow> string \<Rightarrow> string list \<Rightarrow> cmd_output" where
  "merge_read w dir args =
     (if take 3 args = [''rev-parse'', ''--verify'', ''--end-of-options''] then
        (case rev_of w (args ! 3) of Some o' \<Rightarrow> ok_out o' | None \<Rightarrow> CmdExited (Some 128) [] [])
      else if args = [''symbolic-ref'', ''--quiet'', ''--short'', ''HEAD''] then ok_out (if dir = ''/wt'' then ''work'' else ''main'')
      else if args = [''worktree'', ''list'', ''--porcelain'', ''-z''] then ok_out worktree_rows
      else if take 2 args = [''status'', ''--porcelain''] then ok_out []
      else if args = [''rev-parse'', ''--path-format=absolute'', ''--git-common-dir''] then ok_out ''/main/.git''
      else if take 2 args = [''merge-base'', ''--is-ancestor''] then
        CmdExited (Some (if rev_of w (args ! 2) = Some base_oid \<or> rev_of w (args ! 2) = rev_of w (args ! 3) then 0 else 1)) [] []
      else if take 1 args = [''cherry''] then
        ok_out (if rev_of w (args ! 1) = Some work_oid then [] else cherry_output [(False, work_oid)])
      else if take 2 args = [''rev-list'', ''--count''] then ok_out (decimal 1 @ [CHR 0x0A])
      else CmdSpawnErr ''unsupported'')"

definition known_main :: "merge_world \<Rightarrow> bool" where
  "known_main w \<longleftrightarrow> mw_main w = base_oid \<or> mw_main w = work_oid"

text \<open>The commit graph: the worker's commit on top of the base.\<close>

definition demo_anc :: "string \<Rightarrow> string \<Rightarrow> bool" where
  "demo_anc a b \<longleftrightarrow> a = b \<or> a = base_oid \<and> b = work_oid"

definition merge_write :: "merge_world \<Rightarrow> string \<Rightarrow> string list \<Rightarrow> cmd_output \<times> merge_world" where
  "merge_write w dir args =
     (if args = [''merge'', ''--ff-only'', ''--no-overwrite-ignore'', ''--'', ''work''] \<and> dir = ''/main'' \<and> known_main w
      then (ok_out [], w\<lparr>mw_main := work_oid\<rparr>)
      else if args = [''rebase'', ''--'', ''main''] \<and> known_main w then (ok_out [], w)
      else (CmdExited (Some 1) [] ''refused'', w))"

definition merge_host :: "merge_world host" where
  "merge_host = \<lparr>git_read = merge_read, git_write = merge_write, tmux_read = (\<lambda>_ _ _. CmdSpawnErr []),
     tmux_write = (\<lambda>w _ _. (CmdSpawnErr [], w)), path_exists = (\<lambda>_ _. True),
     remove_leftover = (\<lambda>_ w _ _. (False, w)), save_dormant_pane = (\<lambda>_ w. (True, w)),
     archive_before_cleanup = (\<lambda>d _ w. (True, d, w)), retain_completed_display = (\<lambda>d _ w. (Unavailable, d, w)),
     close_original_workmux_window = (\<lambda>_ w. w), close_persistent_non_pi = (\<lambda>_ w. w)\<rparr>"

definition before_merge :: merge_world where
  "before_merge = \<lparr>mw_main = base_oid, mw_locked = False\<rparr>"

definition after_merge :: merge_world where
  "after_merge = \<lparr>mw_main = work_oid, mw_locked = False\<rparr>"

lemma oids: "is_oid base_oid" "is_oid work_oid" "base_oid \<noteq> work_oid" "hd base_oid = CHR ''a''" "hd work_oid = CHR ''b''"
  by code_simp+

lemma oid_distinct [simp]: "base_oid \<noteq> []" "work_oid \<noteq> []" "base_oid \<noteq> ''main''" "base_oid \<noteq> ''work''"
  "work_oid \<noteq> ''main''" "work_oid \<noteq> ''work''" "work_oid \<noteq> base_oid" "base_oid \<noteq> work_oid"
  by code_simp+

lemma oid_output: "is_oid s \<Longrightarrow> trim (from_utf8_lossy s) = s"
proof -
  assume o: "is_oid s"
  then have "list_all (\<lambda>c. c < CHR 0x80) s" using oid_text(2) graphic_ascii by (auto simp: list_all_iff)
  then show ?thesis using from_utf8_lossy_ascii[of s] trim_oid[OF o] by simp
qed

text \<open>What the adapters read from this repository.\<close>

lemma rev_of_oid: "is_oid (mw_main w) \<Longrightarrow> rev_of w r = Some o' \<Longrightarrow> is_oid o'"
  using oids by (auto simp: rev_of_def split: if_splits)

lemma read_rev: "is_oid (mw_main w) \<Longrightarrow> dir \<noteq> [] \<Longrightarrow> r \<noteq> [] \<Longrightarrow> hd r \<noteq> CHR ''-'' \<Longrightarrow> read_oid merge_host w dir r = rev_of w r"
  using rev_of_oid[of w r]
  by (auto simp: read_oid_def merge_host_def merge_read_def ok_out_def oid_output Let_def split: option.split)

lemma read_work: "dir \<noteq> [] \<Longrightarrow> read_oid merge_host w dir ''work'' = Some work_oid"
  by (simp add: read_oid_def merge_host_def merge_read_def ok_out_def rev_of_def oid_output oids Let_def del: from_utf8_lossy.simps)

lemma word_outputs: "trim (from_utf8_lossy ''work'') = ''work''" "trim (from_utf8_lossy ''main'') = ''main''"
  "trim (from_utf8_lossy ''/main/.git'') = ''/main/.git''"
proof -
  have u: "from_utf8_lossy ''work'' = ''work''" "from_utf8_lossy ''main'' = ''main''"
    "from_utf8_lossy ''/main/.git'' = ''/main/.git''" by code_simp+
  have "trim ''work'' = ''work''" "trim ''main'' = ''main''" "trim ''/main/.git'' = ''/main/.git''"
    by (rule trim_graphic; simp add: graphic_def less_eq_char_def)+
  then show "trim (from_utf8_lossy ''work'') = ''work''" "trim (from_utf8_lossy ''main'') = ''main''"
    "trim (from_utf8_lossy ''/main/.git'') = ''/main/.git''" unfolding u by simp_all
qed

lemma read_head: "head_branch merge_host w dir = Some (if dir = ''/wt'' then ''work'' else ''main'')"
  by (simp add: head_branch_def nonempty_output_def merge_host_def merge_read_def ok_out_def word_outputs Let_def
      del: from_utf8_lossy.simps)

section \<open>The landed signal and verdicts\<close>

lemma answers:
  assumes "is_oid (mw_main w)" and "rev_of w s = Some o'" and "cs = (if o' = work_oid then [] else [(False, work_oid)])"
  shows "git_answers merge_host w repo s b (Some base_oid) cs 1"
  using assms oids by (auto simp: git_answers_def merge_host_def merge_read_def ok_out_def cherry_output_def text_lines_def)

definition demo_inputs :: landing_inputs where
  "demo_inputs = \<lparr>li_source_repo = Some ''/main'', li_source_branch = Some ''main'', li_worktree_path = None,
     li_branch = Some ''work'', li_base_sha = Some base_oid, li_report = None\<rparr>"

lemma safe_words: "safe_arg (Some ''/main'') = Some ''/main''" "safe_arg (Some ''main'') = Some ''main''"
  "safe_arg (Some ''work'') = Some ''work''"
proof -
  have "trim ''work'' = ''work''" "trim ''main'' = ''main''" "trim ''/main'' = ''/main''"
    by (rule trim_graphic; simp add: graphic_def less_eq_char_def)+
  then show "safe_arg (Some ''/main'') = Some ''/main''" "safe_arg (Some ''main'') = Some ''main''"
    "safe_arg (Some ''work'') = Some ''work''" by (simp_all add: safe_arg_def filter_opt_def)
qed

text \<open>A branch with a commit that is not in \<open>main\<close> has not landed, by git's word.\<close>

theorem landing_signal_is_reference_witness:
  "landing_signal merge_host before_merge demo_inputs = \<lparr>lv_landed = False, lv_method = GitVerified\<rparr>"
proof -
  have a: "git_answers merge_host before_merge ''/main'' ''main'' ''work'' (safe_arg (Some base_oid)) [(False, work_oid)] 1"
    using answers[of before_merge "''main''" base_oid] oids by (simp add: before_merge_def rev_of_def)
  have "\<not> is_ancestor merge_host before_merge ''/main'' ''work'' ''main''"
    by (simp add: is_ancestor_def merge_host_def merge_read_def before_merge_def rev_of_def)
  then show ?thesis
    using landing_signal_is_reference[of demo_inputs "''/main''" "''main''" "''work''" merge_host before_merge
        "[(False, work_oid)]" 1] a
    by (simp add: demo_inputs_def safe_words landed_reference_def)
qed

definition demo_txn :: merge_txn where
  "demo_txn = \<lparr>mt_op_id = ''op-0'', mt_source_branch = ''main'', mt_worker_branch = ''work'',
     mt_expected_source_oid = base_oid, mt_worker_oid = work_oid, mt_base_sha = Some base_oid, mt_driver_pid = Some 43,
     mt_driver_pid_start_secs = None, mt_driver_pid_start_identity = None, mt_caller_authority = None,
     mt_landing = False, mt_started_at = 5\<rparr>"

lemma demo_source: "resolve_source merge_host after_merge (Some ''/main'') (Some ''/wt'') ''main'' = Some (''/main'', work_oid)"
  using read_rev[of after_merge "''/main''" "''main''"] oids
  by (simp add: resolve_source_def map_filter_def after_merge_def rev_of_def)

text \<open>The source moved to the worker's commit, which was not in it before: the merge is completed.\<close>

theorem merge_completes_landed_work_witness:
  "classify_txn merge_host after_merge demo_txn (Some ''/main'') (Some ''/wt'') = Complete"
proof -
  have a1: "git_answers merge_host after_merge ''/main'' work_oid work_oid (safe_arg (Some base_oid)) [] 1"
    using answers[of after_merge work_oid work_oid] oids by (simp add: after_merge_def rev_of_def)
  have a0: "git_answers merge_host after_merge ''/main'' base_oid work_oid (safe_arg (Some base_oid)) [(False, work_oid)] 1"
    using answers[of after_merge base_oid base_oid] oids by (simp add: after_merge_def rev_of_def)
  have "is_ancestor merge_host after_merge ''/main'' work_oid work_oid"
    "\<not> is_ancestor merge_host after_merge ''/main'' work_oid base_oid"
    by (simp_all add: is_ancestor_def merge_host_def merge_read_def after_merge_def rev_of_def)
  then have "landed_reference [] (is_ancestor merge_host after_merge ''/main'' work_oid work_oid) True = Some True"
    "landed_reference [(False, work_oid)] (is_ancestor merge_host after_merge ''/main'' work_oid base_oid) True = Some False"
    by (simp_all add: landed_reference_def)
  then show ?thesis
    using demo_source a0 a1 oids
      merge_completes_landed_work[of merge_host after_merge "Some ''/main''" "Some ''/wt''" demo_txn "''/main''" work_oid
        "[]" 1 "[(False, work_oid)]" True "Some True" "Some False"
        "classify_txn merge_host after_merge demo_txn (Some ''/main'') (Some ''/wt'')"]
    by (simp add: demo_txn_def safe_words)
qed

section \<open>A crashed merge\<close>

definition working :: "node \<Rightarrow> node" where
  "working n = n\<lparr>n_worktree_path := Some ''/wt'', n_branch := Some ''work'', n_base_sha := Some base_oid,
     n_pending_merge := None\<rparr>"

definition crashed :: "node \<Rightarrow> node" where
  "crashed n = (working n)\<lparr>n_pending_merge := Some demo_txn\<rparr>"

lemma working_ids: "keeps_ids working" "keeps_ids crashed"
  by (simp_all add: keeps_ids_def working_def crashed_def)

lemma entry_manifest_facts:
  obtains m where "read_manifest_opt demo_rid (with_node_entry f) = Inr (Some m)" "m_agent_owner m = Taskfleet"
    "m_source_repo m = None" "m_source_branch m = None" "m_kind m = Spinoff" "m_status m \<noteq> Cancelled" "m_resident m = None"
proof -
  have "case read_manifest_opt demo_rid demo_run of Inr (Some m) \<Rightarrow> m_agent_owner m = Taskfleet \<and> m_source_repo m = None \<and>
      m_source_branch m = None \<and> m_kind m = Spinoff \<and> m_status m \<noteq> Cancelled \<and> m_resident m = None | _ \<Rightarrow> False"
    by code_simp
  then obtain m where m: "read_manifest_opt demo_rid demo_run = Inr (Some m)" "m_agent_owner m = Taskfleet"
    "m_source_repo m = None" "m_source_branch m = None" "m_kind m = Spinoff" "m_status m \<noteq> Cancelled" "m_resident m = None"
    by (auto split: sum.splits option.splits)
  then have "read_manifest_opt demo_rid demo_logged = Inr (Some m)" by (simp add: demo_logged_def log_reads)
  then obtain d where "advance_applied_seq demo_rid 2 demo_logged = (Inr (), d)"
    "read_manifest_opt demo_rid d = Inr (Some (advanced demo_logged 2 m))"
    by (rule advance_some[where seq = 2]) blast
  with m that[of "advanced demo_logged 2 m"] show ?thesis by (simp add: entry_manifest demo_synced_def advanced_def)
qed

lemma demo_no_prior: "k \<notin> {''run.created'', ''node.created''} \<Longrightarrow> prior_with_key k key demo_events = None"
  by (simp add: prior_with_key_def demo_events_def demo_event_def)

lemma entry_events: "read_all_events demo_ext (with_node_entry f) = Inr demo_events"
  using entry_synced[of f] log_read_all[OF demo_ext_ok] by (auto simp: synced_def)

definition demo_lease :: "merge_world lease" where
  "demo_lease = \<lparr>le_acquire = (\<lambda>_ _. None), le_inspect = (\<lambda>_. None), le_canonical = (\<lambda>_ _ _. False),
     le_session_verify = (\<lambda>_ _ _ _. None)\<rparr>"


section \<open>A merge\<close>

definition demo_merge_env :: "merge_world merge_env" where
  "demo_merge_env = \<lparr>me_pid = 42, me_now = 9, me_op_id = ''op-1'', me_probes = demo_probes,
     me_try_exists = (\<lambda>_ _. Some True), me_resident_lock = Inr (), me_lock_timeout = None, me_polls = (\<lambda>_. 3),
     me_create_dir = (\<lambda>w p. if mw_locked w then DirExists else DirCreated (w\<lparr>mw_locked := True\<rparr>)),
     me_remove_dir = (\<lambda>w p. w\<lparr>mw_locked := False\<rparr>), me_pid_file = (\<lambda>_. None), me_admit = Inr (),
     me_spawn = (\<lambda>w. (Inr 0, w))\<rparr>"

definition demo_merge_args :: merge_args where
  "demo_merge_args = \<lparr>ma_node_id = None, ma_source = None, ma_report_file = None, ma_dry_run = False\<rparr>"

lemma demo_mergeable: "mergeable demo_ext demo_rid demo_nid op_id (with_node_entry working) (entry_node working) demo_events"
proof -
  have "unat (last_seq demo_events) + 6 < 2 ^ 64" by (simp add: demo_last)
  then have "log_room demo_ext demo_rid 6 (with_node_entry working) demo_events" using entry_synced by (simp add: log_room_def)
  moreover have "read_node_opt demo_rid (with_node_entry working) demo_nid = Inr (Some (entry_node working))"
    using entry_reads[OF working_ids(1)] by simp
  ultimately show ?thesis using demo_target
    by (simp add: mergeable_def demo_no_prior entry_node_def working_def is_terminal_def)
qed

lemma demo_shallow: "shallow_report demo_ext demo_merge_args"
  by (simp add: shallow_report_def demo_merge_args_def)

lemma demo_default_node: "parse_node_id (unwrap_or DEFAULT_NODE_ID (ma_node_id demo_merge_args)) = Inr demo_nid"
  by code_simp

lemma demo_rows: "worktree_registrations merge_host w dir =
    Some [\<lparr>wr_path = ''/main'', wr_branch = Some ''main''\<rparr>, \<lparr>wr_path = ''/wt'', wr_branch = Some ''work''\<rparr>]"
proof -
  have "parse_worktree_registrations worktree_rows =
    Some [\<lparr>wr_path = ''/main'', wr_branch = Some ''main''\<rparr>, \<lparr>wr_path = ''/wt'', wr_branch = Some ''work''\<rparr>]" by code_simp
  then show ?thesis by (simp add: worktree_registrations_def merge_host_def merge_read_def ok_out_def)
qed

lemma demo_rebase:
  assumes "head_branch merge_host w wt = Some branch" "head_branch merge_host w dir = Some s" "dir \<noteq> []"
    "git_write merge_host w wt [''rebase'', ''--'', s] = (out, w')" "cmd_success out"
    "read_oid merge_host w' dir s = Some so" "read_oid merge_host w' dir branch = Some bo"
  shows "demo_anc so bo"
proof -
  have s: "s = ''main''" "w' = w" "known_main w"
    using assms(4,5) by (auto simp: merge_host_def merge_write_def ok_out_def split: if_splits)
  then have "is_oid (mw_main w)" using oids by (auto simp: known_main_def)
  then have "so = mw_main w" using read_rev[of w dir "''main''"] assms(3,6) s by (simp add: rev_of_def)
  moreover have "branch = ''main'' \<and> bo = so \<or> branch = ''work'' \<and> bo = work_oid"
    using assms(1,3,6,7) s read_work[of dir w] by (auto simp: read_head split: if_splits)
  ultimately show ?thesis using s(3) by (auto simp: demo_anc_def known_main_def)
qed

lemma demo_fast_forward:
  assumes "head_branch merge_host w dir = Some s" "read_oid merge_host w dir s = Some so"
    "read_oid merge_host w dir branch = Some bo"
    "git_write merge_host w dir [''merge'', ''--ff-only'', ''--no-overwrite-ignore'', ''--'', branch] = (out, w')" "cmd_success out"
  shows "demo_anc so bo \<and> read_oid merge_host w' dir s = Some bo"
proof -
  have b: "branch = ''work''" "dir = ''/main''" "w' = w\<lparr>mw_main := work_oid\<rparr>" "known_main w"
    using assms(4,5) by (auto simp: merge_host_def merge_write_def ok_out_def split: if_splits)
  have s: "s = ''main''" using assms(1) b by (simp add: read_head)
  have "is_oid (mw_main w)" using b(4) oids by (auto simp: known_main_def)
  then have "so = mw_main w" "bo = work_oid"
    using assms(2,3) b s read_rev[of w dir "''main''"] read_work[of dir w] by (simp_all add: rev_of_def)
  then show ?thesis using b s read_rev[of w' dir "''main''"] oids by (auto simp: rev_of_def demo_anc_def known_main_def)
qed

lemma demo_laws: "merge_laws demo_anc merge_host demo_merge_env"
proof -
  have r: "git_read merge_host (w\<lparr>mw_locked := b\<rparr>) dir args = git_read merge_host w dir args" for w b dir args
    by (simp add: merge_host_def merge_read_def rev_of_def)
  have p: "worktree_registrations merge_host w wt = Some rows \<Longrightarrow> row \<in> set rows \<Longrightarrow> wr_path row \<noteq> []" for w wt rows row
    by (auto simp: demo_rows)
  show ?thesis unfolding merge_laws_def
    by (intro conjI allI impI; (erule (4) demo_fast_forward[THEN disjI1])?; (erule (1) demo_rebase; (erule (1) p | assumption))?)
      (auto simp: demo_merge_env_def demo_anc_def r read_head split: if_splits)
qed

lemma demo_clean: "worktree_status_clean merge_host w dir = Some True" "worktree_tracked_clean merge_host w dir = Some True"
  by (simp_all add: worktree_status_clean_def worktree_tracked_clean_def merge_host_def merge_read_def ok_out_def)

lemma demo_timeout: "lock_seconds demo_merge_env = Inr 600"
proof -
  have "decimal 600 = ''600''" by code_simp
  then have "parse_u64 ''600'' = Some 600" using parse_u64_decimal[of 600] by simp
  then show ?thesis
    by (simp add: lock_seconds_def demo_merge_env_def ensure_def is_ascii_digit_def less_eq_char_def Let_def)
qed

lemma act_of_apply: "act_of r s = (r s, s)"
  by (simp add: act_of_def)

text \<open>The git driver on this repository, for any callback: the source ends at the worker's commit.\<close>

lemma demo_git_merge:
  assumes "cb work_oid (d, before_merge\<lparr>mw_locked := True\<rparr>) = (Inr a, d', before_merge\<lparr>mw_locked := True\<rparr>)"
  shows "run_git_merge merge_host demo_merge_env quiet ''/wt'' ''work'' (Some ''main'') (Some base_oid) (act_of (\<lambda>_. Inr ())) cb
    (d, before_merge) = (Inr a, d', after_merge)"
proof -
  have t: "merge_target merge_host ''/wt'' ''work'' (Some ''main'') before_merge = Inr (''/main'', ''main'')"
    by (simp add: merge_target_def read_head demo_rows demo_clean ensure_def ok_or_def select_target_def)
  have c: "git_output_read merge_host ''/wt'' [''rev-parse'', ''--path-format=absolute'', ''--git-common-dir''] (d, before_merge) =
      (Inr ''/main/.git'', d, before_merge)"
    using word_outputs(3)
    by (simp add: git_output_read_def act_of_def merge_host_def merge_read_def ok_out_def ok_or_def del: from_utf8_lossy.simps)
  have l: "lock_loop demo_merge_env quiet p k (d, before_merge) = (Inr (), d, before_merge\<lparr>mw_locked := True\<rparr>)" for p k
    by (subst lock_loop.simps) (simp add: demo_merge_env_def before_merge_def)
  let ?w = "before_merge\<lparr>mw_locked := True\<rparr>"
  have o: "read_oid merge_host ?w ''/main'' ''main'' = Some base_oid" "read_oid merge_host ?w ''/main'' ''work'' = Some work_oid"
    using read_rev[of ?w "''/main''" "''main''"] read_rev[of ?w "''/main''" "''work''"] oids
    by (simp_all add: before_merge_def rev_of_def)
  have g: "git_write merge_host ?w ''/wt'' [''rebase'', ''--'', ''main''] = (ok_out [], ?w)"
    "git_write merge_host ?w ''/main'' [''merge'', ''--ff-only'', ''--no-overwrite-ignore'', ''--'', ''work''] =
      (ok_out [], ?w\<lparr>mw_main := work_oid\<rparr>)" by (simp_all add: merge_host_def merge_write_def known_main_def before_merge_def)
  have k: "merge_locked merge_host quiet ''/wt'' ''work'' ''/main'' ''main'' (Some base_oid) (act_of (\<lambda>_. Inr ())) cb (d, ?w) =
      (Inr a, d', ?w\<lparr>mw_main := work_oid\<rparr>)"
    using assms
    by (simp add: merge_locked_def act_bind_def act_of_def check_source_def read_oid_act_def git_output_write_def read_head
        demo_clean ensure_def ok_or_def o g) (simp add: ok_out_def)
  have u: "unlocking demo_merge_env p (merge_locked merge_host quiet ''/wt'' ''work'' ''/main'' ''main'' (Some base_oid)
      (act_of (\<lambda>_. Inr ())) cb) (d, ?w) = (Inr a, d', after_merge)" for p
    unfolding unlocking_def k by (simp add: demo_merge_env_def before_merge_def after_merge_def)
  show ?thesis
    unfolding run_git_merge_def by (simp add: act_bind_def act_of_apply t c demo_timeout l u Let_def del: lock_loop.simps)
qed

lemma demo_read_oids: "read_oid merge_host before_merge ''/wt'' ''main'' = Some base_oid"
  "read_oid merge_host before_merge ''/wt'' ''work'' = Some work_oid"
  using read_rev[of before_merge "''/wt''" "''main''"] oids read_work by (simp_all add: before_merge_def rev_of_def)

lemma demo_report: "case build_report demo_ext None ''work'' (Some ''main'') of Inr _ \<Rightarrow> True | Inl _ \<Rightarrow> False"
  by code_simp

text \<open>A merge of the worker's commit that succeeds.\<close>

lemma demo_merges:
  obtains o' d' w' where "execute demo_ext (\<lambda>_. 7) demo_rid merge_host demo_lease demo_merge_env quiet demo_merge_args
      (with_node_entry working, before_merge) = (Inr o', d', w')" "mo_merged o'" "\<not> mo_dry_run o'"
    "read_oid merge_host w' ''/main'' ''main'' = Some work_oid"
proof -
  let ?d = "with_node_entry working"
  let ?n = "entry_node working"
  let ?h = "\<lparr>mh_op_id = ''op-1'', mh_expected_source_oid = base_oid, mh_worker_oid = work_oid\<rparr>"
  obtain m where m: "read_manifest_opt demo_rid ?d = Inr (Some m)" "m_agent_owner m = Taskfleet" "m_source_branch m = None"
    "m_kind m = Spinoff" "m_status m \<noteq> Cancelled" "m_resident m = None" by (rule entry_manifest_facts)
  have n: "read_node_opt demo_rid ?d demo_nid = Inr (Some ?n)" using entry_reads[OF working_ids(1)] by simp
  have w: "n_worktree_path ?n = Some ''/wt''" "n_branch ?n = Some ''work''" "n_pending_merge ?n = None"
    "\<not> is_terminal (n_status ?n)" by (simp_all add: entry_node_def working_def is_terminal_def)
  obtain report ws where b: "build_report demo_ext None ''work'' (Some ''main'') = Inr (report, ws)"
    using demo_report by (auto split: sum.splits)
  have ok: "report_ok report"
    using built_report[of demo_ext demo_merge_args] b demo_shallow by (simp add: report_ok_def demo_merge_args_def)
  have op: "me_op_id demo_merge_env = ''op-1''" by (simp add: demo_merge_env_def)
  obtain x d' d3 where f: "merge_fresh demo_ext (\<lambda>_. 7) demo_rid merge_host demo_merge_env quiet demo_nid ?n ''/wt'' ''work''
      (Some ''main'') report (?d, before_merge) = (Inr x, d', snd (snd (ensure_report_consumer demo_ext (\<lambda>_. 7) demo_rid
        demo_merge_env quiet (d3, after_merge))))"
    by (rule fresh_success[OF demo_ext_ok demo_mergeable m(1,2) ok demo_read_oids demo_git_merge]) (assumption, rule that)
  obtain w' where f': "merge_fresh demo_ext (\<lambda>_. 7) demo_rid merge_host demo_merge_env quiet demo_nid ?n ''/wt'' ''work''
      (Some ''main'') report (?d, before_merge) = (Inr x, d', w')"
    and tip: "read_oid merge_host w' ''/main'' ''main'' = Some work_oid"
    using f consumer_refs[OF demo_laws] read_rev[of after_merge "''/main''" "''main''"] oids
    by (auto simp: after_merge_def rev_of_def)
  have g: "merge_manifest demo_rid ?d = Inr m" "merge_node demo_rid demo_nid ?d = Inr (?n, ''/wt'', ''work'')"
    using m n w by (simp_all add: merge_manifest_def merge_node_def cli_core_def reject_legacy_kind_def
        require_writer_fence_def ensure_def ok_or_def branch_for_def)
  have src: "effective_source merge_host None m ''/wt'' before_merge = Some ''main''"
    using m(3) by (simp add: effective_source_def demo_rows main_or_master_def)
  have wt: "worktree_guard demo_rid demo_merge_env quiet m ''/wt'' False s = (Inr (), s)" for s
    by (simp add: worktree_guard_def demo_merge_env_def)
  have rec: "recover_node demo_ext (\<lambda>_. 7) (me_probes demo_merge_env) (me_now demo_merge_env) demo_rid merge_host demo_lease quiet
      demo_nid (?d, before_merge) = (NothingPending, ?d, before_merge)"
    using native_quiet[OF m(1,2) n, of demo_ext "\<lambda>_. 7" "me_probes demo_merge_env" "me_now demo_merge_env" merge_host demo_lease
        before_merge] w(3) by simp
  have mr: "merge_recovered demo_ext (\<lambda>_. 7) demo_rid merge_host demo_lease demo_merge_env quiet demo_nid ?n ''/wt'' ''work''
      (Some ''main'') report (?d, before_merge) = (Inr (Some (fst x), snd x), d', w')"
    unfolding merge_recovered_def rec by (cases x) (simp add: act_bind_def act_of_apply f')
  have a: "ma_source demo_merge_args = None" "ma_dry_run demo_merge_args = False" "ma_report_file demo_merge_args = None"
    by (simp_all add: demo_merge_args_def)
  have "\<exists>o'. execute demo_ext (\<lambda>_. 7) demo_rid merge_host demo_lease demo_merge_env quiet demo_merge_args (?d, before_merge) =
      (Inr o', d', w') \<and> mo_merged o' \<and> \<not> mo_dry_run o'"
    unfolding execute_def demo_default_node a
    by (simp add: act_bind_def act_of_apply g src wt mr b m(5,6) ensure_def Let_def)
  then show ?thesis using that tip by blast
qed

text \<open>The merge of the demo run settles its node.\<close>

theorem merge_settles_or_reopens_witness:
  "\<exists>o' d' w' n' report. execute demo_ext (\<lambda>_. 7) demo_rid merge_host demo_lease demo_merge_env quiet demo_merge_args
      (with_node_entry working, before_merge) = (Inr o', d', w') \<and> mo_merged o' \<and>
    read_node_opt demo_rid d' demo_nid = Inr (Some n') \<and> merged_with report n' \<and> report_is_confirmed_merge report"
proof -
  obtain o' d' w' where e: "execute demo_ext (\<lambda>_. 7) demo_rid merge_host demo_lease demo_merge_env quiet demo_merge_args
      (with_node_entry working, before_merge) = (Inr o', d', w')" "mo_merged o'" "\<not> mo_dry_run o'" by (rule demo_merges)
  from merge_settles_or_reopens[OF demo_ext_ok demo_default_node demo_mergeable demo_shallow e(1)] e show ?thesis by auto
qed


text \<open>The source moved, so the transaction is in the log.\<close>

theorem git_moves_under_transaction_witness:
  "\<exists>r d' w' ev evs' txn. execute demo_ext (\<lambda>_. 7) demo_rid merge_host demo_lease demo_merge_env quiet demo_merge_args
      (with_node_entry working, before_merge) = (r, d', w') \<and> w' \<noteq> before_merge \<and>
    read_all_events demo_ext d' = Inr (demo_events @ ev # evs') \<and> ev_kind ev = ''merge.started'' \<and>
    de_merge_txn demo_ext (ev_data ev) = Some txn \<and> mt_op_id txn = ''op-1''"
proof -
  obtain o' d' w' where e: "execute demo_ext (\<lambda>_. 7) demo_rid merge_host demo_lease demo_merge_env quiet demo_merge_args
      (with_node_entry working, before_merge) = (Inr o', d', w')" "read_oid merge_host w' ''/main'' ''main'' = Some work_oid"
    by (rule demo_merges)
  have op: "me_op_id demo_merge_env = ''op-1''" by (simp add: demo_merge_env_def)
  have "w' \<noteq> before_merge"
    using e(2) read_rev[of before_merge "''/main''" "''main''"] oids by (auto simp: before_merge_def rev_of_def)
  with git_moves_under_transaction[OF demo_ext_ok demo_default_node demo_mergeable demo_shallow e(1)] e(1) op show ?thesis by metis
qed

end
