(* ===== verification/Idempotency_Facts.thy ===== *)
theory Idempotency_Facts
  imports Idempotency Telemetry_Facts Landed_Facts
begin

text \<open>
  Reservations: the hash is the two FNV passes over an injective encoding of the key, its text is a
  file name of its own, a record reads back as written, and a key that is reserved stays with its
  run until that run releases it or is reclaimed by a caller that observed it.
\<close>

unbundle bit_operations_syntax

section \<open>The name\<close>

lemma fnv_append: "fnv1a64 h (a @ b) = fnv1a64 (fnv1a64 h a) b"
  by (induction a arbitrary: h) simp_all

definition length_prefixed :: "string list \<Rightarrow> bytes" where
  "length_prefixed parts = concat (map (\<lambda>s. to_le_bytes (of_nat (length s)) @ s) parts)"

lemma hash_parts_stream:
  "hash_parts low high parts = (fnv1a64 low (length_prefixed parts), fnv1a64 high (length_prefixed parts))"
  by (induction parts arbitrary: low high) (simp_all add: length_prefixed_def fnv_append Let_def)

lemma length_le_bytes: "length (to_le_bytes w) = 8"
  by (simp add: to_le_bytes_def)

lemma le_bytes_nth:
  assumes "i < 8"
  shows "of_char (to_le_bytes w ! i) = unat (drop_bit (8 * i) w AND 255)"
proof -
  have "unat (drop_bit (8 * i) w AND 255) < 256"
    using word_and_le1[of "drop_bit (8 * i) w" 255] by (simp add: word_le_nat_alt le_less_trans)
  then show ?thesis using assms by (simp add: to_le_bytes_def)
qed

lemma to_le_bytes_inj: "to_le_bytes v = to_le_bytes w \<Longrightarrow> v = (w :: u64)"
proof (rule bit_word_eqI)
  fix n assume e: "to_le_bytes v = to_le_bytes w" and "n < LENGTH(64)"
  then have i: "n div 8 < 8" by simp
  have "unat (drop_bit (8 * (n div 8)) v AND 255) = unat (drop_bit (8 * (n div 8)) w AND 255)"
    using le_bytes_nth[OF i, of v] le_bytes_nth[OF i, of w] e by simp
  then have "drop_bit (8 * (n div 8)) v AND 255 = drop_bit (8 * (n div 8)) w AND (255 :: u64)"
    by (rule unsigned_word_eqI)
  then have "bit (drop_bit (8 * (n div 8)) v AND mask 8) (n mod 8) = bit (drop_bit (8 * (n div 8)) w AND mask 8) (n mod 8)"
    by (simp add: mask_eq_exp_minus_1)
  moreover have "n mod 8 < 64" by (rule less_trans[of _ 8]) simp_all
  ultimately show "bit v n = bit w n" by (simp add: bit_and_iff bit_drop_bit_eq bit_mask_iff)
qed

lemma length_prefixed_inj:
  assumes "length_prefixed as = length_prefixed bs" and "length as = length bs"
    and "list_all (\<lambda>s. length s < 2 ^ 64) as" and "list_all (\<lambda>s. length s < 2 ^ 64) bs"
  shows "as = bs"
  using assms
proof (induction as arbitrary: bs)
  case (Cons a as)
  then obtain b cs where bs: "bs = b # cs" by (cases bs) auto
  have e: "to_le_bytes (of_nat (length a)) @ a @ length_prefixed as = to_le_bytes (of_nat (length b)) @ b @ length_prefixed cs"
    using Cons.prems(1) by (simp add: bs length_prefixed_def)
  then have l: "to_le_bytes (of_nat (length a)) = to_le_bytes (of_nat (length b))"
    and rest: "a @ length_prefixed as = b @ length_prefixed cs" by (simp_all add: length_le_bytes append_eq_append_conv)
  have u: "unat (of_nat (length s) :: u64) = length s" if "length s < 2 ^ 64" for s :: string
    using that by (intro of_nat_inverse[OF refl]) simp
  from to_le_bytes_inj[OF l] have "length a = length b"
    using Cons.prems(3,4) u[of a] u[of b] unfolding bs by (metis list.pred_inject(2))
  with rest have "a = b" "length_prefixed as = length_prefixed cs" by simp_all
  with Cons bs show ?case by simp
qed simp

lemma hex_digit_lower: "n < 16 \<Longrightarrow> is_lower_hex (hex_digit n)"
proof -
  have "list_all (\<lambda>n. is_lower_hex (hex_digit n)) [0 ..< 16]" by code_simp
  then show "n < 16 \<Longrightarrow> ?thesis" by (simp add: list_all_iff)
qed

lemma hex16_shape: "length (hex16 w) = 16" "list_all is_lower_hex (hex16 w)"
proof -
  have "unat (v AND 15) < 16" for v :: u64
    using word_and_le1[of v 15] by (simp add: word_le_nat_alt le_less_trans)
  then show "list_all is_lower_hex (hex16 w)" by (simp add: hex16_def list_all_iff hex_digit_lower)
qed (simp add: hex16_def)

lemma key_hash_shape: "length (key_hash repo branch key) = 32" "list_all is_lower_hex (key_hash repo branch key)"
  by (simp_all add: key_hash_def hash_parts_stream hex16_shape)

text \<open>C38: the file of an idempotency key is well chosen. Its name is exactly the two 64-bit FNV-1a passes,
  in hexadecimal, over the length-prefixed encoding of repository, branch and key, and that encoding
  is injective, so two keys share a name only by a collision of the hash itself; the name is 32
  lower-case hexadecimal digits and therefore never one of the temporary files.\<close>

theorem key_hash_of_injective_encoding:
  assumes "list_all (\<lambda>s. length s < 2 ^ 64)
      [unwrap_or [] repo, unwrap_or [] branch, key, unwrap_or [] repo', unwrap_or [] branch', key']"
  shows "(length_prefixed [unwrap_or [] repo, unwrap_or [] branch, key] =
        length_prefixed [unwrap_or [] repo', unwrap_or [] branch', key'] \<longleftrightarrow>
      (unwrap_or [] repo, unwrap_or [] branch, key) = (unwrap_or [] repo', unwrap_or [] branch', key')) \<and>
    key_hash repo branch key =
      (let s = length_prefixed [unwrap_or [] repo, unwrap_or [] branch, key] in
       hex16 (fnv1a64 FNV_OFFSET_HIGH s) @ hex16 (fnv1a64 FNV_OFFSET_LOW s)) \<and>
    length (key_hash repo branch key) = 32 \<and> list_all is_lower_hex (key_hash repo branch key)"
proof -
  have "length_prefixed [unwrap_or [] repo, unwrap_or [] branch, key] =
        length_prefixed [unwrap_or [] repo', unwrap_or [] branch', key'] \<longleftrightarrow>
      (unwrap_or [] repo, unwrap_or [] branch, key) = (unwrap_or [] repo', unwrap_or [] branch', key')"
    using length_prefixed_inj[of "[unwrap_or [] repo, unwrap_or [] branch, key]"
        "[unwrap_or [] repo', unwrap_or [] branch', key']"] assms by auto
  moreover have "key_hash repo branch key = (let s = length_prefixed [unwrap_or [] repo, unwrap_or [] branch, key] in
       hex16 (fnv1a64 FNV_OFFSET_HIGH s) @ hex16 (fnv1a64 FNV_OFFSET_LOW s))"
    by (simp add: key_hash_def hash_parts_stream Let_def)
  ultimately show ?thesis using key_hash_shape by blast
qed

section \<open>Records\<close>

text \<open>The compact text of an object is UTF-8 and begins with its brace.\<close>

definition object_text :: "ext \<Rightarrow> bool" where
  "object_text X \<longleftrightarrow> (\<forall>m. utf8_valid (json_to_vec X (Object m)) \<and> (\<exists>s. json_to_vec X (Object m) = CHR ''{'' # s))"

lemma de_list_strings: "de_list as_str (map String ss) = Some ss"
  by (induction ss) simp_all

lemma lease_roundtrip: "ext_ok X \<Longrightarrow> de_creator_lease X (lease_json X l) = Some l"
  by (cases "cl_materializer_lease_path l"; cases "cl_pid_start_secs l")
    (simp_all add: lease_json_def de_creator_lease_def struct_fields_def req_def optional_def de_option_def
      opt_json_def de_u32_json[unfolded u32_json_def] de_u64_def de_string_def de_datetime_def ext_ok_time)

lemma plan_roundtrip: "de_caller_plan (plan_json p) = Some p"
  by (simp add: plan_json_def de_caller_plan_def struct_fields_def req_def de_string_def)

lemma json_not_null [simp]: "lease_json X l \<noteq> Null" "plan_json p \<noteq> Null"
  by (simp_all add: lease_json_def plan_json_def)

lemma record_roundtrip: "ext_ok X \<Longrightarrow> de_reservation_record X (record_json X r) = Some r"
  by (cases "rv_creator r"; cases "rv_caller_plan r")
    (simp_all add: record_json_def de_reservation_record_def struct_fields_def req_def optional_def de_option_def
      defaulted_def opt_json_def de_u32_json[unfolded u32_json_def] de_string_def de_vec_def de_list_strings
      lease_roundtrip plan_roundtrip)

lemma record_exact: "wf_json (record_json X r) \<and> exact_json MAX_DEPTH (record_json X r)"
  by (cases "rv_creator r"; cases "rv_caller_plan r")
    (auto simp: record_json_def opt_json_def lease_json_def plan_json_def MAX_DEPTH_def split: option.split)

lemma trim_start_brace: "trim_start (CHR ''{'' # s) = CHR ''{'' # s"
  unfolding trim_start_def
  by (rule strip_leading_graphic) (use white_space_edges in \<open>auto simp: list_all_iff graphic_def less_eq_char_def\<close>)

lemma written_record:
  assumes "ext_ok X" and "object_text X" and "rv_schema_version r = 1"
    and "fs p = Some (json_to_vec X (record_json X r))"
  shows "read_record X p fs = Inr (Some r)"
proof -
  let ?t = "json_to_vec X (record_json X r)"
  have "utf8_valid ?t" using assms(2) by (simp add: object_text_def record_json_def)
  moreover obtain s where t: "?t = CHR ''{'' # s" using assms(2) by (auto simp: object_text_def record_json_def)
  moreover have "json_from_slice X ?t = Some (record_json X r)" by (rule ext_ok_json) (use assms(1) record_exact in auto)
  ultimately show ?thesis
    using assms by (simp add: read_record_def record_roundtrip trim_start_brace)
qed

section \<open>Exclusion\<close>

text \<open>The name of a key, which no temporary file has.\<close>

definition key_name :: "string \<Rightarrow> bool" where
  "key_name p \<longleftrightarrow> (\<exists>repo branch key. p = key_hash repo branch key)"

lemma key_name_no_tmp: "key_name p \<Longrightarrow> p \<noteq> claim_tmp r \<and> p \<noteq> write_tmp q"
proof -
  assume "key_name p"
  then have "is_lower_hex (hd p)" "p \<noteq> []"
    using key_hash_shape by (auto simp: key_name_def list_all_iff) (metis length_0_conv zero_neq_numeral hd_in_set)+
  then show ?thesis
    by (auto simp: claim_tmp_def write_tmp_def is_lower_hex_def is_ascii_digit_def less_eq_char_def)
qed

datatype idem_op =
    Lookup
  | Reserve reservation_record
  | Reclaim reservation_record reservation_record bool
  | FinishCleanup string
  | Release string

definition idem_step :: "ext \<Rightarrow> string \<times> idem_op \<Rightarrow> idem_dir \<Rightarrow> idem_dir" where
  "idem_step X step fs = (case step of (p, oper) \<Rightarrow> (case oper of
       Lookup \<Rightarrow> fs
     | Reserve r \<Rightarrow> snd (reserve_in X p r fs)
     | Reclaim observed replacement published \<Rightarrow> snd (reclaim_in X p observed replacement published fs)
     | FinishCleanup run_id \<Rightarrow> snd (finish_stale_cleanup X p run_id fs)
     | Release run_id \<Rightarrow> snd (release_in X p run_id fs)))"

text \<open>The two operations that end a reservation: its run releases it, or a caller that observed it
  (after proving its creator dead) replaces it.\<close>

definition ends :: "string \<Rightarrow> idem_op \<Rightarrow> bool" where
  "ends run_id oper \<longleftrightarrow> (case oper of
       Release r \<Rightarrow> r = run_id
     | Reclaim observed replacement published \<Rightarrow> rv_run_id observed = run_id
     | _ \<Rightarrow> False)"

definition holds_key :: "ext \<Rightarrow> string \<Rightarrow> string \<Rightarrow> idem_dir \<Rightarrow> bool" where
  "holds_key X p run_id fs \<longleftrightarrow> (\<exists>r. fs p = Some (json_to_vec X (record_json X r)) \<and> rv_schema_version r = 1 \<and> rv_run_id r = run_id)"

lemma holds_key_read:
  assumes "ext_ok X" "object_text X" "holds_key X p run_id fs"
  obtains r where "read_record X p fs = Inr (Some r)" "rv_run_id r = run_id" "rv_schema_version r = 1"
  using assms(3) written_record[OF assms(1,2)] that by (auto simp: holds_key_def)

lemma exclusive_other: "p \<noteq> q \<Longrightarrow> key_name p \<Longrightarrow> snd (write_record_exclusive X q r fs) p = fs p"
  using key_name_no_tmp[of p r] by (simp add: write_record_exclusive_def Let_def)

lemma atomic_other: "p \<noteq> q \<Longrightarrow> key_name p \<Longrightarrow> write_record_atomic X q r fs p = fs p"
  using key_name_no_tmp[of p _ q] by (simp add: write_record_atomic_def Let_def)

lemma atomic_same: "key_name p \<Longrightarrow> write_record_atomic X p r fs p = Some (json_to_vec X (record_json X r))"
  using key_name_no_tmp[of p _ p] by (simp add: write_record_atomic_def Let_def)

lemma step_other:
  assumes "p \<noteq> q" and "key_name p"
  shows "idem_step X (q, oper) fs p = fs p"
proof -
  have "fs' p = fs p" if "write_record_exclusive X q r fs = (b, fs')" for r b fs'
    using exclusive_other[OF assms, of X r fs] that by simp
  then show ?thesis using assms atomic_other[OF assms]
    by (auto simp: idem_step_def reserve_in_def reclaim_in_def finish_stale_cleanup_def release_in_def
        split: idem_op.split sum.split option.split bool.split prod.split)
qed

lemma step_same:
  assumes X: "ext_ok X" "object_text X" and p: "key_name p" and h: "holds_key X p run_id fs" and "\<not> ends run_id oper"
  shows "holds_key X p run_id (idem_step X (p, oper) fs)"
proof -
  obtain r where r: "read_record X p fs = Inr (Some r)" "rv_run_id r = run_id" "rv_schema_version r = 1"
    by (rule holds_key_read[OF X h])
  have "holds_key X p run_id (write_record_atomic X p (r\<lparr>rv_stale_run_ids := []\<rparr>) fs)"
    using atomic_same[OF p] r(2,3) by (auto simp: holds_key_def)
  with r h assms(5) show ?thesis
    by (auto simp: idem_step_def reserve_in_def reclaim_in_def finish_stale_cleanup_def release_in_def ends_def
        split: idem_op.splits)
qed

lemma steps_hold:
  assumes X: "ext_ok X" "object_text X" and p: "key_name p" and "holds_key X p run_id fs"
    and "list_all (\<lambda>(q, oper). q = p \<longrightarrow> \<not> ends run_id oper) ops"
  shows "holds_key X p run_id (fold (idem_step X) ops fs)"
  using assms(4,5)
proof (induction ops arbitrary: fs)
  case (Cons st ops)
  obtain q oper where st: "st = (q, oper)" by (cases st)
  have "holds_key X p run_id (idem_step X st fs)"
  proof (cases "q = p")
    case True
    then show ?thesis using step_same[OF X p Cons.prems(1)] Cons.prems(2) st by simp
  next
    case False
    then show ?thesis using step_other[of p q X oper fs] p Cons.prems(1) st by (simp add: holds_key_def)
  qed
  then show ?case using Cons by simp
qed simp

text \<open>C25: a reserved key belongs to one run. Once a caller has won a key, then after any sequence of
  operations of any other callers, on this and on other keys, every attempt to reserve the key
  again is answered with a reservation of the winner's run and changes nothing, and an attempt to
  reclaim it from an observation of any other run is turned away: until the winner's run releases
  the key, or a caller that observed the winner's own record reclaims it, no other run is created
  under this key.\<close>

theorem reservation_excludes_others:
  assumes "ext_ok X" and "object_text X" and "p = key_hash repo branch key" and "rv_schema_version r = 1"
    and "reserve_in X p r fs = (Inr Reserved, fs1)"
    and "list_all (\<lambda>(q, oper). q = p \<longrightarrow> \<not> ends (rv_run_id r) oper) ops"
    and "fs2 = fold (idem_step X) ops fs1"
  shows "\<exists>current. rv_run_id current = rv_run_id r \<and>
    (\<forall>r'. reserve_in X p r' fs2 = (Inr (AlreadyReserved current), fs2)) \<and>
    (\<forall>observed r'. rv_run_id observed \<noteq> rv_run_id r \<longrightarrow>
       reclaim_in X p observed r' False fs2 = (Inr (Changed current), fs2))"
proof -
  have p: "key_name p" using assms(3) by (auto simp: key_name_def)
  have "fs1 p = Some (json_to_vec X (record_json X r))"
    using assms(5) key_name_no_tmp[OF p]
    by (auto simp: reserve_in_def write_record_exclusive_def Let_def contended_def res_simps
        split: sum.splits option.splits if_splits)
  then have "holds_key X p (rv_run_id r) fs1" using assms(4) by (auto simp: holds_key_def)
  then have "holds_key X p (rv_run_id r) fs2" using steps_hold[OF assms(1,2) p] assms(6,7) by simp
  then obtain current where "read_record X p fs2 = Inr (Some current)" "rv_run_id current = rv_run_id r"
    by (rule holds_key_read[OF assms(1,2)])
  then show ?thesis by (auto simp: reserve_in_def reclaim_in_def)
qed

end
