(* ===== verification/Fence_Facts.thy ===== *)
theory Fence_Facts
  imports Writer_Fence Death_Facts
begin

text \<open>
  The settlement intent of a caller-owned run: recorded once, it is the answer to every later
  request or the reason to refuse it, and a repetition of the request that recorded it returns it.
\<close>

section \<open>The recorded intent\<close>

lemma de_operation_name: "de_settlement_operation (String (operation_name oper)) = Some oper"
  by (cases oper) (simp_all add: operation_name_def de_settlement_operation_def enum_variant_def)

lemma intent_json_inj: "de_caller_settlement_intent (intent_json i) = Some j \<Longrightarrow> j = i"
  by (cases i; cases "si_reason i")
    (auto simp: intent_json_def de_caller_settlement_intent_def struct_fields_def req_def optional_def
      de_option_def de_string_def de_u64_def de_run_id_def de_node_id_def de_operation_name
      RunId_parse_str_Inr NodeId_parse_str_Inr split: bind_splits sum.splits)

definition holds_intent :: "run_id \<Rightarrow> run_dir \<Rightarrow> caller_settlement_intent \<Rightarrow> bool" where
  "holds_intent rid d i \<longleftrightarrow> (\<exists>m. read_manifest_opt rid d = Inr (Some m) \<and> m_caller_settlement_intent m = Some i)"

lemma intent_kept: "run_steps X rid d d' \<Longrightarrow> holds_intent rid d i \<Longrightarrow> holds_intent rid d' i"
  using manifest_history.history[of X rid d d'] by (fastforce simp: holds_intent_def manifest_later_def)

lemma append_accepted:
  assumes "append_and_apply_unlocked X clock rid kind nid key data d = (Inr s, d')"
  obtains d0 ops where "reduce_event_to_ops X rid d0 (new_event clock rid kind nid key data s) = Inr ops"
    "d' = recorded_state X rid (new_event clock rid kind nid key data s) ops d0"
  using assms
  by (auto simp: append_and_apply_unlocked_def append_and_apply_reporting_def bind_io_def reading_def updating_def
      ret_def Let_def recorded_state_def folded_state_def logged_state_def new_event_def
      split: prod.splits sum.splits)

lemma intent_reduced:
  assumes r: "reduce_event_to_ops X rid d (new_event clock rid ''caller.settlement_intent'' (Some nid) key (intent_json i) s) = Inr ops"
    and c: "commit_ops rid ops d = (Inr (), d1)"
  shows "holds_intent rid d1 (i\<lparr>si_seq := s\<rparr>)"
proof -
  define ev where "ev = new_event clock rid ''caller.settlement_intent'' (Some nid) key (intent_json i) s"
  have data: "ev_data ev = intent_json i" "ev_seq ev = s" by (simp_all add: ev_def new_event_def)
  have "reduce_caller_settlement_intent X rid d ev = Inr ops"
    using r by (simp add: reduce_event_to_ops_def reducers_def ev_def new_event_def)
  then obtain m j P where m: "read_manifest_opt rid d = Inr (Some m)"
    and j: "de_caller_settlement_intent (intent_json i) = Some j"
    and "(case m_caller_settlement_intent m of
          Some existing \<Rightarrow> if existing = j\<lparr>si_seq := s\<rparr> then Inr [] else Inl CorruptEventLog
        | None \<Rightarrow> if P then Inl CorruptEventLog
            else Inr [OpManifest (m\<lparr>m_caller_settlement_intent := Some (j\<lparr>si_seq := s\<rparr>), m_updated_at := ev_ts ev\<rparr>)]) = Inr ops"
    by (simp only: reduce_caller_settlement_intent_def res_simps Let_def data) blast
  moreover have "j = i" using intent_json_inj[OF j] .
  moreover have "list_all (\<lambda>oper. reads_back rid oper d1) ops" using reducer.commit_plan[OF r] c by auto
  ultimately show ?thesis using m c
    by (cases "m_caller_settlement_intent m")
      (auto simp: holds_intent_def reads_back_def ret_def split: if_splits)
qed

lemma intent_recorded:
  assumes "append_and_apply_unlocked X clock rid ''caller.settlement_intent'' (Some nid) key (intent_json i) d = (Inr s, d')"
  shows "holds_intent rid d' (i\<lparr>si_seq := s\<rparr>)"
proof -
  let ?ev = "new_event clock rid ''caller.settlement_intent'' (Some nid) key (intent_json i) s"
  obtain d0 ops where r: "reduce_event_to_ops X rid d0 ?ev = Inr ops" "d' = recorded_state X rid ?ev ops d0"
    by (rule append_accepted[OF assms])
  obtain d1 where d1: "commit_ops rid ops d0 = (Inr (), d1)" using reducer.commit_plan[OF r(1)] by blast
  have "holds_intent rid (folded_state X rid ?ev ops d0) (i\<lparr>si_seq := s\<rparr>)"
    using intent_reduced[OF r(1) d1] folded_ok(3)[OF r(1)] d1 by (simp add: holds_intent_def log_reads)
  moreover have "run_steps X rid (folded_state X rid ?ev ops d0) d'"
    using steps_advance[of X rid "ev_seq ?ev"] r(2) by (simp add: steps_io_def recorded_state_def)
  ultimately show ?thesis by (rule intent_kept[rotated])
qed

section \<open>Requests\<close>

lemma locked_request_holds:
  assumes "record_intent_locked X clock rid E held nid key oper actor reason allow d = (Inr i, d')"
  shows "holds_intent rid d' i"
  using assms
  by (auto simp: record_intent_locked_def Let_def holds_intent_def dest!: intent_recorded
      split: option.splits sum.splits if_splits prod.splits bool.splits)

lemma request_holds:
  assumes "record_intent X clock rid E nid key oper actor reason allow d = (Inr i, d')"
  shows "holds_intent rid d' i"
  using assms
  by (auto simp: record_intent_def dest: locked_request_holds split: option.splits sum.splits if_splits prod.splits)

lemma locked_request_steps:
  assumes "record_intent_locked X clock rid E held nid key oper actor reason allow d = (r, d')"
  shows "run_steps X rid d d'"
proof -
  have "run_steps X rid d d2" if "append_and_apply_unlocked X clock rid k (Some nid) ky data d = (q, d2)" for k ky data q d2
    using steps_append_unlocked[of X rid clock k "Some nid" ky data] that by (simp add: steps_io_def) (metis snd_conv)
  then show ?thesis using assms
    by (auto simp: record_intent_locked_def Let_def split: option.splits sum.splits if_splits prod.splits bool.splits)
qed

lemma locked_request_sticky:
  assumes "holds_intent rid d i"
    and "record_intent_locked X clock rid E held nid key oper actor reason allow d = (r, d')"
  shows "d' = d \<and> (r = Inr i \<or> (\<exists>e. r = Inl e))"
  using assms
  by (auto simp: record_intent_locked_def holds_intent_def Let_def split: option.splits sum.splits if_splits)

text \<open>C23: the settlement intent of a caller-owned run is recorded once and for all. After a request was
  answered with an intent, the manifest holds exactly that intent; whatever then happens to the
  run through its write paths, any later request, of any operation, by any actor, under any key and
  with any state of the lock files, is answered with the same intent or refused, changes nothing
  beyond the catch-up replay, and leaves the intent in place.\<close>

theorem settlement_intent_is_sticky:
  assumes "record_intent X clock rid E nid key oper actor reason allow d = (Inr i, d1)"
    and "run_steps X rid d1 d2"
    and "record_intent X clock' rid E' nid' key' oper' actor' reason' allow' d2 = (r, d3)"
  shows "holds_intent rid d1 i \<and> holds_intent rid d3 i \<and> (r = Inr i \<or> (\<exists>e. r = Inl e)) \<and>
    d3 \<in> {d2, snd (replay_unapplied_unlocked X rid d2)}"
proof -
  have h: "holds_intent rid d1 i" by (rule request_holds[OF assms(1)])
  have h2: "holds_intent rid d2 i" by (rule intent_kept[OF assms(2) h])
  obtain q dr where rep: "replay_unapplied_unlocked X rid d2 = (q, dr)" by (cases "replay_unapplied_unlocked X rid d2")
  have "run_steps X rid d2 dr" using steps_replay_unlocked[of X rid] rep by (simp add: steps_io_def) (metis snd_conv)
  then have hr: "holds_intent rid dr i" by (rule intent_kept[OF _ h2])
  have "d3 \<in> {d2, dr} \<and> (r = Inr i \<or> (\<exists>e. r = Inl e))"
    using assms(3) rep locked_request_sticky[OF hr]
    by (auto simp: record_intent_def split: option.splits sum.splits if_splits)
  then show ?thesis using h h2 hr rep by auto
qed

section \<open>Repeated requests\<close>

lemma intent_fits: "fits (MAX_DEPTH - 1) (intent_json i)"
  by (rule depth) (cases "si_reason i"; simp add: intent_json_def fits_def)

lemma find_kept: "Option.bind (List.find P xs) f = Some y \<Longrightarrow> Option.bind (List.find P (xs @ ys)) f = Some y"
  by (induction xs) (auto split: if_splits)

lemma fence_check_kept:
  assumes "read_all_events X d = Inr evs" and "read_all_events X d' = Inr (evs @ evs2)"
    and "check_creation_fence X d f = Inr ()"
  shows "check_creation_fence X d' f = Inr ()"
  using assms find_kept[of "\<lambda>e. ev_kind e = ''run.created''" evs] by (auto simp: check_creation_fence_def split: if_splits)

text \<open>The first request of a run that is up to date, and its event.\<close>

lemma first_request:
  assumes X: "ext_ok X" and sy: "synced X rid d evs" and v: "valid_target rid nid" and room: "last_seq evs \<noteq> - 1"
    and no: "read_manifest_opt rid d = Inr (Some m)" "m_caller_settlement_intent m = None"
    and r: "record_intent_locked X clock rid E held nid key oper actor reason allow d = (Inr i, d')"
  obtains f n ev where "fe_inspect E 2 = Some f" "held = fc_launch_gate f" "check_creation_fence X d f = Inr ()"
    "read_node_opt rid d nid = Inr (Some n)" "n_run_id n = rid" "n_worktree_path n \<noteq> None" "n_branch n \<noteq> None"
    "m_agent_owner m = Caller" "i = new_intent rid f n nid key oper actor reason\<lparr>si_seq := si_seq i\<rparr>"
    "synced X rid d' (evs @ [ev])" "read_node_opt rid d' nid = read_node_opt rid d nid"
proof -
  from r no obtain f n s where f: "fe_inspect E 2 = Some f" "held = fc_launch_gate f" "check_creation_fence X d f = Inr ()"
    "read_node_opt rid d nid = Inr (Some n)" "n_run_id n = rid" "n_worktree_path n \<noteq> None" "n_branch n \<noteq> None"
    "m_agent_owner m = Caller" "i = new_intent rid f n nid key oper actor reason\<lparr>si_seq := s\<rparr>"
    "append_and_apply_unlocked X clock rid ''caller.settlement_intent'' (Some nid) (Some key)
       (intent_json (new_intent rid f n nid key oper actor reason)) d = (Inr s, d')"
    by (auto simp: record_intent_locked_def Let_def split: option.splits sum.splits if_splits prod.splits bool.splits)
  define ev where "ev = new_event clock rid ''caller.settlement_intent'' (Some nid) (Some key)
       (intent_json (new_intent rid f n nid key oper actor reason)) (last_seq evs + 1)"
  have seq: "ev_seq ev = last_seq evs + 1" by (simp add: ev_def new_event_def)
  have l: "loggable ev" using v intent_fits by (simp add: ev_def loggable_def new_event_def valid_target_def fits_def)
  from sy have l0: "log_is X d evs []" "checked_events d = Inr ()" by (auto simp: synced_def)
  from append_after_replay[OF X replay_synced[OF X sy] l0 no(1) ev_def] f(10)
  obtain ops where ops: "reduce_event_to_ops X rid d ev = Inr ops" "d' = recorded_state X rid ev ops d"
    by (auto simp: append_and_apply_unlocked_def bind_io_def ret_def split: sum.splits)
  have node: "read_node_opt rid d' nid = read_node_opt rid d nid"
  proof -
    obtain d1 where d1: "commit_ops rid ops d = (Inr (), d1)"
      "\<And>p. p \<notin> set (map op_path ops) \<Longrightarrow> same_at rid p d d1" using reducer.commit_plan[OF ops(1)] by blast
    have "NodePath nid \<notin> set (map op_path ops)"
    proof -
      have "reduce_caller_settlement_intent X rid d ev = Inr ops"
        using ops(1) by (simp add: reduce_event_to_ops_def reducers_def ev_def new_event_def)
      then show ?thesis
        by (auto simp: reduce_caller_settlement_intent_def res_simps Let_def op_path_def split: option.splits if_splits)
    qed
    with d1(2)[of "NodePath nid"] show ?thesis
      using d1(1) recorded_node[OF ops(1) no(1)] ops(2) by (simp add: same_at_def)
  qed
  show ?thesis
    by (rule that[OF f(1-8) _ recorded_synced[OF sy l seq room ops(1), folded ops(2)] node]) (simp add: f(9))
qed

text \<open>Repeating a settlement request is harmless. When a request on a run that is up to date was
  answered with an intent, the same request, as long as the lock files are still the same, is
  answered with the same intent again and changes nothing, whether the first one recorded it or
  found it recorded.\<close>

theorem settlement_request_is_idempotent:
  assumes "ext_ok X" and "synced X rid d evs" and "valid_target rid nid" and "last_seq evs \<noteq> - 1"
    and "record_intent X clock rid E nid key oper actor reason allow d = (Inr i, d')"
  shows "record_intent X clock' rid E nid key oper actor reason allow d' = (Inr i, d')"
proof -
  from assms(2) obtain m where m: "read_manifest_opt rid d = Inr (Some m)" by (auto simp: synced_def)
  note rep = replay_synced[OF assms(1,2)]
  from assms(5) rep obtain f0 held where h: "intent_args_ok key oper actor reason" "fe_inspect E 0 = Some f0"
    "fe_gate E = Inr held" "fe_inspect E 1 = Some f0"
    and r: "record_intent_locked X clock rid E held nid key oper actor reason allow d = (Inr i, d')"
    by (auto simp: record_intent_def split: option.splits sum.splits if_splits)
  show ?thesis
  proof (cases "m_caller_settlement_intent m")
    case (Some old)
    then have "holds_intent rid d old" using m by (simp add: holds_intent_def)
    then have "d' = d" "i = old" using locked_request_sticky[OF _ r] by auto
    then show ?thesis using h r rep m Some
      by (auto simp: record_intent_def record_intent_locked_def Let_def split: option.splits sum.splits if_splits)
  next
    case None
    obtain f n ev where f: "fe_inspect E 2 = Some f" "held = fc_launch_gate f" "check_creation_fence X d f = Inr ()"
      "read_node_opt rid d nid = Inr (Some n)" "n_run_id n = rid" "n_worktree_path n \<noteq> None" "n_branch n \<noteq> None"
      "m_agent_owner m = Caller" and i: "i = new_intent rid f n nid key oper actor reason\<lparr>si_seq := si_seq i\<rparr>"
      and sy: "synced X rid d' (evs @ [ev])" and node: "read_node_opt rid d' nid = read_node_opt rid d nid"
      by (rule first_request[OF assms(1-4) m None r])
    have c: "check_creation_fence X d' f = Inr ()"
      by (rule fence_check_kept[OF _ _ f(3)])
        (use assms(2) sy log_read_all[OF assms(1)] in \<open>auto simp: synced_def\<close>)
    obtain m' where m': "read_manifest_opt rid d' = Inr (Some m')" "m_caller_settlement_intent m' = Some i"
      using locked_request_holds[OF r] by (auto simp: holds_intent_def)
    have "m_agent_owner m' = Caller" using manifest_history.history[OF locked_request_steps[OF r], of m] m m' f(8)
      by (auto simp: manifest_later_def)
    moreover have "reuses_intent m' n i (new_intent rid f n nid key oper actor reason)"
      by (subst i, unfold reuses_intent_def) (simp add: same_fence_def new_intent_def)
    ultimately show ?thesis
      using h f c m' node replay_synced[OF assms(1) sy] by (simp add: record_intent_def record_intent_locked_def Let_def)
  qed
qed

end
