(* ===== verification/Creation_Facts.thy ===== *)
theory Creation_Facts
  imports Creation Idempotency_Facts Fence_Facts
begin

text \<open>
  Creation of a run: only one creator wins a key while it lives, a run is public only when it is
  whole, the key is kept exactly when the run is public, and the name of the worker's branch stays
  within the bounds of the tools that use it.
\<close>

section \<open>Branch names\<close>

definition slug_char :: "char \<Rightarrow> bool" where
  "slug_char c \<longleftrightarrow> is_ascii_digit c \<or> is_ascii_lowercase c \<or> c = CHR ''-''"

lemma lowercase_slug: "is_ascii_alphanumeric (to_ascii_lowercase c) \<Longrightarrow> slug_char (to_ascii_lowercase c)"
proof (cases "CHR ''A'' \<le> c \<and> c \<le> CHR ''Z''")
  case True
  define k where "k = (of_char c :: nat)"
  have "65 \<le> k" "k \<le> 90" using True by (simp_all add: less_eq_char_def k_def)
  then have "of_char (to_ascii_lowercase c) = k + 32" using True by (simp add: to_ascii_lowercase_def k_def)
  with \<open>65 \<le> k\<close> \<open>k \<le> 90\<close> show ?thesis by (simp add: slug_char_def is_ascii_lowercase_def less_eq_char_def)
next
  case False
  moreover assume "is_ascii_alphanumeric (to_ascii_lowercase c)"
  ultimately show ?thesis by (auto simp: to_ascii_lowercase_def is_ascii_alphanumeric_def slug_char_def)
qed

lemma split_on_parts: "s \<in> set (split_on sep t) \<Longrightarrow> set s \<subseteq> set t \<and> sep \<notin> set s"
proof (induction t arbitrary: s)
  case (Cons c t)
  then show ?case by (cases "split_on sep t") (fastforce split: if_splits)+
qed simp

lemma join_dash_chars: "set (join_dash ss) \<subseteq> insert CHR ''-'' (\<Union>s\<in>set ss. set s)"
  by (induction ss rule: join_dash.induct) auto

lemma join_dash_hd: "ss \<noteq> [] \<Longrightarrow> hd ss \<noteq> [] \<Longrightarrow> join_dash ss \<noteq> [] \<and> hd (join_dash ss) = hd (hd ss)"
  by (induction ss rule: join_dash.induct) auto

lemma slug_chars: "list_all slug_char (slug title)"
proof -
  let ?m = "map (\<lambda>c. let l = to_ascii_lowercase c in if is_ascii_alphanumeric l then l else CHR ''-'')
    (filter (\<lambda>c. \<not> is_cont c) title)"
  have "slug_char CHR ''-''" by (simp add: slug_char_def)
  moreover have "list_all slug_char ?m"
    using lowercase_slug by (auto simp: list_all_iff Let_def slug_char_def)
  ultimately show ?thesis
    using join_dash_chars split_on_parts[where sep = "CHR ''-''" and t = ?m]
    unfolding slug_def list_all_iff by (fastforce simp: filter_set)
qed

lemma slug_head:
  assumes "slug title \<noteq> []"
  shows "hd (slug title) \<noteq> CHR ''-''"
proof -
  let ?m = "map (\<lambda>c. let l = to_ascii_lowercase c in if is_ascii_alphanumeric l then l else CHR ''-'')
    (filter (\<lambda>c. \<not> is_cont c) title)"
  let ?ps = "filter (\<lambda>s. s \<noteq> []) (split_on CHR ''-'' ?m)"
  have "?ps \<noteq> []" using assms by (auto simp: slug_def)
  then have "hd ?ps \<in> set ?ps" by (rule hd_in_set)
  then have h: "hd ?ps \<noteq> []" "hd ?ps \<in> set (split_on CHR ''-'' ?m)" unfolding set_filter by blast+
  then have "hd (hd ?ps) \<noteq> CHR ''-''" using split_on_parts[OF h(2)] hd_in_set[OF h(1)] by metis
  then show ?thesis using join_dash_hd[OF \<open>?ps \<noteq> []\<close> h(1)] by (simp add: slug_def)
qed

text \<open>C37: the branch name of a worker fits. For any kind that can be created and any title, of any length
  and in any script, the name is at most 50 bytes, starts with \<open>wt/\<close> and the last ten characters of
  the run id, continues with a slug of lower-case letters, digits and hyphens that is not empty and
  neither starts nor ends with a hyphen; so runs whose ids differ there get different names.\<close>

theorem branch_name_bounds:
  assumes "RunId_parse_str (run_id_str rid) = Inr rid"
  shows "\<exists>sl. derive_branch_name kind rid title = ''wt/'' @ drop 16 (run_id_str rid) @ ''-'' @ sl \<and>
    length (derive_branch_name kind rid title) \<le> 50 \<and> sl \<noteq> [] \<and> list_all slug_char sl \<and>
    hd sl \<noteq> CHR ''-'' \<and> last sl \<noteq> CHR ''-''"
proof -
  have len: "length (run_id_str rid) = 26"
    using assms by (auto simp: RunId_parse_str_def RunId_LEN_def split: if_splits)
  define full where "full = (if slug title = [] then wire_name kind else slug title)"
  have f: "full \<noteq> []" "hd full \<noteq> CHR ''-''" "list_all slug_char full"
    using slug_head slug_chars[of title]
    by (auto simp: full_def wire_name_def slug_char_def is_ascii_lowercase_def less_eq_char_def split: kind.split)
  define sl where "sl = rev (dropWhile (\<lambda>c. c = CHR ''-'') (rev (take 36 full)))"
  have t: "take 36 full = hd full # take 35 (tl full)" using f(1) by (cases full) simp_all
  have mem: "hd full \<in> set (take 36 full)" by (simp add: t)
  have ne: "sl \<noteq> []" using f(2) mem by (auto simp: sl_def)
  obtain b where b: "take 36 full = sl @ b"
    using takeWhile_dropWhile_id[of "\<lambda>c. c = CHR ''-''" "rev (take 36 full)"]
    by (metis sl_def rev_append rev_rev_ident)
  have "hd sl = hd full" using ne b t by (metis hd_append2 list.sel(1))
  moreover have "last sl \<noteq> CHR ''-''"
    using ne hd_dropWhile[of "\<lambda>c. c = CHR ''-''" "rev (take 36 full)"] by (simp add: sl_def last_rev)
  moreover have "list_all slug_char sl"
    using f(3) b set_take_subset[of 36 full] by (auto simp: list_all_iff)
  moreover have "length sl \<le> 36" using b by (metis length_append length_take le_add1 min.cobounded2 order_trans)
  moreover have "derive_branch_name kind rid title = ''wt/'' @ drop 16 (run_id_str rid) @ ''-'' @ sl"
    using len by (simp add: derive_branch_name_def Let_def RunId_LEN_def BRANCH_DISPLAY_ID_CHARS_def
        MAX_WORKMUX_WINDOW_NAME_BYTES_def full_def sl_def)
  ultimately show ?thesis using ne f(2) len by (intro exI[of _ sl]) simp
qed

section \<open>One creator per key\<close>

text \<open>The key holds a record of run \<open>a\<close> that names \<open>creator\<close>.\<close>

definition held_by :: "ext \<Rightarrow> string \<Rightarrow> string \<Rightarrow> creator_lease \<Rightarrow> 'w root \<Rightarrow> bool" where
  "held_by X p a creator s \<longleftrightarrow> (\<exists>r. read_record X p (rt_idem s) = Inr (Some r) \<and> rv_run_id r = a \<and> rv_creator r = Some creator)"

definition lease_held :: "'w create_env \<Rightarrow> string \<Rightarrow> 'w root \<Rightarrow> bool" where
  "lease_held E path s \<longleftrightarrow> ce_lease E (rt_world s) path = Some WouldBlock"

lemma held_reserve:
  assumes "held_by X p a creator s"
  obtains r where "reserve_step X p q s = (Inr (Some r), s)" "rv_run_id r = a" "rv_creator r = Some creator"
  using assms that by (auto simp: held_by_def reserve_step_def with_idem_def reserve_in_def still_observed_def)

lemma live_creator_classified:
  assumes "rv_creator r = Some creator" and "cl_materializer_lease_path creator = Some path" and "lease_held E path s"
  shows "classify_existing_reservation E s r \<in> {Inr CreatorLive} \<union> range (\<lambda>rid. Inr (RunPublished rid)) \<union> range Inl"
  using assms
  by (cases "parse_run_id (rv_run_id r)")
    (auto simp: classify_existing_reservation_def lease_held_def materializer_liveness_def)

text \<open>The claim of a creator: its record holds the key and its lease is locked.\<close>

definition claim :: "ext \<Rightarrow> 'w create_env \<Rightarrow> string \<Rightarrow> string \<Rightarrow> creator_lease \<Rightarrow> 'w root \<Rightarrow> bool" where
  "claim X E p a creator s \<longleftrightarrow> held_by X p a creator s \<and>
     (\<exists>path. cl_materializer_lease_path creator = Some path \<and> lease_held E path s)"

definition keeps_claim :: "ext \<Rightarrow> 'w create_env \<Rightarrow> string \<Rightarrow> string \<Rightarrow> creator_lease \<Rightarrow> (nat \<Rightarrow> 'w root \<Rightarrow> 'w root) \<Rightarrow> bool" where
  "keeps_claim X E p a creator gap \<longleftrightarrow> (\<forall>i s. claim X E p a creator s \<longrightarrow> claim X E p a creator (gap i s))"

definition of_creator :: "string \<Rightarrow> creator_lease \<Rightarrow> reservation_record \<Rightarrow> bool" where
  "of_creator a creator r \<longleftrightarrow> rv_run_id r = a \<and> rv_creator r = Some creator"

lemma claim_classified:
  assumes "claim X E p a creator s" and "of_creator a creator r"
  obtains "classify_existing_reservation E s r = Inr CreatorLive"
    | rid where "classify_existing_reservation E s r = Inr (RunPublished rid)"
    | e where "classify_existing_reservation E s r = Inl e"
  using live_creator_classified[of r creator _ E s] assms by (auto simp: claim_def of_creator_def)

lemma wait_keeps_claim:
  assumes gap: "keeps_claim X E p a creator gap" and "claim X E p a creator s"
    and "wait_creator X E gap p q k s = (r, s')"
  shows "claim X E p a creator s' \<and> ((\<exists>e. r = Inl e) \<or> (\<exists>c. r = Inr (Some c) \<and> of_creator a creator c))"
  using assms(2,3)
proof (induction k arbitrary: s)
  case (Suc k)
  let ?s = "gap 0 s"
  have i0: "claim X E p a creator ?s" and i2: "claim X E p a creator (gap 2 ?s)"
    using Suc.prems(1) gap by (simp_all add: keeps_claim_def)
  from i0 obtain c where c: "lookup_key X p (rt_idem ?s) = Inr (Some c)" "of_creator a creator c"
    by (auto simp: claim_def held_by_def lookup_key_def of_creator_def)
  show ?case
  proof (rule claim_classified[OF i2 c(2)])
    assume "classify_existing_reservation E (gap 2 ?s) c = Inr CreatorLive"
    then show ?thesis using Suc.IH[OF i2] Suc.prems(2) c by (simp add: Let_def)
  qed (use Suc.prems(2) c i2 in \<open>auto simp: Let_def\<close>)
qed auto

text \<open>Appending to a parent's log and replaying leave the reservations and the world as they are.\<close>

lemma edge_keeps:
  "rt_idem (snd (append_edge X clock pr pn ch k t s)) = rt_idem s" "rt_world (snd (append_edge X clock pr pn ch k t s)) = rt_world s"
  by (simp_all add: append_edge_def split: prod.split)

lemma claim_cong:
  "rt_idem s' = rt_idem s \<Longrightarrow> rt_world s' = rt_world s \<Longrightarrow> claim X E p a creator s' = claim X E p a creator s"
  by (simp add: claim_def held_by_def lease_held_def)

lemma replay_keeps_claim:
  assumes gap: "keeps_claim X E p a creator gap" and "claim X E p a creator s"
    and "replay_published X clock gap rid s = (r, s')"
  shows "claim X E p a creator s' \<and> ((\<exists>e. r = Inl e) \<or> (\<exists>i m. r = Inr (Replay i m)))"
proof -
  have g: "claim X E p a creator (gap i t)" if "claim X E p a creator t" for i t
    using gap that by (simp add: keeps_claim_def)
  have e: "claim X E p a creator (snd (append_edge X clock pr pn ch k t u))" if "claim X E p a creator u" for pr pn ch k t u
    using claim_cong[OF edge_keeps] that by blast
  have "claim X E p a creator (snd (repair_parent_child_publication X clock gap rid s))"
    using assms(2) by (auto simp: repair_parent_child_publication_def Let_def g e split: sum.split option.split)
  then show ?thesis using assms(3)
    by (auto simp: replay_published_def g split: prod.splits sum.splits if_splits)
qed

lemma loop_keeps_claim:
  assumes gap: "keeps_claim X E p a creator gap" and "claim X E p a creator s" and "of_creator a creator ex"
    and "acquire_loop X clock E gap p q k (Some ex) s = (r, s')"
  shows "claim X E p a creator s' \<and> (\<forall>stale. r \<noteq> Inr (Won stale))"
  using assms(2-4)
proof (induction k arbitrary: s ex)
  case (Suc k)
  let ?s = "gap 3 s"
  have i: "claim X E p a creator ?s" using Suc.prems(1) gap by (simp add: keeps_claim_def)
  show ?case
  proof (cases "rv_caller_plan ex = None")
    case True
    note step = Suc.prems(3)[simplified, unfolded Let_def, simplified True, simplified]
    show ?thesis
    proof (rule claim_classified[OF i Suc.prems(2)])
      assume live: "classify_existing_reservation E ?s ex = Inr CreatorLive"
      obtain o' s1 where w: "wait_creator X E gap p q (ce_polls E) ?s = (o', s1)" by fastforce
      note kept = wait_keeps_claim[OF gap i w]
      from kept show ?thesis
      proof (cases o')
        case (Inr oo)
        then obtain c where "oo = Some c" "of_creator a creator c" using kept by auto
        then show ?thesis using Suc.IH[of s1 c] kept step live w Inr by simp
      qed (use step live w kept in auto)
    next
      fix rid assume "classify_existing_reservation E ?s ex = Inr (RunPublished rid)"
      then show ?thesis using step replay_keeps_claim[OF gap i] by fastforce
    qed (use step i in auto)
  next
    case False
    then show ?thesis using Suc.prems by auto
  qed
qed auto

text \<open>C9: while the creator of a reserved run lives, nobody else creates under its key. As long as the
  record of the winner stays in place and its lease is locked, whatever else the other processes do
  between the steps, another caller with the same key never wins it: it replays the winner's run
  once that is public, or is refused, and the winner's reservation is untouched.\<close>

theorem live_creator_excludes_others:
  assumes "keeps_claim X E p a creator gap" and "claim X E p a creator s"
    and "acquire_key X clock E gap p rid s = (r, s')"
  shows "claim X E p a creator s' \<and> ((\<exists>e. r = Inl e) \<or> (\<exists>i m. r = Inr (Replay i m)))"
proof -
  let ?q = "ReservationRecord_new (run_id_str rid) (ce_creator E)"
  have g: "claim X E p a creator (gap 6 s)" using assms(1,2) by (simp add: keeps_claim_def)
  then obtain c where c: "reserve_step X p ?q (gap 6 s) = (Inr (Some c), gap 6 s)" "of_creator a creator c"
    using held_reserve[of X p a creator "gap 6 s" ?q] by (auto simp: claim_def of_creator_def)
  then have l: "acquire_loop X clock E gap p ?q 8 (Some c) (gap 6 s) = (r, s')"
    using assms(3) by (simp add: acquire_key_def Let_def)
  have "claim X E p a creator s'" "\<forall>stale. r \<noteq> Inr (Won stale)" using loop_keeps_claim[OF assms(1) g c(2) l] by auto
  moreover have "(\<exists>e. r = Inl e) \<or> (\<exists>stale. r = Inr (Won stale)) \<or> (\<exists>i m. r = Inr (Replay i m))"
    by (metis acquired.exhaust sum.exhaust)
  ultimately show ?thesis by blast
qed

section \<open>Staged runs\<close>

lemma event_accepted:
  assumes "append_and_apply_event X clock rid kind nid None data d = (Inr a, d')"
  obtains s d0 ops where "reduce_event_to_ops X rid d0 (new_event clock rid kind nid None data s) = Inr ops"
    "d' = recorded_state X rid (new_event clock rid kind nid None data s) ops d0"
  using assms
  by (auto simp: append_and_apply_event_def append_and_apply_reporting_def bind_io_def reading_def updating_def
      ret_def Let_def recorded_state_def folded_state_def logged_state_def new_event_def
      split: prod.splits sum.splits)

text \<open>What an accepted plan wrote, or found written, reads back from the recorded state.\<close>

lemma recorded_reads:
  assumes r: "reduce_event_to_ops X rid d ev = Inr ops"
  shows "OpManifest m \<in> set ops \<Longrightarrow> \<exists>m'. read_manifest_opt rid (recorded_state X rid ev ops d) = Inr (Some m')"
    and "OpNode n \<in> set ops \<Longrightarrow> \<exists>n'. read_node_opt rid (recorded_state X rid ev ops d) (n_node_id n) = Inr (Some n')"
    and "read_manifest_opt rid d = Inr (Some m) \<Longrightarrow> \<exists>m'. read_manifest_opt rid (recorded_state X rid ev ops d) = Inr (Some m')"
    and "read_node_opt rid d nid = Inr (Some n) \<Longrightarrow> \<exists>n'. read_node_opt rid (recorded_state X rid ev ops d) nid = Inr (Some n')"
proof -
  have st: "run_steps X rid (folded_state X rid ev ops d) (recorded_state X rid ev ops d)"
    using steps_advance[of X rid "ev_seq ev"] by (simp add: steps_io_def recorded_state_def)
  have keep_m: "\<exists>m'. read_manifest_opt rid (recorded_state X rid ev ops d) = Inr (Some m')"
    if "read_manifest_opt rid (folded_state X rid ev ops d) = Inr (Some m0)" for m0
    using manifest_history.history[OF st] that by auto
  have keep_n: "\<exists>n'. read_node_opt rid (recorded_state X rid ev ops d) i = Inr (Some n')"
    if "read_node_opt rid (folded_state X rid ev ops d) i = Inr (Some n0)" for i n0
    using node_history.history[OF st] that by auto
  obtain d1 where d1: "commit_ops rid ops d = (Inr (), d1)" "list_all (\<lambda>oper. reads_back rid oper d1) ops"
    "\<And>p. p \<notin> set (map op_path ops) \<Longrightarrow> same_at rid p d d1" using reducer.commit_plan[OF r] by blast
  have f: "read_manifest_opt rid (folded_state X rid ev ops d) = read_manifest_opt rid d1"
    "read_node_opt rid (folded_state X rid ev ops d) i = read_node_opt rid d1 i" for i
    using folded_ok(3)[OF r] d1(1) by (simp_all add: log_reads)
  show om: "OpManifest m \<in> set ops \<Longrightarrow> \<exists>m'. read_manifest_opt rid (recorded_state X rid ev ops d) = Inr (Some m')" for m
    using d1(2) keep_m f(1) by (fastforce simp: list_all_iff reads_back_def)
  show on: "OpNode n \<in> set ops \<Longrightarrow> \<exists>n'. read_node_opt rid (recorded_state X rid ev ops d) (n_node_id n) = Inr (Some n')" for n
    using d1(2) keep_n f(2) by (fastforce simp: list_all_iff reads_back_def)
  show "\<exists>m'. read_manifest_opt rid (recorded_state X rid ev ops d) = Inr (Some m')"
    if "read_manifest_opt rid d = Inr (Some m)"
  proof (cases "ManifestPath \<in> set (map op_path ops)")
    case True
    then obtain m0 where "OpManifest m0 \<in> set ops" by (auto simp: op_path_def split: projection_op.splits)
    then show ?thesis by (rule om)
  next
    case False
    then show ?thesis using d1(3)[OF False] that keep_m f(1) by (simp add: same_at_def)
  qed
  show "\<exists>n'. read_node_opt rid (recorded_state X rid ev ops d) nid = Inr (Some n')"
    if "read_node_opt rid d nid = Inr (Some n)"
  proof (cases "NodePath nid \<in> set (map op_path ops)")
    case True
    then obtain n0 where "OpNode n0 \<in> set ops" "n_node_id n0 = nid" by (auto simp: op_path_def split: projection_op.splits)
    then show ?thesis using on by blast
  next
    case False
    then show ?thesis using d1(3)[OF False] that keep_n f(2) by (simp add: same_at_def)
  qed
qed

lemma run_created_leaves_manifest:
  assumes "append_and_apply_event X clock rid ''run.created'' None None data d = (Inr a, d')"
  shows "\<exists>m. read_manifest_opt rid d' = Inr (Some m)"
proof -
  obtain s d0 ops where r: "reduce_event_to_ops X rid d0 (new_event clock rid ''run.created'' None None data s) = Inr ops"
    "d' = recorded_state X rid (new_event clock rid ''run.created'' None None data s) ops d0"
    by (rule event_accepted[OF assms])
  then have "reduce_run_created X rid d0 (new_event clock rid ''run.created'' None None data s) = Inr ops"
    by (simp add: reduce_event_to_ops_def reducers_def new_event_def)
  then have "(\<exists>m. OpManifest m \<in> set ops) \<or> (\<exists>m. read_manifest_opt rid d0 = Inr (Some m))"
    by (auto simp: reduce_run_created_def res_simps Let_def split: option.splits)
  then show ?thesis using recorded_reads(1,3)[OF r(1)] r(2) by blast
qed

lemma node_created_plan:
  assumes "reduce_node_created X rid d ev = Inr ops" and "ev_node_id ev = Some nid"
  shows "(\<exists>n. OpNode n \<in> set ops \<and> n_node_id n = nid) \<or> (\<exists>n. read_node_opt rid d nid = Inr (Some n))"
proof (cases "read_node_opt rid d nid")
  case (Inr no)
  show ?thesis
  proof (cases no)
    case None
    then have "read_node_opt rid d nid = Inr None" using Inr by simp
    with assms obtain n mo where "fresh_node ev rid nid n"
      and "ops = (case mo of None \<Rightarrow> [OpNode n] | Some m \<Rightarrow>
        [OpNode n, OpManifest ((if node_id_str nid = ''n-0001'' \<and> m_source_branch m = None
           then m\<lparr>m_source_branch := nonempty_str (ev_data ev) ''source_branch''\<rparr> else m)
             \<lparr>m_updated_at := ev_ts ev\<rparr>)])"
      by (blast elim: reduce_node_created_fresh)
    then show ?thesis by (cases mo) (auto simp: fresh_node_def node_valid_def)
  qed (use Inr in auto)
qed (use assms in \<open>simp add: reduce_node_created_def require_envelope_node_id_def ok_or_def\<close>)

lemma node_created_leaves_node:
  assumes "append_and_apply_event X clock rid ''node.created'' (Some nid) None data d = (Inr a, d')"
  shows "\<exists>n. read_node_opt rid d' nid = Inr (Some n)"
proof -
  obtain s d0 ops where r: "reduce_event_to_ops X rid d0 (new_event clock rid ''node.created'' (Some nid) None data s) = Inr ops"
    "d' = recorded_state X rid (new_event clock rid ''node.created'' (Some nid) None data s) ops d0"
    by (rule event_accepted[OF assms])
  then have "reduce_node_created X rid d0 (new_event clock rid ''node.created'' (Some nid) None data s) = Inr ops"
    by (simp add: reduce_event_to_ops_def reducers_def new_event_def)
  then have "(\<exists>n. OpNode n \<in> set ops \<and> n_node_id n = nid) \<or> (\<exists>n. read_node_opt rid d0 nid = Inr (Some n))"
    using node_created_plan by (simp add: new_event_def)
  then show ?thesis using recorded_reads(2,4)[OF r(1)] r(2) by blast
qed

section \<open>Publication\<close>

definition whole :: "run_id \<Rightarrow> bool \<Rightarrow> run_dir \<Rightarrow> bool" where
  "whole rid skeleton d \<longleftrightarrow> (\<exists>m. read_manifest_opt rid d = Inr (Some m)) \<and>
     (skeleton \<or> (\<exists>n. read_node_opt rid d root_node = Inr (Some n)))"

lemma whole_later: "run_steps X rid d d' \<Longrightarrow> whole rid sk d \<Longrightarrow> whole rid sk d'"
  using manifest_history.history[of X rid d d'] node_history.history[of X rid d d' root_node]
  unfolding whole_def look_manifest_Some look_node_Some by blast

text \<open>What the other processes do to a run whose id they do not know before it is public, and write
  through the write paths afterwards.\<close>

definition gap_fresh :: "ext \<Rightarrow> run_id \<Rightarrow> (nat \<Rightarrow> 'w root \<Rightarrow> 'w root) \<Rightarrow> bool" where
  "gap_fresh X rid gap \<longleftrightarrow> (\<forall>i s. rt_staging (gap i s) (run_id_str rid) = rt_staging s (run_id_str rid) \<and>
     (case rt_runs s (run_id_str rid) of
        None \<Rightarrow> rt_runs (gap i s) (run_id_str rid) = None
      | Some d \<Rightarrow> \<exists>d'. rt_runs (gap i s) (run_id_str rid) = Some d' \<and> run_steps X rid d d'))"

text \<open>Not public, or public and whole.\<close>

definition public_ok :: "new_run \<Rightarrow> bool \<Rightarrow> 'w root \<Rightarrow> bool" where
  "public_ok n public s \<longleftrightarrow> (case rt_runs s (run_id_str (nr_run_id n)) of
       None \<Rightarrow> \<not> public | Some d \<Rightarrow> public \<and> whole (nr_run_id n) (nr_skip_materialize n) d)"

lemma gap_public_ok: "gap_fresh X (nr_run_id n) gap \<Longrightarrow> public_ok n b s \<Longrightarrow> public_ok n b (gap i s)"
  unfolding gap_fresh_def public_ok_def
  by (drule spec[of _ i], drule spec[of _ s]) (auto split: option.splits dest: whole_later)

lemma stage_append_runs:
  "rt_runs (snd (stage_append X clock rid k nid data s)) = rt_runs s"
  "rt_idem (snd (stage_append X clock rid k nid data s)) = rt_idem s"
  by (simp_all add: stage_append_def split: prod.split)

lemma stage_append_later:
  assumes "stage_append X clock rid k nid data s = (Inr u, s')"
  obtains d d' a where "rt_staging s' (run_id_str rid) = Some d'" "d = unwrap_or empty_dir (rt_staging s (run_id_str rid))"
    "append_and_apply_event X clock rid k nid None data d = (Inr a, d')" "run_steps X rid d d'"
proof -
  let ?d = "unwrap_or empty_dir (rt_staging s (run_id_str rid))"
  obtain a d' where a: "append_and_apply_event X clock rid k nid None data ?d = (Inr a, d')"
    "rt_staging s' (run_id_str rid) = Some d'"
    using assms by (auto simp: stage_append_def split: prod.splits sum.splits)
  have "run_steps X rid ?d (snd (append_and_apply_event X clock rid k nid None data ?d))"
    using steps_append_event[of X rid clock k nid None data] by (simp add: steps_io_def)
  then show ?thesis using that a by simp
qed

lemma publish_runs:
  assumes "publish_staging_run rid s = (r, s')"
  shows "rt_idem s' = rt_idem s"
    and "r = Inl e \<Longrightarrow> rt_runs s' = rt_runs s"
    and "r = Inr u \<Longrightarrow> \<exists>d. rt_staging s (run_id_str rid) = Some d \<and> rt_runs s' = (rt_runs s)(run_id_str rid \<mapsto> d)"
  using assms by (auto simp: publish_staging_run_def split: option.splits if_splits)

lemma cleanup_runs [simp]:
  "rt_runs (cleanup_orphan_child E rid s) = rt_runs s" "rt_idem (cleanup_orphan_child E rid s) = rt_idem s"
  by (simp_all add: cleanup_orphan_child_def remove_staging_def)

definition outcome_ok :: "new_run \<Rightarrow> unit cli \<Rightarrow> 'w root \<Rightarrow> 'w root \<Rightarrow> bool" where
  "outcome_ok n r s s' \<longleftrightarrow> rt_idem s' = rt_idem s \<and> public_ok n (\<exists>u. r = Inr u) s'"

lemma outcome_fails: "public_ok n False s \<Longrightarrow> rt_runs s' = rt_runs s \<Longrightarrow> rt_idem s' = rt_idem s \<Longrightarrow> outcome_ok n (Inl e) s s'"
  by (simp add: outcome_ok_def public_ok_def split: option.splits)

lemma staged_node_whole:
  assumes "\<exists>d m. rt_staging s (run_id_str rid) = Some d \<and> read_manifest_opt rid d = Inr (Some m)"
    and "stage_append X clock rid ''node.created'' (Some root_node) data s = (Inr u, s')"
  shows "\<exists>d. rt_staging s' (run_id_str rid) = Some d \<and> whole rid False d"
proof -
  obtain d d' a where d: "rt_staging s' (run_id_str rid) = Some d'" "d = unwrap_or empty_dir (rt_staging s (run_id_str rid))"
    "append_and_apply_event X clock rid ''node.created'' (Some root_node) None data d = (Inr a, d')"
    "run_steps X rid d d'" by (rule stage_append_later[OF assms(2)])
  have "whole rid True d" using assms(1) d(2) by (auto simp: whole_def unwrap_or_def)
  then have "whole rid True d'" by (rule whole_later[OF d(4)])
  then show ?thesis using node_created_leaves_node[OF d(3)] d(1) by (simp add: whole_def)
qed

lemma publish_outcome:
  assumes "public_ok n False s" and "\<exists>d. rt_staging s (run_id_str (nr_run_id n)) = Some d \<and> whole (nr_run_id n) (nr_skip_materialize n) d"
    and "publish_staging_run (nr_run_id n) s = (r, s')"
  shows "outcome_ok n r s s'"
proof (cases r)
  case (Inl e)
  then show ?thesis using outcome_fails[OF assms(1)] publish_runs(1,2)[OF assms(3)] by simp
next
  case (Inr u)
  then show ?thesis using assms(2) publish_runs(1)[OF assms(3)] publish_runs(3)[OF assms(3) Inr]
    by (auto simp: outcome_ok_def public_ok_def)
qed

lemma outcome_trans:
  "outcome_ok n r s1 s' \<Longrightarrow> rt_idem s1 = rt_idem s \<Longrightarrow> outcome_ok n r s s'"
  by (simp add: outcome_ok_def)

lemma materialize_outcome:
  assumes ok: "public_ok n False s" and sk: "\<not> nr_skip_materialize n"
    and m: "\<exists>d m. rt_staging s (run_id_str (nr_run_id n)) = Some d \<and> read_manifest_opt (nr_run_id n) d = Inr (Some m)"
    and run: "materialize_and_publish X clock E n s = (r, s')"
  shows "outcome_ok n r s s'"
proof -
  note fails = outcome_fails[OF ok]
  obtain mr w where mr: "ce_materialize E (derive_branch_name (nr_kind n) (nr_run_id n) (nr_title n)) (rt_world s) = (mr, w)"
    by fastforce
  show ?thesis
  proof (cases "(\<exists>e. ce_write_launcher E = Inl e) \<or> (\<exists>e. mr = Inl e) \<or> (\<exists>out e. mr = Inr out \<and> ce_verify_agent_pid E out w = Inl e)")
    case True
    then show ?thesis using run mr ok
      by (auto simp: materialize_and_publish_def Let_def dest!: sym[of "Inl _"] intro!: outcome_fails split: sum.splits)
  next
    case False
    then obtain u out v where ext: "ce_write_launcher E = Inr u" "mr = Inr out" "ce_verify_agent_pid E out w = Inr v"
      by (metis sum.exhaust)
    let ?data = "node_data X E n out (capture_base_sha (ce_host E) w (so_worktree_path out))
      (case nr_source_branch n of Some b \<Rightarrow> Some b
       | None \<Rightarrow> capture_materialized_source_branch (ce_host E) w (so_worktree_path out) (so_branch out))"
    obtain q s1 where q: "stage_append X clock (nr_run_id n) ''node.created'' (Some root_node) ?data (s\<lparr>rt_world := w\<rparr>) = (q, s1)"
      by fastforce
    have s1: "rt_runs s1 = rt_runs s" "rt_idem s1 = rt_idem s"
      using stage_append_runs[of X clock "nr_run_id n" "''node.created''" "Some root_node" ?data "s\<lparr>rt_world := w\<rparr>"] q by simp_all
    obtain pr s2 where pr: "publish_staging_run (nr_run_id n) s1 = (pr, s2)" by fastforce
    note step = run[unfolded materialize_and_publish_def Let_def mr ext(1,2), simplified, unfolded q ext(3), simplified, unfolded pr, simplified]
    show ?thesis
    proof (cases q)
      case (Inl e)
      then show ?thesis using step s1 by (auto intro!: fails)
    next
      case (Inr u)
      have "public_ok n False s1" using ok s1 by (simp add: public_ok_def)
      moreover have "\<exists>d. rt_staging s1 (run_id_str (nr_run_id n)) = Some d \<and> whole (nr_run_id n) (nr_skip_materialize n) d"
        using staged_node_whole[OF _ q[unfolded Inr]] m sk by simp
      ultimately have o: "outcome_ok n pr s1 s2" using pr by (rule publish_outcome)
      show ?thesis
      proof (cases pr)
        case (Inl e)
        then show ?thesis using step \<open>q = Inr u\<close> s1 publish_runs(1,2)[OF pr] by (auto intro!: fails)
      next
        case (Inr v)
        then have "r = pr" "s' = s2" using step \<open>q = Inr u\<close> by simp_all
        then show ?thesis using outcome_trans[OF o s1(2)] by simp
      qed
    qed
  qed
qed

lemma build_outcome:
  assumes ok: "public_ok n False s" and run: "build_run X clock E n s = (r, s')"
  shows "outcome_ok n r s s'"
proof -
  let ?id = "run_id_str (nr_run_id n)"
  define s0 where "s0 = s\<lparr>rt_staging := (rt_staging s)(?id \<mapsto> unwrap_or empty_dir (rt_staging s ?id))\<rparr>"
  note fails = outcome_fails[OF ok]
  obtain q s1 where q: "stage_append X clock (nr_run_id n) ''run.created'' None (created_data n) s0 = (q, s1)" by fastforce
  have s1: "rt_runs s1 = rt_runs s" "rt_idem s1 = rt_idem s"
    using stage_append_runs[of X clock "nr_run_id n" "''run.created''" None "created_data n" s0] q by (simp_all add: s0_def)
  note step = run[unfolded build_run_def Let_def, folded s0_def, unfolded q]
  show ?thesis
  proof (cases "(\<exists>e. (if nr_skip_materialize n then Inr () else ce_write_prompt E) = Inl e) \<or> (\<exists>e. q = Inl e)")
    case True
    then show ?thesis using step s1 by (auto simp: s0_def intro!: fails split: sum.splits if_splits)
  next
    case False
    then obtain u v where uv: "(if nr_skip_materialize n then Inr () else ce_write_prompt E) = Inr u" "q = Inr v"
      by (metis sum.exhaust)
    have s1': "public_ok n False s1" using ok s1 by (simp add: public_ok_def)
    obtain d d' a where d: "rt_staging s1 ?id = Some d'"
      "append_and_apply_event X clock (nr_run_id n) ''run.created'' None None (created_data n) d = (Inr a, d')"
      by (rule stage_append_later[OF q[unfolded uv]])
    have m: "\<exists>m. read_manifest_opt (nr_run_id n) d' = Inr (Some m)" by (rule run_created_leaves_manifest[OF d(2)])
    have "outcome_ok n r s1 s'"
    proof (cases "nr_skip_materialize n")
      case True
      then show ?thesis using publish_outcome[OF s1'] d(1) m step uv by (simp add: whole_def)
    next
      case False
      then show ?thesis using materialize_outcome[OF s1' False] d(1) m step uv by simp
    qed
    then show ?thesis by (rule outcome_trans) (rule s1(2))
  qed
qed

lemma remove_stale_keeps:
  "rt_runs (snd (remove_stale E stale s)) = rt_runs s" "rt_idem (snd (remove_stale E stale s)) = rt_idem s"
  by (induction stale arbitrary: s) (simp_all add: remove_staging_def split: sum.split)

lemma with_idem_runs: "rt_runs (snd (with_idem f s)) = rt_runs s"
  by (simp add: with_idem_def split: prod.split)

lemma public_ok_cong: "rt_runs s' = rt_runs s \<Longrightarrow> public_ok n b s' = public_ok n b s"
  by (simp add: public_ok_def)

text \<open>The key while the run is prepared: as it was, apart from what happens in a gap and from a cleanup
  of inherited obligations.\<close>

lemma prepare_outcome:
  assumes ok: "public_ok n False s" and gap: "gap_fresh X (nr_run_id n) gap"
    and run: "prepare_run X clock E gap n p stale s = ((preserve, r), s')"
  shows "public_ok n (\<exists>u. r = Inr u) s'"
    and "stale = [] \<Longrightarrow> rt_idem s' = rt_idem s \<and> \<not> preserve"
    and "r = Inr u \<Longrightarrow> case nr_parent n of None \<Rightarrow> True | Some (parent, _) \<Rightarrow> parent \<noteq> nr_run_id n"
proof -
  obtain a s1 where a: "remove_stale E stale s = (a, s1)" by fastforce
  then have k1: "rt_runs s1 = rt_runs s" "rt_idem s1 = rt_idem s" using remove_stale_keeps[of E stale s] by simp_all
  have ok1: "public_ok n False s1" using ok k1(1) public_ok_cong by blast
  obtain b s2 where b: "(if stale = [] then (Inr (), s1)
      else with_idem (finish_stale_cleanup X p (run_id_str (nr_run_id n))) (gap 7 s1)) = (b, s2)" by fastforce
  have ok2: "public_ok n False s2"
  proof (cases "stale = []")
    case False
    then have "rt_runs s2 = rt_runs (gap 7 s1)"
      using b with_idem_runs[of "finish_stale_cleanup X p (run_id_str (nr_run_id n))" "gap 7 s1"] by simp
    then show ?thesis using gap_public_ok[OF gap ok1] public_ok_cong by blast
  qed (use b ok1 in simp)
  obtain c s3 where c: "build_run X clock E n s2 = (c, s3)" by fastforce
  note built = build_outcome[OF ok2 c]
  note step = run[unfolded prepare_run_def a, simplified, unfolded b c, simplified]
  show "public_ok n (\<exists>u. r = Inr u) s'"
    using step ok1 ok2 built by (auto simp: outcome_ok_def c split: sum.splits if_splits)
  show "stale = [] \<Longrightarrow> rt_idem s' = rt_idem s \<and> \<not> preserve"
    using step b k1(2) built by (auto simp: outcome_ok_def c split: sum.splits if_splits)
  show "r = Inr u \<Longrightarrow> case nr_parent n of None \<Rightarrow> True | Some (parent, _) \<Rightarrow> parent \<noteq> nr_run_id n"
    using step ok2 by (auto simp: public_ok_def has_manifest_def split: sum.splits if_splits option.splits)
qed

lemma announce_outcome:
  assumes ok: "public_ok n True s" and gap: "gap_fresh X (nr_run_id n) gap"
    and par: "case nr_parent n of None \<Rightarrow> True | Some (parent, _) \<Rightarrow> run_id_str parent \<noteq> run_id_str (nr_run_id n)"
    and run: "announce X clock E gap n s = (r, s')"
  shows "public_ok n True s'"
proof -
  have g: "public_ok n True (gap 9 s)" by (rule gap_public_ok[OF gap ok])
  have e: "public_ok n True (snd (append_edge X clock parent pn ch k t (gap 9 s)))"
    if "nr_parent n = Some (parent, pn)" for parent pn ch k t
    using g par that by (simp add: append_edge_def public_ok_def split: prod.split)
  have w: "public_ok n True (t\<lparr>rt_world := w\<rparr>) = public_ok n True t" for t :: "'a root" and w
    by (simp add: public_ok_def)
  show ?thesis
  proof (cases "nr_parent n")
    case None
    then show ?thesis using run ok by (auto simp: announce_def Let_def w split: if_splits prod.splits sum.splits)
  next
    case (Some pp)
    obtain parent pn where pp: "pp = (parent, pn)" by (cases pp)
    have "s' = snd (append_edge X clock parent pn (run_id_str (nr_run_id n)) (nr_kind n) (nr_title n) (gap 9 s))"
      using run Some pp by (auto simp: announce_def Let_def split: prod.splits sum.splits)
    then show ?thesis using e Some pp by simp
  qed
qed

lemma gap_guard: "gap_fresh X (nr_run_id n) gap \<Longrightarrow> public_ok n b s \<Longrightarrow> public_ok n b (drop_guard X gap n p preserve s)"
  using gap_public_ok[of X n gap b s 8] by (simp add: drop_guard_def public_ok_cong[OF with_idem_runs])

lemma run_id_str_inj [simp]: "run_id_str a = run_id_str b \<longleftrightarrow> a = b"
  by (metis run_id.expand)

text \<open>C7: a run becomes visible whole or not at all. Whatever fails on the way, the prompt, the launcher,
  the worker, its identity check, an append, the rename, and whatever other processes do meanwhile,
  after a creation the new run either is not in the public tree, or it is there with its manifest
  and, unless it is a skeleton, with its worker node; and creation reports success only for a run
  that is there.\<close>

theorem created_run_is_whole:
  assumes "rt_runs s (run_id_str (nr_run_id n)) = None" and "gap_fresh X (nr_run_id n) gap"
    and "create_won X clock E gap n p stale s = (r, s')"
  shows "(\<forall>d. rt_runs s' (run_id_str (nr_run_id n)) = Some d \<longrightarrow>
        (\<exists>m. read_manifest_opt (nr_run_id n) d = Inr (Some m)) \<and>
        (\<not> nr_skip_materialize n \<longrightarrow> (\<exists>node. read_node_opt (nr_run_id n) d root_node = Inr (Some node)))) \<and>
    (\<forall>c. r = Inr c \<longrightarrow> (\<exists>d. rt_runs s' (run_id_str (nr_run_id n)) = Some d))"
proof -
  have ok: "public_ok n False s" using assms(1) by (simp add: public_ok_def)
  obtain preserve q s1 where p: "prepare_run X clock E gap n p stale s = ((preserve, q), s1)" by (metis surj_pair)
  note prep = prepare_outcome[OF ok assms(2) p]
  have "public_ok n (\<exists>u. q = Inr u) s' \<and> (\<forall>c. r = Inr c \<longrightarrow> (\<exists>u. q = Inr u))"
  proof (cases q)
    case (Inl e)
    then show ?thesis using assms(3) p prep(1) gap_guard[OF assms(2)] by (auto simp: create_won_def)
  next
    case (Inr u)
    then have "announce X clock E gap n s1 = (r, s')" using assms(3) p by (simp add: create_won_def)
    then show ?thesis using announce_outcome[OF _ assms(2)] prep(1) prep(3)[OF Inr] Inr
      by (auto split: option.splits)
  qed
  then show ?thesis by (auto simp: public_ok_def whole_def split: option.splits)
qed

definition keeps_key :: "ext \<Rightarrow> string \<Rightarrow> string \<Rightarrow> (nat \<Rightarrow> 'w root \<Rightarrow> 'w root) \<Rightarrow> bool" where
  "keeps_key X p a gap \<longleftrightarrow> (\<forall>i s. holds_key X p a (rt_idem s) \<longrightarrow> holds_key X p a (rt_idem (gap i s)))"

text \<open>Publication is the commit point of the key. A creator that won its key, and inherited no
  cleanup, leaves the key reserved for its run exactly when the run is public in the end: an error
  before that gives the key back, so that a retry starts afresh, and an error after it, in the
  parent's log or the supervisor's start, keeps it, so that a retry finds the run.\<close>

theorem creation_commits_key:
  assumes "ext_ok X" and "object_text X" and "p = key_hash repo branch key"
    and "nr_idempotency_key n = Some key" and "holds_key X p (run_id_str (nr_run_id n)) (rt_idem s)"
    and "keeps_key X p (run_id_str (nr_run_id n)) gap"
    and "rt_runs s (run_id_str (nr_run_id n)) = None" and "gap_fresh X (nr_run_id n) gap"
    and "create_won X clock E gap n p [] s = (r, s')"
  shows "if rt_runs s' (run_id_str (nr_run_id n)) = None
    then rt_idem s' p = None \<and> (\<exists>e. r = Inl e)
    else holds_key X p (run_id_str (nr_run_id n)) (rt_idem s')"
proof -
  let ?id = "run_id_str (nr_run_id n)"
  have ok: "public_ok n False s" using assms(7) by (simp add: public_ok_def)
  obtain preserve q s1 where p: "prepare_run X clock E gap n p [] s = ((preserve, q), s1)" by (metis surj_pair)
  note prep = prepare_outcome[OF ok assms(8) p]
  have k1: "holds_key X p ?id (rt_idem s1)" "\<not> preserve" using prep(2) assms(5) by simp_all
  have g: "holds_key X p ?id (rt_idem (gap i t))" if "holds_key X p ?id (rt_idem t)" for i t
    using assms(6) that by (simp add: keeps_key_def)
  show ?thesis
  proof (cases q)
    case (Inl e)
    then have s': "s' = drop_guard X gap n p False s1" "r = Inl e" using assms(9) p k1(2) by (simp_all add: create_won_def)
    obtain rr where "read_record X p (rt_idem (gap 8 s1)) = Inr (Some rr)" "rv_run_id rr = ?id"
      by (rule holds_key_read[OF assms(1,2) g[OF k1(1)]])
    then have "rt_idem s' p = None"
      using assms(4) s'(1) by (simp add: drop_guard_def with_idem_def release_in_def)
    moreover have "public_ok n False s'" using prep(1) gap_guard[OF assms(8)] Inl s' by simp
    ultimately show ?thesis using s'(2) by (simp add: public_ok_def split: option.splits)
  next
    case (Inr u)
    then have a: "announce X clock E gap n s1 = (r, s')" using assms(9) p by (simp add: create_won_def)
    have "public_ok n True s'"
      using announce_outcome[OF _ assms(8) _ a] prep(1) prep(3)[OF Inr] Inr by (auto split: option.splits)
    moreover have "holds_key X p ?id (rt_idem s')"
      using a k1(1) g[OF k1(1), of 9]
      by (auto simp: announce_def Let_def split: option.splits prod.splits sum.splits if_splits dest: arg_cong[of _ _ snd])
        (metis edge_keeps(1) snd_conv)+
    ultimately show ?thesis by (simp add: public_ok_def split: option.splits)
  qed
qed

end
