(* ===== verification/Creation_Demo.thy ===== *)
theory Creation_Demo
  imports Merge_Demo Creation_Facts Fence_Facts Telemetry_Facts Idempotency_Facts
begin

text \<open>
  The theorems about reservations, creation, settlement and telemetry applied to concrete state: a key
  that one run reserves and another asks for, a run created under a key, a caller-owned run that is
  settled, and the telemetry of a worker.
\<close>

section \<open>Keys\<close>

lemma demo_object_text: "object_text demo_ext"
proof -
  have low: "utf8_valid s" if "list_all (\<lambda>c. c < CHR 0x80) s" for s
    using that by (induction s) (auto simp: utf8_lead_def)
  have "c < CHR 0x80" if "c \<in> codec_chars" for c
    using that by (auto simp: codec_chars_def printable_def less_eq_char_def less_char_def)
  then have "utf8_valid (enc_json v)" for v by (intro low) (use codec_json[of v] in \<open>auto simp: list_all_iff\<close>)
  moreover have "\<exists>s. enc_json (Object m) = CHR ''{'' # s" for m by simp
  ultimately show ?thesis unfolding object_text_def demo_ext_def by (simp del: utf8_valid.simps enc_json.simps)
qed

definition demo_key :: string where
  "demo_key = key_hash (Some ''/main'') (Some ''main'') ''k1''"

text \<open>Two requests whose three texts concatenate to the same bytes are told apart before hashing.\<close>

theorem key_hash_of_injective_encoding_witness:
  "length_prefixed [''ab'', ''c'', ''k''] \<noteq> length_prefixed [''a'', ''bc'', ''k''] \<and>
   length (key_hash (Some ''ab'') (Some ''c'') ''k'') = 32"
proof -
  have "list_all (\<lambda>s. length s < 2 ^ 64) [''ab'', ''c'', ''k'', ''a'', ''bc'', ''k'']" by simp
  then show ?thesis
    using key_hash_of_injective_encoding[of "Some ''ab''" "Some ''c''" "''k''" "Some ''a''" "Some ''bc''" "''k''"]
    by (auto simp: unwrap_or_def)
qed

definition demo_creator :: creator_lease where
  "demo_creator = \<lparr>cl_pid = 42, cl_pid_start_secs = Some 1000, cl_started_at = 5, cl_materializer_lease_path = Some ''/lease''\<rparr>"

definition first_record :: reservation_record where
  "first_record = ReservationRecord_new (run_id_str demo_rid) demo_creator"

definition second_record :: reservation_record where
  "second_record = ReservationRecord_new demo_child demo_creator"

lemma records_differ: "rv_run_id second_record \<noteq> rv_run_id first_record" "rv_schema_version first_record = 1"
  by (simp_all add: second_record_def first_record_def ReservationRecord_new_def demo_child_def demo_rid_def)

lemma demo_key_name: "key_name demo_key"
  unfolding key_name_def demo_key_def by blast

definition reserved_keys :: idem_dir where
  "reserved_keys = snd (reserve_in demo_ext demo_key first_record Map.empty)"

lemma demo_reserves: "reserve_in demo_ext demo_key first_record Map.empty = (Inr Reserved, reserved_keys)"
proof -
  have "fst (reserve_in demo_ext demo_key first_record Map.empty) = Inr Reserved"
    using key_name_no_tmp[OF demo_key_name, of first_record]
    by (simp add: reserve_in_def read_record_def write_record_exclusive_def Let_def)
  then show ?thesis by (simp add: reserved_keys_def prod_eq_iff)
qed

text \<open>After the first run reserved the key, a second one that asks, reclaims and releases changes nothing.\<close>

theorem reservation_excludes_others_witness:
  "\<exists>fs current. fs = fold (idem_step demo_ext) [(demo_key, Reserve second_record), (demo_key, Release demo_child)] reserved_keys \<and>
     rv_run_id current = run_id_str demo_rid \<and>
     reserve_in demo_ext demo_key second_record fs = (Inr (AlreadyReserved current), fs) \<and>
     reclaim_in demo_ext demo_key second_record second_record False fs = (Inr (Changed current), fs)"
proof -
  have id: "rv_run_id first_record = run_id_str demo_rid" "demo_child \<noteq> run_id_str demo_rid"
    by (simp_all add: first_record_def ReservationRecord_new_def demo_child_def demo_rid_def)
  have "list_all (\<lambda>(q, oper). q = demo_key \<longrightarrow> \<not> ends (rv_run_id first_record) oper)
      [(demo_key, Reserve second_record), (demo_key, Release demo_child)]"
    using id by (simp add: ends_def)
  from reservation_excludes_others[OF demo_ext_ok demo_object_text demo_key_def records_differ(2) demo_reserves this refl]
    records_differ(1) id(1)
  show ?thesis by metis
qed

section \<open>Names\<close>

theorem branch_name_bounds_witness:
  "length (derive_branch_name Spinoff demo_rid ''A title that is much longer than the window of a terminal'') \<le> 50"
proof -
  have "RunId_parse_str (run_id_str demo_rid) = Inr demo_rid" using demo_ids by simp
  from branch_name_bounds[OF this, of Spinoff "''A title that is much longer than the window of a terminal''"]
  show ?thesis by blast
qed

section \<open>Creation\<close>

definition demo_outcome :: SpawnOutcome where
  "demo_outcome = \<lparr>so_branch = ''work'', so_worktree_path = ''/wt'', so_tmux_window = ''w'', so_agent_pid_hint = 42,
     so_agent_start_time = 1000, so_agent_start_identity = ''i'', so_tmux_socket = None, so_tmux_session = None,
     so_tmux_window_id = None, so_tmux_pane_id = None, so_tmux_server_pid = None, so_tmux_server_pid_start_secs = None,
     so_tmux_server_marker = None, so_pi_session_id = None, so_pi_session_path = None, so_pi_session_cwd = None\<rparr>"

definition demo_create_env :: "merge_world create_env" where
  "demo_create_env = \<lparr>ce_host = merge_host, ce_probes = (\<lambda>_. demo_probes), ce_now = (\<lambda>_. 9),
     ce_lease = (\<lambda>_ _. Some WouldBlock), ce_creator = demo_creator, ce_polls = 2, ce_rollback = (\<lambda>_ _ w. w),
     ce_write_prompt = Inr (), ce_write_launcher = Inr (), ce_materialize = (\<lambda>_ w. (Inr demo_outcome, w)),
     ce_drop_outcome = (\<lambda>_ w. w), ce_cleanup_session = (\<lambda>w. w), ce_verify_agent_pid = (\<lambda>_ _. Inr ()),
     ce_claude_session = None, ce_from_timestamp = (\<lambda>s. Some (s * 1000000000)), ce_spawn_supervisor = (\<lambda>_ w. (Inr 43, w))\<rparr>"

definition demo_selection :: agent_selection where
  "demo_selection = \<lparr>as_schema_version = 1, as_profile = ''fast'', as_selection_source = ''cli'', as_interaction = ''autonomous'',
     as_capability = ''fast'', as_residency = ''local'', as_requested_harness = None,
     as_selected = \<lparr>sc_candidate_index = 0, sc_harness = ''claude'', sc_command = [''claude''], sc_telemetry = None\<rparr>,
     as_fallback = []\<rparr>"

definition demo_new_run :: new_run where
  "demo_new_run = \<lparr>nr_run_id = demo_rid, nr_kind = Spinoff, nr_lifecycle = Autonomous, nr_title = ''demo'',
     nr_source_repo = Some ''/main'', nr_materialization_repo = Some ''/main'', nr_source_branch = Some ''main'',
     nr_parent_session = None, nr_tmux_retention = None, nr_notify_cmd = None, nr_resident = None,
     nr_harness = ''claude'', nr_harness_source = ''default'', nr_selection = demo_selection, nr_task = Some ''t'',
     nr_created_by_run_id = None, nr_created_by_session = None, nr_parent = None, nr_idempotency_key = Some ''k1'',
     nr_skip_materialize = True\<rparr>"

definition demo_root :: "merge_world root" where
  "demo_root = \<lparr>rt_idem = reserved_keys, rt_runs = Map.empty, rt_staging = Map.empty, rt_world = before_merge\<rparr>"

abbreviation alone :: "nat \<Rightarrow> merge_world root \<Rightarrow> merge_world root" where
  "alone \<equiv> \<lambda>_ s. s"

lemma alone_gap: "gap_fresh X rid alone" "keeps_key X p a alone" "keeps_claim X E p a creator alone"
  by (simp_all add: gap_fresh_def keeps_key_def keeps_claim_def split: option.split)


lemma de_skipped_json: "de_skipped_candidate (skipped_json k) = Some k"
  by (simp add: skipped_json_def de_skipped_candidate_def struct_fields_def req_def de_string_def de_u8_json)

lemma de_selected_json: "de_selected_candidate (selected_json c) = Some c"
  by (cases "sc_telemetry c")
    (simp_all add: selected_json_def de_selected_candidate_def struct_fields_def req_def optional_def de_option_def
      some_entry_def de_string_def de_vec_def de_list_strings de_u8_json)

lemma de_selection_json: "de_agent_selection (selection_json a) = Some a"
proof -
  have "de_list de_skipped_candidate (map skipped_json ks) = Some ks" for ks
    by (induction ks) (simp_all add: de_skipped_json)
  moreover have "selected_json c \<noteq> Null" for c by (simp add: selected_json_def)
  ultimately show ?thesis
    by (cases "as_requested_harness a")
      (simp_all add: selection_json_def de_agent_selection_def struct_fields_def req_def optional_def defaulted_def
        de_option_def some_entry_def de_string_def de_vec_def de_u32_json de_selected_json)
qed

lemma demo_selection_valid: "AgentSelection_validate demo_selection"
proof -
  have "\<not> contains_sub ''--'' ''fast''" by code_simp
  then show ?thesis
    by (simp add: AgentSelection_validate_def demo_selection_def kebab_name_ok_def validate_selected_candidate_def
      ends_with_def is_ascii_lowercase_def less_eq_char_def)
qed

definition demo_created_event :: event where
  "demo_created_event = new_event (\<lambda>_. 7) demo_rid ''run.created'' None None (created_data demo_new_run) 1"

lemma demo_created_data:
  "created_data demo_new_run = Object [(''agent_selection'', selection_json demo_selection), (''harness'', String ''claude''),
     (''harness_source'', String ''default''), (''kind'', String ''spinoff''), (''lifecycle'', String ''autonomous''),
     (''source_branch'', String ''main''), (''source_repo'', String ''/main''), (''task'', String ''t''), (''title'', String ''demo'')]"
  by code_simp

lemma demo_created_readers:
  fixes d defines "d \<equiv> created_data demo_new_run"
  shows "data_kind (get_or_null d ''kind'') = Some Spinoff" "de_lifecycle (get_or_null d ''lifecycle'') = Some Autonomous"
    "want_str d ''title'' = Inr ''demo''" "agent_owner_from_data d = Inr Taskfleet" "retention_policy_from_data d = Inr None"
    "opt_run_id d ''created_by_run_id'' = Inr None" "opt_run_id d ''parent_run_id'' = Inr None" "de_option de_creator_session (get_or_null d ''created_by_session'') = Some None"
    "opt_node_id d ''parent_node_id'' = Inr None" "resident_policy_from_data d = Inr None"
    "agent_selection_from_data d = Inr (Some demo_selection)"
  unfolding d_def demo_created_data
  by (simp_all add: data_kind_def get_or_null_def want_str_def agent_owner_from_data_def retention_policy_from_data_def
      opt_run_id_def opt_node_id_def opt_id_def resident_policy_from_data_def agent_selection_from_data_def
      de_selection_json demo_selection_valid ok_or_def ensure_def filter_opt_def de_option_def)
    code_simp+

lemma demo_created_ops:
  obtains m where "reduce_event_to_ops demo_ext demo_rid empty_dir demo_created_event = Inr [OpManifest m]" "m_applied_seq m = 0"
proof -
  have "read_manifest_opt demo_rid empty_dir = Inr None" by code_simp
  then show ?thesis using that
    by (simp add: reduce_event_to_ops_def reducers_def reduce_run_created_def demo_created_event_def new_event_def
        demo_created_readers ok_or_def ensure_def Let_def)
qed

lemma demo_staged:
  obtains d where "append_and_apply_event demo_ext (\<lambda>_. 7) demo_rid ''run.created'' None None (created_data demo_new_run) empty_dir =
    (Inr \<lparr>ar_seq = 1, ar_idempotent_replay = False, ar_applied = True, ar_prior = None\<rparr>, d)"
proof -
  obtain m where r: "reduce_event_to_ops demo_ext demo_rid empty_dir demo_created_event = Inr [OpManifest m]" by (rule demo_created_ops)
  have l: "log_is demo_ext empty_dir [] []" by (simp add: log_is_def empty_dir_def line_ok_def)
  have rep: "replay_unapplied_unlocked demo_ext demo_rid empty_dir = (Inr (), empty_dir)" "checked_events empty_dir = Inr ()"
    "read_manifest_opt demo_rid empty_dir = Inr None" by code_simp+
  from append_after_replay[OF demo_ext_ok rep(1) l rep(2,3), of demo_created_event "\<lambda>_. 7" "''run.created''" None None
      "created_data demo_new_run"] r
  show ?thesis using that rep(1)
    by (simp add: append_and_apply_event_def bind_io_def ret_def last_seq_def demo_created_event_def new_event_def)
qed

lemma demo_creates:
  obtains d where "create_won demo_ext (\<lambda>_. 7) demo_create_env alone demo_new_run demo_key [] demo_root =
    (Inr (CreatedRun demo_rid None), demo_root\<lparr>rt_runs := [run_id_str demo_rid \<mapsto> d]\<rparr>)"
proof -
  obtain d where d: "append_and_apply_event demo_ext (\<lambda>_. 7) demo_rid ''run.created'' None None (created_data demo_new_run) empty_dir =
    (Inr \<lparr>ar_seq = 1, ar_idempotent_replay = False, ar_applied = True, ar_prior = None\<rparr>, d)" by (rule demo_staged)
  have n: "nr_run_id demo_new_run = demo_rid" "nr_skip_materialize demo_new_run" "nr_parent demo_new_run = None"
    by (simp_all add: demo_new_run_def)
  show ?thesis by (rule that[of d])
    (simp add: create_won_def prepare_run_def build_run_def announce_def stage_append_def publish_staging_run_def n d
      demo_root_def unwrap_or_def Let_def)
qed

lemma demo_new_run_ids: "nr_run_id demo_new_run = demo_rid" "nr_idempotency_key demo_new_run = Some ''k1''"
  by (simp_all add: demo_new_run_def)

lemma demo_root_fresh: "rt_runs demo_root (run_id_str (nr_run_id demo_new_run)) = None"
  by (simp add: demo_root_def)

text \<open>The run of the first reservation is created under its key.\<close>

theorem created_run_is_whole_witness:
  "\<exists>s d m. create_won demo_ext (\<lambda>_. 7) demo_create_env alone demo_new_run demo_key [] demo_root =
      (Inr (CreatedRun demo_rid None), s) \<and>
    rt_runs s (run_id_str demo_rid) = Some d \<and> read_manifest_opt demo_rid d = Inr (Some m)"
proof -
  obtain d where c: "create_won demo_ext (\<lambda>_. 7) demo_create_env alone demo_new_run demo_key [] demo_root =
    (Inr (CreatedRun demo_rid None), demo_root\<lparr>rt_runs := [run_id_str demo_rid \<mapsto> d]\<rparr>)" by (rule demo_creates)
  from created_run_is_whole[OF demo_root_fresh alone_gap(1) c] c show ?thesis by (auto simp: demo_new_run_ids)
qed

lemma demo_holds_key: "holds_key demo_ext demo_key (run_id_str (nr_run_id demo_new_run)) (rt_idem demo_root)"
proof -
  have "reserved_keys demo_key = Some (json_to_vec demo_ext (record_json demo_ext first_record))"
    using key_name_no_tmp[OF demo_key_name, of first_record]
    by (simp add: reserved_keys_def reserve_in_def read_record_def write_record_exclusive_def Let_def)
  moreover have "rv_run_id first_record = run_id_str demo_rid" by (simp add: first_record_def ReservationRecord_new_def)
  ultimately show ?thesis using records_differ(2) by (auto simp: holds_key_def demo_root_def demo_new_run_ids)
qed

theorem creation_commits_key_witness:
  "\<exists>s. create_won demo_ext (\<lambda>_. 7) demo_create_env alone demo_new_run demo_key [] demo_root =
      (Inr (CreatedRun demo_rid None), s) \<and> holds_key demo_ext demo_key (run_id_str demo_rid) (rt_idem s)"
proof -
  obtain d where c: "create_won demo_ext (\<lambda>_. 7) demo_create_env alone demo_new_run demo_key [] demo_root =
    (Inr (CreatedRun demo_rid None), demo_root\<lparr>rt_runs := [run_id_str demo_rid \<mapsto> d]\<rparr>)" by (rule demo_creates)
  from creation_commits_key[OF demo_ext_ok demo_object_text demo_key_def demo_new_run_ids(2) demo_holds_key alone_gap(2)
      demo_root_fresh alone_gap(1) c] c
  show ?thesis by (auto simp: demo_new_run_ids)
qed

text \<open>While its creator holds the lease, another run that asks for the key is refused.\<close>

theorem live_creator_excludes_others_witness:
  "\<exists>r s. acquire_key demo_ext (\<lambda>_. 7) demo_create_env alone demo_key (RunId demo_child) demo_root = (r, s) \<and>
     claim demo_ext demo_create_env demo_key (run_id_str demo_rid) demo_creator s \<and> (\<forall>stale. r \<noteq> Inr (Won stale))"
proof -
  obtain r where "read_record demo_ext demo_key (rt_idem demo_root) = Inr (Some r)" "r = first_record"
    using written_record[OF demo_ext_ok demo_object_text records_differ(2), of "rt_idem demo_root" demo_key]
      key_name_no_tmp[OF demo_key_name, of first_record]
    by (auto simp: demo_root_def reserved_keys_def reserve_in_def read_record_def write_record_exclusive_def Let_def)
  then have "claim demo_ext demo_create_env demo_key (run_id_str demo_rid) demo_creator demo_root"
    by (auto simp: claim_def held_by_def lease_held_def demo_create_env_def demo_creator_def first_record_def
        ReservationRecord_new_def)
  from live_creator_excludes_others[OF alone_gap(3) this] show ?thesis
    by (metis acquired.distinct(1) sum.inject(2) sum.distinct(1) surj_pair)
qed

section \<open>Telemetry\<close>

text \<open>A bound on the length of a text of \<open>demo_ext\<close>.\<close>

fun text_cost :: "json \<Rightarrow> nat" where
  "text_cost Null = 1"
| "text_cost (Bool b) = 1"
| "text_cost (Number x) = (case x of PosInt w \<Rightarrow> 67 | _ \<Rightarrow> length (enc_number x))"
| "text_cost (String s) = 10 * length s + 2"
| "text_cost (Array xs) = 2 + sum_list (map (\<lambda>v. 1 + text_cost v) xs)"
| "text_cost (Object m) = 2 + sum_list (map (\<lambda>p. 10 * length (fst p) + 2 + text_cost (snd p)) m)"

lemma enc_nat_length: "n < 2 ^ k \<Longrightarrow> length (enc_nat n) \<le> Suc k"
proof (induction n arbitrary: k rule: enc_nat.induct)
  case (1 n)
  then show ?case by (cases k) (auto simp: enc_nat.simps[of n] enc_nat.simps[of 0])
qed

lemma enc_str_length: "length (enc_str s) \<le> 10 * length s + 1"
proof -
  have "length (enc_char c) \<le> 10" for c
    using enc_nat_length[of "of_char c" 8] by (simp add: enc_char_def)
  then show ?thesis by (induction s) (simp_all add: enc_str_def add_le_mono trans_le_add1)
qed

lemma enc_json_length: "length (enc_json v) \<le> text_cost v"
proof (induction v)
  case (Number x)
  have "unat w < 2 ^ 64" for w :: u64 using unsigned_less[of w, where 'a = nat] by simp
  then show ?case using enc_nat_length[of _ 64] by (cases x) (simp_all add: enc_int_def le_Suc_eq)
next
  case (String s)
  then show ?case using enc_str_length[of s] by simp
next
  case (Array xs)
  then show ?case by (induction xs) (auto intro: add_mono)
next
  case (Object m)
  have "length (concat (map (\<lambda>p. CHR '','' # enc_str (fst p) @ enc_json (snd p)) m)) \<le>
      sum_list (map (\<lambda>p. 10 * length (fst p) + 2 + text_cost (snd p)) m)"
    using Object
  proof (induction m)
    case (Cons p m)
    have "length (enc_json (snd p)) \<le> text_cost (snd p)" using Cons.prems[of p "snd p"] by (cases p) auto
    moreover note enc_str_length[of "fst p"] Cons
    ultimately show ?case by fastforce
  qed simp
  then show ?case by simp
qed simp_all

lemma demo_text_cost: "length (json_to_vec demo_ext v) \<le> text_cost v"
  using enc_json_length by (simp add: demo_ext_def)

definition demo_update :: telemetry_update where
  "demo_update = \<lparr>tu_schema_version = 1, tu_protocol_version = 1, tu_run_id = demo_rid, tu_node_id = demo_nid,
     tu_attempt = 0, tu_state = ToolRunning, tu_active_tool_count = Some 1, tu_tool_name = Some ''bash''\<rparr>"

definition no_samples :: telemetry_dir where
  "no_samples = \<lparr>td_symlink = False, td_files = []\<rparr>"

lemma demo_adds: "adds demo_chrono"
  by (simp add: adds_def demo_chrono_def)

lemma entry_current: "canonical_projections_current demo_ext demo_rid (with_node_entry f) = Inr True"
proof -
  obtain m where "read_manifest_opt demo_rid (with_node_entry f) = Inr (Some m)" "m_applied_seq m = last_seq demo_events"
    "log_is demo_ext (with_node_entry f) demo_events []" "checked_events (with_node_entry f) = Inr ()"
    using entry_synced[of f] by (auto simp: synced_def)
  then show ?thesis using log_last_seq[OF demo_ext_ok] by (simp add: canonical_projections_current_def)
qed

definition demo_sample :: stored_sample where
  "demo_sample = next_sample demo_chrono demo_rid demo_update StoredAbsent 10 (10 + freshness)"

definition demo_samples :: telemetry_dir where
  "demo_samples = write_sample (json_to_vec demo_ext (sample_json demo_ext demo_sample)) demo_nid no_samples"

lemma demo_sample_size: "length (json_to_vec demo_ext (sample_json demo_ext demo_sample)) \<le> TELEMETRY_MAX_BYTES"
  by (rule order_trans[OF demo_text_cost])
    (simp add: demo_ext_def sample_json_def demo_sample_def next_sample_def demo_update_def freshness_def
      TELEMETRY_FRESHNESS_SECS_def enc_int_def enc_nat.simps some_entry_def u32_json_def telemetry_state_name_def
      TELEMETRY_MAX_BYTES_def demo_nid_def demo_rid_def)

lemma demo_update_ok: "tu_attempt demo_update = 0" "tu_run_id demo_update = demo_rid" "tu_node_id demo_update = demo_nid"
  by (simp_all add: demo_update_def)

lemma demo_update_accepted: "validate_update_shape demo_update = Inr ()"
    "length (json_to_vec demo_ext (update_json demo_update)) \<le> TELEMETRY_MAX_BYTES"
  by code_simp+

lemma working_attempt: "n_retry_attempts (entry_node working) = 0" "\<not> is_terminal (n_status (entry_node working))"
  by code_simp+

lemma working_node: "read_node_opt demo_rid (with_node_entry working) demo_nid = Inr (Some (entry_node working))"
  using entry_reads[OF working_ids(1)] by simp

lemma sample_file: "checked_telemetry_file (with_node_entry working) no_samples demo_nid = Inr ()"
    "checked_telemetry_file (with_node_entry working) demo_samples demo_nid = Inr ()"
  using working_node
  by (simp_all add: read_node_opt_Inr checked_telemetry_file_def guard_root_def reject_symlink_def no_samples_def
      demo_samples_def write_sample_def)

lemma demo_updates:
  obtains a where "update_telemetry demo_ext demo_chrono demo_rid (Inr ()) demo_update 10 (with_node_entry working) no_samples =
    (Inr a, demo_samples)"
proof -
  have t: "update_target demo_ext demo_rid (Inr ()) demo_update (with_node_entry working) = Inr (entry_node working)"
    using working_node working_attempt entry_current demo_update_ok demo_update_accepted by (simp add: update_target_def ensure_size_def core_res_def)
  have "read_stored demo_ext no_samples demo_nid = Inr StoredAbsent" by (simp add: read_stored_def no_samples_def)
  then show ?thesis using that t demo_update_ok(3) sample_file(1) demo_sample_size
    by (simp add: update_telemetry_def ensure_size_def demo_chrono_def demo_sample_def demo_samples_def Let_def)
qed

theorem telemetry_reads_back_witness:
  "\<exists>a v. update_telemetry demo_ext demo_chrono demo_rid (Inr ()) demo_update 10 (with_node_entry working) no_samples =
       (Inr a, demo_samples) \<and>
     read_telemetry demo_ext demo_chrono demo_rid demo_nid 10 (with_node_entry working) demo_samples = Inr v \<and>
     tv_sample v = SampleCurrent \<and> tv_tool_name v = Some ''bash''"
proof -
  obtain a where u: "update_telemetry demo_ext demo_chrono demo_rid (Inr ()) demo_update 10 (with_node_entry working) no_samples =
    (Inr a, demo_samples)" by (rule demo_updates)
  have "tu_tool_name demo_update = Some ''bash''" by (simp add: demo_update_def)
  moreover have "read_stored demo_ext no_samples demo_nid = Inr StoredAbsent" by (simp add: read_stored_def no_samples_def)
  ultimately show ?thesis
    using telemetry_reads_back[OF demo_ext_ok demo_adds _ u] demo_target u by (auto simp: demo_update_ok(3))
qed

text \<open>The stored sample, read 80 seconds later.\<close>

theorem telemetry_view_bounds_witness:
  "\<exists>v ms. read_telemetry demo_ext demo_chrono demo_rid demo_nid 80000000000 (with_node_entry working) demo_samples = Inr v \<and>
     tv_sample v = SampleCurrent \<and> tv_age_ms v = Some ms \<and> ms < 90000"
proof -
  have r: "read_stored demo_ext demo_samples demo_nid = Inr (StoredValid demo_sample)"
    unfolding demo_samples_def
    by (rule written_sample[OF demo_ext_ok _ demo_sample_size]) (use demo_target in \<open>simp add: demo_sample_def next_sample_def demo_update_def\<close>)
  have v: "valid_stored_shape demo_chrono demo_rid demo_nid demo_sample" "ss_attempt demo_sample = 0"
    by code_simp+
  have "read_telemetry demo_ext demo_chrono demo_rid demo_nid 80000000000 (with_node_entry working) demo_samples =
      Inr (classify_sample demo_sample 80000000000)"
    using r v working_node working_attempt read_node_of_opt[OF working_node] sample_file(2) entry_current
    by (simp add: read_telemetry_def core_res_def read_telemetry_locked_def)
  moreover have "tv_sample (classify_sample demo_sample 80000000000) = SampleCurrent"
    by (simp add: classify_sample_def demo_sample_def next_sample_def freshness_def TELEMETRY_FRESHNESS_SECS_def Let_def)
  ultimately show ?thesis using telemetry_view_bounds[OF demo_adds] by meson
qed

section \<open>Settlement\<close>

definition demo_fence :: fence where
  "demo_fence = \<lparr>fc_writer = \<lparr>id_dev = 1, id_ino = 2\<rparr>, fc_launch_gate = \<lparr>id_dev = 1, id_ino = 3\<rparr>\<rparr>"

definition demo_fence_env :: fence_env where
  "demo_fence_env = \<lparr>fe_inspect = (\<lambda>_. Some demo_fence), fe_gate = Inr (fc_launch_gate demo_fence), fe_canonical = (\<lambda>_. True)\<rparr>"

definition fenced_events :: "event list" where
  "fenced_events = [demo_event ''run.created'' 1 (Object [(''writer_fence'', fence_json demo_fence)]),
     demo_event ''node.created'' 2 demo_created]"

text \<open>The run with a worker, owned by its caller.\<close>

definition fenced_run :: run_dir where
  "fenced_run = (with_node_entry working)\<lparr>d_manifest := (case d_manifest (with_node_entry working) of
       Some (File m) \<Rightarrow> Some (File (m\<lparr>m_agent_owner := Caller\<rparr>)) | e \<Rightarrow> e),
     d_events := Some (join (map (event_text demo_ext) fenced_events) [])\<rparr>"

lemma fenced_manifest:
  obtains m where "read_manifest_opt demo_rid fenced_run = Inr (Some m)" "m_applied_seq m = 2" "m_agent_owner m = Caller"
    "m_caller_settlement_intent m = None" "\<not> is_terminal (m_status m)"
proof -
  obtain m where m: "read_manifest_opt demo_rid (with_node_entry working) = Inr (Some m)" "m_applied_seq m = 2"
    using entry_synced[of working] demo_last by (auto simp: synced_def)
  have "case read_manifest_opt demo_rid demo_run of Inr (Some m) \<Rightarrow> m_caller_settlement_intent m = None \<and> \<not> is_terminal (m_status m)
    | _ \<Rightarrow> False" by code_simp
  then obtain m0 where m0: "read_manifest_opt demo_rid demo_run = Inr (Some m0)" "m_caller_settlement_intent m0 = None"
    "\<not> is_terminal (m_status m0)" by (auto split: sum.splits option.splits)
  then have "read_manifest_opt demo_rid demo_logged = Inr (Some m0)" by (simp add: demo_logged_def log_reads)
  then obtain d where "advance_applied_seq demo_rid 2 demo_logged = (Inr (), d)"
    "read_manifest_opt demo_rid d = Inr (Some (advanced demo_logged 2 m0))"
    by (rule advance_some[where seq = 2]) blast
  then have "m = advanced demo_logged 2 m0" using m(1) by (simp add: entry_manifest demo_synced_def)
  then have "m_caller_settlement_intent m = None" "\<not> is_terminal (m_status m)" using m0 by (simp_all add: advanced_def)
  moreover have "read_manifest_opt demo_rid fenced_run = Inr (Some (m\<lparr>m_agent_owner := Caller\<rparr>))"
    using m(1) by (auto simp: fenced_run_def read_manifest_opt_def store_defs res_simps read_json_opt_def
        split: sum.splits option.splits entry.splits)
  ultimately show ?thesis using that m(2) by simp
qed

lemma fenced_log: "log_is demo_ext fenced_run fenced_events []"
proof -
  have "loggable (demo_event ''run.created'' 1 (Object [(''writer_fence'', fence_json demo_fence)]))"
    unfolding demo_loggable by code_simp
  then show ?thesis
    using demo_created_loggable by (simp add: log_is_def fenced_run_def fenced_events_def line_ok_def)
qed

lemma fenced_synced: "synced demo_ext demo_rid fenced_run fenced_events" "last_seq fenced_events = 2"
proof -
  have l: "last_seq fenced_events = 2" by (simp add: last_seq_def fenced_events_def demo_event_def)
  obtain m where "read_manifest_opt demo_rid fenced_run = Inr (Some m)" "m_applied_seq m = 2" by (rule fenced_manifest)
  moreover have "checked_events fenced_run = Inr ()"
    using entry_synced[of working] by (simp add: synced_def fenced_run_def checked_events_def guard_root_def)
  ultimately show "synced demo_ext demo_rid fenced_run fenced_events"
    using l fenced_log by (simp add: synced_def) (simp add: fenced_events_def demo_event_def)
  show "last_seq fenced_events = 2" by (rule l)
qed

lemma fenced_node: "read_node_opt demo_rid fenced_run demo_nid = Inr (Some (entry_node working))"
  using working_node by (simp add: fenced_run_def read_node_opt_def store_defs)

abbreviation settle :: "settlement_operation \<Rightarrow> run_dir \<Rightarrow> (fence_error + caller_settlement_intent) \<times> run_dir" where
  "settle oper \<equiv> record_intent demo_ext (\<lambda>_. 7) demo_rid demo_fence_env demo_nid ''k1'' oper ''me'' (Some ''done'') False"

definition demo_intent :: caller_settlement_intent where
  "demo_intent = new_intent demo_rid demo_fence (entry_node working) demo_nid ''k1'' SettleMerge ''me'' (Some ''done'')"

lemma demo_words: "trim ''k1'' = ''k1''" "trim ''me'' = ''me''" "trim ''done'' = ''done''"
  by (rule trim_graphic; simp add: graphic_def less_eq_char_def)+

lemma demo_intent_json: "de_caller_settlement_intent (intent_json demo_intent) = Some demo_intent"
  using demo_ids
  by (simp add: intent_json_def demo_intent_def new_intent_def de_caller_settlement_intent_def struct_fields_def req_def
      optional_def de_option_def de_string_def de_u64_def de_run_id_def de_node_id_def de_operation_name)

lemma demo_settles:
  obtains d' where "settle SettleMerge fenced_run = (Inr (demo_intent\<lparr>si_seq := 3\<rparr>), d')"
proof -
  obtain m where m: "read_manifest_opt demo_rid fenced_run = Inr (Some m)" "m_agent_owner m = Caller"
    "m_caller_settlement_intent m = None" "\<not> is_terminal (m_status m)" by (rule fenced_manifest)
  define ev where "ev = new_event (\<lambda>_. 7) demo_rid ''caller.settlement_intent'' (Some demo_nid) (Some ''k1'')
    (intent_json demo_intent) (last_seq fenced_events + 1)"
  have n: "n_run_id (entry_node working) = demo_rid" "n_worktree_path (entry_node working) = Some ''/wt''"
    "n_branch (entry_node working) = Some ''work''" using demo_node_keys by (simp_all add: entry_node_def working_def)
  have "\<exists>ops. reduce_event_to_ops demo_ext demo_rid fenced_run ev = Inr ops"
    using m fenced_node n demo_words demo_intent_json
    by (simp add: reduce_event_to_ops_def reducers_def ev_def new_event_def reduce_caller_settlement_intent_def
        require_envelope_node_id_def ok_or_def Let_def)
      (simp add: demo_intent_def new_intent_def demo_fence_def)
  then obtain d' where a: "append_and_apply_unlocked demo_ext (\<lambda>_. 7) demo_rid ''caller.settlement_intent'' (Some demo_nid) (Some ''k1'')
      (intent_json demo_intent) fenced_run = (Inr 3, d')"
    using append_synced[OF demo_ext_ok fenced_synced(1) ev_def] fenced_synced(2)
    by (auto simp: append_and_apply_unlocked_def bind_io_def ret_def ev_def new_event_def)
  have "read_all_events demo_ext fenced_run = Inr fenced_events"
    using fenced_synced(1) log_read_all[OF demo_ext_ok] by (auto simp: synced_def)
  then have c: "check_creation_fence demo_ext fenced_run demo_fence = Inr ()"
    by (simp add: check_creation_fence_def fenced_events_def demo_event_def)
  have "intent_args_ok ''k1'' SettleMerge ''me'' (Some ''done'')" by (simp add: intent_args_ok_def demo_words)
  then have "settle SettleMerge fenced_run = (Inr (demo_intent\<lparr>si_seq := 3\<rparr>), d')"
    using replay_synced[OF demo_ext_ok fenced_synced(1)] c m fenced_node n a
    by (simp add: record_intent_def record_intent_locked_def demo_fence_env_def first_intent_guard_def Let_def
        demo_intent_def[symmetric])
  then show ?thesis by (rule that)
qed

text \<open>A merge was requested: the same request is answered again, a cancellation is refused.\<close>

theorem settlement_request_is_idempotent_witness:
  "\<exists>i d'. settle SettleMerge fenced_run = (Inr i, d') \<and> settle SettleMerge d' = (Inr i, d')"
proof -
  obtain d' where s: "settle SettleMerge fenced_run = (Inr (demo_intent\<lparr>si_seq := 3\<rparr>), d')" by (rule demo_settles)
  have "last_seq fenced_events \<noteq> - 1" by (simp add: fenced_synced(2))
  from settlement_request_is_idempotent[OF demo_ext_ok fenced_synced(1) demo_target this s] s show ?thesis by blast
qed

theorem settlement_intent_is_sticky_witness:
  "\<exists>i d' r d''. settle SettleMerge fenced_run = (Inr i, d') \<and> settle SettleCancel d' = (r, d'') \<and>
     holds_intent demo_rid d'' i \<and> si_operation i = SettleMerge"
proof -
  obtain d' where s: "settle SettleMerge fenced_run = (Inr (demo_intent\<lparr>si_seq := 3\<rparr>), d')" by (rule demo_settles)
  obtain r d'' where c: "settle SettleCancel d' = (r, d'')" by (metis surj_pair)
  have "run_steps demo_ext demo_rid d' d'" by simp
  from settlement_intent_is_sticky[OF s this c] s c show ?thesis by (auto simp: demo_intent_def new_intent_def)
qed

end
