(* ===== verification/Verbs.thy ===== *)
theory Verbs
  imports Merge Telemetry
begin

text \<open>
  The verbs through which a worker or an operator writes to a run: \<open>node report\<close> (\<open>node/report.rs\<close>),
  \<open>event create\<close> (\<open>event/create.rs\<close>) and \<open>node round-report\<close> (\<open>node/round_report.rs\<close>). A verb works on
  the run and the outside world like the steps of a merge and fails with the code of its \<open>CliError\<close>;
  \<open>gap i\<close> is what other processes do before the \<open>i\<close>-th access of a verb that does not hold the run
  lock. The run id is resolved already; the printed answer is the payload record without the run id.
\<close>

section \<open>Input files\<close>

text \<open>\<open>--from-file\<close>: what the metadata says, \<open>None\<close> when it cannot be opened or inspected, and the bytes a
  read to the end yields, \<open>None\<close> when the read fails. The length of the metadata need not be the
  length of what is read.\<close>

record source_file =
  sf_meta :: "(bool \<times> nat) option"  \<comment> \<open>\<open>is_file()\<close> and \<open>len()\<close>\<close>
  sf_bytes :: "bytes option"

definition MAX_FROM_FILE_BYTES :: nat where
  "MAX_FROM_FILE_BYTES = 1024 * 1024"

definition regular_file :: "source_file \<Rightarrow> nat cli" where
  "regular_file f = (case sf_meta f of
       Some (True, len) \<Rightarrow> Inr len
     | _ \<Rightarrow> Inl ''from_file_unreadable'')"

definition read_capped :: "source_file \<Rightarrow> bytes cli" where
  "read_capped f =
     rbind (regular_file f) (\<lambda>_.
     rbind (ok_or ''from_file_unreadable'' (sf_bytes f)) (\<lambda>bs.
     let buf = take (MAX_FROM_FILE_BYTES + 1) bs in
     if length buf > MAX_FROM_FILE_BYTES then Inl ''from_file_too_large'' else Inr buf))"

definition optional_key :: "string option \<Rightarrow> string option cli" where
  "optional_key key = (case key of
       None \<Rightarrow> Inr None
     | Some k \<Rightarrow> rbind (require_nonempty k) (\<lambda>t. Inr (Some t)))"

section \<open>Terminal reports\<close>

record report_args =
  ra_node_id :: string
  ra_from_file :: source_file
  ra_idempotency_key :: "string option"
  ra_dry_run :: bool

record report_payload =
  rp_node_id :: node_id
  rp_event_seq :: "u64 option"
  rp_idempotent_replay :: "bool option"
  rp_dry_run :: "bool option"

definition normalize_agent_origin :: "json \<Rightarrow> json" where
  "normalize_agent_origin data =
     stamp OriginAgent (case data of
         Object m \<Rightarrow> if Option.bind (map_of m ''via'') as_str = Some VIA_EXPLICIT_MERGE
                     then Object (map_remove ''via'' m) else Object m
       | _ \<Rightarrow> data)"

definition map_report_validation_error :: "report_error + unit \<Rightarrow> unit cli" where
  "map_report_validation_error r = (case r of Inl _ \<Rightarrow> Inl ''schema_violation'' | Inr _ \<Rightarrow> Inr ())"

definition report_request :: "ext \<Rightarrow> report_args \<Rightarrow> (node_id \<times> string option \<times> json) cli" where
  "report_request X args =
     rbind (parse_node_id (ra_node_id args)) (\<lambda>nid.
     rbind (optional_key (ra_idempotency_key args)) (\<lambda>key.
     rbind (read_capped (ra_from_file args)) (\<lambda>bs.
     rbind (ok_or ''from_file_invalid_json'' (json_from_slice X bs)) (\<lambda>data.
     rbind (map_report_validation_error (validate_report_payload data)) (\<lambda>_.
     Inr (nid, key, normalize_agent_origin data))))))"

text \<open>A replay with another node or another payload is a conflict. A replay always carries the prior
  event; the \<open>expect\<close> that says so is the error \<open>panic\<close> here.\<close>

definition report_answer :: "node_id \<Rightarrow> json \<Rightarrow> append_result \<Rightarrow> report_payload cli" where
  "report_answer nid data res =
     rbind (if \<not> ar_idempotent_replay res then Inr (ar_seq res, False)
       else rbind (ok_or ''panic'' (ar_prior res)) (\<lambda>prior.
         if unwrap_or ''<none>'' (pe_node_id prior) \<noteq> node_id_str nid then Inl ''idempotency_conflict''
         else if pe_data prior \<noteq> data then Inl ''idempotency_conflict''
         else Inr (pe_seq prior, True))) (\<lambda>(event_seq, replayed).
     Inr \<lparr>rp_node_id = nid, rp_event_seq = Some event_seq,
        rp_idempotent_replay = (if replayed then Some True else None), rp_dry_run = None\<rparr>)"

definition run_exists :: "run_id \<Rightarrow> run_dir \<Rightarrow> unit cli" where
  "run_exists rid d =
     rbind (cli_core (read_manifest_opt rid d)) (\<lambda>mo. rbind (ok_or ''run_not_found'' mo) (\<lambda>_. Inr ()))"

definition node_exists :: "run_id \<Rightarrow> node_id \<Rightarrow> run_dir \<Rightarrow> unit cli" where
  "node_exists rid nid d =
     rbind (cli_core (read_node_opt rid d nid)) (\<lambda>no. rbind (ok_or ''node_not_found'' no) (\<lambda>_. Inr ()))"

definition node_report ::
    "ext \<Rightarrow> (u64 \<Rightarrow> time) \<Rightarrow> run_id \<Rightarrow> (nat \<Rightarrow> run_dir \<times> 'w \<Rightarrow> run_dir \<times> 'w) \<Rightarrow> report_args \<Rightarrow> ('w, report_payload) act" where
  "node_report X clock rid gap args =
     act_bind (act_of (\<lambda>_. report_request X args)) (\<lambda>(nid, key, data).
     act_bind (act_gap gap 0) (\<lambda>_.
     act_bind (act_of (\<lambda>(d, w). run_exists rid d)) (\<lambda>_.
     act_bind (act_gap gap 1) (\<lambda>_.
     act_bind (act_of (\<lambda>(d, w). node_exists rid nid d)) (\<lambda>_.
     if ra_dry_run args
     then act_of (\<lambda>_. Inr \<lparr>rp_node_id = nid, rp_event_seq = None, rp_idempotent_replay = None,
            rp_dry_run = Some True\<rparr>)
     else
       act_bind (act_gap gap 2) (\<lambda>_.
       act_bind (act_io (append_and_apply_event X clock rid ''node.report'' (Some nid) key data)) (\<lambda>res.
       act_of (\<lambda>_. report_answer nid data res))))))))"

section \<open>Generic events\<close>

record create_event_args =
  ea_kind :: string
  ea_node_id :: "string option"
  ea_from_file :: source_file
  ea_idempotency_key :: "string option"
  ea_dry_run :: bool

record created_payload =
  cp_kind :: string
  cp_node_id :: "node_id option"
  cp_seq :: "u64 option"
  cp_idempotent_replay :: "bool option"
  cp_dry_run :: "bool option"
  cp_projections :: "string list"

definition ALLOWED_KINDS :: "string list" where
  "ALLOWED_KINDS =
     [''run.created'', ''run.status'', ''node.created'', ''node.status'', ''node.report'', ''node.awaiting_input'',
      ''node.input_resolved'', ''child.spawned'', ''supervisor.attached'', ''supervisor.cursor_advanced'',
      ''supervisor.exited'', ''supervisor.reattach-requested'', ''orchestrator.decision'', ''discuss.critical'']"

definition FORBIDDEN_KINDS_FOR_EVENT_CREATE :: "string list" where
  "FORBIDDEN_KINDS_FOR_EVENT_CREATE = [''run.created'', ''node.report'']"

definition requires_node_id :: "string \<Rightarrow> bool" where
  "requires_node_id k \<longleftrightarrow>
     k \<in> set [''node.created'', ''node.status'', ''node.report'', ''node.awaiting_input'', ''node.input_resolved'',
       ''child.spawned'', ''supervisor.attached'', ''supervisor.cursor_advanced'']"

definition relative_path :: "proj_path \<Rightarrow> string" where
  "relative_path p = (case p of
       ManifestPath \<Rightarrow> ''manifest.json''
     | NodePath nid \<Rightarrow> ''nodes/'' @ node_id_str nid @ ''.json'')"

definition projected_paths ::
    "ext \<Rightarrow> (u64 \<Rightarrow> time) \<Rightarrow> run_id \<Rightarrow> string \<Rightarrow> node_id option \<Rightarrow> json \<Rightarrow> run_dir \<Rightarrow> string list cli" where
  "projected_paths X clock rid k nid data d =
     rbind (cli_core (plan_projections X rid d (new_event clock rid k nid None data 0))) (\<lambda>ps.
     Inr (map relative_path ps))"

definition data_id :: "(string \<Rightarrow> 'a cli) \<Rightarrow> json \<Rightarrow> string \<Rightarrow> string option cli" where
  "data_id parse data k = (case get data k of
       None \<Rightarrow> Inr None
     | Some v \<Rightarrow> rbind (ok_or ''invalid_data_id'' (as_str v)) (\<lambda>s. rbind (parse s) (\<lambda>_. Inr (Some s))))"

definition awaited_item_ok :: "(string \<times> json) list \<Rightarrow> bool" where
  "awaited_item_ok obj =
     (let topic = unwrap_or [] (Option.bind (map_of obj ''topic'') as_str);
          default = unwrap_or [] (Option.bind (map_of obj ''recommended_default'') as_str)
      in trim topic \<noteq> [] \<and> trim default \<noteq> [] \<and>
         (case Option.bind (map_of obj ''options'') as_array of
            None \<Rightarrow> False
          | Some values \<Rightarrow> values \<noteq> [] \<and>
              list_all (\<lambda>v. case as_str v of Some s \<Rightarrow> trim s \<noteq> [] | None \<Rightarrow> False) values \<and>
              list_ex (\<lambda>v. as_str v = Some default) values))"

definition validate_awaited :: "json \<Rightarrow> unit cli" where
  "validate_awaited data =
     rbind (ok_or ''schema_violation'' (filter_opt (\<lambda>v. v \<noteq> []) (Option.bind (get data ''discussion_items'') as_array)))
     (for_each (\<lambda>item. rbind (ok_or ''schema_violation'' (as_object item)) (\<lambda>obj.
        ensure (awaited_item_ok obj) ''schema_violation'')))"

definition validate_data_ids :: "string \<Rightarrow> string option \<Rightarrow> json \<Rightarrow> unit cli" where
  "validate_data_ids k top_node data =
     rbind (data_id parse_node_id data ''node_id'') (\<lambda>so.
     rbind (ensure (case (so, top_node) of (Some s, Some t) \<Rightarrow> t = s | _ \<Rightarrow> True) ''node_id_mismatch'') (\<lambda>_.
     rbind (if k \<in> {''child.spawned'', ''supervisor.cursor_advanced''}
            then data_id parse_run_id data ''child_run_id'' else Inr None) (\<lambda>_.
     rbind (if k = ''child.spawned'' then data_id parse_node_id data ''child_node_id'' else Inr None) (\<lambda>_.
     rbind (ensure (k = ''node.input_resolved'' \<longrightarrow> get_u64 data ''event_seq'' \<noteq> None) ''schema_violation'') (\<lambda>_.
     if k = ''node.awaiting_input'' then validate_awaited data else Inr ())))))"

text \<open>The arguments, in the order of the checks. The size is checked on the metadata, the read is not
  capped.\<close>

definition create_request ::
    "ext \<Rightarrow> create_event_args \<Rightarrow> (node_id option \<times> string option \<times> json) cli" where
  "create_request X args =
     (let k = ea_kind args in
     rbind (ensure (k \<in> set ALLOWED_KINDS) ''unknown_event_kind'') (\<lambda>_.
     rbind (optional_key (ea_idempotency_key args)) (\<lambda>key.
     rbind (ensure (k \<notin> set FORBIDDEN_KINDS_FOR_EVENT_CREATE) ''kind_not_routable'') (\<lambda>_.
     rbind (ensure (ea_node_id args = None \<or> requires_node_id k) ''unexpected_flag'') (\<lambda>_.
     rbind (case ea_node_id args of None \<Rightarrow> Inr None | Some v \<Rightarrow> rbind (parse_node_id v) (\<lambda>i. Inr (Some i))) (\<lambda>nid.
     rbind (ensure (requires_node_id k \<longrightarrow> nid \<noteq> None) ''missing_required_flag'') (\<lambda>_.
     rbind (regular_file (ea_from_file args)) (\<lambda>len.
     rbind (ensure (len \<le> MAX_FROM_FILE_BYTES) ''from_file_too_large'') (\<lambda>_.
     rbind (ok_or ''from_file_unreadable'' (sf_bytes (ea_from_file args))) (\<lambda>bs.
     rbind (ok_or ''from_file_invalid_json'' (json_from_slice X bs)) (\<lambda>data.
     rbind (ok_or ''from_file_invalid_json'' (as_object data)) (\<lambda>_.
     rbind (validate_data_ids k (map_option node_id_str nid) data) (\<lambda>_.
     Inr (nid, key, data))))))))))))))"

text \<open>A conflict is refused, whichever of node and payload differs.\<close>

definition created_seq :: "append_outcome \<Rightarrow> (u64 \<times> bool) cli" where
  "created_seq out = (case out of
       Appended seq \<Rightarrow> Inr (seq, False)
     | IdempotentReplay prior \<Rightarrow> Inr (pe_seq prior, True)
     | Conflict prior \<Rightarrow> Inl ''idempotency_conflict'')"

definition create_append ::
    "ext \<Rightarrow> (u64 \<Rightarrow> time) \<Rightarrow> run_id \<Rightarrow> string \<Rightarrow> node_id option \<Rightarrow> string option \<Rightarrow> json \<Rightarrow> ('w, u64 \<times> bool) act" where
  "create_append X clock rid k nid key data = (case key of
       Some i \<Rightarrow> act_bind (act_io (append_and_apply_idempotent X clock rid k nid i (\<lambda>_. Inr data)))
                  (\<lambda>out. act_of (\<lambda>_. created_seq out))
     | None \<Rightarrow> act_bind (act_io (append_and_apply_unlocked X clock rid k nid None data))
                  (\<lambda>seq. act_of (\<lambda>_. Inr (seq, False))))"

text \<open>\<open>is_dir\<close> says whether the directory of the run exists, through a symbolic link too.\<close>

definition event_create ::
    "ext \<Rightarrow> (u64 \<Rightarrow> time) \<Rightarrow> run_id \<Rightarrow> (run_dir \<times> 'w \<Rightarrow> bool) \<Rightarrow> (nat \<Rightarrow> run_dir \<times> 'w \<Rightarrow> run_dir \<times> 'w) \<Rightarrow>
     create_event_args \<Rightarrow> ('w, created_payload) act" where
  "event_create X clock rid is_dir gap args =
     (let k = ea_kind args in
     act_bind (act_of (\<lambda>_. create_request X args)) (\<lambda>(nid, key, data).
     act_bind (act_gap gap 0) (\<lambda>_.
     act_bind (act_of (\<lambda>s. ensure (is_dir s) ''run_not_found'')) (\<lambda>_.
     act_bind (act_gap gap 1) (\<lambda>_.
     act_bind (act_of (\<lambda>(d, w). projected_paths X clock rid k nid data d)) (\<lambda>projections.
     if ea_dry_run args
     then act_of (\<lambda>_. Inr \<lparr>cp_kind = k, cp_node_id = nid, cp_seq = None, cp_idempotent_replay = None,
            cp_dry_run = Some True, cp_projections = projections\<rparr>)
     else
       act_bind (act_gap gap 2) (\<lambda>_.
       act_bind (create_append X clock rid k nid key data) (\<lambda>(seq, replayed).
       act_of (\<lambda>_. Inr \<lparr>cp_kind = k, cp_node_id = nid, cp_seq = Some seq,
            cp_idempotent_replay = (if replayed then Some True else None),
            cp_dry_run = None, cp_projections = projections\<rparr>)))))))))"

section \<open>Rounds of a resident worker\<close>

record round_args =
  oa_node_id :: string
  oa_summary :: "string option"
  oa_summary_file :: "bytes option option"  \<comment> \<open>\<open>Some None\<close>: a file that cannot be read\<close>
  oa_dry_run :: bool

record round_payload =
  op_node_id :: node_id
  op_resident_name :: string
  op_round :: u32
  op_attempt :: u32
  op_event_seq :: "u64 option"
  op_dry_run :: "bool option"

definition read_summary :: "string option \<Rightarrow> bytes option option \<Rightarrow> string cli" where
  "read_summary txt file =
     rbind (case (txt, file) of
         (Some t, None) \<Rightarrow> Inr t
       | (None, Some f) \<Rightarrow>
           rbind (ok_or ''invalid_summary_file'' f) (\<lambda>bs.
           ok_or ''invalid_summary_file'' (from_utf8 (take (MAX_ROUND_SUMMARY_BYTES + 1) bs)))
       | _ \<Rightarrow> Inl ''invalid_summary'') (\<lambda>summary.
     if trim summary = [] \<or> length summary > MAX_ROUND_SUMMARY_BYTES \<or> CHR 0x00 \<in> set summary
     then Inl ''invalid_summary'' else Inr summary)"

text \<open>The guards, under the run lock: the name of the resident, and the node of a live worker.\<close>

definition reporting_worker :: "run_id \<Rightarrow> node_id \<Rightarrow> run_dir \<Rightarrow> (string \<times> node) cli" where
  "reporting_worker rid nid d =
     rbind (cli_core (read_manifest_opt rid d)) (\<lambda>mo.
     rbind (ok_or ''run_not_found'' mo) (\<lambda>m.
     rbind (ok_or ''not_resident'' (m_resident m)) (\<lambda>policy.
     rbind (cli_core (read_node_opt rid d nid)) (\<lambda>no.
     rbind (ok_or ''node_not_found'' no) (\<lambda>n.
     rbind (ensure (\<not> (is_terminal (m_status m) \<or> is_terminal (n_status n))) ''worker_not_active'') (\<lambda>_.
     rbind (case n_worker_exit n of None \<Rightarrow> Inr () | Some _ \<Rightarrow> Inl ''worker_not_active'') (\<lambda>_.
     Inr (rp_name policy, n))))))))"

definition reported_round :: "node \<Rightarrow> u32" where
  "reported_round n =
     (let amending = (case Option.bind (n_resident n) open_round of
            None \<Rightarrow> False | Some r \<Rightarrow> rr_attempt r = n_retry_attempts n);
          reported = (case n_resident n of None \<Rightarrow> 0 | Some s \<Rightarrow> rs_rounds_reported s)
      in if amending then reported else reported + 1)"

definition round_data :: "u32 \<Rightarrow> string \<Rightarrow> json" where
  "round_data attempt summary =
     Object [(''attempt'', Number (PosInt (ucast attempt))), (''summary'', String summary)]"

text \<open>\<open>lock\<close> is the result of opening the existing lock file of the run; \<open>mark attempt\<close> writes the marker file
  the Pi adapter waits for. A marker that cannot be written is only a warning.\<close>

definition node_round_report ::
    "ext \<Rightarrow> (u64 \<Rightarrow> time) \<Rightarrow> run_id \<Rightarrow> unit cli \<Rightarrow> (u32 \<Rightarrow> 'w \<Rightarrow> 'w option) \<Rightarrow> round_args \<Rightarrow> ('w, round_payload) act" where
  "node_round_report X clock rid lock mark args =
     act_bind (act_of (\<lambda>_. read_summary (oa_summary args) (oa_summary_file args))) (\<lambda>summary.
     act_bind (act_of (\<lambda>_. parse_node_id (oa_node_id args))) (\<lambda>nid.
     act_bind (act_of (\<lambda>_. lock)) (\<lambda>_.
     act_bind (act_of (\<lambda>(d, w). reporting_worker rid nid d)) (\<lambda>(name, n).
     let attempt = n_retry_attempts n;
         payload = (\<lambda>seq dry. \<lparr>op_node_id = nid, op_resident_name = name, op_round = reported_round n,
            op_attempt = attempt, op_event_seq = seq, op_dry_run = dry\<rparr>)
     in if oa_dry_run args then act_of (\<lambda>_. Inr (payload None (Some True)))
        else
          act_bind (act_io (append_and_apply_unlocked X clock rid ''node.round_reported'' (Some nid) None
              (round_data attempt summary))) (\<lambda>seq (d, w).
          (Inr (payload (Some seq) None), d, unwrap_or w (mark attempt w)))))))"

end
