(* ===== verification/Verb_Facts.thy ===== *)
theory Verb_Facts
  imports Verbs Run_Merge_Facts Report_Facts Telemetry_Facts
begin

text \<open>
  What the verbs do to a run: at most one event, never a merge report, and never a change to a settled
  node; a keyed report is recorded once; a round report is answered with the number the projection
  keeps; and a report nested as deep as the reader allows is accepted although its event line is not
  readable any more.
\<close>

section \<open>At most one event\<close>

definition records_one :: "ext \<Rightarrow> run_id \<Rightarrow> (event \<Rightarrow> bool) \<Rightarrow> run_dir \<Rightarrow> run_dir \<Rightarrow> bool" where
  "records_one X rid P d d' \<longleftrightarrow> d' = d \<or>
     (\<exists>ev ops. P ev \<and> reduce_event_to_ops X rid d ev = Inr ops \<and> d' = recorded_state X rid ev ops d)"

lemma records_none [simp]: "records_one X rid P d d"
  by (simp add: records_one_def)

lemma records_mono: "records_one X rid P d d' \<Longrightarrow> (\<And>ev. P ev \<Longrightarrow> Q ev) \<Longrightarrow> records_one X rid Q d d'"
  unfolding records_one_def by blast

text \<open>A way to write to a log: whatever the answer, the run gains at most one event of the shape it was
  asked to write.\<close>

locale event_writer =
  fixes emit :: "ext \<Rightarrow> (u64 \<Rightarrow> time) \<Rightarrow> run_id \<Rightarrow> string \<Rightarrow> node_id option \<Rightarrow> string option \<Rightarrow> json \<Rightarrow> 'a io"
  assumes written: "ext_ok X \<Longrightarrow> synced X rid d evs \<Longrightarrow> key \<noteq> Some [] \<Longrightarrow> emit X clock rid k nid key data d = (r, d') \<Longrightarrow>
    records_one X rid (\<lambda>ev. \<exists>s. ev = new_event clock rid k nid key data s) d d'"
begin

lemma act_written:
  assumes "ext_ok X" and "synced X rid (fst s) evs" and "key \<noteq> Some []" and "\<And>i. P (new_event clock rid k nid key data i)"
    and "act_bind (act_io (emit X clock rid k nid key data)) (\<lambda>x. act_of (f x)) s = (r, s')"
  shows "records_one X rid P (fst s) (fst s')"
proof -
  obtain q d' where w: "emit X clock rid k nid key data (fst s) = (q, d')" by (cases "emit X clock rid k nid key data (fst s)")
  then have "fst s' = d'" using assms(5) by (cases q) (auto simp: act_defs cli_core_def)
  then show ?thesis using written[OF assms(1-3) w] assms(4) by (auto elim: records_mono)
qed

end

lemma reporting_written:
  assumes "ext_ok X" and "synced X rid d evs" and "append_and_apply_reporting X clock rid k nid key data d = (r, d')"
  shows "records_one X rid (\<lambda>ev. \<exists>s. ev = new_event clock rid k nid key data s) d d'"
  using assms append_synced[OF assms(1,2) refl, of clock k nid key data]
  by (auto simp: records_one_def split: sum.splits)

interpretation plain_writer: event_writer append_and_apply_unlocked
proof
  fix X rid d evs key clock k nid data and r :: "u64 res" and d'
  assume "ext_ok X" "synced X rid d evs" "append_and_apply_unlocked X clock rid k nid key data d = (r, d')"
  then show "records_one X rid (\<lambda>ev. \<exists>s. ev = new_event clock rid k nid key data s) d d'"
    by (cases "append_and_apply_reporting X clock rid k nid key data d")
      (auto simp: append_and_apply_unlocked_def bind_io_def ret_def split: sum.splits dest: reporting_written)
qed

interpretation event_entry: event_writer append_and_apply_event
proof
  fix X rid d evs key clock k nid data and r :: "append_result res" and d'
  assume X: "ext_ok X" and s: "synced X rid d evs" and a: "append_and_apply_event X clock rid k nid key data d = (r, d')"
  obtain q d1 where q: "append_and_apply_reporting X clock rid k nid key data d = (q, d1)"
    by (cases "append_and_apply_reporting X clock rid k nid key data d")
  have "d' = d \<or> d' = d1" using a q replay_synced[OF X s] find_prior_synced[OF X s]
    by (auto simp: append_and_apply_event_def bind_io_def reading_def ret_def split: option.splits sum.splits)
  then show "records_one X rid (\<lambda>ev. \<exists>s. ev = new_event clock rid k nid key data s) d d'"
    using reporting_written[OF X s q] by auto
qed

lemma create_append_written:
  assumes X: "ext_ok X" and s: "synced X rid (fst s) evs" and key: "key \<noteq> Some []"
    and P: "\<And>i. P (new_event clock rid k nid key data i)" and a: "create_append X clock rid k nid key data s = (r, s')"
  shows "records_one X rid P (fst s) (fst s')"
proof (cases key)
  case None
  then show ?thesis using plain_writer.act_written[where P = P, OF X s key P, where s' = s'] a by (simp add: create_append_def)
next
  case (Some i)
  obtain q d1 where q: "append_and_apply_unlocked X clock rid k nid key data (fst s) = (q, d1)"
    by (cases "append_and_apply_unlocked X clock rid k nid key data (fst s)")
  have "i \<noteq> []" using key Some by simp
  then have "fst s' = fst s \<or> fst s' = d1"
    using a q Some idempotent_synced[OF X s, of i "\<lambda>_. Inr data" data clock k nid]
    by (auto simp: create_append_def act_defs cli_core_def bind_io_def ret_def split: sum.splits option.splits)
  then show ?thesis using plain_writer.written[OF X s key q] P by (auto elim: records_mono)
qed

section \<open>Requests\<close>

lemma optional_key_nonempty: "optional_key ko = Inr key \<Longrightarrow> key \<noteq> Some []"
  by (auto simp: optional_key_def require_nonempty_def res_simps split: option.splits if_splits)

lemma report_accepted: "map_report_validation_error r = Inr u \<longleftrightarrow> r = Inr ()"
  by (cases r) (simp_all add: map_report_validation_error_def)

lemma validated_object: "validate_report_payload data = Inr () \<Longrightarrow> \<exists>m. data = Object m"
  by (cases data) (simp_all add: validate_report_payload_def res_simps ok_or_def)

lemma normalized_object:
  "\<exists>m'. normalize_agent_origin (Object m) = stamp OriginAgent (Object m') \<and> (m' = m \<or> m' = map_remove ''via'' m)"
  by (auto simp: normalize_agent_origin_def)

lemma agent_report_is_no_merge:
  assumes "report_request X args = Inr (nid, key, data)"
  shows "\<not> report_is_confirmed_merge data" and "key \<noteq> Some []"
proof -
  from assms obtain raw where v: "validate_report_payload raw = Inr ()" and data: "data = normalize_agent_origin raw"
    and key: "optional_key (ra_idempotency_key args) = Inr key"
    by (auto simp: report_request_def res_simps report_accepted)
  then obtain m where "data = stamp OriginAgent (Object m)" using validated_object[OF v] normalized_object by metis
  then have "get data REPORT_ORIGIN_KEY \<noteq> None" "from_report data = Some OriginAgent"
    using stamp_roundtrip[of OriginAgent m] by (auto simp: stamp_def)
  then show "\<not> report_is_confirmed_merge data" using forged_via_is_no_merge[of data] by (simp add: is_run_merge_def)
  show "key \<noteq> Some []" by (rule optional_key_nonempty[OF key])
qed

lemma created_kind:
  assumes "create_request X args = Inr (nid, key, data)"
  shows "ea_kind args \<in> set ALLOWED_KINDS - {''run.created'', ''node.report''}" and "key \<noteq> Some []"
  using assms optional_key_nonempty[of "ea_idempotency_key args" key]
  by (auto simp: create_request_def Let_def res_simps FORBIDDEN_KINDS_FOR_EVENT_CREATE_def ensure_def split: if_splits sum.splits)

section \<open>The verbs\<close>

datatype agent_verb = ReportVerb report_args | CreateVerb create_event_args | RoundVerb round_args

definition run_verb ::
    "ext \<Rightarrow> (u64 \<Rightarrow> time) \<Rightarrow> run_id \<Rightarrow> (run_dir \<times> 'w \<Rightarrow> bool) \<Rightarrow> unit cli \<Rightarrow> (u32 \<Rightarrow> 'w \<Rightarrow> 'w option) \<Rightarrow>
     (nat \<Rightarrow> run_dir \<times> 'w \<Rightarrow> run_dir \<times> 'w) \<Rightarrow> agent_verb \<Rightarrow> run_dir \<times> 'w \<Rightarrow> run_dir \<times> 'w" where
  "run_verb X clock rid is_dir lock mark gap v s = (case v of
       ReportVerb a \<Rightarrow> snd (node_report X clock rid gap a s)
     | CreateVerb a \<Rightarrow> snd (event_create X clock rid is_dir gap a s)
     | RoundVerb a \<Rightarrow> snd (node_round_report X clock rid lock mark a s))"

text \<open>Where a verb may stand when it takes the lock: the others have acted up to three times.\<close>

definition interleavings :: "(nat \<Rightarrow> 's \<Rightarrow> 's) \<Rightarrow> 's \<Rightarrow> 's list" where
  "interleavings gap s = [s, gap 0 s, gap 1 (gap 0 s), gap 2 (gap 1 (gap 0 s))]"

lemma act_gap_step [simp]: "act_bind (act_gap gap i) f s = f () (gap i s)"
  by (simp add: act_defs)

lemma act_answer [simp]: "act_of g s = (g s, s)"
  by (simp add: act_defs)

lemma act_guardE:
  assumes "act_bind (act_of g) f s = (r, s')"
  obtains "s' = s" | x where "g s = Inr x" "f x s = (r, s')"
  using assms by (auto simp: act_defs split: sum.splits)

lemma act_ioE:
  assumes "act_bind (act_io m) f s = (r, s')"
  obtains e d' where "m (fst s) = (Inl e, d')" "s' = (d', snd s)" "r = Inl (from_core e)"
  | x d' where "m (fst s) = (Inr x, d')" "f x (d', snd s) = (r, s')"
  using assms by (auto simp: act_defs cli_core_def split: sum.splits prod.splits)

text \<open>The others leave the projections up to date whenever they release the lock.\<close>

definition gap_synced :: "ext \<Rightarrow> run_id \<Rightarrow> (nat \<Rightarrow> run_dir \<times> 'w \<Rightarrow> run_dir \<times> 'w) \<Rightarrow> bool" where
  "gap_synced X rid gap \<longleftrightarrow>
     (\<forall>i t evs. synced X rid (fst t) evs \<longrightarrow> (\<exists>evs'. synced X rid (fst (gap i t)) evs'))"

definition agent_event :: "event \<Rightarrow> bool" where
  "agent_event ev \<longleftrightarrow> (ev_kind ev = ''node.report'' \<longrightarrow> \<not> report_is_confirmed_merge (ev_data ev)) \<and>
     ev_kind ev \<in> insert ''node.round_reported'' (set ALLOWED_KINDS - {''run.created''})"

lemma report_verb:
  assumes "ext_ok X" and "synced X rid (fst (gap 2 (gap 1 (gap 0 s)))) evs" and "node_report X clock rid gap args s = (r, s')"
  shows "\<exists>p\<in>set (interleavings gap s). records_one X rid agent_event (fst p) (fst s')"
proof (cases "report_request X args")
  case (Inl e)
  then show ?thesis using assms(3) by (auto simp: node_report_def interleavings_def elim: act_guardE)
next
  case (Inr q)
  obtain nid key data where q: "q = (nid, key, data)" by (cases q)
  note req = agent_report_is_no_merge[OF Inr[unfolded q]]
  have P: "agent_event (new_event clock rid ''node.report'' (Some nid) key data i)" for i
    using req(1) by (simp add: agent_event_def new_event_def ALLOWED_KINDS_def)
  let ?s = "gap 2 (gap 1 (gap 0 s))" and ?send = "append_and_apply_event X clock rid ''node.report'' (Some nid) key data"
  have "s' \<in> set [s, gap 0 s, gap 1 (gap 0 s)] \<or>
      act_bind (act_io ?send) (\<lambda>res. act_of (\<lambda>_. report_answer nid data res)) ?s = (r, s')"
    using assms(3) Inr q by (auto simp: node_report_def elim!: act_guardE split: if_splits)
  then show ?thesis
    by (auto simp: interleavings_def simp del: One_nat_def dest: event_entry.act_written[where P = agent_event, OF assms(1,2) req(2) P])
qed

lemma create_verb:
  assumes "ext_ok X" and "synced X rid (fst (gap 2 (gap 1 (gap 0 s)))) evs"
    and "event_create X clock rid is_dir gap args s = (r, s')"
  shows "\<exists>p\<in>set (interleavings gap s). records_one X rid agent_event (fst p) (fst s')"
proof (cases "create_request X args")
  case (Inl e)
  then show ?thesis using assms(3) by (auto simp: event_create_def interleavings_def Let_def elim: act_guardE)
next
  case (Inr q)
  obtain nid key data where q: "q = (nid, key, data)" by (cases q)
  note req = created_kind[OF Inr[unfolded q]]
  have P: "agent_event (new_event clock rid (ea_kind args) nid key data i)" for i
    using req(1) by (simp add: agent_event_def new_event_def)
  let ?s = "gap 2 (gap 1 (gap 0 s))"
  obtain x s1 where c: "create_append X clock rid (ea_kind args) nid key data ?s = (x, s1)" by (metis surj_pair)
  note w = create_append_written[where P = agent_event, OF assms(1,2) req(2) P c]
  have "s' \<in> set [s, gap 0 s, gap 1 (gap 0 s)] \<or> s' = s1" using assms(3) Inr q c
    by (auto simp: event_create_def Let_def act_bind_def[of "create_append _ _ _ _ _ _ _"]
        elim!: act_guardE split: sum.splits if_splits)
  then show ?thesis using w by (auto simp: interleavings_def)
qed

lemma round_verb:
  assumes "ext_ok X" and "synced X rid (fst s) evs" and "node_round_report X clock rid lock mark args s = (r, s')"
  shows "\<exists>p\<in>set (interleavings gap s). records_one X rid agent_event (fst p) (fst s')"
proof -
  have P: "agent_event (new_event clock rid ''node.round_reported'' (Some nid) None data i)" for nid data i
    by (simp add: agent_event_def new_event_def)
  have w: "append_and_apply_unlocked X clock rid ''node.round_reported'' (Some nid) None data (fst s) = (q, d') \<Longrightarrow>
      records_one X rid agent_event (fst s) d'" for nid data q d'
    by (drule plain_writer.written[OF assms(1,2), rotated]) (auto elim: records_mono simp: P)
  have "fst s' = fst s \<or> (\<exists>nid data q. append_and_apply_unlocked X clock rid ''node.round_reported'' (Some nid) None data (fst s) = (q, fst s'))"
    using assms(3)
    by (auto simp: node_round_report_def Let_def elim!: act_guardE act_ioE split: prod.splits if_splits; metis)
  then show ?thesis using w by (auto simp: interleavings_def)
qed

lemma recorded_log_bytes:
  assumes "reduce_event_to_ops X rid d ev = Inr ops" and "read_manifest_opt rid d = Inr mo"
  shows "d_events (recorded_state X rid ev ops d) = Some (unwrap_or [] (d_events d) @ event_line X ev)"
  using recorded_ok[OF assms] by (auto simp: same_log_def logged_state_def append_line_def unwrap_or_def split: option.splits)

lemma recorded_terminal:
  assumes r: "reduce_event_to_ops X rid d ev = Inr ops" and m: "read_manifest_opt rid d = Inr (Some m)"
    and n: "read_node_opt rid d nid = Inr (Some n)" "is_terminal (n_status n)"
    and ev: "ev_kind ev = ''node.report'' \<longrightarrow> \<not> report_is_confirmed_merge (ev_data ev)"
  shows "\<exists>n'. read_node_opt rid (recorded_state X rid ev ops d) nid = Inr (Some n') \<and> n_status n' = n_status n"
proof -
  obtain d1 where c: "commit_ops rid ops d = (Inr (), d1)" using reducer.commit_plan[OF r] by blast
  then have "apply_event X rid ev d = (Inr (), d1)" using r by (simp add: apply_event_Inr)
  from terminal_node_absorbing[OF this n] ev recorded_node[OF r m, of nid] c show ?thesis by auto
qed

text \<open>C14: no worker can forge a merge. Whatever a \<open>node report\<close>, \<open>event create\<close> or \<open>node round-report\<close> is
  asked to write, and whatever others do to the run meanwhile, the run gains at most one event. That
  event is never a confirmed merge report and never a step of a merge transaction (its kind does not
  begin with \<open>merge.\<close>, so neither the start, the rebase, the prepared marker nor the abort of one) nor
  a fact of a caller (\<open>caller.\<close>), and every node that had settled keeps its status.\<close>

theorem agents_forge_no_merge:
  assumes "ext_ok X" and "synced X rid (fst s) evs"
    and "gap_synced X rid gap"
  shows "\<exists>p\<in>set (interleavings gap s). let d = fst p; d' = fst (run_verb X clock rid is_dir lock mark gap v s) in
    d' = d \<or> (\<exists>ev. d_events d' = Some (unwrap_or [] (d_events d) @ event_line X ev) \<and>
      (ev_kind ev = ''node.report'' \<longrightarrow> \<not> report_is_confirmed_merge (ev_data ev)) \<and>
      \<not> prefix ''merge.'' (ev_kind ev) \<and> \<not> prefix ''caller.'' (ev_kind ev) \<and>
      ev_kind ev \<notin> {''run.created'', ''node.round_landed''} \<and>
      (\<forall>nid n. read_node_opt rid d nid = Inr (Some n) \<and> is_terminal (n_status n) \<longrightarrow>
        (\<exists>n'. read_node_opt rid d' nid = Inr (Some n') \<and> n_status n' = n_status n)))"
proof -
  let ?s' = "run_verb X clock rid is_dir lock mark gap v s"
  obtain evs' where sy: "synced X rid (fst (gap 2 (gap 1 (gap 0 s)))) evs'" using assms(2,3) unfolding gap_synced_def by meson
  have "\<exists>p\<in>set (interleavings gap s). records_one X rid agent_event (fst p) (fst ?s')"
    using report_verb[where gap = gap and s = s, OF assms(1) sy] create_verb[where gap = gap and s = s, OF assms(1) sy]
      round_verb[where gap = gap and s = s, OF assms(1,2)]
    by (cases v) (simp_all add: run_verb_def, (metis prod.collapse)+)
  then obtain p where p: "p \<in> set (interleavings gap s)" "records_one X rid agent_event (fst p) (fst ?s')" by blast
  obtain evs1 where "synced X rid (fst p) evs1" using p(1) assms(2,3) unfolding interleavings_def gap_synced_def by (auto; meson)
  then obtain m where m: "read_manifest_opt rid (fst p) = Inr (Some m)" by (auto simp: synced_def)
  show ?thesis unfolding Let_def
  proof (intro bexI[OF _ p(1)], cases "fst ?s' = fst p")
    case False
    then obtain ev ops where ev: "agent_event ev" "reduce_event_to_ops X rid (fst p) ev = Inr ops"
      "fst ?s' = recorded_state X rid ev ops (fst p)" using p(2) by (auto simp: records_one_def)
    then show "fst ?s' = fst p \<or> (\<exists>ev. d_events (fst ?s') = Some (unwrap_or [] (d_events (fst p)) @ event_line X ev) \<and>
        (ev_kind ev = ''node.report'' \<longrightarrow> \<not> report_is_confirmed_merge (ev_data ev)) \<and>
        \<not> prefix ''merge.'' (ev_kind ev) \<and> \<not> prefix ''caller.'' (ev_kind ev) \<and>
      ev_kind ev \<notin> {''run.created'', ''node.round_landed''} \<and>
        (\<forall>nid n. read_node_opt rid (fst p) nid = Inr (Some n) \<and> is_terminal (n_status n) \<longrightarrow>
          (\<exists>n'. read_node_opt rid (fst ?s') nid = Inr (Some n') \<and> n_status n' = n_status n)))"
      using recorded_log_bytes[OF ev(2) m] recorded_terminal[OF ev(2) m]
      by (intro disjI2 exI[of _ ev]) (auto simp: agent_event_def ALLOWED_KINDS_def)
  qed simp
qed

section \<open>A report settles its node, once\<close>

definition reported_status :: "json \<Rightarrow> status" where
  "reported_status data = (if get data ''cancelled'' = Some (Bool True) then Cancelled
     else if get data ''success'' = Some (Bool True) then Done else Failed)"

lemma normalized_get:
  "k \<noteq> ''via'' \<Longrightarrow> k \<noteq> REPORT_ORIGIN_KEY \<Longrightarrow> get (normalize_agent_origin (Object m)) k = map_of m k"
  by (auto simp: normalize_agent_origin_def stamp_def)

lemma validated_status:
  assumes "report_request X args = Inr (nid, key, data)" and "ev_data ev = data"
  shows "report_terminal_status ev = Inr (reported_status data)"
proof -
  from assms(1) obtain raw where v: "validate_report_payload raw = Inr ()" and data: "data = normalize_agent_origin raw"
    by (auto simp: report_request_def res_simps report_accepted)
  obtain m where m: "raw = Object m" using validated_object[OF v] by blast
  then have r: "validate_required_fields m = Inr ()"
    using v by (simp add: validate_report_payload_def res_simps ok_or_def)
  then obtain b where b: "map_of m ''success'' = Some (Bool b)"
    by (auto simp: validate_required_fields_def res_simps ok_or_def ensure_def is_boolean_def split: option.splits if_splits
        elim!: as_bool.elims)
  with r have "map_of m ''cancelled'' \<in> {None, Some Null, Some (Bool False)} \<or> map_of m ''cancelled'' = Some (Bool True) \<and> \<not> b"
    by (auto simp: validate_required_fields_def res_simps ok_or_def ensure_def is_boolean_def split: option.splits if_splits
        elim!: as_bool.elims)
  with b show ?thesis using assms(2) data m
    by (cases b) (auto simp: report_terminal_status_def reported_status_def optional_bool_def normalized_get)
qed

lemma reduce_report:
  assumes "report_request X args = Inr (nid, key, data)" and n: "read_node_opt rid d nid = Inr (Some n)" "\<not> is_terminal (n_status n)"
  shows "\<exists>n'. reduce_event_to_ops X rid d (new_event clock rid ''node.report'' (Some nid) key data s) = Inr [OpNode n'] \<and>
    n_node_id n' = nid \<and> n_status n' = reported_status data \<and> n_last_report n' = Some data"
proof -
  have "n_node_id n = nid" using node_store.read_checked[OF n(1)] by simp
  then show ?thesis using n validated_status[OF assms(1), of "new_event clock rid ''node.report'' (Some nid) key data s"]
    by (simp add: reduce_event_to_ops_def reducers_def reduce_node_report_def new_event_def
        require_envelope_node_id_def ok_or_def with_node_def)
qed

lemma node_report_quiet:
  assumes "report_request X args = Inr (nid, key, data)" and "\<not> ra_dry_run args"
    and "read_manifest_opt rid d = Inr (Some m)" and "read_node_opt rid d nid = Inr (Some n)"
  shows "node_report X clock rid quiet args (d, w) =
    (case append_and_apply_event X clock rid ''node.report'' (Some nid) key data d of
       (Inl e, d') \<Rightarrow> (Inl (from_core e), d', w)
     | (Inr res, d') \<Rightarrow> (report_answer nid data res, d', w))"
  using assms by (auto simp: node_report_def act_defs quiet_def run_exists_def node_exists_def cli_core_def ok_or_def
      split: sum.splits prod.splits)

text \<open>The second report under a key.\<close>

lemma report_replay:
  assumes X: "ext_ok X" and s: "synced X rid d evs" and p: "prior_with_key ''node.report'' key evs = Some prior" "ev_node_id prior = Some nid0"
    and req: "report_request X args = Inr (nid, Some key, data)" "\<not> ra_dry_run args" and n: "read_node_opt rid d nid = Inr (Some n)"
  shows "node_report X clock rid quiet args (d, w) =
    (if nid = nid0 \<and> data = ev_data prior
     then Inr \<lparr>rp_node_id = nid, rp_event_seq = Some (ev_seq prior), rp_idempotent_replay = Some True, rp_dry_run = None\<rparr>
     else Inl ''idempotency_conflict'', d, w)"
proof -
  obtain m where m: "read_manifest_opt rid d = Inr (Some m)" using s by (auto simp: synced_def)
  have "append_and_apply_event X clock rid ''node.report'' (Some nid) (Some key) data d =
      (Inr \<lparr>ar_seq = ev_seq prior, ar_idempotent_replay = True, ar_applied = False, ar_prior = Some (prior_of prior)\<rparr>, d)"
    using replay_synced[OF X s] find_prior_synced[OF X s, of "''node.report''" key] p(1)
    by (simp add: append_and_apply_event_def bind_io_def reading_def ret_def prior_of_def)
  then show ?thesis using node_report_quiet[where w = w and clock = clock, OF req m n] p(2)
    by (auto simp: report_answer_def prior_of_def unwrap_or_def ok_or_def)
qed

text \<open>C24: a report settles its node, and only the first one under a key counts. Every report file that
  passes the strict validator settles a working node with the status it asks for and is answered with
  the next sequence number; after that any report under the same key changes nothing and is answered
  with the same number when node and payload agree and refused as a conflict otherwise.\<close>

theorem report_settles_once:
  assumes X: "ext_ok X" and rm: "log_room X rid 1 d evs" and v: "valid_target rid nid"
    and req: "report_request X args = Inr (nid, Some key, data)" "\<not> ra_dry_run args" and f: "fits (MAX_DEPTH - 1) data"
    and new: "prior_with_key ''node.report'' key evs = None"
    and n: "read_node_opt rid d nid = Inr (Some n)" "\<not> is_terminal (n_status n)"
  shows "\<exists>d' n'. node_report X clock rid quiet args (d, w) =
      (Inr \<lparr>rp_node_id = nid, rp_event_seq = Some (last_seq evs + 1), rp_idempotent_replay = None, rp_dry_run = None\<rparr>, d', w) \<and>
    read_node_opt rid d' nid = Inr (Some n') \<and> n_status n' = reported_status data \<and> n_last_report n' = Some data \<and>
    (\<forall>args' nid' data' n''. report_request X args' = Inr (nid', Some key, data') \<and> \<not> ra_dry_run args' \<and>
       read_node_opt rid d' nid' = Inr (Some n'') \<longrightarrow>
       node_report X clock rid quiet args' (d', w) =
         (if nid' = nid \<and> data' = data
          then Inr \<lparr>rp_node_id = nid, rp_event_seq = Some (last_seq evs + 1), rp_idempotent_replay = Some True, rp_dry_run = None\<rparr>
          else Inl ''idempotency_conflict'', d', w))"
proof -
  let ?ev = "new_event clock rid ''node.report'' (Some nid) (Some key) data (last_seq evs + 1)"
  have key: "Some key = Some i \<Longrightarrow> prior_with_key ''node.report'' i evs = None" for i using new by simp
  obtain m where m: "read_manifest_opt rid d = Inr (Some m)" using rm by (auto simp: log_room_def synced_def)
  have sy: "synced X rid d evs" using rm by (simp add: log_room_def)
  obtain ar d' n' where a: "append_and_apply_event X clock rid ''node.report'' (Some nid) (Some key) data d = (Inr ar, d')"
    "log_room X rid 0 d' (evs @ [?ev])" "read_node_opt rid d' nid = Inr (Some n')"
    "n_status n' = reported_status data \<and> n_last_report n' = Some data"
    by (rule node_event[where P = "\<lambda>n'. n_status n' = reported_status data \<and> n_last_report n' = Some data" and k = 0,
        OF X _ v f key reduce_report[OF req(1) n]]) (use rm in auto)
  have "report_answer nid data ar =
      Inr \<lparr>rp_node_id = nid, rp_event_seq = Some (last_seq evs + 1), rp_idempotent_replay = None, rp_dry_run = None\<rparr>"
    using a(1) new replay_synced[OF X sy] find_prior_synced[OF X sy, of "''node.report''" key]
      append_synced[OF X sy refl, of clock "''node.report''" "Some nid" "Some key" data]
    by (auto simp: append_and_apply_event_def bind_io_def reading_def ret_def report_answer_def new_event_def split: sum.splits)
  then have "node_report X clock rid quiet args (d, w) =
      (Inr \<lparr>rp_node_id = nid, rp_event_seq = Some (last_seq evs + 1), rp_idempotent_replay = None, rp_dry_run = None\<rparr>, d', w)"
    using node_report_quiet[where w = w and clock = clock, OF req m n(1)] a(1) by simp
  moreover have p: "prior_with_key ''node.report'' key (evs @ [?ev]) = Some ?ev"
    using new by (simp add: prior_with_key_append) (simp add: prior_with_key_def new_event_def)
  have "synced X rid d' (evs @ [?ev])" using a(2) by (simp add: log_room_def)
  note rep = report_replay[where w = w and clock = clock, OF X this p, of nid]
  ultimately show ?thesis using a(3,4) rep by (auto simp: new_event_def intro!: exI[of _ d'])
qed

section \<open>Rounds are counted\<close>

lemma summary_accepted:
  assumes "read_summary txt file = Inr summary"
  shows "trim summary \<noteq> [] \<and> length summary \<le> MAX_ROUND_SUMMARY_BYTES \<and> CHR 0x00 \<notin> set summary"
  using assms by (auto simp: read_summary_def res_simps split: if_splits)

lemma try_u32_widen: "try_u32 (ucast (a :: u32)) = Some a"
  using unsigned_less[of a] by (simp add: try_u32_def unat_widen narrow_widen)

text \<open>The round that is open after a report: the one the answer names, of the reporting attempt.\<close>

definition round_open :: "node \<Rightarrow> string \<Rightarrow> node \<Rightarrow> bool" where
  "round_open n summary n' \<longleftrightarrow> n_status n' = n_status n \<and> n_worker_exit n' = n_worker_exit n \<and>
     n_retry_attempts n' = n_retry_attempts n \<and>
     (\<exists>st r. n_resident n' = Some st \<and> rs_rounds_reported st = reported_round n \<and> open_round st = Some r \<and>
        rr_attempt r = n_retry_attempts n \<and> rr_summary r = summary)"

lemma reported_again: "round_open n summary n' \<Longrightarrow> reported_round n' = reported_round n"
  by (auto simp: round_open_def reported_round_def[of n'])

lemma reduce_round:
  assumes m: "read_manifest_opt rid d = Inr (Some m)" "m_resident m = Some policy"
    and n: "read_node_opt rid d nid = Inr (Some n)" "\<not> is_terminal (n_status n)"
    and room: "unat (rs_rounds_reported (resident_of n)) + 1 < 2 ^ 32" and summary: "read_summary txt file = Inr summary"
  shows "\<exists>n'. reduce_event_to_ops X rid d (new_event clock rid ''node.round_reported'' (Some nid) None
      (round_data (n_retry_attempts n) summary) s) = Inr [OpNode n'] \<and> n_node_id n' = nid \<and> round_open n summary n'"
proof -
  let ?ev = "new_event clock rid ''node.round_reported'' (Some nid) None (round_data (n_retry_attempts n) summary) s"
  have id: "n_node_id n = nid" using node_store.read_checked[OF n(1)] by simp
  define st where "st = report_round ?ev (n_retry_attempts n) summary (resident_of n)"
  have "rs_rounds_reported st = reported_round n \<and> (\<exists>r. open_round st = Some r \<and> rr_attempt r = n_retry_attempts n \<and> rr_summary r = summary)"
    using room unfolding st_def
    by (auto simp: report_round_def Let_def reported_round_def resident_of_def open_round_def filter_opt_def resident_state_default_def
        saturating_add_def split: option.splits if_splits)
  then have "round_open n summary (n\<lparr>n_resident := Some st, n_awaiting_input := None, n_updated_at := ev_ts ?ev\<rparr>)"
    by (simp add: round_open_def)
  then show ?thesis using m n id summary_accepted[OF summary]
    by (simp add: reduce_event_to_ops_def reducers_def reduce_node_round_reported_def require_envelope_node_id_def ok_or_def
        with_node_def require_resident_def evidence_attempt_def get_str_def get_u64_def try_u32_widen round_data_def filter_opt_def
        new_event_def flip: st_def) (simp add: st_def new_event_def round_data_def)
qed

lemma round_data_fits: "fits (MAX_DEPTH - 1) (round_data a summary)"
  by (rule depth) (simp add: round_data_def fits_def)

text \<open>A round report is counted under the number it is answered with. The live worker of a resident run
  that ends its round is told the number of the round that the projection then keeps open for its
  attempt, with its summary; the node stays as it was otherwise, so that a second report of the same
  attempt amends that round and does not start another.\<close>

theorem round_report_is_counted:
  assumes "ext_ok X" and "room X rid 1 d" and "valid_target rid nid" and "parse_node_id (oa_node_id args) = Inr nid"
    and "read_summary (oa_summary args) (oa_summary_file args) = Inr summary" and "reporting_worker rid nid d = Inr (name, n)"
    and "unat (rs_rounds_reported (resident_of n)) + 1 < 2 ^ 32" and "\<not> oa_dry_run args"
  shows "\<exists>d' w' payload n'. node_round_report X clock rid (Inr ()) mark args (d, w) = (Inr payload, d', w') \<and>
    op_node_id payload = nid \<and> op_attempt payload = n_retry_attempts n \<and>
    read_node_opt rid d' nid = Inr (Some n') \<and> round_open n summary n' \<and>
    rs_rounds_reported (resident_of n') = op_round payload \<and> reported_round n' = op_round payload"
proof -
  obtain m policy where g: "read_manifest_opt rid d = Inr (Some m)" "m_resident m = Some policy"
      "read_node_opt rid d nid = Inr (Some n)" "\<not> is_terminal (n_status n)"
    using assms(6) by (auto simp: reporting_worker_def res_simps cli_core_def ensure_def split: sum.splits option.splits if_splits)
  let ?data = "round_data (n_retry_attempts n) summary"
  obtain s d' n' where a: "append_and_apply_unlocked X clock rid ''node.round_reported'' (Some nid) None ?data d = (Inr s, d')"
    "read_node_opt rid d' nid = Inr (Some n')" "round_open n summary n'"
    by (rule append_event_to_node[where k = 0, OF assms(1) _ assms(3) round_data_fits reduce_round[OF g assms(7,5)]])
      (use assms(2) in auto)
  have "node_round_report X clock rid (Inr ()) mark args (d, w) =
      (Inr \<lparr>op_node_id = nid, op_resident_name = name, op_round = reported_round n, op_attempt = n_retry_attempts n,
        op_event_seq = Some s, op_dry_run = None\<rparr>, d', unwrap_or w (mark (n_retry_attempts n) w))"
    using assms(4-6,8) a(1) by (simp add: node_round_report_def act_defs cli_core_def Let_def)
  then show ?thesis using a(2,3) reported_again[OF a(3)] by (auto simp: round_open_def resident_of_def)
qed

section \<open>A report as deep as the reader allows\<close>

text \<open>Values with at least so many arrays and objects inside each other, and what serde_json documents of its
  reader: a text that nests deeper than the recursion limit is refused.\<close>

fun deep :: "nat \<Rightarrow> json \<Rightarrow> bool" where
  "deep 0 v = True"
| "deep (Suc k) (Array xs) = (k = 0 \<or> (\<exists>v\<in>set xs. deep k v))"
| "deep (Suc k) (Object m) = (k = 0 \<or> (\<exists>p\<in>set m. deep k (snd p)))"
| "deep (Suc k) _ = False"

definition depth_limited :: "ext \<Rightarrow> bool" where
  "depth_limited X \<longleftrightarrow> (\<forall>v. deep (Suc MAX_DEPTH) v \<longrightarrow> json_from_slice X (json_to_vec X v) = None)"

lemma deep_event_unreadable:
  "depth_limited X \<Longrightarrow> deep MAX_DEPTH (ev_data ev) \<Longrightarrow> event_of_line X (event_text X ev) = None"
  by (simp add: depth_limited_def event_of_line_def event_text_def event_json_def)

lemma unreadable_line:
  assumes X: "ext_ok X" and l: "log_is X d evs []" and ev: "event_of_line X (event_text X ev) = None"
    and d': "d_events d' = Some (unwrap_or [] (d_events d) @ event_line X ev)"
  shows "read_all_events X d' = Inl CorruptEventLog"
proof -
  have nl: "CHR 0x0A \<notin> set (event_text X ev) \<and> CHR 0x0D \<notin> set (event_text X ev)" "event_text X ev \<noteq> []"
    using ext_ok_no_newline[OF X] ext_ok_visible[OF X, of "event_json X ev"] by (auto simp: event_text_def)
  have cr: "last (event_text X ev) \<noteq> CR" using nl last_in_set by metis
  have "unwrap_or [] (d_events d) = join (map (event_text X) evs) []"
    using l by (auto simp: log_is_def unwrap_or_def)
  then have bs: "d_events d' = Some (join (map (event_text X) evs @ [event_text X ev]) [])"
    using d' by (simp add: event_line_text join_def)
  have "list_all line_ok (map (event_text X) evs @ [event_text X ev])"
    using l X nl event_lines.enc_ok_all[OF log_fit[OF X], of evs] by (auto simp: log_is_def line_ok_def)
  from phys_lines_join[OF this, of "[]"] have "phys_lines (join (map (event_text X) evs @ [event_text X ev]) []) =
      line_pairs X evs @ [(event_text X ev @ [NL], True)]" by (simp add: line_pairs_def line_ok_def comp_def)
  moreover have "probe_loop (event_of_line X) (\<lambda>ev _ out. Inr (out @ [ev])) [(event_text X ev @ [NL], True)] s = Inl CorruptEventLog" for s
    using nl(2) ev cr by (auto simp: trim_line_end_nl content_def Let_def ok_or_def)
  moreover have "probe_loop (event_of_line X) (\<lambda>ev _ out. Inr (out @ [ev])) (line_pairs X evs) [] = Inr evs"
    using log_read_all[OF X l] by (simp add: read_all_events_def probe_log[OF X l])
  ultimately show ?thesis
    by (simp add: read_all_events_def for_each_event_probe_def bs probe_loop_append del: probe_loop.simps)
qed

text \<open>C40: \<open>node report\<close> accepts a report it should refuse. When a report is nested exactly as deep as the JSON
  reader allows, the verb records it, settles the node and answers with a sequence number, but the line
  it wrote holds the report one level deeper: from then on the strict reader of the log fails.\<close>

theorem deep_report_breaks_log:
  assumes X: "ext_ok X" "depth_limited X" and s: "synced X rid d evs"
    and req: "report_request X args = Inr (nid, key, data)" "\<not> ra_dry_run args" and deep: "deep MAX_DEPTH data"
    and new: "\<forall>i. key = Some i \<longrightarrow> prior_with_key ''node.report'' i evs = None"
    and n: "read_node_opt rid d nid = Inr (Some n)" "\<not> is_terminal (n_status n)"
  shows "\<exists>payload d'. node_report X clock rid quiet args (d, w) = (Inr payload, d', w) \<and>
    rp_event_seq payload = Some (last_seq evs + 1) \<and> read_all_events X d' = Inl CorruptEventLog"
proof -
  define ev where "ev = new_event clock rid ''node.report'' (Some nid) key data (last_seq evs + 1)"
  obtain m where m: "read_manifest_opt rid d = Inr (Some m)" and l: "log_is X d evs []" using s by (auto simp: synced_def)
  obtain ops where ops: "reduce_event_to_ops X rid d ev = Inr ops" using reduce_report[OF req(1) n] ev_def by blast
  have "append_and_apply_event X clock rid ''node.report'' (Some nid) key data d =
      (Inr \<lparr>ar_seq = ev_seq ev, ar_idempotent_replay = False, ar_applied = (ops \<noteq> []), ar_prior = None\<rparr>, recorded_state X rid ev ops d)"
    using replay_synced[OF X(1) s] append_synced[OF X(1) s ev_def] ops find_prior_synced[OF X(1) s] new
    by (cases key) (simp_all add: append_and_apply_event_def bind_io_def reading_def ret_def)
  then have "node_report X clock rid quiet args (d, w) =
      (report_answer nid data \<lparr>ar_seq = ev_seq ev, ar_idempotent_replay = False, ar_applied = (ops \<noteq> []), ar_prior = None\<rparr>,
        recorded_state X rid ev ops d, w)"
    using node_report_quiet[where w = w and clock = clock, OF req m n(1)] by simp
  moreover have "read_all_events X (recorded_state X rid ev ops d) = Inl CorruptEventLog"
    by (rule unreadable_line[OF X(1) l _ recorded_log_bytes[OF ops m]])
      (rule deep_event_unreadable[OF X(2)], simp add: ev_def new_event_def deep)
  ultimately show ?thesis by (simp add: report_answer_def ev_def new_event_def)
qed

end
