(* ===== verification/Verb_Demo.thy ===== *)
theory Verb_Demo
  imports Creation_Demo Verb_Facts
begin

text \<open>
  The theorems about the verbs applied to the run of \<open>Demo_Run\<close>: a worker that claims a merge, a report
  that is repeated, a report nested as deep as the reader allows, and a round of a resident worker.
\<close>

section \<open>Reports\<close>

definition claim :: json where
  "claim = Object [(''success'', Bool True), (''via'', String VIA_EXPLICIT_MERGE)]"

definition claimed :: json where
  "claimed = Object [(''origin'', Object [(''kind'', String ''agent'')]), (''success'', Bool True)]"

definition report_of :: "json \<Rightarrow> report_args" where
  "report_of v = \<lparr>ra_node_id = ''n-0001'', ra_from_file = \<lparr>sf_meta = Some (True, 0), sf_bytes = Some (json_to_vec demo_ext v)\<rparr>,
     ra_idempotency_key = Some ''k1'', ra_dry_run = False\<rparr>"

lemma demo_parses: "parse_node_id ''n-0001'' = Inr demo_nid"
  by code_simp

lemma report_of_request:
  assumes "json_from_slice X (json_to_vec demo_ext v) = Some v" and "text_cost v \<le> 1000000"
    and "validate_report_payload v = Inr ()"
  shows "report_request X (report_of v) = Inr (demo_nid, Some ''k1'', normalize_agent_origin v)"
proof -
  have "length (json_to_vec demo_ext v) \<le> MAX_FROM_FILE_BYTES"
    using demo_text_cost[of v] assms(2) by (simp add: MAX_FROM_FILE_BYTES_def)
  then show ?thesis using assms(1,3) demo_words(1)
    by (simp add: report_request_def report_of_def demo_parses optional_key_def require_nonempty_def read_capped_def
        regular_file_def ok_or_def map_report_validation_error_def Let_def)
qed

lemma claim_request: "report_request demo_ext (report_of claim) = Inr (demo_nid, Some ''k1'', claimed)"
proof -
  have "normalize_agent_origin claim = claimed" "validate_report_payload claim = Inr ()" by code_simp+
  moreover have "wf_json claim \<and> exact_json MAX_DEPTH claim" by code_simp
  moreover have "text_cost claim \<le> 1000000" by (simp add: claim_def)
  ultimately show ?thesis using report_of_request[of demo_ext claim] ext_ok_json[OF demo_ext_ok] by simp
qed

text \<open>A failed node whose worker claims a merge stays failed.\<close>

definition failing :: "node \<Rightarrow> node" where
  "failing n = n\<lparr>n_status := Failed\<rparr>"

theorem agents_forge_no_merge_witness:
  "\<exists>n'. read_node_opt demo_rid (fst (run_verb demo_ext (\<lambda>_. 7) demo_rid (\<lambda>_. True) (Inr ()) (\<lambda>_. Some) quiet
      (ReportVerb (report_of claim)) (with_node_entry failing, ()))) demo_nid = Inr (Some n') \<and> n_status n' = Failed"
proof -
  let ?s = "(with_node_entry failing, ())"
  have "keeps_ids failing" by (simp add: keeps_ids_def failing_def)
  then have n: "read_node_opt demo_rid (with_node_entry failing) demo_nid = Inr (Some (entry_node failing))"
    using entry_reads[of failing] by simp
  have f: "n_status (entry_node failing) = Failed" "is_terminal (n_status (entry_node failing))"
    by (simp_all add: entry_node_def failing_def is_terminal_def)
  have q: "set (interleavings quiet ?s) = {?s}" by (simp add: interleavings_def quiet_def)
  have k: "gap_synced demo_ext demo_rid quiet" by (auto simp: gap_synced_def quiet_def)
  have "synced demo_ext demo_rid (fst ?s) demo_events" using entry_synced by simp
  from agents_forge_no_merge[where gap = quiet and clock = "\<lambda>_. 7" and is_dir = "\<lambda>_. True" and lock = "Inr ()" and
      mark = "\<lambda>_. Some" and v = "ReportVerb (report_of claim)", OF demo_ext_ok this k]
  show ?thesis using n f unfolding q Let_def by (metis fst_conv singletonD)
qed

theorem report_settles_once_witness:
  "\<exists>d' n'. node_report demo_ext (\<lambda>_. 7) demo_rid quiet (report_of claim) (with_node_entry working, ()) =
      (Inr \<lparr>rp_node_id = demo_nid, rp_event_seq = Some 3, rp_idempotent_replay = None, rp_dry_run = None\<rparr>, d', ()) \<and>
    read_node_opt demo_rid d' demo_nid = Inr (Some n') \<and> n_status n' = Done \<and>
    node_report demo_ext (\<lambda>_. 7) demo_rid quiet (report_of claim) (d', ()) =
      (Inr \<lparr>rp_node_id = demo_nid, rp_event_seq = Some 3, rp_idempotent_replay = Some True, rp_dry_run = None\<rparr>, d', ())"
proof -
  have "unat (last_seq demo_events) + 1 < 2 ^ 64" by (simp add: demo_last)
  then have rm: "log_room demo_ext demo_rid 1 (with_node_entry working) demo_events" using entry_synced by (simp add: log_room_def)
  have f: "fits (MAX_DEPTH - 1) claimed" by (rule depth) (simp add: claimed_def fits_def)
  have new: "prior_with_key ''node.report'' ''k1'' demo_events = None" by (rule demo_no_prior) simp
  have dry: "\<not> ra_dry_run (report_of claim)" by (simp add: report_of_def)
  have "reported_status claimed = Done" by (simp add: reported_status_def claimed_def)
  with report_settles_once[OF demo_ext_ok rm demo_target claim_request dry f new working_node working_attempt(2), of "\<lambda>_. 7" "()"]
  show ?thesis using claim_request dry by (fastforce simp: demo_last)
qed

section \<open>A deep report\<close>

text \<open>The text functions with the reader's recursion limit.\<close>

definition limited_ext :: ext where
  "limited_ext = demo_ext\<lparr>json_from_slice := (\<lambda>s. case json_from_slice demo_ext s of
     Some v \<Rightarrow> if deep (Suc MAX_DEPTH) v then None else Some v | None \<Rightarrow> None)\<rparr>"

lemma exact_not_deep: "exact_json k v \<Longrightarrow> \<not> deep (Suc k) v"
proof (induction v arbitrary: k)
  case (Number x)
  then show ?case by (cases x) simp_all
next
  case (Array xs)
  then show ?case by (cases k) auto
next
  case (Object m)
  have "\<not> deep (Suc j) (snd p)" if "p \<in> set m" "exact_json j (snd p)" for p j
    using Object.IH[OF that(1), of "snd p"] that(2) by (cases p) auto
  then show ?case using Object.prems by (cases k) auto
qed simp_all

lemma demo_reads: "json_from_slice demo_ext (json_to_vec demo_ext v) = Some v"
  using dec_enc_json[of v "length (enc_json v)" "[]"] by (simp add: demo_ext_def)

lemma limited_reads: "json_from_slice limited_ext (json_to_vec demo_ext v) = (if deep (Suc MAX_DEPTH) v then None else Some v)"
  by (simp add: limited_ext_def demo_reads)

lemma limited_ok: "ext_ok limited_ext" "depth_limited limited_ext"
proof -
  have "json_to_vec limited_ext = json_to_vec demo_ext" "de_datetime_str limited_ext = de_datetime_str demo_ext"
    "ser_datetime limited_ext = ser_datetime demo_ext" by (simp_all add: limited_ext_def)
  then show "ext_ok limited_ext" "depth_limited limited_ext"
    using demo_ext_ok limited_reads exact_not_deep by (simp_all add: ext_ok_def depth_limited_def)
qed

lemma limited_synced: "synced limited_ext rid d evs \<longleftrightarrow> synced demo_ext rid d evs"
proof -
  have "event_text limited_ext = event_text demo_ext"
    by (simp add: fun_eq_iff event_text_def event_json_def limited_ext_def)
  then show ?thesis by (simp add: synced_def log_is_def)
qed

primrec nest :: "nat \<Rightarrow> json" where
  "nest 0 = Null"
| "nest (Suc k) = Array [nest k]"

lemma nest_facts: "deep k (nest k)" "exact_json k (nest k)" "wf_json (nest k)" "text_cost (nest k) \<le> 10 * k + 10"
  by (induction k) simp_all

lemma deep_member: "deep k v \<Longrightarrow> (a, v) \<in> set m \<Longrightarrow> deep (Suc k) (Object m)"
  by force

definition deep_claim :: json where
  "deep_claim = Object [(''success'', Bool True), (''x'', nest 126)]"

theorem deep_report_breaks_log_witness:
  "\<exists>payload d'. node_report limited_ext (\<lambda>_. 7) demo_rid quiet (report_of deep_claim) (with_node_entry working, ()) =
      (Inr payload, d', ()) \<and> rp_event_seq payload = Some 3 \<and> read_all_events limited_ext d' = Inl CorruptEventLog"
proof -
  have d127: "MAX_DEPTH = Suc 126" by (simp add: MAX_DEPTH_def)
  have "exact_json MAX_DEPTH deep_claim" unfolding d127 deep_claim_def using nest_facts(2)[of 126] by simp
  then have "json_from_slice limited_ext (json_to_vec demo_ext deep_claim) = Some deep_claim"
    using exact_not_deep[of MAX_DEPTH deep_claim] by (simp add: limited_reads)
  moreover have "text_cost deep_claim \<le> 1000000" using nest_facts(4)[of 126] by (simp add: deep_claim_def)
  moreover have "validate_report_payload deep_claim = Inr ()"
    by (simp add: validate_report_payload_def deep_claim_def res_simps ok_or_def ensure_def validate_required_fields_def is_boolean_def
        summary_ok_def validate_discussion_items_def validate_spinoff_proposals_def validate_string_array_def validate_elements_def ex_bool_eq)
  ultimately have req: "report_request limited_ext (report_of deep_claim) = Inr (demo_nid, Some ''k1'', normalize_agent_origin deep_claim)"
    by (rule report_of_request)
  have "normalize_agent_origin deep_claim =
      Object [(''origin'', Object [(''kind'', String ''agent'')]), (''success'', Bool True), (''x'', nest 126)]"
    by (simp add: normalize_agent_origin_def deep_claim_def stamp_def report_origin_json_def)
  then have deep: "deep MAX_DEPTH (normalize_agent_origin deep_claim)"
    unfolding d127 using deep_member[OF nest_facts(1)[of 126], of "''x''"] by simp
  have sy: "synced limited_ext demo_rid (with_node_entry working) demo_events" using entry_synced by (simp add: limited_synced)
  have new: "\<forall>i. Some ''k1'' = Some i \<longrightarrow> prior_with_key ''node.report'' i demo_events = None" using demo_no_prior by simp
  have dry: "\<not> ra_dry_run (report_of deep_claim)" by (simp add: report_of_def)
  from deep_report_breaks_log[OF limited_ok sy req dry deep new working_node working_attempt(2), of "\<lambda>_. 7" "()"]
  show ?thesis by (simp add: demo_last)
qed

section \<open>A round\<close>

definition resident_run :: run_dir where
  "resident_run = (with_node_entry working)\<lparr>d_manifest := (case d_manifest (with_node_entry working) of
       Some (File m) \<Rightarrow> Some (File (m\<lparr>m_resident := Some demo_policy\<rparr>)) | e \<Rightarrow> e)\<rparr>"

lemma resident_run_manifest:
  obtains m where "read_manifest_opt demo_rid resident_run = Inr (Some m)" "m_applied_seq m = 2" "m_resident m = Some demo_policy"
    "\<not> is_terminal (m_status m)"
proof -
  obtain m0 where m0: "read_manifest_opt demo_rid fenced_run = Inr (Some m0)" "m_applied_seq m0 = 2" "\<not> is_terminal (m_status m0)"
    by (rule fenced_manifest)
  obtain m where m: "read_manifest_opt demo_rid (with_node_entry working) = Inr (Some m)"
    using entry_synced[of working] by (auto simp: synced_def)
  have "m0 = m\<lparr>m_agent_owner := Caller\<rparr> \<and> read_manifest_opt demo_rid resident_run = Inr (Some (m\<lparr>m_resident := Some demo_policy\<rparr>))"
    using m m0(1) by (auto simp: fenced_run_def resident_run_def read_manifest_opt_def store_defs res_simps read_json_opt_def
        split: sum.splits option.splits entry.splits)
  then show ?thesis using that m0(2,3) by auto
qed

lemma resident_run_room: "room demo_ext demo_rid 1 resident_run"
proof -
  obtain m where "read_manifest_opt demo_rid resident_run = Inr (Some m)" "m_applied_seq m = 2" by (rule resident_run_manifest)
  then have "synced demo_ext demo_rid resident_run demo_events" using entry_synced[of working]
    by (simp add: synced_def log_is_def checked_events_def guard_root_def resident_run_def demo_last)
  moreover have "unat (last_seq demo_events) + 1 < 2 ^ 64" by (simp add: demo_last)
  ultimately show ?thesis unfolding room_def by blast
qed

definition demo_round_args :: round_args where
  "demo_round_args = \<lparr>oa_node_id = ''n-0001'', oa_summary = Some ''done'', oa_summary_file = None, oa_dry_run = False\<rparr>"

theorem round_report_is_counted_witness:
  "\<exists>d' w' payload n'. node_round_report demo_ext (\<lambda>_. 7) demo_rid (Inr ()) (\<lambda>_. Some) demo_round_args (resident_run, ()) =
      (Inr payload, d', w') \<and> read_node_opt demo_rid d' demo_nid = Inr (Some n') \<and>
      rs_rounds_reported (resident_of n') = op_round payload \<and> round_open (entry_node working) ''done'' n'"
proof -
  obtain m where m: "read_manifest_opt demo_rid resident_run = Inr (Some m)" "m_resident m = Some demo_policy"
    "\<not> is_terminal (m_status m)" by (rule resident_run_manifest)
  have n: "read_node_opt demo_rid resident_run demo_nid = Inr (Some (entry_node working))"
    using working_node by (simp add: resident_run_def read_node_opt_def store_defs)
  have "n_worker_exit (entry_node working) = None \<and> n_resident (entry_node working) = None" by code_simp
  then have w: "reporting_worker demo_rid demo_nid resident_run = Inr (rp_name demo_policy, entry_node working)"
    and r: "unat (rs_rounds_reported (resident_of (entry_node working))) + 1 < 2 ^ 32"
    using m n working_attempt(2)
    by (simp_all add: reporting_worker_def cli_core_def ok_or_def ensure_def resident_of_def resident_state_default_def)
  have p: "parse_node_id (oa_node_id demo_round_args) = Inr demo_nid" "\<not> oa_dry_run demo_round_args"
    by (simp_all add: demo_round_args_def demo_parses)
  have s: "read_summary (oa_summary demo_round_args) (oa_summary_file demo_round_args) = Inr ''done''"
    using demo_words(3) by (simp add: read_summary_def demo_round_args_def MAX_ROUND_SUMMARY_BYTES_def)
  from round_report_is_counted[OF demo_ext_ok resident_run_room demo_target p(1) s w r p(2), of "\<lambda>_. 7" "\<lambda>_. Some" "()"]
  show ?thesis by auto
qed

end
