(* ===== verification/Profile.thy ===== *)
theory Profile
  imports Merge
begin

text \<open>
  Which agent a new run starts: the user's configuration file and the repository's selection
  (\<open>config/mod.rs\<close>), the choice of a harness (\<open>harness/select.rs\<close>) and of a profile with its candidates
  (\<open>harness/profile.rs\<close>), and the candidate recorded when no profile is configured
  (\<open>run/spawn.rs\<close>). The TOML reader, the duration reader, the environment and the search of \<open>PATH\<close>
  are the record \<open>profile_env\<close>. A \<open>BTreeMap\<close> is the list of its entries in key order.
\<close>

section \<open>Configuration files\<close>

record harness_config =
  hc_default :: "string option"
  hc_per_kind :: "(string \<times> string) list"

record profile_selection_config =
  ps_default :: "string option"
  ps_per_kind :: "(string \<times> string) list"

datatype profile_capability = Fast | Capable | UltraCapable

datatype profile_residency = Local | Remote

definition capability_str :: "profile_capability \<Rightarrow> string" where
  "capability_str c = (case c of Fast \<Rightarrow> ''fast'' | Capable \<Rightarrow> ''capable'' | UltraCapable \<Rightarrow> ''ultra-capable'')"

definition residency_str :: "profile_residency \<Rightarrow> string" where
  "residency_str r = (case r of Local \<Rightarrow> ''local'' | Remote \<Rightarrow> ''remote'')"

record agent_candidate =
  ac_harness :: string
  ac_command :: "string list"
  ac_telemetry :: "string option"

record agent_profile =
  ap_description :: string
  ap_capability :: profile_capability
  ap_residency :: profile_residency
  ap_agents :: "agent_candidate list"

record tmux_config =
  tc_default_session :: "string option"
  tc_persistent :: bool
  tc_completed_window_ttl :: "string option"
  tc_completed_window_max :: "u32 option"

record config =
  cf_harness :: harness_config
  cf_profile :: profile_selection_config
  cf_profiles :: "(string \<times> agent_profile) list"
  cf_tmux :: tmux_config

type_synonym repo_config = profile_selection_config

definition no_selection :: profile_selection_config where
  "no_selection = \<lparr>ps_default = None, ps_per_kind = []\<rparr>"

definition config_default :: config where
  "config_default = \<lparr>cf_harness = \<lparr>hc_default = None, hc_per_kind = []\<rparr>, cf_profile = no_selection, cf_profiles = [],
     cf_tmux = \<lparr>tc_default_session = None, tc_persistent = False, tc_completed_window_ttl = None,
       tc_completed_window_max = None\<rparr>\<rparr>"

text \<open>\<open>read_to_string\<close>: no file, a failure, or the text.\<close>

datatype text_file = NoFile | UnreadableFile | TextFile string

record profile_env =
  pv_toml :: "string \<Rightarrow> config option"                 \<comment> \<open>\<open>toml::from_str::<Config>\<close>\<close>
  pv_repo_toml :: "string \<Rightarrow> repo_config option"       \<comment> \<open>\<open>toml::from_str::<RepoConfig>\<close>\<close>
  pv_parse_duration :: "string \<Rightarrow> u64 option"          \<comment> \<open>\<open>humantime::parse_duration\<close>, in whole seconds\<close>
  pv_config_file :: text_file
  pv_repository_config :: "bytes option cli"           \<comment> \<open>the bytes frozen before the run was resolved\<close>
  pv_profile :: "string option cli"                    \<comment> \<open>\<open>TASKFLEET_PROFILE\<close>\<close>
  pv_harness :: "string option cli"                    \<comment> \<open>\<open>TASKFLEET_HARNESS\<close>\<close>
  pv_is_dir :: "string \<Rightarrow> bool"
  pv_available :: "string \<Rightarrow> bool"                     \<comment> \<open>\<open>executable_available\<close>\<close>

section \<open>Validation\<close>

definition KNOWN_HARNESSES :: "string list" where
  "KNOWN_HARNESSES = [''claude'', ''pi'']"

definition DEFAULT_HARNESS :: string where
  "DEFAULT_HARNESS = ''pi''"

definition validate_kind_keys :: "(string \<times> string) list \<Rightarrow> unit cli" where
  "validate_kind_keys = for_each (\<lambda>(key, _). ensure (key \<in> set WIRE_NAMES) ''invalid_config'')"

definition valid_profile_name :: "string \<Rightarrow> bool" where
  "valid_profile_name name \<longleftrightarrow> name \<noteq> [] \<and> length name \<le> 63 \<and> is_ascii_lowercase (hd name) \<and>
     list_all (\<lambda>b. is_ascii_lowercase b \<or> is_ascii_digit b \<or> b = CHR ''-'') name \<and>
     \<not> ends_with name CHR ''-'' \<and> \<not> contains_sub ''--'' name"

definition validate_profile_reference :: "string option \<Rightarrow> unit cli" where
  "validate_profile_reference value = (case value of
       None \<Rightarrow> Inr ()
     | Some name \<Rightarrow> ensure (valid_profile_name name) ''invalid_profile_name'')"

text \<open>\<open>components().count() > 1\<close> and not absolute.\<close>

definition ambiguous_path :: "string \<Rightarrow> bool" where
  "ambiguous_path p \<longleftrightarrow> (case path_components p of (absolute, comps) \<Rightarrow> \<not> absolute \<and> length comps > 1)"

definition candidate_ok :: "agent_candidate \<Rightarrow> bool" where
  "candidate_ok c \<longleftrightarrow>
     ac_harness c \<in> set KNOWN_HARNESSES \<and>
     ac_command c \<noteq> [] \<and> length (ac_command c) \<le> 32 \<and>
     list_all (\<lambda>arg. \<not> (arg = [] \<or> length arg > 4096 \<or> CHR 0x00 \<in> set arg)) (ac_command c) \<and>
     sum_list (map length (ac_command c)) \<le> 16384 \<and>
     \<not> ambiguous_path (hd (ac_command c)) \<and>
     (ac_telemetry c = None \<or> ac_harness c = ''pi'' \<and> ac_telemetry c = Some ''worker-v1'')"

fun validate_candidates :: "agent_candidate list \<Rightarrow> agent_candidate list \<Rightarrow> unit cli" where
  "validate_candidates seen [] = Inr ()"
| "validate_candidates seen (c # cs) =
     rbind (ensure (candidate_ok c) ''invalid_profile'') (\<lambda>_.
     rbind (ensure (c \<notin> set seen) ''invalid_profile'') (\<lambda>_.
     validate_candidates (c # seen) cs))"

definition validate_profile :: "string \<times> agent_profile \<Rightarrow> unit cli" where
  "validate_profile e = (case e of (name, p) \<Rightarrow>
     rbind (validate_profile_reference (Some name)) (\<lambda>_.
     rbind (ensure (\<not> (trim (ap_description p) = [] \<or> length (ap_description p) > 512)) ''invalid_profile'') (\<lambda>_.
     rbind (ensure (\<not> (ap_agents p = [] \<or> length (ap_agents p) > 8)) ''invalid_profile'') (\<lambda>_.
     validate_candidates [] (ap_agents p)))))"

definition validate_profiles :: "(string \<times> agent_profile) list \<Rightarrow> unit cli" where
  "validate_profiles = for_each validate_profile"

definition MAX_RETENTION_SECS :: nat where
  "MAX_RETENTION_SECS = 365 * 24 * 60 * 60"

definition retention_policy :: "(string \<Rightarrow> u64 option) \<Rightarrow> tmux_config \<Rightarrow> tmux_retention_policy option cli" where
  "retention_policy parse_duration t =
     (if \<not> tc_persistent t
      then rbind (ensure (tc_completed_window_ttl t = None \<and> tc_completed_window_max t = None) ''invalid_config'')
             (\<lambda>_. Inr None)
      else
        rbind (ensure (case tc_default_session t of Some s \<Rightarrow> trim s \<noteq> [] | None \<Rightarrow> False) ''invalid_config'') (\<lambda>_.
        rbind (ok_or ''invalid_config'' (tc_completed_window_ttl t)) (\<lambda>raw_ttl.
        rbind (ok_or ''invalid_config'' (parse_duration raw_ttl)) (\<lambda>ttl_secs.
        rbind (ensure (\<not> (ttl_secs = 0 \<or> unat ttl_secs > MAX_RETENTION_SECS)) ''invalid_config'') (\<lambda>_.
        rbind (ok_or ''invalid_config'' (filter_opt (\<lambda>v. v > 0) (tc_completed_window_max t))) (\<lambda>m.
        Inr (Some \<lparr>tr_persistent = True, tr_completed_window_ttl_secs = ttl_secs, tr_completed_window_max = m\<rparr>)))))))"

definition validate_selection_config :: "profile_selection_config \<Rightarrow> unit cli" where
  "validate_selection_config p =
     rbind (validate_profile_reference (ps_default p)) (\<lambda>_.
     for_each (\<lambda>(_, value). validate_profile_reference (Some value)) (ps_per_kind p))"

definition config_load :: "profile_env \<Rightarrow> config cli" where
  "config_load E = (case pv_config_file E of
       NoFile \<Rightarrow> Inr config_default
     | UnreadableFile \<Rightarrow> Inl ''config_unreadable''
     | TextFile t \<Rightarrow>
         if trim t = [] then Inr config_default
         else
           rbind (ok_or ''invalid_config'' (pv_toml E t)) (\<lambda>c.
           rbind (validate_kind_keys (hc_per_kind (cf_harness c))) (\<lambda>_.
           rbind (validate_kind_keys (ps_per_kind (cf_profile c))) (\<lambda>_.
           rbind (validate_selection_config (cf_profile c)) (\<lambda>_.
           rbind (validate_profiles (cf_profiles c)) (\<lambda>_.
           rbind (case tc_default_session (cf_tmux c) of None \<Rightarrow> Inr () | Some s \<Rightarrow> validate_tmux_session_name s) (\<lambda>_.
           rbind (retention_policy (pv_parse_duration E) (cf_tmux c)) (\<lambda>_.
           Inr c))))))))"

definition MAX_REPOSITORY_CONFIG_BYTES :: nat where
  "MAX_REPOSITORY_CONFIG_BYTES = 64 * 1024"

definition repo_config_load :: "profile_env \<Rightarrow> repo_config cli" where
  "repo_config_load E =
     rbind (pv_repository_config E) (\<lambda>bo. case bo of
       None \<Rightarrow> Inr no_selection
     | Some bs \<Rightarrow>
         rbind (ensure (length bs \<le> MAX_REPOSITORY_CONFIG_BYTES) ''invalid_repository_config'') (\<lambda>_.
         rbind (ok_or ''invalid_repository_config'' (from_utf8 bs)) (\<lambda>t.
         if trim t = [] then Inr no_selection
         else
           rbind (ok_or ''invalid_repository_config'' (pv_repo_toml E t)) (\<lambda>c.
           rbind (validate_kind_keys (ps_per_kind c)) (\<lambda>_.
           rbind (validate_selection_config c) (\<lambda>_. Inr c))))))"

section \<open>Choice of a harness\<close>

datatype harness_source = FromFlag | FromEnv | FromFile | FromDefault

definition harness_source_str :: "harness_source \<Rightarrow> string" where
  "harness_source_str s = (case s of
       FromFlag \<Rightarrow> ''flag'' | FromEnv \<Rightarrow> ''env'' | FromFile \<Rightarrow> ''file'' | FromDefault \<Rightarrow> ''default'')"

record harness_choice =
  ch_name :: string
  ch_source :: harness_source

datatype harness_name_error = EmptyName | UnknownName

definition validate_harness_name :: "string \<Rightarrow> harness_name_error + string" where
  "validate_harness_name raw =
     (let name = trim raw in
      if name = [] then Inl EmptyName
      else if name \<in> set KNOWN_HARNESSES then Inr name
      else Inl UnknownName)"

definition finish_harness :: "string \<Rightarrow> harness_source \<Rightarrow> harness_choice cli" where
  "finish_harness raw source = (case validate_harness_name raw of
       Inr name \<Rightarrow> Inr \<lparr>ch_name = name, ch_source = source\<rparr>
     | Inl _ \<Rightarrow> Inl ''invalid_harness'')"

definition harness_resolve_with ::
    "kind \<Rightarrow> string option \<Rightarrow> string option \<Rightarrow> config \<Rightarrow> harness_choice cli" where
  "harness_resolve_with k flag env c = (case flag of
       Some raw \<Rightarrow> finish_harness raw FromFlag
     | None \<Rightarrow>
         (case filter_opt (\<lambda>t. t \<noteq> []) (map_option trim env) of
            Some trimmed \<Rightarrow> finish_harness trimmed FromEnv
          | None \<Rightarrow>
              (case map_of (hc_per_kind (cf_harness c)) (wire_name k) of
                 Some raw \<Rightarrow> finish_harness raw FromFile
               | None \<Rightarrow>
                   (case hc_default (cf_harness c) of
                      Some raw \<Rightarrow> finish_harness raw FromFile
                    | None \<Rightarrow> finish_harness DEFAULT_HARNESS FromDefault))))"

section \<open>Choice of a profile\<close>

record resolution =
  rs_harness :: harness_choice
  rs_selection :: "agent_selection option"

datatype profile_source = Cli | Environment | RepositoryPerKind | UserPerKind | RepositoryDefault | UserDefault

definition profile_source_str :: "profile_source \<Rightarrow> string" where
  "profile_source_str s = (case s of
       Cli \<Rightarrow> ''cli'' | Environment \<Rightarrow> ''environment''
     | RepositoryPerKind \<Rightarrow> ''repository-per-kind'' | UserPerKind \<Rightarrow> ''user-per-kind''
     | RepositoryDefault \<Rightarrow> ''repository-default'' | UserDefault \<Rightarrow> ''user-default'')"

record requested =
  rq_name :: string
  rq_harness_alias :: bool
  rq_source :: profile_source

definition nonempty :: "string option \<Rightarrow> string option" where
  "nonempty v = filter_opt (\<lambda>t. t \<noteq> []) (map_option trim v)"

text \<open>A level that sets a profile, a legacy harness, or both, which is a conflict.\<close>

definition exactly_one :: "profile_source \<Rightarrow> string option \<Rightarrow> string option \<Rightarrow> requested option cli" where
  "exactly_one source p h = (case (p, h) of
       (Some _, Some _) \<Rightarrow> Inl ''conflicting_profile_selection''
     | (Some name, None) \<Rightarrow> Inr (Some \<lparr>rq_name = name, rq_harness_alias = False, rq_source = source\<rparr>)
     | (None, Some name) \<Rightarrow> Inr (Some \<lparr>rq_name = name, rq_harness_alias = True, rq_source = source\<rparr>)
     | (None, None) \<Rightarrow> Inr None)"

text \<open>\<open>None\<close> when no level selects anything.\<close>

definition requested_selector ::
    "kind \<Rightarrow> string option \<Rightarrow> string option \<Rightarrow> string option \<Rightarrow> string option \<Rightarrow> config \<Rightarrow> repo_config \<Rightarrow>
     requested option cli" where
  "requested_selector k profile_flag harness_flag profile_env harness_env c repo =
     (let user_profile_kind = map_of (ps_per_kind (cf_profile c)) (wire_name k);
          user_harness_kind = map_of (hc_per_kind (cf_harness c)) (wire_name k)
      in if profile_flag \<noteq> None \<or> harness_flag \<noteq> None then exactly_one Cli profile_flag harness_flag
         else if profile_env \<noteq> None \<or> harness_env \<noteq> None then exactly_one Environment profile_env harness_env
         else case map_of (ps_per_kind repo) (wire_name k) of
             Some name \<Rightarrow> Inr (Some \<lparr>rq_name = name, rq_harness_alias = False, rq_source = RepositoryPerKind\<rparr>)
           | None \<Rightarrow>
               if user_profile_kind \<noteq> None \<or> user_harness_kind \<noteq> None
               then exactly_one UserPerKind user_profile_kind user_harness_kind
               else case ps_default repo of
                   Some name \<Rightarrow> Inr (Some \<lparr>rq_name = name, rq_harness_alias = False, rq_source = RepositoryDefault\<rparr>)
                 | None \<Rightarrow> exactly_one UserDefault (ps_default (cf_profile c)) (hc_default (cf_harness c)))"

definition skip_reason :: "(string \<Rightarrow> bool) \<Rightarrow> lifecycle \<Rightarrow> agent_candidate \<Rightarrow> string option" where
  "skip_reason available lc c = (case ac_command c of
       [] \<Rightarrow> Some ''executable_missing''
     | executable # _ \<Rightarrow>
         if \<not> available executable then Some ''executable_missing''
         else if lc = Autonomous \<and> ac_harness c \<noteq> ''pi'' \<and> ac_harness c \<noteq> ''claude''
         then Some ''autonomous_harness_unsupported''
         else if lc = Autonomous \<and> ac_harness c = ''pi'' \<and> ac_telemetry c \<noteq> Some ''worker-v1''
         then Some ''telemetry_unsupported''
         else None)"

text \<open>The loop over the candidates. The conversion of an index to \<open>u8\<close> panics beyond 255; a profile has
  at most 8 candidates.\<close>

fun candidates_loop ::
    "(agent_candidate \<Rightarrow> string option) \<Rightarrow> nat \<Rightarrow> agent_candidate list \<Rightarrow> skipped_candidate list \<times> selected_candidate option" where
  "candidates_loop reason index [] = ([], None)"
| "candidates_loop reason index (c # cs) = (case reason c of
       Some r \<Rightarrow>
         (case candidates_loop reason (Suc index) cs of (fallback, selected) \<Rightarrow>
            (\<lparr>sk_candidate_index = of_nat index, sk_harness = ac_harness c, sk_reason = r\<rparr> # fallback, selected))
     | None \<Rightarrow> ([], Some \<lparr>sc_candidate_index = of_nat index, sc_harness = ac_harness c, sc_command = ac_command c,
                    sc_telemetry = ac_telemetry c\<rparr>))"

definition interaction_str :: "lifecycle \<Rightarrow> string" where
  "interaction_str lc = (case lc of Autonomous \<Rightarrow> ''autonomous'' | Interactive \<Rightarrow> ''explicit-interactive'')"

definition choice_source :: "profile_source \<Rightarrow> harness_source" where
  "choice_source s = (case s of Cli \<Rightarrow> FromFlag | Environment \<Rightarrow> FromEnv | _ \<Rightarrow> FromFile)"

definition select_candidate ::
    "(string \<Rightarrow> bool) \<Rightarrow> lifecycle \<Rightarrow> requested \<Rightarrow> agent_profile \<Rightarrow> resolution cli" where
  "select_candidate available lc q p =
     (case candidates_loop (skip_reason available lc) 0 (ap_agents p) of (fallback, so) \<Rightarrow>
      rbind (ok_or ''profile_candidates_exhausted'' so) (\<lambda>selected.
      Inr \<lparr>rs_harness = \<lparr>ch_name = sc_harness selected, ch_source = choice_source (rq_source q)\<rparr>,
           rs_selection = Some \<lparr>as_schema_version = 1, as_profile = rq_name q,
             as_selection_source = profile_source_str (rq_source q), as_interaction = interaction_str lc,
             as_capability = capability_str (ap_capability p), as_residency = residency_str (ap_residency p),
             as_requested_harness = (if rq_harness_alias q then Some (rq_name q) else None),
             as_selected = selected, as_fallback = fallback\<rparr>\<rparr>))"

definition profile_resolve_with ::
    "kind \<Rightarrow> lifecycle \<Rightarrow> string option \<Rightarrow> string option \<Rightarrow> string option \<Rightarrow> string option \<Rightarrow> config \<Rightarrow> repo_config \<Rightarrow>
     (string \<Rightarrow> bool) \<Rightarrow> resolution cli" where
  "profile_resolve_with k lc profile_flag harness_flag profile_env harness_env c repo available =
     (let pf = nonempty profile_flag; hf = nonempty harness_flag; pe = nonempty profile_env; he = nonempty harness_env;
          legacy = (\<lambda>flag env. rbind (harness_resolve_with k flag env c)
                      (\<lambda>h. Inr \<lparr>rs_harness = h, rs_selection = None\<rparr>))
      in rbind (requested_selector k pf hf pe he c repo) (\<lambda>qo. case qo of
           None \<Rightarrow> if cf_profiles c = [] then legacy None None else Inl ''profile_required''
         | Some q \<Rightarrow>
             if cf_profiles c = [] \<and> rq_harness_alias q then legacy hf he
             else
               rbind (if rq_harness_alias q
                      then (case validate_harness_name (rq_name q) of Inl _ \<Rightarrow> Inl ''invalid_harness'' | Inr _ \<Rightarrow> Inr ())
                      else Inr ()) (\<lambda>_.
               rbind (ok_or ''unknown_profile'' (map_of (cf_profiles c) (rq_name q))) (\<lambda>p.
               if rq_harness_alias q \<and> list_ex (\<lambda>a. ac_harness a \<noteq> rq_name q) (ap_agents p)
               then Inl ''harness_alias_mismatch''
               else select_candidate available lc q p))))"

definition legacy_harness :: "kind \<Rightarrow> string option \<Rightarrow> string option \<Rightarrow> resolution cli" where
  "legacy_harness k flag env =
     rbind (harness_resolve_with k flag env config_default) (\<lambda>h. Inr \<lparr>rs_harness = h, rs_selection = None\<rparr>)"

definition profile_resolve ::
    "profile_env \<Rightarrow> kind \<Rightarrow> lifecycle \<Rightarrow> string option \<Rightarrow> string option \<Rightarrow> string option \<Rightarrow> resolution cli" where
  "profile_resolve E k lc profile_flag harness_flag source_repo =
     rbind (case source_repo of None \<Rightarrow> Inr () | Some raw \<Rightarrow> ensure (pv_is_dir E raw) ''invalid_source_repo'') (\<lambda>_.
     rbind (pv_profile E) (\<lambda>profile_env.
     rbind (pv_harness E) (\<lambda>harness_env.
     let pf = nonempty profile_flag; hf = nonempty harness_flag; pe = nonempty profile_env; he = nonempty harness_env;
         from_config =
           rbind (config_load E) (\<lambda>c.
           rbind (if pf \<noteq> None \<or> pe \<noteq> None then Inr no_selection else repo_config_load E) (\<lambda>repo.
           profile_resolve_with k lc pf hf pe he c repo (pv_available E)))
     in if pf \<noteq> None \<and> hf \<noteq> None then Inl ''conflicting_profile_selection''
        else if pf = None then
          (if hf \<noteq> None then legacy_harness k hf None
           else if pe \<noteq> None \<and> he \<noteq> None then Inl ''conflicting_profile_selection''
           else if pe = None \<and> he \<noteq> None then legacy_harness k None he
           else from_config)
        else from_config)))"

section \<open>What a creation records\<close>

definition builtin_agent_selection :: "string \<Rightarrow> bool \<Rightarrow> agent_selection" where
  "builtin_agent_selection harness autonomous =
     \<lparr>as_schema_version = 1, as_profile = ''builtin'', as_selection_source = ''builtin-harness'',
      as_interaction = (if autonomous then ''autonomous'' else ''explicit-interactive''),
      as_capability = ''capable'', as_residency = ''local'', as_requested_harness = Some harness,
      as_selected = \<lparr>sc_candidate_index = 0, sc_harness = harness, sc_command = [harness],
        sc_telemetry = (if harness = ''pi'' then Some ''worker-v1'' else None)\<rparr>,
      as_fallback = []\<rparr>"

definition recorded_selection :: "lifecycle \<Rightarrow> resolution \<Rightarrow> agent_selection" where
  "recorded_selection lc res = (case rs_selection res of
       Some s \<Rightarrow> s
     | None \<Rightarrow> builtin_agent_selection (ch_name (rs_harness res)) (lc = Autonomous))"

end
