(* ===== verification/Profile_Facts.thy ===== *)
theory Profile_Facts
  imports Profile Telemetry_Facts
begin

text \<open>
  The choice of an agent: every selection that a creation records passes the validator of the core
  library and runs only what the user's own configuration names; levels of precedence and candidates
  are resolved as their documentation says; and an accepted retention policy is accepted by the reducer.
\<close>

section \<open>What the loader guarantees\<close>

lemma valid_profile_name_kebab: "valid_profile_name name \<Longrightarrow> kebab_name_ok 63 name"
  by (auto simp: valid_profile_name_def kebab_name_ok_def)

lemma validated_candidates: "validate_candidates seen cs = Inr () \<Longrightarrow> list_all candidate_ok cs"
  by (induction seen cs rule: validate_candidates.induct) (auto simp: res_simps ensure_def split: if_splits)

text \<open>A configuration that was loaded.\<close>

definition loaded :: "config \<Rightarrow> bool" where
  "loaded c \<longleftrightarrow> (\<forall>(name, p)\<in>set (cf_profiles c). kebab_name_ok 63 name \<and> length (ap_agents p) \<le> 8 \<and>
     list_all candidate_ok (ap_agents p))"

lemma config_load_loaded:
  assumes "config_load E = Inr c"
  shows "loaded c"
proof (cases "c = config_default")
  case True
  then show ?thesis by (simp add: loaded_def config_default_def)
next
  case False
  then have "validate_profiles (cf_profiles c) = Inr ()"
    using assms by (auto simp: config_load_def res_simps split: text_file.splits if_splits)
  then show ?thesis unfolding loaded_def validate_profiles_def for_each_Inr
    by (auto simp: validate_profile_def validate_profile_reference_def res_simps ensure_def split: if_splits
        dest!: bspec intro: valid_profile_name_kebab validated_candidates)
qed

section \<open>Candidates\<close>

definition chosen :: "nat \<Rightarrow> agent_candidate \<Rightarrow> selected_candidate" where
  "chosen i c = \<lparr>sc_candidate_index = of_nat i, sc_harness = ac_harness c, sc_command = ac_command c,
     sc_telemetry = ac_telemetry c\<rparr>"

definition passed_over :: "(agent_candidate \<Rightarrow> string option) \<Rightarrow> nat \<times> agent_candidate \<Rightarrow> skipped_candidate" where
  "passed_over reason e = \<lparr>sk_candidate_index = of_nat (fst e), sk_harness = ac_harness (snd e), sk_reason = the (reason (snd e))\<rparr>"

lemma candidates_loop_eq:
  "candidates_loop reason i cs =
     (let bad = takeWhile (\<lambda>c. reason c \<noteq> None) cs in
      (map (passed_over reason) (enumerate i bad),
       if length bad < length cs then Some (chosen (i + length bad) (cs ! length bad)) else None))"
  by (induction reason i cs rule: candidates_loop.induct)
    (auto simp: Let_def passed_over_def chosen_def split: option.split)

lemma chosen_ok: "candidate_ok c \<Longrightarrow> validate_selected_candidate (chosen i c)"
  by (auto simp: candidate_ok_def validate_selected_candidate_def chosen_def KNOWN_HARNESSES_def list_all_iff list_ex_iff)

lemma unat_u8: "i < 8 \<Longrightarrow> unat (of_nat i :: u8) = i"
  by (simp add: unat_of_nat)

lemma skip_reasons:
  "skip_reason av lc c = Some r \<Longrightarrow> r = ''executable_missing'' \<or>
     r = ''autonomous_harness_unsupported'' \<and> ac_harness c \<notin> {''pi'', ''claude''} \<or>
     r = ''telemetry_unsupported'' \<and> lc = Autonomous \<and> ac_harness c = ''pi''"
  by (auto simp: skip_reason_def split: list.splits if_splits)

lemma passed_over_ok:
  assumes "list_all candidate_ok cs" and "list_all (\<lambda>c. skip_reason av lc c \<noteq> None) cs" and "i + length cs \<le> 8"
    and "\<And>p. prior = Some p \<Longrightarrow> Suc (unat p) = i"
  shows "fallback_ok (interaction_str lc) i prior (map (passed_over (skip_reason av lc)) (enumerate i cs))"
  using assms
proof (induction cs arbitrary: i prior)
  case (Cons c cs)
  obtain r where r: "skip_reason av lc c = Some r" using Cons.prems(2) by auto
  have u: "unat (of_nat i :: u8) = i" using Cons.prems(3) by (intro unat_u8) simp
  then have "\<not> (of_nat i :: u8) \<le> p" if "prior = Some p" for p
    using Cons.prems(4)[OF that] by (simp add: word_le_nat_alt)
  moreover have "ac_harness c \<in> {''pi'', ''claude''}" using Cons.prems(1) by (auto simp: candidate_ok_def KNOWN_HARNESSES_def)
  moreover have "fallback_ok (interaction_str lc) (Suc i) (Some (of_nat i))
      (map (passed_over (skip_reason av lc)) (enumerate (Suc i) cs))"
    using Cons.prems u by (intro Cons.IH) auto
  ultimately show ?case using r u skip_reasons[OF r]
    by (auto simp: passed_over_def[of _ "(i, c)"] interaction_str_def split: option.split lifecycle.split)
qed simp

lemma eligible:
  assumes "candidate_ok c" and "skip_reason av Autonomous c = None"
  shows "ac_harness c = ''pi'' \<and> ac_telemetry c = Some ''worker-v1'' \<or> ac_harness c = ''claude'' \<and> ac_telemetry c = None"
  using assms by (auto simp: candidate_ok_def skip_reason_def KNOWN_HARNESSES_def split: list.splits if_splits)

lemma selection_ok:
  assumes p: "kebab_name_ok 63 (rq_name q)" "length (ap_agents p) \<le> 8" "list_all candidate_ok (ap_agents p)"
    and sel: "select_candidate av lc q p = Inr res"
  obtains s c where "rs_selection res = Some s" "as_profile s = rq_name q" "AgentSelection_validate s"
    "c \<in> set (ap_agents p)" "sc_command (as_selected s) = ac_command c" "as_selection_source s = profile_source_str (rq_source q)"
proof -
  define bad where "bad = takeWhile (\<lambda>c. skip_reason av lc c \<noteq> None) (ap_agents p)"
  define c where "c = ap_agents p ! length bad"
  have loop: "candidates_loop (skip_reason av lc) 0 (ap_agents p) = (map (passed_over (skip_reason av lc)) (enumerate 0 bad),
      if length bad < length (ap_agents p) then Some (chosen (length bad) c) else None)"
    by (simp only: candidates_loop_eq Let_def bad_def c_def add_0)
  have lt: "length bad < length (ap_agents p)" using sel
    by (auto simp: select_candidate_def loop ok_or_def split: if_splits)
  have c: "c \<in> set (ap_agents p)" "candidate_ok c" using lt p(3) by (auto simp: c_def list_all_iff)
  have free: "skip_reason av lc c = None"
    using nth_length_takeWhile[of "\<lambda>c. skip_reason av lc c \<noteq> None" "ap_agents p"] lt by (simp add: bad_def c_def)
  have small: "length bad < 8" using lt p(2) by simp
  have b: "list_all candidate_ok bad" "list_all (\<lambda>c. skip_reason av lc c \<noteq> None) bad"
    using p(3) unfolding bad_def by (auto simp: list_all_iff dest: set_takeWhileD)
  have fb: "fallback_ok (interaction_str lc) 0 None (map (passed_over (skip_reason av lc)) (enumerate 0 bad))"
    using passed_over_ok[OF b, of 0 None] small by simp
  obtain s where s: "rs_selection res = Some s"
    "s = \<lparr>as_schema_version = 1, as_profile = rq_name q, as_selection_source = profile_source_str (rq_source q),
       as_interaction = interaction_str lc, as_capability = capability_str (ap_capability p),
       as_residency = residency_str (ap_residency p),
       as_requested_harness = (if rq_harness_alias q then Some (rq_name q) else None),
       as_selected = chosen (length bad) c, as_fallback = map (passed_over (skip_reason av lc)) (enumerate 0 bad)\<rparr>"
    using sel lt by (auto simp: select_candidate_def loop ok_or_def)
  have "AgentSelection_validate s"
    using s(2) p(1) fb chosen_ok[OF c(2), of "length bad"] eligible[OF c(2)] free small unat_u8[OF small]
    by (auto simp: AgentSelection_validate_def profile_source_str_def interaction_str_def capability_str_def residency_str_def
        chosen_def word_le_nat_alt split: profile_source.split profile_capability.split profile_residency.split lifecycle.splits)
  then show ?thesis using that[OF s(1)] s(2) c(1) by (simp add: chosen_def)
qed

section \<open>The built-in selection\<close>

lemma finish_known: "finish_harness raw src = Inr h \<Longrightarrow> ch_name h \<in> {''claude'', ''pi''}"
  by (auto simp: finish_harness_def validate_harness_name_def KNOWN_HARNESSES_def Let_def split: if_splits)

lemma harness_known: "harness_resolve_with k flag env c = Inr h \<Longrightarrow> ch_name h \<in> {''claude'', ''pi''}"
  by (auto simp: harness_resolve_with_def split: option.splits dest: finish_known)

lemma builtin_ok: "h \<in> {''claude'', ''pi''} \<Longrightarrow> AgentSelection_validate (builtin_agent_selection h b)"
proof -
  have "AgentSelection_validate (builtin_agent_selection ''pi'' True)" "AgentSelection_validate (builtin_agent_selection ''pi'' False)"
    "AgentSelection_validate (builtin_agent_selection ''claude'' True)" "AgentSelection_validate (builtin_agent_selection ''claude'' False)"
    by code_simp+
  then show "h \<in> {''claude'', ''pi''} \<Longrightarrow> ?thesis" by (cases b) auto
qed

lemma builtin_command:
  "as_profile (builtin_agent_selection h b) = ''builtin''" "sc_harness (as_selected (builtin_agent_selection h b)) = h"
  "sc_command (as_selected (builtin_agent_selection h b)) = [h]"
  by (simp_all add: builtin_agent_selection_def)

section \<open>Resolution\<close>

text \<open>The levels in the order of their precedence, with the profile and the legacy harness each may name.\<close>

definition levels ::
    "kind \<Rightarrow> string option \<Rightarrow> string option \<Rightarrow> string option \<Rightarrow> string option \<Rightarrow> config \<Rightarrow> repo_config \<Rightarrow>
     (profile_source \<times> string option \<times> string option) list" where
  "levels k pf hf pe he c repo =
     [(Cli, pf, hf), (Environment, pe, he), (RepositoryPerKind, map_of (ps_per_kind repo) (wire_name k), None),
      (UserPerKind, map_of (ps_per_kind (cf_profile c)) (wire_name k), map_of (hc_per_kind (cf_harness c)) (wire_name k)),
      (RepositoryDefault, ps_default repo, None), (UserDefault, ps_default (cf_profile c), hc_default (cf_harness c))]"

definition first_level ::
    "(profile_source \<times> string option \<times> string option) list \<Rightarrow> (profile_source \<times> string option \<times> string option) option" where
  "first_level = List.find (\<lambda>(_, p, h). p \<noteq> None \<or> h \<noteq> None)"

lemma requested_by_level:
  "requested_selector k pf hf pe he c repo = (case first_level (levels k pf hf pe he c repo) of
     None \<Rightarrow> Inr None | Some (src, p, h) \<Rightarrow> exactly_one src p h)"
  by (simp add: requested_selector_def levels_def first_level_def exactly_one_def Let_def split: option.split)

lemma exactly_one_named:
  "exactly_one src p h = Inr (Some q) \<Longrightarrow> rq_source q = src \<and>
     (p, h) = (if rq_harness_alias q then (None, Some (rq_name q)) else (Some (rq_name q), None))"
  by (auto simp: exactly_one_def split: option.splits)

lemma resolve_with_selects:
  assumes "profile_resolve_with k lc pf hf pe he c repo av = Inr res"
  shows "rs_selection res = None \<and> ch_name (rs_harness res) \<in> {''claude'', ''pi''} \<or>
    (\<exists>q p. requested_selector k (nonempty pf) (nonempty hf) (nonempty pe) (nonempty he) c repo = Inr (Some q) \<and>
       map_of (cf_profiles c) (rq_name q) = Some p \<and> select_candidate av lc q p = Inr res)"
proof (cases "requested_selector k (nonempty pf) (nonempty hf) (nonempty pe) (nonempty he) c repo")
  case (Inl e)
  then show ?thesis using assms by (simp add: profile_resolve_with_def Let_def)
next
  case (Inr qo)
  show ?thesis
  proof (cases "\<exists>q. qo = Some q \<and> \<not> (cf_profiles c = [] \<and> rq_harness_alias q)")
    case True
    then obtain q where "qo = Some q" "\<not> (cf_profiles c = [] \<and> rq_harness_alias q)" by blast
    then show ?thesis using assms Inr
      by (simp add: profile_resolve_with_def Let_def res_simps ok_or_def split: option.splits if_splits)
  next
    case False
    then have "\<exists>h flag env. harness_resolve_with k flag env c = Inr h \<and> res = \<lparr>rs_harness = h, rs_selection = None\<rparr>"
      using assms Inr by (cases qo) (auto simp: profile_resolve_with_def Let_def res_simps split: if_splits)
    then show ?thesis by (auto dest: harness_known)
  qed
qed

lemma resolve_by_config:
  assumes "profile_resolve E k lc pf hf sr = Inr res"
  shows "(\<exists>flag env. legacy_harness k flag env = Inr res) \<or>
    (\<exists>c repo pf hf pe he. config_load E = Inr c \<and> profile_resolve_with k lc pf hf pe he c repo (pv_available E) = Inr res)"
  using assms unfolding profile_resolve_def Let_def by (auto simp: rbind_Inr_iff split: if_splits)

lemma resolve_selects:
  assumes "profile_resolve E k lc pf hf sr = Inr res"
  shows "rs_selection res = None \<and> ch_name (rs_harness res) \<in> {''claude'', ''pi''} \<or>
    (\<exists>c q p. config_load E = Inr c \<and> map_of (cf_profiles c) (rq_name q) = Some p \<and> select_candidate (pv_available E) lc q p = Inr res)"
  using resolve_by_config[OF assms]
proof (elim disjE exE conjE)
  fix flag env
  assume "legacy_harness k flag env = Inr res"
  then show ?thesis by (auto simp: legacy_harness_def res_simps dest: harness_known)
next
  fix c repo pf hf pe he
  assume "config_load E = Inr c" "profile_resolve_with k lc pf hf pe he c repo (pv_available E) = Inr res"
  then show ?thesis using resolve_with_selects by blast
qed

text \<open>C17: whatever the flags, the environment, the user's file and the repository's file say, the selection
  that a creation records passes the validator of the core library, so that no run is refused or
  read back as corrupt because of the agent it was given. Its command comes from one of two places and
  never from a repository: when a profile was selected, the selection is recorded as resolved and its
  command is one of that profile's in the user's own file; when none was, the harness is one of the two
  known ones and the command is that harness's bare name, under the built-in profile.\<close>

theorem recorded_selection_is_valid:
  assumes "profile_resolve E k lc profile_flag harness_flag source_repo = Inr res"
  shows "AgentSelection_validate (recorded_selection lc res) \<and>
    (case rs_selection res of
       Some s \<Rightarrow> recorded_selection lc res = s \<and>
         (\<exists>c p a. config_load E = Inr c \<and> map_of (cf_profiles c) (as_profile s) = Some p \<and>
            a \<in> set (ap_agents p) \<and> sc_command (as_selected s) = ac_command a)
     | None \<Rightarrow> \<exists>h\<in>{''claude'', ''pi''}. ch_name (rs_harness res) = h \<and>
         as_profile (recorded_selection lc res) = ''builtin'' \<and>
         sc_harness (as_selected (recorded_selection lc res)) = h \<and>
         sc_command (as_selected (recorded_selection lc res)) = [h])"
  using resolve_selects[OF assms]
proof (elim disjE exE conjE)
  assume "rs_selection res = None" "ch_name (rs_harness res) \<in> {''claude'', ''pi''}"
  then have "AgentSelection_validate (recorded_selection lc res)"
    and "recorded_selection lc res = builtin_agent_selection (ch_name (rs_harness res)) (lc = Autonomous)"
    using builtin_ok by (simp_all add: recorded_selection_def)
  with \<open>rs_selection res = None\<close> \<open>ch_name (rs_harness res) \<in> {''claude'', ''pi''}\<close> show ?thesis
    by (simp add: builtin_command)
next
  fix c q p
  assume c: "config_load E = Inr c" "map_of (cf_profiles c) (rq_name q) = Some p" "select_candidate (pv_available E) lc q p = Inr res"
  have "(rq_name q, p) \<in> set (cf_profiles c)" using c(2) by (rule map_of_SomeD)
  then have p: "kebab_name_ok 63 (rq_name q)" "length (ap_agents p) \<le> 8" "list_all candidate_ok (ap_agents p)"
    using config_load_loaded[OF c(1)] by (auto simp: loaded_def)
  obtain s a where s: "rs_selection res = Some s" "as_profile s = rq_name q" "AgentSelection_validate s"
    "a \<in> set (ap_agents p)" "sc_command (as_selected s) = ac_command a" by (rule selection_ok[OF p c(3)])
  then show ?thesis using c(1,2) by (auto simp: recorded_selection_def)
qed

text \<open>A selection comes from the first level of precedence that names anything, which then names exactly
  one thing, and it is the first candidate of that profile that is eligible; the candidates before it
  are recorded in order with the reason each was passed over, and none after it is looked at.\<close>

theorem selection_by_precedence:
  assumes "profile_resolve_with k lc profile_flag harness_flag profile_env harness_env c repo available = Inr res"
    and "rs_selection res = Some s"
  shows "\<exists>src p h profile. first_level (levels k (nonempty profile_flag) (nonempty harness_flag) (nonempty profile_env)
      (nonempty harness_env) c repo) = Some (src, p, h) \<and>
    (p, h) \<in> {(Some (as_profile s), None), (None, Some (as_profile s))} \<and> as_selection_source s = profile_source_str src \<and>
    map_of (cf_profiles c) (as_profile s) = Some profile \<and>
    (let bad = takeWhile (\<lambda>a. skip_reason available lc a \<noteq> None) (ap_agents profile) in
     length bad < length (ap_agents profile) \<and> as_selected s = chosen (length bad) (ap_agents profile ! length bad) \<and>
     as_fallback s = map (passed_over (skip_reason available lc)) (enumerate 0 bad))"
proof -
  obtain q profile where q: "requested_selector k (nonempty profile_flag) (nonempty harness_flag) (nonempty profile_env)
      (nonempty harness_env) c repo = Inr (Some q)" "map_of (cf_profiles c) (rq_name q) = Some profile"
    "select_candidate available lc q profile = Inr res" using resolve_with_selects[OF assms(1)] assms(2) by auto
  from q(1) obtain src p h where l: "first_level (levels k (nonempty profile_flag) (nonempty harness_flag) (nonempty profile_env)
      (nonempty harness_env) c repo) = Some (src, p, h)" "exactly_one src p h = Inr (Some q)"
    by (auto simp: requested_by_level split: option.splits)
  define bad where "bad = takeWhile (\<lambda>a. skip_reason available lc a \<noteq> None) (ap_agents profile)"
  have loop: "candidates_loop (skip_reason available lc) 0 (ap_agents profile) = (map (passed_over (skip_reason available lc)) (enumerate 0 bad),
      if length bad < length (ap_agents profile) then Some (chosen (length bad) (ap_agents profile ! length bad)) else None)"
    by (simp only: candidates_loop_eq Let_def bad_def add_0)
  have "as_profile s = rq_name q \<and> as_selection_source s = profile_source_str (rq_source q) \<and> length bad < length (ap_agents profile) \<and>
      as_selected s = chosen (length bad) (ap_agents profile ! length bad) \<and>
      as_fallback s = map (passed_over (skip_reason available lc)) (enumerate 0 bad)"
    using q(3) assms(2) by (auto simp: select_candidate_def loop ok_or_def split: if_splits)
  then show ?thesis using l(1) q(2) exactly_one_named[OF l(2)] unfolding Let_def
    by (intro exI[of _ src] exI[of _ p] exI[of _ h] exI[of _ profile], fold bad_def) (auto split: if_splits)
qed

section \<open>Retention\<close>

text \<open>A retention policy that the loader accepts is one the reducer accepts and reads back, and it lasts at
  most a year.\<close>

theorem retention_policy_reads_back:
  assumes "retention_policy parse_duration t = Inr (Some p)" and "get data ''tmux_retention'' = Some (retention_json p)"
  shows "retention_policy_from_data data = Inr (Some p) \<and> unat (tr_completed_window_ttl_secs p) \<le> 365 * 24 * 60 * 60"
proof -
  from assms(1) have p: "tr_persistent p" "tr_completed_window_ttl_secs p \<noteq> 0" "tr_completed_window_max p \<noteq> 0"
    "unat (tr_completed_window_ttl_secs p) \<le> MAX_RETENTION_SECS"
    by (auto simp: retention_policy_def res_simps ok_or_def ensure_def filter_opt_def split: if_splits option.splits)
  have "de_tmux_retention_policy (retention_json p) = Some p"
    by (cases p) (simp add: de_tmux_retention_policy_def retention_json_def struct_fields_def req_def de_bool_def de_u64_def de_u32_json)
  then show ?thesis using assms(2) p by (simp add: retention_policy_from_data_def ok_or_def MAX_RETENTION_SECS_def)
qed

end
