(* ===== verification/Profile_Demo.thy ===== *)
theory Profile_Demo
  imports Profile_Facts Creation_Demo
begin

text \<open>
  The theorems about the choice of an agent applied to a user's file with one profile of two candidates,
  the first of which is not installed.
\<close>

definition missing_agent :: agent_candidate where
  "missing_agent = \<lparr>ac_harness = ''claude'', ac_command = [''claude''], ac_telemetry = None\<rparr>"

definition present_agent :: agent_candidate where
  "present_agent = \<lparr>ac_harness = ''pi'', ac_command = [''pi''], ac_telemetry = Some ''worker-v1''\<rparr>"

definition demo_profile :: agent_profile where
  "demo_profile = \<lparr>ap_description = ''quick'', ap_capability = Fast, ap_residency = Local,
     ap_agents = [missing_agent, present_agent]\<rparr>"

definition demo_config :: config where
  "demo_config = config_default\<lparr>cf_profiles := [(''fast'', demo_profile)]\<rparr>"

definition demo_profile_env :: profile_env where
  "demo_profile_env = \<lparr>pv_toml = (\<lambda>_. Some demo_config), pv_repo_toml = (\<lambda>_. None), pv_parse_duration = (\<lambda>_. None),
     pv_config_file = TextFile ''toml'', pv_repository_config = Inr None, pv_profile = Inr None, pv_harness = Inr None,
     pv_is_dir = (\<lambda>_. True), pv_available = (\<lambda>e. e = ''pi'')\<rparr>"

lemma profile_words: "trim ''toml'' = ''toml''" "trim ''quick'' = ''quick''" "trim ''fast'' = ''fast''"
  by (rule trim_graphic; simp add: graphic_def less_eq_char_def)+

lemma demo_config_loads: "config_load demo_profile_env = Inr demo_config"
proof -
  have "candidate_ok missing_agent" "candidate_ok present_agent" "missing_agent \<noteq> present_agent" "valid_profile_name ''fast''"
    by code_simp+
  then have "validate_profiles (cf_profiles demo_config) = Inr ()"
    using profile_words by (simp add: validate_profiles_def demo_config_def validate_profile_def demo_profile_def
        validate_profile_reference_def ensure_def)
  moreover have "validate_kind_keys [] = Inr ()" "validate_selection_config no_selection = Inr ()" by code_simp+
  ultimately show ?thesis using profile_words
    by (simp add: config_load_def demo_profile_env_def ok_or_def retention_policy_def ensure_def)
      (simp add: demo_config_def config_default_def ensure_def no_selection_def)
qed

definition demo_resolution :: resolution where
  "demo_resolution = \<lparr>rs_harness = \<lparr>ch_name = ''pi'', ch_source = FromFlag\<rparr>,
     rs_selection = Some \<lparr>as_schema_version = 1, as_profile = ''fast'', as_selection_source = ''cli'',
       as_interaction = ''autonomous'', as_capability = ''fast'', as_residency = ''local'', as_requested_harness = None,
       as_selected = chosen 1 present_agent,
       as_fallback = [\<lparr>sk_candidate_index = 0, sk_harness = ''claude'', sk_reason = ''executable_missing''\<rparr>]\<rparr>\<rparr>"

lemma demo_resolves_with:
  "profile_resolve_with Spinoff Autonomous (Some ''fast'') None None None demo_config no_selection (\<lambda>e. e = ''pi'') = Inr demo_resolution"
proof -
  have "candidates_loop (skip_reason (\<lambda>e. e = ''pi'') Autonomous) 0 (ap_agents demo_profile) =
      ([\<lparr>sk_candidate_index = 0, sk_harness = ''claude'', sk_reason = ''executable_missing''\<rparr>], Some (chosen 1 present_agent))"
    by (simp add: demo_profile_def skip_reason_def missing_agent_def present_agent_def chosen_def)
  then show ?thesis using profile_words(3)
    by (simp add: profile_resolve_with_def nonempty_def filter_opt_def requested_selector_def exactly_one_def Let_def
        demo_config_def ok_or_def select_candidate_def demo_resolution_def choice_source_def profile_source_str_def
        interaction_str_def)
      (simp add: demo_profile_def capability_str_def residency_str_def chosen_def present_agent_def)
qed

lemma demo_resolves: "profile_resolve demo_profile_env Spinoff Autonomous (Some ''fast'') None None = Inr demo_resolution"
  using demo_resolves_with demo_config_loads profile_words(3)
  by (simp add: profile_resolve_def demo_profile_env_def nonempty_def filter_opt_def Let_def)

theorem recorded_selection_is_valid_witness:
  "AgentSelection_validate (recorded_selection Autonomous demo_resolution) \<and>
   (\<exists>a\<in>{missing_agent, present_agent}. sc_command (chosen 1 present_agent) = ac_command a)"
  using recorded_selection_is_valid[OF demo_resolves] demo_config_loads
  by (auto simp: demo_resolution_def demo_config_def demo_profile_def)

theorem selection_by_precedence_witness:
  "\<exists>p h. first_level (levels Spinoff (Some ''fast'') None None None demo_config no_selection) = Some (Cli, p, h) \<and> h = None"
proof -
  obtain s where s: "rs_selection demo_resolution = Some s" by (simp add: demo_resolution_def)
  have src: "as_selection_source s = ''cli''" "as_profile s = ''fast''" using s by (auto simp: demo_resolution_def)
  have n: "nonempty (Some ''fast'') = Some ''fast''" "nonempty None = None" using profile_words(3) by (simp_all add: nonempty_def filter_opt_def)
  from selection_by_precedence[OF demo_resolves_with s] obtain src' p h where
    l: "first_level (levels Spinoff (Some ''fast'') None None None demo_config no_selection) = Some (src', p, h)"
    "''cli'' = profile_source_str src'" unfolding n src by auto
  have "src' = Cli" using l(2) by (cases src') (auto simp: profile_source_str_def)
  with l(1) show ?thesis by (auto simp: first_level_def levels_def)
qed

end
