(* ===== verification/Wait.thy ===== *)
theory Wait
  imports Merge Telemetry
begin

text \<open>
  The blocking verb \<open>run wait\<close>, first part: the verdicts that end a wait although a run is not
  terminal (\<open>run/stalled.rs\<close>, \<open>run/attention.rs\<close>, \<open>run/awaiting_input.rs\<close>, the supervisor view of
  \<open>run/dto.rs\<close>) and the poll loop (\<open>run/wait.rs\<close>). The verb only reads: what it sees at each poll is
  the argument \<open>wait_env\<close>, a directory, pid file and process table per poll and run, so other
  processes may change anything between two reads. \<open>Duration::seconds\<close> of chrono can panic, which is
  the error \<open>Panicked\<close>. A wait without a deadline need not return, hence the loop is a partial
  function. Durations are nanoseconds. The lines \<open>--progress\<close> prints are left out.
\<close>

section \<open>Errors\<close>

datatype wait_error = Panicked | CliFailed string

type_synonym 'a waits = "wait_error + 'a"

definition wait_cli :: "'a cli \<Rightarrow> 'a waits" where
  "wait_cli r = (case r of Inl e \<Rightarrow> Inl (CliFailed e) | Inr x \<Rightarrow> Inr x)"

definition wait_panics :: "'a panics \<Rightarrow> 'a waits" where
  "wait_panics r = (case r of Panics \<Rightarrow> Inl Panicked | Returns x \<Rightarrow> Inr x)"

section \<open>Stalled runs\<close>

definition is_stillborn :: "status \<Rightarrow> bool \<Rightarrow> u32 \<Rightarrow> time \<Rightarrow> time \<Rightarrow> bool" where
  "is_stillborn run_status supervisor_alive node_count created_at updated_at \<longleftrightarrow>
     run_status = Pending \<and> \<not> supervisor_alive \<and> node_count = 0 \<and> updated_at = created_at"

definition ORPHAN_GRACE :: int where
  "ORPHAN_GRACE = 15 * 60 * 1000000000"

definition is_orphaned :: "status \<Rightarrow> bool \<Rightarrow> u32 \<Rightarrow> time \<Rightarrow> time \<Rightarrow> bool" where
  "is_orphaned run_status supervisor_alive node_count updated_at now \<longleftrightarrow>
     run_status \<in> {Pending, Running} \<and> \<not> supervisor_alive \<and> node_count > 0 \<and>
     now - updated_at > ORPHAN_GRACE"

datatype stall_kind = Stillborn | Orphaned

definition stall_kind_of :: "status \<Rightarrow> bool \<Rightarrow> u32 \<Rightarrow> time \<Rightarrow> time \<Rightarrow> time \<Rightarrow> stall_kind option" where
  "stall_kind_of run_status supervisor_alive node_count created_at updated_at now =
     (if is_stillborn run_status supervisor_alive node_count created_at updated_at then Some Stillborn
      else if is_orphaned run_status supervisor_alive node_count updated_at now then Some Orphaned
      else None)"

section \<open>Attention\<close>

definition is_attention_required :: "status \<Rightarrow> worker_exit option \<Rightarrow> bool" where
  "is_attention_required node_status x \<longleftrightarrow>
     node_status \<in> {Pending, Running} \<and> (case x of None \<Rightarrow> False | Some e \<Rightarrow> is_clean e)"

definition RESIDENT_IDLE_REASON :: string where
  "RESIDENT_IDLE_REASON =
     ''resident worker passed its idle expiry with unlanded work (preserved, not merged)''"

definition ATTENTION_REASON :: string where
  "ATTENTION_REASON = ''worker exited cleanly without running `run merge`''"

text \<open>The open round was reported by the current attempt.\<close>

definition round_reported_by :: "resident_state \<Rightarrow> u32 \<Rightarrow> bool" where
  "round_reported_by state attempt =
     (case open_round state of None \<Rightarrow> False | Some r \<Rightarrow> rr_attempt r = attempt)"

definition node_attention :: "node \<Rightarrow> (string \<times> worker_exit) option" where
  "node_attention n = (case n_worker_exit n of
       None \<Rightarrow> None
     | Some exit \<Rightarrow>
         if n_status n \<notin> {Pending, Running} then None
         else
           (let plain = (if is_attention_required (n_status n) (Some exit)
                         then Some (ATTENTION_REASON, exit) else None) in
            case n_resident n of
              None \<Rightarrow> plain
            | Some state \<Rightarrow>
                if round_reported_by state (n_retry_attempts n) then
                  (if rs_expiry_attention_at state \<noteq> None then Some (RESIDENT_IDLE_REASON, exit) else None)
                else plain))"

fun escape_quotes :: "string \<Rightarrow> string" where
  "escape_quotes [] = []"
| "escape_quotes (c # s) =
     (if c = CHR 0x27 then [CHR 0x27, CHR 0x5C, CHR 0x27, CHR 0x27] else [c]) @ escape_quotes s"

definition shell_single_quote :: "string \<Rightarrow> string" where
  "shell_single_quote s = [CHR 0x27] @ escape_quotes s @ [CHR 0x27]"

definition resume_hint :: "string \<Rightarrow> string" where
  "resume_hint rid = (let q_run = shell_single_quote rid in
     ''worker finished but skipped `run merge`; finish it with `taskfleet run salvage '' @ q_run @
     ''` (verifies the prior worker is gone '' @ EM_DASH @
     '' or fences it with `--fence` '' @ EM_DASH @ '' then merges from its worktree), or `run cancel '' @ q_run @
     ''` to lay it to rest'')"

record attention_view =
  av_reason :: string
  av_pending_age_secs :: int
  av_exited_at :: time
  av_worker_pid :: "int option"
  av_worktree_path :: "string option"
  av_source_branch :: "string option"
  av_resume_hint :: string

text \<open>\<open>signed_duration_since(..).num_seconds().max(0)\<close>.\<close>

definition age_secs :: "time \<Rightarrow> time \<Rightarrow> int" where
  "age_secs now since = max 0 ((now - since) div 1000000000)"

definition AttentionView_build_for ::
    "string \<Rightarrow> string \<Rightarrow> time \<Rightarrow> worker_exit \<Rightarrow> int option \<Rightarrow> string option \<Rightarrow> string option \<Rightarrow> attention_view" where
  "AttentionView_build_for reason rid now exit worker_pid worktree_path source_branch =
     \<lparr>av_reason = reason, av_pending_age_secs = age_secs now (wx_at exit), av_exited_at = wx_at exit,
      av_worker_pid = worker_pid, av_worktree_path = worktree_path, av_source_branch = source_branch,
      av_resume_hint =
        (if reason = RESIDENT_IDLE_REASON then
           (let q_run = shell_single_quote rid in
            ''resident worker idle with unlanded work; land it with `taskfleet run land '' @ q_run @
            ''`,                  send it the next message with `taskfleet run message '' @ q_run @
            '' <text>`, or finish it                  with `run merge '' @ q_run @ ''` / `run cancel '' @ q_run @ ''`'')
         else resume_hint rid)\<rparr>"

section \<open>Awaiting input\<close>

text \<open>\<open>str::parse::<i64>\<close>: an optional sign, then digits, within range.\<close>

definition parse_i64 :: "string \<Rightarrow> int option" where
  "parse_i64 s =
     (let neg = prefix ''-'' s;
          b = (case s of c # r \<Rightarrow> if c = CHR ''+'' \<or> c = CHR ''-'' then r else s | [] \<Rightarrow> s);
          v = (if neg then - int (digits_value b) else int (digits_value b))
      in if b \<noteq> [] \<and> list_all is_ascii_digit b \<and> - I64_MAX - 1 \<le> v \<and> v \<le> I64_MAX then Some v else None)"

definition GRACE_SECS :: int where
  "GRACE_SECS = 180"

definition AWAITING_INPUT_REASON :: string where
  "AWAITING_INPUT_REASON = ''worker is awaiting a human decision''"

text \<open>The argument is the value of \<open>TASKFLEET_AWAITING_INPUT_GRACE_SECS\<close>.\<close>

definition grace :: "chrono_ops \<Rightarrow> string option \<Rightarrow> int panics" where
  "grace C env =
     (let secs = (case filter_opt (\<lambda>v. v \<ge> 0) (Option.bind env (\<lambda>v. parse_i64 (trim v))) of
            Some v \<Rightarrow> v | None \<Rightarrow> GRACE_SECS)
      in case duration_seconds C secs of None \<Rightarrow> Panics | Some dur \<Rightarrow> Returns dur)"

definition is_escalated :: "chrono_ops \<Rightarrow> string option \<Rightarrow> time \<Rightarrow> time \<Rightarrow> bool panics" where
  "is_escalated C env opened_at now =
     (case grace C env of Panics \<Rightarrow> Panics | Returns g \<Rightarrow> Returns (now - opened_at > g))"

record awaiting_input_view =
  aw_event_seq :: u64
  aw_opened_at :: time
  aw_pending_age_secs :: int
  aw_escalated :: bool
  aw_open_discussion_count :: nat
  aw_discussion_items :: "json list"

definition AwaitingInputView_build ::
    "chrono_ops \<Rightarrow> string option \<Rightarrow> awaiting_input \<Rightarrow> time \<Rightarrow> awaiting_input_view waits" where
  "AwaitingInputView_build C env ai now =
     rbind (wait_panics (is_escalated C env (ai_opened_at ai) now)) (\<lambda>esc.
     Inr \<lparr>aw_event_seq = ai_event_seq ai, aw_opened_at = ai_opened_at ai,
       aw_pending_age_secs = age_secs now (ai_opened_at ai), aw_escalated = esc,
       aw_open_discussion_count = length (ai_discussion_items ai),
       aw_discussion_items = ai_discussion_items ai\<rparr>)"

section \<open>The supervisor of a run, as seen from outside\<close>

datatype supervisor_state = SupAlive | SupDead | SupNotRecorded | SupUnreadable | SupUnknown

record supervisor_view =
  sv_pid :: "u32 option"
  sv_state :: supervisor_state
  sv_alive :: bool

definition SupervisorView_new :: "u32 option \<Rightarrow> supervisor_state \<Rightarrow> supervisor_view" where
  "SupervisorView_new pid state = \<lparr>sv_pid = pid, sv_state = state, sv_alive = (state = SupAlive)\<rparr>"

definition SupervisorView_probe :: "probes \<Rightarrow> pid_file \<Rightarrow> supervisor_view" where
  "SupervisorView_probe P f = (case classify_pid_record f of
       PidPresent pid start \<Rightarrow>
         SupervisorView_new (Some pid) (if pid_live_with_identity P pid start then SupAlive else SupDead)
     | PidAbsent \<Rightarrow> SupervisorView_new None SupNotRecorded
     | PidUnreadable \<Rightarrow> SupervisorView_new None SupUnreadable)"

definition presumed_working :: "supervisor_view \<Rightarrow> bool" where
  "presumed_working v \<longleftrightarrow> sv_state v \<notin> {SupDead, SupNotRecorded}"

section \<open>One poll\<close>

record settle_view =
  sl_status :: status
  sl_stall :: "stall_kind option"
  sl_attention :: bool
  sl_attention_reason :: "string option"
  sl_awaiting_input :: "awaiting_input option"
  sl_caller :: "caller_pi_lifecycle option"
  sl_round :: "u64 option"

record latched_settle =
  la_stall :: "stall_kind option"
  la_attention :: bool
  la_attention_reason :: "string option"
  la_awaiting_input :: "awaiting_input option"
  la_caller :: "caller_pi_lifecycle option"
  la_round :: "u64 option"

text \<open>What a poll finds for one run.\<close>

record observation =
  ob_dir :: run_dir
  ob_pid_file :: pid_file
  ob_probes :: probes

definition current_status :: "run_id \<Rightarrow> run_dir \<Rightarrow> status option waits" where
  "current_status rid d = wait_cli (cli_core (rbind (read_manifest_opt rid d) (\<lambda>m. Inr (map_option m_status m))))"

definition caller_lifecycle :: "manifest option \<Rightarrow> node option \<Rightarrow> caller_pi_lifecycle option" where
  "caller_lifecycle mo no = (case mo of
       None \<Rightarrow> None
     | Some m \<Rightarrow> if m_agent_owner m = Caller then Option.bind no n_caller_pi_lifecycle else None)"

text \<open>The open request, once its grace is over.\<close>

definition escalated_request ::
    "chrono_ops \<Rightarrow> string option \<Rightarrow> awaiting_input option \<Rightarrow> time \<Rightarrow> awaiting_input option waits" where
  "escalated_request C env request now = (case request of
       None \<Rightarrow> Inr None
     | Some ai \<Rightarrow> rbind (wait_panics (is_escalated C env (ai_opened_at ai) now)) (\<lambda>esc.
         Inr (if esc then Some ai else None)))"

definition settle_of ::
    "manifest \<Rightarrow> node option \<Rightarrow> supervisor_view \<Rightarrow> awaiting_input option \<Rightarrow> time \<Rightarrow> settle_view" where
  "settle_of m no supervisor awaiting now =
     (let reason = map_option fst (Option.bind no node_attention);
          attention = (reason \<noteq> None);
          rnd = map_option rr_event_seq (Option.bind (Option.bind
            (filter_opt (\<lambda>n. \<not> is_terminal (n_status n)) no) n_resident) open_round);
          stall = (if attention then None
            else stall_kind_of (m_status m) (presumed_working supervisor) (m_node_count m)
                   (m_created_at m) (m_updated_at m) now)
      in \<lparr>sl_status = m_status m, sl_stall = stall, sl_attention = attention, sl_attention_reason = reason,
          sl_awaiting_input = awaiting, sl_caller = caller_lifecycle (Some m) no, sl_round = rnd\<rparr>)"

definition current_settle ::
    "chrono_ops \<Rightarrow> string option \<Rightarrow> run_id \<Rightarrow> time \<Rightarrow> observation \<Rightarrow> settle_view option waits" where
  "current_settle C env rid now ob =
     rbind (wait_cli (cli_core (read_manifest_opt rid (ob_dir ob)))) (\<lambda>mo. case mo of
       None \<Rightarrow> Inr None
     | Some m \<Rightarrow>
         rbind (wait_cli (cli_core (read_node_opt rid (ob_dir ob) (NodeId DEFAULT_NODE_ID)))) (\<lambda>no.
         rbind (escalated_request C env (Option.bind no n_awaiting_input) now) (\<lambda>awaiting.
         Inr (Some (settle_of m no (SupervisorView_probe (ob_probes ob) (ob_pid_file ob)) awaiting now)))))"

definition latch :: "settle_view \<Rightarrow> latched_settle" where
  "latch s = \<lparr>la_stall = sl_stall s, la_attention = sl_attention s,
     la_attention_reason = sl_attention_reason s, la_awaiting_input = sl_awaiting_input s,
     la_caller = sl_caller s, la_round = sl_round s\<rparr>"

definition caller_stopped :: "caller_pi_lifecycle option \<Rightarrow> bool" where
  "caller_stopped c = (case c of None \<Rightarrow> False | Some l \<Rightarrow> needs_attention (pl_state l))"

definition is_settled :: "bool \<Rightarrow> settle_view \<Rightarrow> bool" where
  "is_settled terminal_only s \<longleftrightarrow>
     is_terminal (sl_status s) \<or>
     (\<not> terminal_only \<and> (sl_stall s \<noteq> None \<or> sl_attention s \<or> sl_round s \<noteq> None \<or>
        sl_awaiting_input s \<noteq> None \<or> caller_stopped (sl_caller s)))"

text \<open>One pass over the runs: how many are settled, and what was seen of each.\<close>

fun poll_runs ::
    "(run_id \<Rightarrow> nat \<Rightarrow> settle_view option waits) \<Rightarrow> bool \<Rightarrow> nat \<Rightarrow> run_id list \<Rightarrow> (nat \<times> latched_settle list) waits" where
  "poll_runs see terminal_only i [] = Inr (0, [])"
| "poll_runs see terminal_only i (rid # rids) =
     rbind (see rid i) (\<lambda>so. case so of
       None \<Rightarrow> Inl (CliFailed ''io_error'')
     | Some s \<Rightarrow>
         rbind (poll_runs see terminal_only (Suc i) rids) (\<lambda>(settled, ls).
         Inr (if is_settled terminal_only s then Suc settled else settled, latch s # ls)))"

section \<open>The loop\<close>

datatype condition = All_runs | Any_run

datatype stop = ConditionMet | TimedOut | CheckIn

definition condition_met :: "condition \<Rightarrow> nat \<Rightarrow> nat \<Rightarrow> bool" where
  "condition_met c runs settled = (case c of All_runs \<Rightarrow> settled = runs | Any_run \<Rightarrow> settled \<ge> 1)"

definition deadline_stop :: "nat option \<Rightarrow> nat option \<Rightarrow> nat \<Rightarrow> stop option" where
  "deadline_stop timeout check_in elapsed =
     (if (case timeout of None \<Rightarrow> False
          | Some t \<Rightarrow> elapsed \<ge> t \<and> (case check_in of None \<Rightarrow> True | Some c \<Rightarrow> t \<le> c))
      then Some TimedOut
      else if (case check_in of None \<Rightarrow> False | Some c \<Rightarrow> elapsed \<ge> c) then Some CheckIn
      else None)"

definition BACKOFF_START :: nat where
  "BACKOFF_START = 100 * 1000000"

definition BACKOFF_CAP :: nat where
  "BACKOFF_CAP = 2 * 1000000000"

definition earliest_deadline :: "nat option \<Rightarrow> nat option \<Rightarrow> nat option" where
  "earliest_deadline timeout check_in = (case (timeout, check_in) of
       (Some a, Some b) \<Rightarrow> Some (min a b)
     | (Some a, None) \<Rightarrow> Some a
     | (None, b) \<Rightarrow> b)"

text \<open>How long the loop sleeps; a millisecond when nothing is left.\<close>

definition sleep_for :: "nat option \<Rightarrow> nat \<Rightarrow> nat \<Rightarrow> nat" where
  "sleep_for deadline backoff elapsed =
     (let dur = (case deadline of Some t \<Rightarrow> min backoff (t - elapsed) | None \<Rightarrow> backoff)
      in if dur = 0 then 1000000 else dur)"

definition next_backoff :: "nat option \<Rightarrow> nat \<Rightarrow> nat" where
  "next_backoff poll_interval backoff =
     (if poll_interval = None then min (backoff * 2) BACKOFF_CAP else backoff)"

text \<open>The clocks and the observations of a wait. A reading of the elapsed time depends on the time
  that passed before it; \<open>we_sleep k t d\<close> is the time after a sleep of \<open>d\<close> at time \<open>t\<close>.\<close>

record wait_env =
  we_chrono :: chrono_ops
  we_grace :: "string option"                \<comment> \<open>\<open>TASKFLEET_AWAITING_INPUT_GRACE_SECS\<close>\<close>
  we_utc :: "nat \<Rightarrow> time"                    \<comment> \<open>the clock of the \<open>k\<close>-th poll\<close>
  we_seen :: "nat \<Rightarrow> nat \<Rightarrow> observation"     \<comment> \<open>what the \<open>k\<close>-th poll finds for the \<open>i\<close>-th run\<close>
  we_elapsed :: "nat \<Rightarrow> nat \<Rightarrow> nat"          \<comment> \<open>at the check of the deadlines\<close>
  we_elapsed_again :: "nat \<Rightarrow> nat \<Rightarrow> nat"    \<comment> \<open>when the sleep is clamped\<close>
  we_sleep :: "nat \<Rightarrow> nat \<Rightarrow> nat \<Rightarrow> nat"

record wait_args =
  wa_run_ids :: "run_id list"
  wa_condition :: condition
  wa_timeout :: "nat option"
  wa_check_in :: "nat option"
  wa_poll_interval :: "nat option"
  wa_terminal_only :: bool
  wa_fail_on_error :: bool

definition poll_at :: "wait_env \<Rightarrow> wait_args \<Rightarrow> nat \<Rightarrow> (nat \<times> latched_settle list) waits" where
  "poll_at E A k = poll_runs (\<lambda>rid i. current_settle (we_chrono E) (we_grace E) rid (we_utc E k) (we_seen E k i))
     (wa_terminal_only A) 0 (wa_run_ids A)"

partial_function (option) wait_loop ::
    "wait_env \<Rightarrow> wait_args \<Rightarrow> nat \<Rightarrow> nat \<Rightarrow> nat \<Rightarrow> (stop \<times> latched_settle list) waits option" where
  "wait_loop E A k t backoff = (case poll_at E A k of
       Inl e \<Rightarrow> Some (Inl e)
     | Inr (settled, ls) \<Rightarrow>
         if condition_met (wa_condition A) (length (wa_run_ids A)) settled then Some (Inr (ConditionMet, ls))
         else
           (let t1 = we_elapsed E k t in
            case deadline_stop (wa_timeout A) (wa_check_in A) t1 of
              Some s \<Rightarrow> Some (Inr (s, ls))
            | None \<Rightarrow>
                (let t2 = we_elapsed_again E k t1;
                     dur = sleep_for (earliest_deadline (wa_timeout A) (wa_check_in A)) backoff t2
                 in wait_loop E A (Suc k) (we_sleep E k t2 dur) (next_backoff (wa_poll_interval A) backoff))))"

definition wait_start :: "wait_env \<Rightarrow> wait_args \<Rightarrow> (stop \<times> latched_settle list) waits option" where
  "wait_start E A = wait_loop E A 0 0 (case wa_poll_interval A of Some p \<Rightarrow> p | None \<Rightarrow> BACKOFF_START)"

end
