(* ===== verification/Wait_Outcome.thy ===== *)
theory Wait_Outcome
  imports Wait
begin

text \<open>
  The blocking verb \<open>run wait\<close>, second part: what is left of a terminal node (\<open>run/retained.rs\<close>, with
  \<open>repository_identity\<close> of \<open>run/list.rs\<close>), the view of a resident (\<open>run/resident.rs\<close>), the outcome of each
  run after the loop and the exit code (\<open>run/wait.rs\<close>). \<open>files\<close> are the questions to the file system and
  to the \<open>git\<close> on the path; the other git commands go through \<open>host\<close>. The run ids are resolved already
  and the printing of the answer is left out.
\<close>

section \<open>Retained work\<close>

record 'w files =
  fs_try_exists :: "'w \<Rightarrow> string \<Rightarrow> bool option"
  fs_canonicalize :: "'w \<Rightarrow> string \<Rightarrow> string option"
  fs_git :: "'w \<Rightarrow> string \<Rightarrow> string list \<Rightarrow> cmd_output"  \<comment> \<open>\<open>git -C dir args\<close>, the \<open>git\<close> of \<open>PATH\<close>\<close>

definition branch_exists :: "'w host \<Rightarrow> 'w \<Rightarrow> string \<Rightarrow> string \<Rightarrow> bool option" where
  "branch_exists H w repo branch =
     (if branch = [] then None
      else case git_read H w repo [''show-ref'', ''--verify'', ''--quiet'', ''refs/heads/'' @ branch] of
          CmdSpawnErr _ \<Rightarrow> None
        | CmdExited code _ _ \<Rightarrow>
            if code = Some 0 then Some True else if code = Some 1 then Some False else None)"

text \<open>\<open>strip_suffix\<close> of one newline.\<close>

definition strip_newline :: "string \<Rightarrow> string" where
  "strip_newline s = (if s \<noteq> [] \<and> last s = CHR 0x0A then butlast s else s)"

definition repository_identity :: "'w files \<Rightarrow> 'w \<Rightarrow> string \<Rightarrow> bool \<Rightarrow> string option cli" where
  "repository_identity F w repo selector =
     (if repo = [] then (if selector then Inl ''invalid_value'' else Inr None)
      else case fs_git F w repo [''rev-parse'', ''--path-format=absolute'', ''--git-common-dir''] of
          CmdSpawnErr _ \<Rightarrow> Inl ''dependency_missing''
        | CmdExited code out _ \<Rightarrow>
            if code \<noteq> Some 0 then (if \<not> selector then Inr None else Inl ''invalid_repository'')
            else (case from_utf8 out of
                None \<Rightarrow> Inl ''git_output_invalid''
              | Some raw \<Rightarrow>
                  (let raw = strip_newline raw in
                   if \<not> prefix ''/'' raw \<or> raw = [] then Inl ''git_output_invalid''
                   else Inr (Some (case fs_canonicalize F w raw of Some c \<Rightarrow> c | None \<Rightarrow> raw)))))"

text \<open>\<open>repository_identity(..).ok().flatten()\<close> of a recorded path.\<close>

definition recorded_identity :: "'w files \<Rightarrow> 'w \<Rightarrow> string \<Rightarrow> string option" where
  "recorded_identity F w repo = (case repository_identity F w repo False of Inl _ \<Rightarrow> None | Inr i \<Rightarrow> i)"

definition paths_equivalent :: "'w files \<Rightarrow> 'w \<Rightarrow> string \<Rightarrow> string \<Rightarrow> bool" where
  "paths_equivalent F w left right \<longleftrightarrow>
     path_components left = path_components right \<or>
     (case (fs_canonicalize F w left, fs_canonicalize F w right) of
        (Some l, Some r) \<Rightarrow> path_components l = path_components r | _ \<Rightarrow> False)"

record preserved_work =
  pw_node_id :: string
  pw_worktree_path :: "string option"
  pw_worktree_present :: bool
  pw_branch :: "string option"
  pw_branch_present :: bool
  pw_cleanliness :: string
  pw_unmerged_commits :: "u64 option"
  pw_verification :: string
  pw_reason :: string

record retained_observation =
  ro_view :: preserved_work
  ro_source_repo :: "string option"
  ro_verified :: bool

definition verified_for_discard :: "retained_observation \<Rightarrow> bool" where
  "verified_for_discard r = ro_verified r"

definition has_resources :: "retained_observation \<Rightarrow> bool" where
  "has_resources r \<longleftrightarrow> pw_worktree_present (ro_view r) \<or> pw_branch_present (ro_view r)"

text \<open>Whether the recorded worktree is there, and whether that could be told.\<close>

definition worktree_presence :: "'w files \<Rightarrow> 'w \<Rightarrow> string option \<Rightarrow> bool \<times> bool" where
  "worktree_presence F w worktree_path = (case worktree_path of
       None \<Rightarrow> (False, True)
     | Some p \<Rightarrow> (case fs_try_exists F w p of Some b \<Rightarrow> (b, True) | None \<Rightarrow> (True, False)))"

text \<open>The checkout at the path belongs to the same repository as the source.\<close>

definition present_identity_matches ::
    "'w files \<Rightarrow> 'w \<Rightarrow> string option \<Rightarrow> string option \<Rightarrow> bool" where
  "present_identity_matches F w worktree_path source_identity =
     (case (Option.bind worktree_path (recorded_identity F w), source_identity) of
        (Some actual, Some expected) \<Rightarrow> path_components actual = path_components expected
      | _ \<Rightarrow> False)"

definition branch_binding_ok :: "worktree_registration option \<Rightarrow> string option \<Rightarrow> bool" where
  "branch_binding_ok registered branch = (case (registered, branch) of
       (Some row, Some expected) \<Rightarrow> (case wr_branch row of None \<Rightarrow> True | Some b \<Rightarrow> b = expected)
     | _ \<Rightarrow> False)"

definition branch_probe_of :: "'w host \<Rightarrow> 'w \<Rightarrow> string option \<Rightarrow> string option \<Rightarrow> bool option" where
  "branch_probe_of H w source_repo branch = (case (source_repo, branch) of
       (Some repo, Some b) \<Rightarrow> branch_exists H w repo b
     | (_, None) \<Rightarrow> Some False
     | _ \<Rightarrow> None)"

definition cleanliness_wire :: "bool option \<Rightarrow> bool \<Rightarrow> string" where
  "cleanliness_wire probe worktree_present = (case probe of
       Some True \<Rightarrow> if worktree_present then ''clean'' else ''not-applicable''
     | Some False \<Rightarrow> ''dirty''
     | None \<Rightarrow> ''unverifiable'')"

definition unmerged_count ::
    "'w host \<Rightarrow> 'w \<Rightarrow> manifest \<Rightarrow> string option \<Rightarrow> bool option \<Rightarrow> bool \<Rightarrow> u64 option" where
  "unmerged_count H w m commit_target branch_probe worktree_present =
     (case (m_source_repo m, m_source_branch m, commit_target) of
        (Some repo, Some source, Some target) \<Rightarrow> rev_list_count H w repo source target
      | _ \<Rightarrow> if branch_probe = Some False \<and> \<not> worktree_present then Some 0 else None)"

definition retained_reason :: "status \<Rightarrow> u64 option \<Rightarrow> bool \<Rightarrow> string" where
  "retained_reason run_status unmerged_commits verified =
     (if run_status = Done then
        (if (case unmerged_commits of None \<Rightarrow> False | Some n \<Rightarrow> n > 0) then ''done-with-unmerged-work''
         else if \<not> verified then ''done-with-unverifiable-retained-work''
         else ''done-with-retained-resources'')
      else ''terminal-work-preserved'')"

definition observe_terminal :: "'w host \<Rightarrow> 'w files \<Rightarrow> 'w \<Rightarrow> manifest \<Rightarrow> node \<Rightarrow> retained_observation option" where
  "observe_terminal H F w m n =
     (let worktree_path = n_worktree_path n;
          branch = filter_opt (\<lambda>s. s \<noteq> []) (n_branch n)
      in if \<not> is_terminal (m_status m) \<or> \<not> is_terminal (n_status n) then None
         else if worktree_path = None \<and> branch = None then None
         else
           (let (worktree_present, path_probe_verified) = worktree_presence F w worktree_path;
                registrations = Option.bind (m_source_repo m) (worktree_registrations H w);
                source_identity = Option.bind (m_source_repo m) (recorded_identity F w);
                source_verified = (registrations \<noteq> None \<and> source_identity \<noteq> None);
                registered = Option.bind worktree_path (\<lambda>p. Option.bind registrations
                  (find (\<lambda>row. paths_equivalent F w (wr_path row) p)));
                registration_verified = (\<not> worktree_present \<or>
                  (registered \<noteq> None \<and> present_identity_matches F w worktree_path source_identity));
                branch_binding_verified = (\<not> worktree_present \<or> branch_binding_ok registered branch);
                branch_probe = branch_probe_of H w (m_source_repo m) branch
            in if \<not> worktree_present \<and> branch_probe = Some False then None
               else
                 (let cleanliness_probe =
                        (if worktree_present \<and> registered \<noteq> None
                         then Option.bind worktree_path (worktree_status_clean H w)
                         else if worktree_present then None else Some True);
                      commit_target =
                        (if worktree_present then Option.bind worktree_path (head_oid H w)
                         else if branch_probe = Some True then branch else None);
                      unmerged_commits = unmerged_count H w m commit_target branch_probe worktree_present;
                      verified = (source_verified \<and> registration_verified \<and> branch_binding_verified \<and>
                        branch_probe \<noteq> None \<and> path_probe_verified \<and> cleanliness_probe \<noteq> None \<and>
                        unmerged_commits \<noteq> None)
                  in Some \<lparr>ro_view = \<lparr>pw_node_id = node_id_str (n_node_id n), pw_worktree_path = worktree_path,
                          pw_worktree_present = worktree_present, pw_branch = branch,
                          pw_branch_present = (branch_probe = Some True),
                          pw_cleanliness = cleanliness_wire cleanliness_probe worktree_present,
                          pw_unmerged_commits = unmerged_commits,
                          pw_verification = (if verified then ''verified'' else ''unverifiable''),
                          pw_reason = retained_reason (m_status m) unmerged_commits verified\<rparr>,
                       ro_source_repo = m_source_repo m, ro_verified = verified\<rparr>)))"

definition observe_retained :: "'w host \<Rightarrow> 'w files \<Rightarrow> 'w \<Rightarrow> manifest \<Rightarrow> node \<Rightarrow> retained_observation option" where
  "observe_retained H F w m n =
     (if m_status m \<notin> {Failed, Cancelled} \<or> n_status n \<notin> {Failed, Cancelled} then None
      else observe_terminal H F w m n)"

text \<open>\<open>read_nodes\<close> with \<open>MissingNodesDir::Empty\<close>: a missing directory has no entries.\<close>

fun read_node_files :: "run_id \<Rightarrow> run_dir \<Rightarrow> (string \<times> node entry) list \<Rightarrow> node list res" where
  "read_node_files rid d [] = Inr []"
| "read_node_files rid d (ent # ents) = (case NodeId_parse_str (fst ent) of
       Inl _ \<Rightarrow> read_node_files rid d ents
     | Inr nid \<Rightarrow>
         rbind (read_node_opt rid d nid) (\<lambda>no.
         rbind (read_node_files rid d ents) (\<lambda>ns.
         Inr ((case no of None \<Rightarrow> [] | Some n \<Rightarrow> [n]) @ ns))))"

definition read_nodes :: "run_id \<Rightarrow> run_dir \<Rightarrow> node list res" where
  "read_nodes rid d = rbind (read_node_files rid d (d_nodes d)) (\<lambda>ns.
     Inr (sort_key (\<lambda>n. node_id_str (n_node_id n)) ns))"

section \<open>Residents\<close>

datatype round_state = Working | Waiting | Dormant

definition round_state_of :: "resident_state option \<Rightarrow> round_state" where
  "round_state_of state = (case state of
       None \<Rightarrow> Working
     | Some s \<Rightarrow> if rs_dormant_since s \<noteq> None then Dormant
                 else if open_round s \<noteq> None then Waiting else Working)"

record resident_view =
  rv_name :: string
  rv_round_state :: round_state
  rv_rounds_reported :: u32
  rv_worker_running :: bool
  rv_idle_expiry_secs :: u64
  rv_idle_expires_at :: "time option"
  rv_expiry_attention_at :: "time option"
  rv_dormant_since :: "time option"
  rv_last_round :: "round_report option"
  rv_last_landing :: "round_landing option"

definition resident_view_of :: "chrono_ops \<Rightarrow> manifest \<Rightarrow> node option \<Rightarrow> resident_view option panics" where
  "resident_view_of C m no = (case m_resident m of
       None \<Rightarrow> Returns None
     | Some policy \<Rightarrow>
         (let state = Option.bind no n_resident in
          case (case no of None \<Rightarrow> Returns None | Some n \<Rightarrow> idle_deadline C policy n) of
            Panics \<Rightarrow> Panics
          | Returns deadline \<Rightarrow> Returns (Some
              \<lparr>rv_name = rp_name policy, rv_round_state = round_state_of state,
               rv_rounds_reported = (case state of None \<Rightarrow> 0 | Some s \<Rightarrow> rs_rounds_reported s),
               rv_worker_running = (case no of None \<Rightarrow> False
                 | Some n \<Rightarrow> n_worker_exit n = None \<and> \<not> is_terminal (n_status n)),
               rv_idle_expiry_secs = rp_idle_expiry_secs policy, rv_idle_expires_at = deadline,
               rv_expiry_attention_at = Option.bind state rs_expiry_attention_at,
               rv_dormant_since = Option.bind state rs_dormant_since,
               rv_last_round = Option.bind state rs_last_round,
               rv_last_landing = Option.bind state rs_last_landing\<rparr>)))"

section \<open>Callers\<close>

record caller_agent_view =
  cv_state :: string
  cv_generation :: u64
  cv_pi_session_id :: string
  cv_session_path :: "string option"
  cv_reason :: "string option"
  cv_settled_generation :: "u64 option"
  cv_settled_state :: "string option"
  cv_current_generation :: u64
  cv_control :: string

definition caller_state_wire :: "caller_pi_state \<Rightarrow> string" where
  "caller_state_wire s = (case s of
       caller_pi_state.Reserved \<Rightarrow> ''reserved'' | Started \<Rightarrow> ''started'' | Exited \<Rightarrow> ''stopped-unmerged''
     | LaunchFailed \<Rightarrow> ''launch-failed'' | ControlUncertain \<Rightarrow> ''control-unknown'')"

text \<open>The settled state is one that needs attention, so the names of the other two, which the
  source marks as unreachable, do not occur.\<close>

definition caller_view :: "caller_pi_lifecycle \<Rightarrow> caller_pi_lifecycle option \<Rightarrow> caller_agent_view" where
  "caller_view current latched =
     (let settled = filter_opt (\<lambda>v. needs_attention (pl_state v)) latched in
      \<lparr>cv_state = caller_state_wire (pl_state current), cv_generation = pl_generation current,
       cv_pi_session_id = pl_pi_session_id current, cv_session_path = pl_session_path current,
       cv_reason = (case Option.bind settled pl_reason of Some r \<Rightarrow> Some r | None \<Rightarrow> pl_reason current),
       cv_settled_generation = map_option pl_generation settled,
       cv_settled_state = map_option (\<lambda>v. caller_state_wire (pl_state v)) settled,
       cv_current_generation = pl_generation current,
       cv_control = (if pl_state current = Exited then ''stopped'' else ''unknown'')\<rparr>)"

section \<open>Outcomes\<close>

record progress_evidence =
  pe_run_age_secs :: int
  pe_node_updated_at :: "time option"
  pe_attempt :: "u32 option"
  pe_prompt_signal :: string
  pe_telemetry :: "telemetry_view option"
  pe_telemetry_error :: "telemetry_error option"

record run_outcome =
  ou_progress_evidence :: "progress_evidence option"
  ou_run_id :: string
  ou_status :: string
  ou_merged :: bool
  ou_report_only :: bool
  ou_preserved_work :: "preserved_work list"
  ou_landed :: bool
  ou_landed_method :: string
  ou_stalled :: bool
  ou_attention_required :: bool
  ou_awaiting_input :: bool
  ou_awaiting_input_detail :: "awaiting_input_view option"
  ou_settled_awaiting_input :: bool
  ou_attention :: "attention_view option"
  ou_summary :: "string option"
  ou_error :: "string option"
  ou_recoverable_work :: "json option"
  ou_caller_agent :: "caller_agent_view option"
  ou_round_reported :: bool
  ou_resident :: "resident_view option"

definition stall_reason :: "stall_kind \<Rightarrow> string" where
  "stall_reason k = (case k of
       Stillborn \<Rightarrow> ''supervisor died before creating any worker node''
     | Orphaned \<Rightarrow> ''supervisor died mid-run; work is stranded and cannot be rolled up'')"

text \<open>What is read for the outcome of one run, in the order of the reads.\<close>

record 'w ending =
  en_dir :: run_dir
  en_world :: 'w
  en_now_attention :: time
  en_now_awaiting :: time
  en_evidence_dir :: run_dir
  en_telemetry_run_dir :: run_dir
  en_telemetry_dir :: telemetry_dir
  en_telemetry_now :: time
  en_now_evidence :: time

text \<open>\<open>GitInputs\<close>: the projections, read under one lock.\<close>

record outcome_inputs =
  oi_manifest :: "manifest option"
  oi_node :: "node option"
  oi_retained_nodes :: "node list"
  oi_resident :: "resident_view option"

definition read_outcome_inputs :: "chrono_ops \<Rightarrow> run_id \<Rightarrow> run_dir \<Rightarrow> outcome_inputs waits" where
  "read_outcome_inputs C rid d =
     rbind (wait_cli (cli_core (read_manifest_opt rid d))) (\<lambda>mo.
     rbind (wait_cli (cli_core (read_node_opt rid d (NodeId DEFAULT_NODE_ID)))) (\<lambda>no.
     rbind (if (case mo of None \<Rightarrow> False | Some m \<Rightarrow> is_terminal (m_status m))
            then wait_cli (cli_core (read_nodes rid d)) else Inr []) (\<lambda>ns.
     rbind (case mo of None \<Rightarrow> Inr None | Some m \<Rightarrow> wait_panics (resident_view_of C m no)) (\<lambda>rv.
     Inr \<lparr>oi_manifest = mo, oi_node = no, oi_retained_nodes = ns, oi_resident = rv\<rparr>))))"

definition outcome_error ::
    "status \<Rightarrow> json option \<Rightarrow> latched_settle \<Rightarrow> bool \<Rightarrow> bool \<Rightarrow> stall_kind option \<Rightarrow> bool \<Rightarrow> string option" where
  "outcome_error status report latched report_only_retained attention_required stall settled_awaiting_input =
     (if report_only_retained then
        Some ''done run still owns worktree or branch; inspect preserved_work in run show/wait''
      else if \<not> is_terminal status \<and> caller_stopped (la_caller latched) then Option.bind (la_caller latched) pl_reason
      else if attention_required then
        Some (case la_attention_reason latched of Some r \<Rightarrow> r | None \<Rightarrow> ATTENTION_REASON)
      else case stall of
          Some k \<Rightarrow> Some (stall_reason k)
        | None \<Rightarrow>
            if settled_awaiting_input then Some AWAITING_INPUT_REASON
            else if status \<in> {Failed, Cancelled} then Option.bind report (\<lambda>r. get_str r ''reason'')
            else None)"

definition preserved_of ::
    "'w host \<Rightarrow> 'w files \<Rightarrow> 'w \<Rightarrow> manifest \<Rightarrow> node list \<Rightarrow> preserved_work list" where
  "preserved_of H F w m ns = List.map_filter (\<lambda>n. map_option ro_view (observe_terminal H F w m n)) ns"

definition landing_of :: "'w host \<Rightarrow> 'w \<Rightarrow> manifest \<Rightarrow> node option \<Rightarrow> landed_verdict" where
  "landing_of H w m no = landing_signal H w
     \<lparr>li_source_repo = m_source_repo m, li_source_branch = m_source_branch m,
      li_worktree_path = Option.bind no n_worktree_path, li_branch = Option.bind no n_branch,
      li_base_sha = Option.bind no n_base_sha, li_report = Option.bind no n_last_report\<rparr>"

definition outcome_of ::
    "'w host \<Rightarrow> 'w files \<Rightarrow> run_id \<Rightarrow> latched_settle \<Rightarrow> 'w ending \<Rightarrow> manifest \<Rightarrow> outcome_inputs \<Rightarrow>
     awaiting_input option \<Rightarrow> awaiting_input_view option \<Rightarrow> run_outcome" where
  "outcome_of H F rid latched en m inp request detail =
     (let status = m_status m; no = oi_node inp; report = Option.bind no n_last_report;
          preserved = preserved_of H F (en_world en) m (oi_retained_nodes inp);
          signal = landing_of H (en_world en) m no;
          merged = report_has_merge_marker report;
          attention_required = (\<not> is_terminal status \<and> la_attention latched);
          stall = (if is_terminal status \<or> attention_required then None else la_stall latched);
          settled_awaiting = (\<not> is_terminal status \<and> la_awaiting_input latched \<noteq> None);
          report_only = (status = Done \<and> \<not> merged)
      in \<lparr>ou_progress_evidence = None, ou_run_id = run_id_str rid, ou_status = status_name status,
          ou_merged = merged, ou_report_only = report_only, ou_preserved_work = preserved,
          ou_landed = lv_landed signal, ou_landed_method = landed_wire (lv_method signal),
          ou_stalled = (stall \<noteq> None), ou_attention_required = attention_required,
          ou_awaiting_input = (request \<noteq> None), ou_awaiting_input_detail = detail,
          ou_settled_awaiting_input = settled_awaiting,
          ou_attention =
            (if attention_required then map_option (\<lambda>exit. AttentionView_build_for
                 (case la_attention_reason latched of Some r \<Rightarrow> r | None \<Rightarrow> ATTENTION_REASON)
                 (run_id_str rid) (en_now_attention en) exit (Option.bind no n_agent_pid)
                 (Option.bind no n_worktree_path) (m_source_branch m)) (Option.bind no n_worker_exit)
             else None),
          ou_summary = Option.bind report (\<lambda>r. get_str r ''summary''),
          ou_error = outcome_error status report latched (report_only \<and> preserved \<noteq> []) attention_required stall
            settled_awaiting,
          ou_recoverable_work =
            (if status = Failed then filter_opt (\<lambda>v. as_object v \<noteq> None) (Option.bind report (\<lambda>r. get r ''recoverable_work''))
             else None),
          ou_caller_agent = map_option (\<lambda>c. caller_view c (if is_terminal status then None else la_caller latched))
            (caller_lifecycle (oi_manifest inp) no),
          ou_round_reported = (\<not> is_terminal status \<and> la_round latched \<noteq> None),
          ou_resident = oi_resident inp\<rparr>)"

definition read_outcome ::
    "'w host \<Rightarrow> 'w files \<Rightarrow> chrono_ops \<Rightarrow> string option \<Rightarrow> run_id \<Rightarrow> latched_settle \<Rightarrow> 'w ending \<Rightarrow> run_outcome waits" where
  "read_outcome H F C env rid latched en =
     rbind (read_outcome_inputs C rid (en_dir en)) (\<lambda>inp.
     rbind (ok_or (CliFailed ''io_error'') (oi_manifest inp)) (\<lambda>m.
     let request =
           (if is_terminal (m_status m) then None
            else case la_awaiting_input latched of
                Some ai \<Rightarrow> Some ai | None \<Rightarrow> Option.bind (oi_node inp) n_awaiting_input)
     in rbind (case request of
          None \<Rightarrow> Inr None
        | Some ai \<Rightarrow> rbind (AwaitingInputView_build C env ai (en_now_awaiting en)) (\<lambda>v. Inr (Some v))) (\<lambda>detail.
        Inr (outcome_of H F rid latched en m inp request detail))))"

definition progress_evidence_of ::
    "ext \<Rightarrow> chrono_ops \<Rightarrow> run_id \<Rightarrow> 'w ending \<Rightarrow> progress_evidence waits" where
  "progress_evidence_of X C rid en =
     rbind (wait_cli (cli_core (read_manifest_opt rid (en_evidence_dir en)))) (\<lambda>mo.
     rbind (wait_cli (cli_core (read_node_opt rid (en_evidence_dir en) (NodeId DEFAULT_NODE_ID)))) (\<lambda>no.
     rbind (ok_or (CliFailed ''io_error'') mo) (\<lambda>m.
     let telemetry = read_telemetry X C rid (NodeId DEFAULT_NODE_ID) (en_telemetry_now en)
           (en_telemetry_run_dir en) (en_telemetry_dir en)
     in Inr \<lparr>pe_run_age_secs = age_secs (en_now_evidence en) (m_created_at m),
          pe_node_updated_at = map_option n_updated_at no, pe_attempt = map_option n_retry_attempts no,
          pe_prompt_signal =
            (if Option.bind no n_awaiting_input \<noteq> None then ''awaiting-input-reported''
             else if (case m_agent_selection m of None \<Rightarrow> False
                      | Some s \<Rightarrow> sc_harness (as_selected s) = ''claude'') then ''not-observed-unknown''
             else ''no-claude-hook-signal-unsupported''),
          pe_telemetry = (case telemetry of Inr v \<Rightarrow> Some v | Inl _ \<Rightarrow> None),
          pe_telemetry_error = (case telemetry of Inl e \<Rightarrow> Some e | Inr _ \<Rightarrow> None)\<rparr>)))"

section \<open>The exit code\<close>

definition terminal_wire :: "string \<Rightarrow> bool" where
  "terminal_wire s \<longleftrightarrow> s \<in> {''done'', ''failed'', ''cancelled''}"

definition settled_error :: "bool \<Rightarrow> run_outcome \<Rightarrow> bool" where
  "settled_error terminal_only ou \<longleftrightarrow>
     \<not> (terminal_only \<and> \<not> terminal_wire (ou_status ou)) \<and>
     (ou_status ou \<in> {''failed'', ''cancelled''} \<or> ou_stalled ou \<or> ou_attention_required ou \<or>
      ou_settled_awaiting_input ou \<or>
      (case ou_caller_agent ou of None \<Rightarrow> False
       | Some v \<Rightarrow> cv_settled_generation v \<noteq> None \<and> \<not> terminal_wire (ou_status ou)) \<or>
      (ou_report_only ou \<and> ou_preserved_work ou \<noteq> []))"

definition any_settled_error :: "run_outcome list \<Rightarrow> bool \<Rightarrow> bool" where
  "any_settled_error outcomes terminal_only = list_ex (settled_error terminal_only) outcomes"

definition exit_code_of :: "stop \<Rightarrow> bool \<Rightarrow> bool \<Rightarrow> nat" where
  "exit_code_of reason fail_on_error errors = (case reason of
       TimedOut \<Rightarrow> 2
     | CheckIn \<Rightarrow> 4
     | ConditionMet \<Rightarrow> if fail_on_error \<and> errors then 3 else 0)"

record wait_data =
  wd_outcome :: stop
  wd_runs :: "run_outcome list"
  wd_exit_code :: nat

text \<open>Every run must exist before the first poll.\<close>

fun check_known :: "(nat \<Rightarrow> run_dir) \<Rightarrow> nat \<Rightarrow> run_id list \<Rightarrow> unit waits" where
  "check_known first i [] = Inr ()"
| "check_known first i (rid # rids) =
     rbind (current_status rid (first i)) (\<lambda>s.
     rbind (ensure (s \<noteq> None) (CliFailed ''unknown_run'')) (\<lambda>_. check_known first (Suc i) rids))"

definition latched_for :: "wait_args \<Rightarrow> latched_settle \<Rightarrow> latched_settle" where
  "latched_for A l = (if wa_terminal_only A then l\<lparr>la_awaiting_input := None, la_caller := None\<rparr> else l)"

fun outcomes ::
    "ext \<Rightarrow> 'w host \<Rightarrow> 'w files \<Rightarrow> wait_env \<Rightarrow> wait_args \<Rightarrow> (nat \<Rightarrow> 'w ending) \<Rightarrow> nat \<Rightarrow>
     (run_id \<times> latched_settle) list \<Rightarrow> run_outcome list waits" where
  "outcomes X H F E A ends i [] = Inr []"
| "outcomes X H F E A ends i ((rid, l) # rest) =
     rbind (read_outcome H F (we_chrono E) (we_grace E) rid (latched_for A l) (ends i)) (\<lambda>ou.
     rbind (if wa_check_in A \<noteq> None
            then rbind (progress_evidence_of X (we_chrono E) rid (ends i)) (\<lambda>pe.
              Inr (ou\<lparr>ou_progress_evidence := Some pe\<rparr>))
            else Inr ou) (\<lambda>ou.
     rbind (outcomes X H F E A ends (Suc i) rest) (\<lambda>ous. Inr (ou # ous))))"

definition run_wait ::
    "ext \<Rightarrow> 'w host \<Rightarrow> 'w files \<Rightarrow> wait_env \<Rightarrow> (nat \<Rightarrow> run_dir) \<Rightarrow> (nat \<Rightarrow> 'w ending) \<Rightarrow> wait_args \<Rightarrow>
     wait_data waits option" where
  "run_wait X H F E first ends A = (case check_known first 0 (wa_run_ids A) of
       Inl e \<Rightarrow> Some (Inl e)
     | Inr _ \<Rightarrow> Option.bind (wait_start E A) (\<lambda>r. Some (
         rbind r (\<lambda>(reason, ls).
         rbind (outcomes X H F E A ends 0 (zip (wa_run_ids A) ls)) (\<lambda>ous.
         Inr \<lparr>wd_outcome = reason, wd_runs = ous,
           wd_exit_code = exit_code_of reason (wa_fail_on_error A)
             (any_settled_error ous (wa_terminal_only A))\<rparr>)))))"

end
