(* ===== verification/Wait_Facts.thy ===== *)
theory Wait_Facts
  imports Wait_Outcome Cancel_Facts Creation_Facts Resident_Facts Pid_Facts
begin

text \<open>
  What a wait promises: it returns by its earliest deadline, after a number of polls the cadence
  bounds, and at the first poll that satisfies the condition; it reports a stall only of a supervisor
  that is provably gone, and does report a run whose supervisor died before the first node; exit code
  0 under \<open>--fail-on-error\<close> is only given to runs that finished; and work that is retained, or cannot be
  checked, stays visible.
\<close>

section \<open>Deadlines\<close>

text \<open>\<open>Instant\<close> is monotonic and \<open>thread::sleep\<close> sleeps at least as long as it is told.\<close>

definition clock_ok :: "wait_env \<Rightarrow> bool" where
  "clock_ok E \<longleftrightarrow> (\<forall>k t d. t \<le> we_elapsed E k t \<and> t \<le> we_elapsed_again E k t \<and> t + d \<le> we_sleep E k t d)"

text \<open>The shortest pause between two polls.\<close>

definition cadence :: "wait_args \<Rightarrow> nat" where
  "cadence A = (case wa_poll_interval A of None \<Rightarrow> BACKOFF_START | Some p \<Rightarrow> if p = 0 then 1000000 else p)"

definition unmet :: "wait_env \<Rightarrow> wait_args \<Rightarrow> nat \<Rightarrow> bool" where
  "unmet E A k = (case poll_at E A k of
       Inl _ \<Rightarrow> False
     | Inr (n, _) \<Rightarrow> \<not> condition_met (wa_condition A) (length (wa_run_ids A)) n)"

text \<open>The time before the \<open>k\<close>-th poll and the pause that follows it, were the loop to get there.\<close>

primrec loop_clock :: "wait_env \<Rightarrow> wait_args \<Rightarrow> nat \<Rightarrow> nat \<times> nat" where
  "loop_clock E A 0 = (0, case wa_poll_interval A of Some p \<Rightarrow> p | None \<Rightarrow> BACKOFF_START)"
| "loop_clock E A (Suc k) =
     (let t2 = we_elapsed_again E k (we_elapsed E k (fst (loop_clock E A k))) in
      (we_sleep E k t2 (sleep_for (earliest_deadline (wa_timeout A) (wa_check_in A)) (snd (loop_clock E A k)) t2),
       next_backoff (wa_poll_interval A) (snd (loop_clock E A k))))"

text \<open>The answer of a wait that ends at the \<open>k\<close>-th poll with the deadline \<open>D\<close>.\<close>

definition ends_at :: "wait_env \<Rightarrow> wait_args \<Rightarrow> nat \<Rightarrow> nat \<Rightarrow> (stop \<times> latched_settle list) waits \<Rightarrow> bool" where
  "ends_at E A D k r = (case poll_at E A k of
       Inl e \<Rightarrow> r = Inl e
     | Inr (n, ls) \<Rightarrow>
         if unmet E A k
         then D \<le> we_elapsed E k (fst (loop_clock E A k)) \<and>
           r = Inr (if wa_timeout A = Some D then TimedOut else CheckIn, ls)
         else r = Inr (ConditionMet, ls))"

lemma deadline_stop_iff:
  assumes "earliest_deadline timeout check_in = Some D"
  shows "deadline_stop timeout check_in t =
    (if D \<le> t then Some (if timeout = Some D then TimedOut else CheckIn) else None)"
  using assms by (cases timeout; cases check_in) (auto simp: earliest_deadline_def deadline_stop_def min_def split: if_splits)

lemma sleep_progress:
  assumes "t < D" and "b = 0 \<and> c = 1000000 \<or> 0 < c \<and> c \<le> b"
  shows "D \<le> t + sleep_for (Some D) b t \<or> t + c \<le> t + sleep_for (Some D) b t"
  using assms by (auto simp: sleep_for_def Let_def min_def)

definition backoff_ok :: "wait_args \<Rightarrow> nat \<Rightarrow> bool" where
  "backoff_ok A b \<longleftrightarrow> b = 0 \<and> cadence A = 1000000 \<and> wa_poll_interval A \<noteq> None \<or> 0 < cadence A \<and> cadence A \<le> b"

lemma next_backoff_ok: "backoff_ok A b \<Longrightarrow> backoff_ok A (next_backoff (wa_poll_interval A) b)"
  by (auto simp: backoff_ok_def next_backoff_def cadence_def BACKOFF_START_def BACKOFF_CAP_def)

lemma start_backoff_ok: "backoff_ok A (case wa_poll_interval A of Some p \<Rightarrow> p | None \<Rightarrow> BACKOFF_START)"
  by (auto simp: backoff_ok_def cadence_def BACKOFF_START_def split: option.splits)

lemma loop_clock_backoff: "backoff_ok A (snd (loop_clock E A k))"
  by (induction k) (simp_all add: start_backoff_ok next_backoff_ok Let_def)

text \<open>One poll: the loop ends here, or goes on at a later time.\<close>

lemma loop_step:
  assumes "earliest_deadline (wa_timeout A) (wa_check_in A) = Some D" and "clock_ok E"
  defines "loop \<equiv> \<lambda>k. wait_loop E A k (fst (loop_clock E A k)) (snd (loop_clock E A k))"
  obtains r where "loop k = Some r" "ends_at E A D k r"
    | "loop k = loop (Suc k)" "unmet E A k" "fst (loop_clock E A k) < D"
      "D \<le> fst (loop_clock E A (Suc k)) \<or> fst (loop_clock E A k) + cadence A \<le> fst (loop_clock E A (Suc k))"
proof (cases "unmet E A k \<and> we_elapsed E k (fst (loop_clock E A k)) < D")
  case False
  note stop = deadline_stop_iff[OF assms(1)]
  show ?thesis
  proof (cases "poll_at E A k")
    case (Inl e)
    then show ?thesis by (intro that(1)[of "Inl e"]) (simp_all add: loop_def wait_loop.simps[of E A k] ends_at_def)
  next
    case (Inr p)
    then obtain n ls where p: "poll_at E A k = Inr (n, ls)" by (cases p) auto
    show ?thesis
    proof (cases "unmet E A k")
      case True
      then have "deadline_stop (wa_timeout A) (wa_check_in A) (we_elapsed E k (fst (loop_clock E A k))) =
          Some (if wa_timeout A = Some D then TimedOut else CheckIn)" using False by (simp add: stop)
      with True False p show ?thesis
        by (intro that(1)[of "Inr (if wa_timeout A = Some D then TimedOut else CheckIn, ls)"])
          (simp_all add: loop_def wait_loop.simps[of E A k] ends_at_def unmet_def Let_def)
    next
      case False
      with p show ?thesis by (intro that(1)[of "Inr (ConditionMet, ls)"])
        (simp_all add: loop_def wait_loop.simps[of E A k] ends_at_def unmet_def)
    qed
  qed
next
  case True
  define t where "t = fst (loop_clock E A k)"
  define t2 where "t2 = we_elapsed_again E k (we_elapsed E k t)"
  let ?t' = "fst (loop_clock E A (Suc k))" and ?b = "snd (loop_clock E A k)"
  have t: "t \<le> we_elapsed E k t" "we_elapsed E k t \<le> t2" "t2 + sleep_for (Some D) ?b t2 \<le> ?t'"
    using assms(1,2) by (simp_all add: clock_ok_def t2_def t_def Let_def)
  have "D \<le> ?t' \<or> t + cadence A \<le> ?t'"
  proof (cases "t2 < D")
    case True
    from sleep_progress[OF this, of ?b "cadence A"] loop_clock_backoff[of A E k] t show ?thesis
      by (auto simp: backoff_ok_def)
  qed (use t in linarith)
  moreover have "loop k = loop (Suc k)"
    using True deadline_stop_iff[OF assms(1)] assms(1) unfolding loop_def
    by (auto simp: wait_loop.simps[of E A k] unmet_def Let_def split: sum.splits prod.splits)
  ultimately show ?thesis using that(2) True t(1) by (simp add: t_def)
qed

lemma loop_returns:
  assumes "earliest_deadline (wa_timeout A) (wa_check_in A) = Some D" and "clock_ok E"
  shows "D \<le> fst (loop_clock E A k) + n * cadence A \<Longrightarrow>
    \<exists>j r. j \<le> n \<and> wait_loop E A k (fst (loop_clock E A k)) (snd (loop_clock E A k)) = Some r \<and>
      ends_at E A D (k + j) r \<and> (\<forall>i<j. unmet E A (k + i))"
proof (induction n arbitrary: k)
  case 0
  from loop_step[OF assms, of k] show ?case
  proof cases
    case (1 r)
    then show ?thesis by fastforce
  qed (use 0 in simp)
next
  case (Suc n)
  from loop_step[OF assms, of k] show ?case
  proof cases
    case (1 r)
    then show ?thesis by fastforce
  next
    case 2
    then have "D \<le> fst (loop_clock E A (Suc k)) + n * cadence A" using Suc.prems by auto
    from Suc.IH[OF this] obtain j r where j: "j \<le> n" "ends_at E A D (Suc k + j) r" "\<forall>i<j. unmet E A (Suc k + i)"
      "wait_loop E A (Suc k) (fst (loop_clock E A (Suc k))) (snd (loop_clock E A (Suc k))) = Some r" by blast
    have "unmet E A (k + i)" if "i < Suc j" for i
      using that j(3) 2(2) by (cases i) auto
    with j 2(1) show ?thesis by (intro exI[of _ "Suc j"] exI[of _ r]) simp
  qed
qed

text \<open>C18: a wait with a timeout or a check-in interval returns. It ends after at most one poll per pause
  and two more, at the first poll that fails or satisfies its condition, or else not before its deadline;
  the reason it gives is the earlier of the two deadlines, and what it reports of the runs is what
  that last poll saw.\<close>

theorem wait_returns_by_deadline:
  assumes "earliest_deadline (wa_timeout A) (wa_check_in A) = Some D" and "clock_ok E"
  shows "\<exists>k r. wait_start E A = Some r \<and> k \<le> D div cadence A + 1 \<and> ends_at E A D k r \<and> (\<forall>i<k. unmet E A i)"
proof -
  have "0 < cadence A" by (simp add: cadence_def BACKOFF_START_def split: option.splits)
  then have "D \<le> 0 + (D div cadence A + 1) * cadence A"
    using dividend_less_div_times[of "cadence A" D] by simp
  then have "D \<le> fst (loop_clock E A 0) + (D div cadence A + 1) * cadence A" by simp
  from loop_returns[OF assms this] show ?thesis unfolding wait_start_def by fastforce
qed

section \<open>Stalls\<close>

lemma settle_reads:
  assumes "current_settle C env rid now ob = Inr (Some s)"
  obtains m no ai where "read_manifest_opt rid (ob_dir ob) = Inr (Some m)"
    "read_node_opt rid (ob_dir ob) (NodeId DEFAULT_NODE_ID) = Inr no"
    "escalated_request C env (Option.bind no n_awaiting_input) now = Inr ai"
    "s = settle_of m no (SupervisorView_probe (ob_probes ob) (ob_pid_file ob)) ai now"
  using assms by (auto simp: current_settle_def res_simps wait_cli_def cli_core_def split: sum.splits option.splits)

lemma settle_of_sel [simp]:
  "sl_status (settle_of m no v ai now) = m_status m"
  "sl_awaiting_input (settle_of m no v ai now) = ai"
  "sl_caller (settle_of m no v ai now) = caller_lifecycle (Some m) no"
  by (simp_all add: settle_of_def Let_def)

lemma stall_gone:
  "sl_stall (settle_of m no v ai now) = Some k \<Longrightarrow> \<not> presumed_working v"
  by (auto simp: settle_of_def Let_def stall_kind_of_def is_stillborn_def is_orphaned_def split: if_splits)

lemma recorded_process_probe:
  assumes "read_pid_record f = Some (pid, start)" and "pid_live_with_identity P pid start"
  shows "presumed_working (SupervisorView_probe P f)"
proof -
  have "classify_pid_record f = PidPresent pid start"
    using assms(1) by (auto simp: read_pid_record_def read_pid_string_def classify_pid_record_def bind_eq_Some_conv
        split: option.splits entry.splits list.splits)
  with assms(2) show ?thesis by (simp add: SupervisorView_probe_def SupervisorView_new_def presumed_working_def)
qed

text \<open>A wait never calls a run stalled while the supervisor that claimed it is alive with the start
  values it was recorded with, however long the run has been idle; nor while the pid file cannot be
  read, for then nothing is known.\<close>

theorem claimed_run_not_stalled:
  assumes "current_settle C env rid now ob = Inr (Some s)"
    and "(\<exists>H pid f. claim_pid_atomic H pid f = Inr (ob_pid_file ob) \<and> pid_alive (ob_probes ob) pid \<and>
        pid_start_identity (ob_probes ob) pid = pid_start_identity H pid \<and>
        pid_start_time (ob_probes ob) pid = pid_start_time H pid) \<or>
      classify_pid_record (ob_pid_file ob) = PidUnreadable"
  shows "sl_stall s = None"
proof -
  let ?v = "SupervisorView_probe (ob_probes ob) (ob_pid_file ob)"
  have "presumed_working ?v" using assms(2)
  proof
    assume "\<exists>H pid f. claim_pid_atomic H pid f = Inr (ob_pid_file ob) \<and> pid_alive (ob_probes ob) pid \<and>
        pid_start_identity (ob_probes ob) pid = pid_start_identity H pid \<and>
        pid_start_time (ob_probes ob) pid = pid_start_time H pid"
    then obtain H pid f where c: "claim_pid_atomic H pid f = Inr (ob_pid_file ob)" "pid_alive (ob_probes ob) pid"
      "pid_start_identity (ob_probes ob) pid = pid_start_identity H pid"
      "pid_start_time (ob_probes ob) pid = pid_start_time H pid" by blast
    have valid: "to_pid_t pid \<noteq> None" using c(2) by (auto simp: pid_alive_def split: option.splits)
    have "read_pid_record (ob_pid_file ob) = Some (pid, RecordedStart_capture H pid)"
      using written_record_reads_back[OF valid, of f H] claim_writes[OF c(1)]
      by (cases "f = Some Symlink") (auto simp: write_pid_def reject_pid_symlink_def)
    then show ?thesis using c(2) matches_own_capture[OF c(3,4)]
      by (intro recorded_process_probe) (simp_all add: pid_live_with_identity_def)
  next
    assume "classify_pid_record (ob_pid_file ob) = PidUnreadable"
    then show ?thesis by (simp add: SupervisorView_probe_def SupervisorView_new_def presumed_working_def)
  qed
  with assms(1) show ?thesis by (metis settle_reads stall_gone option.exhaust)
qed

section \<open>A supervisor that died before the first node\<close>

text \<open>A run that is pending, without a node and unchanged since its creation.\<close>

definition never_started :: "run_id \<Rightarrow> run_dir \<Rightarrow> bool" where
  "never_started rid d \<longleftrightarrow> d_nodes d = [] \<and> \<not> d_nodes_symlink d \<and> \<not> d_root_symlink d \<and>
     (\<exists>m. read_manifest_opt rid d = Inr (Some m) \<and> m_status m = Pending \<and> m_node_count m = 0 \<and>
        m_updated_at m = m_created_at m)"

lemma advance_never_started:
  assumes "never_started rid d"
  shows "never_started rid (snd (advance_applied_seq rid seq d))"
proof -
  from assms obtain m where m: "read_manifest_opt rid d = Inr (Some m)" "m_status m = Pending" "m_node_count m = 0"
    "m_updated_at m = m_created_at m" "d_nodes d = []" "\<not> d_nodes_symlink d" "\<not> d_root_symlink d"
    by (auto simp: never_started_def)
  from m(1) obtain d' where d': "advance_applied_seq rid seq d = (Inr (), d')"
    "read_manifest_opt rid d' = Inr (Some (advanced d seq m))" by (rule advance_some)
  have "d_nodes d' = [] \<and> \<not> d_nodes_symlink d' \<and> \<not> d_root_symlink d'"
    using d'(1) by (rule advance_cases) (use m(5-7) in \<open>auto simp: write_manifest_Inr\<close>)
  with m d' show ?thesis
    by (auto simp: never_started_def advanced_def derive_counters_def count_node_files_def)
qed

lemma log_never_started: "never_started rid (d\<lparr>d_events := bs\<rparr>) = never_started rid d"
  by (simp add: never_started_def log_reads)

lemma record_never_started:
  assumes "never_started rid d"
  shows "never_started rid (recorded_state X rid ev [] d)"
proof -
  have "never_started rid (logged_state X ev d)" using assms log_never_started by (metis logged_state_log)
  then show ?thesis
    using advance_never_started[of rid "logged_state X ev d"] by (simp add: recorded_state_def folded_state_def ret_def)
qed

text \<open>The first event of a run, on the empty directory it is staged in.\<close>

lemma created_never_started:
  assumes X: "ext_ok X" and ev: "ev = new_event clock rid ''run.created'' None None data 1" "loggable ev"
    and a: "append_and_apply_event X clock rid ''run.created'' None None data empty_dir = (Inr a, d)"
  shows "never_started rid d" and "synced X rid d [ev]"
proof -
  have l: "log_is X empty_dir [] []" by (simp add: log_is_def empty_dir_def line_ok_def)
  have e: "replay_unapplied_unlocked X rid empty_dir = (Inr (), empty_dir)" "checked_events empty_dir = Inr ()"
    "read_manifest_opt rid empty_dir = Inr None"
    by (simp_all add: replay_unapplied_unlocked_def replay_unapplied_def bind_io_def reading_def updating_def ret_def
        checked_events_def checked_manifest_def guard_root_def reject_symlink_def truncate_torn_tail_def
        read_manifest_opt_def read_json_opt_def empty_dir_def)
  have ev': "ev = new_event clock rid ''run.created'' None None data (last_seq [] + 1)"
    using ev(1) by (simp add: last_seq_def)
  obtain ops where r: "reduce_event_to_ops X rid empty_dir ev = Inr ops" and d: "d = recorded_state X rid ev ops empty_dir"
    using a append_after_replay[OF X e(1) l e(2,3) ev'] e(1)
    by (auto simp: append_and_apply_event_def bind_io_def ret_def split: sum.splits)
  have "reduce_run_created X rid empty_dir ev = Inr ops" using r ev(1)
    by (simp add: reduce_event_to_ops_def reducers_def new_event_def)
  then obtain m where m: "ops = [OpManifest m]" "m_run_id m = rid" "m_schema_version m = STATE_SCHEMA_VERSION"
    "m_applied_seq m = 0" "m_status m = Pending" "m_node_count m = 0" "m_updated_at m = m_created_at m"
    using e(3) by (auto simp: reduce_run_created_def res_simps Let_def)
  define f where "f = (logged_state X ev empty_dir)\<lparr>d_manifest := Some (File m)\<rparr>"
  have lg: "d_nodes f = []" "\<not> d_nodes_symlink f" "\<not> d_root_symlink f" "\<not> d_events_symlink f" "d_manifest f = Some (File m)"
    by (simp_all add: f_def logged_state_def append_line_def empty_dir_def)
  have rd: "read_manifest_opt rid f = Inr (Some m)"
    using lg m(2,3) by (simp add: read_manifest_opt_def checked_manifest_def guard_root_def reject_symlink_def
        read_json_opt_def check_schema_def check_run_id_def ensure_def SUPPORTED_STATE_SCHEMAS_def STATE_SCHEMA_VERSION_def)
  have "folded_state X rid ev ops empty_dir = f"
    using m(2) by (simp add: folded_state_def m(1) commit_op_def bind_io_def updating_def ret_def write_manifest_def
        checked_manifest_def guard_root_def reject_symlink_def check_run_id_def ensure_def f_def logged_state_def
        append_line_def empty_dir_def)
  then have d2: "d = snd (advance_applied_seq rid 1 f)" using d ev(1) by (simp add: recorded_state_def new_event_def)
  have "never_started rid f" using lg rd m(5-7) by (auto simp: never_started_def)
  then show "never_started rid d" unfolding d2 by (rule advance_never_started)
  obtain d' where d': "advance_applied_seq rid 1 f = (Inr (), d')" "same_log f d'"
    "read_manifest_opt rid d' = Inr (Some (advanced f 1 m))" using rd by (rule advance_some)
  have "log_is X d ([] @ [ev]) []" unfolding d by (rule recorded_log[OF l ev(2) r e(3)])
  moreover have "checked_events d = Inr ()"
    using d'(1,2) lg by (simp add: d2 same_log_def checked_events_def guard_root_def reject_symlink_def)
  ultimately show "synced X rid d [ev]"
    using d'(1,3) m(4) ev(1) by (auto simp: synced_def d2 advanced_def last_seq_def new_event_def)
qed

lemma event_append_synced:
  assumes X: "ext_ok X" and s: "synced X rid d evs" and ev: "ev = new_event clock rid k nid key data (last_seq evs + 1)"
    and a: "append_and_apply_event X clock rid k nid key data d = (r, d')"
  shows "d' = d \<or> (\<exists>ops. reduce_event_to_ops X rid d ev = Inr ops \<and> d' = recorded_state X rid ev ops d)"
  using a append_synced[OF X s ev] replay_synced[OF X s] find_prior_synced[OF X s]
  by (auto simp: append_and_apply_event_def bind_io_def reading_def ret_def split: option.splits sum.splits)

text \<open>Events without a reducer, such as the \<open>supervisor.started\<close> of a boot.\<close>

definition inert :: "(u64 \<Rightarrow> time) \<Rightarrow> run_id \<Rightarrow> string \<times> node_id option \<times> string option \<times> json \<Rightarrow> bool" where
  "inert clock rid e = (case e of (k, nid, key, data) \<Rightarrow>
     k \<notin> fst ` set reducers \<and> (\<forall>s. loggable (new_event clock rid k nid key data s)))"

fun record_events ::
    "ext \<Rightarrow> (u64 \<Rightarrow> time) \<Rightarrow> run_id \<Rightarrow> (string \<times> node_id option \<times> string option \<times> json) list \<Rightarrow> run_dir \<Rightarrow> run_dir" where
  "record_events X clock rid [] d = d"
| "record_events X clock rid ((k, nid, key, data) # es) d =
     record_events X clock rid es (snd (append_and_apply_event X clock rid k nid key data d))"

lemma inert_ops: "inert clock rid (k, nid, key, data) \<Longrightarrow>
    reduce_event_to_ops X rid d (new_event clock rid k nid key data s) = Inr []"
  by (auto simp: inert_def reduce_event_to_ops_def new_event_def no_projection_def map_of_eq_None_iff split: option.splits)
    (metis map_of_eq_None_iff option.distinct(1))

lemma inert_keeps_never_started:
  assumes X: "ext_ok X"
  shows "list_all (inert clock rid) es \<Longrightarrow> room X rid (length es) d \<Longrightarrow> never_started rid d \<Longrightarrow>
    never_started rid (record_events X clock rid es d)"
proof (induction es arbitrary: d)
  case (Cons e es)
  obtain k nid key data where e: "e = (k, nid, key, data)" by (cases e)
  obtain r d' where a: "append_and_apply_event X clock rid k nid key data d = (r, d')" by fastforce
  from Cons.prems(2) obtain evs where s: "synced X rid d evs" "unat (last_seq evs) + Suc (length es) < 2 ^ 64"
    by (auto simp: room_def)
  let ?ev = "new_event clock rid k nid key data (last_seq evs + 1)"
  have i: "inert clock rid (k, nid, key, data)" using Cons.prems(1) e by simp
  then have lg: "loggable ?ev" by (simp add: inert_def)
  note w = word_add_one_room[OF s(2)]
  have "d' = d \<or> d' = recorded_state X rid ?ev [] d"
    using event_append_synced[OF X s(1) refl a] inert_ops[OF i] by auto
  moreover have "synced X rid (recorded_state X rid ?ev [] d) (evs @ [?ev])"
    using w by (intro recorded_synced[OF s(1) lg _ _ inert_ops[OF i]]) (simp_all add: new_event_def)
  then have "room X rid (length es) (recorded_state X rid ?ev [] d)"
    using w unfolding room_def by (intro exI[of _ "evs @ [?ev]"]) (simp add: last_seq_def new_event_def)
  moreover have "room X rid (length es) d" using Cons.prems(2) by (auto intro: room_Suc)
  ultimately have "room X rid (length es) d' \<and> never_started rid d'"
    using Cons.prems(3) record_never_started by auto
  then show ?case using Cons.IH[of d'] Cons.prems(1) a e by simp
qed simp

text \<open>C27: a run whose supervisor is gone before it created a node ends every wait. Whatever events without
  a reducer were recorded after \<open>run.created\<close>, a poll that finds no live or unreadable pid record sees
  the run as stillborn, and the run counts as settled.\<close>

theorem dead_start_ends_wait:
  assumes X: "ext_ok X" and lg: "loggable (new_event clock rid ''run.created'' None None data 1)"
    and created: "append_and_apply_event X clock rid ''run.created'' None None data empty_dir = (Inr a, d)"
    and boot: "list_all (inert clock rid) es" "length es + 1 < 2 ^ 64" "ob_dir ob = record_events X clock rid es d"
    and gone: "sv_state (SupervisorView_probe (ob_probes ob) (ob_pid_file ob)) \<in> {SupDead, SupNotRecorded}"
  shows "\<exists>s. current_settle C env rid now ob = Inr (Some s) \<and> sl_stall s = Some Stillborn \<and> is_settled False s"
proof -
  note c = created_never_started[OF X refl lg created]
  have "room X rid (length es) d" unfolding room_def
    by (rule exI, rule conjI[OF c(2)]) (use boot(2) in \<open>simp add: last_seq_def new_event_def\<close>)
  from inert_keeps_never_started[OF X boot(1) this c(1)] boot(3) have "never_started rid (ob_dir ob)" by simp
  then obtain m where m: "read_manifest_opt rid (ob_dir ob) = Inr (Some m)" "m_status m = Pending" "m_node_count m = 0"
    "m_updated_at m = m_created_at m" and n: "read_node_opt rid (ob_dir ob) (NodeId DEFAULT_NODE_ID) = Inr None"
    by (auto simp: never_started_def read_node_opt_def checked_node_def guard_root_def reject_symlink_def
        node_entry_def read_json_opt_def)
  have "\<not> presumed_working (SupervisorView_probe (ob_probes ob) (ob_pid_file ob))"
    using gone by (simp add: presumed_working_def)
  with m n show ?thesis
    by (simp add: current_settle_def wait_cli_def cli_core_def escalated_request_def settle_of_def Let_def
        stall_kind_of_def is_stillborn_def is_settled_def)
qed

section \<open>The exit code\<close>

lemma poll_settled:
  assumes "poll_runs see term i rids = Inr (n, ls)"
  shows "n \<le> length rids" and "length ls = length rids"
    and "n = length rids \<Longrightarrow> j < length rids \<Longrightarrow>
      \<exists>s. see (rids ! j) (i + j) = Inr (Some s) \<and> is_settled term s \<and> ls ! j = latch s"
proof -
  have "n \<le> length rids \<and> length ls = length rids \<and> (n = length rids \<longrightarrow> (\<forall>j<length rids.
      \<exists>s. see (rids ! j) (i + j) = Inr (Some s) \<and> is_settled term s \<and> ls ! j = latch s))"
    using assms
  proof (induction rids arbitrary: i n ls)
    case (Cons rid rids)
    from Cons.prems obtain s n' ls' where s: "see rid i = Inr (Some s)" "poll_runs see term (Suc i) rids = Inr (n', ls')"
      "n = (if is_settled term s then Suc n' else n')" "ls = latch s # ls'"
      by (auto simp: res_simps split: option.splits)
    note ih = Cons.IH[OF s(2)]
    show ?case using ih s by (auto simp: nth_Cons' less_Suc_eq_0_disj split: if_splits)
  qed simp
  then show "n \<le> length rids" "length ls = length rids"
    "n = length rids \<Longrightarrow> j < length rids \<Longrightarrow>
      \<exists>s. see (rids ! j) (i + j) = Inr (Some s) \<and> is_settled term s \<and> ls ! j = latch s" by blast+
qed

lemma outcomes_nth:
  assumes "outcomes X H F E A fin i ps = Inr ous"
  shows "length ous = length ps" and "j < length ps \<Longrightarrow>
    \<exists>ou. read_outcome H F (we_chrono E) (we_grace E) (fst (ps ! j)) (latched_for A (snd (ps ! j))) (fin (i + j)) = Inr ou \<and>
      (ous ! j)\<lparr>ou_progress_evidence := None\<rparr> = ou\<lparr>ou_progress_evidence := None\<rparr>"
proof -
  have "length ous = length ps \<and> (\<forall>j<length ps.
    \<exists>ou. read_outcome H F (we_chrono E) (we_grace E) (fst (ps ! j)) (latched_for A (snd (ps ! j))) (fin (i + j)) = Inr ou \<and>
      (ous ! j)\<lparr>ou_progress_evidence := None\<rparr> = ou\<lparr>ou_progress_evidence := None\<rparr>)"
    using assms
  proof (induction ps arbitrary: i ous)
    case (Cons p ps)
    obtain rid l where p: "p = (rid, l)" by (cases p)
    from Cons.prems obtain ou u us where o: "read_outcome H F (we_chrono E) (we_grace E) rid (latched_for A l) (fin i) = Inr ou"
      "u = ou \<or> (\<exists>pe. u = ou\<lparr>ou_progress_evidence := Some pe\<rparr>)"
      "outcomes X H F E A fin (Suc i) ps = Inr us" "ous = u # us"
      by (auto simp: p res_simps split: if_splits)
    have "u\<lparr>ou_progress_evidence := None\<rparr> = ou\<lparr>ou_progress_evidence := None\<rparr>" using o(2) by auto
    with Cons.IH[OF o(3)] o(1,4) p show ?case by (auto simp: nth_Cons' less_Suc_eq_0_disj)
  qed simp
  then show "length ous = length ps" "j < length ps \<Longrightarrow>
    \<exists>ou. read_outcome H F (we_chrono E) (we_grace E) (fst (ps ! j)) (latched_for A (snd (ps ! j))) (fin (i + j)) = Inr ou \<and>
      (ous ! j)\<lparr>ou_progress_evidence := None\<rparr> = ou\<lparr>ou_progress_evidence := None\<rparr>" by blast+
qed

text \<open>What the loop saw and the answer agree: a wait that met its condition did so at its last poll.\<close>

lemma wait_loop_met:
  assumes "wait_loop E A k t b = Some (Inr (ConditionMet, ls))"
  shows "\<exists>k n. poll_at E A k = Inr (n, ls) \<and> condition_met (wa_condition A) (length (wa_run_ids A)) n"
proof -
  have "\<forall>ls. r = Inr (ConditionMet, ls) \<longrightarrow> (\<exists>k n. poll_at E A k = Inr (n, ls) \<and>
      condition_met (wa_condition A) (length (wa_run_ids A)) n)" if "wait_loop E A k t b = Some r" for r
  proof (rule wait_loop.raw_induct[where P = "\<lambda>E A k t b r. \<forall>ls. r = Inr (ConditionMet, ls) \<longrightarrow>
        (\<exists>k n. poll_at E A k = Inr (n, ls) \<and> condition_met (wa_condition A) (length (wa_run_ids A)) n)", OF _ that])
    fix f :: "wait_env \<Rightarrow> wait_args \<Rightarrow> nat \<Rightarrow> nat \<Rightarrow> nat \<Rightarrow> (stop \<times> latched_settle list) waits option"
      and E A k t b and r :: "(stop \<times> latched_settle list) waits"
    assume ih: "\<And>E A k t b r. f E A k t b = Some r \<Longrightarrow> \<forall>ls. r = Inr (ConditionMet, ls) \<longrightarrow>
        (\<exists>k n. poll_at E A k = Inr (n, ls) \<and> condition_met (wa_condition A) (length (wa_run_ids A)) n)"
    assume "(case poll_at E A k of Inl e \<Rightarrow> Some (Inl e) | Inr (n0, ls) \<Rightarrow>
         if condition_met (wa_condition A) (length (wa_run_ids A)) n0 then Some (Inr (ConditionMet, ls))
         else (let t1 = we_elapsed E k t in
            case deadline_stop (wa_timeout A) (wa_check_in A) t1 of
              None \<Rightarrow> (let t2 = we_elapsed_again E k t1;
                     dur = sleep_for (earliest_deadline (wa_timeout A) (wa_check_in A)) b t2
                 in f E A (Suc k) (we_sleep E k t2 dur) (next_backoff (wa_poll_interval A) b))
            | Some s \<Rightarrow> Some (Inr (s, ls)))) = Some r"
    then show "\<forall>ls. r = Inr (ConditionMet, ls) \<longrightarrow> (\<exists>k n. poll_at E A k = Inr (n, ls) \<and>
        condition_met (wa_condition A) (length (wa_run_ids A)) n)"
      using ih by (auto simp: Let_def deadline_stop_def split: sum.splits prod.splits if_splits option.splits)
  qed
  with assms show ?thesis by blast
qed

text \<open>Between a poll and the reading of the outcome other processes write through the write paths only,
  and a recorded lifecycle has a generation, which the reducer counts from 1.\<close>

definition writes_forward :: "ext \<Rightarrow> wait_env \<Rightarrow> (nat \<Rightarrow> 'w ending) \<Rightarrow> run_id list \<Rightarrow> bool" where
  "writes_forward X E fin rids \<longleftrightarrow> (\<forall>k i. i < length rids \<longrightarrow>
     run_steps X (rids ! i) (ob_dir (we_seen E k i)) (en_dir (fin i)) \<and>
     (\<forall>n l. read_node_opt (rids ! i) (ob_dir (we_seen E k i)) (NodeId DEFAULT_NODE_ID) = Inr (Some n) \<longrightarrow>
        n_caller_pi_lifecycle n = Some l \<longrightarrow> pl_generation l \<noteq> 0))"

lemma status_wire [simp]: "terminal_wire (status_name s) = is_terminal s"
  "status_name s \<in> {''failed'', ''cancelled''} \<longleftrightarrow> s \<in> {Failed, Cancelled}"
  by (cases s; simp add: terminal_wire_def status_name_def is_terminal_def)+

lemma settled_error_evidence:
  "u\<lparr>ou_progress_evidence := None\<rparr> = v\<lparr>ou_progress_evidence := None\<rparr> \<Longrightarrow> settled_error t u = settled_error t v"
  by (cases u; cases v) (simp add: settled_error_def split: option.splits)

lemma read_outcome_of:
  assumes "read_outcome H F C env rid l en = Inr ou"
  obtains m inp request detail where "read_manifest_opt rid (en_dir en) = Inr (Some m)"
    "read_node_opt rid (en_dir en) (NodeId DEFAULT_NODE_ID) = Inr (oi_node inp)" "oi_manifest inp = Some m"
    "ou = outcome_of H F rid l en m inp request detail"
proof -
  from assms obtain inp m request detail where i: "read_outcome_inputs C rid (en_dir en) = Inr inp" "oi_manifest inp = Some m"
    "ou = outcome_of H F rid l en m inp request detail"
    unfolding read_outcome_def Let_def rbind_Inr_iff ok_or_Inr by blast
  moreover from i(1) have "read_manifest_opt rid (en_dir en) = Inr (oi_manifest inp)"
    "read_node_opt rid (en_dir en) (NodeId DEFAULT_NODE_ID) = Inr (oi_node inp)"
    unfolding read_outcome_inputs_def rbind_Inr_iff by (auto simp: wait_cli_def cli_core_def split: sum.splits)
  ultimately show ?thesis using that by metis
qed

text \<open>An open run that is not graded as an error was latched with none of the verdicts that are.\<close>

lemma open_not_graded:
  assumes "\<not> settled_error False (outcome_of H F rid l en m inp request detail)" and "\<not> is_terminal (m_status m)"
    and "caller_stopped (la_caller l) \<Longrightarrow> caller_lifecycle (oi_manifest inp) (oi_node inp) \<noteq> None"
  shows "\<not> la_attention l" "la_stall l = None" "la_awaiting_input l = None" "\<not> caller_stopped (la_caller l)"
proof -
  let ?ou = "outcome_of H F rid l en m inp request detail"
  have e: "\<not> ou_attention_required ?ou" "\<not> ou_stalled ?ou" "\<not> ou_settled_awaiting_input ?ou"
    "(case ou_caller_agent ?ou of None \<Rightarrow> False | Some v \<Rightarrow> cv_settled_generation v \<noteq> None \<and> \<not> terminal_wire (ou_status ?ou)) = False"
    using assms(1) unfolding settled_error_def by blast+
  show a: "\<not> la_attention l" using e(1) assms(2) by (simp add: outcome_of_def Let_def)
  show "la_stall l = None" using e(2) assms(2) a by (simp add: outcome_of_def Let_def)
  show "la_awaiting_input l = None" using e(3) assms(2) by (simp add: outcome_of_def Let_def)
  show "\<not> caller_stopped (la_caller l)"
  proof
    assume c: "caller_stopped (la_caller l)"
    then obtain q where "la_caller l = Some q" "needs_attention (pl_state q)"
      by (auto simp: caller_stopped_def split: option.splits)
    moreover obtain now where "caller_lifecycle (oi_manifest inp) (oi_node inp) = Some now" using assms(3)[OF c] by blast
    ultimately show False using e(4) assms(2)
      by (simp add: outcome_of_def Let_def caller_view_def filter_opt_def)
  qed
qed

lemma caller_lifecycle_kept:
  assumes st: "run_steps X rid d d'" and m: "read_manifest_opt rid d = Inr (Some m)" "read_manifest_opt rid d' = Inr (Some m')"
    and n: "read_node_opt rid d nid = Inr no" "read_node_opt rid d' nid = Inr no'"
    and c: "caller_lifecycle (Some m) no = Some l" "pl_generation l \<noteq> 0"
  shows "caller_lifecycle (Some m') no' \<noteq> None"
proof -
  have o: "m_agent_owner m' = m_agent_owner m" "m_agent_owner m = Caller"
    using manifest_history.history[OF st, of m] m c(1)
    by (auto simp: manifest_later_def caller_lifecycle_def split: if_splits)
  from c(1) obtain n0 where n0: "no = Some n0" "n_caller_pi_lifecycle n0 = Some l"
    by (auto simp: caller_lifecycle_def split: if_splits bind_splits)
  then obtain n1 where n1: "no' = Some n1" "lifecycle_generation n0 \<le> lifecycle_generation n1"
    using node_history.history[OF st, of nid n0] n by (auto simp: node_later_def)
  have "n_caller_pi_lifecycle n1 \<noteq> None"
    using n1(2) n0(2) c(2) by (auto simp: lifecycle_generation_field pi_generation_def split: option.splits)
  with n1(1) o show ?thesis by (simp add: caller_lifecycle_def)
qed

text \<open>The outcome of one run that the last poll counted as settled.\<close>

definition good_end :: "bool \<Rightarrow> run_outcome \<Rightarrow> bool" where
  "good_end terminal_only ou \<longleftrightarrow>
     ou_status ou = ''done'' \<and> (ou_merged ou \<or> ou_preserved_work ou = []) \<or> \<not> terminal_only \<and> ou_round_reported ou"

lemma terminal_good_end:
  assumes "\<not> settled_error t (outcome_of H F rid l en m inp request detail)" and "is_terminal (m_status m)"
  shows "good_end t (outcome_of H F rid l en m inp request detail)"
proof -
  let ?ou = "outcome_of H F rid l en m inp request detail"
  have sel: "ou_status ?ou = status_name (m_status m)" "ou_report_only ?ou = (m_status m = Done \<and> \<not> ou_merged ?ou)"
    by (simp_all add: outcome_of_def Let_def)
  with assms have "m_status m \<notin> {Failed, Cancelled}" "\<not> (ou_report_only ?ou \<and> ou_preserved_work ?ou \<noteq> [])"
    by (auto simp: settled_error_def terminal_wire_def status_name_def split: status.splits)
  with assms(2) sel show ?thesis by (cases "m_status m") (auto simp: good_end_def is_terminal_def status_name_def)
qed

lemma open_good_end:
  assumes s: "current_settle C env rid now ob = Inr (Some s)" "is_settled (wa_terminal_only A) s"
    and ok: "\<not> settled_error (wa_terminal_only A) (outcome_of H F rid (latched_for A (latch s)) en m' inp request detail)"
    and m': "read_manifest_opt rid (en_dir en) = Inr (Some m')" "\<not> is_terminal (m_status m')"
    and inp: "read_node_opt rid (en_dir en) (NodeId DEFAULT_NODE_ID) = Inr (oi_node inp)" "oi_manifest inp = Some m'"
    and st: "run_steps X rid (ob_dir ob) (en_dir en)"
    and gen: "\<And>n l. read_node_opt rid (ob_dir ob) (NodeId DEFAULT_NODE_ID) = Inr (Some n) \<Longrightarrow>
      n_caller_pi_lifecycle n = Some l \<Longrightarrow> pl_generation l \<noteq> 0"
  shows "good_end (wa_terminal_only A) (outcome_of H F rid (latched_for A (latch s)) en m' inp request detail)"
proof -
  obtain m no ai where m: "read_manifest_opt rid (ob_dir ob) = Inr (Some m)"
    "read_node_opt rid (ob_dir ob) (NodeId DEFAULT_NODE_ID) = Inr no"
    "sl_status s = m_status m" "sl_caller s = caller_lifecycle (Some m) no"
    by (rule settle_reads[OF s(1)]) simp
  have "\<not> is_terminal (m_status m)" using manifest_history.history[OF st] m(1) m'
    by (auto simp: manifest_later_def is_terminal_def)
  with s(2) m(3) have t: "\<not> wa_terminal_only A" and v: "sl_stall s \<noteq> None \<or> sl_attention s \<or> sl_round s \<noteq> None \<or>
      sl_awaiting_input s \<noteq> None \<or> caller_stopped (sl_caller s)" by (auto simp: is_settled_def)
  have lat: "latched_for A (latch s) = latch s" using t by (simp add: latched_for_def)
  have kept: "caller_lifecycle (oi_manifest inp) (oi_node inp) \<noteq> None" if "caller_stopped (la_caller (latch s))"
  proof -
    from that m(4) obtain l where c: "caller_lifecycle (Some m) no = Some l"
      by (auto simp: latch_def caller_stopped_def split: option.splits)
    then obtain n where "no = Some n" "n_caller_pi_lifecycle n = Some l"
      by (auto simp: caller_lifecycle_def split: if_splits bind_splits)
    then have "pl_generation l \<noteq> 0" using gen m(2) by auto
    then show ?thesis using caller_lifecycle_kept[OF st m(1) m'(1) m(2) inp(1) c] inp(2) by simp
  qed
  have "\<not> settled_error False (outcome_of H F rid (latch s) en m' inp request detail)" using ok t lat by simp
  note open_not_graded[OF this m'(2) kept]
  with v have "sl_round s \<noteq> None" by (simp add: latch_def)
  with t m'(2) show ?thesis unfolding lat by (simp add: good_end_def latch_def outcome_of_def Let_def)
qed

lemma good_end_evidence:
  "u\<lparr>ou_progress_evidence := None\<rparr> = v\<lparr>ou_progress_evidence := None\<rparr> \<Longrightarrow>
    good_end t u = good_end t v \<and> ou_run_id u = ou_run_id v"
  by (cases u; cases v) (simp add: good_end_def)

text \<open>C19: exit code 0. A wait for all runs under \<open>--fail-on-error\<close> that exits with 0 answers for every
  run, and every run either finished as \<open>done\<close>, merged or with nothing left behind, or (unless only
  terminal runs count) is a resident that reported its round. Nothing that stalled, needs attention,
  waits for a decision or lost its caller is answered with 0, even when it changed after the last poll.\<close>

theorem exit_zero_means_done:
  assumes w: "run_wait X H F E first fin A = Some (Inr res)" "wd_exit_code res = 0"
    and A: "wa_fail_on_error A" "wa_condition A = All_runs"
    and fwd: "writes_forward X E fin (wa_run_ids A)"
  shows "map ou_run_id (wd_runs res) = map run_id_str (wa_run_ids A) \<and>
    list_all (\<lambda>ou. ou_status ou = ''done'' \<and> (ou_merged ou \<or> ou_preserved_work ou = []) \<or>
      \<not> wa_terminal_only A \<and> ou_round_reported ou) (wd_runs res)"
proof -
  let ?rids = "wa_run_ids A"
  from w(1) obtain reason ls ous where r: "wait_start E A = Some (Inr (reason, ls))"
    and o: "outcomes X H F E A fin 0 (zip ?rids ls) = Inr ous" "wd_runs res = ous"
    and c: "wd_exit_code res = exit_code_of reason (wa_fail_on_error A) (any_settled_error ous (wa_terminal_only A))"
    by (auto simp: run_wait_def res_simps bind_eq_Some_conv split: sum.splits)
  have l: "wait_start E A = Some (Inr (ConditionMet, ls))" and ok: "\<not> any_settled_error ous (wa_terminal_only A)"
    using r c w(2) A(1) by (cases reason; simp add: exit_code_of_def split: if_splits)+
  from wait_loop_met[OF l[unfolded wait_start_def]] A(2) obtain k where
    p: "poll_at E A k = Inr (length ?rids, ls)" by (auto simp: condition_met_def)
  note ps = poll_settled[OF p[unfolded poll_at_def]] and on = outcomes_nth[OF o(1)]
  have len: "length ous = length ?rids" using on(1) ps(2) by simp
  have run: "good_end (wa_terminal_only A) (ous ! j) \<and> ou_run_id (ous ! j) = run_id_str (?rids ! j)" if j: "j < length ?rids" for j
  proof -
    obtain s where s: "current_settle (we_chrono E) (we_grace E) (?rids ! j) (we_utc E k) (we_seen E k j) = Inr (Some s)"
      "is_settled (wa_terminal_only A) s" "ls ! j = latch s" using ps(3)[OF refl j] by auto
    obtain ou where ou: "read_outcome H F (we_chrono E) (we_grace E) (?rids ! j) (latched_for A (latch s)) (fin j) = Inr ou"
      "(ous ! j)\<lparr>ou_progress_evidence := None\<rparr> = ou\<lparr>ou_progress_evidence := None\<rparr>"
      using on(2)[of j] j ps(2) s(3) by auto
    have "ous ! j \<in> set ous" using len j by simp
    then have ok1: "\<not> settled_error (wa_terminal_only A) ou"
      using ok settled_error_evidence[OF ou(2)] unfolding any_settled_error_def list_ex_iff by blast
    obtain m' inp request detail where m': "read_manifest_opt (?rids ! j) (en_dir (fin j)) = Inr (Some m')"
      "read_node_opt (?rids ! j) (en_dir (fin j)) (NodeId DEFAULT_NODE_ID) = Inr (oi_node inp)" "oi_manifest inp = Some m'"
      and oo: "ou = outcome_of H F (?rids ! j) (latched_for A (latch s)) (fin j) m' inp request detail"
      by (rule read_outcome_of[OF ou(1)])
    have "good_end (wa_terminal_only A) ou"
    proof (cases "is_terminal (m_status m')")
      case True
      with ok1 show ?thesis unfolding oo by (rule terminal_good_end)
    next
      case False
      from fwd j show ?thesis unfolding oo writes_forward_def
        by (intro open_good_end[OF s(1,2) ok1[unfolded oo] m'(1) False m'(2,3)]) auto
    qed
    then show ?thesis using good_end_evidence[OF ou(2)] oo by (simp add: outcome_of_def Let_def)
  qed
  have "map ou_run_id ous = map run_id_str ?rids" using len run by (intro nth_equalityI) simp_all
  moreover have "list_all (good_end (wa_terminal_only A)) ous" using len run by (simp add: list_all_length)
  ultimately show ?thesis using o(2) by (simp add: good_end_def[abs_def])
qed

section \<open>Retained work\<close>

text \<open>What a verified observation of a present worktree rests on.\<close>

lemma verified_parts:
  assumes "observe_terminal H F w m n = Some r" and "ro_verified r" and "pw_worktree_present (ro_view r)"
  obtains p repo rows row where "n_worktree_path n = Some p" "m_source_repo m = Some repo"
    "worktree_registrations H w repo = Some rows" "find (\<lambda>row. paths_equivalent F w (wr_path row) p) rows = Some row"
    "branch_binding_ok (Some row) (filter_opt (\<lambda>s. s \<noteq> []) (n_branch n))"
    "present_identity_matches F w (Some p) (recorded_identity F w repo)"
    "worktree_presence F w (Some p) = (True, True)" "worktree_status_clean H w p \<noteq> None"
  using assms
  by (auto simp: observe_terminal_def Let_def bind_eq_Some_conv worktree_presence_def split: if_splits prod.splits option.splits)

text \<open>C26: retained work stays visible. For a terminal node of a terminal run nothing is reported only
  when its record names neither a worktree nor a branch, or when the worktree is verifiably absent
  and git answered that the branch does not exist; and an observation is called verified, which is
  what a discard asks for, only when a present worktree is registered with the source repository, on
  the recorded branch or none, and is a checkout of that same repository, and its state and its
  commits ahead of the source could be read.\<close>

theorem retained_work_stays_visible:
  assumes "is_terminal (m_status m)" and "is_terminal (n_status n)"
  shows "case observe_terminal H F w m n of
      None \<Rightarrow> (case n_worktree_path n of None \<Rightarrow> True | Some p \<Rightarrow> fs_try_exists F w p = Some False) \<and>
        (case filter_opt (\<lambda>s. s \<noteq> []) (n_branch n) of None \<Rightarrow> True
         | Some b \<Rightarrow> \<exists>repo. m_source_repo m = Some repo \<and> branch_exists H w repo b = Some False)
    | Some r \<Rightarrow> ro_verified r \<longrightarrow> pw_unmerged_commits (ro_view r) \<noteq> None \<and>
        (pw_worktree_present (ro_view r) \<longrightarrow> (\<exists>p repo rows row b. n_worktree_path n = Some p \<and>
           m_source_repo m = Some repo \<and> worktree_registrations H w repo = Some rows \<and> row \<in> set rows \<and>
           paths_equivalent F w (wr_path row) p \<and> n_branch n = Some b \<and> wr_branch row \<in> {None, Some b} \<and>
           recorded_identity F w p \<noteq> None \<and>
           map_option path_components (recorded_identity F w p) = map_option path_components (recorded_identity F w repo) \<and>
           fs_try_exists F w p = Some True \<and> worktree_status_clean H w p \<noteq> None))"
proof (cases "observe_terminal H F w m n")
  case None
  then show ?thesis using assms
    by (auto simp: observe_terminal_def Let_def worktree_presence_def branch_probe_of_def split: option.splits if_splits prod.splits)
next
  case (Some r)
  show ?thesis unfolding Some option.case
  proof (intro impI conjI)
    assume v: "ro_verified r"
    show "pw_unmerged_commits (ro_view r) \<noteq> None"
      using Some v by (auto simp: observe_terminal_def Let_def split: if_splits prod.splits)
    assume "pw_worktree_present (ro_view r)"
    from verified_parts[OF Some v this] obtain p repo rows row where o: "n_worktree_path n = Some p" "m_source_repo m = Some repo"
      "worktree_registrations H w repo = Some rows" "find (\<lambda>row. paths_equivalent F w (wr_path row) p) rows = Some row"
      "branch_binding_ok (Some row) (filter_opt (\<lambda>s. s \<noteq> []) (n_branch n))"
      "present_identity_matches F w (Some p) (recorded_identity F w repo)"
      "worktree_presence F w (Some p) = (True, True)" "worktree_status_clean H w p \<noteq> None" by blast
    have "row \<in> set rows \<and> paths_equivalent F w (wr_path row) p" using o(4) by (auto simp: find_Some_iff)
    moreover obtain b where "n_branch n = Some b" "wr_branch row \<in> {None, Some b}"
      using o(5) by (auto simp: branch_binding_ok_def filter_opt_def split: option.splits if_splits)
    moreover have "recorded_identity F w p \<noteq> None \<and>
        map_option path_components (recorded_identity F w p) = map_option path_components (recorded_identity F w repo)"
      using o(6) by (auto simp: present_identity_matches_def split: option.splits)
    moreover have "fs_try_exists F w p = Some True" using o(7) by (auto simp: worktree_presence_def split: option.splits)
    ultimately show "\<exists>p repo rows row b. n_worktree_path n = Some p \<and>
           m_source_repo m = Some repo \<and> worktree_registrations H w repo = Some rows \<and> row \<in> set rows \<and>
           paths_equivalent F w (wr_path row) p \<and> n_branch n = Some b \<and> wr_branch row \<in> {None, Some b} \<and>
           recorded_identity F w p \<noteq> None \<and>
           map_option path_components (recorded_identity F w p) = map_option path_components (recorded_identity F w repo) \<and>
           fs_try_exists F w p = Some True \<and> worktree_status_clean H w p \<noteq> None"
      using o(1-3,8) by blast
  qed
qed

section \<open>The grace period\<close>

text \<open>The override of the grace period is parsed as a number of seconds up to \<open>i64::MAX\<close>, but chrono's
  durations end at a thousandth of it. A poll of a run with an open request panics exactly when the
  number lies between the two; without a request the variable is not read.\<close>

theorem large_grace_panics:
  assumes "chrono_ok C" and "parse_i64 (trim v) = Some secs" and "0 \<le> secs"
    and "read_manifest_opt rid (ob_dir ob) = Inr (Some m)"
    and "read_node_opt rid (ob_dir ob) (NodeId DEFAULT_NODE_ID) = Inr (Some n)"
  shows "current_settle C (Some v) rid now ob = Inl Panicked \<longleftrightarrow> n_awaiting_input n \<noteq> None \<and> I64_MAX div 1000 < secs"
proof -
  have "grace C (Some v) = (if secs \<le> I64_MAX div 1000 then Returns (secs * 1000000000) else Panics)"
    using assms(1-3) by (simp add: grace_def filter_opt_def chrono_ok_def I64_MAX_def)
  with assms(4,5) show ?thesis
    by (auto simp: current_settle_def wait_cli_def cli_core_def escalated_request_def is_escalated_def wait_panics_def
        split: option.splits)
qed

end
