(* ===== verification/Wait_Demo.thy ===== *)
theory Wait_Demo
  imports Creation_Demo Wait_Facts
begin

text \<open>
  The theorems about waiting applied to concrete runs: a working run that times out, a run that is
  done, a run whose supervisor never came up, and a worker whose worktree cannot be checked.
\<close>

section \<open>Waiting\<close>

text \<open>A wait that finds the same directory and pid file at every poll, under a clock that only sleeps
  move.\<close>

definition quiet_wait :: "run_dir \<Rightarrow> pid_file \<Rightarrow> wait_env" where
  "quiet_wait d f = \<lparr>we_chrono = demo_chrono, we_grace = None, we_utc = (\<lambda>_. 9),
     we_seen = (\<lambda>_ _. \<lparr>ob_dir = d, ob_pid_file = f, ob_probes = demo_probes\<rparr>),
     we_elapsed = (\<lambda>_ t. t), we_elapsed_again = (\<lambda>_ t. t), we_sleep = (\<lambda>_ t s. t + s)\<rparr>"

definition demo_wait_args :: "nat option \<Rightarrow> wait_args" where
  "demo_wait_args timeout = \<lparr>wa_run_ids = [demo_rid], wa_condition = All_runs, wa_timeout = timeout,
     wa_check_in = None, wa_poll_interval = None, wa_terminal_only = False, wa_fail_on_error = True\<rparr>"

lemma quiet_clock: "clock_ok (quiet_wait d f)"
  by (simp add: clock_ok_def quiet_wait_def)

text \<open>A pending run with a pid file that cannot be read is not settled by any poll.\<close>

lemma pending_poll: "\<exists>ls. poll_at (quiet_wait demo_run (Some Unparsable)) (demo_wait_args t) k = Inr (0, ls)"
proof -
  have "case poll_runs (\<lambda>rid i. current_settle demo_chrono None rid 9
        \<lparr>ob_dir = demo_run, ob_pid_file = Some Unparsable, ob_probes = demo_probes\<rparr>) False 0 [demo_rid] of
      Inl e \<Rightarrow> False | Inr (n, ls) \<Rightarrow> n = 0" by code_simp
  then show ?thesis by (auto simp: poll_at_def quiet_wait_def demo_wait_args_def split: sum.splits prod.splits)
qed

theorem wait_returns_by_deadline_witness:
  "\<exists>ls. wait_start (quiet_wait demo_run (Some Unparsable)) (demo_wait_args (Some 500000000)) = Some (Inr (TimedOut, ls))"
proof -
  let ?E = "quiet_wait demo_run (Some Unparsable)" and ?A = "demo_wait_args (Some 500000000)"
  have "earliest_deadline (wa_timeout ?A) (wa_check_in ?A) = Some 500000000"
    by (simp add: demo_wait_args_def earliest_deadline_def)
  from wait_returns_by_deadline[OF this quiet_clock] obtain k r where
    k: "wait_start ?E ?A = Some r" "ends_at ?E ?A 500000000 k r" by blast
  obtain ls where p: "poll_at ?E ?A k = Inr (0, ls)" using pending_poll by blast
  then have "unmet ?E ?A k" by (simp add: unmet_def condition_met_def demo_wait_args_def)
  with k p show ?thesis by (simp add: ends_at_def) (simp add: demo_wait_args_def)
qed

section \<open>The exit code\<close>

definition demo_done :: run_dir where
  "demo_done = snd (apply_event demo_ext demo_rid demo_done_status demo_run)"

definition demo_files :: "bool option \<Rightarrow> repo_state files" where
  "demo_files present = \<lparr>fs_try_exists = (\<lambda>_ _. present), fs_canonicalize = (\<lambda>_ p. Some p),
     fs_git = (\<lambda>_ _ _. CmdSpawnErr ''no git'')\<rparr>"

definition demo_ending :: "repo_state ending" where
  "demo_ending = \<lparr>en_dir = demo_done, en_world = unmerged, en_now_attention = 9, en_now_awaiting = 9,
     en_evidence_dir = demo_done, en_telemetry_run_dir = demo_done, en_telemetry_dir = no_samples,
     en_telemetry_now = 9, en_now_evidence = 9\<rparr>"

lemma done_poll:
  obtains l where "poll_at (quiet_wait demo_done None) (demo_wait_args None) 0 = Inr (1, [l])"
    "case read_outcome demo_host (demo_files (Some False)) demo_chrono None demo_rid l demo_ending of
       Inl e \<Rightarrow> False | Inr ou \<Rightarrow> \<not> settled_error False ou"
proof -
  have "case poll_runs (\<lambda>rid i. current_settle demo_chrono None rid 9
        \<lparr>ob_dir = demo_done, ob_pid_file = None, ob_probes = demo_probes\<rparr>) False 0 [demo_rid] of
      Inl e \<Rightarrow> False | Inr (n, ls) \<Rightarrow> n = 1 \<and> (case ls of [l] \<Rightarrow>
        (case read_outcome demo_host (demo_files (Some False)) demo_chrono None demo_rid l demo_ending of
           Inl e \<Rightarrow> False | Inr ou \<Rightarrow> \<not> settled_error False ou) | _ \<Rightarrow> False)" by code_simp
  then show ?thesis using that
    by (auto simp: poll_at_def quiet_wait_def demo_wait_args_def split: sum.splits prod.splits list.splits)
qed

lemma done_forward: "writes_forward demo_ext (quiet_wait demo_done None) (\<lambda>_. demo_ending) [demo_rid]"
proof -
  have "case read_node_opt demo_rid demo_done (NodeId DEFAULT_NODE_ID) of
      Inr (Some n) \<Rightarrow> n_caller_pi_lifecycle n = None | _ \<Rightarrow> False" by code_simp
  then show ?thesis by (auto simp: writes_forward_def quiet_wait_def demo_ending_def split: sum.splits option.splits)
qed

theorem exit_zero_means_done_witness:
  "\<exists>res. run_wait demo_ext demo_host (demo_files (Some False)) (quiet_wait demo_done None) (\<lambda>_. demo_done)
      (\<lambda>_. demo_ending) (demo_wait_args None) = Some (Inr res) \<and> wd_exit_code res = 0 \<and>
    list_all (\<lambda>ou. ou_status ou = ''done'' \<or> ou_round_reported ou) (wd_runs res)"
proof -
  let ?A = "demo_wait_args None" and ?E = "quiet_wait demo_done None"
  obtain l where l: "poll_at ?E ?A 0 = Inr (1, [l])"
    "case read_outcome demo_host (demo_files (Some False)) demo_chrono None demo_rid l demo_ending of
       Inl e \<Rightarrow> False | Inr ou \<Rightarrow> \<not> settled_error False ou" by (rule done_poll)
  then obtain ou where ou: "read_outcome demo_host (demo_files (Some False)) demo_chrono None demo_rid l demo_ending = Inr ou"
    "\<not> settled_error False ou" by (auto split: sum.splits)
  have w: "wait_start ?E ?A = Some (Inr (ConditionMet, [l]))"
    unfolding wait_start_def by (subst wait_loop.simps) (simp only: l(1), simp add: condition_met_def demo_wait_args_def)
  have "check_known (\<lambda>_. demo_done) 0 [demo_rid] = Inr ()" by code_simp
  then have r: "run_wait demo_ext demo_host (demo_files (Some False)) ?E (\<lambda>_. demo_done) (\<lambda>_. demo_ending) ?A =
      Some (Inr \<lparr>wd_outcome = ConditionMet, wd_runs = [ou], wd_exit_code = 0\<rparr>)"
    using w ou by (simp add: run_wait_def demo_wait_args_def quiet_wait_def latched_for_def exit_code_of_def any_settled_error_def)
  have "writes_forward demo_ext ?E (\<lambda>_. demo_ending) (wa_run_ids ?A)" using done_forward by (simp add: demo_wait_args_def)
  from exit_zero_means_done[OF r _ _ _ this] r show ?thesis by (auto simp: demo_wait_args_def list_all_iff)
qed

section \<open>A supervisor that never came up\<close>

theorem dead_start_ends_wait_witness:
  "\<exists>d s. current_settle demo_chrono None demo_rid 9 \<lparr>ob_dir = record_events demo_ext (\<lambda>_. 7) demo_rid
       [(''supervisor.started'', None, None, Object [])] d, ob_pid_file = None, ob_probes = demo_probes\<rparr> = Inr (Some s) \<and>
    sl_stall s = Some Stillborn"
proof -
  obtain a d where d: "append_and_apply_event demo_ext (\<lambda>_. 7) demo_rid ''run.created'' None None (created_data demo_new_run) empty_dir =
    (Inr a, d)" using demo_staged by metis
  have ids: "RunId_parse_str (run_id_str demo_rid) = Inr demo_rid" by code_simp
  have lg: "loggable (new_event (\<lambda>_. 7) demo_rid ''run.created'' None None (created_data demo_new_run) 1)"
    unfolding demo_created_data by code_simp
  have "list_all (inert (\<lambda>_. 7) demo_rid) [(''supervisor.started'', None, None, Object [])]"
    by (simp add: inert_def reducers_def loggable_def new_event_def ids MAX_DEPTH_def)
  from dead_start_ends_wait[OF demo_ext_ok lg d this, where C = demo_chrono and env = None and now = 9 and
      ob = "\<lparr>ob_dir = record_events demo_ext (\<lambda>_. 7) demo_rid [(''supervisor.started'', None, None, Object [])] d,
        ob_pid_file = None, ob_probes = demo_probes\<rparr>"]
  show ?thesis by (auto simp: SupervisorView_probe_def classify_pid_record_def SupervisorView_new_def)
qed

section \<open>Retained work\<close>

theorem retained_work_stays_visible_witness:
  "observe_terminal demo_host (demo_files None) unmerged (demo_manifest\<lparr>m_status := Failed\<rparr>) demo_worker \<noteq> None"
proof -
  have t: "is_terminal (m_status (demo_manifest\<lparr>m_status := Failed\<rparr>))" "is_terminal (n_status demo_worker)"
    and p: "n_worktree_path demo_worker = Some ''/wt''" "fs_try_exists (demo_files None) unmerged ''/wt'' = None"
    by (simp_all add: is_terminal_def demo_worker_def demo_node_failed demo_files_def)
  show ?thesis
  proof
    assume "observe_terminal demo_host (demo_files None) unmerged (demo_manifest\<lparr>m_status := Failed\<rparr>) demo_worker = None"
    with retained_work_stays_visible[OF t, where H = demo_host and F = "demo_files None" and w = unmerged] p
    show False by simp
  qed
qed

end
