(* ===== verification/Spec2Isabelle.thy ===== *)
theory Spec2Isabelle
  imports Witnesses Replay_Limits Report_Facts Supervisor_Demo Merge_Demo Creation_Demo Verb_Demo Profile_Demo Wait_Demo
begin

text \<open>
  \<^bold>\<open>Taskfleet\<close> runs coding agents in git worktrees and keeps every fact about a run in a directory:
  an append-only log \<open>events.jsonl\<close>, and two kinds of projection files folded from it, the manifest
  of the run and one file per node. Verbs of the command line, the agents' wrappers and one
  supervisor process per run all write through the same core library; the supervisor watches the
  workers, retries or fails them, consumes the reports of child runs, settles the run and tears
  its worktrees down. This development models the core library (\<open>crates/taskfleet-core\<close>), the
  supervisor's decisions (\<open>crates/taskfleet/src/supervise\<close>), the two verbs that open and close a
  run, \<open>run create\<close> and \<open>run merge\<close> (\<open>crates/taskfleet/src/run\<close>), with the recovery of a merge
  that crashed, the verb that waits for runs, and the verbs through which workers write (\<open>src/node\<close>,
  \<open>src/event\<close>), and proves what they promise each other.

  \<^bold>\<open>Theories and sources.\<close>
  \<^item> \<open>Prelude\<close>, \<open>Json\<close>, \<open>Std_Text\<close>: results as sums with \<open>rbind\<close> for \<open>?\<close>, fixed-width integers,
    \<open>serde_json\<close> values and the decoding rules serde derives, and the text functions of the
    standard library that are applied to program output.
  \<^item> \<open>Schema\<close> (\<open>schema.rs\<close>, \<open>ids.rs\<close>, \<open>error.rs\<close>), \<open>Report\<close> (\<open>report.rs\<close>): identifiers, enums, manifest,
    node, event, and the report validators and origins.
  \<^item> \<open>Store\<close> (\<open>paths.rs\<close>, \<open>projections.rs\<close>): a run directory as the record \<open>run_dir\<close>, with its symlink,
    schema and identity checks; \<open>io\<close> is the type of operations that run under the run lock.
  \<^item> \<open>Event_Log\<close>, \<open>Append\<close> (\<open>events.rs\<close>): the readers and repairs of the log bytes, the sequenced and
    keyed appends, and the catch-up replay.
  \<^item> \<open>Reducer\<close>, \<open>Reducer_Work\<close> (\<open>reducer.rs\<close>): one planning function per event kind, the dispatch, and
    the commit of a plan.
  \<^item> \<open>Node_Status\<close>, \<open>Cancel\<close> (\<open>cancel.rs\<close>): statuses derived from the log, and the cancellations.
  \<^item> \<open>Outcome\<close>, \<open>Watchdog\<close>, \<open>Pid_File\<close> (\<open>supervise/outcome.rs\<close>, \<open>watchdog.rs\<close>, \<open>pid_file.rs\<close>): the outcome
    tables, the liveness verdicts, and the ownership of a run.
  \<^item> \<open>Adapters\<close> (\<open>git/repo.rs\<close>, \<open>multiplexer/tmux.rs\<close>), \<open>Teardown\<close> (\<open>supervise/cleanup.rs\<close>): the git and
    tmux commands with the reading of their output, and every guard of a teardown in its order.
  \<^item> \<open>Supervisor\<close>, \<open>Children\<close> (\<open>supervise/mod.rs\<close>, \<open>state.rs\<close>, \<open>reducer.rs\<close>), \<open>Tail\<close> (\<open>supervise/tail.rs\<close>),
    \<open>Resident\<close> (\<open>supervise/resident.rs\<close>): the watchdog tick with the retry machine, the child
    supervisors and the roll-up, the tail of a log, and the idle expiry of residents.
  \<^item> \<open>Telemetry\<close> (\<open>telemetry.rs\<close>): the samples workers send about themselves, stored one per node and
    classified by age and attempt when they are read.
  \<^item> \<open>Landed\<close> (\<open>run/landed.rs\<close>), \<open>Merge_Recovery\<close> (\<open>run/merge_recovery.rs\<close>): whether a branch is in its
    source, and what becomes of a merge transaction whose driver died.
  \<^item> \<open>Merge\<close> (\<open>run/merge.rs\<close>, \<open>run/reattach.rs\<close>): the native merge: guards, transaction, git driver under
    the merge lock, report, and the supervisor that consumes it.
  \<^item> \<open>Writer_Fence\<close> (\<open>run/writer_fence.rs\<close>): the settlement intent of caller-owned runs.
  \<^item> \<open>Idempotency\<close> (\<open>idempotency.rs\<close>), \<open>Creation\<close> (\<open>run/create.rs\<close>): the reservation files of idempotency
    keys, and the creation of a native run from its key to the edge in its parent's log. The record
    \<open>root\<close> is the state root: reservations, public runs, the staging area and the world outside.
  \<^item> \<open>Verbs\<close> (\<open>node/report.rs\<close>, \<open>event/create.rs\<close>, \<open>node/round_report.rs\<close>): the verbs through which a
    worker or an operator writes to a run.
  \<^item> \<open>Profile\<close> (\<open>config/mod.rs\<close>, \<open>harness/select.rs\<close>, \<open>harness/profile.rs\<close>): the configuration files and the
    choice of the agent that a new run starts.
  \<^item> \<open>Wait\<close> (\<open>run/stalled.rs\<close>, \<open>run/attention.rs\<close>, \<open>run/awaiting_input.rs\<close>, \<open>run/dto.rs\<close>, \<open>run/wait.rs\<close>): the verdicts
    that settle a wait and its poll loop. \<open>Wait_Outcome\<close> (\<open>run/retained.rs\<close>, \<open>run/wait.rs\<close>): what a terminal
    node left behind, the outcome of each run and the exit code.

  Each model theory has the records, datatypes and functions of its source file, in the order of
  the file, under the names of the source. A loop is a recursive function or a fold; a function
  of the source that was too long to read is split at its comments.

  \<^bold>\<open>What the lemmas show.\<close>
  \<^item> \<open>Schema_Facts\<close>, \<open>Report_Facts\<close>, \<open>Store_Facts\<close>: identifiers are safe as path components, the sanitizer
    repairs what it accepts and never touches an outcome, and both projection files satisfy the
    locale \<open>projection_store\<close>.
  \<^item> \<open>Log_Facts\<close>, \<open>Event_Codec\<close>: on the form ``complete lines, then a torn tail'' every reader has a
    direct specification; the locale \<open>line_codec\<close> lifts the event codec to logs.
  \<^item> \<open>Plan_Facts\<close>, \<open>Reducer_Facts\<close>, \<open>Refold_Facts\<close>: the shape of all plans, that a plan commits completely
    or writes nothing (locale \<open>planner\<close>), that terminal states are absorbing, and that folding again
    changes nothing; \<open>Replay_Limits\<close> has the exceptions, on concrete runs and in general.
  \<^item> \<open>History\<close>, \<open>Write_Paths\<close>: the elementary steps of the write paths as an inductive relation, what
    never moves backwards along them (locale \<open>forward\<close>), and that every operation, on every error
    path, is such a history.
  \<^item> \<open>Append_Facts\<close>, \<open>Status_Facts\<close>, \<open>Cancel_Facts\<close>: appends are all or nothing and, keyed, at most once;
    from every state a crash can leave (\<open>crash_state\<close>) the replay converges, with the two exceptions
    named; the log-derived statuses refine the node files; cancellation refuses or completes.
  \<^item> \<open>Teardown_Facts\<close>, \<open>Resident_Facts\<close>: no teardown without a confirmed merge loses a commit or
    uncommitted work, or reaches a forcing command.
  \<^item> \<open>Supervisor_Facts\<close>, \<open>Death_Facts\<close>, \<open>Child_Facts\<close>, \<open>Tail_Facts\<close>, \<open>Pid_Facts\<close>: ticks are histories, told
    exits and observed deaths are resolved within bounds, children start in bounded steps, their
    reports are consumed once, the tail delivers once, and one supervisor owns a run.
  \<^item> \<open>Telemetry_Facts\<close>: what a view shows is bounded, and an accepted sample reads back.
  \<^item> \<open>Landed_Facts\<close>, \<open>Merge_Facts\<close>, \<open>Run_Merge_Facts\<close>: the landed signal and the verdict on a crashed
    merge are what they document; recovery resolves; a merge settles its node or leaves it open,
    touches git only under a recorded transaction, and reports the commit the source ends at.
  \<^item> \<open>Fence_Facts\<close>, \<open>Idempotency_Facts\<close>, \<open>Creation_Facts\<close>: an intent is recorded once, a key belongs to one
    run, and a run becomes visible whole or not at all.
  \<^item> \<open>Verb_Facts\<close>: the locale \<open>event_writer\<close> says that an append adds at most the event it was asked for;
    from it, no verb of a worker forges a merge, reports settle once, rounds are counted, and a
    report as deep as the reader allows breaks the log.
  \<^item> \<open>Profile_Facts\<close>: a recorded selection passes the core's validator, runs only what the user configured or
    the bare built-in harness, and follows the precedence of the levels and the order of the candidates.
  \<^item> \<open>Wait_Facts\<close>: a wait returns by its deadline after a bounded number of polls, a live supervisor is never
    called stalled and a dead start always is, exit code 0 is for finished runs only, and retained
    work stays visible.
  \<^item> \<open>Fixtures\<close>, \<open>Demo_Run\<close>, \<open>Witnesses\<close>, \<open>Supervisor_Demo\<close>, \<open>Merge_Demo\<close>, \<open>Creation_Demo\<close>, \<open>Verb_Demo\<close>,
    \<open>Profile_Demo\<close>, \<open>Wait_Demo\<close>: concrete
    instances of every parameter and a
    concrete run on which each theorem with hypotheses is applied.

  \<^bold>\<open>Parameters.\<close> Code outside the repository is an argument, with what the code relies on as a named
  hypothesis: chrono's and serde's text formats are \<open>ext\<close> with \<open>ext_ok\<close> (a written time or value
  reads back, and one value is one line); git, tmux and the file system are \<open>host\<close> with \<open>git_laws\<close>
  over a view of the repository (an empty \<open>rev-list\<close> means reachable, a removal or deletion that
  is not forced keeps branches, other heads and dirty trees); \<open>kill\<close>, \<open>/proc\<close> and the timed tmux run
  are \<open>probes\<close>; environment variables and clocks are \<open>sup_env\<close>; chrono's durations are \<open>chrono_ops\<close>
  with \<open>chrono_ok\<close> or, for additions, \<open>adds\<close>; \<open>object_text\<close> says that the text of a JSON object is UTF-8
  and begins with its brace; \<open>git_answers\<close> that \<open>cherry\<close>, \<open>merge-base\<close> and \<open>rev-list\<close> print what they
  document; \<open>merge_laws\<close>, over the ancestry of commits, that a rebase that succeeds leaves
  the branch on top of the other, that a fast-forward that succeeds moves the checked-out branch to the
  given one or finds it contained, and that the lock directory and the supervisor leave refs alone;
  \<open>counts_forks\<close> is a measure of the fleet that counts the forks of one child; \<open>shallow_report\<close> that the
  report file given to a merge does not reach the depth limit of the JSON parser, and \<open>depth_limited\<close>
  that the parser has that limit. What a function
  asks of locks, clocks, process ids and file times is a record: \<open>lease\<close> and \<open>fence_env\<close> for the lock
  files of caller-owned runs, \<open>create_env\<close> for a creation, \<open>merge_env\<close> for a merge, \<open>profile_env\<close> for the readers of TOML and
  durations, the environment and the search of \<open>PATH\<close>, and \<open>wait_env\<close>, \<open>ending\<close> and \<open>files\<close> for what a wait
  finds at each poll and afterwards, with \<open>clock_ok\<close> (time does not run backwards and a sleep is not
  shorter than asked) and \<open>writes_forward\<close> (what happens after a poll goes through the write paths). Some code of the repository that only moves processes and files is an argument
  as well: starting a fresh worker (\<open>spawner\<close>), forking a child supervisor (\<open>fork\<close>), the display and
  evidence archives (fields of \<open>host\<close>, with \<open>host_history\<close>: what they write goes through the write
  paths), and the text of a corrupt line (\<open>tail_text\<close>).

  \<^bold>\<open>Concurrency and crashes.\<close> The run lock makes one \<open>io\<close> operation atomic. Between two locks of the
  supervisor any other process may run: the argument \<open>gap\<close>, with the law \<open>gap_history\<close> that it writes
  through the write paths, or \<open>gap_synced\<close> that it leaves the projections up to date. The creation's \<open>gap\<close> ranges over the whole state root: \<open>gap_fresh\<close> says
  that nobody writes to a run whose id is not public, \<open>keeps_claim\<close> and \<open>keeps_key\<close> that a record is
  only replaced as the operations replace it. A crash is a run directory between the elementary steps of an
  operation. Between a guard of a teardown and the removal the world does not move.

  \<^bold>\<open>Bounds.\<close> Sequence numbers, counters and attempts are words of their width; the sequence number
  after the last wraps as in a release build, and \<open>room X rid k d\<close> says that a run is up to date and
  has at least \<open>k\<close> numbers left. All functions are total but one, and no fuel
  is used: the loop of \<open>run wait\<close> may poll for ever, so it is a partial function, and
  \<open>wait_returns_by_deadline\<close> says when it returns. The chunk of the backward
  scan and the depth limit of the JSON parser are those of the sources.

  \<^bold>\<open>Not modelled.\<close> Failing system calls other than those a function of the source turns into a value
  (a read that fails is an error branch only where the source has one for missing, symlinked or
  undecodable files); the texts of error messages and log lines; JSON documents that repeat a key; that
  serde skips the members a probe does not name without its depth limit (the model's probes read the
  whole line, and differ on lines deeper than the limit only);
  the main loop of the supervisor, its signals, notifications and pane capture; the teardown and
  the merge of caller-owned runs; the materialization of worktrees and processes and its rollback
  (fields of \<open>create_env\<close>); admission; the verbs that list, show
  and resume, the parsing of run ids and durations on the command line, and what a verb prints; skills and doctor.
\<close>

end
